(* ===== verification/TextilePrelude.thy ===== *)
theory TextilePrelude
  imports Main "HOL-Library.Multiset"
begin

text \<open>
  What the theories of the development share: the errors of the Go code as one datatype, a
  state-and-error monad for Go functions that change state and return an \<open>error\<close>, the rules that
  carry a property of the state through such a function, and list lemmas.

  A Go function that fails returns an error but keeps what it wrote before it failed, so a
  computation \<open>('s, 'a) go\<close> always returns a state: \<open>m s = (Inl e, s')\<close> is a return with the
  error \<open>e\<close> after the writes that lead from \<open>s\<close> to \<open>s'\<close>, and \<open>m s = (Inr x, s')\<close> is a normal
  return of \<open>x\<close>.
\<close>

section \<open>Errors\<close>

text \<open>
  The error values the code compares or returns by name, an \<open>UNIQUE constraint failed\<close> error of
  the SQL engine with the column it names, every other error by its message, and the run-time
  panics of Go (a nil pointer, an index out of range), which no error handler of the code catches.
\<close>

datatype goerr =
    ErrInvalidNode | ErrNotShareable | ErrNotReadable | ErrNotAnnotatable | ErrNotWritable
  | ErrThreadReload | ErrInvalidThreadBlock | ErrThreadNotFound | ErrBlockNotFound
  | ErrBlockWrongType | ErrOffline
  | ErrInvalidVersionByte | ErrInvalidChecksum | ErrInvalidPath | ErrNoPublicDerivation
  | ErrInvalidWordCount | ErrLinkOrderNotSolvable
  | ErrNoToken | ErrExpired | ErrInvalid
  | UniqueFailed string
  | ErrMsg string
  | Panic string

section \<open>The state-and-error monad\<close>

type_synonym ('s, 'a) go = "'s \<Rightarrow> (goerr + 'a) \<times> 's"

definition go_return :: "'a \<Rightarrow> ('s, 'a) go" where
  "go_return x = (\<lambda>s. (Inr x, s))"

definition go_fail :: "goerr \<Rightarrow> ('s, 'a) go" where
  "go_fail e = (\<lambda>s. (Inl e, s))"

definition go_bind :: "('s, 'a) go \<Rightarrow> ('a \<Rightarrow> ('s, 'b) go) \<Rightarrow> ('s, 'b) go" where
  "go_bind m f = (\<lambda>s. case m s of (Inl e, s') \<Rightarrow> (Inl e, s') | (Inr x, s') \<Rightarrow> f x s')"

definition go_seq :: "('s, 'a) go \<Rightarrow> ('s, 'b) go \<Rightarrow> ('s, 'b) go" where
  "go_seq m n = go_bind m (\<lambda>_. n)"

definition go_get :: "('s \<Rightarrow> 'a) \<Rightarrow> ('s, 'a) go" where
  "go_get f = (\<lambda>s. (Inr (f s), s))"

definition go_modify :: "('s \<Rightarrow> 's) \<Rightarrow> ('s, unit) go" where
  "go_modify f = (\<lambda>s. (Inr (), f s))"

definition go_lift :: "goerr + 'a \<Rightarrow> ('s, 'a) go" where
  "go_lift r = (\<lambda>s. (r, s))"

text \<open>\<open>if !b { return err }\<close> and \<open>if b { m }\<close>.\<close>

definition go_require :: "goerr \<Rightarrow> bool \<Rightarrow> ('s, unit) go" where
  "go_require e b = (if b then go_return () else go_fail e)"

definition go_when :: "bool \<Rightarrow> ('s, unit) go \<Rightarrow> ('s, unit) go" where
  "go_when b m = (if b then m else go_return ())"

text \<open>\<open>err := m; if err != nil { handler }\<close>.\<close>

definition is_panic :: "goerr \<Rightarrow> bool" where
  "is_panic e = (case e of Panic _ \<Rightarrow> True | _ \<Rightarrow> False)"

definition go_catch :: "('s, 'a) go \<Rightarrow> (goerr \<Rightarrow> ('s, 'a) go) \<Rightarrow> ('s, 'a) go" where
  "go_catch m h = (\<lambda>s. case m s of
     (Inl e, s') \<Rightarrow> if is_panic e then (Inl e, s') else h e s'
   | (Inr x, s') \<Rightarrow> (Inr x, s'))"

text \<open>\<open>x, err := m\<close> where the code goes on with the error: the result or the error as a value.\<close>

definition go_try :: "('s, 'a) go \<Rightarrow> ('s, goerr + 'a) go" where
  "go_try m = go_catch (go_bind m (\<lambda>x. go_return (Inr x))) (\<lambda>e. go_return (Inl e))"

text \<open>\<open>for _, x := range xs { err := f(x); if err != nil { return err } }\<close>.\<close>

fun go_foreach :: "('a \<Rightarrow> ('s, unit) go) \<Rightarrow> 'a list \<Rightarrow> ('s, unit) go" where
  "go_foreach f [] = go_return ()"
| "go_foreach f (x # xs) = go_seq (f x) (go_foreach f xs)"

text \<open>An operation on one part of the state, run on the whole state.\<close>

definition go_on :: "('s \<Rightarrow> 't) \<Rightarrow> (('t \<Rightarrow> 't) \<Rightarrow> 's \<Rightarrow> 's) \<Rightarrow> ('t, 'a) go \<Rightarrow> ('s, 'a) go" where
  "go_on get upd m = (\<lambda>s. case m (get s) of (r, t) \<Rightarrow> (r, upd (\<lambda>_. t) s))"

named_theorems go_defs "unfolding rules of the state-and-error monad"

lemmas [go_defs] =
  go_return_def go_fail_def go_bind_def go_seq_def go_get_def go_modify_def go_lift_def
  go_require_def go_when_def go_catch_def go_on_def

lemma go_bind_return [simp]: "go_bind (go_return x) f = f x"
  by (simp add: go_defs)

lemma go_bind_fail [simp]: "go_bind (go_fail e) f = go_fail e"
  by (simp add: go_defs)

lemma go_bind_lift: "go_bind (go_lift (Inr x)) f = f x" "go_bind (go_lift (Inl e)) f = go_fail e"
  by (simp_all add: go_defs)

lemma go_bind_get: "go_bind (go_get f) g s = g (f s) s"
  by (simp add: go_defs)

lemma go_bind_step: "m s = (Inr x, s1) \<Longrightarrow> go_bind m f s = f x s1"
  by (simp add: go_bind_def)

lemma go_bind_assoc: "go_bind (go_bind m f) g = go_bind m (\<lambda>x. go_bind (f x) g)"
  by (auto simp: go_defs fun_eq_iff split: prod.splits sum.splits)

lemma go_bind_Inr_iff:
  "go_bind m f s = (Inr y, s') \<longleftrightarrow> (\<exists>x s1. m s = (Inr x, s1) \<and> f x s1 = (Inr y, s'))"
  by (auto simp: go_bind_def split: prod.splits sum.splits)

lemma go_try_run:
  "go_try m s = (case m s of
     (Inl e, s') \<Rightarrow> if is_panic e then (Inl e, s') else (Inr (Inl e), s')
   | (Inr x, s') \<Rightarrow> (Inr (Inr x), s'))"
  by (simp add: go_try_def go_catch_def go_bind_def go_return_def split: prod.splits sum.splits)

lemma go_seq_Inr_iff:
  "go_seq m n s = (Inr y, s') \<longleftrightarrow> (\<exists>x s1. m s = (Inr x, s1) \<and> n s1 = (Inr y, s'))"
  by (simp add: go_seq_def go_bind_Inr_iff)

lemma go_require_Inr_iff [simp]: "go_require e b s = (Inr y, s') \<longleftrightarrow> b \<and> s' = s"
  by (auto simp: go_require_def go_return_def go_fail_def)

lemma go_foreach_append:
  "go_foreach f (xs @ ys) = go_seq (go_foreach f xs) (go_foreach f ys)"
proof (induction xs)
  case Nil
  show ?case by (simp add: go_seq_def)
next
  case (Cons x xs)
  then show ?case by (simp add: go_seq_def go_bind_assoc)
qed

section \<open>Carrying a relation through a computation\<close>

text \<open>
  Most properties of the handlers are of one form: whatever a handler returns, an error or a
  value, the state before and after are related. The locale fixes a reflexive and transitive
  relation and proves once that every construct of the monad keeps it; an invariant, a frame
  condition and a growth condition are instances.
\<close>

locale step_relation =
  fixes R :: "'s \<Rightarrow> 's \<Rightarrow> bool"
  assumes refl: "R s s"
    and trans: "R s t \<Longrightarrow> R t u \<Longrightarrow> R s u"
begin

definition keeps :: "('s, 'a) go \<Rightarrow> bool" where
  "keeps m \<longleftrightarrow> (\<forall>s. R s (snd (m s)))"

lemma keepsI: "(\<And>s. R s (snd (m s))) \<Longrightarrow> keeps m"
  by (simp add: keeps_def)

lemma keepsD: "keeps m \<Longrightarrow> R s (snd (m s))"
  by (simp add: keeps_def)

lemma keeps_run: "keeps m \<Longrightarrow> m s = (r, s') \<Longrightarrow> R s s'"
  using keepsD [of m s] by simp

lemma keeps_return: "keeps (go_return x)"
  by (simp add: keeps_def go_defs refl)

lemma keeps_fail: "keeps (go_fail e)"
  by (simp add: keeps_def go_defs refl)

lemma keeps_get: "keeps (go_get f)"
  by (simp add: keeps_def go_defs refl)

lemma keeps_lift: "keeps (go_lift r)"
  by (simp add: keeps_def go_defs refl)

lemma keeps_require: "keeps (go_require e b)"
  by (simp add: keeps_def go_defs refl)

lemma keeps_modify: "(\<And>s. R s (f s)) \<Longrightarrow> keeps (go_modify f)"
  by (simp add: keeps_def go_defs)

lemma keeps_bind:
  assumes m: "keeps m" and f: "\<And>x. keeps (f x)"
  shows "keeps (go_bind m f)"
proof (rule keepsI)
  fix s
  obtain r s1 where ms: "m s = (r, s1)" by fastforce
  have step: "R s s1" using keeps_run [OF m ms] .
  show "R s (snd (go_bind m f s))"
  proof (cases r)
    case (Inl e)
    with ms step show ?thesis by (simp add: go_bind_def)
  next
    case (Inr x)
    have "R s1 (snd (f x s1))" by (rule keepsD [OF f])
    with ms step Inr show ?thesis by (simp add: go_bind_def trans [OF step])
  qed
qed

lemma keeps_seq: "keeps m \<Longrightarrow> keeps n \<Longrightarrow> keeps (go_seq m n)"
  by (simp add: go_seq_def keeps_bind)

lemma keeps_when: "(b \<Longrightarrow> keeps m) \<Longrightarrow> keeps (go_when b m)"
  by (simp add: go_when_def keeps_return)

lemma keeps_catch:
  assumes m: "keeps m" and h: "\<And>e. keeps (h e)"
  shows "keeps (go_catch m h)"
proof (rule keepsI)
  fix s
  obtain r s1 where ms: "m s = (r, s1)" by fastforce
  have step: "R s s1" using keeps_run [OF m ms] .
  show "R s (snd (go_catch m h s))"
  proof (cases r)
    case (Inl e)
    have "R s1 (snd (h e s1))" by (rule keepsD [OF h])
    with ms step Inl show ?thesis by (simp add: go_catch_def trans [OF step])
  next
    case (Inr x)
    with ms step show ?thesis by (simp add: go_catch_def)
  qed
qed

lemma keeps_try: "keeps m \<Longrightarrow> keeps (go_try m)"
  unfolding go_try_def by (intro keeps_catch keeps_bind keeps_return)

lemma keeps_foreach: "(\<And>x. x \<in> set xs \<Longrightarrow> keeps (f x)) \<Longrightarrow> keeps (go_foreach f xs)"
  by (induction xs) (auto intro: keeps_return keeps_seq)

lemma keeps_if: "(b \<Longrightarrow> keeps m) \<Longrightarrow> (\<not> b \<Longrightarrow> keeps n) \<Longrightarrow> keeps (if b then m else n)"
  by simp

lemma keeps_option:
  "keeps m \<Longrightarrow> (\<And>y. keeps (f y)) \<Longrightarrow> keeps (case x of None \<Rightarrow> m | Some y \<Rightarrow> f y)"
  by (cases x) auto

lemma keeps_sum:
  "(\<And>e. keeps (m e)) \<Longrightarrow> (\<And>y. keeps (f y)) \<Longrightarrow> keeps (case x of Inl e \<Rightarrow> m e | Inr y \<Rightarrow> f y)"
  by (cases x) auto

lemma keeps_on:
  "(\<And>s. R s (upd (\<lambda>_. snd (m (get s))) s)) \<Longrightarrow> keeps (go_on get upd m)"
  by (simp add: keeps_def go_on_def split_beta)

lemmas keeps_intros =
  keeps_return keeps_fail keeps_get keeps_lift keeps_require keeps_bind
  keeps_seq keeps_when keeps_catch keeps_try keeps_foreach keeps_if keeps_option

end

section \<open>Lists\<close>

lemma find_None_iff_key: "find (\<lambda>r. key r = k) t = None \<longleftrightarrow> k \<notin> key ` set t"
  by (auto simp: find_None_iff)

lemma find_key_distinct:
  assumes "distinct (map key t)" "r \<in> set t"
  shows "find (\<lambda>x. key x = key r) t = Some r"
  using assms
proof (induction t)
  case (Cons a t)
  then show ?case by (cases "a = r") (auto simp: image_iff)
qed simp

lemma filter_key_distinct:
  assumes "distinct (map key t)" "r \<in> set t"
  shows "filter (\<lambda>x. key x = key r) t = [r]"
  using assms
proof (induction t)
  case (Cons a t)
  show ?case
  proof (cases "a = r")
    case True
    have "filter (\<lambda>x. key x = key r) t = []"
      using Cons.prems True by (auto simp: filter_empty_conv image_iff)
    then show ?thesis using True by simp
  next
    case False
    then have "key a \<noteq> key r" using Cons.prems by (auto simp: image_iff)
    with False Cons show ?thesis by auto
  qed
qed simp

lemma distinct_map_filter_key: "distinct (map key t) \<Longrightarrow> distinct (map key (filter P t))"
  by (induction t) auto

lemma map_key_update:
  assumes "\<And>r. key (f r) = key r"
  shows "map key (map (\<lambda>r. if P r then f r else r) t) = map key t"
  using assms by (induction t) auto

lemma filter_twice_shorter:
  assumes "r \<in> set t" "P r" "\<not> Q r" "\<And>x. Q x \<Longrightarrow> P x"
  shows "length (filter Q (filter S t)) < length (filter P t)"
proof -
  have "filter Q (filter S t) = filter (\<lambda>x. Q x \<and> S x) (filter P t)"
    using assms(4) by (induction t) auto
  moreover have "length (filter (\<lambda>x. Q x \<and> S x) (filter P t)) < length (filter P t)"
    by (rule length_filter_less [of r]) (use assms in auto)
  ultimately show ?thesis by simp
qed

lemma set_sort_key [simp]: "set (sort_key f xs) = set xs"
  by simp

lemma takeWhile_dropWhile_set: "set xs = set (takeWhile P xs) \<union> set (dropWhile P xs)"
  by (metis set_append takeWhile_dropWhile_id)

end
