(* ===== verification/GoUtil.thy ===== *)
theory GoUtil
  imports TextilePrelude "HOL-Library.Signed_Division" "HOL-Library.Word"
begin

text \<open>
  \<^verbatim>\<open>util/util.go\<close> and what the code uses of Go's standard library: 32 and 64 bit integers with
  their wrap-around, \<open>strings.Split\<close>, \<open>strings.Join\<close> and \<open>strings.TrimSpace\<close> on byte strings, and
  the conversion between protobuf timestamps and nanoseconds. Strings are lists of bytes;
  \<open>TrimSpace\<close> removes Go's ASCII white space (the two non-ASCII code points Go also trims are not
  modelled), and separators are single characters, as every call in the repository passes.
\<close>

section \<open>Integers at their width\<close>

definition int64 :: "int \<Rightarrow> int" where
  "int64 x = (x + 2 ^ 63) mod 2 ^ 64 - 2 ^ 63"

definition int32 :: "int \<Rightarrow> int" where
  "int32 x = (x + 2 ^ 31) mod 2 ^ 32 - 2 ^ 31"

definition is_int64 :: "int \<Rightarrow> bool" where
  "is_int64 x \<longleftrightarrow> - (2 ^ 63) \<le> x \<and> x < 2 ^ 63"

definition is_int32 :: "int \<Rightarrow> bool" where
  "is_int32 x \<longleftrightarrow> - (2 ^ 31) \<le> x \<and> x < 2 ^ 31"

lemma int64_alt:
  "int64 x = (x + 9223372036854775808) mod 18446744073709551616 - 9223372036854775808"
  by (simp add: int64_def)

lemma int32_alt: "int32 x = (x + 2147483648) mod 4294967296 - 2147483648"
  by (simp add: int32_def)

lemma is_int64_alt: "is_int64 x \<longleftrightarrow> - 9223372036854775808 \<le> x \<and> x < 9223372036854775808"
  by (simp add: is_int64_def)

lemma is_int32_alt: "is_int32 x \<longleftrightarrow> - 2147483648 \<le> x \<and> x < 2147483648"
  by (simp add: is_int32_def)

lemmas int_width = int64_alt int32_alt is_int64_alt is_int32_alt

lemma is_int64_int64 [simp]: "is_int64 (int64 x)"
  unfolding int_width by linarith

lemma is_int32_int32 [simp]: "is_int32 (int32 x)"
  unfolding int_width by linarith

lemma int64_id: "is_int64 x \<Longrightarrow> int64 x = x"
  unfolding int_width by (subst mod_pos_pos_trivial) linarith+

lemma int32_id: "is_int32 x \<Longrightarrow> int32 x = x"
  unfolding int_width by (subst mod_pos_pos_trivial) linarith+

lemma int64_mod: "int64 x mod 18446744073709551616 = x mod 18446744073709551616"
  by (simp add: int64_alt mod_diff_left_eq)

lemma int64_cong:
  assumes "x mod 18446744073709551616 = y mod 18446744073709551616"
  shows "int64 x = int64 y"
  unfolding int64_alt mod_add_cong [OF assms HOL.refl] by (rule HOL.refl)

lemma int64_add: "int64 (int64 x + int64 y) = int64 (x + y)"
  by (rule int64_cong) (rule mod_add_cong [OF int64_mod int64_mod])

section \<open>Strings\<close>

type_synonym byte = "8 word"

type_synonym bytes = "byte list"

definition is_space :: "char \<Rightarrow> bool" where
  "is_space c \<longleftrightarrow> c \<in> {CHR 0x09, CHR 0x0A, CHR 0x0B, CHR 0x0C, CHR 0x0D, CHR '' ''}"

definition TrimSpace :: "string \<Rightarrow> string" where
  "TrimSpace s = rev (dropWhile is_space (rev (dropWhile is_space s)))"

fun Split :: "char \<Rightarrow> string \<Rightarrow> string list" where
  "Split sep [] = [[]]"
| "Split sep (c # cs) =
     (if c = sep then [] # Split sep cs
      else case Split sep cs of [] \<Rightarrow> [[c]] | w # ws \<Rightarrow> (c # w) # ws)"

fun Join :: "string \<Rightarrow> string list \<Rightarrow> string" where
  "Join sep [] = []"
| "Join sep [w] = w"
| "Join sep (w # v # ws) = w @ sep @ Join sep (v # ws)"

definition SplitString :: "string \<Rightarrow> char \<Rightarrow> string list" where
  "SplitString s sep = filter (\<lambda>t. t \<noteq> []) (map TrimSpace (Split sep s))"

definition EqualStringSlices :: "string list \<Rightarrow> string list \<Rightarrow> bool" where
  "EqualStringSlices a b \<longleftrightarrow>
     length a = length b \<and> (\<forall>(v, w)\<in>set (zip a b). v = w)"

definition TrimQuotes :: "string \<Rightarrow> string" where
  "TrimQuotes s =
     (let s1 = (if s \<noteq> [] \<and> hd s = CHR 0x22 then tl s else s)
      in if s1 \<noteq> [] \<and> last s1 = CHR 0x22 then butlast s1 else s1)"

lemma Split_ne [simp]: "Split sep s \<noteq> []"
  by (cases s) (auto split: list.splits)

lemma Split_no_sep: "sep \<notin> set w \<Longrightarrow> Split sep w = [w]"
  by (induction w) auto

lemma Split_append_sep: "sep \<notin> set w \<Longrightarrow> Split sep (w @ sep # s) = w # Split sep s"
  by (induction w) auto

text \<open>Splitting what was joined gives the words back when no word holds the separator.\<close>

lemma Split_Join:
  assumes "ws \<noteq> []" "\<forall>w\<in>set ws. sep \<notin> set w"
  shows "Split sep (Join [sep] ws) = ws"
  using assms
proof (induction "[sep]" ws rule: Join.induct)
  case (3 w v ws)
  then show ?case by (simp add: Split_append_sep)
qed (auto simp: Split_no_sep)

lemma Join_Split: "Join [sep] (Split sep s) = s"
proof (induction s)
  case (Cons c cs)
  show ?case
  proof (cases "Split sep cs")
    case (Cons w ws)
    with Cons.IH show ?thesis by (cases ws) auto
  qed simp
qed simp

definition clean_word :: "char \<Rightarrow> string \<Rightarrow> bool" where
  "clean_word sep w \<longleftrightarrow> w \<noteq> [] \<and> sep \<notin> set w \<and> (\<forall>c\<in>set w. \<not> is_space c)"

lemma TrimSpace_id: "\<forall>c\<in>set w. \<not> is_space c \<Longrightarrow> TrimSpace w = w"
proof -
  assume a: "\<forall>c\<in>set w. \<not> is_space c"
  have "dropWhile is_space w = w" using a by (cases w) auto
  moreover have "dropWhile is_space (rev w) = rev w"
    using a by (cases "rev w") (auto simp: rev_eq_Cons_iff)
  ultimately show ?thesis by (simp add: TrimSpace_def)
qed

text \<open>
  The list columns of the tables (\<open>parents\<close>, \<open>head\<close>, \<open>members\<close>, \<open>targets\<close>) are written with
  \<open>strings.Join\<close> and read with \<open>SplitString\<close>: words without the separator and white space, such
  as base58 hashes and peer ids, survive.
\<close>

lemma SplitString_Join:
  assumes "\<forall>w\<in>set ws. clean_word sep w"
  shows "SplitString (Join [sep] ws) sep = ws"
proof (cases "ws = []")
  case True
  then show ?thesis by (simp add: SplitString_def TrimSpace_def)
next
  case False
  then have "Split sep (Join [sep] ws) = ws"
    using assms by (intro Split_Join) (auto simp: clean_word_def)
  moreover have "map TrimSpace ws = ws"
    using assms by (intro map_idI TrimSpace_id) (auto simp: clean_word_def)
  moreover have "filter (\<lambda>t. t \<noteq> []) ws = ws"
    using assms by (intro filter_True) (auto simp: clean_word_def)
  ultimately show ?thesis by (simp add: SplitString_def)
qed

lemma TrimSpace_edges:
  "TrimSpace s = [] \<or> \<not> is_space (hd (TrimSpace s)) \<and> \<not> is_space (last (TrimSpace s))"
proof -
  define d where "d = dropWhile is_space s"
  define r where "r = dropWhile is_space (rev d)"
  have T: "TrimSpace s = rev r" by (simp add: TrimSpace_def d_def r_def)
  show ?thesis
  proof (cases "r = []")
    case True
    then show ?thesis using T by simp
  next
    case False
    have first: "\<not> is_space (hd r)" using False r_def hd_dropWhile by blast
    have "d \<noteq> []" using False r_def by auto
    then have "\<not> is_space (hd d)" using d_def hd_dropWhile by blast
    moreover have "last r = last (rev d)"
      using False r_def by (metis last_appendR takeWhile_dropWhile_id)
    ultimately show ?thesis using T first False \<open>d \<noteq> []\<close>
      by (simp add: hd_rev last_rev)
  qed
qed

lemma SplitString_words: "w \<in> set (SplitString s sep) \<Longrightarrow> w \<noteq> []"
  by (auto simp: SplitString_def)

lemma EqualStringSlices_iff: "EqualStringSlices a b \<longleftrightarrow> a = b"
  unfolding EqualStringSlices_def by (metis list_all2_iff list.rel_eq)

section \<open>Timestamps\<close>

record timestamp =
  Seconds :: int
  Nanos :: int

text \<open>A nil timestamp reads as the current time, the parameter \<open>now\<close>.\<close>

definition ProtoNanos :: "timestamp \<Rightarrow> timestamp option \<Rightarrow> int" where
  "ProtoNanos now ts =
     (let t = (case ts of None \<Rightarrow> now | Some t \<Rightarrow> t)
      in int64 (int64 (Nanos t) + int64 (Seconds t * 1000000000)))"

definition ProtoTs :: "int \<Rightarrow> timestamp" where
  "ProtoTs nsec0 =
     (let n = nsec0 sdiv 1000000000;
          sec = n;
          nsec = int64 (nsec0 - int64 (n * 1000000000))
      in if nsec < 0
         then \<lparr>Seconds = int64 (sec - 1), Nanos = int32 (int64 (nsec + 1000000000))\<rparr>
         else \<lparr>Seconds = sec, Nanos = int32 nsec\<rparr>)"

definition ProtoTsIsNewer :: "timestamp \<Rightarrow> timestamp option \<Rightarrow> timestamp option \<Rightarrow> bool" where
  "ProtoTsIsNewer now ts1 ts2 \<longleftrightarrow> ProtoNanos now ts1 > ProtoNanos now ts2"

text \<open>What protobuf calls a normal timestamp: the nanoseconds are below a second.\<close>

definition normal_ts :: "timestamp \<Rightarrow> bool" where
  "normal_ts t \<longleftrightarrow> 0 \<le> Nanos t \<and> Nanos t < 1000000000"

text \<open>
  Go's division truncates towards zero; with the correction for a negative remainder the result
  is the floor and a remainder between zero and a second.
\<close>

lemma sdiv_billion:
  "(n::int) sdiv 1000000000 =
     (if n < 0 \<and> n mod 1000000000 \<noteq> 0 then n div 1000000000 + 1 else n div 1000000000)"
  by (simp add: signed_divide_int_eq_divide_int dvd_eq_mod_eq_0 sgn_if)

lemma ProtoTs_floor:
  assumes "is_int64 n"
  shows "ProtoTs n = \<lparr>Seconds = n div 1000000000, Nanos = n mod 1000000000\<rparr>"
proof -
  define q r where "q = n div 1000000000" and "r = n mod 1000000000"
  have n: "n = q * 1000000000 + r" and r: "0 \<le> r" "r < 1000000000"
    by (simp_all add: q_def r_def)
  have rng: "- 9223372036854775808 \<le> n" "n < 9223372036854775808"
    using assms by (simp_all add: is_int64_alt)
  have ids: "is_int64 q" "is_int64 r" "is_int32 r" "is_int64 (r - 1000000000)"
    using rng n r by (simp_all only: is_int64_alt is_int32_alt) linarith+
  show ?thesis
  proof (cases "n < 0 \<and> r \<noteq> 0")
    case True
    have w: "is_int64 ((q + 1) * 1000000000)" using conjunct1 [OF True] rng n r by (simp add: is_int64_alt distrib_right)
    have d: "n - (q + 1) * 1000000000 = r - 1000000000" using n by simp
    have s: "n sdiv 1000000000 = q + 1" using True by (simp add: sdiv_billion q_def r_def)
    show ?thesis
      unfolding ProtoTs_def s Let_def int64_id [OF w] d
      using ids r by (simp add: int64_id int32_id q_def [symmetric] r_def [symmetric])
  next
    case False
    have w: "is_int64 (q * 1000000000)" unfolding is_int64_alt using False rng n r by (intro conjI) linarith+
    have d: "n - q * 1000000000 = r" using n by simp
    have s: "n sdiv 1000000000 = q" using False by (auto simp: sdiv_billion q_def r_def)
    show ?thesis
      unfolding ProtoTs_def s Let_def int64_id [OF w] d
      using ids r by (simp add: int64_id int32_id q_def [symmetric] r_def [symmetric])
  qed
qed

lemma ProtoTs_normal: "is_int64 n \<Longrightarrow> normal_ts (ProtoTs n)"
  by (simp add: ProtoTs_floor normal_ts_def)

lemma ProtoNanos_sum:
  "ProtoNanos now (Some t) = int64 (Seconds t * 1000000000 + Nanos t)"
  unfolding ProtoNanos_def Let_def option.case by (metis add.commute int64_add)

lemma ProtoNanos_ProtoTs_eq: "is_int64 n \<Longrightarrow> ProtoNanos now (Some (ProtoTs n)) = n"
  by (simp add: ProtoNanos_sum ProtoTs_floor int64_id)

lemma ProtoTs_ProtoNanos_eq:
  assumes "normal_ts t" "is_int64 (Seconds t * 1000000000 + Nanos t)"
  shows "ProtoTs (ProtoNanos now (Some t)) = t"
  using assms by (simp add: ProtoNanos_sum int64_id ProtoTs_floor normal_ts_def)

lemma is_int64_ProtoNanos [simp]: "is_int64 (ProtoNanos now ts)"
  by (simp add: ProtoNanos_def Let_def)

end
