(* ===== verification/Crc16.thy ===== *)
theory Crc16
  imports GoUtil
begin

unbundle bit_operations_syntax

text \<open>
  \<^verbatim>\<open>crc16/crc16.go\<close>: the table-driven checksum that protects addresses and seeds, against the
  bitwise polynomial division by \<open>x^16 + x^12 + x^5 + 1\<close>, and the errors it detects.
\<close>

section \<open>The code\<close>

definition crc16tab :: "16 word list" where
  "crc16tab = [
    0x0000, 0x1021, 0x2042, 0x3063, 0x4084, 0x50A5, 0x60C6, 0x70E7,
    0x8108, 0x9129, 0xA14A, 0xB16B, 0xC18C, 0xD1AD, 0xE1CE, 0xF1EF,
    0x1231, 0x0210, 0x3273, 0x2252, 0x52B5, 0x4294, 0x72F7, 0x62D6,
    0x9339, 0x8318, 0xB37B, 0xA35A, 0xD3BD, 0xC39C, 0xF3FF, 0xE3DE,
    0x2462, 0x3443, 0x0420, 0x1401, 0x64E6, 0x74C7, 0x44A4, 0x5485,
    0xA56A, 0xB54B, 0x8528, 0x9509, 0xE5EE, 0xF5CF, 0xC5AC, 0xD58D,
    0x3653, 0x2672, 0x1611, 0x0630, 0x76D7, 0x66F6, 0x5695, 0x46B4,
    0xB75B, 0xA77A, 0x9719, 0x8738, 0xF7DF, 0xE7FE, 0xD79D, 0xC7BC,
    0x48C4, 0x58E5, 0x6886, 0x78A7, 0x0840, 0x1861, 0x2802, 0x3823,
    0xC9CC, 0xD9ED, 0xE98E, 0xF9AF, 0x8948, 0x9969, 0xA90A, 0xB92B,
    0x5AF5, 0x4AD4, 0x7AB7, 0x6A96, 0x1A71, 0x0A50, 0x3A33, 0x2A12,
    0xDBFD, 0xCBDC, 0xFBBF, 0xEB9E, 0x9B79, 0x8B58, 0xBB3B, 0xAB1A,
    0x6CA6, 0x7C87, 0x4CE4, 0x5CC5, 0x2C22, 0x3C03, 0x0C60, 0x1C41,
    0xEDAE, 0xFD8F, 0xCDEC, 0xDDCD, 0xAD2A, 0xBD0B, 0x8D68, 0x9D49,
    0x7E97, 0x6EB6, 0x5ED5, 0x4EF4, 0x3E13, 0x2E32, 0x1E51, 0x0E70,
    0xFF9F, 0xEFBE, 0xDFDD, 0xCFFC, 0xBF1B, 0xAF3A, 0x9F59, 0x8F78,
    0x9188, 0x81A9, 0xB1CA, 0xA1EB, 0xD10C, 0xC12D, 0xF14E, 0xE16F,
    0x1080, 0x00A1, 0x30C2, 0x20E3, 0x5004, 0x4025, 0x7046, 0x6067,
    0x83B9, 0x9398, 0xA3FB, 0xB3DA, 0xC33D, 0xD31C, 0xE37F, 0xF35E,
    0x02B1, 0x1290, 0x22F3, 0x32D2, 0x4235, 0x5214, 0x6277, 0x7256,
    0xB5EA, 0xA5CB, 0x95A8, 0x8589, 0xF56E, 0xE54F, 0xD52C, 0xC50D,
    0x34E2, 0x24C3, 0x14A0, 0x0481, 0x7466, 0x6447, 0x5424, 0x4405,
    0xA7DB, 0xB7FA, 0x8799, 0x97B8, 0xE75F, 0xF77E, 0xC71D, 0xD73C,
    0x26D3, 0x36F2, 0x0691, 0x16B0, 0x6657, 0x7676, 0x4615, 0x5634,
    0xD94C, 0xC96D, 0xF90E, 0xE92F, 0x99C8, 0x89E9, 0xB98A, 0xA9AB,
    0x5844, 0x4865, 0x7806, 0x6827, 0x18C0, 0x08E1, 0x3882, 0x28A3,
    0xCB7D, 0xDB5C, 0xEB3F, 0xFB1E, 0x8BF9, 0x9BD8, 0xABBB, 0xBB9A,
    0x4A75, 0x5A54, 0x6A37, 0x7A16, 0x0AF1, 0x1AD0, 0x2AB3, 0x3A92,
    0xFD2E, 0xED0F, 0xDD6C, 0xCD4D, 0xBDAA, 0xAD8B, 0x9DE8, 0x8DC9,
    0x7C26, 0x6C07, 0x5C64, 0x4C45, 0x3CA2, 0x2C83, 0x1CE0, 0x0CC1,
    0xEF1F, 0xFF3E, 0xCF5D, 0xDF7C, 0xAF9B, 0xBFBA, 0x8FD9, 0x9FF8,
    0x6E17, 0x7E36, 0x4E55, 0x5E74, 0x2E93, 0x3EB2, 0x0ED1, 0x1EF0]"

definition crc_update :: "16 word \<Rightarrow> byte \<Rightarrow> 16 word" where
  "crc_update crc b =
     (push_bit 8 crc AND 0xffff)
     XOR crc16tab ! unat ((drop_bit 8 crc XOR ucast b) AND 0x00FF)"

definition crc_value :: "bytes \<Rightarrow> 16 word" where
  "crc_value data = foldl crc_update 0 data"

definition Checksum :: "bytes \<Rightarrow> bytes" where
  "Checksum data = (let crc = crc_value data in [ucast crc, ucast (drop_bit 8 crc)])"

definition crc_Validate :: "bytes \<Rightarrow> bytes \<Rightarrow> goerr + unit" where
  "crc_Validate data expected =
     (if Checksum data \<noteq> expected then Inl ErrInvalidChecksum else Inr ())"

lemma length_Checksum [simp]: "length (Checksum data) = 2"
  by (simp add: Checksum_def Let_def)

section \<open>The reference: bitwise division\<close>

definition crc_shift :: "16 word \<Rightarrow> 16 word" where
  "crc_shift c = (if bit c 15 then push_bit 1 c XOR 0x1021 else push_bit 1 c)"

definition crc_byte :: "16 word \<Rightarrow> byte \<Rightarrow> 16 word" where
  "crc_byte c b = (crc_shift ^^ 8) (c XOR push_bit 8 (ucast b))"

definition crc_bitwise :: "bytes \<Rightarrow> 16 word" where
  "crc_bitwise data = foldl crc_byte 0 data"

lemma word_xor_eq_0: "a XOR b = 0 \<Longrightarrow> a = b" for a b :: "'a::len word"
proof (rule bit_word_eqI)
  fix n assume "a XOR b = 0"
  then have "bit (a XOR b) n = bit (0 :: 'a word) n" by simp
  then show "bit a n = bit b n" by (simp add: bit_xor_iff)
qed

lemma crc_shift_xor: "crc_shift (a XOR b) = crc_shift a XOR crc_shift b"
  by (auto simp: crc_shift_def bit_xor_iff push_bit_xor ac_simps xor.assoc)

lemma crc_shifts_xor: "(crc_shift ^^ n) (a XOR b) = (crc_shift ^^ n) a XOR (crc_shift ^^ n) b"
  by (induction n) (simp_all add: crc_shift_xor)

lemma crc_shift_eq_0: "crc_shift x = 0 \<Longrightarrow> x = 0"
proof -
  assume z: "crc_shift x = 0"
  have nb: "\<not> bit x 15"
  proof
    assume "bit x 15"
    with z have "push_bit 1 x XOR 0x1021 = 0" by (simp only: crc_shift_def if_True)
    then have "push_bit 1 x = 0x1021" by (rule word_xor_eq_0)
    then have "bit (push_bit 1 x) 0 = bit (0x1021 :: 16 word) 0" by (simp only:)
    then show False unfolding bit_push_bit_iff by simp
  qed
  with z have p: "push_bit 1 x = 0" by (simp add: crc_shift_def)
  show "x = 0"
  proof (rule bit_word_eqI)
    fix n assume n: "n < LENGTH(16)"
    show "bit x n = bit 0 n"
    proof (cases "n = 15")
      case True
      then show ?thesis using nb by simp
    next
      case False
      have "bit (push_bit 1 x) (Suc n) = bit (0 :: 16 word) (Suc n)" by (simp only: p)
      then show ?thesis using n False unfolding bit_push_bit_iff by simp
    qed
  qed
qed

lemma crc_shifts_eq_0: "(crc_shift ^^ n) x = 0 \<Longrightarrow> x = 0"
  by (induction n) (auto dest: crc_shift_eq_0)

lemma crc_shifts_inj: "(crc_shift ^^ n) x = (crc_shift ^^ n) y \<Longrightarrow> x = y"
proof -
  assume "(crc_shift ^^ n) x = (crc_shift ^^ n) y"
  then have "(crc_shift ^^ n) (x XOR y) = 0" by (simp add: crc_shifts_xor)
  then have "x XOR y = 0" by (rule crc_shifts_eq_0)
  then show "x = y" by (rule word_xor_eq_0)
qed

section \<open>The table holds the bitwise remainders\<close>

text \<open>
  The remainder is linear over exclusive or, so the table is determined by its entries at the
  powers of two: doubling a table of \<open>2^k\<close> entries with the entry of \<open>2^k\<close> gives the next one.
\<close>

definition remainder_of :: "nat \<Rightarrow> 16 word" where
  "remainder_of i = (crc_shift ^^ 8) (push_bit 8 (word_of_nat i))"

definition double_table :: "16 word list \<Rightarrow> 16 word \<Rightarrow> 16 word list" where
  "double_table t b = t @ map (\<lambda>x. x XOR b) t"

lemma crc16tab_doubling:
  "crc16tab = foldl double_table [0]
     [0x1021, 0x2042, 0x4084, 0x8108, 0x1231, 0x2462, 0x48c4, 0x9188]"
  by (simp add: crc16tab_def double_table_def)

lemma basis_remainders:
  "map (\<lambda>k. remainder_of (2 ^ k)) [0, 1, 2, 3, 4, 5, 6, 7]
     = [0x1021, 0x2042, 0x4084, 0x8108, 0x1231, 0x2462, 0x48c4, 0x9188]"
  by code_simp

lemma remainder_of_0: "remainder_of 0 = 0"
  by code_simp

lemma remainder_of_add:
  assumes "j < 2 ^ k"
  shows "remainder_of (2 ^ k + j) = remainder_of j XOR remainder_of (2 ^ k)"
proof -
  have "and (2 ^ k) j = 0"
  proof (rule bit_eqI)
    fix n
    show "bit (and (2 ^ k) j) n = bit 0 n"
      using assms by (auto simp: bit_and_iff bit_exp_iff) (metis bit_take_bit_iff less_irrefl take_bit_nat_eq_self_iff)
  qed
  then have "2 ^ k + j = xor (2 ^ k) j" by (rule disjunctive_add_eq_xor)
  then have "(word_of_nat (2 ^ k + j) :: 16 word) = word_of_nat (2 ^ k) XOR word_of_nat j"
    by (metis of_nat_xor_eq)
  then show ?thesis
    unfolding remainder_of_def by (simp add: push_bit_xor crc_shifts_xor xor.commute)
qed

lemma double_table_correct:
  assumes "t = map remainder_of [0..<2 ^ k]"
  shows "double_table t (remainder_of (2 ^ k)) = map remainder_of [0..<2 ^ Suc k]"
proof -
  have "[0..<2 ^ Suc k] = [0..<2 ^ k] @ map (\<lambda>j. 2 ^ k + j) [0..<2 ^ k]"
    by (rule nth_equalityI) (auto simp: nth_append)
  then show ?thesis
    using assms by (simp add: double_table_def remainder_of_add)
qed

lemma crc16tab_correct: "crc16tab = map remainder_of [0..<256]"
proof -
  have build: "foldl double_table [0] (map (\<lambda>k. remainder_of (2 ^ k)) [0..<n])
      = map remainder_of [0..<2 ^ n]" for n
  proof (induction n)
    case 0
    show ?case by (simp add: remainder_of_0)
  next
    case (Suc n)
    then show ?case by (simp add: double_table_correct)
  qed
  have "[0, 1, 2, 3, 4, 5, 6, 7] = [0..<8::nat]" by (simp add: upt_rec)
  with build [of 8] show ?thesis
    by (simp add: crc16tab_doubling basis_remainders [symmetric])
qed

lemma crc16tab_nth: "i < 256 \<Longrightarrow> crc16tab ! i = remainder_of i"
  by (simp add: crc16tab_correct)

section \<open>The table-driven step is the bitwise step\<close>

lemma crc_shifts_low:
  assumes "\<And>n. bit c n \<Longrightarrow> n < 8" "k \<le> 8"
  shows "(crc_shift ^^ k) c = push_bit k c"
  using assms(2)
proof (induction k)
  case (Suc k)
  have "\<not> bit (push_bit k c) 15"
    using Suc.prems assms(1) [of "15 - k"] unfolding bit_push_bit_iff by auto
  with Suc show ?case by (simp add: crc_shift_def push_bit_push_bit del: push_bit_of_1)
qed simp

lemma byte_mask: "(0x00FF :: 16 word) = mask 8"
  by (simp add: mask_eq_exp_minus_1)

lemma word16_mask: "(0xffff :: 16 word) = mask 16"
  by (simp add: mask_eq_exp_minus_1)

lemma crc_update_bitwise: "crc_update c b = crc_byte c b"
proof -
  define h where "h = drop_bit 8 c XOR ucast b"
  have h8: "n < 8" if "bit h n" for n
  proof -
    have "bit c (n + 8) \<or> bit b n" using that by (auto simp: h_def bit_simps add.commute)
    then show "n < 8" using bit_imp_le_length [of c "n + 8"] bit_imp_le_length [of b n] by auto
  qed
  have h: "h AND 0x00FF = h"
    unfolding byte_mask
    by (rule bit_word_eqI) (auto simp: bit_and_iff bit_mask_iff dest: h8)
  have lt: "unat h < 256"
  proof -
    have "h \<le> 0x00FF" using word_and_le1 [of h "0x00FF"] by (simp only: h)
    then have "unat h \<le> unat (0x00FF :: 16 word)" by (simp only: word_le_nat_alt)
    then show ?thesis by simp
  qed
  have split: "c XOR push_bit 8 (ucast b) = (c AND 0x00FF) XOR push_bit 8 h"
    unfolding byte_mask
  proof (rule bit_word_eqI)
    fix n assume n: "n < LENGTH(16)"
    show "bit (c XOR push_bit 8 (ucast b)) n = bit (c AND mask 8 XOR push_bit 8 h) n"
    proof (cases "n < 8")
      case True
      then show ?thesis by (simp add: bit_xor_iff bit_and_iff bit_mask_iff bit_push_bit_iff)
    next
      case False
      then obtain k where "n = 8 + k" by (metis le_Suc_ex not_less)
      then show ?thesis using n
        by (simp add: h_def bit_xor_iff bit_and_iff bit_mask_iff bit_push_bit_iff bit_drop_bit_eq)
    qed
  qed
  have low: "(crc_shift ^^ 8) (c AND 0x00FF) = push_bit 8 (c AND 0x00FF)"
    by (rule crc_shifts_low) (auto simp: byte_mask bit_and_iff bit_mask_iff)
  have low': "push_bit 8 (c AND 0x00FF) = push_bit 8 c AND 0xffff"
    unfolding byte_mask word16_mask
    by (rule bit_word_eqI) (auto simp: bit_and_iff bit_mask_iff bit_push_bit_iff)
  have "crc_byte c b = (push_bit 8 c AND 0xffff) XOR (crc_shift ^^ 8) (push_bit 8 h)"
    unfolding crc_byte_def split crc_shifts_xor low low' ..
  also have "(crc_shift ^^ 8) (push_bit 8 h) = crc16tab ! unat h"
    by (simp add: crc16tab_nth [OF lt] remainder_of_def)
  finally show ?thesis
    unfolding crc_update_def h_def [symmetric] h by simp
qed

lemma crc_value_bitwise: "crc_value data = crc_bitwise data"
  unfolding crc_value_def crc_bitwise_def
  by (rule foldl_cong) (simp_all add: crc_update_bitwise)

section \<open>The errors it detects\<close>

lemma xor_left_cancel: "a XOR b = a XOR c \<longleftrightarrow> b = c" for a b c :: "'a::len word"
proof
  assume "a XOR b = a XOR c"
  then have "a XOR (a XOR b) = a XOR (a XOR c)" by (simp only:)
  then show "b = c" by (simp only: xor.assoc [symmetric] xor_self_eq xor.left_neutral)
qed simp

lemma crc_byte_inj_crc: "crc_byte c b = crc_byte d b \<Longrightarrow> c = d"
proof -
  assume "crc_byte c b = crc_byte d b"
  then have "c XOR push_bit 8 (ucast b) = d XOR push_bit 8 (ucast b)"
    unfolding crc_byte_def by (rule crc_shifts_inj)
  then show "c = d"
    by (simp only: xor.commute [of _ "push_bit 8 (ucast b)"] xor_left_cancel)
qed

lemma foldl_crc_byte_inj: "foldl crc_byte c bs = foldl crc_byte d bs \<Longrightarrow> c = d"
  by (induction bs arbitrary: c d) (auto dest: crc_byte_inj_crc)

lemma bit_ucast_byte: "bit (ucast b :: 16 word) n \<longleftrightarrow> bit b n" for b :: byte
  using bit_imp_le_length [of b n] by (auto simp: bit_simps)

text \<open>The checksum bit by bit: a byte goes in with its highest bit first.\<close>

definition crc_bit :: "16 word \<Rightarrow> bool \<Rightarrow> 16 word" where
  "crc_bit c b = crc_shift (c XOR (if b then 0x8000 else 0))"

definition byte_bits :: "byte \<Rightarrow> bool list" where
  "byte_bits b = map (\<lambda>i. bit b (7 - i)) [0..<8]"

definition data_bits :: "bytes \<Rightarrow> bool list" where
  "data_bits data = concat (map byte_bits data)"

text \<open>Up to sixteen bits as a word, the first one at the top.\<close>

definition top_bits :: "bool list \<Rightarrow> 16 word" where
  "top_bits bs = foldl (XOR) 0 (map (\<lambda>i. if bs ! i then push_bit (15 - i) 1 else 0) [0..<length bs])"

lemma foldl_xor_start: "foldl (XOR) a xs = a XOR foldl (XOR) 0 xs" for a :: "'a::len word"
proof (induction xs arbitrary: a)
  case (Cons x xs)
  show ?case using Cons [of "a XOR x"] Cons [of x] by (simp add: xor.assoc)
qed simp

lemma top_bits_snoc: "top_bits (bs @ [b]) = top_bits bs XOR (if b then push_bit (15 - length bs) 1 else 0)"
proof -
  have "map (\<lambda>i. if (bs @ [b]) ! i then push_bit (15 - i) 1 else (0 :: 16 word)) [0..<length bs]
      = map (\<lambda>i. if bs ! i then push_bit (15 - i) 1 else 0) [0..<length bs]"
    by (intro map_cong) (simp_all add: nth_append)
  then show ?thesis by (simp add: top_bits_def split del: if_split del: map_eq_conv)
qed

lemma bit_top_bits:
  assumes "length bs \<le> 16"
  shows "bit (top_bits bs) n \<longleftrightarrow> n < 16 \<and> 15 - n < length bs \<and> bs ! (15 - n)"
  using assms
proof (induction bs rule: rev_induct)
  case Nil
  show ?case by (simp add: top_bits_def)
next
  case (snoc b bs)
  have "bit (push_bit (15 - length bs) 1 :: 16 word) n \<longleftrightarrow> n = 15 - length bs"
    using snoc.prems by (auto simp: bit_exp_iff)
  then show ?case
    using snoc by (auto simp: top_bits_snoc bit_xor_iff nth_append less_Suc_eq)
qed

lemma top_bits_inj:
  assumes "top_bits x = top_bits y" "length x = length y" "length x \<le> 16"
  shows "x = y"
proof (rule nth_equalityI)
  fix i assume i: "i < length x"
  have "bit (top_bits x) (15 - i) = bit (top_bits y) (15 - i)" using assms(1) by simp
  moreover have "15 - (15 - i) = i" "15 - i < 16" using i assms(3) by simp_all
  ultimately show "x ! i = y ! i" using i assms(2,3) by (simp add: bit_top_bits del: diff_diff_cancel)
qed (rule assms(2))

lemma shift_of_one: "k \<le> 15 \<Longrightarrow> (crc_shift ^^ k) (push_bit (15 - k) 1) = 0x8000"
proof -
  have step: "(crc_shift ^^ k) (push_bit j 1) = push_bit (j + k) 1" if "j + k \<le> 15" for j k
    using that
  proof (induction k)
    case (Suc k)
    have "\<not> bit (push_bit (j + k) 1 :: 16 word) 15" using Suc.prems by (simp add: bit_exp_iff)
    with Suc show ?case by (simp add: crc_shift_def push_bit_push_bit del: push_bit_of_1)
  qed simp
  assume "k \<le> 15"
  then have "(crc_shift ^^ k) (push_bit (15 - k) 1) = push_bit 15 1" using step [of "15 - k" k] by simp
  then show ?thesis by simp
qed

lemma crc_bits_shift:
  assumes "length bs \<le> 16"
  shows "foldl crc_bit c bs = (crc_shift ^^ length bs) (c XOR top_bits bs)"
  using assms
proof (induction bs rule: rev_induct)
  case Nil
  show ?case by (simp add: top_bits_def)
next
  case (snoc b bs)
  have one: "(if b then 0x8000 else 0) = (crc_shift ^^ length bs) (if b then push_bit (15 - length bs) 1 else 0)"
  proof (cases b)
    case True
    then show ?thesis using shift_of_one [of "length bs"] snoc.prems by (simp del: push_bit_of_1)
  next
    case False
    have "(crc_shift ^^ n) 0 = 0" for n by (induction n) (simp_all add: crc_shift_def)
    then show ?thesis using False by simp
  qed
  have "foldl crc_bit c (bs @ [b])
      = crc_shift ((crc_shift ^^ length bs) (c XOR top_bits bs) XOR (if b then 0x8000 else 0))"
    using snoc by (simp add: crc_bit_def [where b = b])
  also have "\<dots> = crc_shift ((crc_shift ^^ length bs) ((c XOR top_bits bs) XOR (if b then push_bit (15 - length bs) 1 else 0)))"
    by (simp only: one crc_shifts_xor)
  finally show ?case by (simp add: top_bits_snoc xor.assoc)
qed

lemma top_bits_byte: "top_bits (byte_bits b) = push_bit 8 (ucast b)"
proof (rule bit_word_eqI)
  fix n assume n: "n < LENGTH(16)"
  show "bit (top_bits (byte_bits b)) n = bit (push_bit 8 (ucast b) :: 16 word) n"
    using n by (auto simp: bit_top_bits byte_bits_def bit_push_bit_iff bit_ucast_byte)
qed

lemma crc_byte_bits: "crc_byte c b = foldl crc_bit c (byte_bits b)"
  using crc_bits_shift [of "byte_bits b" c] by (simp add: crc_byte_def top_bits_byte) (simp add: byte_bits_def)

lemma crc_value_bits: "crc_value data = foldl crc_bit 0 (data_bits data)"
proof -
  have "foldl crc_byte c data = foldl crc_bit c (data_bits data)" for c
    by (induction data arbitrary: c) (simp_all add: data_bits_def crc_byte_bits)
  then show ?thesis by (simp add: crc_value_bitwise crc_bitwise_def)
qed

lemma crc_bits_inj: "foldl crc_bit c bs = foldl crc_bit d bs \<Longrightarrow> c = d"
proof (induction bs arbitrary: c d)
  case (Cons b bs)
  then have "crc_bit c b = crc_bit d b" by simp
  then have "c XOR (if b then 0x8000 else 0) = d XOR (if b then 0x8000 else 0)"
    unfolding crc_bit_def using crc_shifts_inj [of 1] by simp
  then show ?case by (metis xor.commute xor_left_cancel)
qed simp

lemma byte_bits_inj: "byte_bits a = byte_bits b \<Longrightarrow> a = b"
proof (rule bit_word_eqI)
  fix n assume eq: "byte_bits a = byte_bits b" and n: "n < LENGTH(8)"
  then have "byte_bits a ! (7 - n) = byte_bits b ! (7 - n)" by simp
  then show "bit a n = bit b n" using n by (simp add: byte_bits_def)
qed

lemma data_bits_inj: "data_bits a = data_bits b \<Longrightarrow> a = b"
proof (induction a arbitrary: b)
  case Nil
  then show ?case by (cases b) (simp_all add: data_bits_def byte_bits_def)
next
  case (Cons x a)
  then obtain y b' where b: "b = y # b'" by (cases b) (auto simp: data_bits_def byte_bits_def)
  have l: "length (byte_bits x) = length (byte_bits y)" by (simp add: byte_bits_def)
  have "byte_bits x @ data_bits a = byte_bits y @ data_bits b'" using Cons.prems b by (simp add: data_bits_def)
  then show ?case using Cons.IH byte_bits_inj b l by (simp add: append_eq_append_conv)
qed

text \<open>Two data of the same length, apart from each other in at most sixteen consecutive bits.\<close>

definition burst :: "bytes \<Rightarrow> bytes \<Rightarrow> bool" where
  "burst a b \<longleftrightarrow> (\<exists>p x y q. data_bits a = p @ x @ q \<and> data_bits b = p @ y @ q
     \<and> length x = length y \<and> length x \<le> 16)"

lemma crc_value_burst:
  assumes "burst a b"
  shows "crc_value a = crc_value b \<longleftrightarrow> a = b"
proof
  assume eq: "crc_value a = crc_value b"
  from assms obtain p x y q where d: "data_bits a = p @ x @ q" "data_bits b = p @ y @ q"
    and len: "length x = length y" "length x \<le> 16" unfolding burst_def by blast
  let ?c = "foldl crc_bit 0 p"
  have "foldl crc_bit (foldl crc_bit ?c x) q = foldl crc_bit (foldl crc_bit ?c y) q"
    using eq by (simp add: crc_value_bits d)
  then have "foldl crc_bit ?c x = foldl crc_bit ?c y" by (rule crc_bits_inj)
  then have "(crc_shift ^^ length x) (?c XOR top_bits x) = (crc_shift ^^ length x) (?c XOR top_bits y)"
    using len by (simp add: crc_bits_shift)
  then have "?c XOR top_bits x = ?c XOR top_bits y" by (rule crc_shifts_inj)
  then have "x = y" using top_bits_inj len by (simp add: xor_left_cancel)
  then show "a = b" using d data_bits_inj by simp
qed simp

lemma Checksum_eq_iff: "Checksum a = Checksum b \<longleftrightarrow> crc_value a = crc_value b"
proof
  assume "Checksum a = Checksum b"
  then have lo: "(ucast (crc_value a) :: byte) = ucast (crc_value b)"
    and hi: "(ucast (drop_bit 8 (crc_value a)) :: byte) = ucast (drop_bit 8 (crc_value b))"
    by (simp_all add: Checksum_def Let_def)
  show "crc_value a = crc_value b"
  proof (rule bit_word_eqI)
    fix n assume n: "n < LENGTH(16)"
    show "bit (crc_value a) n = bit (crc_value b) n"
    proof (cases "n < 8")
      case True
      then show ?thesis using arg_cong [OF lo, of "\<lambda>w. bit w n"] by (simp add: bit_simps)
    next
      case False
      then obtain k where k: "n = 8 + k" using le_Suc_ex by (metis not_less)
      then show ?thesis
        using n arg_cong [OF hi, of "\<lambda>w. bit w k"] by (simp add: bit_simps)
    qed
  qed
qed (simp add: Checksum_def)

text \<open>
  C38. The table-driven checksum of \<open>crc16.Checksum\<close> is the remainder of the bitwise polynomial
  division, low byte first: the 256 table entries and the byte-wise update are right.
\<close>

theorem Checksum_is_bitwise_remainder:
  "Checksum data = (let crc = crc_bitwise data in [ucast crc, ucast (drop_bit 8 crc)])"
  by (simp add: Checksum_def crc_value_bitwise)

text \<open>
  C39. A burst of errors is always detected: two data that differ only inside sixteen consecutive
  bits, wherever these are and however many bytes they touch, have the same checksum exactly when
  they are the same data.
\<close>

theorem Checksum_detects_bursts:
  assumes "burst a b"
  shows "Checksum a = Checksum b \<longleftrightarrow> a = b"
  using crc_value_burst [OF assms] by (simp add: Checksum_eq_iff)

theorem Checksum_detects_bursts_witness: "Checksum [0, 0, 0] \<noteq> Checksum [0x0F, 0xFF, 0xF0]"
proof -
  have "byte_bits 0 = replicate 4 False @ replicate 4 False" "byte_bits 0x0F = replicate 4 False @ replicate 4 True"
    "byte_bits 0xFF = replicate 4 True @ replicate 4 True" "byte_bits 0xF0 = replicate 4 True @ replicate 4 False"
    by code_simp+
  then have "data_bits [0, 0, 0] = replicate 4 False @ replicate 16 False @ replicate 4 False"
    "data_bits [0x0F, 0xFF, 0xF0] = replicate 4 False @ replicate 16 True @ replicate 4 False"
    by (simp_all add: data_bits_def numeral_eq_Suc)
  then have "burst [0, 0, 0] [0x0F, 0xFF, 0xF0]" unfolding burst_def by fastforce
  from Checksum_detects_bursts [OF this] show ?thesis by simp
qed

end
