(* ===== verification/Strkey.thy ===== *)
theory Strkey
  imports Crc16
begin

text \<open>
  \<^verbatim>\<open>strkey/strkey.go\<close> and the parsing half of \<^verbatim>\<open>keypair/keypair.go\<close>: addresses and seeds as base58
  strings of a version byte, a payload and a checksum. The base58 codec is a library the
  repository imports; it is the pair of parameters \<open>enc58\<close> and \<open>dec58\<close>, and what a round trip
  relies on is that decoding inverts encoding.
\<close>

type_synonym base58_enc = "bytes \<Rightarrow> string"

type_synonym base58_dec = "string \<Rightarrow> goerr + bytes"

definition VersionByteAccountID :: byte where
  "VersionByteAccountID = 0xdd"

definition VersionByteSeed :: byte where
  "VersionByteSeed = 0xff"

definition checkValidVersionByte :: "byte \<Rightarrow> goerr + unit" where
  "checkValidVersionByte version =
     (if version = VersionByteAccountID then Inr ()
      else if version = VersionByteSeed then Inr ()
      else Inl ErrInvalidVersionByte)"

definition decodeString :: "base58_dec \<Rightarrow> string \<Rightarrow> goerr + bytes" where
  "decodeString dec58 src =
     (case dec58 src of
        Inl e \<Rightarrow> Inl (ErrMsg ''base58 decode failed'')
      | Inr raw \<Rightarrow>
          if length raw < 3 then Inl (ErrMsg ''encoded value is too short'') else Inr raw)"

definition Decode :: "base58_dec \<Rightarrow> byte \<Rightarrow> string \<Rightarrow> goerr + bytes" where
  "Decode dec58 expected src =
     (case checkValidVersionByte expected of Inl e \<Rightarrow> Inl e | Inr _ \<Rightarrow>
      case decodeString dec58 src of Inl e \<Rightarrow> Inl e | Inr raw \<Rightarrow>
      (let version = raw ! 0;
           vp = take (length raw - 2) raw;
           payload = drop 1 (take (length raw - 2) raw);
           checksum = drop (length raw - 2) raw
       in if version \<noteq> expected then Inl ErrInvalidVersionByte
          else case crc_Validate vp checksum of Inl e \<Rightarrow> Inl e | Inr _ \<Rightarrow> Inr payload))"

definition Encode :: "base58_enc \<Rightarrow> byte \<Rightarrow> bytes \<Rightarrow> goerr + string" where
  "Encode enc58 version src =
     (case checkValidVersionByte version of Inl e \<Rightarrow> Inl e | Inr _ \<Rightarrow>
      (let raw = [version] @ src in Inr (enc58 (raw @ Checksum raw))))"

definition strkey_Version :: "base58_dec \<Rightarrow> string \<Rightarrow> goerr + byte" where
  "strkey_Version dec58 src =
     (case decodeString dec58 src of Inl e \<Rightarrow> Inl e | Inr raw \<Rightarrow> Inr (raw ! 0))"

text \<open>\<^verbatim>\<open>keypair.KeyPair\<close>: a full pair holds a seed, the other one only an address.\<close>

datatype keypair = Full string | FromAddress string

definition keypair_Parse :: "base58_dec \<Rightarrow> string \<Rightarrow> goerr + keypair" where
  "keypair_Parse dec58 addressOrSeed =
     (case Decode dec58 VersionByteAccountID addressOrSeed of
        Inr _ \<Rightarrow> Inr (FromAddress addressOrSeed)
      | Inl err \<Rightarrow>
          if err \<noteq> ErrInvalidVersionByte then Inl err
          else case Decode dec58 VersionByteSeed addressOrSeed of
                 Inr _ \<Rightarrow> Inr (Full addressOrSeed)
               | Inl err \<Rightarrow> Inl err)"

definition FromRawSeed :: "base58_enc \<Rightarrow> bytes \<Rightarrow> goerr + keypair" where
  "FromRawSeed enc58 rawSeed =
     (case Encode enc58 VersionByteSeed rawSeed of Inl e \<Rightarrow> Inl e | Inr seed \<Rightarrow> Inr (Full seed))"

text \<open>
  \<^verbatim>\<open>Sign\<close> needs the secret: a pair made from an address returns \<^verbatim>\<open>ErrCannotSign\<close>. Whether a signature
  can be made, not its bytes, decides what \<^verbatim>\<open>AddThread\<close> takes for a whitelist entry.
\<close>

definition can_Sign :: "keypair \<Rightarrow> bool" where
  "can_Sign kp = (case kp of Full _ \<Rightarrow> True | FromAddress _ \<Rightarrow> False)"

text \<open>What the base58 library documents: decoding inverts encoding.\<close>

definition base58_inverse :: "base58_enc \<Rightarrow> base58_dec \<Rightarrow> bool" where
  "base58_inverse enc58 dec58 \<longleftrightarrow> (\<forall>raw. dec58 (enc58 raw) = Inr raw)"

text \<open>A codec with this property, for the witnesses: one character for each byte.\<close>

definition plain_enc :: base58_enc where
  "plain_enc = map (\<lambda>b. char_of (unat b))"

definition plain_dec :: base58_dec where
  "plain_dec s = Inr (map (\<lambda>c. word_of_nat (of_char c)) s)"

lemma plain_inverse: "base58_inverse plain_enc plain_dec"
proof -
  have "of_char (char_of (unat b) :: char) = unat b" for b :: byte
    using unsigned_less [of b, where ?'a = nat] by simp
  then show ?thesis by (simp add: base58_inverse_def plain_enc_def plain_dec_def comp_def)
qed

lemma checkValidVersionByte_Inr_iff:
  "checkValidVersionByte v = Inr u \<longleftrightarrow> v = VersionByteAccountID \<or> v = VersionByteSeed"
  by (simp add: checkValidVersionByte_def)

lemma versions_differ [simp]: "VersionByteAccountID \<noteq> VersionByteSeed" "VersionByteSeed \<noteq> VersionByteAccountID"
  by (simp_all add: VersionByteAccountID_def VersionByteSeed_def)

lemma crc_Validate_Inr_iff [simp]: "crc_Validate d c = Inr u \<longleftrightarrow> c = Checksum d"
  by (auto simp: crc_Validate_def)

text \<open>The slices of \<open>Decode\<close> cut a byte string of at least three bytes into its three parts.\<close>

lemma split_raw:
  assumes "3 \<le> length raw"
  obtains v p c where "raw = v # p @ c" "length c = 2" "raw ! 0 = v"
    "take (length raw - 2) raw = v # p" "drop 1 (take (length raw - 2) raw) = p"
    "drop (length raw - 2) raw = c"
proof -
  obtain v rest where raw: "raw = v # rest" using assms by (cases raw) auto
  define p where "p = take (length rest - 2) rest"
  define c where "c = drop (length rest - 2) rest"
  have rest: "rest = p @ c" "length c = 2" using assms by (simp_all add: p_def c_def raw)
  have len: "length raw - 2 = Suc (length p)" using rest by (simp add: raw)
  show ?thesis using that [of v p c] rest len by (simp add: raw)
qed

lemma Decode_cases:
  assumes "v = VersionByteAccountID \<or> v = VersionByteSeed" "dec58 s = Inr (w # p @ c)" "length c = 2"
  shows "Decode dec58 v s =
    (if w \<noteq> v then Inl ErrInvalidVersionByte
     else if c \<noteq> Checksum (w # p) then Inl ErrInvalidChecksum else Inr p)"
  using assms
  by (auto simp: Decode_def decodeString_def checkValidVersionByte_def crc_Validate_def Let_def)

lemma Decode_Encode:
  assumes "base58_inverse enc58 dec58" "Encode enc58 v p = Inr s"
  shows "Decode dec58 w s =
    (case checkValidVersionByte w of Inl e \<Rightarrow> Inl e
     | Inr _ \<Rightarrow> if w = v then Inr p else Inl ErrInvalidVersionByte)"
proof -
  have s: "s = enc58 (v # p @ Checksum (v # p))"
    using assms(2) by (auto simp: Encode_def Let_def split: sum.splits)
  have d: "dec58 s = Inr (v # p @ Checksum (v # p))"
    using assms(1) by (simp add: base58_inverse_def s)
  show ?thesis
    using Decode_cases [where s = s and p = p and w = v and c = "Checksum (v # p)" and v = w] d
    by (auto simp: checkValidVersionByte_def Decode_def)
qed

lemma Decode_Inr_iff:
  "Decode dec58 v s = Inr p \<longleftrightarrow>
     (v = VersionByteAccountID \<or> v = VersionByteSeed)
     \<and> dec58 s = Inr (v # p @ Checksum (v # p))"
proof
  assume r: "Decode dec58 v s = Inr p"
  then have v: "v = VersionByteAccountID \<or> v = VersionByteSeed"
    by (auto simp: Decode_def checkValidVersionByte_def split: if_splits)
  from r obtain raw where d: "dec58 s = Inr raw" and len: "3 \<le> length raw"
    by (auto simp: Decode_def decodeString_def split: sum.splits if_splits)
  obtain w q c where raw: "raw = w # q @ c" "length c = 2" using split_raw [OF len] by metis
  from r have "w = v" "c = Checksum (w # q)" "q = p"
    using Decode_cases [where s = s and p = q and w = w and c = c and v = v, OF v _ raw(2)] d raw(1)
    by (auto split: if_splits)
  with v d raw show "(v = VersionByteAccountID \<or> v = VersionByteSeed)
      \<and> dec58 s = Inr (v # p @ Checksum (v # p))" by simp
next
  assume "(v = VersionByteAccountID \<or> v = VersionByteSeed)
      \<and> dec58 s = Inr (v # p @ Checksum (v # p))"
  then show "Decode dec58 v s = Inr p" using Decode_cases [of v dec58 s v p] by simp
qed

section \<open>Properties\<close>

text \<open>
  \<open>Parse\<close> recovers what was encoded: a string made from a payload with the address version
  parses to an address that cannot sign, one made with the seed version to a full key pair, and
  for any other version byte nothing can be encoded at all.
\<close>

lemma Parse_of_Encode:
  assumes "base58_inverse enc58 dec58"
  shows "case Encode enc58 v p of
      Inl e \<Rightarrow> e = ErrInvalidVersionByte \<and> v \<noteq> VersionByteAccountID \<and> v \<noteq> VersionByteSeed
    | Inr s \<Rightarrow>
        if v = VersionByteSeed
        then keypair_Parse dec58 s = Inr (Full s) \<and> Decode dec58 VersionByteSeed s = Inr p
        else keypair_Parse dec58 s = Inr (FromAddress s)
             \<and> Decode dec58 VersionByteAccountID s = Inr p"
proof (cases "Encode enc58 v p")
  case (Inl e)
  then show ?thesis by (auto simp: Encode_def checkValidVersionByte_def Let_def split: if_splits)
next
  case (Inr s)
  then have "v = VersionByteAccountID \<or> v = VersionByteSeed"
    by (auto simp: Encode_def checkValidVersionByte_def split: if_splits)
  then show ?thesis
    using Decode_Encode [OF assms Inr] Inr
    by (auto simp: keypair_Parse_def checkValidVersionByte_def)
qed

text \<open>
  C40. A damaged address or seed is not taken for another one: take a string that decodes to a version
  byte and a payload, and another that decodes to the same bytes except for a burst of at most
  sixteen bits within version and payload, or except for the two checksum bytes. Parsing the other
  one fails: with \<^verbatim>\<open>ErrInvalidVersionByte\<close> when the version byte it has is no known one, and with
  \<^verbatim>\<open>ErrInvalidChecksum\<close> otherwise, whatever the base58 library does.
\<close>

theorem Parse_detects_corruption:
  assumes "Decode dec58 v s = Inr p" "dec58 t = Inr (w # q @ c)" "length c = 2"
    and "burst (v # p) (w # q) \<and> w # q \<noteq> v # p \<and> c = Checksum (v # p)
      \<or> w # q = v # p \<and> c \<noteq> Checksum (v # p)"
  shows "keypair_Parse dec58 t =
    Inl (if w = VersionByteAccountID \<or> w = VersionByteSeed then ErrInvalidChecksum else ErrInvalidVersionByte)"
proof -
  have "c \<noteq> Checksum (w # q)"
    using assms(4) crc_value_burst [of "v # p" "w # q"] by (auto simp: Checksum_eq_iff)
  then have "Decode dec58 u t = Inl (if w \<noteq> u then ErrInvalidVersionByte else ErrInvalidChecksum)"
    if "u = VersionByteAccountID \<or> u = VersionByteSeed" for u
    using Decode_cases [of u dec58 t w q c] that assms(2,3) by auto
  then show ?thesis by (simp add: keypair_Parse_def)
qed

theorem Parse_detects_corruption_witness:
  "keypair_Parse plain_dec
     (plain_enc (VersionByteSeed # [1, 7, 3] @ Checksum [VersionByteSeed, 1, 2, 3]))
   = Inl ErrInvalidChecksum"
proof -
  define s where "s = plain_enc (VersionByteSeed # [1, 2, 3] @ Checksum [VersionByteSeed, 1, 2, 3])"
  have inv: "plain_dec (plain_enc raw) = Inr raw" for raw
    using plain_inverse by (simp add: base58_inverse_def)
  have d: "Decode plain_dec VersionByteSeed s = Inr [1, 2, 3]"
    unfolding Decode_Inr_iff s_def inv by simp
  have "burst [VersionByteSeed, 1, 2, 3] [VersionByteSeed, 1, 7, 3]"
    unfolding burst_def
    by (intro exI [of _ "data_bits [VersionByteSeed, 1]"] exI [of _ "byte_bits 2"] exI [of _ "byte_bits 7"]
        exI [of _ "data_bits [3]"]) (simp add: data_bits_def byte_bits_def)
  then show ?thesis
    using Parse_detects_corruption [where w = VersionByteSeed and q = "[1, 7, 3]"
        and c = "Checksum [VersionByteSeed, 1, 2, 3]", OF d] inv
    by (simp add: Checksum_def Let_def)
qed

end
