(* ===== verification/Decimal.thy ===== *)
theory Decimal
  imports GoUtil
begin

text \<open>
  The conversions of Go's \<open>strconv\<close> package that the repository uses: \<open>Itoa\<close>, \<open>Atoi\<close> on 64-bit
  integers and \<open>ParseUint\<close> in base ten, with their syntax and range errors.
\<close>

definition is_digit :: "char \<Rightarrow> bool" where
  "is_digit c \<longleftrightarrow> 48 \<le> (of_char c :: nat) \<and> (of_char c :: nat) \<le> 57"

definition digit_char :: "nat \<Rightarrow> char" where
  "digit_char d = char_of (48 + d)"

definition digit_value :: "char \<Rightarrow> nat" where
  "digit_value c = of_char c - 48"

definition digits_value :: "string \<Rightarrow> nat" where
  "digits_value s = foldl (\<lambda>n c. 10 * n + digit_value c) 0 s"

fun Utoa :: "nat \<Rightarrow> string" where
  "Utoa n = (if n < 10 then [digit_char n] else Utoa (n div 10) @ [digit_char (n mod 10)])"

declare Utoa.simps [simp del]

definition Itoa :: "int \<Rightarrow> string" where
  "Itoa i = (if i < 0 then CHR ''-'' # Utoa (nat (- i)) else Utoa (nat i))"

definition all_digits :: "string \<Rightarrow> bool" where
  "all_digits s \<longleftrightarrow> s \<noteq> [] \<and> list_all is_digit s"

definition Atoi :: "string \<Rightarrow> goerr + int" where
  "Atoi s =
     (let neg = (s \<noteq> [] \<and> hd s = CHR ''-'');
          body = (if s \<noteq> [] \<and> (hd s = CHR ''-'' \<or> hd s = CHR ''+'') then tl s else s)
      in if \<not> all_digits body then Inl (ErrMsg ''invalid syntax'')
         else if neg
         then if 2 ^ 63 < digits_value body then Inl (ErrMsg ''value out of range'')
              else Inr (- int (digits_value body))
         else if 2 ^ 63 \<le> digits_value body then Inl (ErrMsg ''value out of range'')
              else Inr (int (digits_value body)))"

definition ParseUint32 :: "string \<Rightarrow> goerr + 32 word" where
  "ParseUint32 s =
     (if \<not> all_digits s then Inl (ErrMsg ''invalid syntax'')
      else if 2 ^ 32 \<le> digits_value s then Inl (ErrMsg ''value out of range'')
      else Inr (word_of_nat (digits_value s)))"

lemma of_char_digit [simp]: "d < 10 \<Longrightarrow> of_char (digit_char d) = 48 + d"
  by (simp add: digit_char_def)

lemma is_digit_digit_char [simp]: "d < 10 \<Longrightarrow> is_digit (digit_char d)"
  by (simp add: is_digit_def)

lemma digit_value_digit_char [simp]: "d < 10 \<Longrightarrow> digit_value (digit_char d) = d"
  by (simp add: digit_value_def)

lemma Utoa_digits: "all_digits (Utoa n)"
proof (induction n rule: Utoa.induct)
  case (1 n)
  then show ?case by (subst Utoa.simps) (auto simp: all_digits_def)
qed

lemma digits_value_Utoa [simp]: "digits_value (Utoa n) = n"
proof (induction n rule: Utoa.induct)
  case (1 n)
  then show ?case by (subst Utoa.simps) (auto simp: digits_value_def)
qed

lemma Utoa_inj [simp]: "Utoa m = Utoa n \<longleftrightarrow> m = n"
  by (metis digits_value_Utoa)

lemma not_digit_chars [simp]:
  "\<not> is_digit CHR ''-''" "\<not> is_digit CHR ''+''" "\<not> is_digit CHR ''_''" "\<not> is_digit CHR ''/''"
  "\<not> is_digit CHR 0x27" "\<not> is_digit CHR ''m''"
  by (simp_all add: is_digit_def)

lemma digit_in_Utoa: "c \<in> set (Utoa n) \<Longrightarrow> is_digit c"
  using Utoa_digits [of n] by (auto simp: all_digits_def list_all_iff)

lemma hd_Utoa: "is_digit (hd (Utoa n))" "Utoa n \<noteq> []"
  using Utoa_digits [of n] by (cases "Utoa n"; simp add: all_digits_def)+

text \<open>\<open>Atoi\<close> reads back what \<open>Itoa\<close> prints, at every 64-bit integer.\<close>

lemma Atoi_Itoa:
  assumes "is_int64 i"
  shows "Atoi (Itoa i) = Inr i"
proof (cases "i < 0")
  case True
  then have "nat (- i) \<le> 2 ^ 63" using assms by (simp add: is_int64_def nat_le_iff)
  then show ?thesis using True Utoa_digits [of "nat (- i)"] by (simp add: Atoi_def Itoa_def)
next
  case False
  then have r: "nat i < 2 ^ 63" using assms by (simp add: is_int64_def nat_less_iff)
  have "hd (Utoa (nat i)) \<noteq> CHR ''-''" "hd (Utoa (nat i)) \<noteq> CHR ''+''"
    using hd_Utoa [of "nat i"] not_digit_chars by metis+
  then show ?thesis using False r Utoa_digits [of "nat i"] hd_Utoa(2) [of "nat i"]
    by (simp add: Atoi_def Itoa_def)
qed

lemma ParseUint32_Inr_iff:
  "ParseUint32 s = Inr w \<longleftrightarrow> all_digits s \<and> digits_value s < 2 ^ 32 \<and> w = word_of_nat (digits_value s)"
  by (auto simp: ParseUint32_def)

end
