(* ===== verification/Wallet.thy ===== *)
theory Wallet
  imports Strkey Decimal
begin

unbundle bit_operations_syntax

text \<open>
  \<^verbatim>\<open>wallet/wallet.go\<close> and \<^verbatim>\<open>wallet/derivation.go\<close>: mnemonic lengths, hierarchical key derivation
  along a path, and the accounts of a wallet. HMAC-SHA512 is the parameter \<open>hmac\<close> (key, then
  data), and the seed of a mnemonic, computed by the imported bip39 library, the parameter
  \<open>newSeed\<close>. Indices are 32-bit words, so \<open>uint32(i64) + FirstHardenedIndex\<close> wraps as it does in
  the code.
\<close>

type_synonym hmac = "bytes \<Rightarrow> bytes \<Rightarrow> bytes"

section \<open>Word counts\<close>

datatype WordCount = TwelveWords | FifteenWords | EighteenWords | TwentyOneWords | TwentyFourWords

definition NewWordCount :: "int \<Rightarrow> goerr + WordCount" where
  "NewWordCount cnt =
     (if cnt = 12 then Inr TwelveWords
      else if cnt = 15 then Inr FifteenWords
      else if cnt = 18 then Inr EighteenWords
      else if cnt = 21 then Inr TwentyOneWords
      else if cnt = 24 then Inr TwentyFourWords
      else Inl ErrInvalidWordCount)"

fun EntropySize :: "WordCount \<Rightarrow> int" where
  "EntropySize TwelveWords = 128"
| "EntropySize FifteenWords = 160"
| "EntropySize EighteenWords = 192"
| "EntropySize TwentyOneWords = 224"
| "EntropySize TwentyFourWords = 256"

section \<open>Paths\<close>

text \<open>
  The regular expression \<open>^m(/[0-9]+')+$\<close> as the automaton that accepts it: state 1 has read the
  \<open>m\<close>, state 2 a slash, state 3 at least one digit after it and state 4 the closing quote.
\<close>

definition path_step :: "nat \<Rightarrow> char \<Rightarrow> nat" where
  "path_step q c =
     (if q = 0 \<and> c = CHR ''m'' then 1
      else if (q = 1 \<or> q = 4) \<and> c = CHR ''/'' then 2
      else if (q = 2 \<or> q = 3) \<and> is_digit c then 3
      else if q = 3 \<and> c = CHR 0x27 then 4
      else 5)"

definition pathRegex :: "string \<Rightarrow> bool" where
  "pathRegex s \<longleftrightarrow> foldl path_step 0 s = 4"

definition TrimRight :: "string \<Rightarrow> char \<Rightarrow> string" where
  "TrimRight s q = rev (dropWhile (\<lambda>c. c = q) (rev s))"

definition path_segments :: "string \<Rightarrow> string list" where
  "path_segments path = map (\<lambda>seg. TrimRight seg CHR 0x27) (tl (Split CHR ''/'' path))"

definition IsValidPath :: "string \<Rightarrow> bool" where
  "IsValidPath path \<longleftrightarrow>
     pathRegex path \<and> list_all (\<lambda>seg. \<not> isl (ParseUint32 seg)) (path_segments path)"

section \<open>Keys\<close>

record Key =
  Key :: bytes
  ChainCode :: bytes

definition FirstHardenedIndex :: "32 word" where
  "FirstHardenedIndex = 0x80000000"

definition seedModifier :: bytes where
  "seedModifier = map (\<lambda>c. word_of_nat (of_char c)) ''ed25519 seed''"

definition PutUint32 :: "32 word \<Rightarrow> bytes" where
  "PutUint32 i =
     [ucast (drop_bit 24 i), ucast (drop_bit 16 i), ucast (drop_bit 8 i), ucast i]"

definition NewMasterKey :: "hmac \<Rightarrow> bytes \<Rightarrow> Key" where
  "NewMasterKey hmac seed =
     (let sum = hmac seedModifier seed in \<lparr>Key = take 32 sum, ChainCode = drop 32 sum\<rparr>)"

definition Derive :: "hmac \<Rightarrow> Key \<Rightarrow> 32 word \<Rightarrow> goerr + Key" where
  "Derive hmac k i =
     (if i < FirstHardenedIndex then Inl ErrNoPublicDerivation
      else let data = 0 # Key k @ PutUint32 i; sum = hmac (ChainCode k) data
           in Inr \<lparr>Key = take 32 sum, ChainCode = drop 32 sum\<rparr>)"

fun derive_segments :: "hmac \<Rightarrow> Key \<Rightarrow> string list \<Rightarrow> goerr + Key" where
  "derive_segments hmac key [] = Inr key"
| "derive_segments hmac key (segment # rest) =
     (case ParseUint32 segment of Inl e \<Rightarrow> Inl e | Inr i64 \<Rightarrow>
      case Derive hmac key (i64 + FirstHardenedIndex) of Inl e \<Rightarrow> Inl e | Inr key' \<Rightarrow>
      derive_segments hmac key' rest)"

definition DeriveForPath :: "hmac \<Rightarrow> string \<Rightarrow> bytes \<Rightarrow> goerr + Key" where
  "DeriveForPath hmac path seed =
     (if \<not> IsValidPath path then Inl ErrInvalidPath
      else derive_segments hmac (NewMasterKey hmac seed) (path_segments path))"

definition RawSeed :: "Key \<Rightarrow> bytes" where
  "RawSeed k = take 32 (Key k @ replicate 32 0)"

section \<open>Accounts\<close>

definition TextileAccountPrefix :: string where
  "TextileAccountPrefix = ''m/44'' @ [CHR 0x27] @ ''/406'' @ [CHR 0x27]"

definition TextileAccountPath :: "int \<Rightarrow> string" where
  "TextileAccountPath i = TextileAccountPrefix @ ''/'' @ Itoa i @ [CHR 0x27]"

datatype mnemonic_error = InvalidMnemonic | MnemonicError string

definition AccountAt ::
  "hmac \<Rightarrow> (string \<Rightarrow> string \<Rightarrow> mnemonic_error + bytes) \<Rightarrow> base58_enc \<Rightarrow> string \<Rightarrow> int \<Rightarrow> string
   \<Rightarrow> goerr + keypair" where
  "AccountAt hmac newSeed enc58 recoveryPhrase index passphrase =
     (case newSeed recoveryPhrase passphrase of
        Inl InvalidMnemonic \<Rightarrow> Inl (ErrMsg ''invalid mnemonic phrase'')
      | Inl (MnemonicError m) \<Rightarrow> Inl (ErrMsg m)
      | Inr seed \<Rightarrow>
          (case DeriveForPath hmac TextileAccountPrefix seed of Inl e \<Rightarrow> Inl e | Inr masterKey \<Rightarrow>
           case Derive hmac masterKey (FirstHardenedIndex + word_of_int index) of
             Inl e \<Rightarrow> Inl e | Inr key \<Rightarrow> FromRawSeed enc58 (RawSeed key)))"

section \<open>Lemmas\<close>

text \<open>A segment of an accepted path: digits closed by a quote.\<close>

definition seg_ok :: "string \<Rightarrow> bool" where
  "seg_ok w \<longleftrightarrow> w \<noteq> [] \<and> last w = CHR 0x27 \<and> all_digits (butlast w)"

lemma path_step_states [simp]:
  "path_step 0 c = (if c = CHR ''m'' then 1 else 5)"
  "path_step (Suc 0) c = (if c = CHR ''/'' then 2 else 5)"
  "path_step 2 c = (if is_digit c then 3 else 5)"
  "path_step 3 c = (if is_digit c then 3 else if c = CHR 0x27 then 4 else 5)"
  "path_step 4 c = (if c = CHR ''/'' then 2 else 5)"
  "path_step 5 c = 5"
  by (simp_all add: path_step_def)

lemma path_step_dead [simp]: "foldl path_step 5 w = 5"
  by (induction w) simp_all

lemma path_step_range:
  "q \<in> {2, 3, 4, 5} \<Longrightarrow> foldl path_step q w \<in> {2, 3, 4, 5}"
proof (induction w arbitrary: q)
  case (Cons c w)
  have "path_step q c \<in> {2, 3, 4, 5}" using Cons.prems by (auto split: if_splits)
  from Cons.IH [OF this] show ?case by simp
qed simp

lemma seg_from_digits:
  "CHR ''/'' \<notin> set w \<Longrightarrow>
   foldl path_step 3 w = 4 \<longleftrightarrow> w \<noteq> [] \<and> last w = CHR 0x27 \<and> list_all is_digit (butlast w)"
proof (induction w)
  case (Cons c w)
  have "foldl path_step 4 w = 4 \<longleftrightarrow> w = []"
    using Cons.prems by (cases w) auto
  then show ?case using Cons by auto
qed simp

lemma seg_from_slash:
  assumes "CHR ''/'' \<notin> set w"
  shows "foldl path_step 2 w = 4 \<longleftrightarrow> seg_ok w"
proof (cases w)
  case (Cons c v)
  then show ?thesis
    using assms seg_from_digits [of v]
    by (auto simp: seg_ok_def all_digits_def)
qed (simp add: seg_ok_def)

lemma segs_from_slash:
  assumes "ws \<noteq> []" "\<forall>w\<in>set ws. CHR ''/'' \<notin> set w"
  shows "foldl path_step 2 (Join ''/'' ws) = 4 \<longleftrightarrow> list_all seg_ok ws"
  using assms
proof (induction "''/''" ws rule: Join.induct)
  case (2 w)
  then show ?case by (simp add: seg_from_slash)
next
  case (3 w v ws)
  define q where "q = foldl path_step 2 w"
  have q: "q = 4 \<longleftrightarrow> seg_ok w" using 3 by (simp add: q_def seg_from_slash)
  have "q \<in> {2, 3, 4, 5}" unfolding q_def by (rule path_step_range) simp
  then have "path_step q CHR ''/'' = (if seg_ok w then 2 else 5)"
    using q by auto
  then show ?case using 3 by (simp add: q_def [symmetric])
qed simp

lemma Split_words: "w \<in> set (Split sep s) \<Longrightarrow> sep \<notin> set w"
  by (induction s arbitrary: w) (auto split: list.splits if_splits)

lemma pathRegex_segments:
  "pathRegex path \<longleftrightarrow>
     (\<exists>ws. ws \<noteq> [] \<and> Split CHR ''/'' path = ''m'' # ws \<and> list_all seg_ok ws)"
proof
  assume r: "pathRegex path"
  then obtain rest where path: "path = CHR ''m'' # rest"
    by (cases path) (auto simp: pathRegex_def split: if_splits)
  with r obtain rest2 where rest: "rest = CHR ''/'' # rest2" and acc: "foldl path_step 2 rest2 = 4"
    by (cases rest) (auto simp: pathRegex_def split: if_splits)
  have "foldl path_step 2 (Join ''/'' (Split CHR ''/'' rest2)) = 4"
    using acc by (simp add: Join_Split)
  then have "list_all seg_ok (Split CHR ''/'' rest2)"
    by (subst (asm) segs_from_slash) (auto dest: Split_words)
  then show "\<exists>ws. ws \<noteq> [] \<and> Split CHR ''/'' path = ''m'' # ws \<and> list_all seg_ok ws"
    by (intro exI [of _ "Split CHR ''/'' rest2"]) (simp add: path rest)
next
  assume "\<exists>ws. ws \<noteq> [] \<and> Split CHR ''/'' path = ''m'' # ws \<and> list_all seg_ok ws"
  then obtain ws where ws: "ws \<noteq> []" "Split CHR ''/'' path = ''m'' # ws" "list_all seg_ok ws"
    by blast
  have "path = Join ''/'' (''m'' # ws)" using Join_Split [of "CHR ''/''" path] ws(2) by simp
  then have "path = CHR ''m'' # CHR ''/'' # Join ''/'' ws" using ws(1) by (cases ws) auto
  moreover have "\<forall>w\<in>set ws. CHR ''/'' \<notin> set w" using ws(2) Split_words by (metis list.set_intros(2))
  ultimately show "pathRegex path"
    using ws segs_from_slash [of ws] by (simp add: pathRegex_def)
qed

lemma TrimRight_seg: "seg_ok w \<Longrightarrow> TrimRight w CHR 0x27 = butlast w"
proof -
  assume ok: "seg_ok w"
  then obtain d where w: "w = d @ [CHR 0x27]" and d: "all_digits d"
    by (metis append_butlast_last_id seg_ok_def)
  obtain x ds where rd: "rev d = x # ds" using d by (cases "rev d") (auto simp: all_digits_def)
  have "x \<in> set d" using rd by (metis list.set_intros(1) set_rev)
  then have "x \<noteq> CHR 0x27" using d by (auto simp: all_digits_def list_all_iff)
  then show ?thesis by (simp add: TrimRight_def w rd) (metis rd rev_rev_ident rev.simps(2))
qed

text \<open>An accepted path and its segments determine each other.\<close>

lemma IsValidPath_segments:
  "IsValidPath path \<longleftrightarrow>
     (\<exists>ds. ds \<noteq> [] \<and> path = Join ''/'' (''m'' # map (\<lambda>d. d @ [CHR 0x27]) ds)
        \<and> path_segments path = ds \<and> (\<forall>d\<in>set ds. all_digits d \<and> digits_value d < 2 ^ 32))"
proof
  assume v: "IsValidPath path"
  then obtain ws where ws: "ws \<noteq> []" "Split CHR ''/'' path = ''m'' # ws" "list_all seg_ok ws"
    by (auto simp: IsValidPath_def pathRegex_segments)
  have seg: "path_segments path = map butlast ws"
    using ws(3) by (auto simp: path_segments_def ws(2) list_all_iff TrimRight_seg)
  have "map (\<lambda>d. d @ [CHR 0x27]) (map butlast ws) = ws"
    using ws(3) by (auto simp: list_all_iff seg_ok_def intro!: map_idI)
      (metis append_butlast_last_id)
  then have "path = Join ''/'' (''m'' # map (\<lambda>d. d @ [CHR 0x27]) (map butlast ws))"
    using Join_Split [of "CHR ''/''" path] ws(2) by simp
  moreover have "\<forall>d\<in>set (map butlast ws). all_digits d \<and> digits_value d < 2 ^ 32"
    using v seg ParseUint32_Inr_iff unfolding IsValidPath_def list_all_iff isl_def
    by (metis obj_sumE)
  ultimately show "\<exists>ds. ds \<noteq> [] \<and> path = Join ''/'' (''m'' # map (\<lambda>d. d @ [CHR 0x27]) ds)
        \<and> path_segments path = ds \<and> (\<forall>d\<in>set ds. all_digits d \<and> digits_value d < 2 ^ 32)"
    using ws(1) seg by (intro exI [of _ "map butlast ws"]) simp
next
  assume "\<exists>ds. ds \<noteq> [] \<and> path = Join ''/'' (''m'' # map (\<lambda>d. d @ [CHR 0x27]) ds)
        \<and> path_segments path = ds \<and> (\<forall>d\<in>set ds. all_digits d \<and> digits_value d < 2 ^ 32)"
  then obtain ds where ds: "ds \<noteq> []" "path = Join ''/'' (''m'' # map (\<lambda>d. d @ [CHR 0x27]) ds)"
    "path_segments path = ds" "\<forall>d\<in>set ds. all_digits d \<and> digits_value d < 2 ^ 32" by blast
  have "\<forall>d\<in>set ds. CHR ''/'' \<notin> set d"
    using ds(4) not_digit_chars(4) unfolding all_digits_def list_all_iff by blast
  then have "Split CHR ''/'' path = ''m'' # map (\<lambda>d. d @ [CHR 0x27]) ds"
    unfolding ds(2) by (intro Split_Join) auto
  then have "pathRegex path"
    using ds by (auto simp: pathRegex_segments list_all_iff seg_ok_def)
  then show "IsValidPath path"
    using ds(3,4) by (auto simp: IsValidPath_def list_all_iff ParseUint32_def)
qed

section \<open>Derivation\<close>

text \<open>The child key of a hardened index, and the key at the end of a list of indices.\<close>

definition child_key :: "hmac \<Rightarrow> Key \<Rightarrow> nat \<Rightarrow> Key" where
  "child_key hmac k n =
     (let sum = hmac (ChainCode k) (0 # Key k @ PutUint32 (word_of_nat (2 ^ 31 + n)))
      in \<lparr>Key = take 32 sum, ChainCode = drop 32 sum\<rparr>)"

lemma hardened_index:
  assumes "n < 2 ^ 32"
  shows "(word_of_nat n + FirstHardenedIndex < FirstHardenedIndex) \<longleftrightarrow> 2 ^ 31 \<le> n"
proof -
  have "unat (word_of_nat n + FirstHardenedIndex) = (n + 2 ^ 31) mod 2 ^ 32"
    unfolding FirstHardenedIndex_def by (simp add: unat_word_ariths take_bit_eq_mod mod_simps unat_of_nat)
  moreover have "unat FirstHardenedIndex = 2 ^ 31" by (simp add: FirstHardenedIndex_def)
  moreover have "(n + 2 ^ 31) mod 2 ^ 32 < 2 ^ 31 \<longleftrightarrow> 2 ^ 31 \<le> n"
  proof (cases "n < 2 ^ 31")
    case False
    then have "n + 2 ^ 31 = (n - 2 ^ 31) + 2 ^ 32" by simp
    then have "(n + 2 ^ 31) mod 2 ^ 32 = n - 2 ^ 31" using assms by (metis mod_add_self2 mod_less less_imp_diff_less)
    then show ?thesis using assms False by simp
  qed simp
  ultimately show ?thesis by (simp add: word_less_nat_alt)
qed

lemma Derive_index:
  assumes "n < 2 ^ 32"
  shows "Derive hmac k (word_of_nat n + FirstHardenedIndex) =
    (if 2 ^ 31 \<le> n then Inl ErrNoPublicDerivation else Inr (child_key hmac k n))"
proof -
  have "word_of_nat n + FirstHardenedIndex = (word_of_nat (2 ^ 31 + n) :: 32 word)"
    by (simp add: FirstHardenedIndex_def)
  then show ?thesis
    unfolding Derive_def child_key_def hardened_index [OF assms] Let_def by (simp only:)
qed

lemma derive_segments_result:
  assumes "\<forall>d\<in>set ds. all_digits d \<and> digits_value d < 2 ^ 32"
  shows "derive_segments hmac key ds =
    (if list_all (\<lambda>d. digits_value d < 2 ^ 31) ds
     then Inr (foldl (child_key hmac) key (map digits_value ds)) else Inl ErrNoPublicDerivation)"
  using assms
proof (induction ds arbitrary: key)
  case (Cons d ds)
  then have "ParseUint32 d = Inr (word_of_nat (digits_value d))" by (simp add: ParseUint32_def)
  then show ?case using Cons Derive_index [of "digits_value d" hmac key] by (auto simp: not_le)
qed simp

lemma valid_segments:
  "IsValidPath path \<Longrightarrow> d \<in> set (path_segments path) \<Longrightarrow> all_digits d \<and> digits_value d < 2 ^ 32"
  using IsValidPath_segments by blast

lemma DeriveForPath_eq:
  "DeriveForPath hmac path seed =
     (if \<not> IsValidPath path then Inl ErrInvalidPath
      else if list_all (\<lambda>d. digits_value d < 2 ^ 31) (path_segments path)
      then Inr (foldl (child_key hmac) (NewMasterKey hmac seed)
                  (map digits_value (path_segments path)))
      else Inl ErrNoPublicDerivation)"
  unfolding DeriveForPath_def using derive_segments_result valid_segments by auto

text \<open>The paths of \<^verbatim>\<open>TextileAccountPathFormat\<close>.\<close>

lemma account_path_segments:
  assumes "0 \<le> i" "i < 2 ^ 32"
  shows "IsValidPath (TextileAccountPath i)"
    "path_segments (TextileAccountPath i) = [''44'', ''406'', Utoa (nat i)]"
proof -
  define ds where "ds = [''44'', ''406'', Utoa (nat i)]"
  have path: "TextileAccountPath i = Join ''/'' (''m'' # map (\<lambda>d. d @ [CHR 0x27]) ds)"
    using assms(1) by (simp add: TextileAccountPath_def TextileAccountPrefix_def ds_def Itoa_def)
  have ds: "\<forall>d\<in>set ds. all_digits d \<and> digits_value d < 2 ^ 32"
    using assms Utoa_digits [of "nat i"]
    by (auto simp: ds_def all_digits_def is_digit_def digits_value_def [of "''44''"]
        digits_value_def [of "''406''"] digit_value_def nat_less_iff)
  have "\<forall>d\<in>set ds. CHR ''/'' \<notin> set d"
    using ds not_digit_chars(4) unfolding all_digits_def list_all_iff by blast
  then have "Split CHR ''/'' (TextileAccountPath i) = ''m'' # map (\<lambda>d. d @ [CHR 0x27]) ds"
    unfolding path by (intro Split_Join) auto
  then have seg: "path_segments (TextileAccountPath i) = ds"
    using ds by (auto simp: path_segments_def seg_ok_def TrimRight_seg intro!: map_idI)
  then show "path_segments (TextileAccountPath i) = [''44'', ''406'', Utoa (nat i)]"
    by (simp only: ds_def)
  show "IsValidPath (TextileAccountPath i)"
    unfolding IsValidPath_segments using path ds seg by (intro exI [of _ ds]) (simp add: ds_def)
qed

lemmas path_eval =
  IsValidPath_def pathRegex_def path_segments_def TextileAccountPrefix_def ParseUint32_def
  all_digits_def is_digit_def digits_value_def digit_value_def TrimRight_def

lemma prefix_segments:
  "IsValidPath TextileAccountPrefix" "path_segments TextileAccountPrefix = [''44'', ''406'']"
  by (simp_all add: path_eval)

lemma foldl_account: "map digits_value [''44'', ''406''] = [44, 406]"
  by (simp add: path_eval)

lemma AccountAt_eq:
  assumes "newSeed phrase pass = Inr seed"
  shows "AccountAt hmac newSeed enc58 phrase index pass =
    (let n = nat (index mod 2 ^ 32); master = foldl (child_key hmac) (NewMasterKey hmac seed) [44, 406]
     in if 2 ^ 31 \<le> n then Inl ErrNoPublicDerivation
        else FromRawSeed enc58 (RawSeed (child_key hmac master n)))"
proof -
  define n where "n = nat (index mod 2 ^ 32)"
  define master where "master = foldl (child_key hmac) (NewMasterKey hmac seed) [44, 406]"
  have n: "n < 2 ^ 32" unfolding n_def by (simp add: nat_less_iff)
  have "(word_of_int index :: 32 word) = word_of_int (index mod 2 ^ 32)"
    by (simp add: word_of_int_eq_iff take_bit_eq_mod)
  then have w: "(word_of_int index :: 32 word) = word_of_nat n"
    by (simp add: n_def)
  have "list_all (\<lambda>d. digits_value d < 2 ^ 31) [''44'', ''406'']"
    by (simp add: path_eval)
  then have "DeriveForPath hmac TextileAccountPrefix seed = Inr master"
    unfolding DeriveForPath_eq prefix_segments foldl_account master_def
    using prefix_segments(1) by simp
  then show ?thesis
    using assms Derive_index [OF n, of hmac master]
    by (simp add: AccountAt_def w add.commute [of FirstHardenedIndex])
      (simp add: n_def master_def Let_def)
qed

section \<open>Properties\<close>

text \<open>
  Derivation is total and follows the path: \<open>DeriveForPath\<close> refuses exactly the strings
  that are not \<open>m\<close> followed by one or more \<open>/digits'\<close> segments of 32-bit numbers; for the others
  it returns the key reached by one hardened child step per segment when every number is below
  \<open>2^31\<close>, and \<^verbatim>\<open>ErrNoPublicDerivation\<close> when one is not: \<open>2^31\<close> is added to such a number and the
  sum wraps below the first hardened index, although \<open>IsValidPath\<close> accepts it.
\<close>

lemma DeriveForPath_result:
  "(IsValidPath path \<longleftrightarrow>
     (\<exists>ds. ds \<noteq> [] \<and> path = Join ''/'' (''m'' # map (\<lambda>d. d @ [CHR 0x27]) ds)
        \<and> path_segments path = ds \<and> (\<forall>d\<in>set ds. all_digits d \<and> digits_value d < 2 ^ 32)))
   \<and> DeriveForPath hmac path seed =
     (if \<not> IsValidPath path then Inl ErrInvalidPath
      else if list_all (\<lambda>d. digits_value d < 2 ^ 31) (path_segments path)
      then Inr (foldl (child_key hmac) (NewMasterKey hmac seed)
                  (map digits_value (path_segments path)))
      else Inl ErrNoPublicDerivation)"
  by (rule conjI [OF IsValidPath_segments DeriveForPath_eq])

text \<open>
  The account at index \<open>i\<close> of a wallet is the key at the path
  \<open>m/44'/406'/i'\<close> of \<^verbatim>\<open>TextileAccountPathFormat\<close>, for every index that has such a key.
\<close>

lemma AccountAt_is_path_key:
  assumes "newSeed phrase pass = Inr seed" "0 \<le> i" "i < 2 ^ 31"
  shows "\<exists>key. DeriveForPath hmac (TextileAccountPath i) seed = Inr key
    \<and> AccountAt hmac newSeed enc58 phrase i pass = FromRawSeed enc58 (RawSeed key)"
proof -
  have seg: "IsValidPath (TextileAccountPath i)"
    "path_segments (TextileAccountPath i) = [''44'', ''406'', Utoa (nat i)]"
    using account_path_segments assms by simp_all
  have small: "digits_value ''44'' < 2 ^ 31" "digits_value ''406'' < 2 ^ 31"
    by (simp_all add: path_eval)
  have "nat (i mod 2 ^ 32) = nat i" "\<not> 2 ^ 31 \<le> nat i" using assms by auto
  then show ?thesis
    using AccountAt_eq [of newSeed phrase pass seed hmac enc58 i] assms(1) seg small foldl_account
    by (simp add: DeriveForPath_eq Let_def)
qed

text \<open>
  The index is an \<open>int\<close> truncated to 32 bits: two indices that agree modulo \<open>2^32\<close> give the
  same account, so account \<open>2^32\<close> is account 0, and an index whose low half is at least
  \<open>2^31\<close>, such as \<open>-1\<close>, is refused with \<^verbatim>\<open>ErrNoPublicDerivation\<close>.
\<close>

lemma AccountAt_truncates_index:
  assumes "newSeed phrase pass = Inr seed"
  shows "AccountAt hmac newSeed enc58 phrase (i + 2 ^ 32) pass
           = AccountAt hmac newSeed enc58 phrase i pass
    \<and> (2 ^ 31 \<le> i mod 2 ^ 32 \<longrightarrow>
         AccountAt hmac newSeed enc58 phrase i pass = Inl ErrNoPublicDerivation)"
  using assms by (simp add: AccountAt_eq Let_def le_nat_iff)

end
