(* ===== verification/SchemaSteps.thy ===== *)
theory SchemaSteps
  imports GoUtil
begin

text \<open>
  \<^verbatim>\<open>schema/schema.go\<close> and the schema mill of \<^verbatim>\<open>mill/schema.go\<close>: the links of a thread schema, the
  order in which they are processed, and what the mill accepts as a schema. A Go map is a list
  of named links without duplicate names; its iteration order is not specified, so it is the
  parameter \<open>ord\<close>, which may differ in every round of \<open>Steps\<close>. The specification is the
  predicate \<open>valid_order\<close>: a step order in which every link that uses another comes after it.
\<close>

section \<open>Data\<close>

record Link =
  Use :: string
  lnk_Pin :: bool
  lnk_Plaintext :: bool
  lnk_Mill :: string
  lnk_Opts :: "(string \<times> string) list"
  lnk_JsonSchema :: "string option"

type_synonym links = "(string \<times> Link) list"

record Node =
  nd_Name :: string
  nd_Pin :: bool
  nd_Plaintext :: bool
  nd_Mill :: string
  nd_Opts :: "(string \<times> string) list"
  nd_JsonSchema :: "string option"
  nd_Links :: links

definition FileTag :: string where
  "FileTag = '':file''"

definition SingleFileTag :: string where
  "SingleFileTag = '':single''"

definition ValidateMill :: "string \<Rightarrow> bool" where
  "ValidateMill mill \<longleftrightarrow>
     mill \<in> set [''/schema'', ''/blob'', ''/image/resize'', ''/image/exif'', ''/json'']"

text \<open>An IPLD link carries a name; the code reads nothing else of it here.\<close>

fun LinkByName :: "(string \<times> 'cid) list \<Rightarrow> string list \<Rightarrow> (string \<times> 'cid) option" where
  "LinkByName [] names = None"
| "LinkByName (l # ls) names =
     (if list_ex (\<lambda>n. fst l = n) names then Some l else LinkByName ls names)"

section \<open>The order of the steps\<close>

text \<open>One pass over the remaining links: the links not placed, and the steps.\<close>

fun orderLinks :: "links \<Rightarrow> links \<Rightarrow> links \<times> links" where
  "orderLinks [] steps = ([], steps)"
| "orderLinks ((name, link) # rest) steps =
     (if Use link = FileTag then orderLinks rest ((name, link) # steps)
      else if list_ex (\<lambda>s. Use link = fst s) steps then orderLinks rest (steps @ [(name, link)])
      else case orderLinks rest steps of (unused, st) \<Rightarrow> ((name, link) # unused, st))"

text \<open>The loop of \<open>Steps\<close>: \<open>n\<close> is the number of links and \<open>i\<close> the round.\<close>

function Steps_from ::
  "(nat \<Rightarrow> links \<Rightarrow> links) \<Rightarrow> nat \<Rightarrow> nat \<Rightarrow> links \<Rightarrow> links \<Rightarrow> goerr + links" where
  "Steps_from ord n i run steps =
     (if n < i then Inl ErrLinkOrderNotSolvable
      else case orderLinks (ord i run) steps of (next, steps') \<Rightarrow>
        if next = [] then Inr steps' else Steps_from ord n (i + 1) next steps')"
  by pat_completeness auto
termination
  by (relation "measure (\<lambda>(_, n, i, _, _). Suc n - i)") auto

declare Steps_from.simps [simp del]

definition Steps :: "(nat \<Rightarrow> links \<Rightarrow> links) \<Rightarrow> links \<Rightarrow> goerr + links" where
  "Steps ord links = Steps_from ord (length links) 0 links []"

section \<open>The specification\<close>

fun ordered_from :: "string set \<Rightarrow> links \<Rightarrow> bool" where
  "ordered_from seen [] \<longleftrightarrow> True"
| "ordered_from seen ((name, link) # ss) \<longleftrightarrow>
     (Use link = FileTag \<or> Use link \<in> seen) \<and> ordered_from (insert name seen) ss"

definition valid_order :: "links \<Rightarrow> links \<Rightarrow> bool" where
  "valid_order links ss \<longleftrightarrow> mset ss = mset links \<and> ordered_from {} ss"

definition any_order :: "(nat \<Rightarrow> links \<Rightarrow> links) \<Rightarrow> bool" where
  "any_order ord \<longleftrightarrow> (\<forall>i ls. mset (ord i ls) = mset ls)"

lemma ordered_from_mono: "ordered_from A ss \<Longrightarrow> A \<subseteq> B \<Longrightarrow> ordered_from B ss"
proof (induction ss arbitrary: A B)
  case (Cons s ss)
  then show ?case by (cases s) (auto intro: Cons.IH)
qed simp

lemma ordered_from_append:
  "ordered_from A (xs @ ys) \<longleftrightarrow> ordered_from A xs \<and> ordered_from (A \<union> fst ` set xs) ys"
proof (induction xs arbitrary: A)
  case (Cons x xs)
  then show ?case by (cases x) (simp add: Un_left_commute)
qed simp

lemma orderLinks_keeps:
  assumes "orderLinks ls steps = (unused, steps')"
  shows "mset unused + mset steps' = mset ls + mset steps"
    and "ordered_from {} steps \<Longrightarrow> ordered_from {} steps'"
proof -
  have "mset unused + mset steps' = mset ls + mset steps
      \<and> (ordered_from {} steps \<longrightarrow> ordered_from {} steps')"
    using assms
  proof (induction ls steps arbitrary: unused rule: orderLinks.induct)
    case (2 name link rest steps)
    show ?case
    proof (cases "Use link = FileTag")
      case True
      then show ?thesis using 2 by (auto intro: ordered_from_mono)
    next
      case False
      show ?thesis
      proof (cases "list_ex (\<lambda>s. Use link = fst s) steps")
        case True
        then have "Use link \<in> fst ` set steps" by (auto simp: list_ex_iff)
        then show ?thesis using 2 False True by (auto simp: ordered_from_append)
      next
        case stuck: False
        then show ?thesis using 2 False by (auto split: prod.splits)
      qed
    qed
  qed simp
  then show "mset unused + mset steps' = mset ls + mset steps"
    and "ordered_from {} steps \<Longrightarrow> ordered_from {} steps'" by blast+
qed

text \<open>A pass that places nothing leaves the steps alone, and no link was ready.\<close>

lemma orderLinks_progress:
  assumes "orderLinks ls steps = (unused, steps')"
  shows "length unused < length ls
    \<or> (\<forall>(name, link)\<in>set ls. Use link \<noteq> FileTag \<and> Use link \<notin> fst ` set steps)"
  using assms
proof (induction ls steps arbitrary: unused rule: orderLinks.induct)
  case (2 name link rest steps)
  have short: "length (fst (orderLinks xs ys)) \<le> length xs" for xs ys
    using orderLinks_keeps(1) [of xs ys] 
  proof (induction xs ys rule: orderLinks.induct)
    case (2 n l r s)
    then show ?case by (auto split: prod.splits) 
  qed simp
  show ?case
    using 2 short [of rest "(name, link) # steps"] short [of rest "steps @ [(name, link)]"]
    by (auto simp: list_ex_iff split: if_splits prod.splits)
qed simp

text \<open>When no remaining link is ready, no valid order exists.\<close>

lemma stuck_unsolvable:
  assumes valid: "valid_order links ss" and all: "mset run + mset steps = mset links"
    and stuck: "\<forall>(name, link)\<in>set run. Use link \<noteq> FileTag \<and> Use link \<notin> fst ` set steps"
  shows "run = []"
proof (rule ccontr)
  assume "run \<noteq> []"
  have m: "mset ss = mset run + mset steps" using valid all by (simp add: valid_order_def)
  then have members: "set ss = set run \<union> set steps" by (metis set_mset_mset set_mset_union)
  then have "\<exists>x\<in>set ss. x \<in> set run" using \<open>run \<noteq> []\<close> by (metis UnI1 list.set_sel(1))
  then obtain pre name link post where ss: "ss = pre @ (name, link) # post"
    and x: "(name, link) \<in> set run" and first: "\<forall>y\<in>set pre. y \<notin> set run"
    using split_list_first_prop [of ss "\<lambda>x. x \<in> set run"] by (metis prod.collapse)
  have "Use link = FileTag \<or> Use link \<in> fst ` set pre"
    using valid by (simp add: valid_order_def ss ordered_from_append)
  moreover have "set pre \<subseteq> set steps" using members first by (auto simp: ss)
  ultimately show False using stuck x by fastforce
qed

lemma Steps_from_sound:
  assumes "any_order ord" "ordered_from {} steps" "mset run + mset steps = mset links"
    and "Steps_from ord n i run steps = Inr ss"
  shows "valid_order links ss"
  using assms
proof (induction ord n i run steps rule: Steps_from.induct)
  case (1 ord n i run steps)
  obtain unused steps' where o: "orderLinks (ord i run) steps = (unused, steps')" by fastforce
  have m: "mset unused + mset steps' = mset links"
    using orderLinks_keeps(1) [OF o] 1(2,4) by (simp add: any_order_def)
  have ok: "ordered_from {} steps'" using orderLinks_keeps(2) [OF o] 1(3) by simp
  show ?case
  proof (cases "unused = []")
    case True
    then show ?thesis using 1(5) o m ok
      by (simp add: Steps_from.simps [of ord n i] valid_order_def split: if_splits)
  next
    case False
    have le: "\<not> n < i" using 1(5) by (auto simp: Steps_from.simps [of ord n i])
    then have "Steps_from ord n (i + 1) unused steps' = Inr ss"
      using 1(5) o False by (simp add: Steps_from.simps [of ord n i])
    then show ?thesis using 1(1) [OF le o [symmetric] False 1(2) ok m] by simp
  qed
qed

lemma Steps_from_complete:
  assumes "any_order ord" "mset run + mset steps = mset links" "i + length run \<le> n"
    and "valid_order links ss"
  shows "\<exists>ss'. Steps_from ord n i run steps = Inr ss'"
  using assms
proof (induction ord n i run steps rule: Steps_from.induct)
  case (1 ord n i run steps)
  obtain unused steps' where o: "orderLinks (ord i run) steps = (unused, steps')" by fastforce
  have om: "mset (ord i run) = mset run" using 1(2) by (simp add: any_order_def)
  have m: "mset unused + mset steps' = mset links"
    using orderLinks_keeps(1) [OF o] 1(3) om by simp
  have le: "\<not> n < i" using 1(4) by simp
  show ?case
  proof (cases "unused = []")
    case True
    then show ?thesis using le o by (simp add: Steps_from.simps [of ord n i])
  next
    case False
    have "mset (ord i run) + mset steps = mset links" using 1(3) om by simp
    then have "ord i run = []
        \<or> \<not> (\<forall>(name, link)\<in>set (ord i run). Use link \<noteq> FileTag \<and> Use link \<notin> fst ` set steps)"
      using stuck_unsolvable [OF 1(5)] by blast
    moreover have "ord i run \<noteq> []" using False o by auto
    ultimately have "length unused < length (ord i run)" using orderLinks_progress [OF o] by blast
    then have "i + 1 + length unused \<le> n" using 1(4) om by (metis add.assoc add_le_cancel_left
          le_trans less_eq_Suc_le plus_1_eq_Suc size_mset)
    then have "\<exists>ss'. Steps_from ord n (i + 1) unused steps' = Inr ss'"
      using 1(1) [OF le o [symmetric] False 1(2) m _ 1(5)] by simp
    then show ?thesis using le o False by (simp add: Steps_from.simps [of ord n i])
  qed
qed

lemma Steps_error: "Steps_from ord n i run steps = Inl e \<Longrightarrow> e = ErrLinkOrderNotSolvable"
proof (induction ord n i run steps rule: Steps_from.induct)
  case (1 ord n i run steps)
  then show ?case
    by (subst (asm) Steps_from.simps) (auto split: if_splits prod.splits)
qed

lemma Steps_valid:
  assumes "any_order ord"
  shows "case Steps ord links of
      Inr ss \<Rightarrow> valid_order links ss
    | Inl e \<Rightarrow> e = ErrLinkOrderNotSolvable \<and> (\<nexists>ss. valid_order links ss)"
proof (cases "Steps ord links")
  case (Inl e)
  have "(\<nexists>ss. valid_order links ss)"
    using Steps_from_complete [OF assms, of links "[]" links 0 "length links"] Inl
    by (auto simp: Steps_def)
  then show ?thesis using Inl Steps_error by (simp add: Steps_def)
next
  case (Inr ss)
  then show ?thesis
    using Steps_from_sound [OF assms, of "[]" links links] by (simp add: Steps_def)
qed

section \<open>The schema mill\<close>

text \<open>
  \<^verbatim>\<open>Schema.Mill\<close> of \<^verbatim>\<open>mill/schema.go\<close>. The protobuf JSON decoder and encoder and the JSON schema
  compiler are libraries: \<open>parse\<close>, \<open>print_node\<close> and \<open>badJson\<close>. \<open>ordl\<close> is the iteration order of the
  loop over the links.
\<close>

definition checkMill :: "(string \<Rightarrow> bool) \<Rightarrow> string \<Rightarrow> string option \<Rightarrow> goerr + unit" where
  "checkMill badJson mill jschema =
     (if \<not> ValidateMill mill then Inl (ErrMsg ''schema contains an invalid mill'')
      else if mill = ''/json'' then
        (case jschema of
           None \<Rightarrow> Inl (ErrMsg ''json mill requires a json schema'')
         | Some js \<Rightarrow> if badJson js then Inl (ErrMsg ''json schema is not valid'') else Inr ())
      else Inr ())"

fun checkLinks :: "(string \<Rightarrow> bool) \<Rightarrow> links \<Rightarrow> goerr + unit" where
  "checkLinks badJson [] = Inr ()"
| "checkLinks badJson ((name, link) # rest) =
     (case checkMill badJson (lnk_Mill link) (lnk_JsonSchema link) of
        Inl e \<Rightarrow> Inl e | Inr _ \<Rightarrow> checkLinks badJson rest)"

definition Schema_Mill ::
  "('i \<Rightarrow> goerr + Node) \<Rightarrow> (Node \<Rightarrow> goerr + 'o) \<Rightarrow> (string \<Rightarrow> bool) \<Rightarrow> (links \<Rightarrow> links)
   \<Rightarrow> (nat \<Rightarrow> links \<Rightarrow> links) \<Rightarrow> 'i \<Rightarrow> goerr + 'o" where
  "Schema_Mill parse print_node badJson ordl ord input =
     (case parse input of Inl e \<Rightarrow> Inl e | Inr node \<Rightarrow>
      (case (if nd_Mill node = [] then
               if length (nd_Links node) = 0 then Inl (ErrMsg ''schema does not create any files'')
               else case checkLinks badJson (ordl (nd_Links node)) of Inl e \<Rightarrow> Inl e | Inr _ \<Rightarrow>
                    (case Steps ord (nd_Links node) of Inl e \<Rightarrow> Inl e | Inr _ \<Rightarrow> Inr ())
             else checkMill badJson (nd_Mill node) (nd_JsonSchema node))
       of Inl e \<Rightarrow> Inl e | Inr _ \<Rightarrow> print_node node))"

text \<open>What the mill should accept.\<close>

definition good_mill :: "(string \<Rightarrow> bool) \<Rightarrow> string \<Rightarrow> string option \<Rightarrow> bool" where
  "good_mill badJson mill js \<longleftrightarrow>
     ValidateMill mill \<and> (mill = ''/json'' \<longrightarrow> (\<exists>j. js = Some j \<and> \<not> badJson j))"

definition good_schema :: "(string \<Rightarrow> bool) \<Rightarrow> Node \<Rightarrow> bool" where
  "good_schema badJson node \<longleftrightarrow>
     (if nd_Mill node = []
      then nd_Links node \<noteq> []
         \<and> (\<forall>l\<in>snd ` set (nd_Links node). good_mill badJson (lnk_Mill l) (lnk_JsonSchema l))
         \<and> (\<exists>ss. valid_order (nd_Links node) ss)
      else good_mill badJson (nd_Mill node) (nd_JsonSchema node))"

lemma checkMill_Inr_iff: "checkMill badJson m js = Inr u \<longleftrightarrow> good_mill badJson m js"
  by (auto simp: checkMill_def good_mill_def split: option.splits)

lemma checkLinks_Inr_iff:
  "checkLinks badJson ls = Inr u
     \<longleftrightarrow> (\<forall>l\<in>snd ` set ls. good_mill badJson (lnk_Mill l) (lnk_JsonSchema l))"
proof (induction ls)
  case (Cons l ls)
  obtain n k where l: "l = (n, k)" by fastforce
  show ?case
    using Cons.IH checkMill_Inr_iff [of badJson "lnk_Mill k" "lnk_JsonSchema k"]
    by (auto simp: l split: sum.splits)
qed simp

section \<open>Properties\<close>

text \<open>
  C36. \<open>Steps\<close> solves the ordering problem exactly, whatever order Go iterates over the map in:
  when it returns steps they are a permutation of the links in which every link that uses
  another comes after it, and when it returns \<^verbatim>\<open>ErrLinkOrderNotSolvable\<close> no such order exists; it
  returns nothing else and always terminates.
\<close>

theorem Steps_solves_order:
  assumes "any_order ord"
  shows "case Steps ord links of
      Inr ss \<Rightarrow> valid_order links ss
    | Inl e \<Rightarrow> e = ErrLinkOrderNotSolvable \<and> (\<nexists>ss. valid_order links ss)"
  by (rule Steps_valid [OF assms])

definition sample_link :: "string \<Rightarrow> Link" where
  "sample_link use = \<lparr>Use = use, lnk_Pin = False, lnk_Plaintext = False, lnk_Mill = ''/blob'',
     lnk_Opts = [], lnk_JsonSchema = None\<rparr>"

theorem Steps_solves_order_witness:
  "valid_order [(''small'', sample_link ''large''), (''large'', sample_link '':file'')]
     [(''large'', sample_link '':file''), (''small'', sample_link ''large'')]
   \<and> (\<nexists>ss. valid_order [(''a'', sample_link ''b''), (''b'', sample_link ''a'')] ss)"
proof
  have o: "any_order (\<lambda>i ls. rev ls)" by (simp add: any_order_def)
  have "Steps (\<lambda>i ls. rev ls) [(''small'', sample_link ''large''), (''large'', sample_link '':file'')]
      = Inr [(''large'', sample_link '':file''), (''small'', sample_link ''large'')]"
    by (simp add: Steps_def Steps_from.simps FileTag_def sample_link_def)
  then show "valid_order [(''small'', sample_link ''large''), (''large'', sample_link '':file'')]
     [(''large'', sample_link '':file''), (''small'', sample_link ''large'')]"
    using Steps_solves_order [OF o, of "[(''small'', sample_link ''large''), (''large'', sample_link '':file'')]"]
    by simp
  have "Steps (\<lambda>i ls. rev ls) [(''a'', sample_link ''b''), (''b'', sample_link ''a'')]
      = Inl ErrLinkOrderNotSolvable"
    by (simp add: Steps_def Steps_from.simps FileTag_def sample_link_def)
  then show "\<nexists>ss. valid_order [(''a'', sample_link ''b''), (''b'', sample_link ''a'')] ss"
    using Steps_solves_order [OF o, of "[(''a'', sample_link ''b''), (''b'', sample_link ''a'')]"]
    by simp
qed

text \<open>
  The schema mill accepts exactly the good schemas: either the top node names a built-in mill,
  or every link does and the links can be ordered; a \<open>/json\<close> mill needs a valid JSON schema. The
  iteration orders change at most which error a bad schema gets.
\<close>

lemma Schema_Mill_accepts_good:
  assumes "any_order ord" "\<And>ls. mset (ordl ls) = mset ls" "parse input = Inr node"
  shows "case Schema_Mill parse print_node badJson ordl ord input of
      Inr out \<Rightarrow> good_schema badJson node \<and> print_node node = Inr out
    | Inl e \<Rightarrow> \<not> good_schema badJson node \<or> print_node node = Inl e"
proof -
  have links: "set (ordl (nd_Links node)) = set (nd_Links node)"
    using assms(2) by (metis set_mset_mset)
  show ?thesis
    using Steps_valid [OF assms(1), of "nd_Links node"] checkLinks_Inr_iff [of badJson "ordl (nd_Links node)"]
      checkMill_Inr_iff [of badJson "nd_Mill node" "nd_JsonSchema node"] assms(3)
    by (auto simp: Schema_Mill_def good_schema_def links split: sum.splits)
qed

end
