(* ===== verification/Pb.thy ===== *)
theory Pb
  imports GoUtil
begin

text \<open>
  The protobuf messages of \<^verbatim>\<open>pb/model.pb.go\<close> that the stores and handlers work on, as records with
  a prefix for each message, and their enumerations. A Go enumeration is an \<open>int32\<close> that may hold
  a number without a name when it comes from the wire or a table, hence the last constructor. A
  nil timestamp or nil message is \<open>None\<close>; a protobuf \<open>Struct\<close> is kept as its JSON text.
\<close>

section \<open>Enumerations\<close>

datatype BlockType =
    Block_MERGE
  | Block_IGNORE
  | Block_FLAG
  | Block_JOIN
  | Block_ANNOUNCE
  | Block_LEAVE
  | Block_TEXT
  | Block_FILES
  | Block_COMMENT
  | Block_LIKE
  | Block_ADD
  | BlockType_Other int

fun BlockType_to_int :: "BlockType \<Rightarrow> int" where
  "BlockType_to_int Block_MERGE = 0"
| "BlockType_to_int Block_IGNORE = 1"
| "BlockType_to_int Block_FLAG = 2"
| "BlockType_to_int Block_JOIN = 3"
| "BlockType_to_int Block_ANNOUNCE = 4"
| "BlockType_to_int Block_LEAVE = 5"
| "BlockType_to_int Block_TEXT = 6"
| "BlockType_to_int Block_FILES = 7"
| "BlockType_to_int Block_COMMENT = 8"
| "BlockType_to_int Block_LIKE = 9"
| "BlockType_to_int Block_ADD = 50"
| "BlockType_to_int (BlockType_Other n) = n"

definition BlockType_of_int :: "int \<Rightarrow> BlockType" where
  "BlockType_of_int n =
     (if n = 0 then Block_MERGE
      else if n = 1 then Block_IGNORE
      else if n = 2 then Block_FLAG
      else if n = 3 then Block_JOIN
      else if n = 4 then Block_ANNOUNCE
      else if n = 5 then Block_LEAVE
      else if n = 6 then Block_TEXT
      else if n = 7 then Block_FILES
      else if n = 8 then Block_COMMENT
      else if n = 9 then Block_LIKE
      else if n = 50 then Block_ADD
      else BlockType_Other n)"

text \<open>A value is canonical when it does not hold a named number under the last constructor.\<close>

definition BlockType_canon :: "BlockType \<Rightarrow> bool" where
  "BlockType_canon t \<longleftrightarrow> (case t of BlockType_Other n \<Rightarrow> n \<notin> {0, 1, 2, 3, 4, 5, 6, 7, 8, 9, 50} | _ \<Rightarrow> True)"

lemma BlockType_of_to_int [simp]: "BlockType_canon t \<Longrightarrow> BlockType_of_int (BlockType_to_int t) = t"
  by (cases t) (simp_all add: BlockType_of_int_def BlockType_canon_def)

datatype BlockStatus =
    Block_READY
  | Block_QUEUED
  | Block_PENDING
  | BlockStatus_Other int

fun BlockStatus_to_int :: "BlockStatus \<Rightarrow> int" where
  "BlockStatus_to_int Block_READY = 0"
| "BlockStatus_to_int Block_QUEUED = 1"
| "BlockStatus_to_int Block_PENDING = 2"
| "BlockStatus_to_int (BlockStatus_Other n) = n"

definition BlockStatus_of_int :: "int \<Rightarrow> BlockStatus" where
  "BlockStatus_of_int n =
     (if n = 0 then Block_READY
      else if n = 1 then Block_QUEUED
      else if n = 2 then Block_PENDING
      else BlockStatus_Other n)"

definition BlockStatus_canon :: "BlockStatus \<Rightarrow> bool" where
  "BlockStatus_canon t \<longleftrightarrow> (case t of BlockStatus_Other n \<Rightarrow> n \<notin> {0, 1, 2} | _ \<Rightarrow> True)"

lemma BlockStatus_of_to_int [simp]: "BlockStatus_canon t \<Longrightarrow> BlockStatus_of_int (BlockStatus_to_int t) = t"
  by (cases t) (simp_all add: BlockStatus_of_int_def BlockStatus_canon_def)

datatype ThreadType =
    Thread_PRIVATE
  | Thread_READ_ONLY
  | Thread_PUBLIC
  | Thread_OPEN
  | ThreadType_Other int

fun ThreadType_to_int :: "ThreadType \<Rightarrow> int" where
  "ThreadType_to_int Thread_PRIVATE = 0"
| "ThreadType_to_int Thread_READ_ONLY = 1"
| "ThreadType_to_int Thread_PUBLIC = 2"
| "ThreadType_to_int Thread_OPEN = 3"
| "ThreadType_to_int (ThreadType_Other n) = n"

definition ThreadType_of_int :: "int \<Rightarrow> ThreadType" where
  "ThreadType_of_int n =
     (if n = 0 then Thread_PRIVATE
      else if n = 1 then Thread_READ_ONLY
      else if n = 2 then Thread_PUBLIC
      else if n = 3 then Thread_OPEN
      else ThreadType_Other n)"

definition ThreadType_canon :: "ThreadType \<Rightarrow> bool" where
  "ThreadType_canon t \<longleftrightarrow> (case t of ThreadType_Other n \<Rightarrow> n \<notin> {0, 1, 2, 3} | _ \<Rightarrow> True)"

lemma ThreadType_of_to_int [simp]: "ThreadType_canon t \<Longrightarrow> ThreadType_of_int (ThreadType_to_int t) = t"
  by (cases t) (simp_all add: ThreadType_of_int_def ThreadType_canon_def)

datatype Sharing =
    Thread_NOT_SHARED
  | Thread_INVITE_ONLY
  | Thread_SHARED
  | Sharing_Other int

fun Sharing_to_int :: "Sharing \<Rightarrow> int" where
  "Sharing_to_int Thread_NOT_SHARED = 0"
| "Sharing_to_int Thread_INVITE_ONLY = 1"
| "Sharing_to_int Thread_SHARED = 2"
| "Sharing_to_int (Sharing_Other n) = n"

definition Sharing_of_int :: "int \<Rightarrow> Sharing" where
  "Sharing_of_int n =
     (if n = 0 then Thread_NOT_SHARED
      else if n = 1 then Thread_INVITE_ONLY
      else if n = 2 then Thread_SHARED
      else Sharing_Other n)"

definition Sharing_canon :: "Sharing \<Rightarrow> bool" where
  "Sharing_canon t \<longleftrightarrow> (case t of Sharing_Other n \<Rightarrow> n \<notin> {0, 1, 2} | _ \<Rightarrow> True)"

lemma Sharing_of_to_int [simp]: "Sharing_canon t \<Longrightarrow> Sharing_of_int (Sharing_to_int t) = t"
  by (cases t) (simp_all add: Sharing_of_int_def Sharing_canon_def)

datatype ThreadState =
    Thread_LOADING_TAIL
  | Thread_LOADED
  | Thread_LOADING_HEAD
  | ThreadState_Other int

fun ThreadState_to_int :: "ThreadState \<Rightarrow> int" where
  "ThreadState_to_int Thread_LOADING_TAIL = 0"
| "ThreadState_to_int Thread_LOADED = 1"
| "ThreadState_to_int Thread_LOADING_HEAD = 2"
| "ThreadState_to_int (ThreadState_Other n) = n"

definition ThreadState_of_int :: "int \<Rightarrow> ThreadState" where
  "ThreadState_of_int n =
     (if n = 0 then Thread_LOADING_TAIL
      else if n = 1 then Thread_LOADED
      else if n = 2 then Thread_LOADING_HEAD
      else ThreadState_Other n)"

definition ThreadState_canon :: "ThreadState \<Rightarrow> bool" where
  "ThreadState_canon t \<longleftrightarrow> (case t of ThreadState_Other n \<Rightarrow> n \<notin> {0, 1, 2} | _ \<Rightarrow> True)"

lemma ThreadState_of_to_int [simp]: "ThreadState_canon t \<Longrightarrow> ThreadState_of_int (ThreadState_to_int t) = t"
  by (cases t) (simp_all add: ThreadState_of_int_def ThreadState_canon_def)

datatype NotificationType =
    Notification_INVITE_RECEIVED
  | Notification_ACCOUNT_PEER_JOINED
  | Notification_ACCOUNT_PEER_LEFT
  | Notification_PEER_JOINED
  | Notification_PEER_LEFT
  | Notification_MESSAGE_ADDED
  | Notification_FILES_ADDED
  | Notification_COMMENT_ADDED
  | Notification_LIKE_ADDED
  | NotificationType_Other int

fun NotificationType_to_int :: "NotificationType \<Rightarrow> int" where
  "NotificationType_to_int Notification_INVITE_RECEIVED = 0"
| "NotificationType_to_int Notification_ACCOUNT_PEER_JOINED = 1"
| "NotificationType_to_int Notification_ACCOUNT_PEER_LEFT = 8"
| "NotificationType_to_int Notification_PEER_JOINED = 2"
| "NotificationType_to_int Notification_PEER_LEFT = 3"
| "NotificationType_to_int Notification_MESSAGE_ADDED = 4"
| "NotificationType_to_int Notification_FILES_ADDED = 5"
| "NotificationType_to_int Notification_COMMENT_ADDED = 6"
| "NotificationType_to_int Notification_LIKE_ADDED = 7"
| "NotificationType_to_int (NotificationType_Other n) = n"

definition NotificationType_of_int :: "int \<Rightarrow> NotificationType" where
  "NotificationType_of_int n =
     (if n = 0 then Notification_INVITE_RECEIVED
      else if n = 1 then Notification_ACCOUNT_PEER_JOINED
      else if n = 8 then Notification_ACCOUNT_PEER_LEFT
      else if n = 2 then Notification_PEER_JOINED
      else if n = 3 then Notification_PEER_LEFT
      else if n = 4 then Notification_MESSAGE_ADDED
      else if n = 5 then Notification_FILES_ADDED
      else if n = 6 then Notification_COMMENT_ADDED
      else if n = 7 then Notification_LIKE_ADDED
      else NotificationType_Other n)"

definition NotificationType_canon :: "NotificationType \<Rightarrow> bool" where
  "NotificationType_canon t \<longleftrightarrow> (case t of NotificationType_Other n \<Rightarrow> n \<notin> {0, 1, 8, 2, 3, 4, 5, 6, 7} | _ \<Rightarrow> True)"

lemma NotificationType_of_to_int [simp]: "NotificationType_canon t \<Longrightarrow> NotificationType_of_int (NotificationType_to_int t) = t"
  by (cases t) (simp_all add: NotificationType_of_int_def NotificationType_canon_def)

datatype RequestType =
    CafeRequest_STORE
  | CafeRequest_UNSTORE
  | CafeRequest_STORE_THREAD
  | CafeRequest_UNSTORE_THREAD
  | CafeRequest_INBOX
  | RequestType_Other int

fun RequestType_to_int :: "RequestType \<Rightarrow> int" where
  "RequestType_to_int CafeRequest_STORE = 0"
| "RequestType_to_int CafeRequest_UNSTORE = 3"
| "RequestType_to_int CafeRequest_STORE_THREAD = 1"
| "RequestType_to_int CafeRequest_UNSTORE_THREAD = 4"
| "RequestType_to_int CafeRequest_INBOX = 2"
| "RequestType_to_int (RequestType_Other n) = n"

definition RequestType_of_int :: "int \<Rightarrow> RequestType" where
  "RequestType_of_int n =
     (if n = 0 then CafeRequest_STORE
      else if n = 3 then CafeRequest_UNSTORE
      else if n = 1 then CafeRequest_STORE_THREAD
      else if n = 4 then CafeRequest_UNSTORE_THREAD
      else if n = 2 then CafeRequest_INBOX
      else RequestType_Other n)"

definition RequestType_canon :: "RequestType \<Rightarrow> bool" where
  "RequestType_canon t \<longleftrightarrow> (case t of RequestType_Other n \<Rightarrow> n \<notin> {0, 3, 1, 4, 2} | _ \<Rightarrow> True)"

lemma RequestType_of_to_int [simp]: "RequestType_canon t \<Longrightarrow> RequestType_of_int (RequestType_to_int t) = t"
  by (cases t) (simp_all add: RequestType_of_int_def RequestType_canon_def)

datatype RequestStatus =
    CafeRequest_NEW
  | CafeRequest_PENDING
  | CafeRequest_COMPLETE
  | RequestStatus_Other int

fun RequestStatus_to_int :: "RequestStatus \<Rightarrow> int" where
  "RequestStatus_to_int CafeRequest_NEW = 0"
| "RequestStatus_to_int CafeRequest_PENDING = 1"
| "RequestStatus_to_int CafeRequest_COMPLETE = 2"
| "RequestStatus_to_int (RequestStatus_Other n) = n"

definition RequestStatus_of_int :: "int \<Rightarrow> RequestStatus" where
  "RequestStatus_of_int n =
     (if n = 0 then CafeRequest_NEW
      else if n = 1 then CafeRequest_PENDING
      else if n = 2 then CafeRequest_COMPLETE
      else RequestStatus_Other n)"

definition RequestStatus_canon :: "RequestStatus \<Rightarrow> bool" where
  "RequestStatus_canon t \<longleftrightarrow> (case t of RequestStatus_Other n \<Rightarrow> n \<notin> {0, 1, 2} | _ \<Rightarrow> True)"

lemma RequestStatus_of_to_int [simp]: "RequestStatus_canon t \<Longrightarrow> RequestStatus_of_int (RequestStatus_to_int t) = t"
  by (cases t) (simp_all add: RequestStatus_of_int_def RequestStatus_canon_def)

section \<open>Messages\<close>

record Cafe =
  cafe_Peer :: string
  cafe_Address :: string
  cafe_Api :: string
  cafe_Protocol :: string
  cafe_Node :: string
  cafe_Url :: string

record Peer =
  peer_Id :: string
  peer_Address :: string
  peer_Name :: string
  peer_Avatar :: string
  peer_Inboxes :: "Cafe list"
  peer_Created :: "timestamp option"
  peer_Updated :: "timestamp option"

record User =
  user_Address :: string
  user_Name :: string
  user_Avatar :: string

record Thread =
  thr_Id :: string
  thr_Key :: string
  thr_Sk :: bytes
  thr_Name :: string
  thr_Schema :: string
  thr_Initiator :: string
  thr_Type :: ThreadType
  thr_Sharing :: Sharing
  thr_Whitelist :: "string list"
  thr_State :: ThreadState
  thr_Head :: string

record ThreadPeer =
  tp_Id :: string
  tp_Thread :: string
  tp_Welcomed :: bool

record Block =
  blk_Id :: string
  blk_Thread :: string
  blk_Author :: string
  blk_Type :: BlockType
  blk_Date :: "timestamp option"
  blk_Parents :: "string list"
  blk_Target :: string
  blk_Data :: string
  blk_Body :: string
  blk_Status :: BlockStatus
  blk_Attempts :: int

record Envelope =
  env_Type :: int
  env_Payload :: bytes
  env_Request :: int
  env_Response :: bool
  env_Sig :: bytes

record BlockMessage =
  bm_Id :: string
  bm_Peer :: string
  bm_Env :: "Envelope option"
  bm_Date :: "timestamp option"

record Invite =
  inv_Id :: string
  inv_Block :: bytes
  inv_Name :: string
  inv_Inviter :: "Peer option"
  inv_Date :: "timestamp option"
  inv_Parents :: "string list"

record FileIndex =
  file_Mill :: string
  file_Checksum :: string
  file_Source :: string
  file_Opts :: string
  file_Hash :: string
  file_Key :: string
  file_Media :: string
  file_Name :: string
  file_Size :: int
  file_Added :: "timestamp option"
  file_Meta :: "string option"
  file_Targets :: "string list"

record Notification =
  ntf_Id :: string
  ntf_Date :: "timestamp option"
  ntf_Actor :: string
  ntf_Subject :: string
  ntf_SubjectDesc :: string
  ntf_Block :: string
  ntf_Target :: string
  ntf_Type :: NotificationType
  ntf_Body :: string
  ntf_Read :: bool

record CafeSession =
  ses_Id :: string
  ses_Access :: string
  ses_Exp :: "timestamp option"
  ses_Refresh :: string
  ses_Rexp :: "timestamp option"
  ses_Subject :: string
  ses_Type :: string
  ses_Cafe :: Cafe

record CafeRequest =
  req_Id :: string
  req_Peer :: string
  req_Target :: string
  req_Cafe :: Cafe
  req_Group :: string
  req_SyncGroup :: string
  req_Type :: RequestType
  req_Date :: "timestamp option"
  req_Size :: int
  req_Status :: RequestStatus
  req_Attempts :: int
  req_GroupSize :: int
  req_GroupTransferred :: int

record CafeMessage =
  cm_Id :: string
  cm_Peer :: string
  cm_Date :: "timestamp option"
  cm_Attempts :: int

record CafeClientNonce =
  nonce_Value :: string
  nonce_Address :: string
  nonce_Date :: "timestamp option"

record CafeClient =
  cl_Id :: string
  cl_Address :: string
  cl_Created :: "timestamp option"
  cl_Seen :: "timestamp option"
  cl_Token :: string

record CafeToken =
  tok_Id :: string
  tok_Value :: bytes
  tok_Date :: "timestamp option"

record CafeClientThread =
  ct_Id :: string
  ct_Client :: string
  ct_Ciphertext :: bytes

record CafeClientMessage =
  ccm_Id :: string
  ccm_Peer :: string
  ccm_Client :: string
  ccm_Date :: "timestamp option"

end
