(* ===== verification/SqlTable.thy ===== *)
theory SqlTable
  imports TextilePrelude
begin

text \<open>
  What the stores of \<^verbatim>\<open>repo/db\<close> use of the SQL engine, and the contract of a store. A table is the
  list of its rows in rowid order. An insert appends and fails on a taken primary key, a replace
  removes the row with the key and appends, an update keeps the order. \<open>ORDER BY\<close> is a stable
  sort, a negative \<open>LIMIT\<close> is no limit, and a comparison with the result of an empty subselect
  (\<open>NULL\<close>) holds for no row.

  The engine is assumed to execute every statement: I/O errors of the database are not modelled,
  violated unique constraints are. Queries are built by the code as strings; they are modelled as
  predicates on rows, which is their meaning for values without quotes.
\<close>

section \<open>Statements\<close>

type_synonym 'r sql_table = "'r list"

definition sql_insert :: "string \<Rightarrow> ('r \<Rightarrow> 'k) \<Rightarrow> 'r \<Rightarrow> ('r sql_table, unit) go" where
  "sql_insert constraint key row = (\<lambda>t.
     if \<exists>r\<in>set t. key r = key row then (Inl (UniqueFailed constraint), t) else (Inr (), t @ [row]))"

definition sql_replace :: "('r \<Rightarrow> 'k) \<Rightarrow> 'r \<Rightarrow> ('r sql_table, unit) go" where
  "sql_replace key row = go_modify (\<lambda>t. filter (\<lambda>r. key r \<noteq> key row) t @ [row])"

definition sql_delete :: "('r \<Rightarrow> bool) \<Rightarrow> ('r sql_table, unit) go" where
  "sql_delete P = go_modify (filter (\<lambda>r. \<not> P r))"

definition sql_update :: "('r \<Rightarrow> bool) \<Rightarrow> ('r \<Rightarrow> 'r) \<Rightarrow> ('r sql_table, unit) go" where
  "sql_update P f = go_modify (map (\<lambda>r. if P r then f r else r))"

definition sql_select :: "('r \<Rightarrow> bool) \<Rightarrow> 'r sql_table \<Rightarrow> 'r list" where
  "sql_select P t = filter P t"

definition order_asc :: "('r \<Rightarrow> int) \<Rightarrow> 'r list \<Rightarrow> 'r list" where
  "order_asc f rows = sort_key f rows"

definition order_desc :: "('r \<Rightarrow> int) \<Rightarrow> 'r list \<Rightarrow> 'r list" where
  "order_desc f rows = sort_key (\<lambda>r. - f r) rows"

definition sql_limit :: "int \<Rightarrow> 'r list \<Rightarrow> 'r list" where
  "sql_limit n rows = (if n < 0 then rows else take (nat n) rows)"

definition sql_count :: "('r \<Rightarrow> bool) \<Rightarrow> 'r sql_table \<Rightarrow> int" where
  "sql_count P t = int (length (filter P t))"

text \<open>A scalar subselect, and a comparison with it.\<close>

definition sql_scalar :: "('r \<Rightarrow> 'v) \<Rightarrow> ('r \<Rightarrow> bool) \<Rightarrow> 'r sql_table \<Rightarrow> 'v option" where
  "sql_scalar col P t = map_option col (find P t)"

definition sql_less :: "int option \<Rightarrow> int \<Rightarrow> bool" where
  "sql_less bound x = (case bound of None \<Rightarrow> False | Some b \<Rightarrow> x < b)"

definition sql_greater :: "int option \<Rightarrow> int \<Rightarrow> bool" where
  "sql_greater bound x = (case bound of None \<Rightarrow> False | Some b \<Rightarrow> b < x)"

text \<open>The first row of a result, as the \<open>Get\<close> functions read it.\<close>

definition first_row :: "'m list \<Rightarrow> 'm option" where
  "first_row rows = (case rows of [] \<Rightarrow> None | m # _ \<Rightarrow> Some m)"

definition ConflictError :: "goerr \<Rightarrow> bool" where
  "ConflictError e = (case e of UniqueFailed _ \<Rightarrow> True | _ \<Rightarrow> False)"

named_theorems sql_defs "the meaning of the SQL statements"

lemmas [sql_defs] =
  sql_insert_def sql_replace_def sql_delete_def sql_update_def sql_select_def order_asc_def
  order_desc_def sql_limit_def sql_count_def sql_scalar_def sql_less_def sql_greater_def
  first_row_def

lemma set_order [simp]: "set (order_asc f rows) = set rows" "set (order_desc f rows) = set rows"
  by (simp_all add: sql_defs)

lemma mset_order [simp]: "mset (order_asc f rows) = mset rows" "mset (order_desc f rows) = mset rows"
  by (simp_all add: sql_defs)

lemma sorted_order_asc: "sorted (map f (order_asc f rows))"
  by (simp add: order_asc_def)

lemma sql_limit_subset: "set (sql_limit n rows) \<subseteq> set rows"
  by (auto simp: sql_limit_def dest: in_set_takeD)

lemma length_sql_limit: "0 \<le> n \<Longrightarrow> int (length (sql_limit n rows)) = min n (int (length rows))"
  by (auto simp: sql_limit_def min_def nat_le_iff)

lemma first_row_select: "first_row (map f (sql_select P t)) = map_option f (find P t)"
  by (induction t) (simp_all add: sql_defs)

section \<open>The contract of a store\<close>

text \<open>
  A store writes a model as a row (\<open>enc\<close>) and reads rows as models (\<open>dec\<close>); \<open>good\<close> says which
  models the columns can hold. From the two laws follows what every store of the repository
  promises: a stored model is read back, other keys are not touched, and the primary key stays
  unique whatever is executed.
\<close>

locale model_store =
  fixes enc :: "'m \<Rightarrow> 'r" and dec :: "'r \<Rightarrow> 'm"
    and mkey :: "'m \<Rightarrow> 'k" and rkey :: "'r \<Rightarrow> 'k" and good :: "'m \<Rightarrow> bool"
  assumes rkey_enc: "rkey (enc m) = mkey m"
    and dec_enc: "good m \<Longrightarrow> dec (enc m) = m"
begin

definition lookup :: "'k \<Rightarrow> 'r sql_table \<Rightarrow> 'm option" where
  "lookup k t = first_row (map dec (sql_select (\<lambda>r. rkey r = k) t))"

definition unique :: "'r sql_table \<Rightarrow> bool" where
  "unique t \<longleftrightarrow> distinct (map rkey t)"

lemma lookup_None_iff: "lookup k t = None \<longleftrightarrow> k \<notin> rkey ` set t"
  by (simp add: lookup_def first_row_select find_None_iff_key)

lemma insert_fresh:
  "mkey m \<notin> rkey ` set t \<Longrightarrow> sql_insert c rkey (enc m) t = (Inr (), t @ [enc m])"
  by (auto simp: sql_insert_def rkey_enc image_iff)

lemma insert_taken:
  "mkey m \<in> rkey ` set t \<Longrightarrow> sql_insert c rkey (enc m) t = (Inl (UniqueFailed c), t)"
  by (auto simp: sql_insert_def rkey_enc)

lemma insert_error: "sql_insert c rkey (enc m) t = (Inl e, t') \<Longrightarrow> t' = t \<and> e = UniqueFailed c"
  by (auto simp: sql_insert_def split: if_splits)

lemma lookup_append:
  "lookup k (t @ [enc m]) =
     (case lookup k t of Some x \<Rightarrow> Some x | None \<Rightarrow> if mkey m = k then Some (dec (enc m)) else None)"
  by (auto simp: lookup_def sql_defs rkey_enc split: list.splits)

lemma lookup_insert:
  assumes "good m" "sql_insert c rkey (enc m) t = (Inr u, t')"
  shows "lookup k t' = (if k = mkey m then Some m else lookup k t)"
proof -
  have fresh: "mkey m \<notin> rkey ` set t" and t': "t' = t @ [enc m]"
    using assms(2) by (auto simp: sql_insert_def rkey_enc split: if_splits)
  then show ?thesis
    using lookup_None_iff [of "mkey m" t] assms(1) by (auto simp: lookup_append dec_enc split: option.splits)
qed

lemma lookup_replace:
  assumes "good m"
  shows "lookup k (snd (sql_replace rkey (enc m) t)) = (if k = mkey m then Some m else lookup k t)"
proof -
  have "filter (\<lambda>r. rkey r = k \<and> rkey r \<noteq> mkey m) t = (if k = mkey m then [] else filter (\<lambda>r. rkey r = k) t)"
    by (induction t) auto
  then show ?thesis
    using assms by (auto simp: lookup_def sql_defs go_defs rkey_enc dec_enc conj_commute cong: conj_cong)
qed

lemma lookup_delete_key:
  "lookup k (snd (sql_delete (\<lambda>r. rkey r = k') t)) = (if k = k' then None else lookup k t)"
proof -
  have "filter (\<lambda>r. rkey r = k \<and> rkey r \<noteq> k') t = (if k = k' then [] else filter (\<lambda>r. rkey r = k) t)"
    by (induction t) auto
  then show ?thesis by (auto simp: lookup_def sql_defs go_defs conj_commute)
qed

lemma unique_insert: "unique t \<Longrightarrow> unique (snd (sql_insert c rkey r t))"
  by (auto simp: unique_def sql_insert_def)

lemma unique_replace: "unique t \<Longrightarrow> unique (snd (sql_replace rkey r t))"
  by (auto simp: unique_def sql_defs go_defs distinct_map_filter_key)

lemma unique_delete: "unique t \<Longrightarrow> unique (snd (sql_delete P t))"
  by (simp add: unique_def sql_defs go_defs distinct_map_filter_key)

lemma unique_update:
  "(\<And>r. rkey (f r) = rkey r) \<Longrightarrow> unique t \<Longrightarrow> unique (snd (sql_update P f t))"
  unfolding unique_def sql_update_def go_modify_def snd_conv by (simp only: map_key_update)

lemmas unique_intros = unique_insert unique_replace unique_delete unique_update

end

section \<open>Paging\<close>

text \<open>
  The list operations page through a table by the date of the last row they returned. With
  distinct dates a page continues exactly where the one before it ended; rows that share the
  date of the last row of a page are skipped by the next one.
\<close>

definition page_after :: "('r \<Rightarrow> int) \<Rightarrow> int option \<Rightarrow> int \<Rightarrow> 'r sql_table \<Rightarrow> 'r list" where
  "page_after date bound limit t = sql_limit limit (order_asc date (sql_select (\<lambda>r. sql_greater bound (date r)) t))"

lemma sorted_split_at:
  fixes f :: "'a \<Rightarrow> int"
  assumes "sorted (map f xs)" "distinct (map f xs)" "n < length xs"
  shows "filter (\<lambda>r. f (xs ! n) < f r) xs = drop (Suc n) xs"
proof -
  have "xs = take (Suc n) xs @ drop (Suc n) xs" by simp
  moreover have "\<forall>r\<in>set (take (Suc n) xs). \<not> f (xs ! n) < f r"
    using assms by (auto simp: in_set_conv_nth sorted_iff_nth_mono not_less)
  moreover have "\<forall>r\<in>set (drop (Suc n) xs). f (xs ! n) < f r"
  proof
    fix r assume "r \<in> set (drop (Suc n) xs)"
    then obtain i where i: "i < length (drop (Suc n) xs)" "r = drop (Suc n) xs ! i"
      by (auto simp: in_set_conv_nth)
    then have r: "r = xs ! (Suc n + i)" and len: "Suc n + i < length xs" by auto
    have "f (xs ! n) \<le> f r" using assms(1) len r by (auto simp: sorted_iff_nth_mono)
    moreover have "f (xs ! n) \<noteq> f r"
      using assms(2,3) len r nth_eq_iff_index_eq [of "map f xs" n "Suc n + i"] by auto
    ultimately show "f (xs ! n) < f r" by simp
  qed
  ultimately show ?thesis
    by (metis (no_types, lifting) append.left_neutral filter_False filter_True filter_append)
qed

lemma next_page:
  assumes "distinct (map date t)" "order_asc date t = pre @ r # rest"
  shows "page_after date (Some (date r)) limit t = sql_limit limit rest"
proof -
  have s: "sorted (map date (pre @ r # rest))" using sorted_order_asc [of date t] assms(2) by simp
  have "distinct (map date (pre @ r # rest))"
    using assms by (metis distinct_map mset_order(1) set_order(1) mset_eq_imp_distinct_iff)
  from sorted_split_at [OF s this, of "length pre"]
  have "filter (\<lambda>x. date r < date x) (order_asc date t) = rest" using assms(2) by simp
  then show ?thesis
    by (simp add: page_after_def sql_select_def sql_greater_def order_asc_def filter_sort)
qed

text \<open>
  What is left to page through after the row with a key: one more than the rows with a later date.
  Each page that is read makes it smaller, also when rows are deleted or changed in between, as long
  as they keep their keys and dates.
\<close>

definition rows_left :: "('r \<Rightarrow> 'k) \<Rightarrow> ('r \<Rightarrow> int) \<Rightarrow> 'r sql_table \<Rightarrow> 'k \<Rightarrow> nat" where
  "rows_left key date t k =
     Suc (length (filter (\<lambda>r. sql_greater (sql_scalar date (\<lambda>x. key x = k) t) (date r)) t))"

definition shrinks :: "('r \<Rightarrow> 'k) \<Rightarrow> ('r \<Rightarrow> int) \<Rightarrow> 'r sql_table \<Rightarrow> 'r sql_table \<Rightarrow> bool" where
  "shrinks key date t t' \<longleftrightarrow>
     (\<exists>S. map (\<lambda>r. (key r, date r)) t' = filter S (map (\<lambda>r. (key r, date r)) t))"

lemma shrinks_refl [simp]: "shrinks key date t t"
  unfolding shrinks_def by (rule exI [of _ "\<lambda>_. True"]) simp

lemma shrinks_trans: "shrinks key date t u \<Longrightarrow> shrinks key date u v \<Longrightarrow> shrinks key date t v"
  unfolding shrinks_def by (metis (no_types, lifting) filter_filter)

lemma shrinks_update:
  assumes "\<And>r. key (f r) = key r" "\<And>r. date (f r) = date r"
  shows "shrinks key date t (map (\<lambda>r. if P r then f r else r) t)"
  unfolding shrinks_def by (rule exI [of _ "\<lambda>_. True"]) (simp add: assms)

lemma shrinks_filter:
  assumes "\<And>r. S r = Q (key r)"
  shows "shrinks key date t (filter S t)"
proof -
  have "S = (\<lambda>r. Q (key r))" using assms by blast
  then show ?thesis unfolding shrinks_def by (intro exI [of _ "\<lambda>p. Q (fst p)"]) (simp add: filter_map o_def)
qed

lemma shrinks_distinct:
  assumes "shrinks key date t t'" "distinct (map key t)"
  shows "distinct (map key t')"
proof -
  obtain S where S: "map (\<lambda>r. (key r, date r)) t' = filter S (map (\<lambda>r. (key r, date r)) t)"
    using assms(1) by (auto simp: shrinks_def)
  have "map key t' = map fst (filter S (map (\<lambda>r. (key r, date r)) t))"
    by (simp add: S [symmetric] o_def)
  moreover have "distinct (map fst (map (\<lambda>r. (key r, date r)) t))" using assms(2) by (simp add: o_def)
  ultimately show ?thesis using distinct_map_filter by metis
qed

lemma shrinks_member:
  assumes "shrinks key date t t'" "r' \<in> set t'"
  shows "\<exists>r\<in>set t. key r = key r' \<and> date r = date r'"
proof -
  obtain S where S: "map (\<lambda>r. (key r, date r)) t' = filter S (map (\<lambda>r. (key r, date r)) t)"
    using assms(1) by (auto simp: shrinks_def)
  have "(key r', date r') \<in> set (map (\<lambda>r. (key r, date r)) t')" using assms(2) by simp
  then show ?thesis unfolding S by auto
qed

lemma rows_left_bound: "distinct (map key t) \<Longrightarrow> r \<in> set t \<Longrightarrow> rows_left key date t (key r) \<le> length t"
  using find_key_distinct [of key t r] length_filter_less [of r t "\<lambda>x. date r < date x"]
  by (simp add: rows_left_def sql_scalar_def sql_greater_def Suc_le_eq)

lemma rows_left_less:
  assumes "distinct (map key t)" "shrinks key date t t'"
    and "r \<in> set t" "sql_greater (sql_scalar date (\<lambda>x. key x = k) t) (date r)"
  shows "rows_left key date t' (key r) < rows_left key date t k"
proof -
  define pair where "pair = (\<lambda>r. (key r, date r))"
  define b where "b = sql_scalar date (\<lambda>x. key x = k) t"
  define c where "c = sql_scalar date (\<lambda>x. key x = key r) t'"
  obtain S where S: "map pair t' = filter S (map pair t)" using assms(2) by (auto simp: shrinks_def pair_def)
  have c: "c = None \<or> c = Some (date r)"
  proof (cases "find (\<lambda>x. key x = key r) t'")
    case (Some r')
    then have "r' \<in> set t'" "key r' = key r" by (auto simp: find_Some_iff)
    then obtain r'' where r'': "r'' \<in> set t" "key r'' = key r" "date r'' = date r'"
      using shrinks_member [OF assms(2)] by metis
    then have "r'' = r" using assms(1,3) by (auto simp: distinct_map dest: inj_onD)
    then show ?thesis using Some r'' by (simp add: c_def sql_scalar_def)
  qed (simp add: c_def sql_scalar_def)
  have count: "length (filter (\<lambda>x. sql_greater d (date x)) u) = length (filter (\<lambda>p. sql_greater d (snd p)) (map pair u))"
    for d u by (simp add: filter_map o_def pair_def)
  have "length (filter (\<lambda>p. sql_greater c (snd p)) (filter S (map pair t)))
      < length (filter (\<lambda>p. sql_greater b (snd p)) (map pair t))"
    by (rule filter_twice_shorter [of "pair r"])
      (use assms(3,4) c in \<open>auto simp: pair_def b_def sql_greater_def split: option.splits\<close>)
  then show ?thesis by (simp add: rows_left_def b_def [symmetric] c_def [symmetric] count S)
qed

end
