(* ===== verification/Tables.thy ===== *)
theory Tables
  imports Pb SqlTable
begin

text \<open>
  The tables of \<^verbatim>\<open>repo/db/db.go\<close>: for each one the row with its columns, the row an \<open>Add\<close> writes for
  a model (\<open>_enc\<close>, the arguments of its \<open>Exec\<close> call), the model a query reads from a row (\<open>_dec\<close>,
  the body of \<open>handleQuery\<close>), the primary key, and which models survive the round trip (\<open>_good\<close>).
  Every table is an instance of the store contract.

  A timestamp is written as nanoseconds, a nil one as the current time \<open>now\<close>; a list of strings is
  joined with commas; an enumeration is written as its number. Columns that hold an encoded message
  (\<open>inboxes\<close>, \<open>inviter\<close>, \<open>envelope\<close>, \<open>cafe\<close>, \<open>meta\<close>) keep the message: the JSON and protobuf codecs
  are library code whose round trip is the identity.
\<close>

section \<open>Columns\<close>

definition csv_enc :: "string list \<Rightarrow> string" where
  "csv_enc ws = Join '','' ws"

definition csv_dec :: "string \<Rightarrow> string list" where
  "csv_dec s = SplitString s CHR '',''"

definition csv_good :: "string list \<Rightarrow> bool" where
  "csv_good ws \<longleftrightarrow> (\<forall>w\<in>set ws. clean_word CHR '','' w)"

definition ts_good :: "timestamp option \<Rightarrow> bool" where
  "ts_good x \<longleftrightarrow> (case x of None \<Rightarrow> False
     | Some t \<Rightarrow> normal_ts t \<and> is_int64 (Seconds t * 1000000000 + Nanos t))"

definition optcsv_enc :: "string list \<Rightarrow> string option" where
  "optcsv_enc ws = (if 0 < length ws then Some (csv_enc ws) else None)"

definition optcsv_dec :: "string option \<Rightarrow> string list" where
  "optcsv_dec s = (case s of None \<Rightarrow> [] | Some v \<Rightarrow> csv_dec v)"

definition meta_dec :: "string option \<Rightarrow> string option" where
  "meta_dec m = (case m of None \<Rightarrow> Some ''{}'' | Some v \<Rightarrow> Some v)"

lemma csv_dec_enc [simp]: "csv_good ws \<Longrightarrow> csv_dec (csv_enc ws) = ws"
  by (simp add: csv_good_def csv_enc_def csv_dec_def SplitString_Join)

lemma optcsv_dec_enc [simp]: "csv_good ws \<Longrightarrow> optcsv_dec (optcsv_enc ws) = ws"
  by (simp add: optcsv_enc_def optcsv_dec_def)

lemma ts_round [simp]: "ts_good x \<Longrightarrow> Some (ProtoTs (ProtoNanos now x)) = x"
  by (auto simp: ts_good_def ProtoTs_ProtoNanos_eq split: option.splits)

lemma ts_enc_now: "ts_good x \<Longrightarrow> ProtoNanos now x = ProtoNanos now' x"
  by (auto simp: ts_good_def ProtoNanos_def split: option.splits)

section \<open>The table \<^verbatim>\<open>peers\<close>\<close>

record peers_row =
  peers_id :: string
  peers_address :: string
  peers_username :: string
  peers_avatar :: string
  peers_inboxes :: "Cafe list"
  peers_created :: int
  peers_updated :: int

definition peers_enc :: "timestamp \<Rightarrow> Peer \<Rightarrow> peers_row" where
  "peers_enc now m =
     \<lparr>peers_id = peer_Id m,
      peers_address = peer_Address m,
      peers_username = peer_Name m,
      peers_avatar = peer_Avatar m,
      peers_inboxes = peer_Inboxes m,
      peers_created = ProtoNanos now (peer_Created m),
      peers_updated = ProtoNanos now (peer_Updated m)\<rparr>"

definition peers_dec :: "peers_row \<Rightarrow> Peer" where
  "peers_dec r =
     \<lparr>peer_Id = peers_id r,
      peer_Address = peers_address r,
      peer_Name = peers_username r,
      peer_Avatar = peers_avatar r,
      peer_Inboxes = peers_inboxes r,
      peer_Created = Some (ProtoTs (peers_created r)),
      peer_Updated = Some (ProtoTs (peers_updated r))\<rparr>"

definition peers_good :: "Peer \<Rightarrow> bool" where
  "peers_good m \<longleftrightarrow> ts_good (peer_Created m) \<and> ts_good (peer_Updated m)"

interpretation peers_store: model_store "peers_enc now" peers_dec peer_Id peers_id peers_good for now
  by unfold_locales
    (auto simp: peers_enc_def peers_dec_def peers_good_def int32_id meta_dec_def
      intro!: Peer.equality split: option.splits)

section \<open>The table \<^verbatim>\<open>files\<close>\<close>

record files_row =
  files_mill :: string
  files_checksum :: string
  files_source :: string
  files_opts :: string
  files_hash :: string
  files_key :: string
  files_media :: string
  files_name :: string
  files_size :: int
  files_added :: int
  files_meta :: "string option"
  files_targets :: "string option"

definition files_enc :: "timestamp \<Rightarrow> FileIndex \<Rightarrow> files_row" where
  "files_enc now m =
     \<lparr>files_mill = file_Mill m,
      files_checksum = file_Checksum m,
      files_source = file_Source m,
      files_opts = file_Opts m,
      files_hash = file_Hash m,
      files_key = file_Key m,
      files_media = file_Media m,
      files_name = file_Name m,
      files_size = file_Size m,
      files_added = ProtoNanos now (file_Added m),
      files_meta = file_Meta m,
      files_targets = optcsv_enc (file_Targets m)\<rparr>"

definition files_dec :: "files_row \<Rightarrow> FileIndex" where
  "files_dec r =
     \<lparr>file_Mill = files_mill r,
      file_Checksum = files_checksum r,
      file_Source = files_source r,
      file_Opts = files_opts r,
      file_Hash = files_hash r,
      file_Key = files_key r,
      file_Media = files_media r,
      file_Name = files_name r,
      file_Size = files_size r,
      file_Added = Some (ProtoTs (files_added r)),
      file_Meta = meta_dec (files_meta r),
      file_Targets = optcsv_dec (files_targets r)\<rparr>"

definition files_key :: "files_row \<Rightarrow> string \<times> string" where
  "files_key r = (files_mill r, files_checksum r)"

definition files_mkey :: "FileIndex \<Rightarrow> string \<times> string" where
  "files_mkey m = (file_Mill m, file_Checksum m)"

definition files_good :: "FileIndex \<Rightarrow> bool" where
  "files_good m \<longleftrightarrow> ts_good (file_Added m) \<and> file_Meta m \<noteq> None \<and> csv_good (file_Targets m)"

interpretation files_store: model_store "files_enc now" files_dec files_mkey files_key files_good for now
  by unfold_locales
    (auto simp: files_enc_def files_dec_def files_good_def int32_id meta_dec_def files_key_def files_mkey_def
      intro!: FileIndex.equality split: option.splits)

section \<open>The table \<^verbatim>\<open>threads\<close>\<close>

record threads_row =
  threads_id :: string
  threads_key :: string
  threads_sk :: bytes
  threads_name :: string
  threads_schema :: string
  threads_initiator :: string
  threads_type :: int
  threads_state :: int
  threads_head :: string
  threads_members :: string
  threads_sharing :: int

definition threads_enc :: "Thread \<Rightarrow> threads_row" where
  "threads_enc m =
     \<lparr>threads_id = thr_Id m,
      threads_key = thr_Key m,
      threads_sk = thr_Sk m,
      threads_name = thr_Name m,
      threads_schema = thr_Schema m,
      threads_initiator = thr_Initiator m,
      threads_type = ThreadType_to_int (thr_Type m),
      threads_state = ThreadState_to_int (thr_State m),
      threads_head = thr_Head m,
      threads_members = csv_enc (thr_Whitelist m),
      threads_sharing = Sharing_to_int (thr_Sharing m)\<rparr>"

definition threads_dec :: "threads_row \<Rightarrow> Thread" where
  "threads_dec r =
     \<lparr>thr_Id = threads_id r,
      thr_Key = threads_key r,
      thr_Sk = threads_sk r,
      thr_Name = threads_name r,
      thr_Schema = threads_schema r,
      thr_Initiator = threads_initiator r,
      thr_Type = ThreadType_of_int (threads_type r),
      thr_Sharing = Sharing_of_int (threads_sharing r),
      thr_Whitelist = csv_dec (threads_members r),
      thr_State = ThreadState_of_int (threads_state r),
      thr_Head = threads_head r\<rparr>"

definition threads_good :: "Thread \<Rightarrow> bool" where
  "threads_good m \<longleftrightarrow> ThreadType_canon (thr_Type m) \<and> ThreadState_canon (thr_State m) \<and> csv_good (thr_Whitelist m) \<and> Sharing_canon (thr_Sharing m)"

interpretation threads_store: model_store "threads_enc" threads_dec thr_Id threads_id threads_good
  by unfold_locales
    (auto simp: threads_enc_def threads_dec_def threads_good_def int32_id meta_dec_def
      intro!: Thread.equality split: option.splits)

section \<open>The table \<^verbatim>\<open>thread_peers\<close>\<close>

record thread_peers_row =
  thread_peers_id :: string
  thread_peers_threadId :: string
  thread_peers_welcomed :: bool

definition thread_peers_enc :: "ThreadPeer \<Rightarrow> thread_peers_row" where
  "thread_peers_enc m =
     \<lparr>thread_peers_id = tp_Id m,
      thread_peers_threadId = tp_Thread m,
      thread_peers_welcomed = False\<rparr>"

definition thread_peers_dec :: "thread_peers_row \<Rightarrow> ThreadPeer" where
  "thread_peers_dec r =
     \<lparr>tp_Id = thread_peers_id r,
      tp_Thread = thread_peers_threadId r,
      tp_Welcomed = thread_peers_welcomed r\<rparr>"

definition thread_peers_key :: "thread_peers_row \<Rightarrow> string \<times> string" where
  "thread_peers_key r = (thread_peers_id r, thread_peers_threadId r)"

definition thread_peers_mkey :: "ThreadPeer \<Rightarrow> string \<times> string" where
  "thread_peers_mkey m = (tp_Id m, tp_Thread m)"

definition thread_peers_good :: "ThreadPeer \<Rightarrow> bool" where
  "thread_peers_good m \<longleftrightarrow> \<not> tp_Welcomed m"

interpretation thread_peers_store: model_store "thread_peers_enc" thread_peers_dec thread_peers_mkey thread_peers_key thread_peers_good
  by unfold_locales
    (auto simp: thread_peers_enc_def thread_peers_dec_def thread_peers_good_def int32_id meta_dec_def thread_peers_key_def thread_peers_mkey_def
      intro!: ThreadPeer.equality split: option.splits)

section \<open>The table \<^verbatim>\<open>blocks\<close>\<close>

record blocks_row =
  blocks_id :: string
  blocks_threadId :: string
  blocks_authorId :: string
  blocks_type :: int
  blocks_date :: int
  blocks_parents :: string
  blocks_target :: string
  blocks_body :: string
  blocks_data :: string
  blocks_status :: int
  blocks_attempts :: int

definition blocks_enc :: "timestamp \<Rightarrow> Block \<Rightarrow> blocks_row" where
  "blocks_enc now m =
     \<lparr>blocks_id = blk_Id m,
      blocks_threadId = blk_Thread m,
      blocks_authorId = blk_Author m,
      blocks_type = BlockType_to_int (blk_Type m),
      blocks_date = ProtoNanos now (blk_Date m),
      blocks_parents = csv_enc (blk_Parents m),
      blocks_target = blk_Target m,
      blocks_body = blk_Body m,
      blocks_data = blk_Data m,
      blocks_status = BlockStatus_to_int (blk_Status m),
      blocks_attempts = blk_Attempts m\<rparr>"

definition blocks_dec :: "blocks_row \<Rightarrow> Block" where
  "blocks_dec r =
     \<lparr>blk_Id = blocks_id r,
      blk_Thread = blocks_threadId r,
      blk_Author = blocks_authorId r,
      blk_Type = BlockType_of_int (blocks_type r),
      blk_Date = Some (ProtoTs (blocks_date r)),
      blk_Parents = csv_dec (blocks_parents r),
      blk_Target = blocks_target r,
      blk_Data = blocks_data r,
      blk_Body = blocks_body r,
      blk_Status = BlockStatus_of_int (blocks_status r),
      blk_Attempts = int32 (blocks_attempts r)\<rparr>"

definition blocks_good :: "Block \<Rightarrow> bool" where
  "blocks_good m \<longleftrightarrow> BlockType_canon (blk_Type m) \<and> ts_good (blk_Date m) \<and> csv_good (blk_Parents m) \<and> BlockStatus_canon (blk_Status m) \<and> is_int32 (blk_Attempts m)"

interpretation blocks_store: model_store "blocks_enc now" blocks_dec blk_Id blocks_id blocks_good for now
  by unfold_locales
    (auto simp: blocks_enc_def blocks_dec_def blocks_good_def int32_id meta_dec_def
      intro!: Block.equality split: option.splits)

section \<open>The table \<^verbatim>\<open>block_messages\<close>\<close>

record block_messages_row =
  block_messages_id :: string
  block_messages_peerId :: string
  block_messages_envelope :: Envelope
  block_messages_date :: int

definition block_messages_enc :: "timestamp \<Rightarrow> BlockMessage \<Rightarrow> block_messages_row" where
  "block_messages_enc now m =
     \<lparr>block_messages_id = bm_Id m,
      block_messages_peerId = bm_Peer m,
      block_messages_envelope = the (bm_Env m),
      block_messages_date = ProtoNanos now (bm_Date m)\<rparr>"

definition block_messages_dec :: "block_messages_row \<Rightarrow> BlockMessage" where
  "block_messages_dec r =
     \<lparr>bm_Id = block_messages_id r,
      bm_Peer = block_messages_peerId r,
      bm_Env = Some (block_messages_envelope r),
      bm_Date = Some (ProtoTs (block_messages_date r))\<rparr>"

definition block_messages_good :: "BlockMessage \<Rightarrow> bool" where
  "block_messages_good m \<longleftrightarrow> bm_Env m \<noteq> None \<and> ts_good (bm_Date m)"

interpretation block_messages_store: model_store "block_messages_enc now" block_messages_dec bm_Id block_messages_id block_messages_good for now
  by unfold_locales
    (auto simp: block_messages_enc_def block_messages_dec_def block_messages_good_def int32_id meta_dec_def
      intro!: BlockMessage.equality split: option.splits)

section \<open>The table \<^verbatim>\<open>invites\<close>\<close>

record invites_row =
  invites_id :: string
  invites_block :: bytes
  invites_name :: string
  invites_inviter :: Peer
  invites_date :: int
  invites_parents :: string

definition invites_enc :: "timestamp \<Rightarrow> Invite \<Rightarrow> invites_row" where
  "invites_enc now m =
     \<lparr>invites_id = inv_Id m,
      invites_block = inv_Block m,
      invites_name = inv_Name m,
      invites_inviter = the (inv_Inviter m),
      invites_date = ProtoNanos now (inv_Date m),
      invites_parents = csv_enc (inv_Parents m)\<rparr>"

definition invites_dec :: "invites_row \<Rightarrow> Invite" where
  "invites_dec r =
     \<lparr>inv_Id = invites_id r,
      inv_Block = invites_block r,
      inv_Name = invites_name r,
      inv_Inviter = Some (invites_inviter r),
      inv_Date = Some (ProtoTs (invites_date r)),
      inv_Parents = csv_dec (invites_parents r)\<rparr>"

definition invites_good :: "Invite \<Rightarrow> bool" where
  "invites_good m \<longleftrightarrow> inv_Inviter m \<noteq> None \<and> ts_good (inv_Date m) \<and> csv_good (inv_Parents m)"

interpretation invites_store: model_store "invites_enc now" invites_dec inv_Id invites_id invites_good for now
  by unfold_locales
    (auto simp: invites_enc_def invites_dec_def invites_good_def int32_id meta_dec_def
      intro!: Invite.equality split: option.splits)

section \<open>The table \<^verbatim>\<open>notifications\<close>\<close>

record notifications_row =
  notifications_id :: string
  notifications_date :: int
  notifications_actorId :: string
  notifications_subject :: string
  notifications_subjectId :: string
  notifications_blockId :: string
  notifications_target :: string
  notifications_type :: int
  notifications_body :: string
  notifications_read :: bool

definition notifications_enc :: "timestamp \<Rightarrow> Notification \<Rightarrow> notifications_row" where
  "notifications_enc now m =
     \<lparr>notifications_id = ntf_Id m,
      notifications_date = ProtoNanos now (ntf_Date m),
      notifications_actorId = ntf_Actor m,
      notifications_subject = ntf_SubjectDesc m,
      notifications_subjectId = ntf_Subject m,
      notifications_blockId = ntf_Block m,
      notifications_target = ntf_Target m,
      notifications_type = NotificationType_to_int (ntf_Type m),
      notifications_body = ntf_Body m,
      notifications_read = False\<rparr>"

definition notifications_dec :: "notifications_row \<Rightarrow> Notification" where
  "notifications_dec r =
     \<lparr>ntf_Id = notifications_id r,
      ntf_Date = Some (ProtoTs (notifications_date r)),
      ntf_Actor = notifications_actorId r,
      ntf_Subject = notifications_subjectId r,
      ntf_SubjectDesc = notifications_subject r,
      ntf_Block = notifications_blockId r,
      ntf_Target = notifications_target r,
      ntf_Type = NotificationType_of_int (notifications_type r),
      ntf_Body = notifications_body r,
      ntf_Read = notifications_read r\<rparr>"

definition notifications_good :: "Notification \<Rightarrow> bool" where
  "notifications_good m \<longleftrightarrow> ts_good (ntf_Date m) \<and> NotificationType_canon (ntf_Type m) \<and> \<not> ntf_Read m"

interpretation notifications_store: model_store "notifications_enc now" notifications_dec ntf_Id notifications_id notifications_good for now
  by unfold_locales
    (auto simp: notifications_enc_def notifications_dec_def notifications_good_def int32_id meta_dec_def
      intro!: Notification.equality split: option.splits)

section \<open>The table \<^verbatim>\<open>cafe_sessions\<close>\<close>

record cafe_sessions_row =
  cafe_sessions_cafeId :: string
  cafe_sessions_access :: string
  cafe_sessions_refresh :: string
  cafe_sessions_expiry :: int
  cafe_sessions_cafe :: Cafe

definition cafe_sessions_enc :: "timestamp \<Rightarrow> CafeSession \<Rightarrow> cafe_sessions_row" where
  "cafe_sessions_enc now m =
     \<lparr>cafe_sessions_cafeId = ses_Id m,
      cafe_sessions_access = ses_Access m,
      cafe_sessions_refresh = ses_Refresh m,
      cafe_sessions_expiry = ProtoNanos now (ses_Exp m),
      cafe_sessions_cafe = ses_Cafe m\<rparr>"

definition cafe_sessions_dec :: "cafe_sessions_row \<Rightarrow> CafeSession" where
  "cafe_sessions_dec r =
     \<lparr>ses_Id = cafe_sessions_cafeId r,
      ses_Access = cafe_sessions_access r,
      ses_Exp = Some (ProtoTs (cafe_sessions_expiry r)),
      ses_Refresh = cafe_sessions_refresh r,
      ses_Rexp = None,
      ses_Subject = [],
      ses_Type = [],
      ses_Cafe = cafe_sessions_cafe r\<rparr>"

definition cafe_sessions_good :: "CafeSession \<Rightarrow> bool" where
  "cafe_sessions_good m \<longleftrightarrow> ts_good (ses_Exp m) \<and> ses_Rexp m = None \<and> ses_Subject m = [] \<and> ses_Type m = []"

interpretation cafe_sessions_store: model_store "cafe_sessions_enc now" cafe_sessions_dec ses_Id cafe_sessions_cafeId cafe_sessions_good for now
  by unfold_locales
    (auto simp: cafe_sessions_enc_def cafe_sessions_dec_def cafe_sessions_good_def int32_id meta_dec_def
      intro!: CafeSession.equality split: option.splits)

section \<open>The table \<^verbatim>\<open>cafe_requests\<close>\<close>

record cafe_requests_row =
  cafe_requests_id :: string
  cafe_requests_peerId :: string
  cafe_requests_targetId :: string
  cafe_requests_cafeId :: string
  cafe_requests_cafe :: Cafe
  cafe_requests_groupId :: string
  cafe_requests_syncGroupId :: string
  cafe_requests_type :: int
  cafe_requests_date :: int
  cafe_requests_size :: int
  cafe_requests_status :: int
  cafe_requests_attempts :: int
  cafe_requests_groupSize :: int
  cafe_requests_groupTransferred :: int

definition cafe_requests_enc :: "timestamp \<Rightarrow> CafeRequest \<Rightarrow> cafe_requests_row" where
  "cafe_requests_enc now m =
     \<lparr>cafe_requests_id = req_Id m,
      cafe_requests_peerId = req_Peer m,
      cafe_requests_targetId = req_Target m,
      cafe_requests_cafeId = cafe_Peer (req_Cafe m),
      cafe_requests_cafe = req_Cafe m,
      cafe_requests_groupId = req_Group m,
      cafe_requests_syncGroupId = req_SyncGroup m,
      cafe_requests_type = RequestType_to_int (req_Type m),
      cafe_requests_date = ProtoNanos now (req_Date m),
      cafe_requests_size = req_Size m,
      cafe_requests_status = RequestStatus_to_int (req_Status m),
      cafe_requests_attempts = req_Attempts m,
      cafe_requests_groupSize = req_GroupSize m,
      cafe_requests_groupTransferred = req_GroupTransferred m\<rparr>"

definition cafe_requests_dec :: "cafe_requests_row \<Rightarrow> CafeRequest" where
  "cafe_requests_dec r =
     \<lparr>req_Id = cafe_requests_id r,
      req_Peer = cafe_requests_peerId r,
      req_Target = cafe_requests_targetId r,
      req_Cafe = cafe_requests_cafe r,
      req_Group = cafe_requests_groupId r,
      req_SyncGroup = cafe_requests_syncGroupId r,
      req_Type = RequestType_of_int (cafe_requests_type r),
      req_Date = Some (ProtoTs (cafe_requests_date r)),
      req_Size = cafe_requests_size r,
      req_Status = RequestStatus_of_int (cafe_requests_status r),
      req_Attempts = int32 (cafe_requests_attempts r),
      req_GroupSize = cafe_requests_groupSize r,
      req_GroupTransferred = cafe_requests_groupTransferred r\<rparr>"

definition cafe_requests_good :: "CafeRequest \<Rightarrow> bool" where
  "cafe_requests_good m \<longleftrightarrow> RequestType_canon (req_Type m) \<and> ts_good (req_Date m) \<and> RequestStatus_canon (req_Status m) \<and> is_int32 (req_Attempts m)"

interpretation cafe_requests_store: model_store "cafe_requests_enc now" cafe_requests_dec req_Id cafe_requests_id cafe_requests_good for now
  by unfold_locales
    (auto simp: cafe_requests_enc_def cafe_requests_dec_def cafe_requests_good_def int32_id meta_dec_def
      intro!: CafeRequest.equality split: option.splits)

section \<open>The table \<^verbatim>\<open>cafe_messages\<close>\<close>

record cafe_messages_row =
  cafe_messages_id :: string
  cafe_messages_peerId :: string
  cafe_messages_date :: int
  cafe_messages_attempts :: int

definition cafe_messages_enc :: "timestamp \<Rightarrow> CafeMessage \<Rightarrow> cafe_messages_row" where
  "cafe_messages_enc now m =
     \<lparr>cafe_messages_id = cm_Id m,
      cafe_messages_peerId = cm_Peer m,
      cafe_messages_date = ProtoNanos now (cm_Date m),
      cafe_messages_attempts = cm_Attempts m\<rparr>"

definition cafe_messages_dec :: "cafe_messages_row \<Rightarrow> CafeMessage" where
  "cafe_messages_dec r =
     \<lparr>cm_Id = cafe_messages_id r,
      cm_Peer = cafe_messages_peerId r,
      cm_Date = Some (ProtoTs (cafe_messages_date r)),
      cm_Attempts = int32 (cafe_messages_attempts r)\<rparr>"

definition cafe_messages_good :: "CafeMessage \<Rightarrow> bool" where
  "cafe_messages_good m \<longleftrightarrow> ts_good (cm_Date m) \<and> is_int32 (cm_Attempts m)"

interpretation cafe_messages_store: model_store "cafe_messages_enc now" cafe_messages_dec cm_Id cafe_messages_id cafe_messages_good for now
  by unfold_locales
    (auto simp: cafe_messages_enc_def cafe_messages_dec_def cafe_messages_good_def int32_id meta_dec_def
      intro!: CafeMessage.equality split: option.splits)

section \<open>The table \<^verbatim>\<open>cafe_client_nonces\<close>\<close>

record cafe_client_nonces_row =
  cafe_client_nonces_value :: string
  cafe_client_nonces_address :: string
  cafe_client_nonces_date :: int

definition cafe_client_nonces_enc :: "timestamp \<Rightarrow> CafeClientNonce \<Rightarrow> cafe_client_nonces_row" where
  "cafe_client_nonces_enc now m =
     \<lparr>cafe_client_nonces_value = nonce_Value m,
      cafe_client_nonces_address = nonce_Address m,
      cafe_client_nonces_date = ProtoNanos now (nonce_Date m)\<rparr>"

definition cafe_client_nonces_dec :: "cafe_client_nonces_row \<Rightarrow> CafeClientNonce" where
  "cafe_client_nonces_dec r =
     \<lparr>nonce_Value = cafe_client_nonces_value r,
      nonce_Address = cafe_client_nonces_address r,
      nonce_Date = Some (ProtoTs (cafe_client_nonces_date r))\<rparr>"

definition cafe_client_nonces_good :: "CafeClientNonce \<Rightarrow> bool" where
  "cafe_client_nonces_good m \<longleftrightarrow> ts_good (nonce_Date m)"

interpretation cafe_client_nonces_store: model_store "cafe_client_nonces_enc now" cafe_client_nonces_dec nonce_Value cafe_client_nonces_value cafe_client_nonces_good for now
  by unfold_locales
    (auto simp: cafe_client_nonces_enc_def cafe_client_nonces_dec_def cafe_client_nonces_good_def int32_id meta_dec_def
      intro!: CafeClientNonce.equality split: option.splits)

section \<open>The table \<^verbatim>\<open>cafe_clients\<close>\<close>

record cafe_clients_row =
  cafe_clients_id :: string
  cafe_clients_address :: string
  cafe_clients_created :: int
  cafe_clients_lastSeen :: int
  cafe_clients_tokenId :: string

definition cafe_clients_enc :: "timestamp \<Rightarrow> CafeClient \<Rightarrow> cafe_clients_row" where
  "cafe_clients_enc now m =
     \<lparr>cafe_clients_id = cl_Id m,
      cafe_clients_address = cl_Address m,
      cafe_clients_created = ProtoNanos now (cl_Created m),
      cafe_clients_lastSeen = ProtoNanos now (cl_Seen m),
      cafe_clients_tokenId = cl_Token m\<rparr>"

definition cafe_clients_dec :: "cafe_clients_row \<Rightarrow> CafeClient" where
  "cafe_clients_dec r =
     \<lparr>cl_Id = cafe_clients_id r,
      cl_Address = cafe_clients_address r,
      cl_Created = Some (ProtoTs (cafe_clients_created r)),
      cl_Seen = Some (ProtoTs (cafe_clients_lastSeen r)),
      cl_Token = cafe_clients_tokenId r\<rparr>"

definition cafe_clients_good :: "CafeClient \<Rightarrow> bool" where
  "cafe_clients_good m \<longleftrightarrow> ts_good (cl_Created m) \<and> ts_good (cl_Seen m)"

interpretation cafe_clients_store: model_store "cafe_clients_enc now" cafe_clients_dec cl_Id cafe_clients_id cafe_clients_good for now
  by unfold_locales
    (auto simp: cafe_clients_enc_def cafe_clients_dec_def cafe_clients_good_def int32_id meta_dec_def
      intro!: CafeClient.equality split: option.splits)

section \<open>The table \<^verbatim>\<open>cafe_client_threads\<close>\<close>

record cafe_client_threads_row =
  cafe_client_threads_id :: string
  cafe_client_threads_clientId :: string
  cafe_client_threads_ciphertext :: bytes

definition cafe_client_threads_enc :: "CafeClientThread \<Rightarrow> cafe_client_threads_row" where
  "cafe_client_threads_enc m =
     \<lparr>cafe_client_threads_id = ct_Id m,
      cafe_client_threads_clientId = ct_Client m,
      cafe_client_threads_ciphertext = ct_Ciphertext m\<rparr>"

definition cafe_client_threads_dec :: "cafe_client_threads_row \<Rightarrow> CafeClientThread" where
  "cafe_client_threads_dec r =
     \<lparr>ct_Id = cafe_client_threads_id r,
      ct_Client = cafe_client_threads_clientId r,
      ct_Ciphertext = cafe_client_threads_ciphertext r\<rparr>"

definition cafe_client_threads_key :: "cafe_client_threads_row \<Rightarrow> string \<times> string" where
  "cafe_client_threads_key r = (cafe_client_threads_id r, cafe_client_threads_clientId r)"

definition cafe_client_threads_mkey :: "CafeClientThread \<Rightarrow> string \<times> string" where
  "cafe_client_threads_mkey m = (ct_Id m, ct_Client m)"

definition cafe_client_threads_good :: "CafeClientThread \<Rightarrow> bool" where
  "cafe_client_threads_good m \<longleftrightarrow> True"

interpretation cafe_client_threads_store: model_store "cafe_client_threads_enc" cafe_client_threads_dec cafe_client_threads_mkey cafe_client_threads_key cafe_client_threads_good
  by unfold_locales
    (auto simp: cafe_client_threads_enc_def cafe_client_threads_dec_def cafe_client_threads_good_def int32_id meta_dec_def cafe_client_threads_key_def cafe_client_threads_mkey_def
      intro!: CafeClientThread.equality split: option.splits)

section \<open>The table \<^verbatim>\<open>cafe_client_messages\<close>\<close>

record cafe_client_messages_row =
  cafe_client_messages_id :: string
  cafe_client_messages_peerId :: string
  cafe_client_messages_clientId :: string
  cafe_client_messages_date :: int

definition cafe_client_messages_enc :: "timestamp \<Rightarrow> CafeClientMessage \<Rightarrow> cafe_client_messages_row" where
  "cafe_client_messages_enc now m =
     \<lparr>cafe_client_messages_id = ccm_Id m,
      cafe_client_messages_peerId = ccm_Peer m,
      cafe_client_messages_clientId = ccm_Client m,
      cafe_client_messages_date = ProtoNanos now (ccm_Date m)\<rparr>"

definition cafe_client_messages_dec :: "cafe_client_messages_row \<Rightarrow> CafeClientMessage" where
  "cafe_client_messages_dec r =
     \<lparr>ccm_Id = cafe_client_messages_id r,
      ccm_Peer = cafe_client_messages_peerId r,
      ccm_Client = cafe_client_messages_clientId r,
      ccm_Date = Some (ProtoTs (cafe_client_messages_date r))\<rparr>"

definition cafe_client_messages_key :: "cafe_client_messages_row \<Rightarrow> string \<times> string" where
  "cafe_client_messages_key r = (cafe_client_messages_id r, cafe_client_messages_clientId r)"

definition cafe_client_messages_mkey :: "CafeClientMessage \<Rightarrow> string \<times> string" where
  "cafe_client_messages_mkey m = (ccm_Id m, ccm_Client m)"

definition cafe_client_messages_good :: "CafeClientMessage \<Rightarrow> bool" where
  "cafe_client_messages_good m \<longleftrightarrow> ts_good (ccm_Date m)"

interpretation cafe_client_messages_store: model_store "cafe_client_messages_enc now" cafe_client_messages_dec cafe_client_messages_mkey cafe_client_messages_key cafe_client_messages_good for now
  by unfold_locales
    (auto simp: cafe_client_messages_enc_def cafe_client_messages_dec_def cafe_client_messages_good_def int32_id meta_dec_def cafe_client_messages_key_def cafe_client_messages_mkey_def
      intro!: CafeClientMessage.equality split: option.splits)

section \<open>The table \<^verbatim>\<open>cafe_tokens\<close>\<close>

record cafe_tokens_row =
  cafe_tokens_id :: string
  cafe_tokens_token :: bytes
  cafe_tokens_date :: int

definition cafe_tokens_enc :: "timestamp \<Rightarrow> CafeToken \<Rightarrow> cafe_tokens_row" where
  "cafe_tokens_enc now m =
     \<lparr>cafe_tokens_id = tok_Id m,
      cafe_tokens_token = tok_Value m,
      cafe_tokens_date = ProtoNanos now (tok_Date m)\<rparr>"

definition cafe_tokens_dec :: "cafe_tokens_row \<Rightarrow> CafeToken" where
  "cafe_tokens_dec r =
     \<lparr>tok_Id = cafe_tokens_id r,
      tok_Value = cafe_tokens_token r,
      tok_Date = Some (ProtoTs (cafe_tokens_date r))\<rparr>"

definition cafe_tokens_good :: "CafeToken \<Rightarrow> bool" where
  "cafe_tokens_good m \<longleftrightarrow> ts_good (tok_Date m)"

interpretation cafe_tokens_store: model_store "cafe_tokens_enc now" cafe_tokens_dec tok_Id cafe_tokens_id cafe_tokens_good for now
  by unfold_locales
    (auto simp: cafe_tokens_enc_def cafe_tokens_dec_def cafe_tokens_good_def int32_id meta_dec_def
      intro!: CafeToken.equality split: option.splits)

end
