(* ===== verification/NodeStores.thy ===== *)
theory NodeStores
  imports Tables Strkey
begin

text \<open>
  The operations of the stores a node keeps for itself, \<^verbatim>\<open>repo/db\<close>: blocks, threads, thread peers,
  block messages, invites and notifications. Each operation is the
  statement the Go method executes; the mutex a method holds makes it one step. A query string that
  a caller passes is a predicate \<open>Q\<close> on rows, and \<open>\<lambda>_. True\<close> is the empty query.
\<close>

section \<open>Blocks\<close>

definition blocks_Add :: "timestamp \<Rightarrow> Block \<Rightarrow> (blocks_row sql_table, unit) go" where
  "blocks_Add now block = sql_insert ''blocks.id'' blocks_id (blocks_enc now block)"

definition blocks_Replace :: "timestamp \<Rightarrow> Block \<Rightarrow> (blocks_row sql_table, unit) go" where
  "blocks_Replace now block = (\<lambda>t.
     sql_replace blocks_id
       ((blocks_enc now block)\<lparr>blocks_attempts :=
          (case sql_scalar blocks_attempts (\<lambda>r. blocks_id r = blk_Id block) t of
             None \<Rightarrow> blk_Attempts block | Some n \<Rightarrow> n)\<rparr>) t)"

definition blocks_Get :: "string \<Rightarrow> blocks_row sql_table \<Rightarrow> Block option" where
  "blocks_Get bid t = first_row (map blocks_dec (sql_select (\<lambda>r. blocks_id r = bid) t))"

definition blocks_List ::
  "string \<Rightarrow> int \<Rightarrow> (blocks_row \<Rightarrow> bool) \<Rightarrow> blocks_row sql_table \<Rightarrow> Block list" where
  "blocks_List offset limit Q t =
     map blocks_dec (sql_limit limit (order_desc blocks_date (sql_select (\<lambda>r. Q r \<and>
       (offset \<noteq> [] \<longrightarrow>
          sql_less (sql_scalar blocks_date (\<lambda>x. blocks_id x = offset) t) (blocks_date r))) t)))"

definition blocks_Count :: "(blocks_row \<Rightarrow> bool) \<Rightarrow> blocks_row sql_table \<Rightarrow> int" where
  "blocks_Count Q t = sql_count Q t"

definition blocks_Delete :: "string \<Rightarrow> (blocks_row sql_table, unit) go" where
  "blocks_Delete bid = sql_delete (\<lambda>r. blocks_id r = bid)"

definition blocks_DeleteByThread :: "string \<Rightarrow> (blocks_row sql_table, unit) go" where
  "blocks_DeleteByThread threadId = sql_delete (\<lambda>r. blocks_threadId r = threadId)"

definition blocks_AddAttempt :: "string \<Rightarrow> (blocks_row sql_table, unit) go" where
  "blocks_AddAttempt bid =
     sql_update (\<lambda>r. blocks_id r = bid) (\<lambda>r. r\<lparr>blocks_attempts := blocks_attempts r + 1\<rparr>)"

section \<open>Threads\<close>

text \<open>The unique index on \<open>key\<close> is checked before the primary key.\<close>

definition threads_Add :: "Thread \<Rightarrow> (threads_row sql_table, unit) go" where
  "threads_Add thread =
     go_seq (go_bind (go_get (\<lambda>t. list_ex (\<lambda>r. threads_key r = thr_Key thread) t))
               (\<lambda>taken. go_require (UniqueFailed ''threads.key'') (\<not> taken)))
            (sql_insert ''threads.id'' threads_id (threads_enc thread))"

definition threads_Get :: "string \<Rightarrow> threads_row sql_table \<Rightarrow> Thread option" where
  "threads_Get tid t = first_row (map threads_dec (sql_select (\<lambda>r. threads_id r = tid) t))"

definition threads_GetByKey :: "string \<Rightarrow> threads_row sql_table \<Rightarrow> Thread option" where
  "threads_GetByKey k t = first_row (map threads_dec (sql_select (\<lambda>r. threads_key r = k) t))"

definition threads_List :: "threads_row sql_table \<Rightarrow> Thread list" where
  "threads_List t = map threads_dec t"

definition threads_Count :: "threads_row sql_table \<Rightarrow> int" where
  "threads_Count t = sql_count (\<lambda>_. True) t"

definition threads_UpdateHead :: "string \<Rightarrow> string list \<Rightarrow> (threads_row sql_table, unit) go" where
  "threads_UpdateHead tid heads =
     sql_update (\<lambda>r. threads_id r = tid) (\<lambda>r. r\<lparr>threads_head := Join '','' heads\<rparr>)"

definition threads_UpdateName :: "string \<Rightarrow> string \<Rightarrow> (threads_row sql_table, unit) go" where
  "threads_UpdateName tid name = sql_update (\<lambda>r. threads_id r = tid) (\<lambda>r. r\<lparr>threads_name := name\<rparr>)"

definition threads_UpdateSchema :: "string \<Rightarrow> string \<Rightarrow> (threads_row sql_table, unit) go" where
  "threads_UpdateSchema tid hash =
     sql_update (\<lambda>r. threads_id r = tid) (\<lambda>r. r\<lparr>threads_schema := hash\<rparr>)"

definition threads_Delete :: "string \<Rightarrow> (threads_row sql_table, unit) go" where
  "threads_Delete tid = sql_delete (\<lambda>r. threads_id r = tid)"

section \<open>Thread peers\<close>

definition thread_peers_Add :: "ThreadPeer \<Rightarrow> (thread_peers_row sql_table, unit) go" where
  "thread_peers_Add peer =
     sql_insert ''thread_peers.id, thread_peers.threadId'' thread_peers_key (thread_peers_enc peer)"

definition thread_peers_List :: "thread_peers_row sql_table \<Rightarrow> ThreadPeer list" where
  "thread_peers_List t = map thread_peers_dec t"

definition thread_peers_ListById :: "string \<Rightarrow> thread_peers_row sql_table \<Rightarrow> ThreadPeer list" where
  "thread_peers_ListById pid t = map thread_peers_dec (sql_select (\<lambda>r. thread_peers_id r = pid) t)"

definition thread_peers_ListByThread :: "string \<Rightarrow> thread_peers_row sql_table \<Rightarrow> ThreadPeer list" where
  "thread_peers_ListByThread tid t =
     map thread_peers_dec (sql_select (\<lambda>r. thread_peers_threadId r = tid) t)"

definition thread_peers_ListUnwelcomedByThread ::
  "string \<Rightarrow> thread_peers_row sql_table \<Rightarrow> ThreadPeer list" where
  "thread_peers_ListUnwelcomedByThread tid t =
     map thread_peers_dec
       (sql_select (\<lambda>r. thread_peers_threadId r = tid \<and> \<not> thread_peers_welcomed r) t)"

definition thread_peers_WelcomeByThread :: "string \<Rightarrow> (thread_peers_row sql_table, unit) go" where
  "thread_peers_WelcomeByThread tid =
     sql_update (\<lambda>r. thread_peers_threadId r = tid) (\<lambda>r. r\<lparr>thread_peers_welcomed := True\<rparr>)"

definition thread_peers_Count :: "bool \<Rightarrow> thread_peers_row sql_table \<Rightarrow> int" where
  "thread_peers_Count dist t =
     (if dist then int (length (remdups (map thread_peers_id t))) else int (length t))"

definition thread_peers_Delete :: "string \<Rightarrow> string \<Rightarrow> (thread_peers_row sql_table, unit) go" where
  "thread_peers_Delete pid tid =
     sql_delete (\<lambda>r. thread_peers_id r = pid \<and> thread_peers_threadId r = tid)"

definition thread_peers_DeleteById :: "string \<Rightarrow> (thread_peers_row sql_table, unit) go" where
  "thread_peers_DeleteById pid = sql_delete (\<lambda>r. thread_peers_id r = pid)"

definition thread_peers_DeleteByThread :: "string \<Rightarrow> (thread_peers_row sql_table, unit) go" where
  "thread_peers_DeleteByThread tid = sql_delete (\<lambda>r. thread_peers_threadId r = tid)"

section \<open>Block messages\<close>

definition block_messages_Add :: "timestamp \<Rightarrow> BlockMessage \<Rightarrow> (block_messages_row sql_table, unit) go" where
  "block_messages_Add now msg =
     go_seq (go_require (ErrMsg ''proto: Marshal called with nil'') (bm_Env msg \<noteq> None))
            (sql_insert ''block_messages.id'' block_messages_id (block_messages_enc now msg))"

definition block_messages_List ::
  "string \<Rightarrow> int \<Rightarrow> block_messages_row sql_table \<Rightarrow> BlockMessage list" where
  "block_messages_List offset limit t =
     map block_messages_dec (sql_limit limit (order_asc block_messages_date (sql_select (\<lambda>r.
       offset \<noteq> [] \<longrightarrow>
         sql_greater (sql_scalar block_messages_date (\<lambda>x. block_messages_id x = offset) t)
           (block_messages_date r)) t)))"

definition block_messages_Delete :: "string \<Rightarrow> (block_messages_row sql_table, unit) go" where
  "block_messages_Delete mid = sql_delete (\<lambda>r. block_messages_id r = mid)"

section \<open>Invites\<close>

definition invites_Add :: "timestamp \<Rightarrow> Invite \<Rightarrow> (invites_row sql_table, unit) go" where
  "invites_Add now invite =
     go_seq (go_require (ErrMsg ''proto: Marshal called with nil'') (inv_Inviter invite \<noteq> None))
            (sql_insert ''invites.id'' invites_id (invites_enc now invite))"

definition invites_Get :: "string \<Rightarrow> invites_row sql_table \<Rightarrow> Invite option" where
  "invites_Get iid t = first_row (map invites_dec (sql_select (\<lambda>r. invites_id r = iid) t))"

definition invites_List :: "invites_row sql_table \<Rightarrow> Invite list" where
  "invites_List t = map invites_dec (order_desc invites_date t)"

definition invites_Delete :: "string \<Rightarrow> (invites_row sql_table, unit) go" where
  "invites_Delete iid = sql_delete (\<lambda>r. invites_id r = iid)"

section \<open>Notifications\<close>

definition notifications_Add :: "timestamp \<Rightarrow> Notification \<Rightarrow> (notifications_row sql_table, unit) go" where
  "notifications_Add now n = sql_insert ''notifications.id'' notifications_id (notifications_enc now n)"

definition notifications_Get :: "string \<Rightarrow> notifications_row sql_table \<Rightarrow> Notification option" where
  "notifications_Get nid t =
     first_row (map notifications_dec (sql_select (\<lambda>r. notifications_id r = nid) t))"

definition notifications_Read :: "string \<Rightarrow> (notifications_row sql_table, unit) go" where
  "notifications_Read nid =
     sql_update (\<lambda>r. notifications_id r = nid) (\<lambda>r. r\<lparr>notifications_read := True\<rparr>)"

definition notifications_ReadAll :: "(notifications_row sql_table, unit) go" where
  "notifications_ReadAll = sql_update (\<lambda>_. True) (\<lambda>r. r\<lparr>notifications_read := True\<rparr>)"

definition notifications_List ::
  "string \<Rightarrow> int \<Rightarrow> notifications_row sql_table \<Rightarrow> Notification list" where
  "notifications_List offset limit t =
     map notifications_dec (sql_limit limit (order_desc notifications_date (sql_select (\<lambda>r.
       offset \<noteq> [] \<longrightarrow>
         sql_less (sql_scalar notifications_date (\<lambda>x. notifications_id x = offset) t)
           (notifications_date r)) t)))"

definition notifications_CountUnread :: "notifications_row sql_table \<Rightarrow> int" where
  "notifications_CountUnread t = sql_count (\<lambda>r. \<not> notifications_read r) t"

definition notifications_Delete :: "string \<Rightarrow> (notifications_row sql_table, unit) go" where
  "notifications_Delete nid = sql_delete (\<lambda>r. notifications_id r = nid)"

definition notifications_DeleteByActor :: "string \<Rightarrow> (notifications_row sql_table, unit) go" where
  "notifications_DeleteByActor a = sql_delete (\<lambda>r. notifications_actorId r = a)"

definition notifications_DeleteBySubject :: "string \<Rightarrow> (notifications_row sql_table, unit) go" where
  "notifications_DeleteBySubject s = sql_delete (\<lambda>r. notifications_subjectId r = s)"

definition notifications_DeleteByBlock :: "string \<Rightarrow> (notifications_row sql_table, unit) go" where
  "notifications_DeleteByBlock b = sql_delete (\<lambda>r. notifications_blockId r = b)"

end
