(* ===== verification/PeerFileStores.thy ===== *)
theory PeerFileStores
  imports Tables Strkey
begin

text \<open>
  The peer store with its search and its choice of the best user name, the file index with its
  target lists, and the configuration table (\<^verbatim>\<open>repo/db/peers.go\<close>, \<^verbatim>\<open>files.go\<close>, \<^verbatim>\<open>config.go\<close>).
\<close>

section \<open>Peers\<close>

definition peers_Add :: "timestamp \<Rightarrow> Peer \<Rightarrow> (peers_row sql_table, unit) go" where
  "peers_Add now peer = sql_insert ''peers.id'' peers_id (peers_enc now peer)"

definition peers_AddOrUpdate :: "timestamp \<Rightarrow> Peer \<Rightarrow> (peers_row sql_table, unit) go" where
  "peers_AddOrUpdate now peer = (\<lambda>t.
     sql_replace peers_id
       ((peers_enc now peer)\<lparr>
          peers_created :=
            (case sql_scalar peers_created (\<lambda>r. peers_id r = peer_Id peer) t of
               None \<Rightarrow> ProtoNanos now (peer_Created peer) | Some c \<Rightarrow> c),
          peers_updated := ProtoNanos now None\<rparr>) t)"

definition peers_Get :: "string \<Rightarrow> peers_row sql_table \<Rightarrow> Peer option" where
  "peers_Get pid t = first_row (map peers_dec (sql_select (\<lambda>r. peers_id r = pid) t))"

definition ensureName :: "User option \<Rightarrow> User option" where
  "ensureName user =
     (case user of None \<Rightarrow> None | Some u \<Rightarrow>
        if user_Address u = [] \<or> user_Name u \<noteq> [] then Some u
        else if 7 \<le> length (user_Address u)
             then Some (u\<lparr>user_Name := take 7 (user_Address u)\<rparr>) else Some u)"

text \<open>The loop over the rows after the first one: fill the name and avatar that are missing.\<close>

fun fill_user :: "User \<Rightarrow> peers_row list \<Rightarrow> User" where
  "fill_user latest [] = latest"
| "fill_user latest (r # rs) =
     (let l1 = (if peers_username r \<noteq> [] \<and> user_Name latest = []
                then latest\<lparr>user_Name := peers_username r\<rparr> else latest);
          l2 = (if peers_avatar r \<noteq> [] \<and> user_Avatar l1 = []
                then l1\<lparr>user_Avatar := peers_avatar r\<rparr> else l1)
      in if user_Name l2 \<noteq> [] \<and> user_Avatar l2 \<noteq> [] then l2 else fill_user l2 rs)"

definition peers_GetBestUser :: "string \<Rightarrow> peers_row sql_table \<Rightarrow> User option" where
  "peers_GetBestUser pid t =
     (let addr = sql_scalar peers_address (\<lambda>r. peers_id r = pid) t;
          rows = order_desc peers_updated (sql_select (\<lambda>r. Some (peers_address r) = addr) t)
      in case rows of [] \<Rightarrow> None
         | r # rs \<Rightarrow> ensureName (Some (fill_user
             \<lparr>user_Address = the addr, user_Name = peers_username r, user_Avatar = peers_avatar r\<rparr> rs)))"

definition peers_List :: "(peers_row \<Rightarrow> bool) \<Rightarrow> peers_row sql_table \<Rightarrow> Peer list" where
  "peers_List Q t = map peers_dec (order_desc peers_updated (sql_select Q t))"

text \<open>\<open>LIKE\<close>: \<open>%\<close> matches any text and \<open>_\<close> any character, and ASCII letters match in either case.\<close>

definition lower :: "char \<Rightarrow> char" where
  "lower c = (let n = (of_char c :: nat) in if 65 \<le> n \<and> n \<le> 90 then char_of (n + 32) else c)"

fun sql_like :: "string \<Rightarrow> string \<Rightarrow> bool" where
  "sql_like [] s \<longleftrightarrow> s = []"
| "sql_like (p # ps) s \<longleftrightarrow>
     (if p = CHR ''%''
      then sql_like ps s \<or> (case s of [] \<Rightarrow> False | _ # cs \<Rightarrow> sql_like (p # ps) cs)
      else case s of [] \<Rightarrow> False
           | c # cs \<Rightarrow> (p = CHR ''_'' \<or> lower p = lower c) \<and> sql_like ps cs)"

definition peers_Find :: "string \<Rightarrow> string \<Rightarrow> string list \<Rightarrow> peers_row sql_table \<Rightarrow> Peer list" where
  "peers_Find address name exclude t =
     (if address = [] \<and> name = [] then []
      else map peers_dec (order_desc peers_updated (sql_select (\<lambda>r.
             (address \<noteq> [] \<longrightarrow> peers_address r = address)
             \<and> (name \<noteq> [] \<longrightarrow> sql_like (''%'' @ name @ ''%'') (peers_username r))
             \<and> (0 < length exclude \<longrightarrow> peers_id r \<notin> set exclude)) t)))"

definition peers_Count :: "(peers_row \<Rightarrow> bool) \<Rightarrow> peers_row sql_table \<Rightarrow> int" where
  "peers_Count Q t = sql_count Q t"

definition peers_UpdateName :: "timestamp \<Rightarrow> string \<Rightarrow> string \<Rightarrow> (peers_row sql_table, unit) go" where
  "peers_UpdateName now pid name =
     sql_update (\<lambda>r. peers_id r = pid)
       (\<lambda>r. r\<lparr>peers_username := name, peers_updated := ProtoNanos now None\<rparr>)"

definition peers_UpdateAvatar :: "timestamp \<Rightarrow> string \<Rightarrow> string \<Rightarrow> (peers_row sql_table, unit) go" where
  "peers_UpdateAvatar now pid avatar =
     sql_update (\<lambda>r. peers_id r = pid)
       (\<lambda>r. r\<lparr>peers_avatar := avatar, peers_updated := ProtoNanos now None\<rparr>)"

definition peers_UpdateInboxes :: "timestamp \<Rightarrow> string \<Rightarrow> Cafe list \<Rightarrow> (peers_row sql_table, unit) go" where
  "peers_UpdateInboxes now pid inboxes =
     sql_update (\<lambda>r. peers_id r = pid)
       (\<lambda>r. r\<lparr>peers_inboxes := inboxes, peers_updated := ProtoNanos now None\<rparr>)"

definition peers_Delete :: "string \<Rightarrow> (peers_row sql_table, unit) go" where
  "peers_Delete pid = sql_delete (\<lambda>r. peers_id r = pid)"

definition peers_DeleteByAddress :: "string \<Rightarrow> (peers_row sql_table, unit) go" where
  "peers_DeleteByAddress address = sql_delete (\<lambda>r. peers_address r = address)"

section \<open>Files\<close>

text \<open>The unique index on mill, source and options is checked before the primary key.\<close>

definition same_source :: "files_row \<Rightarrow> files_row \<Rightarrow> bool" where
  "same_source a b \<longleftrightarrow>
     files_mill a = files_mill b \<and> files_source a = files_source b \<and> files_opts a = files_opts b"

definition files_Add :: "timestamp \<Rightarrow> FileIndex \<Rightarrow> (files_row sql_table, unit) go" where
  "files_Add now file =
     (let row = files_enc now file
      in go_seq (go_bind (go_get (list_ex (same_source row)))
                  (\<lambda>taken. go_require (UniqueFailed ''files.mill, files.source, files.opts'') (\<not> taken)))
                (sql_insert ''files.mill, files.checksum'' files_key row))"

definition files_Get :: "string \<Rightarrow> files_row sql_table \<Rightarrow> FileIndex option" where
  "files_Get hash t = first_row (map files_dec (sql_select (\<lambda>r. files_hash r = hash) t))"

definition files_GetByPrimary :: "string \<Rightarrow> string \<Rightarrow> files_row sql_table \<Rightarrow> FileIndex option" where
  "files_GetByPrimary mill checksum t =
     first_row (map files_dec
       (sql_select (\<lambda>r. files_mill r = mill \<and> files_checksum r = checksum) t))"

definition files_GetBySource ::
  "string \<Rightarrow> string \<Rightarrow> string \<Rightarrow> files_row sql_table \<Rightarrow> FileIndex option" where
  "files_GetBySource mill source opts t =
     first_row (map files_dec
       (sql_select (\<lambda>r. files_mill r = mill \<and> files_source r = source \<and> files_opts r = opts) t))"

definition targetExists :: "string \<Rightarrow> string list \<Rightarrow> bool" where
  "targetExists x xs \<longleftrightarrow> list_ex (\<lambda>i. x = i) xs"

definition files_AddTarget :: "string \<Rightarrow> string \<Rightarrow> (files_row sql_table, unit) go" where
  "files_AddTarget hash target = (\<lambda>t.
     (case map (\<lambda>r. optcsv_dec (files_targets r)) (sql_select (\<lambda>r. files_hash r = hash) t) of
        [] \<Rightarrow> (Inl (ErrMsg ''file not found''), t)
      | etargets # _ \<Rightarrow>
          if targetExists target etargets then (Inr (), t)
          else sql_update (\<lambda>r. files_hash r = hash)
                 (\<lambda>r. r\<lparr>files_targets := Some (Join '','' (etargets @ [target]))\<rparr>) t))"

definition files_RemoveTarget :: "string \<Rightarrow> string \<Rightarrow> (files_row sql_table, unit) go" where
  "files_RemoveTarget hash target = (\<lambda>t.
     (case map (\<lambda>r. optcsv_dec (files_targets r)) (sql_select (\<lambda>r. files_hash r = hash) t) of
        [] \<Rightarrow> (Inl (ErrMsg ''file not found''), t)
      | etargets # _ \<Rightarrow>
          if \<not> targetExists target etargets then (Inr (), t)
          else sql_update (\<lambda>r. files_hash r = hash)
                 (\<lambda>r. r\<lparr>files_targets := optcsv_enc (filter (\<lambda>x. x \<noteq> target) etargets)\<rparr>) t))"

definition files_Count :: "files_row sql_table \<Rightarrow> int" where
  "files_Count t = sql_count (\<lambda>_. True) t"

definition files_Delete :: "string \<Rightarrow> (files_row sql_table, unit) go" where
  "files_Delete hash = sql_delete (\<lambda>r. files_hash r = hash)"

section \<open>Configuration\<close>

text \<open>The rows are keys and values; \<open>created\<close> and \<open>today\<close> are formatted times.\<close>

type_synonym config_row = "string \<times> string"

definition config_Configure :: "string \<Rightarrow> string \<Rightarrow> (config_row sql_table, unit) go" where
  "config_Configure seed created = (\<lambda>t.
     (case go_seq (sql_insert ''config.key'' fst (''seed'', seed))
                  (sql_insert ''config.key'' fst (''created'', created)) t of
        (Inl e, _) \<Rightarrow> (Inl e, t)
      | (Inr u, t') \<Rightarrow> (Inr u, t')))"

definition config_value :: "string \<Rightarrow> config_row sql_table \<Rightarrow> string option" where
  "config_value k t = sql_scalar snd (\<lambda>r. fst r = k) t"

definition config_GetAccount :: "base58_dec \<Rightarrow> config_row sql_table \<Rightarrow> goerr + keypair option" where
  "config_GetAccount dec58 t =
     (case config_value ''seed'' t of None \<Rightarrow> Inr None | Some seed \<Rightarrow>
      case Decode dec58 VersionByteSeed seed of Inl e \<Rightarrow> Inl e | Inr _ \<Rightarrow>
      case keypair_Parse dec58 seed of Inl e \<Rightarrow> Inl e | Inr kp \<Rightarrow>
      case kp of Full _ \<Rightarrow> Inr (Some kp) | FromAddress _ \<Rightarrow> Inl (ErrMsg ''invalid seed''))"

definition config_GetLastDaily :: "config_row sql_table \<Rightarrow> string option" where
  "config_GetLastDaily t = config_value ''daily'' t"

definition config_SetLastDaily :: "string \<Rightarrow> (config_row sql_table, unit) go" where
  "config_SetLastDaily today = sql_replace fst (''daily'', today)"

section \<open>Lemmas\<close>

text \<open>The best user: the first name and the first avatar that are not empty, newest row first.\<close>

definition first_set :: "string list \<Rightarrow> string" where
  "first_set xs = (case find (\<lambda>x. x \<noteq> []) xs of None \<Rightarrow> [] | Some x \<Rightarrow> x)"

lemma fill_user_fields:
  "user_Address (fill_user u rs) = user_Address u"
  "user_Name (fill_user u rs) = first_set (user_Name u # map peers_username rs)"
  "user_Avatar (fill_user u rs) = first_set (user_Avatar u # map peers_avatar rs)"
  by (induction u rs rule: fill_user.induct) (auto simp: Let_def first_set_def)

lemma fill_user_eq:
  "fill_user u rs = \<lparr>user_Address = user_Address u,
     user_Name = first_set (user_Name u # map peers_username rs),
     user_Avatar = first_set (user_Avatar u # map peers_avatar rs)\<rparr>"
  by (rule User.equality) (simp_all add: fill_user_fields)

text \<open>The account that \<open>Configure\<close> stored is the account \<open>GetAccount\<close> returns.\<close>

lemma GetAccount_Configure:
  assumes "base58_inverse enc58 dec58" "Encode enc58 VersionByteSeed p = Inr seed"
    and "config_Configure seed created t = (Inr u, t')"
  shows "config_GetAccount dec58 t' = Inr (Some (Full seed))"
proof -
  have fresh: "''seed'' \<notin> fst ` set t" and t': "t' = t @ [(''seed'', seed), (''created'', created)]"
    using assms(3) by (auto simp: config_Configure_def sql_insert_def go_defs split: if_splits)
  have "find (\<lambda>r. fst r = ''seed'') (t @ [(''seed'', seed), (''created'', created)]) = Some (''seed'', seed)"
    using fresh by (induction t) auto
  then have v: "config_value ''seed'' t' = Some seed"
    by (simp add: config_value_def sql_scalar_def t')
  then show ?thesis
    using Decode_Encode [OF assms(1,2), of VersionByteSeed] Decode_Encode [OF assms(1,2), of VersionByteAccountID]
    by (simp add: config_GetAccount_def keypair_Parse_def checkValidVersionByte_def)
qed

end
