(* ===== verification/CafeStores.thy ===== *)
theory CafeStores
  imports Tables
begin

text \<open>
  The stores a node keeps for its cafes and as a cafe, \<^verbatim>\<open>repo/db/cafe_*.go\<close>: sessions, the request
  queue with its groups and sync groups, the inbox queue, and the clients, nonces, tokens, threads
  and messages of a cafe host.
\<close>

section \<open>Sessions\<close>

definition cafe_sessions_AddOrUpdate :: "timestamp \<Rightarrow> CafeSession \<Rightarrow> (cafe_sessions_row sql_table, unit) go" where
  "cafe_sessions_AddOrUpdate now session = sql_replace cafe_sessions_cafeId (cafe_sessions_enc now session)"

definition cafe_sessions_Get :: "string \<Rightarrow> cafe_sessions_row sql_table \<Rightarrow> CafeSession option" where
  "cafe_sessions_Get cid t =
     first_row (map cafe_sessions_dec (sql_select (\<lambda>r. cafe_sessions_cafeId r = cid) t))"

definition cafe_sessions_List :: "cafe_sessions_row sql_table \<Rightarrow> CafeSession list" where
  "cafe_sessions_List t = map cafe_sessions_dec (order_desc cafe_sessions_expiry t)"

definition cafe_sessions_Delete :: "string \<Rightarrow> (cafe_sessions_row sql_table, unit) go" where
  "cafe_sessions_Delete cid = sql_delete (\<lambda>r. cafe_sessions_cafeId r = cid)"

section \<open>Requests\<close>

definition cafe_requests_Add :: "timestamp \<Rightarrow> CafeRequest \<Rightarrow> (cafe_requests_row sql_table, unit) go" where
  "cafe_requests_Add now req = sql_insert ''cafe_requests.id'' cafe_requests_id (cafe_requests_enc now req)"

definition cafe_requests_Get :: "string \<Rightarrow> cafe_requests_row sql_table \<Rightarrow> CafeRequest option" where
  "cafe_requests_Get rid t =
     first_row (map cafe_requests_dec (sql_select (\<lambda>r. cafe_requests_id r = rid) t))"

definition cafe_requests_GetGroup :: "string \<Rightarrow> cafe_requests_row sql_table \<Rightarrow> CafeRequest list" where
  "cafe_requests_GetGroup grp t =
     map cafe_requests_dec (sql_select (\<lambda>r. cafe_requests_groupId r = grp) t)"

definition cafe_requests_GetSyncGroup :: "string \<Rightarrow> cafe_requests_row sql_table \<Rightarrow> string" where
  "cafe_requests_GetSyncGroup grp t =
     (case map cafe_requests_syncGroupId (sql_select (\<lambda>r. cafe_requests_groupId r = grp) t) of
        [] \<Rightarrow> [] | s # _ \<Rightarrow> s)"

text \<open>\<open>None\<close> stands for the status -1, which counts all requests.\<close>

definition cafe_requests_Count :: "RequestStatus option \<Rightarrow> cafe_requests_row sql_table \<Rightarrow> int" where
  "cafe_requests_Count st t =
     sql_count (\<lambda>r. case st of None \<Rightarrow> True | Some s \<Rightarrow> cafe_requests_status r = RequestStatus_to_int s) t"

definition cafe_requests_List :: "string \<Rightarrow> int \<Rightarrow> cafe_requests_row sql_table \<Rightarrow> CafeRequest list" where
  "cafe_requests_List offset limit t =
     map cafe_requests_dec (sql_limit limit (order_asc cafe_requests_date (sql_select (\<lambda>r.
       cafe_requests_status r = 0 \<and> (offset \<noteq> [] \<longrightarrow>
         sql_greater (sql_scalar cafe_requests_date (\<lambda>x. cafe_requests_id x = offset) t)
           (cafe_requests_date r))) t)))"

text \<open>
  \<open>SELECT DISTINCT groupId \<dots> ORDER BY date\<close>: a group is kept with its first row, and the groups are
  sorted by the date of that row.
\<close>

fun distinct_by :: "('r \<Rightarrow> 'k) \<Rightarrow> 'r list \<Rightarrow> 'r list" where
  "distinct_by f [] = []"
| "distinct_by f (r # rs) = r # filter (\<lambda>x. f x \<noteq> f r) (distinct_by f rs)"

definition cafe_requests_ListGroups :: "string \<Rightarrow> int \<Rightarrow> cafe_requests_row sql_table \<Rightarrow> string list" where
  "cafe_requests_ListGroups offset limit t =
     map cafe_requests_groupId (sql_limit limit (order_asc cafe_requests_date
       (distinct_by cafe_requests_groupId (sql_select (\<lambda>r.
         cafe_requests_status r = 0 \<and> (offset \<noteq> [] \<longrightarrow>
           sql_greater (sql_scalar cafe_requests_date (\<lambda>x. cafe_requests_groupId x = offset) t)
             (cafe_requests_date r))) t))))"

text \<open>
  The join of the two grouped selects: a sync group has a row in it when it has complete requests
  and as many of them as requests.
\<close>

definition sync_total :: "cafe_requests_row sql_table \<Rightarrow> string \<Rightarrow> int" where
  "sync_total t sg = sql_count (\<lambda>r. cafe_requests_syncGroupId r = sg) t"

definition sync_total_complete :: "cafe_requests_row sql_table \<Rightarrow> string \<Rightarrow> int" where
  "sync_total_complete t sg =
     sql_count (\<lambda>r. cafe_requests_syncGroupId r = sg
       \<and> cafe_requests_status r = RequestStatus_to_int CafeRequest_COMPLETE) t"

definition sync_joined :: "cafe_requests_row sql_table \<Rightarrow> string \<Rightarrow> bool" where
  "sync_joined t sg \<longleftrightarrow>
     0 < sync_total t sg \<and> 0 < sync_total_complete t sg \<and> sync_total t sg = sync_total_complete t sg"

definition SyncGroupComplete :: "string \<Rightarrow> cafe_requests_row sql_table \<Rightarrow> bool" where
  "SyncGroupComplete sg t = (if sync_total t sg = 0 then True else sync_joined t sg)"

record CafeSyncGroupStatus =
  sgs_Id :: string
  sgs_NumTotal :: int
  sgs_NumPending :: int
  sgs_NumComplete :: int
  sgs_SizeTotal :: int
  sgs_SizePending :: int
  sgs_SizeComplete :: int
  sgs_GroupsSizeTotal :: int
  sgs_GroupsSizeComplete :: int

definition empty_status :: CafeSyncGroupStatus where
  "empty_status = \<lparr>sgs_Id = [], sgs_NumTotal = 0, sgs_NumPending = 0, sgs_NumComplete = 0,
     sgs_SizeTotal = 0, sgs_SizePending = 0, sgs_SizeComplete = 0,
     sgs_GroupsSizeTotal = 0, sgs_GroupsSizeComplete = 0\<rparr>"

text \<open>The body of the loop; \<open>groups\<close> are the groups seen so far. The sizes are of 64 bits and wrap around. The
  counts are of 32 bits in the code; they are not wrapped here, so the model is that of a table of
  fewer than 2 147 483 648 requests.\<close>

definition add_status ::
  "string set \<times> CafeSyncGroupStatus \<Rightarrow> cafe_requests_row \<Rightarrow> string set \<times> CafeSyncGroupStatus" where
  "add_status acc r =
     (let groups = fst acc; s0 = snd acc; size = cafe_requests_size r;
          s1 = s0\<lparr>sgs_Id := cafe_requests_syncGroupId r, sgs_NumTotal := sgs_NumTotal s0 + 1,
                  sgs_SizeTotal := int64 (sgs_SizeTotal s0 + size)\<rparr>;
          s2 = (if cafe_requests_status r = RequestStatus_to_int CafeRequest_PENDING
                then s1\<lparr>sgs_NumPending := sgs_NumPending s1 + 1,
                        sgs_SizePending := int64 (sgs_SizePending s1 + size)\<rparr>
                else if cafe_requests_status r = RequestStatus_to_int CafeRequest_COMPLETE
                then s1\<lparr>sgs_NumComplete := sgs_NumComplete s1 + 1,
                        sgs_SizeComplete := int64 (sgs_SizeComplete s1 + size)\<rparr>
                else s1)
      in if cafe_requests_groupId r \<notin> groups
         then (insert (cafe_requests_groupId r) groups,
               s2\<lparr>sgs_GroupsSizeTotal := int64 (sgs_GroupsSizeTotal s2 + cafe_requests_groupSize r),
                  sgs_GroupsSizeComplete := int64 (sgs_GroupsSizeComplete s2 + cafe_requests_groupTransferred r)\<rparr>)
         else (groups, s2))"

definition SyncGroupStatus :: "string \<Rightarrow> cafe_requests_row sql_table \<Rightarrow> CafeSyncGroupStatus" where
  "SyncGroupStatus groupId t =
     (let sg = sql_scalar cafe_requests_syncGroupId (\<lambda>x. cafe_requests_groupId x = groupId) t
      in snd (foldl add_status ({}, empty_status)
           (order_asc cafe_requests_date (sql_select (\<lambda>r. Some (cafe_requests_syncGroupId r) = sg) t))))"

definition cafe_requests_UpdateStatus :: "string \<Rightarrow> RequestStatus \<Rightarrow> (cafe_requests_row sql_table, unit) go" where
  "cafe_requests_UpdateStatus rid st =
     sql_update (\<lambda>r. cafe_requests_id r = rid) (\<lambda>r. r\<lparr>cafe_requests_status := RequestStatus_to_int st\<rparr>)"

definition cafe_requests_UpdateGroupStatus :: "string \<Rightarrow> RequestStatus \<Rightarrow> (cafe_requests_row sql_table, unit) go" where
  "cafe_requests_UpdateGroupStatus grp st =
     sql_update (\<lambda>r. cafe_requests_groupId r = grp)
       (\<lambda>r. r\<lparr>cafe_requests_status := RequestStatus_to_int st\<rparr>)"

definition cafe_requests_UpdateGroupProgress :: "string \<Rightarrow> int \<Rightarrow> int \<Rightarrow> (cafe_requests_row sql_table, unit) go" where
  "cafe_requests_UpdateGroupProgress grp transferred tot =
     sql_update (\<lambda>r. cafe_requests_groupId r = grp)
       (\<lambda>r. r\<lparr>cafe_requests_groupSize := tot, cafe_requests_groupTransferred := transferred\<rparr>)"

definition cafe_requests_AddAttempt :: "string \<Rightarrow> (cafe_requests_row sql_table, unit) go" where
  "cafe_requests_AddAttempt rid =
     sql_update (\<lambda>r. cafe_requests_id r = rid) (\<lambda>r. r\<lparr>cafe_requests_attempts := cafe_requests_attempts r + 1\<rparr>)"

definition cafe_requests_Delete :: "string \<Rightarrow> (cafe_requests_row sql_table, unit) go" where
  "cafe_requests_Delete rid = sql_delete (\<lambda>r. cafe_requests_id r = rid)"

definition cafe_requests_DeleteByGroup :: "string \<Rightarrow> (cafe_requests_row sql_table, unit) go" where
  "cafe_requests_DeleteByGroup grp = sql_delete (\<lambda>r. cafe_requests_groupId r = grp)"

definition cafe_requests_DeleteBySyncGroup :: "string \<Rightarrow> (cafe_requests_row sql_table, unit) go" where
  "cafe_requests_DeleteBySyncGroup sg = sql_delete (\<lambda>r. cafe_requests_syncGroupId r = sg)"

definition DeleteCompleteSyncGroups :: "(cafe_requests_row sql_table, unit) go" where
  "DeleteCompleteSyncGroups = (\<lambda>t. sql_delete (\<lambda>r. sync_joined t (cafe_requests_syncGroupId r)) t)"

definition cafe_requests_DeleteByCafe :: "string \<Rightarrow> (cafe_requests_row sql_table, unit) go" where
  "cafe_requests_DeleteByCafe cid = sql_delete (\<lambda>r. cafe_requests_cafeId r = cid)"

section \<open>Inbox messages\<close>

definition cafe_messages_Add :: "timestamp \<Rightarrow> CafeMessage \<Rightarrow> (cafe_messages_row sql_table, unit) go" where
  "cafe_messages_Add now msg = sql_insert ''cafe_messages.id'' cafe_messages_id (cafe_messages_enc now msg)"

definition cafe_messages_List :: "string \<Rightarrow> int \<Rightarrow> cafe_messages_row sql_table \<Rightarrow> CafeMessage list" where
  "cafe_messages_List offset limit t =
     map cafe_messages_dec (sql_limit limit (order_asc cafe_messages_date (sql_select (\<lambda>r.
       offset \<noteq> [] \<longrightarrow>
         sql_greater (sql_scalar cafe_messages_date (\<lambda>x. cafe_messages_id x = offset) t)
           (cafe_messages_date r)) t)))"

definition cafe_messages_AddAttempt :: "string \<Rightarrow> (cafe_messages_row sql_table, unit) go" where
  "cafe_messages_AddAttempt mid =
     sql_update (\<lambda>r. cafe_messages_id r = mid) (\<lambda>r. r\<lparr>cafe_messages_attempts := cafe_messages_attempts r + 1\<rparr>)"

definition cafe_messages_Delete :: "string \<Rightarrow> (cafe_messages_row sql_table, unit) go" where
  "cafe_messages_Delete mid = sql_delete (\<lambda>r. cafe_messages_id r = mid)"

section \<open>Client nonces\<close>

definition nonces_Add :: "timestamp \<Rightarrow> CafeClientNonce \<Rightarrow> (cafe_client_nonces_row sql_table, unit) go" where
  "nonces_Add now n =
     sql_insert ''cafe_client_nonces.value'' cafe_client_nonces_value (cafe_client_nonces_enc now n)"

definition nonces_Get :: "string \<Rightarrow> cafe_client_nonces_row sql_table \<Rightarrow> CafeClientNonce option" where
  "nonces_Get v t =
     first_row (map cafe_client_nonces_dec (sql_select (\<lambda>r. cafe_client_nonces_value r = v) t))"

definition nonces_Delete :: "string \<Rightarrow> (cafe_client_nonces_row sql_table, unit) go" where
  "nonces_Delete v = sql_delete (\<lambda>r. cafe_client_nonces_value r = v)"

section \<open>Clients\<close>

definition clients_Add :: "timestamp \<Rightarrow> CafeClient \<Rightarrow> (cafe_clients_row sql_table, unit) go" where
  "clients_Add now c = sql_insert ''cafe_clients.id'' cafe_clients_id (cafe_clients_enc now c)"

definition clients_Get :: "string \<Rightarrow> cafe_clients_row sql_table \<Rightarrow> CafeClient option" where
  "clients_Get cid t = first_row (map cafe_clients_dec (sql_select (\<lambda>r. cafe_clients_id r = cid) t))"

definition clients_Count :: "cafe_clients_row sql_table \<Rightarrow> int" where
  "clients_Count t = sql_count (\<lambda>_. True) t"

definition clients_List :: "cafe_clients_row sql_table \<Rightarrow> CafeClient list" where
  "clients_List t = map cafe_clients_dec (order_desc cafe_clients_lastSeen t)"

definition clients_ListByAddress :: "string \<Rightarrow> cafe_clients_row sql_table \<Rightarrow> CafeClient list" where
  "clients_ListByAddress a t =
     map cafe_clients_dec (order_desc cafe_clients_lastSeen (sql_select (\<lambda>r. cafe_clients_address r = a) t))"

definition clients_UpdateLastSeen :: "string \<Rightarrow> int \<Rightarrow> (cafe_clients_row sql_table, unit) go" where
  "clients_UpdateLastSeen cid nanos =
     sql_update (\<lambda>r. cafe_clients_id r = cid) (\<lambda>r. r\<lparr>cafe_clients_lastSeen := nanos\<rparr>)"

definition clients_Delete :: "string \<Rightarrow> (cafe_clients_row sql_table, unit) go" where
  "clients_Delete cid = sql_delete (\<lambda>r. cafe_clients_id r = cid)"

section \<open>Client threads\<close>

text \<open>The column of the ciphertext is \<^verbatim>\<open>NOT NULL\<close>. The list of bytes does not tell a nil slice from an empty one, so
  the refusal of a snapshot whose ciphertext is nil is not modelled.\<close>

definition client_threads_AddOrUpdate :: "CafeClientThread \<Rightarrow> (cafe_client_threads_row sql_table, unit) go" where
  "client_threads_AddOrUpdate thrd = sql_replace cafe_client_threads_key (cafe_client_threads_enc thrd)"

definition client_threads_ListByClient :: "string \<Rightarrow> cafe_client_threads_row sql_table \<Rightarrow> CafeClientThread list" where
  "client_threads_ListByClient cid t =
     map cafe_client_threads_dec (sql_select (\<lambda>r. cafe_client_threads_clientId r = cid) t)"

definition client_threads_Delete :: "string \<Rightarrow> string \<Rightarrow> (cafe_client_threads_row sql_table, unit) go" where
  "client_threads_Delete tid cid =
     sql_delete (\<lambda>r. cafe_client_threads_id r = tid \<and> cafe_client_threads_clientId r = cid)"

definition client_threads_DeleteByClient :: "string \<Rightarrow> (cafe_client_threads_row sql_table, unit) go" where
  "client_threads_DeleteByClient cid = sql_delete (\<lambda>r. cafe_client_threads_clientId r = cid)"

section \<open>Client messages\<close>

definition client_messages_AddOrUpdate :: "timestamp \<Rightarrow> CafeClientMessage \<Rightarrow> (cafe_client_messages_row sql_table, unit) go" where
  "client_messages_AddOrUpdate now m = sql_replace cafe_client_messages_key (cafe_client_messages_enc now m)"

definition client_messages_ListByClient :: "string \<Rightarrow> int \<Rightarrow> cafe_client_messages_row sql_table \<Rightarrow> CafeClientMessage list" where
  "client_messages_ListByClient cid limit t =
     map cafe_client_messages_dec (sql_limit limit (order_asc cafe_client_messages_date
       (sql_select (\<lambda>r. cafe_client_messages_clientId r = cid) t)))"

definition client_messages_CountByClient :: "string \<Rightarrow> cafe_client_messages_row sql_table \<Rightarrow> int" where
  "client_messages_CountByClient cid t = sql_count (\<lambda>r. cafe_client_messages_clientId r = cid) t"

definition client_messages_Delete :: "string \<Rightarrow> string \<Rightarrow> (cafe_client_messages_row sql_table, unit) go" where
  "client_messages_Delete mid cid =
     sql_delete (\<lambda>r. cafe_client_messages_id r = mid \<and> cafe_client_messages_clientId r = cid)"

text \<open>The deletion selects ids of the client's messages, then deletes by id alone.\<close>

definition client_messages_DeleteByClient :: "string \<Rightarrow> int \<Rightarrow> (cafe_client_messages_row sql_table, unit) go" where
  "client_messages_DeleteByClient cid limit = (\<lambda>t.
     (let own = sql_select (\<lambda>r. cafe_client_messages_clientId r = cid) t;
          sel = map cafe_client_messages_id
                  (if 0 < limit then sql_limit limit (order_asc cafe_client_messages_date own) else own)
      in sql_delete (\<lambda>r. cafe_client_messages_id r \<in> set sel) t))"

section \<open>Tokens\<close>

definition tokens_Add :: "timestamp \<Rightarrow> CafeToken \<Rightarrow> (cafe_tokens_row sql_table, unit) go" where
  "tokens_Add now tok = sql_insert ''cafe_tokens.id'' cafe_tokens_id (cafe_tokens_enc now tok)"

definition tokens_Get :: "string \<Rightarrow> cafe_tokens_row sql_table \<Rightarrow> CafeToken option" where
  "tokens_Get tid t = first_row (map cafe_tokens_dec (sql_select (\<lambda>r. cafe_tokens_id r = tid) t))"

definition tokens_Delete :: "string \<Rightarrow> (cafe_tokens_row sql_table, unit) go" where
  "tokens_Delete tid = sql_delete (\<lambda>r. cafe_tokens_id r = tid)"

section \<open>Lemmas\<close>

lemma sync_total_complete_le: "sync_total_complete t sg \<le> sync_total t sg"
proof -
  have "length (filter (\<lambda>r. P r \<and> Q r) t) \<le> length (filter P t)" for P Q
    by (induction t) auto
  then show ?thesis by (simp add: sync_total_def sync_total_complete_def sql_count_def)
qed

lemma length_filter_eq_iff:
  "length (filter (\<lambda>r. P r \<and> Q r) t) = length (filter P t) \<longleftrightarrow> (\<forall>r\<in>set t. P r \<longrightarrow> Q r)"
proof (induction t)
  case (Cons a t)
  have "length (filter (\<lambda>r. P r \<and> Q r) t) \<le> length (filter P t)"
    by (induction t) auto
  then show ?case using Cons by auto
qed simp

text \<open>A sync group is joined when it is not empty and every request of it is complete.\<close>

definition sync_done :: "cafe_requests_row sql_table \<Rightarrow> string \<Rightarrow> bool" where
  "sync_done t sg \<longleftrightarrow> (\<forall>r\<in>set t. cafe_requests_syncGroupId r = sg
     \<longrightarrow> cafe_requests_status r = RequestStatus_to_int CafeRequest_COMPLETE)"

lemma sync_joined_iff:
  "sync_joined t sg \<longleftrightarrow> (\<exists>r\<in>set t. cafe_requests_syncGroupId r = sg) \<and> sync_done t sg"
proof -
  have pos: "0 < sync_total t sg \<longleftrightarrow> (\<exists>r\<in>set t. cafe_requests_syncGroupId r = sg)"
    by (auto simp: sync_total_def sql_count_def filter_empty_conv)
  have "sync_total t sg = sync_total_complete t sg \<longleftrightarrow> sync_done t sg"
    using length_filter_eq_iff [of "\<lambda>r. cafe_requests_syncGroupId r = sg"
        "\<lambda>r. cafe_requests_status r = RequestStatus_to_int CafeRequest_COMPLETE" t]
    by (auto simp: sync_total_def sync_total_complete_def sql_count_def sync_done_def)
  then show ?thesis using pos by (auto simp: sync_joined_def)
qed

lemma SyncGroupComplete_iff: "SyncGroupComplete sg t \<longleftrightarrow> sync_done t sg"
proof -
  have "sync_total t sg = 0 \<longleftrightarrow> (\<forall>r\<in>set t. cafe_requests_syncGroupId r \<noteq> sg)"
    by (simp add: sync_total_def sql_count_def filter_empty_conv)
  then show ?thesis by (auto simp: SyncGroupComplete_def sync_joined_iff sync_done_def)
qed

lemma DeleteCompleteSyncGroups_eq:
  "DeleteCompleteSyncGroups t
     = (Inr (), filter (\<lambda>r. \<not> sync_done t (cafe_requests_syncGroupId r)) t)"
proof -
  have "filter (\<lambda>r. \<not> sync_joined t (cafe_requests_syncGroupId r)) t
      = filter (\<lambda>r. \<not> sync_done t (cafe_requests_syncGroupId r)) t"
    by (rule filter_cong) (auto simp: sync_joined_iff)
  then show ?thesis by (simp add: DeleteCompleteSyncGroups_def sql_delete_def go_defs)
qed

end
