(* ===== verification/NodeState.thy ===== *)
theory NodeState
  imports NodeStores PeerFileStores CafeStores SchemaSteps
begin

text \<open>
  The state of a running node and the world it runs in. The state is the datastore
  (\<^verbatim>\<open>repo.Datastore\<close>, one table for each store), the threads loaded in memory, the ids of the queries
  of the cafe service that are in flight, and a log of the effects that leave the node: objects
  added, pinned and unpinned in IPFS, updates sent to listeners and messages sent to peers.
  The world is a record of functions for what is not in the repository: the IPFS node, the thread
  keys, the protobuf and JSON codecs, and the clock and the id generator, which give a new value
  for every draw.
\<close>

section \<open>Messages of a thread\<close>

record ThreadAdd =
  add_Inviter :: "Peer option"
  add_Thread :: "Thread option"
  add_Invitee :: string

record ThreadJoin =
  join_Inviter :: string
  join_Peer :: "Peer option"

record ThreadAnnounce =
  ann_Peer :: "Peer option"
  ann_Name :: string

record ThreadFiles =
  tf_Target :: string
  tf_Body :: string
  tf_Keys :: "(string \<times> string) list"

record ThreadComment =
  tc_Target :: string
  tc_Body :: string

text \<open>
  The payload of a block: a protobuf \<open>Any\<close>, here the message it holds. Reading it as another message
  type, or reading a nil payload, is an error.
\<close>

datatype payload =
    AnyAdd ThreadAdd
  | AnyIgnore string
  | AnyFlag string
  | AnyJoin ThreadJoin
  | AnyAnnounce ThreadAnnounce
  | AnyMessage string
  | AnyFiles ThreadFiles
  | AnyComment ThreadComment
  | AnyLike string
  | AnyOther string

definition any_error :: goerr where
  "any_error = ErrMsg ''mismatched message type''"

definition UnmarshalAdd :: "payload option \<Rightarrow> goerr + ThreadAdd" where
  "UnmarshalAdd p = (case p of Some (AnyAdd m) \<Rightarrow> Inr m | _ \<Rightarrow> Inl any_error)"

definition UnmarshalIgnore :: "payload option \<Rightarrow> goerr + string" where
  "UnmarshalIgnore p = (case p of Some (AnyIgnore m) \<Rightarrow> Inr m | _ \<Rightarrow> Inl any_error)"

definition UnmarshalFlag :: "payload option \<Rightarrow> goerr + string" where
  "UnmarshalFlag p = (case p of Some (AnyFlag m) \<Rightarrow> Inr m | _ \<Rightarrow> Inl any_error)"

definition UnmarshalJoin :: "payload option \<Rightarrow> goerr + ThreadJoin" where
  "UnmarshalJoin p = (case p of Some (AnyJoin m) \<Rightarrow> Inr m | _ \<Rightarrow> Inl any_error)"

definition UnmarshalAnnounce :: "payload option \<Rightarrow> goerr + ThreadAnnounce" where
  "UnmarshalAnnounce p = (case p of Some (AnyAnnounce m) \<Rightarrow> Inr m | _ \<Rightarrow> Inl any_error)"

definition UnmarshalMessage :: "payload option \<Rightarrow> goerr + string" where
  "UnmarshalMessage p = (case p of Some (AnyMessage m) \<Rightarrow> Inr m | _ \<Rightarrow> Inl any_error)"

definition UnmarshalFiles :: "payload option \<Rightarrow> goerr + ThreadFiles" where
  "UnmarshalFiles p = (case p of Some (AnyFiles m) \<Rightarrow> Inr m | _ \<Rightarrow> Inl any_error)"

definition UnmarshalComment :: "payload option \<Rightarrow> goerr + ThreadComment" where
  "UnmarshalComment p = (case p of Some (AnyComment m) \<Rightarrow> Inr m | _ \<Rightarrow> Inl any_error)"

definition UnmarshalLike :: "payload option \<Rightarrow> goerr + string" where
  "UnmarshalLike p = (case p of Some (AnyLike m) \<Rightarrow> Inr m | _ \<Rightarrow> Inl any_error)"

record ThreadBlockHeader =
  hdr_Date :: "timestamp option"
  hdr_Parents :: "string list"
  hdr_Author :: string
  hdr_Address :: string

record ThreadBlock =
  tb_Header :: "ThreadBlockHeader option"
  tb_Type :: BlockType
  tb_Payload :: "payload option"

section \<open>Threads in memory\<close>

record thread =
  t_Id :: string
  t_Key :: string
  t_Name :: string
  t_Schema :: "Node option"
  t_schemaId :: string
  t_initiator :: string
  t_ttype :: ThreadType
  t_sharing :: Sharing
  t_whitelist :: "string list"

section \<open>The state\<close>

datatype effect =
    IpfsAdd bytes
  | IpfsPin string bool
  | IpfsUnpin string bool
  | ThreadUpdate Block
  | AccountPeerAdded string
  | AccountThreadAdded string
  | AccountThreadRemoved string
  | NotificationSent Notification
  | PubSubSent string
  | MessageSent string
  | QueryResultsSent string

record node_state =
  ns_threads :: "threads_row sql_table"
  ns_thread_peers :: "thread_peers_row sql_table"
  ns_blocks :: "blocks_row sql_table"
  ns_block_messages :: "block_messages_row sql_table"
  ns_invites :: "invites_row sql_table"
  ns_notifications :: "notifications_row sql_table"
  ns_peers :: "peers_row sql_table"
  ns_files :: "files_row sql_table"
  ns_cafe_sessions :: "cafe_sessions_row sql_table"
  ns_cafe_requests :: "cafe_requests_row sql_table"
  ns_cafe_messages :: "cafe_messages_row sql_table"
  ns_cafe_clients :: "cafe_clients_row sql_table"
  ns_cafe_client_nonces :: "cafe_client_nonces_row sql_table"
  ns_cafe_client_threads :: "cafe_client_threads_row sql_table"
  ns_cafe_client_messages :: "cafe_client_messages_row sql_table"
  ns_cafe_tokens :: "cafe_tokens_row sql_table"
  ns_config :: "config_row sql_table"
  ns_inFlight :: "string list"
  ns_loaded :: "thread list"
  ns_effects :: "effect list"
  ns_tick :: nat

type_synonym 'a node_op = "(node_state, 'a) go"

section \<open>The world\<close>

record dag_node =
  dag_Cid :: string
  dag_Links :: "(string \<times> string) list"

record world =
  w_self :: string
  w_accountAddress :: string
  w_configAddress :: string
  w_accountThread :: string
  w_clock :: "nat \<Rightarrow> timestamp"
  w_ksuid :: "nat \<Rightarrow> string"
  w_encrypt :: "string \<Rightarrow> bytes \<Rightarrow> goerr + bytes"
  w_decrypt :: "string \<Rightarrow> bytes \<Rightarrow> goerr + bytes"
  w_encodeBlock :: "ThreadBlock \<Rightarrow> goerr + bytes"
  w_decodeBlock :: "bytes \<Rightarrow> goerr + ThreadBlock"
  w_addData :: "bytes \<Rightarrow> goerr + string"
  w_dataAt :: "string \<Rightarrow> goerr + bytes"
  w_nodeAt :: "string \<Rightarrow> goerr + dag_node"
  w_directory :: "(string \<times> string) list \<Rightarrow> goerr + string"
  w_statSize :: "string \<Rightarrow> goerr + int"
  w_pin :: "string \<Rightarrow> goerr + unit"
  w_unpin :: "string \<Rightarrow> goerr + unit"
  w_parseCid :: "string \<Rightarrow> goerr + string"
  w_base58 :: "string \<Rightarrow> goerr + bytes"
  w_decryptAES :: "bytes \<Rightarrow> bytes \<Rightarrow> goerr + bytes"
  w_decodeFile :: "bytes \<Rightarrow> goerr + FileIndex"
  w_validJson :: "string \<Rightarrow> bytes \<Rightarrow> goerr + unit"
  w_sign :: "bytes \<Rightarrow> goerr + bytes"
  w_newEnvelope :: "string \<Rightarrow> bytes \<Rightarrow> bytes \<Rightarrow> bytes \<Rightarrow> goerr + Envelope"
  w_objectAt :: "string \<Rightarrow> goerr + bytes"

section \<open>Operations on the parts of the state\<close>

definition on_threads :: "(threads_row sql_table, 'a) go \<Rightarrow> 'a node_op" where
  "on_threads = go_on ns_threads ns_threads_update"

definition on_thread_peers :: "(thread_peers_row sql_table, 'a) go \<Rightarrow> 'a node_op" where
  "on_thread_peers = go_on ns_thread_peers ns_thread_peers_update"

definition on_blocks :: "(blocks_row sql_table, 'a) go \<Rightarrow> 'a node_op" where
  "on_blocks = go_on ns_blocks ns_blocks_update"

definition on_block_messages :: "(block_messages_row sql_table, 'a) go \<Rightarrow> 'a node_op" where
  "on_block_messages = go_on ns_block_messages ns_block_messages_update"

definition on_invites :: "(invites_row sql_table, 'a) go \<Rightarrow> 'a node_op" where
  "on_invites = go_on ns_invites ns_invites_update"

definition on_notifications :: "(notifications_row sql_table, 'a) go \<Rightarrow> 'a node_op" where
  "on_notifications = go_on ns_notifications ns_notifications_update"

definition on_peers :: "(peers_row sql_table, 'a) go \<Rightarrow> 'a node_op" where
  "on_peers = go_on ns_peers ns_peers_update"

definition on_files :: "(files_row sql_table, 'a) go \<Rightarrow> 'a node_op" where
  "on_files = go_on ns_files ns_files_update"

definition on_cafe_requests :: "(cafe_requests_row sql_table, 'a) go \<Rightarrow> 'a node_op" where
  "on_cafe_requests = go_on ns_cafe_requests ns_cafe_requests_update"

definition on_cafe_messages :: "(cafe_messages_row sql_table, 'a) go \<Rightarrow> 'a node_op" where
  "on_cafe_messages = go_on ns_cafe_messages ns_cafe_messages_update"

definition on_cafe_sessions :: "(cafe_sessions_row sql_table, 'a) go \<Rightarrow> 'a node_op" where
  "on_cafe_sessions = go_on ns_cafe_sessions ns_cafe_sessions_update"

definition on_cafe_clients :: "(cafe_clients_row sql_table, 'a) go \<Rightarrow> 'a node_op" where
  "on_cafe_clients = go_on ns_cafe_clients ns_cafe_clients_update"

definition on_cafe_client_nonces :: "(cafe_client_nonces_row sql_table, 'a) go \<Rightarrow> 'a node_op" where
  "on_cafe_client_nonces = go_on ns_cafe_client_nonces ns_cafe_client_nonces_update"

definition on_cafe_client_threads :: "(cafe_client_threads_row sql_table, 'a) go \<Rightarrow> 'a node_op" where
  "on_cafe_client_threads = go_on ns_cafe_client_threads ns_cafe_client_threads_update"

definition on_cafe_client_messages :: "(cafe_client_messages_row sql_table, 'a) go \<Rightarrow> 'a node_op" where
  "on_cafe_client_messages = go_on ns_cafe_client_messages ns_cafe_client_messages_update"

definition on_cafe_tokens :: "(cafe_tokens_row sql_table, 'a) go \<Rightarrow> 'a node_op" where
  "on_cafe_tokens = go_on ns_cafe_tokens ns_cafe_tokens_update"

definition on_config :: "(config_row sql_table, 'a) go \<Rightarrow> 'a node_op" where
  "on_config = go_on ns_config ns_config_update"

definition emit :: "effect \<Rightarrow> unit node_op" where
  "emit e = go_modify (\<lambda>s. s\<lparr>ns_effects := ns_effects s @ [e]\<rparr>)"

text \<open>A draw from the clock and from the id generator.\<close>

definition draw :: "(nat \<Rightarrow> 'a) \<Rightarrow> 'a node_op" where
  "draw f = (\<lambda>s. (Inr (f (ns_tick s)), s\<lparr>ns_tick := ns_tick s + 1\<rparr>))"

definition TimestampNow :: "world \<Rightarrow> timestamp node_op" where
  "TimestampNow w = draw (w_clock w)"

definition new_ksuid :: "world \<Rightarrow> string node_op" where
  "new_ksuid w = draw (w_ksuid w)"

definition PinNode :: "world \<Rightarrow> string \<Rightarrow> bool \<Rightarrow> unit node_op" where
  "PinNode w cid recursive = go_seq (go_lift (w_pin w cid)) (emit (IpfsPin cid recursive))"

definition UnpinNode :: "world \<Rightarrow> string \<Rightarrow> bool \<Rightarrow> unit node_op" where
  "UnpinNode w cid recursive = go_seq (go_lift (w_unpin w cid)) (emit (IpfsUnpin cid recursive))"

text \<open>\<open>ipfs.AddData\<close>: the hash of the data, which is stored unless only the hash is wanted.\<close>

definition AddData :: "world \<Rightarrow> bytes \<Rightarrow> bool \<Rightarrow> string node_op" where
  "AddData w data hashOnly =
     go_bind (go_lift (w_addData w data)) (\<lambda>hash.
     go_seq (go_when (\<not> hashOnly) (emit (IpfsAdd data))) (go_return hash))"

named_theorems node_ops "operations of a node on one part of its state"

lemmas [node_ops] =
  on_threads_def on_thread_peers_def on_blocks_def on_block_messages_def on_invites_def
  on_notifications_def on_peers_def on_files_def on_cafe_requests_def on_cafe_messages_def
  on_cafe_sessions_def on_cafe_clients_def on_cafe_client_nonces_def on_cafe_client_threads_def
  on_cafe_client_messages_def on_cafe_tokens_def on_config_def
  emit_def draw_def TimestampNow_def new_ksuid_def PinNode_def UnpinNode_def AddData_def

text \<open>What a run over one table does.\<close>

lemma on_blocks_run: "on_blocks m s = (fst (m (ns_blocks s)), s\<lparr>ns_blocks := snd (m (ns_blocks s))\<rparr>)"
  by (simp add: on_blocks_def go_on_def split_beta)

lemma on_threads_run: "on_threads m s = (fst (m (ns_threads s)), s\<lparr>ns_threads := snd (m (ns_threads s))\<rparr>)"
  by (simp add: on_threads_def go_on_def split_beta)

lemma on_thread_peers_run:
  "on_thread_peers m s = (fst (m (ns_thread_peers s)), s\<lparr>ns_thread_peers := snd (m (ns_thread_peers s))\<rparr>)"
  by (simp add: on_thread_peers_def go_on_def split_beta)

lemma on_notifications_run:
  "on_notifications m s = (fst (m (ns_notifications s)), s\<lparr>ns_notifications := snd (m (ns_notifications s))\<rparr>)"
  by (simp add: on_notifications_def go_on_def split_beta)

section \<open>What a part of the state keeps\<close>

text \<open>
  An operation preserves a part of the state when the part is the same after it, whatever it
  returns. This relation is the instance of the step relation that the handlers use: a proof that
  a handler does not touch a table goes through its constructs.
\<close>

definition same :: "(node_state \<Rightarrow> 'p) \<Rightarrow> node_state \<Rightarrow> node_state \<Rightarrow> bool" where
  "same part s s' \<longleftrightarrow> part s' = part s"

abbreviation keeps_part :: "(node_state \<Rightarrow> 'p) \<Rightarrow> 'a node_op \<Rightarrow> bool" where
  "keeps_part part \<equiv> step_relation.keeps (same part)"

interpretation same: step_relation "same part" for part
  by unfold_locales (simp_all add: same_def)

end
