(* ===== verification/CafeQueue.thy ===== *)
theory CafeQueue
  imports NodeState
begin

text \<open>
  \<^verbatim>\<open>core/cafe_outbox.go\<close>: the queue of requests to the cafes of the account. A request is added once
  for every active session; the option functions set its group, its sync group, its size and
  the cafe it is limited to.
\<close>

section \<open>Settings\<close>

record CafeRequestSettings =
  set_Size :: int
  set_Group :: string
  set_SyncGroup :: string
  set_Cafe :: string

type_synonym CafeRequestOption = "CafeRequestSettings \<Rightarrow> CafeRequestSettings"

definition opt_Group :: "string \<Rightarrow> CafeRequestOption" where
  "opt_Group v settings = settings\<lparr>set_Group := v\<rparr>"

definition opt_SyncGroup :: "string \<Rightarrow> CafeRequestOption" where
  "opt_SyncGroup v settings = settings\<lparr>set_SyncGroup := v\<rparr>"

definition opt_Size :: "int \<Rightarrow> CafeRequestOption" where
  "opt_Size v settings = settings\<lparr>set_Size := v\<rparr>"

definition opt_Cafe :: "string \<Rightarrow> CafeRequestOption" where
  "opt_Cafe v settings = settings\<lparr>set_Cafe := v\<rparr>"

definition settings_Options :: "CafeRequestSettings \<Rightarrow> CafeRequestOption list" where
  "settings_Options s =
     [opt_Size (set_Size s), opt_Group (set_Group s), opt_SyncGroup (set_SyncGroup s),
      opt_Cafe (set_Cafe s)]"

definition CafeRequestOptions :: "world \<Rightarrow> CafeRequestOption list \<Rightarrow> CafeRequestSettings node_op" where
  "CafeRequestOptions w opts =
     go_bind (new_ksuid w) (\<lambda>g. go_bind (new_ksuid w) (\<lambda>sg.
     go_return (fold (\<lambda>opt s. opt s) opts
       \<lparr>set_Size = 0, set_Group = g, set_SyncGroup = sg, set_Cafe = []\<rparr>)))"

section \<open>Adding requests\<close>

definition CafeOutbox_add ::
  "world \<Rightarrow> string \<Rightarrow> string \<Rightarrow> Cafe \<Rightarrow> RequestType \<Rightarrow> CafeRequestSettings \<Rightarrow> unit node_op" where
  "CafeOutbox_add w peerId target cafe rtype settings =
     go_bind (new_ksuid w) (\<lambda>rid. go_bind (TimestampNow w) (\<lambda>now.
     on_cafe_requests (cafe_requests_Add now
       \<lparr>req_Id = rid, req_Peer = peerId, req_Target = target, req_Cafe = cafe,
        req_Group = set_Group settings, req_SyncGroup = set_SyncGroup settings,
        req_Type = rtype, req_Date = Some now, req_Size = set_Size settings,
        req_Status = CafeRequest_NEW, req_Attempts = 0, req_GroupSize = 0,
        req_GroupTransferred = 0\<rparr>)))"

definition add_session ::
  "world \<Rightarrow> string \<Rightarrow> RequestType \<Rightarrow> CafeRequestSettings \<Rightarrow> CafeSession \<Rightarrow> unit node_op" where
  "add_session w target rtype settings session =
     (if set_Cafe settings \<noteq> [] \<and> set_Cafe settings \<noteq> ses_Id session then go_return ()
      else CafeOutbox_add w (w_self w) target (ses_Cafe session) rtype
             (settings\<lparr>set_Group := set_Group settings @ ''-'' @ ses_Id session\<rparr>))"

definition CafeOutbox_Add ::
  "world \<Rightarrow> string \<Rightarrow> RequestType \<Rightarrow> CafeRequestOption list \<Rightarrow> unit node_op" where
  "CafeOutbox_Add w target rtype opts =
     go_bind (CafeRequestOptions w opts) (\<lambda>settings0.
     go_bind
       (case rtype of
          CafeRequest_INBOX \<Rightarrow> go_fail (ErrMsg ''inbox request to own inbox, aborting'')
        | CafeRequest_STORE \<Rightarrow>
            if set_Size settings0 = 0
            then go_bind (go_lift (w_statSize w target)) (\<lambda>n. go_return (settings0\<lparr>set_Size := n\<rparr>))
            else go_return settings0
        | CafeRequest_UNSTORE \<Rightarrow>
            if set_Size settings0 = 0
            then go_bind (go_lift (w_statSize w target)) (\<lambda>n. go_return (settings0\<lparr>set_Size := n\<rparr>))
            else go_return settings0
        | _ \<Rightarrow> go_return settings0)
       (\<lambda>settings.
     go_bind (go_get (\<lambda>s. cafe_sessions_List (ns_cafe_sessions s))) (\<lambda>sessions.
     go_foreach (add_session w target rtype settings) sessions)))"

text \<open>Requests to the inboxes of another peer, with the stored envelope as target.\<close>

definition CafeOutbox_AddForInbox ::
  "world \<Rightarrow> (Envelope \<Rightarrow> goerr + bytes) \<Rightarrow> string \<Rightarrow> Envelope \<Rightarrow> Cafe list \<Rightarrow> unit node_op" where
  "CafeOutbox_AddForInbox w marshal peerId env inboxes =
     (if length inboxes = 0 then go_return ()
      else go_bind (go_lift (marshal env)) (\<lambda>envb.
        go_bind (AddData w envb False) (\<lambda>target.
        go_bind (CafeRequestOptions w []) (\<lambda>settings.
        go_foreach (\<lambda>inbox. CafeOutbox_add w peerId target inbox CafeRequest_INBOX settings) inboxes))))"

section \<open>What adding a request leaves alone\<close>

text \<open>
  Adding requests touches the request table, the effects and the counters, nothing else. The
  parts it keeps are those that do not read these three.
\<close>

definition apart_from_cafe :: "(node_state \<Rightarrow> 'p) \<Rightarrow> bool" where
  "apart_from_cafe part \<longleftrightarrow>
     (\<forall>s f g h. part (s\<lparr>ns_cafe_requests := f\<rparr>) = part s
        \<and> part (s\<lparr>ns_effects := g\<rparr>) = part s \<and> part (s\<lparr>ns_tick := h\<rparr>) = part s)"

named_theorems keeps_node "operations that keep a part of the state"

lemmas [keeps_node] = same.keeps_intros

lemma apart_parts [simp]:
  "apart_from_cafe ns_threads" "apart_from_cafe ns_thread_peers" "apart_from_cafe ns_blocks"
  "apart_from_cafe ns_block_messages" "apart_from_cafe ns_invites" "apart_from_cafe ns_notifications"
  "apart_from_cafe ns_peers" "apart_from_cafe ns_files" "apart_from_cafe ns_cafe_sessions"
  "apart_from_cafe ns_cafe_messages" "apart_from_cafe ns_cafe_clients"
  "apart_from_cafe ns_cafe_client_nonces" "apart_from_cafe ns_cafe_client_threads"
  "apart_from_cafe ns_cafe_client_messages" "apart_from_cafe ns_cafe_tokens"
  "apart_from_cafe ns_config" "apart_from_cafe ns_inFlight" "apart_from_cafe ns_loaded"
  by (simp_all add: apart_from_cafe_def)

lemma keeps_draw: "apart_from_cafe part \<Longrightarrow> keeps_part part (draw f)"
  by (auto intro!: same.keepsI simp: same_def draw_def apart_from_cafe_def)

lemma keeps_emit: "apart_from_cafe part \<Longrightarrow> keeps_part part (emit e)"
  by (auto intro!: same.keepsI simp: same_def emit_def go_modify_def apart_from_cafe_def)

lemma keeps_on_cafe_requests: "apart_from_cafe part \<Longrightarrow> keeps_part part (on_cafe_requests m)"
  by (auto intro!: same.keepsI simp: same_def on_cafe_requests_def go_on_def split_beta apart_from_cafe_def)

lemma keeps_ipfs [keeps_node]:
  assumes "apart_from_cafe part"
  shows "keeps_part part (PinNode w c r)" "keeps_part part (UnpinNode w c r)"
    "keeps_part part (AddData w d h)" "keeps_part part (new_ksuid w)" "keeps_part part (TimestampNow w)"
  unfolding PinNode_def UnpinNode_def AddData_def new_ksuid_def TimestampNow_def
  by (intro keeps_node keeps_draw keeps_emit assms)+

lemma keeps_CafeRequestOptions: "apart_from_cafe part \<Longrightarrow> keeps_part part (CafeRequestOptions w opts)"
  unfolding CafeRequestOptions_def by (intro keeps_node)

lemma keeps_CafeOutbox_add: "apart_from_cafe part \<Longrightarrow> keeps_part part (CafeOutbox_add w p t c r s)"
  unfolding CafeOutbox_add_def by (intro keeps_node keeps_on_cafe_requests)

lemma keeps_CafeOutbox_Add [keeps_node]:
  assumes "apart_from_cafe part"
  shows "keeps_part part (CafeOutbox_Add w target rtype opts)"
proof -
  have "keeps_part part (case rtype of
          CafeRequest_INBOX \<Rightarrow> go_fail e
        | CafeRequest_STORE \<Rightarrow>
            if set_Size s0 = 0
            then go_bind (go_lift (w_statSize w target)) (\<lambda>n. go_return (s0\<lparr>set_Size := n\<rparr>))
            else go_return s0
        | CafeRequest_UNSTORE \<Rightarrow>
            if set_Size s0 = 0
            then go_bind (go_lift (w_statSize w target)) (\<lambda>n. go_return (s0\<lparr>set_Size := n\<rparr>))
            else go_return s0
        | _ \<Rightarrow> go_return s0)" for s0 :: CafeRequestSettings and e
    by (cases rtype) (auto intro!: keeps_node)
  then show ?thesis
    unfolding CafeOutbox_Add_def add_session_def
    by (intro keeps_node keeps_CafeOutbox_add keeps_CafeRequestOptions assms)
qed

lemma keeps_AddForInbox [keeps_node]:
  "apart_from_cafe part \<Longrightarrow> keeps_part part (CafeOutbox_AddForInbox w mar p env inboxes)"
  unfolding CafeOutbox_AddForInbox_def
  by (intro keeps_node keeps_CafeOutbox_add keeps_CafeRequestOptions)

end
