(* ===== verification/ThreadAccess.thy ===== *)
theory ThreadAccess
  imports CafeQueue
begin

text \<open>
  Who may do what in a thread and what its HEADs are (\<^verbatim>\<open>core/thread.go\<close>). Access is decided from the
  thread's type, sharing, initiator and whitelist for an address; the heads are a column of the
  thread table that inbound and outbound updates rewrite. The specifications are the table of
  access rights in the comments of the protobuf enumerations and three update rules for the heads.
\<close>

section \<open>Access\<close>

definition member :: "thread \<Rightarrow> string \<Rightarrow> bool" where
  "member t addr \<longleftrightarrow>
     (if length (t_whitelist t) = 0 \<or> addr = t_initiator t then True
      else list_ex (\<lambda>m. m = addr) (t_whitelist t))"

definition readable :: "thread \<Rightarrow> string \<Rightarrow> bool" where
  "readable t addr \<longleftrightarrow>
     (if addr = [] \<or> addr = t_initiator t then True
      else case t_ttype t of
        Thread_PRIVATE \<Rightarrow> False
      | Thread_READ_ONLY \<Rightarrow> member t addr
      | Thread_PUBLIC \<Rightarrow> member t addr
      | Thread_OPEN \<Rightarrow> member t addr
      | ThreadType_Other _ \<Rightarrow> False)"

definition annotatable :: "thread \<Rightarrow> string \<Rightarrow> bool" where
  "annotatable t addr \<longleftrightarrow>
     (if addr = [] \<or> addr = t_initiator t then True
      else case t_ttype t of
        Thread_PRIVATE \<Rightarrow> False
      | Thread_READ_ONLY \<Rightarrow> False
      | Thread_PUBLIC \<Rightarrow> member t addr
      | Thread_OPEN \<Rightarrow> member t addr
      | ThreadType_Other _ \<Rightarrow> False)"

definition writable :: "thread \<Rightarrow> string \<Rightarrow> bool" where
  "writable t addr \<longleftrightarrow>
     (if addr = [] \<or> addr = t_initiator t then True
      else case t_ttype t of
        Thread_PRIVATE \<Rightarrow> False
      | Thread_READ_ONLY \<Rightarrow> False
      | Thread_PUBLIC \<Rightarrow> False
      | Thread_OPEN \<Rightarrow> member t addr
      | ThreadType_Other _ \<Rightarrow> False)"

definition shareable :: "thread \<Rightarrow> string \<Rightarrow> string \<Rightarrow> bool" where
  "shareable t from to \<longleftrightarrow>
     (if from = to then True
      else case t_sharing t of
        Thread_NOT_SHARED \<Rightarrow> False
      | Thread_INVITE_ONLY \<Rightarrow> from = t_initiator t \<and> member t to
      | Thread_SHARED \<Rightarrow> member t from \<and> member t to
      | Sharing_Other _ \<Rightarrow> False)"

subsection \<open>The documented table\<close>

text \<open>
  \<^verbatim>\<open>pb/protos/model.proto\<close> documents the rights of the members of the whitelist: none, R, RA and
  RAW for the four thread types, and RAW for the initiator in all of them.
\<close>

datatype right = MayRead | MayAnnotate | MayWrite

fun member_rights :: "ThreadType \<Rightarrow> right list" where
  "member_rights Thread_PRIVATE = []"
| "member_rights Thread_READ_ONLY = [MayRead]"
| "member_rights Thread_PUBLIC = [MayRead, MayAnnotate]"
| "member_rights Thread_OPEN = [MayRead, MayAnnotate, MayWrite]"
| "member_rights (ThreadType_Other n) = []"

definition documented :: "right \<Rightarrow> thread \<Rightarrow> string \<Rightarrow> bool" where
  "documented r t addr \<longleftrightarrow>
     addr = t_initiator t
     \<or> r \<in> set (member_rights (t_ttype t)) \<and> (t_whitelist t = [] \<or> addr \<in> set (t_whitelist t))"

fun granted :: "right \<Rightarrow> thread \<Rightarrow> string \<Rightarrow> bool" where
  "granted MayRead t addr = readable t addr"
| "granted MayAnnotate t addr = annotatable t addr"
| "granted MayWrite t addr = writable t addr"

lemma member_iff:
  "member t addr \<longleftrightarrow> t_whitelist t = [] \<or> addr = t_initiator t \<or> addr \<in> set (t_whitelist t)"
  by (auto simp: member_def list_ex_iff)

lemma granted_iff: "granted r t addr \<longleftrightarrow> addr = [] \<or> documented r t addr"
  by (cases r; cases "t_ttype t")
    (auto simp: documented_def readable_def annotatable_def writable_def member_iff)

lemma granted_mono: "writable t a \<Longrightarrow> annotatable t a" "annotatable t a \<Longrightarrow> readable t a"
  by (auto simp: readable_def annotatable_def writable_def split: if_splits ThreadType.splits)

section \<open>Heads\<close>

definition Heads :: "thread \<Rightarrow> string list node_op" where
  "Heads t =
     go_bind (go_get (\<lambda>s. threads_Get (t_Id t) (ns_threads s))) (\<lambda>model.
     case model of None \<Rightarrow> go_fail ErrThreadReload
     | Some m \<Rightarrow> go_return (SplitString (thr_Head m) CHR '',''))"

definition store :: "world \<Rightarrow> thread \<Rightarrow> unit node_op" where
  "store w t = CafeOutbox_Add w (t_Id t) CafeRequest_STORE_THREAD []"

definition updateHead :: "world \<Rightarrow> thread \<Rightarrow> string list \<Rightarrow> bool \<Rightarrow> unit node_op" where
  "updateHead w t heads st =
     go_seq (on_threads (threads_UpdateHead (t_Id t) heads))
            (if \<not> st then go_return () else store w t)"

definition addHead :: "world \<Rightarrow> thread \<Rightarrow> string \<Rightarrow> unit node_op" where
  "addHead w t head = go_bind (Heads t) (\<lambda>heads. updateHead w t (heads @ [head]) False)"

text \<open>The local function \<open>add\<close> of \<^verbatim>\<open>handleHead\<close>: append what is not there yet.\<close>

definition add_unique :: "string list \<Rightarrow> string \<Rightarrow> string list" where
  "add_unique next v = (if v \<in> set next then next else next @ [v])"

definition next_heads :: "string list \<Rightarrow> string list \<Rightarrow> string list \<Rightarrow> string list" where
  "next_heads heads inbound leaves =
     foldl (\<lambda>next h. if list_ex (\<lambda>l. h = l) leaves then next else add_unique next h)
       (foldl add_unique [] inbound) heads"

definition handleHead :: "world \<Rightarrow> thread \<Rightarrow> string list \<Rightarrow> string list \<Rightarrow> unit node_op" where
  "handleHead w t inbound leaves =
     go_bind (Heads t) (\<lambda>heads. updateHead w t (next_heads heads inbound leaves) True)"

subsection \<open>The next heads\<close>

lemma foldl_add_unique_set: "set (foldl add_unique acc xs) = set acc \<union> set xs"
  by (induction xs arbitrary: acc) (auto simp: add_unique_def)

lemma foldl_add_unique_distinct: "distinct acc \<Longrightarrow> distinct (foldl add_unique acc xs)"
  by (induction xs arbitrary: acc) (auto simp: add_unique_def)

lemma foldl_add_unique_new:
  "distinct (acc @ xs) \<Longrightarrow> foldl add_unique acc xs = acc @ xs"
proof (induction xs arbitrary: acc)
  case (Cons x xs)
  then have "distinct ((acc @ [x]) @ xs)" and x: "x \<notin> set acc" by auto
  then show ?case using Cons.IH [of "acc @ [x]"] by (simp add: add_unique_def)
qed simp

lemma next_heads_filter:
  "next_heads heads inbound leaves
     = foldl add_unique (foldl add_unique [] inbound) (filter (\<lambda>h. h \<notin> set leaves) heads)"
proof -
  have "foldl (\<lambda>next h. if list_ex (\<lambda>l. h = l) leaves then next else add_unique next h) acc heads
      = foldl add_unique acc (filter (\<lambda>h. h \<notin> set leaves) heads)" for acc
    by (induction heads arbitrary: acc) (auto simp: list_ex_iff)
  then show ?thesis by (simp add: next_heads_def)
qed

lemma next_heads_set:
  "set (next_heads heads inbound leaves) = set inbound \<union> (set heads - set leaves)"
  by (auto simp: next_heads_filter foldl_add_unique_set)

lemma next_heads_distinct: "distinct (next_heads heads inbound leaves)"
  by (simp add: next_heads_filter foldl_add_unique_distinct)

lemma next_heads_order:
  assumes "distinct inbound" "distinct heads" "set inbound \<inter> (set heads - set leaves) = {}"
  shows "next_heads heads inbound leaves = inbound @ filter (\<lambda>h. h \<notin> set leaves) heads"
proof -
  have "foldl add_unique [] inbound = inbound" using foldl_add_unique_new [of "[]" inbound] assms by simp
  then show ?thesis
    unfolding next_heads_filter using assms by (simp, intro foldl_add_unique_new) auto
qed

subsection \<open>Reading back what was written\<close>

text \<open>The heads column of a thread in the state; \<open>None\<close> when the thread is not in the table.\<close>

definition heads_of :: "string \<Rightarrow> node_state \<Rightarrow> string list option" where
  "heads_of tid s = map_option (\<lambda>m. SplitString (thr_Head m) CHR '','') (threads_Get tid (ns_threads s))"

lemma Heads_run:
  "Heads t s = (case heads_of (t_Id t) s of None \<Rightarrow> (Inl ErrThreadReload, s) | Some hs \<Rightarrow> (Inr hs, s))"
  by (auto simp: Heads_def heads_of_def go_defs split: option.splits)

lemma find_map_update:
  assumes "\<And>r. key (f r) = key r"
  shows "find (\<lambda>r. key r = k) (map (\<lambda>r. if key r = k then f r else r) t)
    = map_option f (find (\<lambda>r. key r = k) t)"
  using assms by (induction t) auto

lemma UpdateHead_heads:
  assumes "\<forall>h\<in>set hs. clean_word CHR '','' h" "heads_of tid s \<noteq> None"
  shows "heads_of tid (snd (on_threads (threads_UpdateHead tid hs) s)) = Some hs"
proof -
  obtain r where r: "find (\<lambda>r. threads_id r = tid) (ns_threads s) = Some r"
    using assms(2) by (auto simp: heads_of_def threads_Get_def first_row_select)
  have "find (\<lambda>r. threads_id r = tid)
      (map (\<lambda>r. if threads_id r = tid then r\<lparr>threads_head := Join '','' hs\<rparr> else r) (ns_threads s))
    = Some (r\<lparr>threads_head := Join '','' hs\<rparr>)"
    by (subst find_map_update [where key = threads_id]) (simp_all add: r)
  then show ?thesis
    using assms(1)
    by (simp add: heads_of_def on_threads_run threads_UpdateHead_def sql_update_def go_modify_def
        threads_Get_def first_row_select threads_dec_def SplitString_Join)
qed

lemma keeps_store [keeps_node]: "apart_from_cafe part \<Longrightarrow> keeps_part part (store w t)"
  unfolding store_def by (rule keeps_CafeOutbox_Add)

lemma heads_of_cong: "ns_threads s' = ns_threads s \<Longrightarrow> heads_of tid s' = heads_of tid s"
  by (simp add: heads_of_def)

text \<open>
  Whatever the store request returns, after \<open>updateHead\<close> the heads are the ones it was given.
\<close>

lemma updateHead_heads:
  assumes "\<forall>h\<in>set hs. clean_word CHR '','' h" "heads_of (t_Id t) s \<noteq> None"
    and run: "updateHead w t hs st s = (r, s')"
  shows "heads_of (t_Id t) s' = Some hs"
proof -
  define s1 where "s1 = snd (on_threads (threads_UpdateHead (t_Id t) hs) s)"
  have h1: "heads_of (t_Id t) s1 = Some hs" unfolding s1_def by (rule UpdateHead_heads [OF assms(1,2)])
  have ok: "on_threads (threads_UpdateHead (t_Id t) hs) s = (Inr (), s1)"
    by (simp add: s1_def on_threads_run threads_UpdateHead_def sql_update_def go_modify_def)
  have s': "s' = snd ((if \<not> st then go_return () else store w t) s1)"
    using run by (simp add: updateHead_def go_seq_def go_bind_def ok)
  have "keeps_part ns_threads (if \<not> st then go_return () else store w t)"
    by (intro keeps_node) simp
  from same.keepsD [OF this, of s1] have "ns_threads s' = ns_threads s1"
    by (simp add: s' same_def)
  then show ?thesis using h1 heads_of_cong by metis
qed

lemma handleHead_heads:
  assumes "heads_of (t_Id t) s = Some heads"
    and "\<forall>h\<in>set inbound \<union> set heads. clean_word CHR '','' h"
    and "handleHead w t inbound leaves s = (r, s')"
  shows "heads_of (t_Id t) s' = Some (next_heads heads inbound leaves)"
proof -
  have "updateHead w t (next_heads heads inbound leaves) True s = (r, s')"
    using assms(1,3) by (simp add: handleHead_def go_bind_def Heads_run)
  then show ?thesis
    using assms(1,2) by (intro updateHead_heads) (auto simp: next_heads_set)
qed

lemma addHead_heads:
  assumes "heads_of (t_Id t) s = Some heads"
    and "\<forall>h\<in>set (heads @ [h]). clean_word CHR '','' h"
    and "addHead w t h s = (r, s')"
  shows "heads_of (t_Id t) s' = Some (heads @ [h])"
proof -
  have "updateHead w t (heads @ [h]) False s = (r, s')"
    using assms(1,3) by (simp add: addHead_def go_bind_def Heads_run)
  then show ?thesis using assms(1,2) by (intro updateHead_heads) auto
qed

end
