(* ===== verification/ThreadOut.thy ===== *)
theory ThreadOut
  imports ThreadAccess Decimal
begin

text \<open>
  How a thread makes its own blocks: encrypting and adding the block, indexing it as queued, writing
  the node that links it to the current heads (\<^verbatim>\<open>commitBlock\<close>, \<^verbatim>\<open>addBlock\<close>, \<^verbatim>\<open>indexBlock\<close>,
  \<^verbatim>\<open>commitNode\<close>, \<^verbatim>\<open>post\<close>, \<^verbatim>\<open>sendWelcome\<close> of \<^verbatim>\<open>core/thread.go\<close>), the outgoing operations for each
  block type (\<^verbatim>\<open>core/thread_*.go\<close>), and \<^verbatim>\<open>addPeer\<close> of \<^verbatim>\<open>core/peers.go\<close>, which announces a peer in the
  account thread. The lock of a thread makes each outgoing operation one step.
\<close>

section \<open>Committing a block\<close>

definition newBlockHeader :: "world \<Rightarrow> ThreadBlockHeader node_op" where
  "newBlockHeader w =
     go_bind (TimestampNow w) (\<lambda>now. go_return
       \<lparr>hdr_Date = Some now, hdr_Parents = [], hdr_Author = w_self w, hdr_Address = w_accountAddress w\<rparr>)"

definition addBlock :: "world \<Rightarrow> bytes \<Rightarrow> bool \<Rightarrow> string node_op" where
  "addBlock w ciphertext hashOnly =
     go_bind (AddData w ciphertext hashOnly) (\<lambda>hash.
     go_seq (go_when (\<not> hashOnly) (CafeOutbox_Add w hash CafeRequest_STORE [opt_SyncGroup hash]))
            (go_return hash))"

record commitResult =
  cr_hash :: string
  cr_ciphertext :: bytes
  cr_header :: ThreadBlockHeader

definition commitBlock ::
  "world \<Rightarrow> payload option \<Rightarrow> BlockType \<Rightarrow> bool \<Rightarrow> (bytes \<Rightarrow> goerr + bytes) \<Rightarrow> commitResult node_op" where
  "commitBlock w msg mtype add encrypt =
     go_bind (newBlockHeader w) (\<lambda>header.
     go_bind (go_lift (w_encodeBlock w
       \<lparr>tb_Header = Some header, tb_Type = mtype, tb_Payload = msg\<rparr>)) (\<lambda>plaintext.
     go_bind (go_lift (encrypt plaintext)) (\<lambda>ciphertext.
     go_bind (addBlock w ciphertext (\<not> add)) (\<lambda>hash.
     go_return \<lparr>cr_hash = hash, cr_ciphertext = ciphertext, cr_header = header\<rparr>))))"

definition pushUpdate :: "world \<Rightarrow> Block \<Rightarrow> string \<Rightarrow> unit node_op" where
  "pushUpdate w block key =
     (if key = w_accountAddress w then go_return () else emit (ThreadUpdate block))"

definition indexBlock :: "world \<Rightarrow> thread \<Rightarrow> Block \<Rightarrow> bool \<Rightarrow> unit node_op" where
  "indexBlock w t index replace =
     go_bind (TimestampNow w) (\<lambda>now.
     go_seq (if replace then on_blocks (blocks_Replace now index) else on_blocks (blocks_Add now index))
            (pushUpdate w index (t_Key t)))"

definition outBlock :: "thread \<Rightarrow> commitResult \<Rightarrow> BlockType \<Rightarrow> string \<Rightarrow> string \<Rightarrow> string \<Rightarrow> Block" where
  "outBlock t res btype target data body =
     \<lparr>blk_Id = cr_hash res, blk_Thread = t_Id t, blk_Author = hdr_Author (cr_header res),
      blk_Type = btype, blk_Date = hdr_Date (cr_header res), blk_Parents = [], blk_Target = target,
      blk_Data = data, blk_Body = body, blk_Status = Block_QUEUED, blk_Attempts = 0\<rparr>"

section \<open>Outgoing operations\<close>

definition annouce :: "world \<Rightarrow> thread \<Rightarrow> ThreadAnnounce option \<Rightarrow> string option node_op" where
  "annouce w t msg0 =
     (if \<not> readable t (w_configAddress w) then go_fail ErrNotReadable
      else
        let msg = (case msg0 of None \<Rightarrow> \<lparr>ann_Peer = None, ann_Name = []\<rparr> | Some m \<Rightarrow> m)
        in go_bind
             (case ann_Peer msg of Some p \<Rightarrow> go_return p
              | None \<Rightarrow> go_bind (go_get (\<lambda>s. peers_Get (w_self w) (ns_peers s))) (\<lambda>peer.
                  case peer of None \<Rightarrow> go_fail (ErrMsg ''unable to announce, no peer for self'')
                  | Some p \<Rightarrow> go_return p))
             (\<lambda>peer.
           if peer_Address peer = w_accountAddress w \<and> peer_Id peer \<noteq> w_self w then go_return None
           else go_bind (commitBlock w (Some (AnyAnnounce (msg\<lparr>ann_Peer := Some peer\<rparr>))) Block_ANNOUNCE
                           True (w_encrypt w (t_Id t))) (\<lambda>res.
                go_seq (indexBlock w t (outBlock t res Block_ANNOUNCE [] [] []) False)
                       (go_return (Some (cr_hash res))))))"

definition out_op ::
  "world \<Rightarrow> thread \<Rightarrow> payload option \<Rightarrow> BlockType \<Rightarrow> string \<Rightarrow> string \<Rightarrow> string node_op" where
  "out_op w t msg btype target body =
     go_bind (commitBlock w msg btype True (w_encrypt w (t_Id t))) (\<lambda>res.
     go_seq (indexBlock w t (outBlock t res btype target [] body) False) (go_return (cr_hash res)))"

definition AddMessage :: "world \<Rightarrow> thread \<Rightarrow> string \<Rightarrow> string \<Rightarrow> string node_op" where
  "AddMessage w t target body0 =
     (if \<not> writable t (w_configAddress w) then go_fail ErrNotWritable
      else let body = TrimSpace body0
           in out_op w t (Some (AnyMessage body)) Block_TEXT target body)"

definition AddComment :: "world \<Rightarrow> thread \<Rightarrow> string \<Rightarrow> string \<Rightarrow> string node_op" where
  "AddComment w t target body0 =
     (if \<not> annotatable t (w_configAddress w) then go_fail ErrNotAnnotatable
      else let body = TrimSpace body0
           in out_op w t (Some (AnyComment \<lparr>tc_Target = target, tc_Body = body\<rparr>)) Block_COMMENT target body)"

definition AddLike :: "world \<Rightarrow> thread \<Rightarrow> string \<Rightarrow> string node_op" where
  "AddLike w t target =
     (if \<not> annotatable t (w_configAddress w) then go_fail ErrNotAnnotatable
      else out_op w t None Block_LIKE target [])"

definition AddFlag :: "world \<Rightarrow> thread \<Rightarrow> string \<Rightarrow> string node_op" where
  "AddFlag w t block =
     (if \<not> annotatable t (w_configAddress w) then go_fail ErrNotAnnotatable
      else out_op w t None Block_FLAG block [])"

definition thread_join :: "world \<Rightarrow> thread \<Rightarrow> string \<Rightarrow> string node_op" where
  "thread_join w t inviter =
     (if \<not> readable t (w_configAddress w) then go_fail ErrNotReadable
      else go_bind (go_get (\<lambda>s. peers_Get (w_self w) (ns_peers s))) (\<lambda>self.
        case self of None \<Rightarrow> go_fail (ErrMsg ''unable to join, no peer for self'')
        | Some p \<Rightarrow>
            out_op w t (Some (AnyJoin \<lparr>join_Inviter = inviter, join_Peer = Some p\<rparr>)) Block_JOIN [] []))"

text \<open>
  \<^verbatim>\<open>AddInvite\<close> encrypts for the invited peer: \<open>encryptFor\<close> decodes its id, extracts its key and seals
  the block. The block goes to the index without an update, with the invitee as its body.
\<close>

definition AddInvite ::
  "world \<Rightarrow> (string \<Rightarrow> goerr + (bytes \<Rightarrow> goerr + bytes)) \<Rightarrow> thread \<Rightarrow> Peer \<Rightarrow> string node_op" where
  "AddInvite w encryptFor t p =
     (if \<not> shareable t (w_configAddress w) (peer_Address p) then go_fail ErrNotShareable
      else
        go_bind (go_get (\<lambda>s. \<lparr>add_Inviter = peers_Get (w_self w) (ns_peers s),
                              add_Thread = threads_Get (t_Id t) (ns_threads s),
                              add_Invitee = peer_Id p\<rparr>)) (\<lambda>msg.
        go_bind (go_lift (encryptFor (peer_Id p))) (\<lambda>encrypt.
        go_bind (commitBlock w (Some (AnyAdd msg)) Block_ADD True encrypt) (\<lambda>res.
        go_bind (TimestampNow w) (\<lambda>now.
        go_seq (on_blocks (blocks_Add now (outBlock t res Block_ADD [] [] (add_Invitee msg))))
               (go_return (cr_hash res)))))))"

section \<open>Nodes and posting\<close>

text \<open>The links of a block node, in the order \<^verbatim>\<open>commitNode\<close> adds them.\<close>

definition node_links :: "Block \<Rightarrow> string \<Rightarrow> (string \<times> string) list" where
  "node_links index pnodeId =
     [(''block'', blk_Id index), (''parents'', pnodeId)]
     @ (if blk_Target index \<noteq> [] then [(''target'', blk_Target index)] else [])
     @ (if blk_Data index \<noteq> [] then [(''data'', blk_Data index)] else [])"

definition commitNode :: "world \<Rightarrow> thread \<Rightarrow> Block \<Rightarrow> string list \<Rightarrow> bool \<Rightarrow> string node_op" where
  "commitNode w t index additionalParents addIndex =
     go_bind (Heads t) (\<lambda>heads0.
     let heads = heads0 @ additionalParents
     in go_bind (go_lift (w_directory w (map (\<lambda>(i, p). (Itoa (int i), p)) (enumerate 0 heads)))) (\<lambda>pnodeId.
        go_seq (PinNode w pnodeId False)
        (go_bind (go_lift (w_directory w (node_links index pnodeId))) (\<lambda>nhash.
        go_seq (PinNode w nhash False)
        (go_seq (go_when addIndex
           (go_bind (TimestampNow w) (\<lambda>now.
            go_seq (on_blocks (blocks_Replace now (index\<lparr>blk_Parents := heads, blk_Status := Block_READY\<rparr>)))
                   (updateHead w t [nhash] True))))
        (go_seq (CafeOutbox_Add w nhash CafeRequest_STORE [opt_Group nhash, opt_SyncGroup nhash])
        (go_seq (CafeOutbox_Add w pnodeId CafeRequest_STORE [opt_Group nhash, opt_SyncGroup nhash])
                (go_return nhash))))))))"

definition BlockOutbox_Add :: "world \<Rightarrow> string \<Rightarrow> Envelope \<Rightarrow> unit node_op" where
  "BlockOutbox_Add w peerId env =
     go_bind (new_ksuid w) (\<lambda>mid. go_bind (TimestampNow w) (\<lambda>now.
     on_block_messages (block_messages_Add now
       \<lparr>bm_Id = mid, bm_Peer = peerId, bm_Env = Some env, bm_Date = Some now\<rparr>)))"

definition envelope_for :: "world \<Rightarrow> thread \<Rightarrow> bytes \<Rightarrow> bytes \<Rightarrow> Envelope node_op" where
  "envelope_for w t ndata ciphertext =
     go_bind (go_lift (w_sign w ciphertext)) (\<lambda>sig.
     go_lift (w_newEnvelope w (t_Id t) ndata ciphertext sig))"

definition post :: "world \<Rightarrow> thread \<Rightarrow> Block \<Rightarrow> unit node_op" where
  "post w t index =
     go_bind (commitNode w t index [] (blk_Type index \<noteq> Block_ADD)) (\<lambda>nhash.
     go_bind (go_lift (w_objectAt w nhash)) (\<lambda>ndata.
     go_bind (go_lift (w_dataAt w (blk_Id index))) (\<lambda>ciphertext.
     go_bind (envelope_for w t ndata ciphertext) (\<lambda>env.
     go_bind (if blk_Type index = Block_ADD
              then go_return (if blk_Body index \<noteq> [] then [blk_Body index] else [])
              else go_get (\<lambda>s. map tp_Id (thread_peers_ListByThread (t_Id t) (ns_thread_peers s)))) (\<lambda>peers.
     go_seq (go_foreach (\<lambda>p. BlockOutbox_Add w p env) peers)
            (go_when (blk_Type index = Block_ADD) (on_blocks (blocks_Delete (blk_Id index)))))))))"

text \<open>The inner block of a node, or the node itself when it is an old block without links.\<close>

definition blockCIDFromNode :: "world \<Rightarrow> string \<Rightarrow> string node_op" where
  "blockCIDFromNode w nhash =
     go_bind (go_lift (w_nodeAt w nhash)) (\<lambda>node.
     if length (dag_Links node) = 0 then go_return nhash
     else case LinkByName (dag_Links node) [''block''] of
            None \<Rightarrow> go_fail ErrInvalidNode | Some l \<Rightarrow> go_return (snd l))"

definition sendWelcome :: "world \<Rightarrow> thread \<Rightarrow> unit node_op" where
  "sendWelcome w t =
     go_bind (go_get (\<lambda>s. thread_peers_ListUnwelcomedByThread (t_Id t) (ns_thread_peers s))) (\<lambda>peers.
     if length peers = 0 then go_return ()
     else go_bind (Heads t) (\<lambda>heads.
       if length heads = 0 then go_return ()
       else go_seq
         (go_foreach (\<lambda>head.
            go_bind (go_lift (w_objectAt w head)) (\<lambda>ndata.
            go_bind (blockCIDFromNode w head) (\<lambda>block.
            go_bind (go_lift (w_dataAt w block)) (\<lambda>ciphertext.
            go_bind (envelope_for w t ndata ciphertext) (\<lambda>env.
            go_foreach (\<lambda>tp. BlockOutbox_Add w (tp_Id tp) env) peers))))) heads)
         (on_thread_peers (thread_peers_WelcomeByThread (t_Id t)))))"

section \<open>Peers\<close>

definition cafesEqual :: "Cafe \<Rightarrow> Cafe \<Rightarrow> bool" where
  "cafesEqual a b \<longleftrightarrow>
     cafe_Peer a = cafe_Peer b \<and> cafe_Address a = cafe_Address b \<and> cafe_Api a = cafe_Api b
     \<and> cafe_Protocol a = cafe_Protocol b \<and> cafe_Node a = cafe_Node b \<and> cafe_Url a = cafe_Url b"

definition peersEqual :: "Peer \<Rightarrow> Peer \<Rightarrow> bool" where
  "peersEqual a b \<longleftrightarrow>
     peer_Id a = peer_Id b \<and> peer_Address a = peer_Address b \<and> peer_Name a = peer_Name b
     \<and> peer_Avatar a = peer_Avatar b \<and> length (peer_Inboxes a) = length (peer_Inboxes b)
     \<and> list_all (\<lambda>j. case map_of (rev (map (\<lambda>c. (cafe_Peer c, c)) (peer_Inboxes a))) (cafe_Peer j) of
                      None \<Rightarrow> False | Some i \<Rightarrow> cafesEqual i j) (peer_Inboxes b)"

definition AccountThread :: "world \<Rightarrow> node_state \<Rightarrow> thread option" where
  "AccountThread w s = find (\<lambda>t. t_Key t = w_configAddress w) (ns_loaded s)"

definition addPeer :: "world \<Rightarrow> Peer \<Rightarrow> unit node_op" where
  "addPeer w peer =
     go_bind (go_get (\<lambda>s. peers_Get (peer_Id peer) (ns_peers s))) (\<lambda>x.
     go_bind (TimestampNow w) (\<lambda>now.
     if x \<noteq> None \<and> (peer_Updated peer = None
           \<or> ProtoTsIsNewer now (peer_Updated (the x)) (peer_Updated peer))
     then go_return ()
     else
       go_seq (on_peers (peers_AddOrUpdate now peer))
      (go_seq (go_when (x = None \<and> peer_Address peer = w_accountAddress w)
                 (emit (AccountPeerAdded (peer_Id peer))))
       (if x \<noteq> None \<and> peersEqual (the x) peer then go_return ()
        else go_bind (go_get (AccountThread w)) (\<lambda>thrd.
          case thrd of None \<Rightarrow> go_fail (ErrMsg ''account thread not found'')
          | Some th \<Rightarrow>
              go_bind (annouce w th (Some \<lparr>ann_Peer = Some peer, ann_Name = []\<rparr>)) (\<lambda>_. go_return ()))))))"

definition addOrUpdatePeer :: "world \<Rightarrow> thread \<Rightarrow> Peer \<Rightarrow> bool \<Rightarrow> unit node_op" where
  "addOrUpdatePeer w t peer welcomed =
     (if peer_Id peer = w_self w then go_return ()
      else go_seq
        (go_catch (on_thread_peers (thread_peers_Add
             \<lparr>tp_Id = peer_Id peer, tp_Thread = t_Id t, tp_Welcomed = welcomed\<rparr>))
           (\<lambda>err. if \<not> ConflictError err then go_fail err else go_return ()))
        (addPeer w peer))"

section \<open>What these operations keep\<close>

lemma keeps_on_blocks: "(\<And>s f. part (s\<lparr>ns_blocks := f\<rparr>) = part s) \<Longrightarrow> keeps_part part (on_blocks m)"
  by (intro same.keepsI) (simp add: same_def on_blocks_run)

lemma keeps_on_peers: "(\<And>s f. part (s\<lparr>ns_peers := f\<rparr>) = part s) \<Longrightarrow> keeps_part part (on_peers m)"
  by (intro same.keepsI) (simp add: same_def on_peers_def go_on_def split_beta)

lemma keeps_on_thread_peers:
  "(\<And>s f. part (s\<lparr>ns_thread_peers := f\<rparr>) = part s) \<Longrightarrow> keeps_part part (on_thread_peers m)"
  by (intro same.keepsI) (simp add: same_def on_thread_peers_run)

lemma keeps_commitBlock [keeps_node]:
  "apart_from_cafe part \<Longrightarrow> keeps_part part (commitBlock w msg ty add enc)"
  unfolding commitBlock_def newBlockHeader_def addBlock_def by (intro keeps_node)

lemma keeps_indexBlock:
  "apart_from_cafe part \<Longrightarrow> (\<And>s f. part (s\<lparr>ns_blocks := f\<rparr>) = part s) \<Longrightarrow>
   keeps_part part (indexBlock w t b r)"
  unfolding indexBlock_def pushUpdate_def by (intro keeps_node keeps_on_blocks keeps_emit)

end
