(* ===== verification/ThreadFiles.thy ===== *)
theory ThreadFiles
  imports ThreadOut
begin

text \<open>
  File data of a thread, \<^verbatim>\<open>core/thread_files.go\<close> (the record of its messages is in \<open>NodeState\<close>): the
  walk over the nodes of a files block that checks them against the schema, the index from a file
  to the data nodes that use it, the cafe requests for a whole graph, and the removal of files that
  no other block uses.
\<close>

definition ValidMetaLinkNames :: "string list" where
  "ValidMetaLinkNames = [''meta'', ''f'']"

definition ValidContentLinkNames :: "string list" where
  "ValidContentLinkNames = [''content'', ''d'']"

definition looksLikeFileNode :: "dag_node \<Rightarrow> bool" where
  "looksLikeFileNode node \<longleftrightarrow>
     length (dag_Links node) = 2
     \<and> LinkByName (dag_Links node) ValidMetaLinkNames \<noteq> None
     \<and> LinkByName (dag_Links node) ValidContentLinkNames \<noteq> None"

definition NodeAtLink :: "world \<Rightarrow> string \<times> string \<Rightarrow> dag_node node_op" where
  "NodeAtLink w link = go_lift (w_nodeAt w (snd link))"

section \<open>Validation against the schema\<close>

text \<open>A lookup in a Go map, the zero value for a missing key.\<close>

definition keys_at :: "(string \<times> string) list \<Rightarrow> string \<Rightarrow> string" where
  "keys_at keys p = (case map_of keys p of None \<Rightarrow> [] | Some k \<Rightarrow> k)"

definition validateJsonNode :: "world \<Rightarrow> thread \<Rightarrow> dag_node \<Rightarrow> string \<Rightarrow> unit node_op" where
  "validateJsonNode w t inode key =
     (case t_Schema t of
        None \<Rightarrow> go_fail (Panic ''nil schema'')
      | Some schema \<Rightarrow>
        (case nd_JsonSchema schema of
           None \<Rightarrow> go_fail (ErrMsg ''thread schema does not allow json files'')
         | Some jschema \<Rightarrow>
             go_bind (go_lift (w_dataAt w (dag_Cid inode @ ''/content''))) (\<lambda>data.
             go_bind (if key \<noteq> []
                      then go_bind (go_lift (w_base58 w key)) (\<lambda>keyb. go_lift (w_decryptAES w data keyb))
                      else go_return data) (\<lambda>plaintext.
             go_lift (w_validJson w jschema plaintext)))))"

definition processFileLink ::
  "world \<Rightarrow> thread \<Rightarrow> dag_node \<Rightarrow> bool \<Rightarrow> string \<Rightarrow> string \<Rightarrow> bool \<Rightarrow> unit node_op" where
  "processFileLink w t inode pin mil key inbound =
     (case LinkByName (dag_Links inode) ValidMetaLinkNames of
        None \<Rightarrow> go_fail (ErrMsg ''meta link not in node'')
      | Some _ \<Rightarrow>
        (case LinkByName (dag_Links inode) ValidContentLinkNames of
           None \<Rightarrow> go_fail (ErrMsg ''content link not in node'')
         | Some _ \<Rightarrow>
             go_seq (go_when (mil = ''/json'') (validateJsonNode w t inode key))
                    (go_when pin (PinNode w (dag_Cid inode) True))))"

definition index_path :: "nat \<Rightarrow> string" where
  "index_path i = ''/'' @ Itoa (int i) @ ''/''"

definition processFileNode ::
  "world \<Rightarrow> thread \<Rightarrow> Node \<Rightarrow> dag_node \<Rightarrow> nat \<Rightarrow> (string \<times> string) list \<Rightarrow> bool \<Rightarrow> unit node_op" where
  "processFileNode w t node inode index keys inbound =
     (if length (nd_Links node) = 0
      then processFileLink w t inode (nd_Pin node) (nd_Mill node) (keys_at keys (index_path index)) inbound
      else go_seq
        (go_foreach (\<lambda>(name, l).
           case LinkByName (dag_Links inode) [name] of
             None \<Rightarrow> go_fail (ErrMsg ''file failed schema validation'')
           | Some link \<Rightarrow>
               go_bind (NodeAtLink w link) (\<lambda>n.
               processFileLink w t n (lnk_Pin l) (lnk_Mill l)
                 (keys_at keys (index_path index @ name @ ''/'')) inbound)) (nd_Links node))
        (go_when (nd_Pin node \<and> inbound) (PinNode w (dag_Cid inode) False)))"

definition processFileData ::
  "world \<Rightarrow> thread \<Rightarrow> Node \<Rightarrow> dag_node \<Rightarrow> (string \<times> string) list \<Rightarrow> bool \<Rightarrow> unit node_op" where
  "processFileData w t schema inode keys inbound =
     go_foreach (\<lambda>(i, link).
        go_bind (NodeAtLink w link) (\<lambda>nd. processFileNode w t schema nd i keys inbound))
       (enumerate 0 (dag_Links inode))"

section \<open>The file index\<close>

definition indexFileLink :: "dag_node \<Rightarrow> string \<Rightarrow> unit node_op" where
  "indexFileLink inode data =
     (case LinkByName (dag_Links inode) ValidContentLinkNames of
        None \<Rightarrow> go_fail (ErrMsg ''content link not in node'')
      | Some dlink \<Rightarrow> on_files (files_AddTarget (snd dlink) data))"

definition indexFileNode :: "world \<Rightarrow> dag_node \<Rightarrow> string \<Rightarrow> unit node_op" where
  "indexFileNode w inode data =
     (if looksLikeFileNode inode then indexFileLink inode data
      else go_foreach (\<lambda>link. go_bind (NodeAtLink w link) (\<lambda>n. indexFileLink n data)) (dag_Links inode))"

definition indexFileData :: "world \<Rightarrow> dag_node \<Rightarrow> string \<Rightarrow> unit node_op" where
  "indexFileData w inode data =
     go_foreach (\<lambda>link. go_bind (NodeAtLink w link) (\<lambda>nd. indexFileNode w nd data)) (dag_Links inode)"

definition deIndexFileLink :: "world \<Rightarrow> dag_node \<Rightarrow> string \<Rightarrow> unit node_op" where
  "deIndexFileLink w inode data =
     (case LinkByName (dag_Links inode) ValidContentLinkNames of
        None \<Rightarrow> go_fail (ErrMsg ''content link not in node'')
      | Some dlink \<Rightarrow>
          (let hash = snd dlink
           in go_seq (on_files (files_RemoveTarget hash data))
              (go_bind (go_get (\<lambda>s. files_Get hash (ns_files s))) (\<lambda>file.
               case file of None \<Rightarrow> go_return ()
               | Some f \<Rightarrow>
                   go_when (length (file_Targets f) = 0)
                     (go_seq (UnpinNode w (dag_Cid inode) True) (on_files (files_Delete hash)))))))"

definition deIndexFileNode :: "world \<Rightarrow> dag_node \<Rightarrow> string \<Rightarrow> unit node_op" where
  "deIndexFileNode w inode data =
     (if looksLikeFileNode inode then deIndexFileLink w inode data
      else go_foreach (\<lambda>link. go_bind (NodeAtLink w link) (\<lambda>n. deIndexFileLink w n data)) (dag_Links inode))"

definition removeFiles :: "world \<Rightarrow> dag_node \<Rightarrow> unit node_op" where
  "removeFiles w node =
     (let data = dag_Cid node
      in go_bind (go_get (\<lambda>s. blocks_List [] (- 1) (\<lambda>r. blocks_data r = data) (ns_blocks s))) (\<lambda>blocks.
         go_when (length blocks = 1)
           (go_seq (UnpinNode w data False)
           (go_seq (CafeOutbox_Add w data CafeRequest_UNSTORE [])
             (go_foreach (\<lambda>link. go_bind (NodeAtLink w link) (\<lambda>nd. deIndexFileNode w nd data))
                (dag_Links node))))))"

definition ignoreBlockTarget :: "world \<Rightarrow> Block option \<Rightarrow> unit node_op" where
  "ignoreBlockTarget w block =
     (case block of None \<Rightarrow> go_return ()
      | Some b \<Rightarrow>
          if blk_Type b = Block_FILES
          then if blk_Data b = [] then go_return ()
               else go_bind (go_lift (w_nodeAt w (blk_Data b))) (\<lambda>node. removeFiles w node)
          else go_return ())"

section \<open>Cafe requests for a graph\<close>

definition cafeReqFileLink :: "world \<Rightarrow> dag_node \<Rightarrow> CafeRequestSettings \<Rightarrow> unit node_op" where
  "cafeReqFileLink w inode settings =
     go_seq (CafeOutbox_Add w (dag_Cid inode) CafeRequest_STORE (settings_Options settings))
     (case LinkByName (dag_Links inode) ValidMetaLinkNames of
        None \<Rightarrow> go_fail (ErrMsg ''meta link not in node'')
      | Some flink \<Rightarrow>
        (case LinkByName (dag_Links inode) ValidContentLinkNames of
           None \<Rightarrow> go_fail (ErrMsg ''content link not in node'')
         | Some dlink \<Rightarrow>
             go_bind (new_ksuid w) (\<lambda>g.
             let opts = [opt_Group g, opt_SyncGroup (set_SyncGroup settings), opt_Cafe (set_Cafe settings)]
             in go_seq (CafeOutbox_Add w (snd flink) CafeRequest_STORE opts)
                       (CafeOutbox_Add w (snd dlink) CafeRequest_STORE opts))))"

definition cafeReqFileNode :: "world \<Rightarrow> dag_node \<Rightarrow> CafeRequestSettings \<Rightarrow> unit node_op" where
  "cafeReqFileNode w inode settings =
     go_seq (CafeOutbox_Add w (dag_Cid inode) CafeRequest_STORE (settings_Options settings))
     (if looksLikeFileNode inode then cafeReqFileLink w inode settings
      else go_foreach (\<lambda>l. go_bind (NodeAtLink w l) (\<lambda>n. cafeReqFileLink w n settings)) (dag_Links inode))"

definition cafeReqFileData :: "world \<Rightarrow> dag_node \<Rightarrow> string \<Rightarrow> string \<Rightarrow> unit node_op" where
  "cafeReqFileData w inode syncGroup cafe =
     go_bind (new_ksuid w) (\<lambda>g.
     go_bind (CafeRequestOptions w [opt_Group g, opt_SyncGroup syncGroup, opt_Cafe cafe]) (\<lambda>settings.
     go_seq (CafeOutbox_Add w (dag_Cid inode) CafeRequest_STORE (settings_Options settings))
       (go_foreach (\<lambda>link. go_bind (NodeAtLink w link) (\<lambda>nd. cafeReqFileNode w nd settings))
          (dag_Links inode))))"

section \<open>Adding files, ignoring a block, leaving\<close>

definition AddFiles ::
  "world \<Rightarrow> thread \<Rightarrow> dag_node option \<Rightarrow> string \<Rightarrow> string \<Rightarrow> (string \<times> string) list \<Rightarrow> string node_op" where
  "AddFiles w t node target caption0 keys =
     (if \<not> writable t (w_configAddress w) then go_fail ErrNotWritable
      else case t_Schema t of
        None \<Rightarrow> go_fail (ErrMsg ''thread schema required to add files'')
      | Some schema \<Rightarrow>
        (case node of None \<Rightarrow> go_fail (ErrMsg ''invalid files node'')
         | Some nd \<Rightarrow>
           (let caption = TrimSpace caption0;
                msg = \<lparr>tf_Target = [], tf_Body = caption, tf_Keys = keys\<rparr>
            in go_bind (commitBlock w (Some (AnyFiles msg)) Block_FILES False (w_encrypt w (t_Id t))) (\<lambda>res.
               go_seq (processFileData w t schema nd keys False)
              (go_seq (cafeReqFileData w nd (cr_hash res) [])
              (go_seq (addBlock w (cr_ciphertext res) False)
              (go_seq (indexBlock w t (outBlock t res Block_FILES target (dag_Cid nd) (tf_Body msg)) False)
              (go_seq (indexFileData w nd (dag_Cid nd))
                      (go_return (cr_hash res))))))))))"

definition AddIgnore :: "world \<Rightarrow> thread \<Rightarrow> string \<Rightarrow> string node_op" where
  "AddIgnore w t block =
     (if \<not> annotatable t (w_configAddress w) then go_fail ErrNotAnnotatable
      else go_bind (out_op w t None Block_IGNORE block []) (\<lambda>hash.
        go_bind (go_get (\<lambda>s. blocks_Get block (ns_blocks s))) (\<lambda>target.
        go_seq (ignoreBlockTarget w target)
        (go_seq (on_notifications (notifications_DeleteByBlock block)) (go_return hash)))))"

definition leave :: "world \<Rightarrow> thread \<Rightarrow> string node_op" where
  "leave w t =
     (if \<not> readable t (w_configAddress w) then go_fail ErrNotReadable
      else go_bind (out_op w t None Block_LEAVE [] []) (\<lambda>hash.
        go_bind (go_get (\<lambda>s. blocks_List [] (- 1) (\<lambda>r. blocks_threadId r = t_Id t) (ns_blocks s))) (\<lambda>blocks.
        go_seq (go_foreach (\<lambda>block. ignoreBlockTarget w (Some block)) blocks)
        (go_seq (on_blocks (blocks_DeleteByThread (t_Id t)))
        (go_seq (on_thread_peers (thread_peers_DeleteByThread (t_Id t)))
        (go_seq (on_notifications (notifications_DeleteBySubject (t_Id t)))
                (go_return hash)))))))"

section \<open>What these operations keep\<close>

lemma keeps_on_files: "(\<And>s f. part (s\<lparr>ns_files := f\<rparr>) = part s) \<Longrightarrow> keeps_part part (on_files m)"
  by (intro same.keepsI) (simp add: same_def on_files_def go_on_def split_beta)

text \<open>
  The walks over file nodes touch the file index, the request table, the effects and the counters.
\<close>

definition apart_from_files :: "(node_state \<Rightarrow> 'p) \<Rightarrow> bool" where
  "apart_from_files part \<longleftrightarrow> apart_from_cafe part \<and> (\<forall>s f. part (s\<lparr>ns_files := f\<rparr>) = part s)"

lemma apart_files_parts [simp]:
  "apart_from_files ns_threads" "apart_from_files ns_thread_peers" "apart_from_files ns_blocks"
  "apart_from_files ns_block_messages" "apart_from_files ns_invites" "apart_from_files ns_notifications"
  "apart_from_files ns_peers" "apart_from_files ns_loaded" "apart_from_files ns_cafe_sessions"
  by (simp_all add: apart_from_files_def)

lemma keeps_node_at [keeps_node]: "keeps_part part (NodeAtLink w link)"
  unfolding NodeAtLink_def by (rule same.keeps_lift)

lemma keeps_processFileLink:
  assumes "apart_from_files part"
  shows "keeps_part part (processFileLink w t n p m k i)"
proof -
  have "apart_from_cafe part" using assms by (simp add: apart_from_files_def)
  then show ?thesis
    unfolding processFileLink_def validateJsonNode_def by (intro keeps_node)
qed

lemma keeps_processFileData [keeps_node]:
  assumes "apart_from_files part"
  shows "keeps_part part (processFileData w t sch n keys i)"
proof -
  have p: "apart_from_cafe part" using assms by (simp add: apart_from_files_def)
  have "keeps_part part (processFileNode w t sch nd ix keys i)" for nd ix
    unfolding processFileNode_def split_beta
    by (intro keeps_node keeps_processFileLink assms p)
  then show ?thesis unfolding processFileData_def split_beta by (intro keeps_node)
qed

lemma keeps_indexFileData [keeps_node]:
  assumes "apart_from_files part"
  shows "keeps_part part (indexFileData w n d)"
proof -
  have "keeps_part part (indexFileLink nd d)" for nd
    unfolding indexFileLink_def using assms
    by (intro keeps_node keeps_on_files) (simp add: apart_from_files_def)
  then show ?thesis unfolding indexFileData_def indexFileNode_def by (intro keeps_node)
qed

lemma keeps_ignoreBlockTarget [keeps_node]:
  assumes "apart_from_files part"
  shows "keeps_part part (ignoreBlockTarget w b)"
proof -
  have p: "apart_from_cafe part" and f: "\<And>s f. part (s\<lparr>ns_files := f\<rparr>) = part s"
    using assms by (simp_all add: apart_from_files_def)
  have "keeps_part part (deIndexFileLink w nd d)" for nd d
    unfolding deIndexFileLink_def Let_def by (intro keeps_node keeps_on_files f p)
  then show ?thesis
    unfolding ignoreBlockTarget_def removeFiles_def deIndexFileNode_def Let_def
    by (intro keeps_node p)
qed

lemma keeps_cafeReqFileData [keeps_node]:
  assumes "apart_from_cafe part"
  shows "keeps_part part (cafeReqFileData w n sg c)"
proof -
  have "keeps_part part (cafeReqFileLink w nd st)" for nd st
    unfolding cafeReqFileLink_def Let_def by (intro keeps_node assms)
  then show ?thesis
    unfolding cafeReqFileData_def cafeReqFileNode_def
    by (intro keeps_node keeps_CafeRequestOptions assms)
qed

end
