(* ===== verification/ThreadHandlers.thy ===== *)
theory ThreadHandlers
  imports ThreadFiles
begin

text \<open>
  Inbound blocks (\<^verbatim>\<open>Thread.handle\<close> and the \<^verbatim>\<open>handle*Block\<close> functions of \<^verbatim>\<open>core/thread_*.go\<close>): a block
  is decrypted, added, checked by the handler of its type against the rights of the address in
  its header, and indexed. A block without a header makes the code dereference a nil pointer, which
  is the panic branch. The specification \<open>permitted\<close> says which right each type of block needs.
\<close>

section \<open>Data\<close>

record blockNode =
  bn_hash :: string
  bn_ciphertext :: bytes
  bn_parents :: "string list"
  bn_target :: string
  bn_data :: string

record handleResult =
  hr_body :: string
  hr_oldTarget :: string
  hr_oldData :: string

definition no_result :: handleResult where
  "no_result = \<lparr>hr_body = [], hr_oldTarget = [], hr_oldData = []\<rparr>"

definition unmarshalBlock :: "world \<Rightarrow> thread \<Rightarrow> bytes \<Rightarrow> goerr + ThreadBlock" where
  "unmarshalBlock w t ciphertext =
     (case w_decrypt w (t_Id t) ciphertext of
        Inl err \<Rightarrow>
          if is_panic err then Inl err
          else (case w_decodeBlock w ciphertext of
             Inl _ \<Rightarrow> Inl err
           | Inr block \<Rightarrow> if tb_Type block \<noteq> Block_MERGE then Inl err else Inr block)
      | Inr plaintext \<Rightarrow> w_decodeBlock w plaintext)"

text \<open>An optional payload, as the handlers of the deprecated messages read it.\<close>

definition optional_payload :: "payload option \<Rightarrow> 'm \<Rightarrow> (payload option \<Rightarrow> goerr + 'm) \<Rightarrow> 'm node_op" where
  "optional_payload p zero unmarshal =
     (if p = None then go_return zero else go_lift (unmarshal p))"

section \<open>Handlers\<close>

definition handleMergeBlock :: "world \<Rightarrow> thread \<Rightarrow> ThreadBlockHeader \<Rightarrow> handleResult node_op" where
  "handleMergeBlock w t hdr =
     go_seq (go_require ErrNotReadable (readable t (w_configAddress w)))
    (go_seq (go_require ErrNotReadable (readable t (hdr_Address hdr)))
            (go_return no_result))"

text \<open>\<open>strings.Replace(s, "ignore-", "", 1)\<close>: the first occurrence is removed.\<close>

fun remove_first :: "string \<Rightarrow> string \<Rightarrow> string" where
  "remove_first old [] = []"
| "remove_first old (c # cs) =
     (if take (length old) (c # cs) = old then drop (length old) (c # cs)
      else c # remove_first old cs)"

definition handleIgnoreBlock ::
  "world \<Rightarrow> thread \<Rightarrow> blockNode \<Rightarrow> ThreadBlock \<Rightarrow> ThreadBlockHeader \<Rightarrow> handleResult node_op" where
  "handleIgnoreBlock w t bnode block hdr =
     go_bind (optional_payload (tb_Payload block) [] UnmarshalIgnore) (\<lambda>msgTarget.
     go_seq (go_require ErrNotReadable (readable t (w_configAddress w)))
    (go_seq (go_require ErrNotAnnotatable (annotatable t (hdr_Address hdr)))
    (let target = remove_first ''ignore-'' (if msgTarget \<noteq> [] then msgTarget else bn_target bnode)
     in go_seq (on_notifications (notifications_DeleteByBlock target))
        (go_bind (go_get (\<lambda>s. blocks_Get target (ns_blocks s))) (\<lambda>b.
         go_seq (ignoreBlockTarget w b)
                (go_return (no_result\<lparr>hr_oldTarget := target\<rparr>)))))))"

definition handleFlagBlock :: "world \<Rightarrow> thread \<Rightarrow> ThreadBlock \<Rightarrow> ThreadBlockHeader \<Rightarrow> handleResult node_op" where
  "handleFlagBlock w t block hdr =
     go_bind (optional_payload (tb_Payload block) [] UnmarshalFlag) (\<lambda>msgTarget.
     go_seq (go_require ErrNotReadable (readable t (w_configAddress w)))
    (go_seq (go_require ErrNotAnnotatable (annotatable t (hdr_Address hdr)))
            (go_return (no_result\<lparr>hr_oldTarget := msgTarget\<rparr>))))"

definition handleLikeBlock :: "world \<Rightarrow> thread \<Rightarrow> ThreadBlock \<Rightarrow> ThreadBlockHeader \<Rightarrow> handleResult node_op" where
  "handleLikeBlock w t block hdr =
     go_bind (optional_payload (tb_Payload block) [] UnmarshalLike) (\<lambda>msgTarget.
     go_seq (go_require ErrNotReadable (readable t (w_configAddress w)))
    (go_seq (go_require ErrNotAnnotatable (annotatable t (hdr_Address hdr)))
            (go_return (no_result\<lparr>hr_oldTarget := msgTarget\<rparr>))))"

definition handleCommentBlock :: "world \<Rightarrow> thread \<Rightarrow> ThreadBlock \<Rightarrow> ThreadBlockHeader \<Rightarrow> handleResult node_op" where
  "handleCommentBlock w t block hdr =
     go_bind (optional_payload (tb_Payload block) \<lparr>tc_Target = [], tc_Body = []\<rparr> UnmarshalComment) (\<lambda>msg.
     go_seq (go_require ErrNotReadable (readable t (w_configAddress w)))
    (go_seq (go_require ErrNotAnnotatable (annotatable t (hdr_Address hdr)))
            (go_return (no_result\<lparr>hr_oldTarget := tc_Target msg, hr_body := tc_Body msg\<rparr>))))"

definition handleJoinBlock :: "world \<Rightarrow> thread \<Rightarrow> ThreadBlock \<Rightarrow> ThreadBlockHeader \<Rightarrow> handleResult node_op" where
  "handleJoinBlock w t block hdr =
     go_bind (go_lift (UnmarshalJoin (tb_Payload block))) (\<lambda>msg.
     go_seq (go_require ErrNotReadable (readable t (w_configAddress w)))
    (go_seq (go_require ErrNotReadable (readable t (hdr_Address hdr)))
    (case join_Peer msg of
       None \<Rightarrow> go_fail (Panic ''nil peer in join'')
     | Some p \<Rightarrow>
         if peer_Id p \<noteq> hdr_Author hdr then go_fail ErrInvalidThreadBlock
         else go_seq (addOrUpdatePeer w t p False) (go_return no_result))))"

definition handleAnnounceBlock :: "world \<Rightarrow> thread \<Rightarrow> ThreadBlock \<Rightarrow> ThreadBlockHeader \<Rightarrow> handleResult node_op" where
  "handleAnnounceBlock w t block hdr =
     go_bind (go_lift (UnmarshalAnnounce (tb_Payload block))) (\<lambda>msg.
     go_seq (go_require ErrNotReadable (readable t (w_configAddress w)))
    (go_seq (go_require ErrNotReadable (readable t (hdr_Address hdr)))
    (go_seq (go_require ErrInvalidThreadBlock
              (case ann_Peer msg of None \<Rightarrow> True
               | Some p \<Rightarrow> \<not> (t_Id t \<noteq> w_accountThread w \<and> peer_Id p \<noteq> hdr_Author hdr)))
    (go_seq (go_require ErrInvalidThreadBlock
              (ann_Name msg \<noteq> [] \<longrightarrow> t_initiator t = hdr_Address hdr))
    (go_seq
      (case ann_Peer msg of None \<Rightarrow> go_return ()
       | Some p \<Rightarrow>
           go_when (peer_Id p \<noteq> w_self w)
             (if t_Id t = w_accountThread w \<and> peer_Id p \<noteq> hdr_Author hdr then addPeer w p
              else addOrUpdatePeer w t p False))
    (go_seq
      (go_when (ann_Name msg \<noteq> [])
        (go_seq (go_modify (\<lambda>s. s\<lparr>ns_loaded :=
                   map (\<lambda>th. if t_Id th = t_Id t then th\<lparr>t_Name := ann_Name msg\<rparr> else th) (ns_loaded s)\<rparr>))
                (on_threads (threads_UpdateName (t_Id t) (ann_Name msg)))))
      (go_return no_result)))))))"

definition handleLeaveBlock :: "world \<Rightarrow> thread \<Rightarrow> ThreadBlockHeader \<Rightarrow> handleResult node_op" where
  "handleLeaveBlock w t hdr =
     go_seq (go_require ErrNotReadable (readable t (w_configAddress w)))
    (go_seq (go_require ErrNotReadable (readable t (hdr_Address hdr)))
    (go_seq (on_thread_peers (thread_peers_Delete (hdr_Author hdr) (t_Id t)))
    (go_seq (on_notifications (notifications_DeleteByActor (hdr_Author hdr)))
            (go_return no_result))))"

definition handleMessageBlock :: "world \<Rightarrow> thread \<Rightarrow> ThreadBlock \<Rightarrow> ThreadBlockHeader \<Rightarrow> handleResult node_op" where
  "handleMessageBlock w t block hdr =
     go_bind (go_lift (UnmarshalMessage (tb_Payload block))) (\<lambda>body.
     go_seq (go_require ErrNotReadable (readable t (w_configAddress w)))
    (go_seq (go_require ErrNotWritable (writable t (hdr_Address hdr)))
            (go_return (no_result\<lparr>hr_body := body\<rparr>))))"

text \<open>The loop that decrypts the file indexes of a files block and adds them.\<close>

definition receiveFile :: "world \<Rightarrow> string \<Rightarrow> string \<times> string \<Rightarrow> unit node_op" where
  "receiveFile w data pk =
     (let pth = fst pk; key = snd pk
      in go_bind (go_lift (w_dataAt w (data @ pth @ ''meta''))) (\<lambda>fd.
         go_bind (if key \<noteq> []
                  then go_bind (go_lift (w_base58 w key)) (\<lambda>keyb. go_lift (w_decryptAES w fd keyb))
                  else go_return fd) (\<lambda>plaintext.
         go_bind (go_lift (w_decodeFile w plaintext)) (\<lambda>file.
         go_bind (TimestampNow w) (\<lambda>now.
         go_catch (on_files (files_Add now file))
           (\<lambda>err. if \<not> ConflictError err then go_fail err else go_return ()))))))"

definition handleFilesBlock ::
  "world \<Rightarrow> thread \<Rightarrow> blockNode \<Rightarrow> ThreadBlock \<Rightarrow> ThreadBlockHeader \<Rightarrow> handleResult node_op" where
  "handleFilesBlock w t bnode block hdr =
     go_bind (go_lift (UnmarshalFiles (tb_Payload block))) (\<lambda>msg.
     go_seq (go_require ErrNotReadable (readable t (w_configAddress w)))
    (go_seq (go_require ErrNotWritable (writable t (hdr_Address hdr)))
    (case t_Schema t of
       None \<Rightarrow> go_fail (ErrMsg ''thread schema required to add files'')
     | Some schema \<Rightarrow>
        (let data = (if tf_Target msg \<noteq> [] then tf_Target msg else bn_data bnode)
         in go_bind (TimestampNow w) (\<lambda>now.
            go_bind (go_get (\<lambda>s. blocks_List [] (- 1)
               (\<lambda>r. blocks_target r = bn_hash bnode \<and> blocks_type r = BlockType_to_int Block_IGNORE)
               (ns_blocks s))) (\<lambda>ignored.
            let ignore = (case ignored of [] \<Rightarrow> False
                          | b # _ \<Rightarrow> ProtoTsIsNewer now (blk_Date b) (hdr_Date hdr))
            in go_seq
               (go_when (\<not> ignore)
                 (go_bind (go_lift (w_parseCid w data)) (\<lambda>tcid.
                  go_bind (go_lift (w_nodeAt w tcid)) (\<lambda>node.
                  go_seq (PinNode w (dag_Cid node) False)
                 (go_seq (processFileData w t schema node (tf_Keys msg) True)
                 (go_seq (go_foreach (receiveFile w data) (tf_Keys msg))
                         (indexFileData w node data)))))))
               (go_return (no_result\<lparr>hr_oldData := tf_Target msg, hr_body := tf_Body msg\<rparr>))))))))"

section \<open>Handling a block\<close>

definition dispatch ::
  "world \<Rightarrow> thread \<Rightarrow> blockNode \<Rightarrow> ThreadBlock \<Rightarrow> ThreadBlockHeader \<Rightarrow> handleResult node_op" where
  "dispatch w t bnode block hdr =
     (case tb_Type block of
        Block_MERGE \<Rightarrow> handleMergeBlock w t hdr
      | Block_IGNORE \<Rightarrow> handleIgnoreBlock w t bnode block hdr
      | Block_FLAG \<Rightarrow> handleFlagBlock w t block hdr
      | Block_JOIN \<Rightarrow> handleJoinBlock w t block hdr
      | Block_ANNOUNCE \<Rightarrow> handleAnnounceBlock w t block hdr
      | Block_LEAVE \<Rightarrow> handleLeaveBlock w t hdr
      | Block_TEXT \<Rightarrow> handleMessageBlock w t block hdr
      | Block_FILES \<Rightarrow> handleFilesBlock w t bnode block hdr
      | Block_COMMENT \<Rightarrow> handleCommentBlock w t block hdr
      | Block_LIKE \<Rightarrow> handleLikeBlock w t block hdr
      | _ \<Rightarrow> go_fail (ErrMsg ''invalid type''))"

text \<open>The index of a handled block; the fields of an old block replace those of the node.\<close>

definition handled_index :: "thread \<Rightarrow> blockNode \<Rightarrow> ThreadBlock \<Rightarrow> ThreadBlockHeader \<Rightarrow> handleResult \<Rightarrow> Block" where
  "handled_index t bnode block hdr res =
     \<lparr>blk_Id = bn_hash bnode, blk_Thread = t_Id t, blk_Author = hdr_Author hdr,
      blk_Type = tb_Type block, blk_Date = hdr_Date hdr,
      blk_Parents = (if 0 < length (hdr_Parents hdr) then hdr_Parents hdr else bn_parents bnode),
      blk_Target = (if hr_oldTarget res \<noteq> [] then hr_oldTarget res else bn_target bnode),
      blk_Data = (if hr_oldData res \<noteq> [] then hr_oldData res else bn_data bnode),
      blk_Body = hr_body res, blk_Status = Block_READY, blk_Attempts = 0\<rparr>"

definition handle :: "world \<Rightarrow> thread \<Rightarrow> blockNode \<Rightarrow> bool \<Rightarrow> Block node_op" where
  "handle w t bnode replace =
     go_bind (go_lift (unmarshalBlock w t (bn_ciphertext bnode))) (\<lambda>block.
     go_seq (addBlock w (bn_ciphertext bnode) False)
     (case tb_Header block of
        None \<Rightarrow> go_fail (Panic ''nil block header'')
      | Some hdr \<Rightarrow>
          go_bind (dispatch w t bnode block hdr) (\<lambda>res.
          let index = handled_index t bnode block hdr res
          in go_seq (indexBlock w t index replace) (go_return index))))"

section \<open>What a handler may touch\<close>

text \<open>
  No handler writes the block table: whatever it does, the table is the same after it. Through
  \<open>addPeer\<close> a join or an announce may add an announce block of our own to the table, so the two peer
  handlers are the exception.
\<close>

lemma keeps_optional_payload [keeps_node]: "keeps_part part (optional_payload p z u)"
  unfolding optional_payload_def by (intro keeps_node)

lemma keeps_on_notifications:
  "(\<And>s f. part (s\<lparr>ns_notifications := f\<rparr>) = part s) \<Longrightarrow> keeps_part part (on_notifications m)"
  by (intro same.keepsI) (simp add: same_def on_notifications_run)

lemma keeps_receiveFile: "apart_from_files part \<Longrightarrow> keeps_part part (receiveFile w d pk)"
  unfolding receiveFile_def Let_def
  by (intro keeps_node keeps_on_files) (simp_all add: apart_from_files_def)

lemma keeps_blocks_handlers:
  "keeps_part ns_blocks (handleMergeBlock w t hdr)"
  "keeps_part ns_blocks (handleIgnoreBlock w t bnode block hdr)"
  "keeps_part ns_blocks (handleFlagBlock w t block hdr)"
  "keeps_part ns_blocks (handleLeaveBlock w t hdr)"
  "keeps_part ns_blocks (handleMessageBlock w t block hdr)"
  "keeps_part ns_blocks (handleFilesBlock w t bnode block hdr)"
  "keeps_part ns_blocks (handleCommentBlock w t block hdr)"
  "keeps_part ns_blocks (handleLikeBlock w t block hdr)"
  unfolding handleMergeBlock_def handleIgnoreBlock_def handleFlagBlock_def handleLeaveBlock_def
    handleMessageBlock_def handleFilesBlock_def handleCommentBlock_def handleLikeBlock_def Let_def
  by (intro keeps_node keeps_on_notifications keeps_on_thread_peers keeps_receiveFile; simp)+

section \<open>Authorisation\<close>

text \<open>The right each type of block needs; other types are not handled at all.\<close>

fun required_right :: "BlockType \<Rightarrow> right option" where
  "required_right Block_MERGE = Some MayRead"
| "required_right Block_IGNORE = Some MayAnnotate"
| "required_right Block_FLAG = Some MayAnnotate"
| "required_right Block_JOIN = Some MayRead"
| "required_right Block_ANNOUNCE = Some MayRead"
| "required_right Block_LEAVE = Some MayRead"
| "required_right Block_TEXT = Some MayWrite"
| "required_right Block_FILES = Some MayWrite"
| "required_right Block_COMMENT = Some MayAnnotate"
| "required_right Block_LIKE = Some MayAnnotate"
| "required_right Block_ADD = None"
| "required_right (BlockType_Other n) = None"

definition permitted :: "world \<Rightarrow> thread \<Rightarrow> ThreadBlock \<Rightarrow> ThreadBlockHeader \<Rightarrow> bool" where
  "permitted w t block hdr \<longleftrightarrow>
     readable t (w_configAddress w)
     \<and> (case required_right (tb_Type block) of None \<Rightarrow> False
        | Some r \<Rightarrow> granted r t (hdr_Address hdr))"

lemma optional_payload_run: "\<exists>r. optional_payload p z u s = (r, s)"
  by (simp add: optional_payload_def go_defs)

text \<open>A guard that fails ends the handler with the state it was given.\<close>

definition denied :: "'a node_op \<Rightarrow> bool" where
  "denied m \<longleftrightarrow> (\<forall>s. \<exists>e. m s = (Inl e, s))"

lemma denied_fail [simp]: "denied (go_fail e)"
  by (simp add: denied_def go_defs)

lemma denied_require: "\<not> b \<Longrightarrow> denied (go_seq (go_require e b) m)"
  by (simp add: denied_def go_defs)

lemma denied_after_require: "denied m \<Longrightarrow> denied (go_seq (go_require e b) m)"
  by (auto simp: denied_def go_defs)

lemma denied_lift: "(\<And>x. denied (f x)) \<Longrightarrow> denied (go_bind (go_lift r) f)"
  by (auto simp: denied_def go_defs split: sum.splits)

lemma denied_optional: "(\<And>x. denied (f x)) \<Longrightarrow> denied (go_bind (optional_payload p z u) f)"
  by (auto simp: denied_def optional_payload_def go_defs split: sum.splits)

lemma denied_two_guards:
  "\<not> (a \<and> b) \<Longrightarrow> denied (go_seq (go_require e a) (go_seq (go_require e' b) m))"
  by (cases a) (auto intro: denied_require denied_after_require)

lemma dispatch_denied:
  assumes "\<not> permitted w t block hdr"
  shows "denied (dispatch w t bnode block hdr)"
  using assms
  by (cases "tb_Type block")
    (auto simp: permitted_def dispatch_def handleMergeBlock_def handleIgnoreBlock_def handleFlagBlock_def
      handleJoinBlock_def handleAnnounceBlock_def handleLeaveBlock_def handleMessageBlock_def
      handleFilesBlock_def handleCommentBlock_def handleLikeBlock_def
      intro!: denied_lift denied_optional denied_two_guards)

lemma keeps_addBlock [keeps_node]: "apart_from_cafe part \<Longrightarrow> keeps_part part (addBlock w d h)"
  unfolding addBlock_def by (intro keeps_node)

lemma handle_denied:
  assumes "unmarshalBlock w t (bn_ciphertext bnode) = Inr block" "tb_Header block = Some hdr"
    and "\<not> permitted w t block hdr" "apart_from_cafe part"
  shows "isl (fst (handle w t bnode replace s)) \<and> part (snd (handle w t bnode replace s)) = part s"
proof -
  obtain r s1 where a: "addBlock w (bn_ciphertext bnode) False s = (r, s1)" by fastforce
  have part: "part s1 = part s"
    using same.keeps_run [OF keeps_addBlock [OF assms(4)] a] by (simp add: same_def)
  obtain e where d: "dispatch w t bnode block hdr s1 = (Inl e, s1)"
    using dispatch_denied [OF assms(3), of bnode] by (auto simp: denied_def)
  show ?thesis
    using assms(1,2) a d part
    by (cases r) (simp_all add: handle_def go_seq_def go_bind_def go_lift_def)
qed

lemma handle_success:
  assumes "handle w t bnode replace s = (Inr index, s')"
  shows "\<exists>block hdr res s1 s2. unmarshalBlock w t (bn_ciphertext bnode) = Inr block
    \<and> tb_Header block = Some hdr \<and> permitted w t block hdr
    \<and> dispatch w t bnode block hdr s1 = (Inr res, s2)
    \<and> index = handled_index t bnode block hdr res
    \<and> indexBlock w t index replace s2 = (Inr (), s')"
proof -
  obtain block where u: "unmarshalBlock w t (bn_ciphertext bnode) = Inr block"
    using assms by (auto simp: handle_def go_bind_def go_lift_def split: sum.splits)
  obtain s1 where a: "addBlock w (bn_ciphertext bnode) False s = (Inr s1, snd (addBlock w (bn_ciphertext bnode) False s))"
    using assms u by (auto simp: handle_def go_seq_def go_bind_def go_lift_def split: prod.splits sum.splits)
  obtain hdr where h: "tb_Header block = Some hdr"
    using assms u a by (auto simp: handle_def go_seq_def go_bind_def go_lift_def go_fail_def
        split: option.splits prod.splits sum.splits)
  define s1' where "s1' = snd (addBlock w (bn_ciphertext bnode) False s)"
  have rest: "go_bind (dispatch w t bnode block hdr) (\<lambda>res.
        let index = handled_index t bnode block hdr res
        in go_seq (indexBlock w t index replace) (go_return index)) s1' = (Inr index, s')"
    using assms u a h by (simp add: handle_def go_seq_def go_bind_def go_lift_def s1'_def split: prod.splits sum.splits)
  then obtain res s2 where d: "dispatch w t bnode block hdr s1' = (Inr res, s2)"
    and i: "go_seq (indexBlock w t (handled_index t bnode block hdr res) replace)
              (go_return (handled_index t bnode block hdr res)) s2 = (Inr index, s')"
    by (auto simp: go_bind_Inr_iff Let_def)
  have "permitted w t block hdr"
  proof (rule ccontr)
    assume "\<not> permitted w t block hdr"
    then have "\<exists>e. dispatch w t bnode block hdr s1' = (Inl e, s1')"
      using dispatch_denied denied_def by blast
    with d show False by simp
  qed
  then show ?thesis using u h d i by (auto simp: go_seq_Inr_iff go_return_def)
qed

end
