(* ===== verification/Queues.thy ===== *)
theory Queues
  imports ThreadHandlers
begin

text \<open>
  The message queues of a node: the block outbox that delivers envelopes to peers
  (\<^verbatim>\<open>core/block_outbox.go\<close>), the pending block downloads (\<^verbatim>\<open>core/block_downloads.go\<close>), the inbox of
  messages fetched from cafes (\<^verbatim>\<open>core/cafe_inbox.go\<close>) and the flush of queued blocks
  (\<^verbatim>\<open>FlushBlocks\<close> of \<^verbatim>\<open>core/core.go\<close>). The network is a record of functions. The goroutines of a
  batch are modelled in the order of the batch; a batch is followed by the next page of the table,
  so the batch functions take fuel, and running out of it is a panic of its own.
\<close>

record net =
  net_online :: bool
  net_connected :: "string \<Rightarrow> goerr + bool"
  net_send :: "string \<Rightarrow> Envelope \<Rightarrow> goerr + unit"
  net_publish :: "BlockMessage \<Rightarrow> goerr + unit"
  net_marshal :: "Envelope \<Rightarrow> goerr + bytes"

definition blockFlushGroupSize :: int where
  "blockFlushGroupSize = 16"

definition out_of_fuel :: goerr where
  "out_of_fuel = Panic ''out of fuel''"

section \<open>The block outbox\<close>

text \<open>Step 3 of the delivery: requests to the inboxes of the peer, if it is known to have any.\<close>

definition offline_inbox :: "net \<Rightarrow> world \<Rightarrow> BlockMessage \<Rightarrow> unit node_op" where
  "offline_inbox n w msg =
     go_bind (go_get (\<lambda>s. peers_Get (bm_Peer msg) (ns_peers s))) (\<lambda>contact.
     case contact of None \<Rightarrow> go_return ()
     | Some c \<Rightarrow>
         go_when (0 < length (peer_Inboxes c))
           (case bm_Env msg of None \<Rightarrow> go_fail (ErrMsg ''proto: Marshal called with nil'')
            | Some env \<Rightarrow> CafeOutbox_AddForInbox w (net_marshal n) (bm_Peer msg) env (peer_Inboxes c)))"

definition net_send_message :: "net \<Rightarrow> BlockMessage \<Rightarrow> goerr + unit" where
  "net_send_message n msg =
     (case bm_Env msg of None \<Rightarrow> Inl (Panic ''nil envelope'') | Some env \<Rightarrow> net_send n (bm_Peer msg) env)"

definition BlockOutbox_handle :: "net \<Rightarrow> world \<Rightarrow> BlockMessage \<Rightarrow> unit node_op" where
  "BlockOutbox_handle n w msg =
     (if net_online n
      then (case net_connected n (bm_Peer msg) of
          Inl err \<Rightarrow> go_fail err
        | Inr connected \<Rightarrow>
            (let sent = (if connected then net_send_message n msg else Inr ())
             in if \<not> connected \<or> isl sent
                then (case net_publish n msg of
                        Inl _ \<Rightarrow> offline_inbox n w msg
                      | Inr _ \<Rightarrow> go_return ())
                else go_return ()))
      else offline_inbox n w msg)"

text \<open>One message of a batch: the ids of the messages that were handled are collected.\<close>

fun handle_all :: "net \<Rightarrow> world \<Rightarrow> BlockMessage list \<Rightarrow> string list node_op" where
  "handle_all n w [] = go_return []"
| "handle_all n w (msg # msgs) =
     go_bind (go_catch (go_seq (BlockOutbox_handle n w msg) (go_return [bm_Id msg])) (\<lambda>_. go_return []))
       (\<lambda>done. go_bind (handle_all n w msgs) (\<lambda>rest. go_return (done @ rest)))"

fun BlockOutbox_batch :: "nat \<Rightarrow> net \<Rightarrow> world \<Rightarrow> BlockMessage list \<Rightarrow> unit node_op" where
  "BlockOutbox_batch 0 n w msgs = (if msgs = [] then go_return () else go_fail out_of_fuel)"
| "BlockOutbox_batch (Suc fuel) n w msgs =
     (if length msgs = 0 then go_return ()
      else go_bind (handle_all n w msgs) (\<lambda>toDelete.
        go_bind (go_get (\<lambda>s. block_messages_List (bm_Id (last msgs)) blockFlushGroupSize
                               (ns_block_messages s))) (\<lambda>next.
        go_seq (go_foreach (\<lambda>mid. on_block_messages (block_messages_Delete mid)) toDelete)
               (BlockOutbox_batch fuel n w next))))"

definition BlockOutbox_Flush :: "net \<Rightarrow> world \<Rightarrow> unit node_op" where
  "BlockOutbox_Flush n w = (\<lambda>s.
     BlockOutbox_batch (length (ns_block_messages s)) n w
       (block_messages_List [] blockFlushGroupSize (ns_block_messages s)) s)"

section \<open>Downloads\<close>

definition maxDownloadAttempts :: int where
  "maxDownloadAttempts = 5"

definition BlockDownloads_Add :: "world \<Rightarrow> Block \<Rightarrow> unit node_op" where
  "BlockDownloads_Add w download =
     go_bind (TimestampNow w) (\<lambda>now. on_blocks (blocks_Add now download))"

definition BlockDownloads_handleErr :: "goerr \<Rightarrow> Block \<Rightarrow> unit node_op" where
  "BlockDownloads_handleErr herr dl =
     go_seq (if maxDownloadAttempts \<le> int32 (blk_Attempts dl + 1)
             then on_blocks (blocks_Delete (blk_Id dl))
             else on_blocks (blocks_AddAttempt (blk_Id dl)))
            (go_fail herr)"

definition loaded_thread :: "string \<Rightarrow> node_state \<Rightarrow> thread option" where
  "loaded_thread tid s = find (\<lambda>t. t_Id t = tid) (ns_loaded s)"

definition BlockDownloads_handle :: "world \<Rightarrow> Block \<Rightarrow> unit node_op" where
  "BlockDownloads_handle w dl =
     (case w_dataAt w (blk_Id dl) of
        Inl err \<Rightarrow> BlockDownloads_handleErr err dl
      | Inr ciphertext \<Rightarrow>
          go_bind (go_get (loaded_thread (blk_Thread dl))) (\<lambda>thread.
          case thread of
            None \<Rightarrow> on_blocks (blocks_Delete (blk_Id dl))
          | Some t \<Rightarrow>
              go_catch
                (go_bind (handle w t \<lparr>bn_hash = blk_Id dl, bn_ciphertext = ciphertext,
                    bn_parents = blk_Parents dl, bn_target = blk_Target dl, bn_data = blk_Data dl\<rparr> True)
                  (\<lambda>_. go_return ()))
                (\<lambda>_. on_blocks (blocks_Delete (blk_Id dl)))))"

fun BlockDownloads_batch :: "nat \<Rightarrow> world \<Rightarrow> Block list \<Rightarrow> unit node_op" where
  "BlockDownloads_batch 0 w downloads = (if downloads = [] then go_return () else go_fail out_of_fuel)"
| "BlockDownloads_batch (Suc fuel) w downloads =
     (if length downloads = 0 then go_return ()
      else go_seq
        (go_foreach (\<lambda>dl. go_catch (BlockDownloads_handle w dl) (\<lambda>_. go_return ())) downloads)
        (go_bind (go_get (\<lambda>s. blocks_List (blk_Id (last downloads)) 16
             (\<lambda>r. blocks_status r = BlockStatus_to_int Block_PENDING) (ns_blocks s)))
           (BlockDownloads_batch fuel w)))"

section \<open>The cafe inbox\<close>

text \<open>
  \<open>deliver\<close> is what happens to a message that can be fetched, decoded and verified: the handler of
  the threads service.
\<close>

definition CafeInbox_handleErr :: "goerr \<Rightarrow> CafeMessage \<Rightarrow> unit node_op" where
  "CafeInbox_handleErr herr msg =
     go_seq (if 5 \<le> int32 (cm_Attempts msg + 1)
             then on_cafe_messages (cafe_messages_Delete (cm_Id msg))
             else on_cafe_messages (cafe_messages_AddAttempt (cm_Id msg)))
            (go_fail herr)"

definition CafeInbox_handle ::
  "world \<Rightarrow> (string \<Rightarrow> goerr + string) \<Rightarrow> (bytes \<Rightarrow> goerr + Envelope)
   \<Rightarrow> (Envelope \<Rightarrow> string \<Rightarrow> goerr + unit) \<Rightarrow> (Envelope \<Rightarrow> string \<Rightarrow> unit node_op) \<Rightarrow> CafeMessage \<Rightarrow> unit node_op" where
  "CafeInbox_handle w decodePeer unmarshal verify deliver msg =
     (case decodePeer (cm_Peer msg) of Inl err \<Rightarrow> CafeInbox_handleErr err msg | Inr pid \<Rightarrow>
      case w_dataAt w (cm_Id msg) of Inl err \<Rightarrow> CafeInbox_handleErr err msg | Inr envb \<Rightarrow>
      case unmarshal envb of Inl err \<Rightarrow> CafeInbox_handleErr err msg | Inr env \<Rightarrow>
      case verify env pid of Inl err \<Rightarrow> CafeInbox_handleErr err msg | Inr _ \<Rightarrow>
      go_catch (deliver env pid) (\<lambda>err. CafeInbox_handleErr err msg))"

definition CafeInbox_step ::
  "world \<Rightarrow> (string \<Rightarrow> goerr + string) \<Rightarrow> (bytes \<Rightarrow> goerr + Envelope)
   \<Rightarrow> (Envelope \<Rightarrow> string \<Rightarrow> goerr + unit) \<Rightarrow> (Envelope \<Rightarrow> string \<Rightarrow> unit node_op) \<Rightarrow> CafeMessage \<Rightarrow> unit node_op" where
  "CafeInbox_step w decodePeer unmarshal verify deliver msg =
     go_catch
       (go_seq (CafeInbox_handle w decodePeer unmarshal verify deliver msg)
               (on_cafe_messages (cafe_messages_Delete (cm_Id msg))))
       (\<lambda>_. go_return ())"

section \<open>Flushing queued blocks\<close>

text \<open>
  The body of the loop of \<^verbatim>\<open>FlushBlocks\<close> for one block: it is posted when its sync group is complete,
  then the outbox and the cafe requests are flushed. \<open>cafeFlush\<close> is the flush of the cafe request
  handler, which is another program on mobile and the cafe service elsewhere.
\<close>

definition post_queued :: "world \<Rightarrow> Block \<Rightarrow> bool node_op" where
  "post_queued w block =
     go_bind (go_get (loaded_thread (blk_Thread block))) (\<lambda>thread.
     case thread of None \<Rightarrow> go_return False
     | Some t \<Rightarrow>
         go_bind
           (if blk_Type block \<noteq> Block_JOIN
            then go_catch (go_bind (Heads t) (\<lambda>heads. go_return (length heads \<noteq> 0))) (\<lambda>_. go_return False)
            else go_return True) (\<lambda>ready.
         if \<not> ready then go_return False
         else go_bind
           (go_catch (go_seq (post w t block) (go_return True))
              (\<lambda>_. go_seq
                 (if maxDownloadAttempts \<le> int32 (blk_Attempts block + 1)
                  then on_blocks (blocks_Delete (blk_Id block))
                  else on_blocks (blocks_AddAttempt (blk_Id block)))
                 (go_return False))) (\<lambda>posted.
           go_seq (go_when posted (on_cafe_requests (cafe_requests_DeleteBySyncGroup (blk_Id block))))
                  (go_return posted))))"

definition flush_queued :: "net \<Rightarrow> world \<Rightarrow> unit node_op \<Rightarrow> Block \<Rightarrow> unit node_op" where
  "flush_queued n w cafeFlush block =
     go_bind (go_get (\<lambda>s. SyncGroupComplete (blk_Id block) (ns_cafe_requests s))) (\<lambda>complete.
     go_when complete
       (go_bind (post_queued w block) (\<lambda>posted.
        go_seq (BlockOutbox_Flush n w)
       (go_seq cafeFlush
               (go_when posted (on_cafe_requests DeleteCompleteSyncGroups))))))"

definition FlushBlocks :: "net \<Rightarrow> world \<Rightarrow> unit node_op \<Rightarrow> unit node_op" where
  "FlushBlocks n w cafeFlush =
     go_bind (go_get (\<lambda>s. blocks_List [] (- 1)
        (\<lambda>r. blocks_status r = BlockStatus_to_int Block_QUEUED) (ns_blocks s))) (\<lambda>queued.
     go_foreach (flush_queued n w cafeFlush)
       (sort_key (\<lambda>b. ProtoNanos \<lparr>Seconds = 0, Nanos = 0\<rparr> (blk_Date b)) queued))"

end
