(* ===== verification/Inbound.thy ===== *)
theory Inbound
  imports Queues
begin

text \<open>
  Inbound envelopes, \<^verbatim>\<open>core/threads_service.go\<close>: unpacking the block node of an envelope, handling an
  invite, handling the block in its thread with the notification it raises, and the tail that
  follows the parents of the block and settles the heads (\<^verbatim>\<open>followParents\<close> of \<^verbatim>\<open>core/thread.go\<close>).
  The tail runs in the background in the code and is a separate operation here. Following parents
  recurses over a graph fetched from the network, so it takes fuel.
\<close>

section \<open>Block nodes\<close>

definition validateNode :: "dag_node \<Rightarrow> goerr + unit" where
  "validateNode node =
     (if LinkByName (dag_Links node) [''block''] = None then Inl ErrInvalidNode else Inr ())"

text \<open>A node extracted without its block has no ciphertext yet.\<close>

record extracted =
  ex_hash :: string
  ex_ciphertext :: "bytes option"
  ex_parents :: "string list"
  ex_target :: string
  ex_data :: string

definition link_cid :: "dag_node \<Rightarrow> string \<Rightarrow> string" where
  "link_cid node name =
     (case LinkByName (dag_Links node) [name] of None \<Rightarrow> [] | Some l \<Rightarrow> snd l)"

definition extractNode :: "world \<Rightarrow> dag_node \<Rightarrow> bool \<Rightarrow> extracted node_op" where
  "extractNode w node downloadBlock =
     go_bind (go_lift (validateNode node)) (\<lambda>_.
     go_seq (PinNode w (dag_Cid node) False)
     (case LinkByName (dag_Links node) [''parents''] of
        None \<Rightarrow> go_fail (Panic ''nil parents link'')
      | Some plink \<Rightarrow>
        go_bind (NodeAtLink w plink) (\<lambda>pnode.
        go_seq (PinNode w (dag_Cid pnode) False)
        (let hash = link_cid node ''block''
         in go_bind
              (if downloadBlock
               then go_bind (go_lift (w_dataAt w hash)) (\<lambda>c. go_return (Some c))
               else go_return None) (\<lambda>ciphertext.
            go_return \<lparr>ex_hash = hash, ex_ciphertext = ciphertext,
              ex_parents = map snd (dag_Links pnode),
              ex_target = link_cid node ''target'', ex_data = link_cid node ''data''\<rparr>)))))"

section \<open>Following parents\<close>

definition to_bnode :: "extracted \<Rightarrow> bytes \<Rightarrow> blockNode" where
  "to_bnode x c = \<lparr>bn_hash = ex_hash x, bn_ciphertext = c, bn_parents = ex_parents x,
     bn_target = ex_target x, bn_data = ex_data x\<rparr>"

definition pending_block :: "thread \<Rightarrow> extracted \<Rightarrow> Block" where
  "pending_block t x =
     \<lparr>blk_Id = ex_hash x, blk_Thread = t_Id t, blk_Author = [], blk_Type = Block_MERGE,
      blk_Date = None, blk_Parents = ex_parents x, blk_Target = ex_target x, blk_Data = ex_data x,
      blk_Body = [], blk_Status = Block_PENDING, blk_Attempts = 0\<rparr>"

text \<open>What the node of a parent says: an old block to download now, or the parts of a new one.\<close>

definition parent_node :: "world \<Rightarrow> string \<Rightarrow> (string + extracted) node_op" where
  "parent_node w parent =
     go_bind (go_lift (w_nodeAt w parent)) (\<lambda>node.
     if length (dag_Links node) = 0
     then go_bind (go_get (\<lambda>s. blocks_Get parent (ns_blocks s))) (\<lambda>index.
          if index \<noteq> None then go_return (Inl parent)
          else go_bind (go_lift (w_dataAt w parent)) (\<lambda>c.
               go_return (Inr \<lparr>ex_hash = parent, ex_ciphertext = Some c, ex_parents = [],
                               ex_target = [], ex_data = []\<rparr>)))
     else go_bind (extractNode w node False) (\<lambda>x. go_return (Inr x)))"

text \<open>
  Queue the download, or handle an old block now. The result is the parents to follow, or \<open>None\<close>
  when the block was known.
\<close>

definition visit_parent :: "world \<Rightarrow> thread \<Rightarrow> extracted \<Rightarrow> string list option node_op" where
  "visit_parent w t x =
     (case ex_ciphertext x of
        None \<Rightarrow>
          go_catch (go_seq (BlockDownloads_Add w (pending_block t x)) (go_return (Some (ex_parents x))))
            (\<lambda>err. if ConflictError err then go_return None else go_fail err)
      | Some c \<Rightarrow>
          go_bind (handle w t (to_bnode x c) False) (\<lambda>index. go_return (Some (blk_Parents index))))"

text \<open>\<open>followParents\<close> with the goroutines in the order of the list; a failure of one is logged.\<close>

fun followParents :: "nat \<Rightarrow> world \<Rightarrow> thread \<Rightarrow> string list \<Rightarrow> string list node_op" where
  "followParents 0 w t parents = (if parents = [] then go_return [] else go_fail out_of_fuel)"
| "followParents (Suc fuel) w t [] = go_return []"
| "followParents (Suc fuel) w t (parent # rest) =
     go_bind
       (if parent = [] then go_return []
        else go_catch
          (go_bind (parent_node w parent) (\<lambda>r.
           case r of Inl known \<Rightarrow> go_return [known]
           | Inr x \<Rightarrow>
               go_bind (visit_parent w t x) (\<lambda>ps.
               case ps of None \<Rightarrow> go_return [parent]
               | Some parents \<Rightarrow> followParents fuel w t parents)))
          (\<lambda>_. go_return [])) (\<lambda>ends.
     go_bind (followParents fuel w t rest) (\<lambda>more.
     go_return (foldl add_unique ends more)))"

text \<open>The background tail of an inbound block.\<close>

definition handle_tail :: "nat \<Rightarrow> world \<Rightarrow> thread \<Rightarrow> string list \<Rightarrow> string list \<Rightarrow> unit node_op" where
  "handle_tail fuel w t parents inbound =
     go_bind (followParents fuel w t parents) (\<lambda>leaves.
     go_seq (handleHead w t inbound leaves) (sendWelcome w t))"

section \<open>Envelopes\<close>

record ThreadEnvelope =
  te_Thread :: string
  te_Hash :: string
  te_Ciphertext :: "bytes option"
  te_Sig :: "bytes option"
  te_Node :: bytes
  te_Block :: "bytes option"

text \<open>
  What the handler needs of the service, the account and the rest of the node: adding the node
  object of an envelope, verifying the account signature, decrypting an invite with the peer key,
  and auto-joining (\<open>addThread\<close>) and leaving (\<open>removeThread\<close>) a thread.
\<close>

record service_env =
  sv_addObject :: "bytes \<Rightarrow> goerr + string"
  sv_verify :: "bytes \<Rightarrow> bytes \<Rightarrow> bool"
  sv_decryptPeer :: "bytes \<Rightarrow> goerr + bytes"
  sv_addThread :: "bytes \<Rightarrow> string list \<Rightarrow> unit node_op"
  sv_removeThread :: "string \<Rightarrow> unit node_op"

definition sendNotification :: "world \<Rightarrow> Notification \<Rightarrow> unit node_op" where
  "sendNotification w note =
     go_bind (TimestampNow w) (\<lambda>now.
     go_seq (on_notifications (notifications_Add now note)) (emit (NotificationSent note)))"

definition handleAdd :: "world \<Rightarrow> service_env \<Rightarrow> string \<Rightarrow> blockNode \<Rightarrow> bool \<Rightarrow> unit node_op" where
  "handleAdd w sv threadId bnode accountPeer =
     (case sv_decryptPeer sv (bn_ciphertext bnode) of
        Inl err \<Rightarrow> if is_panic err then go_fail err else go_return ()
      | Inr plaintext \<Rightarrow>
        go_bind (go_lift (w_decodeBlock w plaintext)) (\<lambda>block.
        if tb_Type block \<noteq> Block_ADD then go_fail ErrInvalidThreadBlock
        else go_bind (go_lift (UnmarshalAdd (tb_Payload block))) (\<lambda>msg.
          if accountPeer
          then go_seq (go_require (Panic ''nil header in invite'') (tb_Header block \<noteq> None))
                      (sv_addThread sv plaintext (bn_parents bnode))
          else case (tb_Header block, add_Thread msg) of
              (Some hdr, Some th) \<Rightarrow>
                go_bind (TimestampNow w) (\<lambda>now.
                go_bind
                  (go_catch
                    (go_seq (on_invites (invites_Add now
                       \<lparr>inv_Id = bn_hash bnode, inv_Block = plaintext, inv_Name = thr_Name th,
                        inv_Inviter = add_Inviter msg, inv_Date = hdr_Date hdr,
                        inv_Parents = bn_parents bnode\<rparr>)) (go_return True))
                    (\<lambda>err. if \<not> ConflictError err then go_fail err else go_return False)) (\<lambda>added.
                go_when added
                  (go_bind (new_ksuid w) (\<lambda>nid.
                   sendNotification w
                     \<lparr>ntf_Id = nid, ntf_Date = hdr_Date hdr, ntf_Actor = hdr_Author hdr,
                      ntf_Subject = threadId, ntf_SubjectDesc = thr_Name th,
                      ntf_Block = bn_hash bnode, ntf_Target = [],
                      ntf_Type = Notification_INVITE_RECEIVED,
                      ntf_Body = ''invited you to join'', ntf_Read = False\<rparr>))))
            | _ \<Rightarrow> go_fail (Panic ''nil header or thread in invite''))))"

text \<open>The notification of a handled block: its type and body, or none.\<close>

definition notification_for :: "bool \<Rightarrow> Block \<Rightarrow> (NotificationType \<times> string) option" where
  "notification_for accountPeer index =
     (case blk_Type index of
        Block_JOIN \<Rightarrow>
          Some (if accountPeer then Notification_ACCOUNT_PEER_JOINED else Notification_PEER_JOINED, ''joined'')
      | Block_LEAVE \<Rightarrow>
          Some (if accountPeer then Notification_ACCOUNT_PEER_LEFT else Notification_PEER_LEFT, ''left'')
      | Block_TEXT \<Rightarrow> Some (Notification_MESSAGE_ADDED, blk_Body index)
      | Block_FILES \<Rightarrow>
          Some (Notification_FILES_ADDED, if blk_Body index = [] then ''added data'' else blk_Body index)
      | Block_COMMENT \<Rightarrow> Some (Notification_COMMENT_ADDED, blk_Body index)
      | Block_LIKE \<Rightarrow> Some (Notification_LIKE_ADDED, ''added a like'')
      | _ \<Rightarrow> None)"

definition unpack :: "world \<Rightarrow> service_env \<Rightarrow> ThreadEnvelope \<Rightarrow> (blockNode \<times> string) node_op" where
  "unpack w sv tenv =
     (case te_Ciphertext tenv of
        Some c \<Rightarrow>
          go_return (\<lparr>bn_hash = te_Hash tenv, bn_ciphertext = c, bn_parents = [], bn_target = [],
                      bn_data = []\<rparr>, te_Hash tenv)
      | None \<Rightarrow>
          go_bind (go_lift (sv_addObject sv (te_Node tenv))) (\<lambda>cid.
          go_seq (case te_Block tenv of None \<Rightarrow> go_return ()
                  | Some b \<Rightarrow> go_bind (AddData w b False) (\<lambda>_. go_return ()))
          (go_bind (go_lift (w_nodeAt w cid)) (\<lambda>node.
           go_bind (extractNode w node (te_Block tenv = None)) (\<lambda>x.
           go_return (to_bnode x (case ex_ciphertext x of Some c \<Rightarrow> c
                                  | None \<Rightarrow> (case te_Block tenv of None \<Rightarrow> [] | Some b \<Rightarrow> b)),
                      dag_Cid node))))))"

definition notifyBlock :: "world \<Rightarrow> thread \<Rightarrow> blockNode \<Rightarrow> bool \<Rightarrow> Block \<Rightarrow> unit node_op" where
  "notifyBlock w t bnode accountPeer index =
     go_bind (new_ksuid w) (\<lambda>nid.
     case notification_for accountPeer index of
       None \<Rightarrow> go_return ()
     | Some (ty, body) \<Rightarrow>
         sendNotification w
           \<lparr>ntf_Id = nid, ntf_Date = blk_Date index, ntf_Actor = blk_Author index,
            ntf_Subject = t_Id t, ntf_SubjectDesc = t_Name t, ntf_Block = bn_hash bnode,
            ntf_Target = blk_Target index, ntf_Type = ty, ntf_Body = body, ntf_Read = False\<rparr>)"

text \<open>
  The branch of \<^verbatim>\<open>Handle\<close> for a thread envelope; the switch over the message types and the
  acknowledgement that answers are in \<^verbatim>\<open>ThreadsService\<close>.
  What a handled envelope leads to: nothing more (an invite, a known block, an automatic leave), or
  the tail to run for a thread with the parents and the node of the block.
\<close>

datatype outcome = Done | Tail thread "string list" string

definition Handle :: "world \<Rightarrow> service_env \<Rightarrow> ThreadEnvelope \<Rightarrow> outcome node_op" where
  "Handle w sv tenv =
     go_bind (unpack w sv tenv) (\<lambda>(bnode, nhash).
     let accountPeer = (case te_Sig tenv of None \<Rightarrow> False
                        | Some sig \<Rightarrow> sv_verify sv (bn_ciphertext bnode) sig)
     in go_bind (go_get (loaded_thread (te_Thread tenv))) (\<lambda>thread.
        case thread of
          None \<Rightarrow> go_seq (handleAdd w sv (te_Thread tenv) bnode accountPeer) (go_return Done)
        | Some t \<Rightarrow>
            go_bind (go_get (\<lambda>s. blocks_Get (bn_hash bnode) (ns_blocks s))) (\<lambda>known.
            if known \<noteq> None then go_return Done
            else go_bind (handle w t bnode False) (\<lambda>index.
              go_seq (addHead w t nhash)
             (go_seq (notifyBlock w t bnode accountPeer index)
             (if blk_Type index = Block_LEAVE \<and> accountPeer
              then go_seq (sv_removeThread sv (t_Id t)) (go_return Done)
              else go_return (Tail t (blk_Parents index) nhash)))))))"

end
