(* ===== verification/ThreadsAdmin.thy ===== *)
theory ThreadsAdmin
  imports Inbound
begin

text \<open>
  Threads of an account, \<^verbatim>\<open>core/threads.go\<close>, and its invites, \<^verbatim>\<open>core/invites.go\<close>: adding a thread with
  the retry under a new key, loading it, removing and renaming it, and joining a thread from an
  invite. \<open>thread_env\<close> holds what is outside: the peer id of a thread key, the schema of a hash, the
  schema mill, the multihash check, base58 and the encryption for an invited peer.
\<close>

section \<open>Fresh keys\<close>

definition incrementKey :: "string \<Rightarrow> string" where
  "incrementKey key =
     (case Atoi key of
        Inr _ \<Rightarrow> key @ ''_1''
      | Inl _ \<Rightarrow>
          (let a = Split CHR ''_'' key; x = last a; a' = butlast a
           in case Atoi x of
                Inl _ \<Rightarrow> key @ ''_1''
              | Inr i \<Rightarrow> Join ''_'' (a' @ [Itoa (int64 (i + 1))])))"

section \<open>Adding a thread\<close>

record SchemaConfig =
  sc_Id :: string
  sc_Json :: string
  sc_Preset :: string

record AddThreadConfig =
  cf_Key :: string
  cf_Name :: string
  cf_Schema :: "SchemaConfig option"
  cf_Type :: ThreadType
  cf_Sharing :: Sharing
  cf_Whitelist :: "string list"
  cf_Force :: bool

record thread_env =
  te_threadId :: "bytes \<Rightarrow> goerr + string"
  te_loadSchema :: "string \<Rightarrow> goerr + Node option"
  te_addSchema :: "string \<Rightarrow> string node_op"
  te_multihash :: "string \<Rightarrow> goerr + unit"
  te_preset :: "string \<Rightarrow> string"
  te_dec58 :: base58_dec
  te_encryptFor :: "string \<Rightarrow> goerr + (bytes \<Rightarrow> goerr + bytes)"

text \<open>The whitelist without duplicates; an entry must be an address, not a seed.\<close>

fun whitelist_members :: "base58_dec \<Rightarrow> string list \<Rightarrow> string list \<Rightarrow> string list \<Rightarrow> goerr + string list" where
  "whitelist_members dec58 seen members [] = Inr members"
| "whitelist_members dec58 seen members (m # ms) =
     (if m \<in> set seen then whitelist_members dec58 seen members ms
      else case keypair_Parse dec58 m of
          Inl _ \<Rightarrow> Inl (ErrMsg ''error parsing address'')
        | Inr kp \<Rightarrow>
            if can_Sign kp then Inl (ErrMsg ''entry is an account seed, not address'')
            else whitelist_members dec58 (m # seen) (members @ [m]) ms)"

text \<open>The schema of a thread is read from its hash; one without a schema has none.\<close>

definition NewThread :: "thread_env \<Rightarrow> Thread \<Rightarrow> goerr + thread" where
  "NewThread te model =
     (case (if thr_Schema model = [] then Inr None else te_loadSchema te (thr_Schema model)) of
        Inl err \<Rightarrow> Inl err
      | Inr schema \<Rightarrow> Inr
          \<lparr>t_Id = thr_Id model, t_Key = thr_Key model, t_Name = thr_Name model,
           t_Schema = schema, t_schemaId = thr_Schema model, t_initiator = thr_Initiator model,
           t_ttype = thr_Type model, t_sharing = thr_Sharing model, t_whitelist = thr_Whitelist model\<rparr>)"

definition ErrThreadLoaded :: goerr where
  "ErrThreadLoaded = ErrMsg ''thread is loaded''"

definition loadThread :: "thread_env \<Rightarrow> Thread \<Rightarrow> thread node_op" where
  "loadThread te model =
     go_bind (go_get (loaded_thread (thr_Id model))) (\<lambda>loaded.
     if loaded \<noteq> None then go_fail ErrThreadLoaded
     else go_bind (go_lift (NewThread te model)) (\<lambda>t.
          go_seq (go_modify (\<lambda>s. s\<lparr>ns_loaded := ns_loaded s @ [t]\<rparr>)) (go_return t)))"

text \<open>The schema hash of a configuration, stored on the cafes when there is one.\<close>

definition config_schema :: "world \<Rightarrow> thread_env \<Rightarrow> AddThreadConfig \<Rightarrow> string node_op" where
  "config_schema w te conf =
     (case cf_Schema conf of None \<Rightarrow> go_return []
      | Some sc \<Rightarrow>
          go_bind
            (if sc_Id sc \<noteq> [] then go_seq (go_lift (te_multihash te (sc_Id sc))) (go_return (sc_Id sc))
             else
               (let sjson = (if sc_Json sc \<noteq> [] then sc_Json sc else te_preset te (sc_Preset sc))
                in if sjson \<noteq> [] then te_addSchema te sjson else go_return [])) (\<lambda>sch.
          go_seq (go_when (sch \<noteq> []) (CafeOutbox_Add w sch CafeRequest_STORE [])) (go_return sch)))"

text \<open>A failed insert that asks for another key.\<close>

definition key_conflict :: "goerr \<Rightarrow> bool" where
  "key_conflict e \<longleftrightarrow> e = UniqueFailed ''threads.key''"

definition accountPeers :: "world \<Rightarrow> node_state \<Rightarrow> Peer list" where
  "accountPeers w s =
     peers_List (\<lambda>r. peers_address r = w_accountAddress w \<and> peers_id r \<noteq> w_self w) (ns_peers s)"

text \<open>Updates about the account thread itself are not sent.\<close>

definition sendUpdate :: "world \<Rightarrow> effect \<Rightarrow> string \<Rightarrow> unit node_op" where
  "sendUpdate w e tid = (if tid = w_accountThread w then go_return () else emit e)"

definition thread_model ::
  "AddThreadConfig \<Rightarrow> string \<Rightarrow> bytes \<Rightarrow> string \<Rightarrow> string \<Rightarrow> string list \<Rightarrow> Thread" where
  "thread_model conf tid sk initiator sch members =
     \<lparr>thr_Id = tid, thr_Key = cf_Key conf, thr_Sk = sk, thr_Name = TrimSpace (cf_Name conf),
      thr_Schema = sch, thr_Initiator = initiator, thr_Type = cf_Type conf,
      thr_Sharing = cf_Sharing conf, thr_Whitelist = members, thr_State = Thread_LOADED, thr_Head = []\<rparr>"

text \<open>A thread that is in the table is loaded, joined by its creator, and the account peers are invited.\<close>

definition enter_thread :: "world \<Rightarrow> thread_env \<Rightarrow> Thread \<Rightarrow> bool \<Rightarrow> bool \<Rightarrow> thread node_op" where
  "enter_thread w te model join inviteAccount =
     go_bind (loadThread te model) (\<lambda>thread.
     go_seq (if join then go_bind (thread_join w thread []) (\<lambda>_. go_return ()) else go_return ())
    (go_seq (sendUpdate w (AccountThreadAdded (t_Id thread)) (t_Id thread))
    (go_seq (if inviteAccount
             then go_bind (go_get (accountPeers w)) (\<lambda>peers.
                  go_foreach (\<lambda>p. go_bind (AddInvite w (te_encryptFor te) thread p)
                                    (\<lambda>_. go_return ())) peers)
             else go_return ())
            (go_return thread))))"

text \<open>The key to try next, when the key is taken and another one may be made.\<close>

definition insert_thread :: "AddThreadConfig \<Rightarrow> Thread \<Rightarrow> string option node_op" where
  "insert_thread conf model =
     go_catch (go_seq (on_threads (threads_Add model)) (go_return None))
       (\<lambda>err. if cf_Force conf \<and> key_conflict err
              then go_return (Some (incrementKey (cf_Key conf))) else go_fail err)"

fun AddThread ::
  "nat \<Rightarrow> world \<Rightarrow> thread_env \<Rightarrow> AddThreadConfig \<Rightarrow> bytes \<Rightarrow> string \<Rightarrow> bool \<Rightarrow> bool \<Rightarrow> thread node_op" where
  "AddThread 0 w te conf0 sk initiator join inviteAccount = go_fail out_of_fuel"
| "AddThread (Suc fuel) w te conf0 sk initiator join inviteAccount =
     (let conf = conf0\<lparr>cf_Key := TrimSpace (cf_Key conf0)\<rparr>
      in if cf_Key conf = [] then go_fail (ErrMsg ''thread key cannot by empty'')
      else go_bind (go_lift (te_threadId te sk)) (\<lambda>tid.
       go_bind (config_schema w te conf) (\<lambda>sch.
       go_bind (go_lift (whitelist_members (te_dec58 te) [] [] (cf_Whitelist conf))) (\<lambda>members.
       let model = thread_model conf tid sk initiator sch members
       in go_bind (insert_thread conf model) (\<lambda>retry.
          case retry of
            Some k \<Rightarrow> AddThread fuel w te (conf\<lparr>cf_Key := k\<rparr>) sk initiator join inviteAccount
          | None \<Rightarrow> enter_thread w te model join inviteAccount)))))"

section \<open>Removing and renaming\<close>

definition RemoveThread :: "world \<Rightarrow> string \<Rightarrow> string option node_op" where
  "RemoveThread w tid =
     go_bind (go_get (loaded_thread tid)) (\<lambda>thread.
     case thread of None \<Rightarrow> go_fail ErrThreadNotFound
     | Some t \<Rightarrow>
         go_bind (go_catch (go_bind (leave w t) (\<lambda>h. go_return (Some h))) (\<lambda>_. go_return None)) (\<lambda>addr.
         go_seq (CafeOutbox_Add w (t_Id t) CafeRequest_UNSTORE_THREAD [])
        (go_seq (on_threads (threads_Delete (t_Id t)))
        (go_seq (go_modify (\<lambda>s. s\<lparr>ns_loaded := remove1 t (ns_loaded s)\<rparr>))
        (go_seq (sendUpdate w (AccountThreadRemoved (t_Id t)) (t_Id t))
                (go_return addr))))))"

definition RenameThread :: "world \<Rightarrow> string \<Rightarrow> string \<Rightarrow> unit node_op" where
  "RenameThread w tid name =
     go_bind (go_get (loaded_thread tid)) (\<lambda>thread.
     case thread of None \<Rightarrow> go_fail ErrThreadNotFound
     | Some t \<Rightarrow>
         if t_initiator t \<noteq> w_accountAddress w then go_fail (ErrMsg ''thread name is not writable'')
         else (let trimmed = TrimSpace name
               in if trimmed = [] then go_return ()
                  else go_seq (go_modify (\<lambda>s. s\<lparr>ns_loaded :=
                         map (\<lambda>th. if t_Id th = t_Id t then th\<lparr>t_Name := trimmed\<rparr> else th) (ns_loaded s)\<rparr>))
                      (go_seq (on_threads (threads_UpdateName (t_Id t) trimmed))
                      (go_bind (annouce w (t\<lparr>t_Name := trimmed\<rparr>) (Some \<lparr>ann_Peer = None, ann_Name = trimmed\<rparr>))
                         (\<lambda>_. go_return ())))))"

section \<open>Invites\<close>

definition IgnoreInvite :: "string \<Rightarrow> unit node_op" where
  "IgnoreInvite iid =
     go_seq (on_invites (invites_Delete iid)) (on_notifications (notifications_DeleteByBlock iid))"

definition isAccountPeer :: "world \<Rightarrow> string \<Rightarrow> node_state \<Rightarrow> bool" where
  "isAccountPeer w pid s \<longleftrightarrow>
     0 < length (peers_List (\<lambda>r. peers_address r = w_accountAddress w \<and> peers_id r = pid) (ns_peers s))"

definition dummy_thread :: "Thread \<Rightarrow> thread" where
  "dummy_thread m = \<lparr>t_Id = [], t_Key = [], t_Name = [], t_Schema = None, t_schemaId = [],
     t_initiator = thr_Initiator m, t_ttype = thr_Type m, t_sharing = thr_Sharing m,
     t_whitelist = thr_Whitelist m\<rparr>"

text \<open>
  The result is the join block with the thread and the parents to follow in the background, or
  \<open>None\<close> when the thread is already loaded.
\<close>

definition handleThreadAdd ::
  "nat \<Rightarrow> world \<Rightarrow> thread_env \<Rightarrow> bytes \<Rightarrow> string list \<Rightarrow> (string \<times> thread \<times> string list) option node_op" where
  "handleThreadAdd fuel w te plaintext parents0 =
     go_bind (go_lift (w_decodeBlock w plaintext)) (\<lambda>block.
     if tb_Type block \<noteq> Block_ADD then go_fail ErrInvalidThreadBlock
     else go_bind (go_lift (UnmarshalAdd (tb_Payload block))) (\<lambda>msg.
       case (add_Thread msg, add_Inviter msg) of
         (Some th, Some inviter) \<Rightarrow>
           if \<not> shareable (dummy_thread th) (peer_Address inviter) (w_configAddress w)
           then go_fail ErrNotShareable
           else go_bind (go_lift (te_threadId te (thr_Sk th))) (\<lambda>tid.
             go_bind (go_get (loaded_thread tid)) (\<lambda>loaded.
             if loaded \<noteq> None then go_return None
             else
               (let config = \<lparr>cf_Key = thr_Key th, cf_Name = thr_Name th,
                      cf_Schema = Some \<lparr>sc_Id = thr_Schema th, sc_Json = [], sc_Preset = []\<rparr>,
                      cf_Type = thr_Type th, cf_Sharing = thr_Sharing th,
                      cf_Whitelist = thr_Whitelist th, cf_Force = True\<rparr>
                in go_bind (go_get (isAccountPeer w (peer_Id inviter))) (\<lambda>ap.
                   go_bind (AddThread fuel w te config (thr_Sk th) (thr_Initiator th) False (\<not> ap)) (\<lambda>t.
                   go_seq (addOrUpdatePeer w t inviter True)
                   (case tb_Header block of None \<Rightarrow> go_fail (Panic ''nil block header'')
                    | Some hdr \<Rightarrow>
                      (let parents = (if 0 < length (hdr_Parents hdr) then hdr_Parents hdr else parents0)
                       in go_seq (updateHead w t parents False)
                          (go_bind (thread_join w t (hdr_Author hdr)) (\<lambda>hash.
                           go_return (Some (hash, t, parents)))))))))))
       | _ \<Rightarrow> go_fail ErrInvalidThreadBlock))"

definition AcceptInvite ::
  "nat \<Rightarrow> world \<Rightarrow> thread_env \<Rightarrow> string \<Rightarrow> (string \<times> thread \<times> string list) option node_op" where
  "AcceptInvite fuel w te iid =
     go_bind (go_get (\<lambda>s. invites_Get iid (ns_invites s))) (\<lambda>invite.
     case invite of None \<Rightarrow> go_fail (ErrMsg ''thread invite not found'')
     | Some i \<Rightarrow>
         go_bind (handleThreadAdd fuel w te (inv_Block i) (inv_Parents i)) (\<lambda>r.
         go_seq (IgnoreInvite iid) (go_return r)))"

definition Textile_AddInvite :: "world \<Rightarrow> thread_env \<Rightarrow> string \<Rightarrow> string \<Rightarrow> unit node_op" where
  "Textile_AddInvite w te tid address =
     go_bind (go_get (loaded_thread tid)) (\<lambda>thread.
     case thread of None \<Rightarrow> go_fail ErrThreadNotFound
     | Some t \<Rightarrow>
         go_bind (go_get (\<lambda>s. peers_List (\<lambda>r. peers_address r = address) (ns_peers s))) (\<lambda>peers.
         if length peers = 0 then go_fail (ErrMsg ''contact not found'')
         else go_foreach (\<lambda>p. go_bind (AddInvite w (te_encryptFor te) t p) (\<lambda>_. go_return ())) peers))"

end
