(* ===== verification/Sample.thy ===== *)
theory Sample
  imports ThreadsAdmin
begin

text \<open>
  A small concrete world, thread and state at which the properties of the node are evaluated: an IPFS
  node where every hash resolves to one block node, an identity cipher, a codec that reads one
  given block, a clock that ticks once a second and ids that count the draws.
\<close>

definition sample_node :: "string \<Rightarrow> dag_node" where
  "sample_node h = \<lparr>dag_Cid = h, dag_Links = [(''block'', ''b1''), (''parents'', ''p1'')]\<rparr>"

definition sample_clock :: "nat \<Rightarrow> timestamp" where
  "sample_clock n = \<lparr>Seconds = int n + 1, Nanos = 0\<rparr>"

definition sample_ksuid :: "nat \<Rightarrow> string" where
  "sample_ksuid n = replicate n CHR ''k''"

definition sample_env :: "string \<Rightarrow> bytes \<Rightarrow> Envelope" where
  "sample_env tid c = \<lparr>env_Type = 0, env_Payload = c, env_Request = 0, env_Response = False, env_Sig = []\<rparr>"

definition sample_world :: "ThreadBlock \<Rightarrow> world" where
  "sample_world block =
     \<lparr>w_self = ''P0'', w_accountAddress = ''A'', w_configAddress = ''A'', w_accountThread = ''acc'',
      w_clock = sample_clock, w_ksuid = sample_ksuid,
      w_encrypt = (\<lambda>_ b. Inr b), w_decrypt = (\<lambda>_ b. Inr b),
      w_encodeBlock = (\<lambda>_. Inr []), w_decodeBlock = (\<lambda>_. Inr block),
      w_addData = (\<lambda>_. Inr ''h1''), w_dataAt = (\<lambda>_. Inr []),
      w_nodeAt = (\<lambda>h. Inr (sample_node h)), w_directory = (\<lambda>_. Inr ''n1''),
      w_statSize = (\<lambda>_. Inr 1), w_pin = (\<lambda>_. Inr ()), w_unpin = (\<lambda>_. Inr ()),
      w_parseCid = Inr, w_base58 = (\<lambda>_. Inr []), w_decryptAES = (\<lambda>c _. Inr c),
      w_decodeFile = (\<lambda>_. Inl (ErrMsg ''no file'')), w_validJson = (\<lambda>_ _. Inr ()),
      w_sign = Inr, w_newEnvelope = (\<lambda>tid _ c _. Inr (sample_env tid c)), w_objectAt = (\<lambda>_. Inr [])\<rparr>"

definition sample_thread :: thread where
  "sample_thread =
     \<lparr>t_Id = ''T'', t_Key = ''key'', t_Name = ''name'', t_Schema = None, t_schemaId = [],
      t_initiator = ''I'', t_ttype = Thread_PUBLIC, t_sharing = Thread_SHARED, t_whitelist = []\<rparr>"

definition sample_row :: threads_row where
  "sample_row = threads_enc
     \<lparr>thr_Id = ''T'', thr_Key = ''key'', thr_Sk = [], thr_Name = ''name'', thr_Schema = [],
      thr_Initiator = ''I'', thr_Type = Thread_PUBLIC, thr_Sharing = Thread_SHARED,
      thr_Whitelist = [], thr_State = Thread_LOADED, thr_Head = ''x,y''\<rparr>"

definition sample_state :: node_state where
  "sample_state =
     \<lparr>ns_threads = [sample_row], ns_thread_peers = [], ns_blocks = [], ns_block_messages = [],
      ns_invites = [], ns_notifications = [], ns_peers = [], ns_files = [], ns_cafe_sessions = [],
      ns_cafe_requests = [], ns_cafe_messages = [], ns_cafe_clients = [], ns_cafe_client_nonces = [],
      ns_cafe_client_threads = [], ns_cafe_client_messages = [], ns_cafe_tokens = [], ns_config = [],
      ns_inFlight = [], ns_loaded = [sample_thread], ns_effects = [],
      ns_tick = 0\<rparr>"

text \<open>A block of a type with a payload, from the address \<open>a\<close>.\<close>

definition sample_header :: "string \<Rightarrow> ThreadBlockHeader" where
  "sample_header a = \<lparr>hdr_Date = Some \<lparr>Seconds = 7, Nanos = 0\<rparr>, hdr_Parents = [], hdr_Author = ''P2'', hdr_Address = a\<rparr>"

definition sample_block :: "BlockType \<Rightarrow> payload option \<Rightarrow> string \<Rightarrow> ThreadBlock" where
  "sample_block ty p a = \<lparr>tb_Header = Some (sample_header a), tb_Type = ty, tb_Payload = p\<rparr>"

definition sample_bnode :: blockNode where
  "sample_bnode = \<lparr>bn_hash = ''b1'', bn_ciphertext = [], bn_parents = [], bn_target = [], bn_data = []\<rparr>"

named_theorems sample_defs "the sample world and state"

lemmas [sample_defs] =
  sample_node_def sample_clock_def sample_ksuid_def sample_env_def sample_world_def sample_thread_def
  sample_row_def sample_state_def sample_header_def sample_block_def sample_bnode_def

text \<open>What it takes to run an operation at a concrete state.\<close>

lemmas run_defs =
  go_defs Let_def on_blocks_run on_threads_run on_thread_peers_run on_notifications_run sql_defs
  on_block_messages_def on_invites_def on_peers_def on_files_def on_cafe_requests_def
  emit_def draw_def TimestampNow_def new_ksuid_def PinNode_def UnpinNode_def AddData_def
  unmarshalBlock_def optional_payload_def no_result_def handled_index_def
  readable_def annotatable_def writable_def member_def
  addBlock_def CafeOutbox_Add_def CafeRequestOptions_def cafe_sessions_List_def
  opt_Group_def opt_SyncGroup_def indexBlock_def pushUpdate_def blocks_Add_def blocks_Replace_def outBlock_def
  Heads_def store_def updateHead_def addHead_def handleHead_def threads_UpdateHead_def threads_Get_def

lemma sample_heads: "heads_of (t_Id sample_thread) sample_state = Some [''x'', ''y'']"
  by (simp add: heads_of_def sample_defs threads_Get_def sql_defs threads_enc_def threads_dec_def
      SplitString_def TrimSpace_def is_space_def)

text \<open>An announce block that renames the thread, not from its initiator.\<close>

definition sample_rename :: ThreadBlock where
  "sample_rename = sample_block Block_ANNOUNCE (Some (AnyAnnounce \<lparr>ann_Peer = None, ann_Name = ''new''\<rparr>)) ''Z''"

text \<open>A service that accepts no signature, and an envelope of the old kind.\<close>

definition sample_service :: service_env where
  "sample_service = \<lparr>sv_addObject = (\<lambda>_. Inr ''n1''), sv_verify = (\<lambda>_ _. False),
     sv_decryptPeer = Inr, sv_addThread = (\<lambda>_ _. go_return ()), sv_removeThread = (\<lambda>_. go_return ())\<rparr>"

definition sample_envelope :: ThreadEnvelope where
  "sample_envelope = \<lparr>te_Thread = ''T'', te_Hash = ''n1'', te_Ciphertext = Some [], te_Sig = None,
     te_Node = [], te_Block = None\<rparr>"

text \<open>A queued invite for the peer \<open>Q\<close>.\<close>

definition sample_invite :: Block where
  "sample_invite = (outBlock sample_thread
     \<lparr>cr_hash = ''h1'', cr_ciphertext = [], cr_header = sample_header ''Z''\<rparr> Block_ADD [] [] ''Q'')"

text \<open>An environment in which every key is that of the thread \<open>U\<close> and no schema can be read or stored.\<close>

definition sample_threads :: thread_env where
  "sample_threads = \<lparr>te_threadId = (\<lambda>_. Inr ''U''), te_loadSchema = (\<lambda>_. Inl (ErrMsg ''no schema'')),
     te_addSchema = (\<lambda>_. go_fail (ErrMsg ''no mill'')), te_multihash = (\<lambda>_. Inr ()), te_preset = (\<lambda>_. []),
     te_dec58 = plain_dec, te_encryptFor = (\<lambda>_. Inl (ErrMsg ''no key''))\<rparr>"

end
