(* ===== verification/ThreadProps.thy ===== *)
theory ThreadProps
  imports Sample
begin

text \<open>
  The properties of threads: who may do what, what a node does with a block it is not allowed to
  take, what is stored for a block it takes, and how the heads move.
\<close>

section \<open>Access\<close>

text \<open>The three access checks of a thread grant exactly the rights that the comments of the
  protobuf enumeration document for the thread type, the initiator and the whitelist, to every
  address but the empty one; the empty address, which old blocks carry, passes every check.\<close>

lemma granted_is_documented:
  "granted r t addr \<longleftrightarrow> addr = [] \<or> documented r t addr"
  by (rule granted_iff)

section \<open>Inbound blocks\<close>

text \<open>Two states with the same tables, configuration, threads in memory and requests in flight:
  what may differ are the log of effects and the counter of the clock.\<close>

definition same_tables :: "node_state \<Rightarrow> node_state \<Rightarrow> bool" where
  "same_tables s s' \<longleftrightarrow> s'\<lparr>ns_effects := ns_effects s, ns_tick := ns_tick s\<rparr> = s"

text \<open>What queueing requests of one type for one target does: rows at the end of the request table.\<close>

definition queued :: "string \<Rightarrow> RequestType \<Rightarrow> node_state \<Rightarrow> node_state \<Rightarrow> bool" where
  "queued target ty s s' \<longleftrightarrow> (\<exists>new n.
     s' = s\<lparr>ns_cafe_requests := ns_cafe_requests s @ new, ns_tick := n\<rparr>
     \<and> (\<forall>r\<in>set new. cafe_requests_targetId r = target \<and> cafe_requests_type r = RequestType_to_int ty))"

lemma queued_trans:
  assumes "queued target ty s t" "queued target ty t u"
  shows "queued target ty s u"
proof -
  obtain a m where t: "t = s\<lparr>ns_cafe_requests := ns_cafe_requests s @ a, ns_tick := m\<rparr>"
    and a: "\<forall>r\<in>set a. cafe_requests_targetId r = target \<and> cafe_requests_type r = RequestType_to_int ty"
    using assms(1) unfolding queued_def by blast
  obtain b n where u: "u = t\<lparr>ns_cafe_requests := ns_cafe_requests t @ b, ns_tick := n\<rparr>"
    and b: "\<forall>r\<in>set b. cafe_requests_targetId r = target \<and> cafe_requests_type r = RequestType_to_int ty"
    using assms(2) unfolding queued_def by blast
  show ?thesis unfolding queued_def by (rule exI [of _ "a @ b"], rule exI [of _ n]) (use a b in \<open>auto simp: t u\<close>)
qed

lemma queued_refl: "queued target ty s s"
  unfolding queued_def by (rule exI [of _ "[]"], rule exI [of _ "ns_tick s"]) simp

interpretation queued: step_relation "queued target ty" for target ty
  by unfold_locales (rule queued_refl, rule queued_trans)

lemma queued_draw: "queued.keeps target ty (draw f)"
  unfolding queued.keeps_def queued_def draw_def
  by (intro allI, rule exI [of _ "[]"]) auto

lemma queued_CafeOutbox_Add: "queued.keeps target ty (CafeOutbox_Add w target ty opts)"
proof -
  have row: "queued.keeps target ty (on_cafe_requests (cafe_requests_Add now req))"
    if "req_Target req = target" "req_Type req = ty" for now req
  proof (rule queued.keepsI)
    fix s :: node_state
    let ?row = "cafe_requests_enc now req" and ?t = "ns_cafe_requests s"
    consider (old) "snd (cafe_requests_Add now req ?t) = ?t @ []"
      | (new) "snd (cafe_requests_Add now req ?t) = ?t @ [?row]"
      by (cases "\<exists>r\<in>set ?t. cafe_requests_id r = cafe_requests_id ?row")
        (simp_all add: cafe_requests_Add_def sql_insert_def)
    then show "queued target ty s (snd (on_cafe_requests (cafe_requests_Add now req) s))"
    proof cases
      case old
      then show ?thesis using queued_refl by (simp add: on_cafe_requests_def go_on_def split_beta)
    next
      case new
      show ?thesis
        unfolding queued_def using that
        by (intro exI [of _ "[?row]"] exI [of _ "ns_tick s"])
          (simp add: on_cafe_requests_def go_on_def split_beta new, simp add: cafe_requests_enc_def)
    qed
  qed
  have size: "queued.keeps target ty (case ty of
          CafeRequest_INBOX \<Rightarrow> go_fail e
        | CafeRequest_STORE \<Rightarrow>
            if set_Size s0 = 0
            then go_bind (go_lift (w_statSize w target)) (\<lambda>n. go_return (s0\<lparr>set_Size := n\<rparr>))
            else go_return s0
        | CafeRequest_UNSTORE \<Rightarrow>
            if set_Size s0 = 0
            then go_bind (go_lift (w_statSize w target)) (\<lambda>n. go_return (s0\<lparr>set_Size := n\<rparr>))
            else go_return s0
        | _ \<Rightarrow> go_return s0)" for s0 :: CafeRequestSettings and e
    by (cases ty) (auto intro!: queued.keeps_intros)
  show ?thesis
    unfolding CafeOutbox_Add_def CafeRequestOptions_def add_session_def CafeOutbox_add_def
      new_ksuid_def TimestampNow_def
    by (intro queued.keeps_intros queued_draw size row) simp_all
qed

text \<open>Storing the block of an envelope, before any check: its data goes to IPFS, and a store request
  for its hash to the queue.\<close>

definition block_added :: "world \<Rightarrow> bytes \<Rightarrow> node_state \<Rightarrow> node_state \<Rightarrow> bool" where
  "block_added w c s s' \<longleftrightarrow> same_tables s (s'\<lparr>ns_cafe_requests := ns_cafe_requests s\<rparr>)
     \<and> (ns_effects s' = ns_effects s \<or> ns_effects s' = ns_effects s @ [IpfsAdd c])
     \<and> (\<exists>new. ns_cafe_requests s' = ns_cafe_requests s @ new
          \<and> (\<forall>r\<in>set new. w_addData w c = Inr (cafe_requests_targetId r)
               \<and> cafe_requests_type r = RequestType_to_int CafeRequest_STORE))"

lemma addBlock_adds:
  assumes "addBlock w c False s = (r, s')"
  shows "block_added w c s s'"
proof (cases "w_addData w c")
  case (Inl e)
  then show ?thesis
    using assms by (simp add: addBlock_def AddData_def go_bind_def go_lift_def block_added_def same_tables_def)
next
  case (Inr hash)
  let ?s = "s\<lparr>ns_effects := ns_effects s @ [IpfsAdd c]\<rparr>"
  obtain q s2 where q: "CafeOutbox_Add w hash CafeRequest_STORE [opt_SyncGroup hash] ?s = (q, s2)" by fastforce
  have "AddData w c False s = (Inr hash, ?s)"
    by (simp add: AddData_def go_bind_def go_seq_def go_lift_def go_when_def emit_def go_modify_def Inr go_return_def)
  then have "s' = s2"
    using assms q by (auto simp: addBlock_def go_bind_def go_seq_def go_when_def go_return_def split: sum.splits)
  then obtain new n where "s' = ?s\<lparr>ns_cafe_requests := ns_cafe_requests s @ new, ns_tick := n\<rparr>"
    "\<forall>r\<in>set new. cafe_requests_targetId r = hash \<and> cafe_requests_type r = RequestType_to_int CafeRequest_STORE"
    using queued.keeps_run [OF queued_CafeOutbox_Add q] unfolding queued_def by fastforce
  then show ?thesis by (simp add: block_added_def same_tables_def Inr)
qed

lemma handle_denied_adds:
  assumes "unmarshalBlock w t (bn_ciphertext bnode) = Inr block" "tb_Header block = Some hdr"
    and "\<not> permitted w t block hdr"
  shows "isl (fst (handle w t bnode replace s))
    \<and> block_added w (bn_ciphertext bnode) s (snd (handle w t bnode replace s))"
proof -
  obtain r s1 where a: "addBlock w (bn_ciphertext bnode) False s = (r, s1)" by fastforce
  obtain e where d: "dispatch w t bnode block hdr s1 = (Inl e, s1)"
    using dispatch_denied [OF assms(3), of bnode] by (auto simp: denied_def)
  show ?thesis
    using assms(1,2) a d addBlock_adds [OF a]
    by (cases r) (simp_all add: handle_def go_seq_def go_bind_def go_lift_def)
qed

text \<open>C1. A block whose author's address does not have the right its type needs, or that reaches a
  node that cannot read the thread, is refused. What refusing it changes is what \<^verbatim>\<open>addBlock\<close> did
  before the check: the data of the block is in IPFS, and the request table may have new rows at
  its end, all of them store requests for the hash of that data. Every other table, the
  configuration, the threads in memory and the requests in flight are as before.\<close>

theorem handle_refuses_unpermitted:
  assumes "unmarshalBlock w t (bn_ciphertext bnode) = Inr block" "tb_Header block = Some hdr"
    and "\<not> permitted w t block hdr" "handle w t bnode replace s = (r, s')"
  shows "isl r \<and> same_tables s (s'\<lparr>ns_cafe_requests := ns_cafe_requests s\<rparr>)
    \<and> (ns_effects s' = ns_effects s \<or> ns_effects s' = ns_effects s @ [IpfsAdd (bn_ciphertext bnode)])
    \<and> (\<exists>new. ns_cafe_requests s' = ns_cafe_requests s @ new
         \<and> (\<forall>row\<in>set new. w_addData w (bn_ciphertext bnode) = Inr (cafe_requests_targetId row)
              \<and> cafe_requests_type row = RequestType_to_int CafeRequest_STORE))"
  using handle_denied_adds [OF assms(1-3), of replace s] assms(4)
  by (simp add: block_added_def)

definition sample_text :: ThreadBlock where
  "sample_text = sample_block Block_TEXT (Some (AnyMessage ''hi'')) ''Z''"

theorem handle_refuses_unpermitted_witness:
  "isl (fst (handle (sample_world sample_text) sample_thread sample_bnode False sample_state))
   \<and> ns_blocks (snd (handle (sample_world sample_text) sample_thread sample_bnode False sample_state)) = []"
proof -
  obtain r s' where run: "handle (sample_world sample_text) sample_thread sample_bnode False sample_state = (r, s')"
    by fastforce
  have "isl r \<and> same_tables sample_state (s'\<lparr>ns_cafe_requests := ns_cafe_requests sample_state\<rparr>)"
    using handle_refuses_unpermitted [OF _ _ _ run, of sample_text "sample_header ''Z''"]
    by (simp add: sample_defs sample_text_def unmarshalBlock_def permitted_def readable_def
        writable_def member_def)
  then have "isl r" "ns_blocks s' = ns_blocks sample_state"
    by (auto simp: same_tables_def dest: arg_cong [where f = ns_blocks])
  moreover have "ns_blocks sample_state = []" by (simp add: sample_state_def)
  ultimately show ?thesis by (simp add: run)
qed

subsection \<open>The stored block\<close>

lemma blocks_Get_lookup: "blocks_Get bid t = blocks_store.lookup bid t"
  by (simp add: blocks_Get_def blocks_store.lookup_def)

lemma find_append_new: "find P (filter (\<lambda>r. \<not> P r) t @ [r]) = (if P r then Some r else None)"
  by (induction t) auto

lemma blocks_Add_row:
  assumes "blocks_Add now b t = (Inr u, t')"
  shows "blocks_Get (blk_Id b) t' = Some (blocks_dec (blocks_enc now b))"
proof -
  have "\<forall>r\<in>set t. blocks_id r \<noteq> blk_Id b" "t' = t @ [blocks_enc now b]"
    using assms by (auto simp: blocks_Add_def sql_insert_def blocks_enc_def split: if_splits)
  then have "find (\<lambda>r. blocks_id r = blk_Id b) t' = Some (blocks_enc now b)"
    by (induction t arbitrary: t') (auto simp: blocks_enc_def)
  then show ?thesis by (simp add: blocks_Get_def first_row_select)
qed

lemma blocks_Replace_row:
  assumes "blocks_Replace now b t = (Inr u, t')"
  shows "\<exists>n. blocks_Get (blk_Id b) t' = Some (blocks_dec ((blocks_enc now b)\<lparr>blocks_attempts := n\<rparr>))"
  using assms
  by (auto simp: blocks_Replace_def sql_replace_def go_modify_def blocks_Get_def first_row_select
      find_append_new blocks_enc_def)

lemma indexBlock_row:
  assumes "indexBlock w t b replace s = (Inr u, s')"
  shows "\<exists>now n. blocks_Get (blk_Id b) (ns_blocks s')
    = Some (blocks_dec ((blocks_enc now b)\<lparr>blocks_attempts := n\<rparr>))"
proof -
  define now where "now = w_clock w (ns_tick s)"
  define m where "m = (if replace then blocks_Replace now b else blocks_Add now b)"
  have "fst (m (ns_blocks s)) = Inr () \<and> ns_blocks s' = snd (m (ns_blocks s))"
    using assms
    by (cases replace)
      (auto simp: indexBlock_def pushUpdate_def emit_def TimestampNow_def draw_def go_defs on_blocks_run
        now_def [symmetric] m_def split: prod.splits sum.splits if_splits)
  then obtain v where m: "m (ns_blocks s) = (Inr v, snd (m (ns_blocks s)))"
    and s': "ns_blocks s' = snd (m (ns_blocks s))"
    by (metis prod.collapse)
  show ?thesis
  proof (cases replace)
    case True
    then show ?thesis using blocks_Replace_row [of now b "ns_blocks s"] m s' by (metis m_def)
  next
    case False
    have "(blocks_enc now b)\<lparr>blocks_attempts := blk_Attempts b\<rparr> = blocks_enc now b"
      by (simp add: blocks_enc_def)
    then show ?thesis using False blocks_Add_row [of now b "ns_blocks s"] m s' by (metis m_def)
  qed
qed

lemma handled_block_stored:
  assumes "handle w t bnode replace s = (Inr index, s')"
  shows "blocks_Get (bn_hash bnode) (ns_blocks s') \<noteq> None"
proof -
  obtain block hdr res s2 where i: "index = handled_index t bnode block hdr res"
    "indexBlock w t index replace s2 = (Inr (), s')"
    using handle_success [OF assms] by blast
  show ?thesis using indexBlock_row [OF i(2)] by (auto simp: i(1) handled_index_def)
qed

text \<open>C2. A block that is handled was permitted to its author, and afterwards the block table holds it
  under its hash as a block of this thread, ready, with the type of the block and the author and
  the normal date of its header.\<close>

theorem handle_stores_permitted:
  assumes "handle w t bnode replace s = (Inr index, s')"
  shows "\<exists>block hdr b. unmarshalBlock w t (bn_ciphertext bnode) = Inr block \<and> tb_Header block = Some hdr
    \<and> permitted w t block hdr \<and> blocks_Get (bn_hash bnode) (ns_blocks s') = Some b
    \<and> blk_Thread b = t_Id t \<and> blk_Author b = hdr_Author hdr \<and> blk_Type b = tb_Type block
    \<and> blk_Status b = Block_READY \<and> (ts_good (hdr_Date hdr) \<longrightarrow> blk_Date b = hdr_Date hdr)"
proof -
  obtain block hdr res s1 s2 where h: "unmarshalBlock w t (bn_ciphertext bnode) = Inr block"
    "tb_Header block = Some hdr" "permitted w t block hdr"
    and i: "index = handled_index t bnode block hdr res" "indexBlock w t index replace s2 = (Inr (), s')"
    using handle_success [OF assms] by blast
  have ty: "BlockType_canon (tb_Type block)"
    using h(3) by (cases "tb_Type block") (auto simp: permitted_def BlockType_canon_def)
  obtain now n where "blocks_Get (blk_Id index) (ns_blocks s')
      = Some (blocks_dec ((blocks_enc now index)\<lparr>blocks_attempts := n\<rparr>))"
    using indexBlock_row [OF i(2)] by blast
  then show ?thesis
    using h ty by (auto simp: i(1) handled_index_def blocks_dec_def blocks_enc_def BlockStatus_of_int_def)
qed

theorem handle_stores_permitted_witness:
  "\<exists>b. blocks_Get ''b1'' (ns_blocks (snd (handle
      (sample_world (sample_block Block_LIKE None ''Z'')) sample_thread sample_bnode False sample_state)))
    = Some b \<and> blk_Type b = Block_LIKE"
proof -
  let ?w = "sample_world (sample_block Block_LIKE None ''Z'')"
  have run: "\<exists>index s'. handle ?w sample_thread sample_bnode False sample_state = (Inr index, s')"
    by (simp add: sample_defs run_defs handle_def dispatch_def handleLikeBlock_def)
  then obtain index s' where r: "handle ?w sample_thread sample_bnode False sample_state = (Inr index, s')"
    by blast
  obtain block b where b: "unmarshalBlock ?w sample_thread (bn_ciphertext sample_bnode) = Inr block"
    "blocks_Get (bn_hash sample_bnode) (ns_blocks s') = Some b" "blk_Type b = tb_Type block"
    using handle_stores_permitted [OF r] by blast
  have "block = sample_block Block_LIKE None ''Z''"
    using b(1) by (simp add: unmarshalBlock_def sample_world_def)
  with b(2,3) have "blocks_Get ''b1'' (ns_blocks s') = Some b \<and> blk_Type b = Block_LIKE"
    by (simp add: sample_block_def sample_bnode_def)
  then show ?thesis by (simp add: r)
qed

text \<open>A refused index write leaves the block table as it was.\<close>

lemma indexBlock_error:
  assumes "indexBlock w t b replace s = (Inl e, s')"
  shows "ns_blocks s' = ns_blocks s"
  using assms
  by (cases replace)
    (auto simp: indexBlock_def pushUpdate_def emit_def TimestampNow_def draw_def go_defs on_blocks_run
      blocks_Replace_def sql_replace_def blocks_Add_def sql_insert_def
      split: prod.splits sum.splits if_splits)

lemma dispatch_keeps_blocks:
  assumes "tb_Type block \<noteq> Block_JOIN" "tb_Type block \<noteq> Block_ANNOUNCE"
  shows "keeps_part ns_blocks (dispatch w t bnode block hdr)"
  using assms
  by (cases "tb_Type block") (simp_all add: dispatch_def keeps_blocks_handlers same.keeps_fail)

text \<open>When handling a block other than a join or an announce ends in an error, whatever its handler
  did before, the block table is the one it was before: no half handled block is indexed.\<close>

lemma handle_error_indexes_nothing:
  assumes "handle w t bnode replace s = (Inl e, s')"
    and "\<forall>block. unmarshalBlock w t (bn_ciphertext bnode) = Inr block
           \<longrightarrow> tb_Type block \<notin> {Block_JOIN, Block_ANNOUNCE}"
  shows "ns_blocks s' = ns_blocks s"
proof (cases "unmarshalBlock w t (bn_ciphertext bnode)")
  case (Inl err)
  then show ?thesis using assms(1) by (simp add: handle_def go_bind_def go_lift_def)
next
  case (Inr block)
  obtain r s1 where a: "addBlock w (bn_ciphertext bnode) False s = (r, s1)" by fastforce
  have b1: "ns_blocks s1 = ns_blocks s"
    using same.keeps_run [OF keeps_addBlock a, of ns_blocks] by (simp add: same_def)
  consider (add) err where "r = Inl err" | (hdr) "\<exists>x. r = Inr x" "tb_Header block = None"
    | (run) x hdr where "r = Inr x" "tb_Header block = Some hdr"
    by (cases r; cases "tb_Header block") auto
  then show ?thesis
  proof cases
    case run
    obtain q s2 where d: "dispatch w t bnode block hdr s1 = (q, s2)" by fastforce
    have "keeps_part ns_blocks (dispatch w t bnode block hdr)"
      using assms(2) Inr by (intro dispatch_keeps_blocks) auto
    from same.keeps_run [OF this d] have b2: "ns_blocks s2 = ns_blocks s" using b1 by (simp add: same_def)
    show ?thesis
    proof (cases q)
      case (Inr res)
      obtain v s3 where i: "indexBlock w t (handled_index t bnode block hdr res) replace s2 = (v, s3)"
        by fastforce
      have v: "v = Inl e" "s' = s3"
        using assms(1) a d i run Inr \<open>unmarshalBlock w t (bn_ciphertext bnode) = Inr block\<close>
        by (auto simp: handle_def go_seq_def go_bind_def go_lift_def Let_def go_return_def split: sum.splits)
      then show ?thesis using indexBlock_error i b2 by metis
    qed (use assms(1) a d run b2 Inr \<open>unmarshalBlock w t (bn_ciphertext bnode) = Inr block\<close> in
        \<open>auto simp: handle_def go_seq_def go_bind_def go_lift_def\<close>)
  qed (use assms(1) a b1 Inr in \<open>auto simp: handle_def go_seq_def go_bind_def go_lift_def go_fail_def\<close>)
qed

section \<open>Heads\<close>

text \<open>C18. After an inbound update the heads of a thread are the inbound nodes together with the old heads
  that were not reached by following the parents of the update, without duplicates; when no old
  head is inbound, in this order. The store request to the cafes may fail, the heads are written.\<close>

theorem handleHead_settles_heads:
  assumes "heads_of (t_Id t) s = Some heads"
    and "\<forall>h\<in>set inbound \<union> set heads. clean_word CHR '','' h"
    and "handleHead w t inbound leaves s = (r, s')"
  shows "\<exists>new. heads_of (t_Id t) s' = Some new \<and> distinct new
    \<and> set new = set inbound \<union> (set heads - set leaves)
    \<and> (distinct inbound \<and> distinct heads \<and> set inbound \<inter> set heads \<subseteq> set leaves
        \<longrightarrow> new = inbound @ filter (\<lambda>h. h \<notin> set leaves) heads)"
  using handleHead_heads [OF assms] next_heads_order [of inbound heads leaves]
  by (auto simp: next_heads_set next_heads_distinct)

theorem handleHead_settles_heads_witness:
  "\<exists>new. heads_of ''T'' (snd (handleHead (sample_world sample_text) sample_thread [''n''] [''x''] sample_state))
     = Some new \<and> set new = {''n'', ''y''}"
proof -
  obtain r s' where run: "handleHead (sample_world sample_text) sample_thread [''n''] [''x''] sample_state = (r, s')"
    by fastforce
  have h: "heads_of (t_Id sample_thread) sample_state = Some [''x'', ''y'']" by (rule sample_heads)
  have c: "\<forall>h\<in>set [''n''] \<union> set [''x'', ''y'']. clean_word CHR '','' h"
    by (simp add: clean_word_def is_space_def)
  obtain new where "heads_of (t_Id sample_thread) s' = Some new"
    "set new = set [''n''] \<union> (set [''x'', ''y''] - set [''x''])"
    using handleHead_settles_heads [OF h c run] by blast
  moreover have "set [''n''] \<union> (set [''x'', ''y''] - set [''x'']) = {''n'', ''y''}" by auto
  moreover have "t_Id sample_thread = ''T''" by (simp add: sample_thread_def)
  ultimately show ?thesis by (simp add: run)
qed

lemma keeps_ns_threads_CafeOutbox:
  "CafeOutbox_Add w x r opts s = (q, s') \<Longrightarrow> ns_threads s' = ns_threads s \<and> ns_blocks s' = ns_blocks s"
  using same.keeps_run [OF keeps_CafeOutbox_Add, of ns_threads]
    same.keeps_run [OF keeps_CafeOutbox_Add, of ns_blocks] by (simp add: same_def)

lemma PinNode_tables:
  "PinNode w c b s = (q, s') \<Longrightarrow> ns_threads s' = ns_threads s \<and> ns_blocks s' = ns_blocks s"
  using same.keeps_run [OF keeps_ipfs(1), of ns_threads]
    same.keeps_run [OF keeps_ipfs(1), of ns_blocks] by (simp add: same_def)

text \<open>C19. Posting a queued block merges the thread. The node that is made for the block links, as its
  parents, a directory with exactly the current heads and the additional parents, in order, under
  the names 0, 1, 2 and so on, next to the block and its target and data; the block is stored as
  ready with these parents, and the node of the block is the only head left.\<close>

theorem commitNode_merges_heads:
  assumes "heads_of (t_Id t) s = Some heads" "csv_good (heads @ extra)" "clean_word CHR '','' nhash"
    and "commitNode w t index extra True s = (Inr nhash, s')"
  shows "(\<exists>pnode. w_directory w (map (\<lambda>(i, p). (Itoa (int i), p)) (enumerate 0 (heads @ extra))) = Inr pnode
        \<and> w_directory w
            ([(''block'', blk_Id index), (''parents'', pnode)]
             @ (if blk_Target index \<noteq> [] then [(''target'', blk_Target index)] else [])
             @ (if blk_Data index \<noteq> [] then [(''data'', blk_Data index)] else [])) = Inr nhash)
    \<and> heads_of (t_Id t) s' = Some [nhash]
    \<and> (\<exists>b. blocks_Get (blk_Id index) (ns_blocks s') = Some b
         \<and> blk_Parents b = heads @ extra \<and> blk_Status b = Block_READY)"
proof -
  let ?b = "index\<lparr>blk_Parents := heads @ extra, blk_Status := Block_READY\<rparr>"
  have H: "Heads t s = (Inr heads, s)" using assms(1) by (simp add: Heads_run)
  obtain p s1 s2 s3 x s4 u s5 v s6 where
    pins: "PinNode w p False s = (x, s1)" "PinNode w nhash False s1 = (u, s2)"
    and st: "go_bind (TimestampNow w) (\<lambda>now. go_seq (on_blocks (blocks_Replace now ?b))
               (updateHead w t [nhash] True)) s2 = (Inr (), s3)"
    and cafe: "CafeOutbox_Add w nhash CafeRequest_STORE [opt_Group nhash, opt_SyncGroup nhash] s3 = (v, s4)"
      "CafeOutbox_Add w p CafeRequest_STORE [opt_Group nhash, opt_SyncGroup nhash] s4 = (Inr s6, s')"
    and links: "w_directory w (map (\<lambda>(i, p). (Itoa (int i), p)) (enumerate 0 (heads @ extra))) = Inr p"
      "w_directory w (node_links index p) = Inr nhash"
    using assms(4)
    by (auto simp: commitNode_def go_bind_Inr_iff go_seq_Inr_iff H Let_def go_lift_def go_when_def
        go_return_def)
  obtain now where "go_seq (on_blocks (blocks_Replace now ?b)) (updateHead w t [nhash] True)
      (s2\<lparr>ns_tick := ns_tick s2 + 1\<rparr>) = (Inr (), s3)"
    using st by (auto simp: TimestampNow_def draw_def go_bind_def)
  then obtain y s2' where b: "on_blocks (blocks_Replace now ?b) (s2\<lparr>ns_tick := ns_tick s2 + 1\<rparr>) = (Inr y, s2')"
    and upd: "updateHead w t [nhash] True s2' = (Inr (), s3)"
    by (auto simp: go_seq_Inr_iff)
  have threads: "ns_threads s2' = ns_threads s"
    using b pins [THEN PinNode_tables] by (auto simp: on_blocks_run)
  have "heads_of (t_Id t) s3 = Some [nhash]"
    by (rule updateHead_heads [OF _ _ upd]) (use assms(1,3) heads_of_cong [OF threads] in auto)
  moreover have s': "ns_threads s' = ns_threads s3" "ns_blocks s' = ns_blocks s3"
    using cafe [THEN keeps_ns_threads_CafeOutbox] by auto
  ultimately have heads': "heads_of (t_Id t) s' = Some [nhash]" using heads_of_cong [OF s'(1)] by simp
  have "keeps_part ns_blocks (updateHead w t [nhash] True)"
    unfolding updateHead_def
    by (intro keeps_node) (auto simp: same_def on_threads_run intro: same.keepsI)
  from same.keeps_run [OF this upd] have blocks: "ns_blocks s' = ns_blocks s2'"
    using s'(2) by (simp add: same_def)
  obtain n where "blocks_Get (blk_Id ?b) (ns_blocks s2') = Some (blocks_dec ((blocks_enc now ?b)\<lparr>blocks_attempts := n\<rparr>))"
    using blocks_Replace_row [of now ?b "ns_blocks s2"] b
    by (auto simp: on_blocks_run) (metis prod.collapse)
  then have "blocks_Get (blk_Id index) (ns_blocks s')
      = Some (blocks_dec ((blocks_enc now ?b)\<lparr>blocks_attempts := n\<rparr>))" by (simp add: blocks)
  moreover have "csv_dec (csv_enc (heads @ extra)) = heads @ extra" using assms(2) by simp
  moreover have "\<exists>pnode. w_directory w (map (\<lambda>(i, p). (Itoa (int i), p)) (enumerate 0 (heads @ extra))) = Inr pnode
      \<and> w_directory w (node_links index pnode) = Inr nhash" using links by blast
  ultimately show ?thesis
    using heads' by (simp add: blocks_dec_def blocks_enc_def BlockStatus_of_int_def node_links_def)
qed

theorem commitNode_merges_heads_witness:
  "heads_of ''T'' (snd (commitNode (sample_world sample_text) sample_thread
      (outBlock sample_thread \<lparr>cr_hash = ''h1'', cr_ciphertext = [], cr_header = sample_header ''Z''\<rparr>
        Block_TEXT [] [] ''hi'') [''z''] True sample_state)) = Some [''n1'']"
proof -
  let ?b = "outBlock sample_thread \<lparr>cr_hash = ''h1'', cr_ciphertext = [], cr_header = sample_header ''Z''\<rparr>
        Block_TEXT [] [] ''hi''"
  have h: "heads_of (t_Id sample_thread) sample_state = Some [''x'', ''y'']" by (rule sample_heads)
  have g: "csv_good ([''x'', ''y''] @ [''z''])" "clean_word CHR '','' ''n1''"
    by (simp_all add: csv_good_def clean_word_def is_space_def)
  have ex: "\<exists>s'. commitNode (sample_world sample_text) sample_thread ?b [''z''] True sample_state = (Inr ''n1'', s')"
    by (simp add: commitNode_def sample_defs run_defs SplitString_def TrimSpace_def is_space_def
        threads_enc_def threads_dec_def)
  then obtain s' where run:
    "commitNode (sample_world sample_text) sample_thread ?b [''z''] True sample_state = (Inr ''n1'', s')" by blast
  have "heads_of (t_Id sample_thread) s' = Some [''n1'']"
    using commitNode_merges_heads [OF h g run] by blast
  moreover have "t_Id sample_thread = ''T''" by (simp add: sample_thread_def)
  ultimately show ?thesis by (simp add: run)
qed

section \<open>Posting\<close>

lemma keeps_commitNode:
  assumes "apart_from_cafe part" "\<And>s f. part (s\<lparr>ns_blocks := f\<rparr>) = part s"
    "\<And>s f. part (s\<lparr>ns_threads := f\<rparr>) = part s"
  shows "keeps_part part (commitNode w t b ps add)"
proof -
  have th: "keeps_part part (on_threads m)" for m :: "(threads_row sql_table, 'b) go"
    using assms(3) by (intro same.keepsI) (simp add: same_def on_threads_run)
  have H: "keeps_part part (Heads t)"
    unfolding Heads_def by (intro keeps_node)
  show ?thesis
    unfolding commitNode_def updateHead_def Let_def
    by (intro keeps_node keeps_on_blocks th H assms)
qed

text \<open>The receivers and the envelopes of the rows of the outbox, in the order they were added.\<close>

definition outbox_mail :: "node_state \<Rightarrow> (string \<times> Envelope) list" where
  "outbox_mail s = map (\<lambda>r. (block_messages_peerId r, block_messages_envelope r)) (ns_block_messages s)"

lemma BlockOutbox_Add_mail:
  assumes "BlockOutbox_Add w p env s = (Inr u, s')"
  shows "outbox_mail s' = outbox_mail s @ [(p, env)]" "ns_blocks s' = ns_blocks s"
  using assms
  by (auto simp: BlockOutbox_Add_def run_defs block_messages_Add_def block_messages_enc_def outbox_mail_def
      split: if_splits)

lemma foreach_mail:
  assumes "go_foreach (\<lambda>p. BlockOutbox_Add w p env) ps s = (Inr u, s')"
  shows "outbox_mail s' = outbox_mail s @ map (\<lambda>p. (p, env)) ps" "ns_blocks s' = ns_blocks s"
  using assms
  by (induction ps arbitrary: s)
    (auto simp: go_return_def go_seq_Inr_iff BlockOutbox_Add_mail)

definition post_receivers :: "thread \<Rightarrow> Block \<Rightarrow> node_state \<Rightarrow> string list" where
  "post_receivers t index s =
     (if blk_Type index = Block_ADD then (if blk_Body index \<noteq> [] then [blk_Body index] else [])
      else map tp_Id (thread_peers_ListByThread (t_Id t) (ns_thread_peers s)))"

text \<open>C20. Posting a block queues one and the same envelope for every peer of the thread, in the order of
  the peer table and after what was queued before; an invite goes to the invited peer alone, and its
  block is deleted once it is queued.\<close>

theorem post_queues_one_envelope_per_peer:
  assumes "post w t index s = (Inr u, s')"
  shows "\<exists>env. outbox_mail s' = outbox_mail s @ map (\<lambda>p. (p, env)) (post_receivers t index s)
    \<and> (blk_Type index = Block_ADD \<longrightarrow> blocks_Get (blk_Id index) (ns_blocks s') = None)"
proof -
  obtain nhash s1 ndata c env s2 s3 where
    node: "commitNode w t index [] (blk_Type index \<noteq> Block_ADD) s = (Inr nhash, s1)"
    and env: "envelope_for w t ndata c s1 = (Inr env, s2)"
    and each: "go_foreach (\<lambda>p. BlockOutbox_Add w p env) (post_receivers t index s2) s2 = (Inr (), s3)"
    and del: "go_when (blk_Type index = Block_ADD) (on_blocks (blocks_Delete (blk_Id index))) s3 = (Inr u, s')"
    using assms
    by (auto simp: post_def post_receivers_def go_bind_Inr_iff go_seq_Inr_iff go_lift_def go_get_def
        go_return_def split: if_splits)
  have s2: "s2 = s1" using env by (auto simp: envelope_for_def go_bind_Inr_iff go_lift_def)
  have "ns_block_messages s1 = ns_block_messages s" "ns_thread_peers s1 = ns_thread_peers s"
    using same.keeps_run [OF keeps_commitNode node, of ns_block_messages]
      same.keeps_run [OF keeps_commitNode node, of ns_thread_peers] by (simp_all add: same_def)
  then have "outbox_mail s2 = outbox_mail s" "post_receivers t index s2 = post_receivers t index s"
    by (simp_all add: s2 outbox_mail_def post_receivers_def)
  moreover have "outbox_mail s' = outbox_mail s3"
    using del by (auto simp: go_when_def go_return_def on_blocks_run outbox_mail_def split: if_splits)
  moreover have "blocks_Get (blk_Id index) (ns_blocks s') = None" if "blk_Type index = Block_ADD"
    using del that by (auto simp: go_when_def on_blocks_run blocks_Delete_def blocks_Get_lookup
        blocks_store.lookup_delete_key)
  ultimately show ?thesis using foreach_mail(1) [OF each] by auto
qed

theorem post_queues_one_envelope_per_peer_witness:
  "length (outbox_mail (snd (post (sample_world sample_text) sample_thread sample_invite sample_state))) = 1"
proof -
  have "\<exists>s'. post (sample_world sample_text) sample_thread sample_invite sample_state = (Inr (), s')"
    by (simp add: post_def commitNode_def sample_defs run_defs SplitString_def TrimSpace_def is_space_def
        threads_enc_def threads_dec_def envelope_for_def BlockOutbox_Add_def block_messages_Add_def
        blocks_Delete_def sample_invite_def)
  then obtain s' where run: "post (sample_world sample_text) sample_thread sample_invite sample_state = (Inr (), s')"
    by blast
  have "post_receivers sample_thread sample_invite sample_state = [''Q'']" "outbox_mail sample_state = []"
    by (simp_all add: post_receivers_def sample_invite_def outBlock_def outbox_mail_def sample_state_def)
  then have "length (outbox_mail s') = 1"
    using post_queues_one_envelope_per_peer [OF run] by auto
  then show ?thesis by (simp add: run)
qed

section \<open>Leaving\<close>

lemma out_op_row:
  assumes "out_op w t p ty target body s = (Inr hash, s')"
  shows "\<exists>row. ns_blocks s' = ns_blocks s @ [row] \<and> blocks_id row = hash \<and> blocks_threadId row = t_Id t
    \<and> (\<forall>r\<in>set (ns_blocks s). blocks_id r \<noteq> hash)"
proof -
  obtain res s1 s2 where c: "commitBlock w p ty True (w_encrypt w (t_Id t)) s = (Inr res, s1)"
    and i: "indexBlock w t (outBlock t res ty target [] body) False s1 = (Inr (), s2)"
    and r: "cr_hash res = hash" "s' = s2"
    using assms by (auto simp: out_op_def go_bind_Inr_iff go_seq_Inr_iff go_return_def)
  have "ns_blocks s1 = ns_blocks s"
    using same.keeps_run [OF keeps_commitBlock c, of ns_blocks] by (simp add: same_def)
  then show ?thesis
    using i r
    by (auto simp: indexBlock_def run_defs outBlock_def blocks_enc_def split: if_splits)
qed

text \<open>Leaving a thread deletes all its blocks, its peers and the notifications about it from the
  tables, among the blocks the leave block itself, which was queued but not yet posted: the flush of
  queued blocks never sees it, and the peers of the thread are not told.\<close>

lemma leave_deletes_its_own_block:
  assumes "leave w t s = (Inr hash, s')"
  shows "blocks_Get hash (ns_blocks s') = None
    \<and> (\<forall>b\<in>set (blocks_List [] (- 1) Q (ns_blocks s')). blk_Thread b \<noteq> t_Id t)
    \<and> thread_peers_ListByThread (t_Id t) (ns_thread_peers s') = []
    \<and> (\<forall>r\<in>set (ns_notifications s'). notifications_subjectId r \<noteq> t_Id t)
    \<and> ns_block_messages s' = ns_block_messages s"
proof -
  obtain s1 s2 blocks where o: "out_op w t None Block_LEAVE [] [] s = (Inr hash, s1)"
    and f: "go_foreach (\<lambda>block. ignoreBlockTarget w (Some block)) blocks s1 = (Inr (), s2)"
    and s': "ns_blocks s' = filter (\<lambda>r. blocks_threadId r \<noteq> t_Id t) (ns_blocks s2)"
      "ns_thread_peers s' = filter (\<lambda>r. thread_peers_threadId r \<noteq> t_Id t) (ns_thread_peers s2)"
      "ns_notifications s' = filter (\<lambda>r. notifications_subjectId r \<noteq> t_Id t) (ns_notifications s2)"
      "ns_block_messages s' = ns_block_messages s2"
    using assms
    by (auto simp: leave_def go_bind_Inr_iff go_seq_Inr_iff go_get_def go_return_def go_fail_def on_blocks_run
        on_thread_peers_run on_notifications_run blocks_DeleteByThread_def thread_peers_DeleteByThread_def
        notifications_DeleteBySubject_def sql_delete_def go_modify_def split: if_splits)
  have keep: "keeps_part part (go_foreach (\<lambda>block. ignoreBlockTarget w (Some block)) blocks)"
    if "apart_from_files part" for part :: "node_state \<Rightarrow> 'p"
    using that by (intro keeps_node)
  have b2: "ns_blocks s2 = ns_blocks s1" "ns_block_messages s2 = ns_block_messages s1"
    using same.keeps_run [OF keep f, of ns_blocks] same.keeps_run [OF keep f, of ns_block_messages]
    by (simp_all add: same_def)
  have "keeps_part ns_block_messages (out_op w t None Block_LEAVE [] [])"
    unfolding out_op_def by (intro keeps_node keeps_indexBlock) simp_all
  from same.keeps_run [OF this o] have m: "ns_block_messages s1 = ns_block_messages s" by (simp add: same_def)
  obtain row where row: "ns_blocks s1 = ns_blocks s @ [row]" "blocks_id row = hash" "blocks_threadId row = t_Id t"
    "\<forall>r\<in>set (ns_blocks s). blocks_id r \<noteq> hash"
    using out_op_row [OF o] by blast
  have "find (\<lambda>r. blocks_id r = hash) (ns_blocks s') = None"
    using row s'(1) b2 by (auto simp: find_None_iff image_iff)
  then have "blocks_Get hash (ns_blocks s') = None" by (simp add: blocks_Get_def first_row_select)
  moreover have "\<forall>b\<in>set (blocks_List [] (- 1) Q (ns_blocks s')). blk_Thread b \<noteq> t_Id t"
    using s'(1) by (auto simp: blocks_List_def sql_defs blocks_dec_def)
  moreover have "thread_peers_ListByThread (t_Id t) (ns_thread_peers s') = []"
    using s'(2) by (auto simp: thread_peers_ListByThread_def sql_select_def filter_empty_conv)
  ultimately show ?thesis using s'(3,4) b2 m by auto
qed

end
