(* ===== verification/InboundProps.thy ===== *)
theory InboundProps
  imports ThreadProps
begin

text \<open>
  The properties of inbound envelopes: what no handler touches, delivering an envelope twice,
  invites from strangers, and who can rename a thread.
\<close>

section \<open>What handlers may touch\<close>

text \<open>
  Handling a block writes the tables of blocks, peers, thread peers, notifications, files and
  cafe requests, and the name of a thread. A part that reads none of these is kept.
\<close>

definition apart_from_peers :: "(node_state \<Rightarrow> 'p) \<Rightarrow> bool" where
  "apart_from_peers part \<longleftrightarrow> apart_from_files part
     \<and> (\<forall>s f. part (s\<lparr>ns_blocks := f\<rparr>) = part s) \<and> (\<forall>s f. part (s\<lparr>ns_peers := f\<rparr>) = part s)
     \<and> (\<forall>s f. part (s\<lparr>ns_thread_peers := f\<rparr>) = part s)
     \<and> (\<forall>s f. part (s\<lparr>ns_notifications := f\<rparr>) = part s)"

definition apart_from_names :: "(node_state \<Rightarrow> 'p) \<Rightarrow> bool" where
  "apart_from_names part \<longleftrightarrow>
     (\<forall>s tid n. part (snd (on_threads (threads_UpdateName tid n) s)) = part s)
     \<and> (\<forall>s tid n. part (s\<lparr>ns_loaded :=
          map (\<lambda>th. if t_Id th = tid then th\<lparr>t_Name := n\<rparr> else th) (ns_loaded s)\<rparr>) = part s)"

lemma apart_from_peersD:
  assumes "apart_from_peers part"
  shows "apart_from_cafe part" "apart_from_files part" "part (s\<lparr>ns_blocks := b\<rparr>) = part s"
    "part (s\<lparr>ns_peers := p\<rparr>) = part s" "part (s\<lparr>ns_thread_peers := q\<rparr>) = part s"
    "part (s\<lparr>ns_notifications := n\<rparr>) = part s"
  using assms by (simp_all add: apart_from_peers_def apart_from_files_def)

lemma apart_peers_parts [simp]:
  "apart_from_peers ns_threads" "apart_from_peers ns_loaded" "apart_from_peers ns_invites"
  "apart_from_peers ns_block_messages" "apart_from_peers (\<lambda>s. map t_Id (ns_loaded s))"
  by (simp_all add: apart_from_peers_def apart_from_files_def apart_from_cafe_def)

lemma keeps_annouce:
  assumes "apart_from_peers part"
  shows "keeps_part part (annouce w t m)"
  unfolding annouce_def Let_def
  by (intro keeps_node keeps_indexBlock apart_from_peersD assms)

lemma keeps_addPeer:
  assumes "apart_from_peers part"
  shows "keeps_part part (addPeer w p)"
  unfolding addPeer_def
  by (intro keeps_node keeps_emit keeps_on_peers keeps_annouce apart_from_peersD assms)

lemma keeps_addOrUpdatePeer:
  assumes "apart_from_peers part"
  shows "keeps_part part (addOrUpdatePeer w t p b)"
  unfolding addOrUpdatePeer_def
  by (intro keeps_node keeps_on_thread_peers keeps_addPeer apart_from_peersD assms)

lemma keeps_handlers:
  assumes p: "apart_from_peers part"
  shows "keeps_part part (handleMergeBlock w t hdr)"
    "keeps_part part (handleIgnoreBlock w t bnode block hdr)"
    "keeps_part part (handleFlagBlock w t block hdr)"
    "keeps_part part (handleJoinBlock w t block hdr)"
    "keeps_part part (handleLeaveBlock w t hdr)"
    "keeps_part part (handleMessageBlock w t block hdr)"
    "keeps_part part (handleFilesBlock w t bnode block hdr)"
    "keeps_part part (handleCommentBlock w t block hdr)"
    "keeps_part part (handleLikeBlock w t block hdr)"
  unfolding handleMergeBlock_def handleIgnoreBlock_def handleFlagBlock_def handleLeaveBlock_def
    handleMessageBlock_def handleFilesBlock_def handleCommentBlock_def handleLikeBlock_def
    handleJoinBlock_def Let_def
  by (intro keeps_node keeps_on_notifications keeps_on_thread_peers keeps_receiveFile keeps_addOrUpdatePeer
      apart_from_peersD p)+

lemma keeps_handleAnnounceBlock:
  assumes p: "apart_from_peers part" "apart_from_names part"
  shows "keeps_part part (handleAnnounceBlock w t block hdr)"
proof -
  have l: "keeps_part part (go_modify (\<lambda>s. s\<lparr>ns_loaded :=
      map (\<lambda>th. if t_Id th = i then th\<lparr>t_Name := n\<rparr> else th) (ns_loaded s)\<rparr>))" for i n
    using p(2) by (intro same.keeps_modify) (simp add: same_def apart_from_names_def)
  have t: "keeps_part part (on_threads (threads_UpdateName i n))" for i n
    using p(2) by (intro same.keepsI) (simp add: same_def apart_from_names_def)
  show ?thesis
    unfolding handleAnnounceBlock_def
    by (intro keeps_node keeps_addOrUpdatePeer keeps_addPeer l t p)
qed

lemma keeps_dispatch:
  assumes "apart_from_peers part"
    and "tb_Type block \<noteq> Block_ANNOUNCE \<or> apart_from_names part"
  shows "keeps_part part (dispatch w t bnode block hdr)"
  using assms keeps_handlers [OF assms(1)] keeps_handleAnnounceBlock [OF assms(1)]
  by (cases "tb_Type block") (simp_all add: dispatch_def same.keeps_fail)

lemma keeps_handle:
  assumes "apart_from_peers part" "apart_from_names part"
  shows "keeps_part part (handle w t bnode replace)"
  unfolding handle_def Let_def
  by (intro keeps_node keeps_dispatch keeps_indexBlock disjI2 apart_from_peersD assms)

section \<open>Renaming\<close>

lemma announce_keeps_names:
  assumes "apart_from_peers part" "hdr_Address hdr \<noteq> t_initiator t"
  shows "part (snd (handleAnnounceBlock w t block hdr s)) = part s"
proof (cases "UnmarshalAnnounce (tb_Payload block)")
  case (Inl e)
  then show ?thesis by (simp add: handleAnnounceBlock_def go_bind_def go_lift_def)
next
  case (Inr msg)
  show ?thesis
  proof (cases "ann_Name msg = []")
    case True
    have "keeps_part part (go_seq (go_require ErrNotReadable (readable t (w_configAddress w)))
      (go_seq (go_require ErrNotReadable (readable t (hdr_Address hdr)))
      (go_seq (go_require ErrInvalidThreadBlock
              (case ann_Peer msg of None \<Rightarrow> True
               | Some p \<Rightarrow> \<not> (t_Id t \<noteq> w_accountThread w \<and> peer_Id p \<noteq> hdr_Author hdr)))
      (go_seq (go_require ErrInvalidThreadBlock (ann_Name msg \<noteq> [] \<longrightarrow> t_initiator t = hdr_Address hdr))
      (go_seq
        (case ann_Peer msg of None \<Rightarrow> go_return ()
         | Some p \<Rightarrow>
             go_when (peer_Id p \<noteq> w_self w)
               (if t_Id t = w_accountThread w \<and> peer_Id p \<noteq> hdr_Author hdr then addPeer w p
                else addOrUpdatePeer w t p False))
        (go_seq (go_when False x) (go_return no_result)))))))" for x
      by (intro keeps_node keeps_addOrUpdatePeer keeps_addPeer assms(1)) simp
    from same.keepsD [OF this, of s] show ?thesis
      using Inr True by (simp add: handleAnnounceBlock_def go_bind_def go_lift_def same_def)
  next
    case False
    then show ?thesis
      using Inr assms(2) by (simp add: handleAnnounceBlock_def go_defs split: option.splits)
  qed
qed

text \<open>C26. Only the initiator of a thread can rename it: whatever a block from another address says and
  whatever handling it returns, the rows of the thread table and the threads in memory keep their
  names, and nothing else of them changes either.\<close>

theorem only_initiator_renames:
  assumes "unmarshalBlock w t (bn_ciphertext bnode) = Inr block" "tb_Header block = Some hdr"
    and "hdr_Address hdr \<noteq> t_initiator t"
    and "handle w t bnode replace s = (r, s')"
  shows "ns_threads s' = ns_threads s \<and> ns_loaded s' = ns_loaded s"
proof -
  have keep: "part s' = part s" if p: "apart_from_peers part" for part :: "node_state \<Rightarrow> 'p"
  proof -
    have d: "keeps_part part (dispatch w t bnode block hdr)"
    proof (cases "tb_Type block = Block_ANNOUNCE")
      case True
      then show ?thesis
        using announce_keeps_names [OF p assms(3)] by (intro same.keepsI) (simp add: dispatch_def same_def)
    qed (use keeps_dispatch [OF p] in auto)
    have "keeps_part part (go_seq (addBlock w (bn_ciphertext bnode) False)
        (go_bind (dispatch w t bnode block hdr) (\<lambda>res.
          go_seq (indexBlock w t (handled_index t bnode block hdr res) replace)
                 (go_return (handled_index t bnode block hdr res)))))"
      by (intro keeps_node d keeps_indexBlock apart_from_peersD p)
    from same.keepsD [OF this, of s] show ?thesis
      using assms(1,2,4) by (simp add: handle_def go_bind_lift same_def Let_def)
  qed
  show ?thesis using keep [of ns_threads] keep [of ns_loaded] by simp
qed

theorem only_initiator_renames_witness:
  "ns_loaded (snd (handle (sample_world sample_rename) sample_thread sample_bnode False sample_state))
    = [sample_thread]"
proof -
  obtain r s' where run: "handle (sample_world sample_rename) sample_thread sample_bnode False sample_state = (r, s')"
    by fastforce
  have u: "unmarshalBlock (sample_world sample_rename) sample_thread (bn_ciphertext sample_bnode) = Inr sample_rename"
    by (simp add: unmarshalBlock_def sample_world_def)
  have h: "tb_Header sample_rename = Some (sample_header ''Z'')"
    by (simp add: sample_rename_def sample_block_def)
  have i: "hdr_Address (sample_header ''Z'') \<noteq> t_initiator sample_thread"
    by (simp add: sample_header_def sample_thread_def)
  have "ns_loaded s' = ns_loaded sample_state"
    using only_initiator_renames [OF u h i run] by simp
  then have "ns_loaded s' = [sample_thread]" by (simp add: sample_state_def)
  then show ?thesis by (simp add: run)
qed

section \<open>Envelopes\<close>


lemma keeps_unpack:
  assumes "apart_from_cafe part"
  shows "keeps_part part (unpack w sv tenv)"
  unfolding unpack_def extractNode_def Let_def
  by (intro keeps_node assms)

lemma keeps_addHead:
  assumes "apart_from_cafe part" "\<And>s f. part (s\<lparr>ns_threads := f\<rparr>) = part s"
  shows "keeps_part part (addHead w t h)"
proof -
  have t: "keeps_part part (on_threads m)" for m :: "(threads_row sql_table, 'b) go"
    using assms(2) by (intro same.keepsI) (simp add: same_def on_threads_run)
  show ?thesis
    unfolding addHead_def Heads_def updateHead_def by (intro keeps_node t assms)
qed

lemma keeps_sendNotification:
  assumes "apart_from_cafe part" "\<And>s f. part (s\<lparr>ns_notifications := f\<rparr>) = part s"
  shows "keeps_part part (sendNotification w n)"
  unfolding sendNotification_def
  by (intro keeps_node keeps_emit keeps_on_notifications assms)

lemma keeps_notifyBlock:
  assumes "apart_from_cafe part" "\<And>s f. part (s\<lparr>ns_notifications := f\<rparr>) = part s"
  shows "keeps_part part (notifyBlock w t bnode ap index)"
  unfolding notifyBlock_def split_beta
  by (intro keeps_node keeps_sendNotification assms)

text \<open>Unpacking adds to the log of effects what it stores and pins in IPFS, and changes nothing else.\<close>

definition ipfs_effect :: "effect \<Rightarrow> bool" where
  "ipfs_effect e \<longleftrightarrow> (\<exists>d. e = IpfsAdd d) \<or> (\<exists>c r. e = IpfsPin c r)"

definition logged :: "(effect \<Rightarrow> bool) \<Rightarrow> node_state \<Rightarrow> node_state \<Rightarrow> bool" where
  "logged P s s' \<longleftrightarrow> (\<exists>es. ns_effects s' = ns_effects s @ es \<and> (\<forall>e\<in>set es. P e))"

lemma logged_trans: "logged P s t \<Longrightarrow> logged P t u \<Longrightarrow> logged P s u"
  unfolding logged_def by force

lemma logged_same: "ns_effects s' = ns_effects s \<Longrightarrow> logged P s s'"
  by (simp add: logged_def)

definition unpacks :: "node_state \<Rightarrow> node_state \<Rightarrow> bool" where
  "unpacks s s' \<longleftrightarrow> same_tables s s' \<and> logged ipfs_effect s s'"

interpretation unpacks: step_relation unpacks
proof unfold_locales
  fix s t u :: node_state
  show "unpacks s s" by (simp add: unpacks_def same_tables_def logged_same)
  assume "unpacks s t" "unpacks t u"
  moreover have "same_tables s u" if "same_tables s t" "same_tables t u"
  proof -
    have "s = t\<lparr>ns_effects := ns_effects s, ns_tick := ns_tick s\<rparr>" using that(1) by (simp add: same_tables_def)
    also have "t = u\<lparr>ns_effects := ns_effects t, ns_tick := ns_tick t\<rparr>" using that(2) by (simp add: same_tables_def)
    finally show ?thesis by (simp add: same_tables_def)
  qed
  ultimately show "unpacks s u" using logged_trans by (auto simp: unpacks_def)
qed

lemma unpacks_emit: "ipfs_effect e \<Longrightarrow> unpacks.keeps (emit e)"
  by (auto intro!: unpacks.keepsI simp: unpacks_def same_tables_def logged_def emit_def go_modify_def)

lemma unpacks_unpack: "unpacks.keeps (unpack w sv tenv)"
proof -
  have n: "unpacks.keeps (NodeAtLink w l)" for l unfolding NodeAtLink_def by (intro unpacks.keeps_intros)
  show ?thesis
    unfolding unpack_def extractNode_def Let_def PinNode_def AddData_def
    by (intro unpacks.keeps_intros unpacks_emit n) (auto simp: ipfs_effect_def)
qed

text \<open>What unpacking returns does not depend on the state of the node.\<close>

definition oblivious :: "'a node_op \<Rightarrow> bool" where
  "oblivious m \<longleftrightarrow> (\<forall>s s'. fst (m s) = fst (m s'))"

lemma oblivious_bind:
  assumes "oblivious m" "\<And>x. oblivious (f x)"
  shows "oblivious (go_bind m f)"
  unfolding oblivious_def
proof (intro allI)
  fix s s'
  have m: "fst (m s) = fst (m s')" using assms(1) by (simp add: oblivious_def)
  show "fst (go_bind m f s) = fst (go_bind m f s')"
  proof (cases "fst (m s)")
    case (Inl e)
    then show ?thesis using m by (simp add: go_bind_def split_beta)
  next
    case (Inr x)
    have "fst (f x (snd (m s))) = fst (f x (snd (m s')))" using assms(2) by (simp add: oblivious_def)
    moreover have "fst (m s') = Inr x" using m Inr by simp
    ultimately show ?thesis using Inr by (simp add: go_bind_def split_beta)
  qed
qed

lemma oblivious_intros:
  "oblivious (go_return x)" "oblivious (go_fail e)" "oblivious (go_lift r)" "oblivious (emit ef)"
  "oblivious m \<Longrightarrow> oblivious n \<Longrightarrow> oblivious (go_seq m n)"
  "oblivious m \<Longrightarrow> oblivious (go_when b m)"
  "oblivious (NodeAtLink w l)"
  by (simp_all add: oblivious_bind go_seq_def go_when_def NodeAtLink_def)
    (simp_all add: oblivious_def go_defs emit_def)

lemma oblivious_unpack: "oblivious (unpack w sv tenv)"
  unfolding unpack_def extractNode_def PinNode_def AddData_def Let_def
  by (auto intro!: oblivious_bind oblivious_intros split: option.splits)

lemma loaded_thread_ids:
  "map t_Id (ns_loaded s') = map t_Id (ns_loaded s) \<Longrightarrow>
   loaded_thread tid s' = None \<longleftrightarrow> loaded_thread tid s = None"
proof -
  have *: "loaded_thread tid s = None \<longleftrightarrow> tid \<notin> set (map t_Id (ns_loaded s))" for s
    by (auto simp: loaded_thread_def find_None_iff)
  assume "map t_Id (ns_loaded s') = map t_Id (ns_loaded s)"
  then show ?thesis by (simp only: *)
qed

lemma loaded_thread_id: "loaded_thread tid s = Some t \<Longrightarrow> t_Id t = tid"
  by (auto simp: loaded_thread_def find_Some_iff)

text \<open>The run of \<open>Handle\<close> on a known block and on a new one.\<close>

lemma Handle_known:
  assumes "unpack w sv tenv s = (Inr (bnode, nhash), s1)"
    and "loaded_thread (te_Thread tenv) s \<noteq> None" "blocks_Get (bn_hash bnode) (ns_blocks s) \<noteq> None"
  shows "Handle w sv tenv s = (Inr Done, s1) \<and> same_tables s s1"
proof -
  have k: "part s1 = part s" if "apart_from_cafe part" for part :: "node_state \<Rightarrow> 'p"
    using same.keeps_run [OF keeps_unpack [OF that] assms(1)] by (simp add: same_def)
  have "loaded_thread (te_Thread tenv) s1 = loaded_thread (te_Thread tenv) s"
    using k [of ns_loaded] by (simp add: loaded_thread_def)
  then obtain t where t: "loaded_thread (te_Thread tenv) s1 = Some t" using assms(2) by auto
  have "blocks_Get (bn_hash bnode) (ns_blocks s1) \<noteq> None" using assms(3) k [of ns_blocks] by simp
  then have "Handle w sv tenv s = (Inr Done, s1)"
    by (auto simp: Handle_def go_bind_def assms(1) go_get_def t Let_def go_return_def)
  moreover have "same_tables s s1"
    using unpacks.keeps_run [OF unpacks_unpack assms(1)] by (simp add: unpacks_def)
  ultimately show ?thesis by simp
qed

lemma Handle_new:
  assumes "Handle w sv tenv s = (Inr (Tail t ps n), s')"
  shows "\<exists>bnode s1 s2 s3 index r. unpack w sv tenv s = (Inr (bnode, n), s1)
    \<and> loaded_thread (te_Thread tenv) s = Some t \<and> blocks_Get (bn_hash bnode) (ns_blocks s) = None
    \<and> handle w t bnode False s1 = (Inr index, s2) \<and> addHead w t n s2 = (r, s3)
    \<and> ps = blk_Parents index \<and> ns_blocks s' = ns_blocks s2 \<and> ns_threads s' = ns_threads s3
    \<and> map t_Id (ns_loaded s') = map t_Id (ns_loaded s)"
proof -
  obtain bnode nh s1 where u: "unpack w sv tenv s = (Inr (bnode, nh), s1)"
    using assms by (auto simp: Handle_def go_bind_Inr_iff)
  have k: "part s1 = part s" if "apart_from_cafe part" for part :: "node_state \<Rightarrow> 'p"
    using same.keeps_run [OF keeps_unpack [OF that] u] by (simp add: same_def)
  let ?ap = "case te_Sig tenv of None \<Rightarrow> False | Some sig \<Rightarrow> sv_verify sv (bn_ciphertext bnode) sig"
  obtain th where t: "loaded_thread (te_Thread tenv) s1 = Some th"
    and new: "blocks_Get (bn_hash bnode) (ns_blocks s1) = None"
    using assms u
    by (auto simp: Handle_def go_bind_Inr_iff Let_def go_get_def go_seq_Inr_iff go_return_def
        split: option.splits if_splits)
  obtain index s2 x s3 y where
    h: "handle w th bnode False s1 = (Inr index, s2)" and a: "addHead w th nh s2 = (Inr x, s3)"
    and n: "notifyBlock w th bnode ?ap index s3 = (Inr y, s')"
    and out: "t = th" "ps = blk_Parents index" "n = nh"
    using assms u t new
    by (auto simp: Handle_def go_bind_Inr_iff go_seq_Inr_iff go_get_def Let_def go_return_def
        split: if_splits)
  have kn: "part s' = part s3" if p: "apart_from_cafe part" "\<And>s f. part (s\<lparr>ns_notifications := f\<rparr>) = part s"
    for part :: "node_state \<Rightarrow> 'p"
    using same.keeps_run [OF keeps_notifyBlock [OF p] n] by (simp add: same_def)
  have ka: "part s3 = part s2" if "apart_from_cafe part" "\<And>s f. part (s\<lparr>ns_threads := f\<rparr>) = part s"
    for part :: "node_state \<Rightarrow> 'p"
    using same.keeps_run [OF keeps_addHead [OF that] a] by (simp add: same_def)
  have ids: "apart_from_cafe (\<lambda>s. map t_Id (ns_loaded s))" by (simp add: apart_from_cafe_def)
  have "apart_from_names (\<lambda>s. map t_Id (ns_loaded s))" by (simp add: apart_from_names_def on_threads_run)
  then have "map t_Id (ns_loaded s2) = map t_Id (ns_loaded s1)"
    using same.keeps_run [OF keeps_handle h, of "\<lambda>s. map t_Id (ns_loaded s)"] by (simp add: same_def)
  then have "map t_Id (ns_loaded s') = map t_Id (ns_loaded s)"
    using kn [OF ids] ka [OF ids] k [OF ids] by simp
  moreover have "ns_blocks s' = ns_blocks s2" using kn [of ns_blocks] ka [of ns_blocks] by simp
  moreover have "ns_threads s' = ns_threads s3" using kn [of ns_threads] by simp
  moreover have "loaded_thread (te_Thread tenv) s = Some th" using t k [of ns_loaded] by (simp add: loaded_thread_def)
  moreover have "blocks_Get (bn_hash bnode) (ns_blocks s) = None" using new k [of ns_blocks] by simp
  ultimately show ?thesis using u h a out by blast
qed

lemma heads_of_apart: "apart_from_peers (heads_of tid)" "apart_from_names (heads_of tid)"
proof -
  show "apart_from_peers (heads_of tid)"
    by (simp add: apart_from_peers_def apart_from_files_def apart_from_cafe_def heads_of_def)
  have "heads_of tid (snd (on_threads (threads_UpdateName i n) s)) = heads_of tid s" for i n s
  proof -
    have "map_option (\<lambda>r. SplitString (threads_head r) CHR '','') (find (\<lambda>r. threads_id r = tid)
        (map (\<lambda>r. if threads_id r = i then r\<lparr>threads_name := n\<rparr> else r) ts))
      = map_option (\<lambda>r. SplitString (threads_head r) CHR '','') (find (\<lambda>r. threads_id r = tid) ts)" for ts
      by (induction ts) auto
    then show ?thesis
      by (simp add: heads_of_def on_threads_run threads_UpdateName_def sql_update_def go_modify_def
          threads_Get_def first_row_select threads_dec_def option.map_comp comp_def)
  qed
  then show "apart_from_names (heads_of tid)" by (simp add: apart_from_names_def heads_of_def)
qed

text \<open>C3. A block that is new to the node is handled exactly once: its node is appended to the heads of the
  thread, and delivering the same envelope again changes no table, no thread
  in memory and no request in flight, whatever the first delivery did.\<close>

theorem Handle_delivers_once:
  assumes "Handle w sv tenv s = (Inr (Tail t ps n), s')"
    and "heads_of (t_Id t) s = Some heads" "\<forall>h\<in>set (heads @ [n]). clean_word CHR '','' h"
  shows "heads_of (t_Id t) s' = Some (heads @ [n])
    \<and> fst (Handle w sv tenv s') = Inr Done \<and> same_tables s' (snd (Handle w sv tenv s'))"
proof -
  obtain bnode s1 s2 s3 index r where u: "unpack w sv tenv s = (Inr (bnode, n), s1)"
    and l: "loaded_thread (te_Thread tenv) s = Some t"
    and h: "handle w t bnode False s1 = (Inr index, s2)" and a: "addHead w t n s2 = (r, s3)"
    and s': "ns_blocks s' = ns_blocks s2" "ns_threads s' = ns_threads s3"
      "map t_Id (ns_loaded s') = map t_Id (ns_loaded s)"
    using Handle_new [OF assms(1)] by blast
  have "ns_threads s1 = ns_threads s"
    using same.keeps_run [OF keeps_unpack u, of ns_threads] by (simp add: same_def)
  then have "heads_of (t_Id t) s1 = heads_of (t_Id t) s" by (rule heads_of_cong)
  moreover have "heads_of (t_Id t) s2 = heads_of (t_Id t) s1"
    using same.keeps_run [OF keeps_handle [OF heads_of_apart] h] by (simp add: same_def)
  ultimately have "heads_of (t_Id t) s2 = Some heads" using assms(2) by simp
  from addHead_heads [OF this assms(3) a] have heads': "heads_of (t_Id t) s' = Some (heads @ [n])"
    using heads_of_cong [OF s'(2)] by simp
  obtain s4 where u': "unpack w sv tenv s' = (Inr (bnode, n), s4)"
    using oblivious_unpack [of w sv tenv] u by (metis oblivious_def fst_conv prod.collapse)
  have l': "loaded_thread (te_Thread tenv) s' \<noteq> None"
    using l loaded_thread_ids [OF s'(3)] by simp
  have "blocks_Get (bn_hash bnode) (ns_blocks s') \<noteq> None"
    using handled_block_stored [OF h] s'(1) by simp
  from Handle_known [OF u' l' this] heads' show ?thesis by simp
qed

theorem Handle_delivers_once_witness:
  "fst (Handle (sample_world (sample_block Block_LIKE None ''Z'')) sample_service sample_envelope
     (snd (Handle (sample_world (sample_block Block_LIKE None ''Z'')) sample_service sample_envelope sample_state)))
   = Inr Done"
proof -
  let ?w = "sample_world (sample_block Block_LIKE None ''Z'')"
  have "\<exists>s'. Handle ?w sample_service sample_envelope sample_state = (Inr (Tail sample_thread [] ''n1''), s')"
    by (simp add: Handle_def unpack_def sample_defs sample_service_def sample_envelope_def run_defs
        loaded_thread_def handle_def dispatch_def handleLikeBlock_def blocks_Get_def notifyBlock_def
        notification_for_def sendNotification_def notifications_Add_def
        SplitString_def TrimSpace_def is_space_def threads_enc_def threads_dec_def)
  then obtain s' where run: "Handle ?w sample_service sample_envelope sample_state
      = (Inr (Tail sample_thread [] ''n1''), s')" by blast
  have "\<forall>h\<in>set ([''x'', ''y''] @ [''n1'']). clean_word CHR '','' h"
    by (simp add: clean_word_def is_space_def)
  then have "fst (Handle ?w sample_service sample_envelope s') = Inr Done"
    using Handle_delivers_once [OF run sample_heads] by blast
  then show ?thesis by (simp add: run)
qed

text \<open>Handling the envelope of a stranger: an invite, a notification, and what is logged with them.\<close>

definition stranger_effect :: "effect \<Rightarrow> bool" where
  "stranger_effect e \<longleftrightarrow> ipfs_effect e \<or> (\<exists>n. e = NotificationSent n \<and> ntf_Type n = Notification_INVITE_RECEIVED)"

definition one_invite :: "string \<Rightarrow> invites_row sql_table \<Rightarrow> invites_row sql_table \<Rightarrow> bool" where
  "one_invite h t t' \<longleftrightarrow> t' = t \<or> (\<exists>r. t' = t @ [r] \<and> invites_id r = h \<and> h \<notin> invites_id ` set t)"

definition invite_notes :: "string \<Rightarrow> notifications_row sql_table \<Rightarrow> notifications_row sql_table \<Rightarrow> bool" where
  "invite_notes h t t' \<longleftrightarrow> (\<exists>n. t' = t @ n
     \<and> (\<forall>r\<in>set n. notifications_type r = NotificationType_to_int Notification_INVITE_RECEIVED
          \<and> notifications_blockId r = h))"

definition invited :: "string \<Rightarrow> node_state \<Rightarrow> node_state \<Rightarrow> bool" where
  "invited h s s' \<longleftrightarrow> same_tables s (s'\<lparr>ns_invites := ns_invites s, ns_notifications := ns_notifications s\<rparr>)
     \<and> logged stranger_effect s s'
     \<and> one_invite h (ns_invites s) (ns_invites s') \<and> invite_notes h (ns_notifications s) (ns_notifications s')"

lemma one_invite_trans: "one_invite h t u \<Longrightarrow> one_invite h u v \<Longrightarrow> one_invite h t v"
  by (auto simp: one_invite_def)

lemma invite_notes_trans: "invite_notes h t u \<Longrightarrow> invite_notes h u v \<Longrightarrow> invite_notes h t v"
  unfolding invite_notes_def by force

lemma invite_refl [simp]: "one_invite h t t" "invite_notes h n n"
  by (simp_all add: one_invite_def invite_notes_def)

interpretation invited: step_relation "invited h" for h
proof unfold_locales
  fix s t u :: node_state
  show "invited h s s" by (simp add: invited_def same_tables_def logged_same)
  assume st: "invited h s t" and tu: "invited h t u"
  have "s = t\<lparr>ns_invites := ns_invites s, ns_notifications := ns_notifications s, ns_effects := ns_effects s, ns_tick := ns_tick s\<rparr>"
    using st by (simp add: invited_def same_tables_def)
  also have "t = u\<lparr>ns_invites := ns_invites t, ns_notifications := ns_notifications t, ns_effects := ns_effects t, ns_tick := ns_tick t\<rparr>"
    using tu by (simp add: invited_def same_tables_def)
  finally have "same_tables s (u\<lparr>ns_invites := ns_invites s, ns_notifications := ns_notifications s\<rparr>)"
    by (simp add: same_tables_def)
  then show "invited h s u"
    using st tu logged_trans one_invite_trans invite_notes_trans unfolding invited_def by blast
qed

lemma invited_unpacks: "unpacks s s' \<Longrightarrow> invited h s s'"
proof -
  assume u: "unpacks s s'"
  then have s: "s'\<lparr>ns_effects := ns_effects s, ns_tick := ns_tick s\<rparr> = s" by (simp add: unpacks_def same_tables_def)
  have eq: "ns_invites s' = ns_invites s" "ns_notifications s' = ns_notifications s"
    using arg_cong [OF s, of ns_invites] arg_cong [OF s, of ns_notifications] by simp_all
  then have "s'\<lparr>ns_invites := ns_invites s, ns_notifications := ns_notifications s\<rparr> = s'" by simp
  moreover have "logged stranger_effect s s'" using u by (auto simp: unpacks_def logged_def stranger_effect_def)
  ultimately show "invited h s s'" unfolding invited_def using u eq by (simp only: unpacks_def invite_refl)
qed

lemma invited_handleAdd: "invited.keeps (bn_hash bnode) (handleAdd w sv tid bnode False)"
proof -
  have tick: "invited.keeps h (draw f)" for h and f :: "nat \<Rightarrow> 'a"
    by (intro invited.keepsI) (simp add: invited_def same_tables_def logged_same draw_def)
  have row: "one_invite (inv_Id i) t (snd (invites_Add now i t))" for now i t
    by (cases "\<exists>r\<in>set t. invites_id r = inv_Id i")
      (auto simp: one_invite_def invites_Add_def sql_insert_def go_seq_def go_bind_def go_require_def
        go_return_def go_fail_def invites_enc_def)
  have inv: "invited.keeps h (on_invites (invites_Add now i))" if "inv_Id i = h" for now i h
    using row [of i] that
    by (intro invited.keepsI)
      (simp add: invited_def same_tables_def logged_same on_invites_def go_on_def split_beta)
  have "invite_notes h t (snd (notifications_Add now n t))"
    if "ntf_Type n = Notification_INVITE_RECEIVED" "ntf_Block n = h" for h now n t
    using that
    by (auto simp: invite_notes_def notifications_Add_def sql_insert_def notifications_enc_def)
  then have noted: "invited.keeps h (on_notifications (notifications_Add now n))"
    if "ntf_Type n = Notification_INVITE_RECEIVED" "ntf_Block n = h" for h now n
    using that by (intro invited.keepsI) (simp add: invited_def same_tables_def logged_same on_notifications_run)
  have emit: "invited.keeps h (emit (NotificationSent n))" if "ntf_Type n = Notification_INVITE_RECEIVED" for h n
    using that
    by (auto intro!: invited.keepsI simp: invited_def same_tables_def logged_def stranger_effect_def emit_def go_modify_def)
  show ?thesis
    unfolding handleAdd_def prod.case if_False sendNotification_def TimestampNow_def new_ksuid_def
    by (intro invited.keeps_intros invited.keeps_sum tick inv noted emit) simp_all
qed

lemma Handle_stranger:
  assumes "loaded_thread (te_Thread tenv) s = None"
    and "\<forall>sig c. te_Sig tenv = Some sig \<longrightarrow> \<not> sv_verify sv c sig"
    and "Handle w sv tenv s = (r, s')"
  shows "\<exists>h. invited h s s'"
proof -
  obtain q s1 where u: "unpack w sv tenv s = (q, s1)" by fastforce
  have k: "unpacks s s1" by (rule unpacks.keeps_run [OF unpacks_unpack u])
  show ?thesis
  proof (cases q)
    case (Inl e)
    then show ?thesis using assms(3) u invited_unpacks [OF k] by (simp add: Handle_def go_bind_def)
  next
    case (Inr bn)
    obtain bnode nh where bn: "bn = (bnode, nh)" by fastforce
    have "ns_loaded s1 = ns_loaded s"
      using same.keeps_run [OF keeps_unpack u, of ns_loaded] by (simp add: same_def)
    then have l: "loaded_thread (te_Thread tenv) s1 = None" using assms(1) by (simp add: loaded_thread_def)
    have "(case te_Sig tenv of None \<Rightarrow> False | Some sig \<Rightarrow> sv_verify sv (bn_ciphertext bnode) sig) = False"
      using assms(2) by (auto split: option.splits)
    then have "go_seq (handleAdd w sv (te_Thread tenv) bnode False) (go_return Done) s1 = (r, s')"
      using assms(3) l
      by (simp add: Handle_def go_bind_get Let_def
          go_bind_step [where m = "unpack w sv tenv", OF u [unfolded Inr bn]])
    from invited.keeps_run [OF invited.keeps_seq [OF invited_handleAdd invited.keeps_return] this]
    show ?thesis using invited_unpacks [OF k] invited.trans by blast
  qed
qed

text \<open>C16. An envelope for a thread the node does not have, without a signature of one of the account's own
  keys, can at most leave an invite with its notification: the invite table has at most one row more,
  the invite's, the notification table at most rows that tell of this invite, and IPFS the objects
  of the envelope. Every other table, the configuration, the threads in memory and the requests in
  flight are as before: no thread is added or joined, whatever the envelope holds.\<close>

theorem stranger_cannot_make_me_join:
  assumes "loaded_thread (te_Thread tenv) s = None"
    and "\<forall>sig c. te_Sig tenv = Some sig \<longrightarrow> \<not> sv_verify sv c sig"
    and "Handle w sv tenv s = (r, s')"
  shows "same_tables s (s'\<lparr>ns_invites := ns_invites s, ns_notifications := ns_notifications s\<rparr>)
    \<and> (\<exists>h. (ns_invites s' = ns_invites s
           \<or> (\<exists>i. ns_invites s' = ns_invites s @ [i] \<and> invites_id i = h \<and> h \<notin> invites_id ` set (ns_invites s)))
         \<and> (\<exists>n. ns_notifications s' = ns_notifications s @ n
           \<and> (\<forall>row\<in>set n. notifications_type row = NotificationType_to_int Notification_INVITE_RECEIVED
                \<and> notifications_blockId row = h)))
    \<and> (\<exists>es. ns_effects s' = ns_effects s @ es \<and> (\<forall>e\<in>set es. (\<exists>d. e = IpfsAdd d) \<or> (\<exists>c b. e = IpfsPin c b)
          \<or> (\<exists>n. e = NotificationSent n \<and> ntf_Type n = Notification_INVITE_RECEIVED)))"
proof -
  obtain h where h: "invited h s s'" using Handle_stranger [OF assms] by blast
  then have "logged stranger_effect s s'" by (simp add: invited_def)
  then show ?thesis
    using h unfolding invited_def one_invite_def invite_notes_def logged_def stranger_effect_def ipfs_effect_def disj_assoc
    by blast
qed

theorem stranger_cannot_make_me_join_witness:
  "ns_loaded (snd (Handle (sample_world sample_text) sample_service (sample_envelope\<lparr>te_Thread := ''U''\<rparr>)
     sample_state)) = [sample_thread]"
proof -
  let ?e = "sample_envelope\<lparr>te_Thread := ''U''\<rparr>"
  obtain r s' where run: "Handle (sample_world sample_text) sample_service ?e sample_state = (r, s')"
    by fastforce
  have l: "loaded_thread (te_Thread ?e) sample_state = None"
    by (simp add: loaded_thread_def sample_state_def sample_thread_def)
  have v: "\<forall>sig c. te_Sig ?e = Some sig \<longrightarrow> \<not> sv_verify sample_service c sig"
    by (simp add: sample_service_def)
  have "same_tables sample_state (s'\<lparr>ns_invites := ns_invites sample_state, ns_notifications := ns_notifications sample_state\<rparr>)"
    using stranger_cannot_make_me_join [OF l v run] by blast
  then have "ns_loaded s' = ns_loaded sample_state"
    by (auto simp: same_tables_def dest: arg_cong [where f = ns_loaded])
  then have "ns_loaded s' = [sample_thread]" by (simp add: sample_state_def)
  then show ?thesis by (simp add: run)
qed

end
