(* ===== verification/QueueProps.thy ===== *)
theory QueueProps
  imports InboundProps
begin

text \<open>
  The properties of the queues: a download is tried a bounded number of times, the outbox
  empties when every message can be delivered and its batches end in any case, and a queued block
  waits for its cafe requests.
\<close>

section \<open>Downloads\<close>

text \<open>One flush of the pending download of a block.\<close>

definition try_download :: "world \<Rightarrow> string \<Rightarrow> node_state \<Rightarrow> node_state" where
  "try_download w bid s =
     (case blocks_Get bid (ns_blocks s) of None \<Rightarrow> s | Some dl \<Rightarrow> snd (BlockDownloads_handle w dl s))"

lemma blocks_AddAttempt_Get:
  assumes "find (\<lambda>r. blocks_id r = bid) t = Some r"
  shows "find (\<lambda>r. blocks_id r = bid) (snd (blocks_AddAttempt bid t)) = Some (r\<lparr>blocks_attempts := blocks_attempts r + 1\<rparr>)"
  unfolding blocks_AddAttempt_def sql_update_def go_modify_def snd_conv
  by (subst find_map_update [where key = blocks_id]) (simp_all add: assms)

lemma try_download_fails:
  assumes "w_dataAt w bid = Inl err"
    and "find (\<lambda>r. blocks_id r = bid) (ns_blocks s) = Some r" "0 \<le> blocks_attempts r" "blocks_attempts r < 5"
  shows "find (\<lambda>r. blocks_id r = bid) (ns_blocks (try_download w bid s))
    = (if blocks_attempts r + 1 < 5 then Some (r\<lparr>blocks_attempts := blocks_attempts r + 1\<rparr>) else None)"
proof -
  have id: "blocks_id r = bid" using assms(2) by (auto simp: find_Some_iff)
  have g: "blocks_Get bid (ns_blocks s) = Some (blocks_dec r)"
    using assms(2) by (simp add: blocks_Get_def first_row_select)
  have n: "int32 (blocks_attempts r) = blocks_attempts r" "int32 (blocks_attempts r + 1) = blocks_attempts r + 1"
    using assms(3,4) by (simp_all add: int32_id is_int32_alt)
  have run: "try_download w bid s = snd (BlockDownloads_handleErr err (blocks_dec r) s)"
    using assms(1) id by (simp add: try_download_def g BlockDownloads_handle_def blocks_dec_def)
  show ?thesis
  proof (cases "blocks_attempts r + 1 < 5")
    case True
    have "ns_blocks (try_download w bid s) = snd (blocks_AddAttempt bid (ns_blocks s))"
      using True id n
      by (simp add: run BlockDownloads_handleErr_def maxDownloadAttempts_def go_defs on_blocks_run
          blocks_dec_def split: sum.splits)
    then show ?thesis using blocks_AddAttempt_Get [OF assms(2)] True by simp
  next
    case False
    have "ns_blocks (try_download w bid s) = snd (blocks_Delete bid (ns_blocks s))"
      using False id n
      by (simp add: run BlockDownloads_handleErr_def maxDownloadAttempts_def go_defs on_blocks_run
          blocks_dec_def split: sum.splits)
    then show ?thesis using False by (simp add: blocks_Delete_def sql_delete_def go_modify_def find_None_iff)
  qed
qed

lemma try_download_gone:
  "find (\<lambda>r. blocks_id r = bid) (ns_blocks s) = None \<Longrightarrow> try_download w bid s = s"
  by (simp add: try_download_def blocks_Get_def first_row_select)

text \<open>C25. A pending download whose data cannot be fetched is kept with one more attempt for each try and
  is deleted by the try that makes the fifth attempt, never earlier and never later.\<close>

theorem download_is_given_up_after_five_attempts:
  assumes "w_dataAt w bid = Inl err"
    and "find (\<lambda>r. blocks_id r = bid) (ns_blocks s) = Some r" "0 \<le> blocks_attempts r" "blocks_attempts r < 5"
  shows "map_option blocks_attempts
      (find (\<lambda>r. blocks_id r = bid) (ns_blocks ((try_download w bid ^^ k) s)))
    = (if blocks_attempts r + int k < 5 then Some (blocks_attempts r + int k) else None)"
  using assms(2-4)
proof (induction k arbitrary: s r)
  case (Suc k)
  let ?s = "try_download w bid s" and ?r = "r\<lparr>blocks_attempts := blocks_attempts r + 1\<rparr>"
  note step = try_download_fails [OF assms(1) Suc.prems]
  show ?case
  proof (cases "blocks_attempts r + 1 < 5")
    case True
    have "(try_download w bid ^^ Suc k) s = (try_download w bid ^^ k) ?s" by (simp add: funpow_swap1)
    moreover have "map_option blocks_attempts (find (\<lambda>r. blocks_id r = bid) (ns_blocks ((try_download w bid ^^ k) ?s)))
      = (if blocks_attempts ?r + int k < 5 then Some (blocks_attempts ?r + int k) else None)"
      using Suc.IH [of ?s ?r] step True Suc.prems by simp
    ultimately show ?thesis by (simp add: algebra_simps)
  next
    case False
    then have gone: "find (\<lambda>r. blocks_id r = bid) (ns_blocks ?s) = None" using step by simp
    have "(try_download w bid ^^ k) ?s = ?s"
      by (induction k) (simp_all add: try_download_gone [OF gone])
    then show ?thesis using False gone Suc.prems by (simp add: funpow_swap1)
  qed
qed simp

text \<open>A pending row and a world where nothing can be fetched.\<close>

definition sample_pending :: blocks_row where
  "sample_pending = blocks_enc (sample_clock 0)
     \<lparr>blk_Id = ''b1'', blk_Thread = ''T'', blk_Author = [], blk_Type = Block_MERGE, blk_Date = None,
      blk_Parents = [], blk_Target = [], blk_Data = [], blk_Body = [], blk_Status = Block_PENDING,
      blk_Attempts = 0\<rparr>"

theorem download_is_given_up_after_five_attempts_witness:
  "find (\<lambda>r. blocks_id r = ''b1'') (ns_blocks ((try_download
      ((sample_world sample_text)\<lparr>w_dataAt := \<lambda>_. Inl ErrOffline\<rparr>) ''b1'' ^^ 5)
      (sample_state\<lparr>ns_blocks := [sample_pending]\<rparr>))) = None"
proof -
  let ?w = "(sample_world sample_text)\<lparr>w_dataAt := \<lambda>_. Inl ErrOffline\<rparr>"
  let ?s = "sample_state\<lparr>ns_blocks := [sample_pending]\<rparr>"
  have w: "w_dataAt ?w ''b1'' = Inl ErrOffline" by simp
  have f: "find (\<lambda>r. blocks_id r = ''b1'') (ns_blocks ?s) = Some sample_pending"
    by (simp add: sample_pending_def blocks_enc_def)
  have n: "0 \<le> blocks_attempts sample_pending" "blocks_attempts sample_pending < 5"
    by (simp_all add: sample_pending_def blocks_enc_def)
  have a: "\<not> blocks_attempts sample_pending + int 5 < 5" using n(1) by simp
  have "map_option blocks_attempts (find (\<lambda>r. blocks_id r = ''b1'') (ns_blocks ((try_download ?w ''b1'' ^^ 5) ?s)))
    = None"
    unfolding download_is_given_up_after_five_attempts [OF w f n, of 5] if_not_P [OF a] by (rule HOL.refl)
  then show ?thesis by simp
qed

section \<open>The block outbox\<close>

lemma keeps_BlockOutbox_handle:
  assumes "apart_from_cafe part"
  shows "keeps_part part (BlockOutbox_handle n w msg)"
  unfolding BlockOutbox_handle_def offline_inbox_def Let_def
  by (intro keeps_node same.keeps_sum assms)

lemma keeps_handle_all:
  assumes "apart_from_cafe part"
  shows "keeps_part part (handle_all n w msgs)"
  by (induction msgs) (auto intro!: keeps_node keeps_BlockOutbox_handle assms)

lemma delete_all_messages:
  "go_foreach (\<lambda>mid. on_block_messages (block_messages_Delete mid)) ids s
    = (Inr (), s\<lparr>ns_block_messages := filter (\<lambda>r. block_messages_id r \<notin> set ids) (ns_block_messages s)\<rparr>)"
proof (induction ids arbitrary: s)
  case (Cons i ids)
  have "on_block_messages (block_messages_Delete i) s
      = (Inr (), s\<lparr>ns_block_messages := filter (\<lambda>r. block_messages_id r \<noteq> i) (ns_block_messages s)\<rparr>)"
    by (simp add: on_block_messages_def go_on_def block_messages_Delete_def sql_delete_def go_modify_def)
  then show ?case by (simp add: go_seq_def go_bind_def Cons.IH conj_commute)
qed (simp add: go_return_def)

text \<open>The step of a batch, on the table of messages.\<close>

lemma batch_step:
  assumes "msgs \<noteq> []" "handle_all n w msgs s = (Inr ids, s1)"
  shows "BlockOutbox_batch (Suc fuel) n w msgs s
    = BlockOutbox_batch fuel n w
        (block_messages_List (bm_Id (last msgs)) blockFlushGroupSize (ns_block_messages s))
        (s1\<lparr>ns_block_messages := filter (\<lambda>r. block_messages_id r \<notin> set ids) (ns_block_messages s)\<rparr>)"
proof -
  have "ns_block_messages s1 = ns_block_messages s"
    using same.keeps_run [OF keeps_handle_all assms(2), of ns_block_messages] by (simp add: same_def)
  then show ?thesis
    using assms by (simp add: go_bind_def go_seq_def go_get_def delete_all_messages)
qed

lemma block_messages_dec_enc_id [simp]: "bm_Id (block_messages_dec r) = block_messages_id r"
  by (simp add: block_messages_dec_def)

lemma handle_all_success:
  assumes "\<And>msg s. \<exists>s'. BlockOutbox_handle n w msg s = (Inr (), s')"
  shows "\<exists>s'. handle_all n w msgs s = (Inr (map bm_Id msgs), s')"
proof (induction msgs arbitrary: s)
  case (Cons m msgs)
  obtain s1 where 1: "BlockOutbox_handle n w m s = (Inr (), s1)" using assms by blast
  obtain s2 where 2: "handle_all n w msgs s1 = (Inr (map bm_Id msgs), s2)" using Cons.IH by blast
  show ?case by (simp add: go_defs 1 2)
qed (simp add: go_return_def)

text \<open>The page of rows after a row that is in the table.\<close>

lemma messages_page:
  assumes "offset \<noteq> []"
  shows "block_messages_List offset limit t = map block_messages_dec
    (page_after block_messages_date
       (sql_scalar block_messages_date (\<lambda>x. block_messages_id x = offset) t) limit t)"
  using assms by (simp add: block_messages_List_def page_after_def)

lemma batch_empties:
  assumes deliver: "\<And>msg s. \<exists>s'. BlockOutbox_handle n w msg s = (Inr (), s')"
  shows "distinct (map block_messages_id (ns_block_messages s)) \<Longrightarrow>
    distinct (map block_messages_date (ns_block_messages s)) \<Longrightarrow>
    \<forall>r\<in>set (ns_block_messages s). block_messages_id r \<noteq> [] \<Longrightarrow>
    length (ns_block_messages s) \<le> fuel \<Longrightarrow>
    \<exists>s'. BlockOutbox_batch fuel n w
          (map block_messages_dec (sql_limit 16 (order_asc block_messages_date (ns_block_messages s)))) s
        = (Inr (), s') \<and> ns_block_messages s' = []"
proof (induction fuel arbitrary: s)
  case 0
  then show ?case by (simp add: order_asc_def sql_limit_def go_return_def)
next
  case (Suc fuel)
  define t where "t = ns_block_messages s"
  define rest where "rest = order_asc block_messages_date t"
  define pg where "pg = take 16 rest"
  have lim: "sql_limit 16 xs = take 16 xs" for xs :: "block_messages_row list" by (simp add: sql_limit_def)
  have mrest: "mset rest = mset t" by (simp add: rest_def)
  have did: "distinct (map block_messages_id rest)" and ddate: "distinct (map block_messages_date rest)"
    using Suc.prems(1,2) mset_eq_imp_distinct_iff [of "map block_messages_id rest" "map block_messages_id t"]
      mset_eq_imp_distinct_iff [of "map block_messages_date rest" "map block_messages_date t"] mrest
    by (simp_all add: t_def mset_map)
  show ?case
  proof (cases "t = []")
    case True
    then show ?thesis by (simp add: t_def order_asc_def sql_limit_def go_return_def)
  next
    case False
    then have ne: "pg \<noteq> []" and rne: "rest \<noteq> []" using mrest by (auto simp: pg_def)
    have split: "rest = butlast pg @ last pg # drop 16 rest"
      using ne by (metis append_take_drop_id append_butlast_last_id append.assoc append_Cons append_Nil pg_def)
    have in_t: "last pg \<in> set t" using mrest ne by (metis last_in_set in_set_takeD pg_def set_mset_mset)
    obtain s1 where h: "handle_all n w (map block_messages_dec pg) s
        = (Inr (map bm_Id (map block_messages_dec pg)), s1)"
      using handle_all_success [OF deliver] by blast
    define s2 where "s2 = s1\<lparr>ns_block_messages := filter (\<lambda>r. block_messages_id r \<notin>
        set (map bm_Id (map block_messages_dec pg))) t\<rparr>"
    have scal: "sql_scalar block_messages_date (\<lambda>x. block_messages_id x = block_messages_id (last pg)) t
        = Some (block_messages_date (last pg))"
      using find_key_distinct [of block_messages_id t "last pg"] Suc.prems(1) in_t
      by (simp add: sql_scalar_def t_def)
    have nid: "block_messages_id (last pg) \<noteq> []" using Suc.prems(3) in_t by (simp add: t_def)
    have dt: "distinct (map block_messages_date t)" using Suc.prems(2) by (simp add: t_def)
    have nxt: "block_messages_List (block_messages_id (last pg)) 16 t = map block_messages_dec (take 16 (drop 16 rest))"
      using next_page [OF dt, of "butlast pg" "last pg" "drop 16 rest" 16] split
      by (simp add: messages_page [OF nid] scal rest_def [symmetric] lim)
    have left: "order_asc block_messages_date (ns_block_messages s2) = drop 16 rest"
    proof -
      have "order_asc block_messages_date (ns_block_messages s2)
          = filter (\<lambda>r. block_messages_id r \<notin> block_messages_id ` set pg) rest"
        by (simp add: s2_def rest_def order_asc_def filter_sort image_image)
      also have "\<dots> = filter (\<lambda>r. block_messages_id r \<notin> block_messages_id ` set pg) (pg @ drop 16 rest)"
        by (simp add: pg_def)
      also have "\<dots> = drop 16 rest"
      proof -
        have "block_messages_id ` set pg \<inter> block_messages_id ` set (drop 16 rest) = {}"
          using did by (metis pg_def append_take_drop_id map_append distinct_append set_map)
        then show ?thesis by (auto simp: filter_empty_conv intro!: filter_True)
      qed
      finally show ?thesis .
    qed
    have len: "length (ns_block_messages s2) \<le> fuel"
    proof -
      have "length (ns_block_messages s2) = length (drop 16 rest)"
        using arg_cong [OF left, of length] by (simp add: order_asc_def)
      moreover have "length rest = length t" using mrest by (metis size_mset)
      moreover have "0 < length t" using False by simp
      ultimately show ?thesis using Suc.prems(4) by (simp add: t_def)
    qed
    have sub: "ns_block_messages s2 = filter (\<lambda>r. block_messages_id r \<notin> block_messages_id ` set pg) (ns_block_messages s)"
      by (simp add: s2_def t_def image_image)
    have "\<exists>s'. BlockOutbox_batch fuel n w
          (map block_messages_dec (sql_limit 16 (order_asc block_messages_date (ns_block_messages s2)))) s2
        = (Inr (), s') \<and> ns_block_messages s' = []"
      by (rule Suc.IH) (use Suc.prems(1-3) len in \<open>auto simp: sub distinct_map_filter_key\<close>)
    moreover have "BlockOutbox_batch (Suc fuel) n w (map block_messages_dec pg) s
        = BlockOutbox_batch fuel n w (map block_messages_dec (take 16 (drop 16 rest))) s2"
    proof -
      have ne': "map block_messages_dec pg \<noteq> []" using ne by simp
      have "bm_Id (last (map block_messages_dec pg)) = block_messages_id (last pg)"
        using ne by (simp add: last_map)
      then show ?thesis
        using nxt by (simp only: batch_step [OF ne' h] blockFlushGroupSize_def s2_def t_def)
    qed
    ultimately show ?thesis
      by (simp add: left lim pg_def rest_def t_def)
  qed
qed

text \<open>C21. When every message can be handed over, to the peer, to the network or to the cafes of the peer, and the
  messages have distinct non-empty ids and distinct dates, one flush of the outbox goes through all its pages and
  leaves it empty. The dates matter: a page starts after the date of the last message of the page before, so a
  message with that same date is skipped and stays for a later flush.\<close>

theorem Flush_empties_the_outbox:
  assumes "\<And>msg s. \<exists>s'. BlockOutbox_handle n w msg s = (Inr (), s')"
    and "distinct (map block_messages_id (ns_block_messages s))"
    and "distinct (map block_messages_date (ns_block_messages s))"
    and "\<forall>r\<in>set (ns_block_messages s). block_messages_id r \<noteq> []"
  shows "\<exists>s'. BlockOutbox_Flush n w s = (Inr (), s') \<and> ns_block_messages s' = []"
  using batch_empties [OF assms, of "length (ns_block_messages s)"]
  by (simp add: BlockOutbox_Flush_def block_messages_List_def blockFlushGroupSize_def sql_select_def)

text \<open>A net that reaches every peer, and two messages in the outbox.\<close>

definition sample_net :: net where
  "sample_net = \<lparr>net_online = True, net_connected = (\<lambda>_. Inr True), net_send = (\<lambda>_ _. Inr ()),
     net_publish = (\<lambda>_. Inr ()), net_marshal = (\<lambda>_. Inr [])\<rparr>"

definition sample_message :: "string \<Rightarrow> int \<Rightarrow> block_messages_row" where
  "sample_message i d = \<lparr>block_messages_id = i, block_messages_peerId = ''P2'',
     block_messages_envelope = sample_env ''T'' [], block_messages_date = d\<rparr>"

theorem Flush_empties_the_outbox_witness:
  "ns_block_messages (snd (BlockOutbox_Flush sample_net (sample_world sample_text)
     (sample_state\<lparr>ns_block_messages := [sample_message ''m1'' 2, sample_message ''m2'' 1]\<rparr>))) = []"
proof -
  let ?s = "sample_state\<lparr>ns_block_messages := [sample_message ''m1'' 2, sample_message ''m2'' 1]\<rparr>"
  have d: "\<exists>s'. BlockOutbox_handle (sample_net\<lparr>net_send := \<lambda>_ _. Inr ()\<rparr>) (sample_world sample_text) msg s = (Inr (), s')"
    for msg s
    by (simp add: BlockOutbox_handle_def sample_net_def offline_inbox_def net_send_message_def go_defs
        split: option.splits)
  have n: "sample_net\<lparr>net_send := \<lambda>_ _. Inr ()\<rparr> = sample_net" by (simp add: sample_net_def)
  have "\<exists>s'. BlockOutbox_Flush sample_net (sample_world sample_text) ?s = (Inr (), s') \<and> ns_block_messages s' = []"
    by (rule Flush_empties_the_outbox [OF d [unfolded n]]) (simp_all add: sample_message_def)
  then show ?thesis by auto
qed

text \<open>What is left to page through after a page.\<close>

definition later :: "block_messages_row list \<Rightarrow> BlockMessage list \<Rightarrow> nat" where
  "later t msgs = (if msgs = [] then 0 else rows_left block_messages_id block_messages_date t (bm_Id (last msgs)))"

lemma later_next:
  assumes "distinct (map block_messages_id t)" "offset = bm_Id (last msgs)" "offset \<noteq> []" "msgs \<noteq> []"
  shows "later (filter (\<lambda>r. block_messages_id r \<notin> A) t) (block_messages_List offset limit t) < later t msgs"
proof (cases "block_messages_List offset limit t = []")
  case True
  then show ?thesis using assms(4) by (simp add: later_def rows_left_def)
next
  case False
  let ?b = "sql_scalar block_messages_date (\<lambda>x. block_messages_id x = offset) t"
  let ?page = "page_after block_messages_date ?b limit t"
  have pg: "block_messages_List offset limit t = map block_messages_dec ?page"
    using messages_page [OF assms(3)] .
  then have ne: "?page \<noteq> []" using False by auto
  have r: "last ?page \<in> set t" "sql_greater ?b (block_messages_date (last ?page))"
    using last_in_set [OF ne] unfolding page_after_def using sql_limit_subset by (fastforce simp: sql_select_def)+
  have "shrinks block_messages_id block_messages_date t (filter (\<lambda>r. block_messages_id r \<notin> A) t)"
    by (rule shrinks_filter) simp
  from rows_left_less [OF assms(1) this r] show ?thesis
    using ne assms(4) by (simp add: later_def pg last_map assms(2) [symmetric])
qed

lemma batch_fuel:
  "later (ns_block_messages s) msgs \<le> f1 \<Longrightarrow> later (ns_block_messages s) msgs \<le> f2 \<Longrightarrow>
   distinct (map block_messages_id (ns_block_messages s)) \<Longrightarrow>
   \<forall>r\<in>set (ns_block_messages s). block_messages_id r \<noteq> [] \<Longrightarrow>
   (msgs \<noteq> [] \<Longrightarrow> bm_Id (last msgs) \<noteq> []) \<Longrightarrow>
   BlockOutbox_batch f1 n w msgs s = BlockOutbox_batch f2 n w msgs s"
proof (induction f1 arbitrary: f2 msgs s)
  case 0
  then show ?case by (cases f2) (auto simp: later_def rows_left_def split: if_splits)
next
  case (Suc f1)
  show ?case
  proof (cases "msgs = []")
    case True
    then show ?thesis by (cases f2) simp_all
  next
    case False
    then obtain g where f2: "f2 = Suc g" using Suc.prems(2) by (cases f2) (auto simp: later_def rows_left_def)
    obtain r s1 where h: "handle_all n w msgs s = (r, s1)" by fastforce
    show ?thesis
    proof (cases r)
      case (Inl e)
      then show ?thesis using h False by (simp add: f2 go_bind_def)
    next
      case (Inr ids)
      note h = h [unfolded Inr]
      let ?t = "ns_block_messages s"
      let ?next = "block_messages_List (bm_Id (last msgs)) blockFlushGroupSize ?t"
      let ?s = "s1\<lparr>ns_block_messages := filter (\<lambda>r. block_messages_id r \<notin> set ids) ?t\<rparr>"
      have nid: "bm_Id (last msgs) \<noteq> []" using Suc.prems(5) False by simp
      have less: "later (filter (\<lambda>r. block_messages_id r \<notin> set ids) ?t) ?next < later ?t msgs"
        by (rule later_next [OF Suc.prems(3) HOL.refl nid False])
      have "BlockOutbox_batch f1 n w ?next ?s = BlockOutbox_batch g n w ?next ?s"
      proof (rule Suc.IH)
        assume ne: "?next \<noteq> []"
        have "set ?next \<subseteq> block_messages_dec ` set ?t"
          by (auto simp: block_messages_List_def sql_limit_def sql_select_def order_asc_def dest: in_set_takeD split: if_splits)
        then show "bm_Id (last ?next) \<noteq> []" using Suc.prems(4) last_in_set [OF ne] by fastforce
      qed (use less Suc.prems f2 in \<open>auto simp: distinct_map_filter_key\<close>)
      then show ?thesis by (simp only: f2 batch_step [OF False h])
    qed
  qed
qed

text \<open>With enough fuel the only errors are those of handling a page: the fuel does not run out.\<close>

lemma batch_errors:
  "later (ns_block_messages s) msgs \<le> fuel \<Longrightarrow> distinct (map block_messages_id (ns_block_messages s)) \<Longrightarrow>
   \<forall>r\<in>set (ns_block_messages s). block_messages_id r \<noteq> [] \<Longrightarrow>
   (msgs \<noteq> [] \<Longrightarrow> bm_Id (last msgs) \<noteq> []) \<Longrightarrow> fst (BlockOutbox_batch fuel n w msgs s) = Inl e \<Longrightarrow>
   \<exists>page u. fst (handle_all n w page u) = Inl e"
proof (induction fuel arbitrary: msgs s)
  case 0
  then show ?case by (auto simp: later_def rows_left_def go_return_def split: if_splits)
next
  case (Suc fuel)
  show ?case
  proof (cases "msgs = []")
    case True
    then show ?thesis using Suc.prems(5) by (simp add: go_return_def)
  next
    case False
    obtain r s1 where h: "handle_all n w msgs s = (r, s1)" by fastforce
    show ?thesis
    proof (cases r)
      case (Inl e')
      then have "e' = e" using h False Suc.prems(5) by (simp add: go_bind_def)
      then show ?thesis using h Inl by (intro exI [of _ msgs] exI [of _ s]) simp
    next
      case (Inr ids)
      note h = h [unfolded Inr]
      let ?t = "ns_block_messages s"
      let ?next = "block_messages_List (bm_Id (last msgs)) blockFlushGroupSize ?t"
      let ?s = "s1\<lparr>ns_block_messages := filter (\<lambda>r. block_messages_id r \<notin> set ids) ?t\<rparr>"
      have less: "later (filter (\<lambda>r. block_messages_id r \<notin> set ids) ?t) ?next < later ?t msgs"
        by (rule later_next [OF Suc.prems(2) HOL.refl _ False]) (use Suc.prems(4) False in simp)
      have err: "fst (BlockOutbox_batch fuel n w ?next ?s) = Inl e"
        using Suc.prems(5) batch_step [OF False h] by simp
      show ?thesis
      proof (rule Suc.IH [OF _ _ _ _ err])
        assume ne: "?next \<noteq> []"
        have "set ?next \<subseteq> block_messages_dec ` set ?t"
          by (auto simp: block_messages_List_def sql_limit_def sql_select_def order_asc_def dest: in_set_takeD split: if_splits)
        then show "bm_Id (last ?next) \<noteq> []" using Suc.prems(3) last_in_set [OF ne] by fastforce
      qed (use less Suc.prems in \<open>auto simp: distinct_map_filter_key\<close>)
    qed
  qed
qed

text \<open>C22. The batches of the outbox end, whatever the network answers: the number of messages bounds the
  pages a flush goes through, a larger fuel never changes its result, and the fuel never runs out:
  the only errors are those of handling a page. This needs the ids of the messages to be distinct,
  which the primary key ensures, and not empty.\<close>

theorem Flush_pages_are_bounded:
  assumes "distinct (map block_messages_id (ns_block_messages s))"
    and "\<forall>r\<in>set (ns_block_messages s). block_messages_id r \<noteq> []"
    and "length (ns_block_messages s) \<le> fuel"
  shows "BlockOutbox_batch fuel n w (block_messages_List [] blockFlushGroupSize (ns_block_messages s)) s
    = BlockOutbox_Flush n w s
    \<and> (\<forall>e. fst (BlockOutbox_Flush n w s) = Inl e \<longrightarrow> (\<exists>page u. fst (handle_all n w page u) = Inl e))"
proof -
  let ?t = "ns_block_messages s"
  let ?page = "take 16 (order_asc block_messages_date ?t)"
  have pg: "block_messages_List [] blockFlushGroupSize ?t = map block_messages_dec ?page"
    by (simp add: block_messages_List_def blockFlushGroupSize_def sql_limit_def sql_select_def)
  have last: "last ?page \<in> set ?t" if "?page \<noteq> []"
    using last_in_set [OF that] by (auto dest: in_set_takeD)
  have bound: "later ?t (map block_messages_dec ?page) \<le> length ?t"
    using rows_left_bound [OF assms(1) last] by (auto simp: later_def last_map)
  have ids: "bm_Id (last (map block_messages_dec ?page)) \<noteq> []" if "map block_messages_dec ?page \<noteq> []"
    using that last assms(2) by (simp add: last_map)
  have eq: "BlockOutbox_batch fuel n w (map block_messages_dec ?page) s = BlockOutbox_Flush n w s"
    unfolding BlockOutbox_Flush_def pg
    by (rule batch_fuel) (use bound assms ids in auto)
  have "\<exists>page u. fst (handle_all n w page u) = Inl e" if "fst (BlockOutbox_Flush n w s) = Inl e" for e
    using batch_errors [OF bound assms(1,2) ids] that unfolding BlockOutbox_Flush_def pg by blast
  with eq show ?thesis unfolding pg by blast
qed

text \<open>Two messages that no peer, network or cafe takes.\<close>

theorem Flush_pages_are_bounded_witness:
  "BlockOutbox_batch 5 (sample_net\<lparr>net_send := \<lambda>_ _. Inl any_error\<rparr>) (sample_world sample_text)
     (block_messages_List [] blockFlushGroupSize [sample_message ''m1'' 2, sample_message ''m2'' 1])
     (sample_state\<lparr>ns_block_messages := [sample_message ''m1'' 2, sample_message ''m2'' 1]\<rparr>)
   = BlockOutbox_Flush (sample_net\<lparr>net_send := \<lambda>_ _. Inl any_error\<rparr>) (sample_world sample_text)
     (sample_state\<lparr>ns_block_messages := [sample_message ''m1'' 2, sample_message ''m2'' 1]\<rparr>)"
proof -
  let ?s = "sample_state\<lparr>ns_block_messages := [sample_message ''m1'' 2, sample_message ''m2'' 1]\<rparr>"
  have "distinct (map block_messages_id (ns_block_messages ?s))" by (simp add: sample_message_def)
  moreover have "\<forall>r\<in>set (ns_block_messages ?s). block_messages_id r \<noteq> []" by (simp add: sample_message_def)
  moreover have "length (ns_block_messages ?s) \<le> 5" by simp
  ultimately show ?thesis
    using Flush_pages_are_bounded [of ?s 5 "sample_net\<lparr>net_send := \<lambda>_ _. Inl any_error\<rparr>" "sample_world sample_text"] by simp
qed

section \<open>Queued blocks\<close>

text \<open>A queued block is not posted before its data is on the cafes: as long as one cafe request of its
  sync group is new, pending or of any state but complete, flushing the block does nothing at all.\<close>

lemma queued_block_waits_for_its_requests:
  assumes "r \<in> set (ns_cafe_requests s)" "cafe_requests_syncGroupId r = blk_Id block"
    and "cafe_requests_status r \<noteq> RequestStatus_to_int CafeRequest_COMPLETE"
  shows "flush_queued n w cafeFlush block s = (Inr (), s)"
  using assms
  by (auto simp: flush_queued_def go_bind_get SyncGroupComplete_iff sync_done_def go_when_def go_return_def)

definition sample_cafe :: Cafe where
  "sample_cafe = \<lparr>cafe_Peer = ''c'', cafe_Address = ''C'', cafe_Api = ''v1'', cafe_Protocol = [],
     cafe_Node = [], cafe_Url = []\<rparr>"

definition sample_request :: cafe_requests_row where
  "sample_request = \<lparr>cafe_requests_id = ''r1'', cafe_requests_peerId = ''P0'', cafe_requests_targetId = ''h1'',
     cafe_requests_cafeId = ''c'', cafe_requests_cafe = sample_cafe, cafe_requests_groupId = ''g'',
     cafe_requests_syncGroupId = ''h1'', cafe_requests_type = 0, cafe_requests_date = 1,
     cafe_requests_size = 1, cafe_requests_status = 1, cafe_requests_attempts = 0,
     cafe_requests_groupSize = 0, cafe_requests_groupTransferred = 0\<rparr>"

end
