(* ===== verification/StoreProps.thy ===== *)
theory StoreProps
  imports QueueProps
begin

text \<open>
  The properties of the stores: the columns and models that survive a round trip, the replacement of
  a block, the sync groups of cafe requests, the messages of cafe clients, the choice of a user's
  name, the account of the configuration, and what the peer store does to late updates.
\<close>

section \<open>Columns\<close>

text \<open>Times survive the database: the nanoseconds of every 64-bit column value read as a normal
  timestamp that is written as the same value, also before 1970 where the remainder of Go's
  division is negative, and every normal timestamp in range is read back as it was written.\<close>

lemma timestamps_round_trip:
  assumes "is_int64 n" and "normal_ts x" "is_int64 (Seconds x * 1000000000 + Nanos x)"
  shows "normal_ts (ProtoTs n) \<and> ProtoNanos now (Some (ProtoTs n)) = n
    \<and> ProtoTs (ProtoNanos now (Some x)) = x"
  using ProtoTs_normal [OF assms(1)] ProtoNanos_ProtoTs_eq [OF assms(1)] ProtoTs_ProtoNanos_eq [OF assms(2,3)]
  by simp

text \<open>The list columns (heads, parents, members, targets) are read back as they were written when the
  words are clean, as hashes and ids are; words that are not clean never come back as such: every
  word that is read is free of the separator and not empty.\<close>

lemma list_column_round_trip:
  assumes "\<forall>w\<in>set ws. clean_word sep w"
  shows "SplitString (Join [sep] ws) sep = ws \<and> (\<forall>w\<in>set (SplitString col sep). w \<noteq> [])"
  using SplitString_Join [OF assms] SplitString_words by blast

section \<open>Blocks\<close>

text \<open>The block table returns a stored block unchanged and touches no other one: adding fails on a
  known id and changes nothing, replacing overwrites all columns but keeps the number of attempts
  the row had.\<close>

lemma block_store_reads_what_it_wrote:
  assumes "blocks_good b"
  shows "(case blocks_Add now b t of
        (Inl e, t') \<Rightarrow> blocks_Get (blk_Id b) t \<noteq> None \<and> t' = t \<and> ConflictError e
      | (Inr _, t') \<Rightarrow> blocks_Get i t' = (if i = blk_Id b then Some b else blocks_Get i t))
    \<and> blocks_Get i (snd (blocks_Replace now b t)) =
        (if i = blk_Id b
         then Some (case blocks_Get i t of None \<Rightarrow> b | Some old \<Rightarrow> b\<lparr>blk_Attempts := blk_Attempts old\<rparr>)
         else blocks_Get i t)"
proof
  show "case blocks_Add now b t of
        (Inl e, t') \<Rightarrow> blocks_Get (blk_Id b) t \<noteq> None \<and> t' = t \<and> ConflictError e
      | (Inr _, t') \<Rightarrow> blocks_Get i t' = (if i = blk_Id b then Some b else blocks_Get i t)"
  proof (cases "blk_Id b \<in> blocks_id ` set t")
    case True
    then show ?thesis
      using blocks_store.insert_taken [OF True, of "''blocks.id''" now]
      by (simp add: blocks_Add_def blocks_Get_lookup blocks_store.lookup_None_iff ConflictError_def)
  next
    case False
    from blocks_store.insert_fresh [OF False, of "''blocks.id''" now]
    have r: "blocks_Add now b t = (Inr (), t @ [blocks_enc now b])" by (simp add: blocks_Add_def)
    show ?thesis
      using blocks_store.lookup_insert [OF assms r [unfolded blocks_Add_def], of i]
      by (simp add: r blocks_Get_lookup)
  qed
  show "blocks_Get i (snd (blocks_Replace now b t)) =
        (if i = blk_Id b
         then Some (case blocks_Get i t of None \<Rightarrow> b | Some old \<Rightarrow> b\<lparr>blk_Attempts := blk_Attempts old\<rparr>)
         else blocks_Get i t)"
  proof -
    define n where "n = (case find (\<lambda>r. blocks_id r = blk_Id b) t of None \<Rightarrow> blk_Attempts b
      | Some r \<Rightarrow> blocks_attempts r)"
    have enc: "snd (blocks_Replace now b t)
        = filter (\<lambda>r. blocks_id r \<noteq> blk_Id b) t @ [(blocks_enc now b)\<lparr>blocks_attempts := n\<rparr>]"
      by (auto simp: blocks_Replace_def sql_replace_def go_modify_def sql_scalar_def n_def blocks_enc_def
          split: option.splits)
    have upd: "blocks_dec (r\<lparr>blocks_attempts := m\<rparr>) = (blocks_dec r)\<lparr>blk_Attempts := int32 m\<rparr>" for r m
      by (simp add: blocks_dec_def)
    have dec: "blocks_dec ((blocks_enc now b)\<lparr>blocks_attempts := n\<rparr>) = b\<lparr>blk_Attempts := int32 n\<rparr>"
      by (simp only: upd blocks_store.dec_enc [OF assms])
    have other: "find (\<lambda>r. blocks_id r = i) (filter (\<lambda>r. blocks_id r \<noteq> blk_Id b) t @ [x])
        = (if i = blk_Id b then Some x else find (\<lambda>r. blocks_id r = i) t)" if "blocks_id x = blk_Id b" for x
      using that by (induction t) auto
    have i32: "is_int32 (blk_Attempts b)" using assms by (simp add: blocks_good_def)
    have get: "blocks_Get j t = map_option blocks_dec (find (\<lambda>r. blocks_id r = j) t)" for j t
      by (simp add: blocks_Get_def first_row_select)
    have new: "blocks_id ((blocks_enc now b)\<lparr>blocks_attempts := n\<rparr>) = blk_Id b" by (simp add: blocks_enc_def)
    have "blocks_Get i (snd (blocks_Replace now b t))
        = (if i = blk_Id b then Some (b\<lparr>blk_Attempts := int32 n\<rparr>) else blocks_Get i t)"
      by (simp add: get enc other [OF new] dec)
    moreover have "Some (b\<lparr>blk_Attempts := int32 n\<rparr>)
        = Some (case blocks_Get (blk_Id b) t of None \<Rightarrow> b | Some old \<Rightarrow> b\<lparr>blk_Attempts := blk_Attempts old\<rparr>)"
      by (cases "find (\<lambda>r. blocks_id r = blk_Id b) t")
        (simp_all add: get n_def int32_id [OF i32] blocks_dec_def)
    ultimately show ?thesis by simp
  qed
qed

section \<open>Sync groups\<close>

text \<open>Deleting the complete sync groups removes a request exactly when every request of its sync group
  is complete; groups with a request that is new or pending stay whole and in order.\<close>

lemma complete_sync_groups_are_deleted:
  "snd (DeleteCompleteSyncGroups t) = filter (\<lambda>r. \<not> SyncGroupComplete (cafe_requests_syncGroupId r) t) t
   \<and> (SyncGroupComplete sg t \<longleftrightarrow> {cafe_requests_status r |r. r \<in> set t \<and> cafe_requests_syncGroupId r = sg}
        \<subseteq> {RequestStatus_to_int CafeRequest_COMPLETE})"
  by (auto simp: DeleteCompleteSyncGroups_eq SyncGroupComplete_iff sync_done_def)

section \<open>Messages of clients\<close>

text \<open>Deleting the messages of a client by page deletes by message id alone: a message of another
  client goes too exactly when the client has a message with the same id, that is, when the same
  envelope was delivered to both.\<close>

lemma DeleteByClient_deletes_by_id:
  assumes "limit \<le> 0"
  shows "snd (client_messages_DeleteByClient c limit t)
    = filter (\<lambda>r. (cafe_client_messages_id r, c)
        \<notin> (\<lambda>x. (cafe_client_messages_id x, cafe_client_messages_clientId x)) ` set t) t"
  using assms
  by (auto simp: client_messages_DeleteByClient_def sql_delete_def go_modify_def sql_select_def Let_def
      intro!: filter_cong)

section \<open>Users\<close>

text \<open>The user of a peer is made of all peers with its address: name and avatar are each the first one
  that is set, newest update first, and a user without a name gets the first seven characters of a
  long enough address.\<close>

lemma best_user_is_newest_set:
  "peers_GetBestUser pid t =
     (let addr = sql_scalar peers_address (\<lambda>r. peers_id r = pid) t;
          rows = order_desc peers_updated (filter (\<lambda>r. Some (peers_address r) = addr) t);
          name = first_set (map peers_username rows);
          short = (if the addr \<noteq> [] \<and> name = [] \<and> 7 \<le> length (the addr) then take 7 (the addr) else name)
      in if rows = [] then None
         else Some \<lparr>user_Address = the addr, user_Name = short, user_Avatar = first_set (map peers_avatar rows)\<rparr>)"
  by (auto simp: peers_GetBestUser_def sql_select_def Let_def fill_user_eq ensureName_def split: list.splits)

section \<open>Configuration\<close>

text \<open>The account seed that the configuration stores is the account it returns, whatever base58 codec
  is used, as long as decoding inverts encoding.\<close>

lemma account_survives_the_configuration:
  assumes "base58_inverse enc58 dec58" "Encode enc58 VersionByteSeed p = Inr seed"
    and "config_Configure seed created t = (Inr u, t')"
  shows "config_GetAccount dec58 t' = Inr (Some (Full seed))"
  by (rule GetAccount_Configure [OF assms])

end
