(* ===== verification/Views.thy ===== *)
theory Views
  imports ThreadsAdmin
begin

text \<open>
  What a node shows of its stores: blocks without the ignored ones (\<^verbatim>\<open>core/blocks.go\<close>), the user of a
  peer (\<^verbatim>\<open>core/peers.go\<close>), invites (\<^verbatim>\<open>core/invites.go\<close>), notifications and the operations on them
  (\<^verbatim>\<open>core/notifications.go\<close>), contacts (\<^verbatim>\<open>core/contacts.go\<close>) and the profile (\<^verbatim>\<open>core/profile.go\<close>).
\<close>

section \<open>Blocks\<close>

definition blockIgnored :: "string \<Rightarrow> node_state \<Rightarrow> bool" where
  "blockIgnored bid s \<longleftrightarrow>
     0 < length (blocks_List [] (- 1)
           (\<lambda>r. blocks_target r = bid \<and> blocks_type r = BlockType_to_int Block_IGNORE) (ns_blocks s))"

definition Textile_Blocks :: "string \<Rightarrow> int \<Rightarrow> (blocks_row \<Rightarrow> bool) \<Rightarrow> node_state \<Rightarrow> Block list" where
  "Textile_Blocks offset limit Q s =
     filter (\<lambda>block. \<not> blockIgnored (blk_Id block) s) (blocks_List offset limit Q (ns_blocks s))"

definition Textile_Block :: "string \<Rightarrow> node_state \<Rightarrow> goerr + Block" where
  "Textile_Block bid s =
     (case blocks_Get bid (ns_blocks s) of None \<Rightarrow> Inl ErrBlockNotFound | Some b \<Rightarrow> Inr b)"

definition BlockByParent :: "world \<Rightarrow> string \<Rightarrow> Block node_op" where
  "BlockByParent w parent =
     go_bind (blockCIDFromNode w parent) (\<lambda>hash.
     go_bind (go_get (Textile_Block hash)) go_lift)"

definition BlocksByTarget :: "string \<Rightarrow> node_state \<Rightarrow> Block list" where
  "BlocksByTarget target s = blocks_List [] (- 1) (\<lambda>r. blocks_target r = target) (ns_blocks s)"

section \<open>Users\<close>

text \<open>\<open>ipfs.ShortenID\<close>: the last seven characters.\<close>

definition ShortenID :: "string \<Rightarrow> string" where
  "ShortenID x = (if length x < 7 then x else drop (length x - 7) x)"

definition PeerUser :: "string \<Rightarrow> node_state \<Rightarrow> User" where
  "PeerUser pid s =
     (case peers_GetBestUser pid (ns_peers s) of
        Some user \<Rightarrow> user
      | None \<Rightarrow> \<lparr>user_Address = [], user_Name = ShortenID pid, user_Avatar = []\<rparr>)"

definition BlockView :: "string \<Rightarrow> node_state \<Rightarrow> goerr + (Block \<times> User)" where
  "BlockView bid s =
     (case Textile_Block bid s of Inl err \<Rightarrow> Inl err
      | Inr block \<Rightarrow> Inr (block, PeerUser (blk_Author block) s))"

section \<open>Invites\<close>

record InviteView =
  iv_Id :: string
  iv_Name :: string
  iv_Date :: "timestamp option"
  iv_Inviter :: "User option"

text \<open>The inviter is read before it is compared with nil.\<close>

definition Textile_InviteView :: "timestamp \<Rightarrow> Invite \<Rightarrow> node_state \<Rightarrow> goerr + InviteView" where
  "Textile_InviteView now invite s =
     (case inv_Inviter invite of
        None \<Rightarrow> Inl (Panic ''nil inviter'')
      | Some inviter \<Rightarrow>
          (let view = \<lparr>iv_Id = inv_Id invite, iv_Name = inv_Name invite, iv_Date = inv_Date invite,
                       iv_Inviter = None\<rparr>;
               given = \<lparr>user_Address = peer_Address inviter, user_Name = peer_Name inviter,
                        user_Avatar = peer_Avatar inviter\<rparr>
           in Inr (case peers_Get (peer_Id inviter) (ns_peers s) of
                Some x \<Rightarrow>
                  if ProtoTsIsNewer now (peer_Updated x) (peer_Updated inviter)
                  then view\<lparr>iv_Inviter := Some (PeerUser (peer_Id x) s)\<rparr>
                  else view\<lparr>iv_Inviter := Some given\<rparr>
              | None \<Rightarrow> view\<lparr>iv_Inviter := Some given\<rparr>)))"

fun each_view :: "('a \<Rightarrow> goerr + 'b) \<Rightarrow> 'a list \<Rightarrow> goerr + 'b list" where
  "each_view f [] = Inr []"
| "each_view f (x # xs) =
     (case f x of Inl err \<Rightarrow> Inl err
      | Inr y \<Rightarrow> (case each_view f xs of Inl err \<Rightarrow> Inl err | Inr ys \<Rightarrow> Inr (y # ys)))"

definition Textile_Invites :: "timestamp \<Rightarrow> node_state \<Rightarrow> goerr + InviteView list" where
  "Textile_Invites now s = each_view (\<lambda>i. Textile_InviteView now i s) (invites_List (ns_invites s))"

text \<open>
  An external invite: the block is encrypted with a fresh AES key, which travels in the link.
  \<open>aes\<close> decrypts with the key.
\<close>

definition AcceptExternalInvite ::
  "nat \<Rightarrow> world \<Rightarrow> thread_env \<Rightarrow> (bytes \<Rightarrow> bytes \<Rightarrow> goerr + bytes) \<Rightarrow> string \<Rightarrow> bytes
   \<Rightarrow> (string \<times> thread \<times> string list) option node_op" where
  "AcceptExternalInvite fuel w te aes iid key =
     go_bind (go_lift (w_nodeAt w iid)) (\<lambda>node.
     go_bind (extractNode w node True) (\<lambda>x.
     case aes (case ex_ciphertext x of None \<Rightarrow> [] | Some c \<Rightarrow> c) key of
       Inl err \<Rightarrow> go_fail (if is_panic err then err else ErrInvalidThreadBlock)
     | Inr plaintext \<Rightarrow> handleThreadAdd fuel w te plaintext (ex_parents x)))"

section \<open>Notifications\<close>

definition NotificationView :: "timestamp \<Rightarrow> Notification \<Rightarrow> node_state \<Rightarrow> goerr + (Notification \<times> User option)" where
  "NotificationView now note s =
     (case ntf_Type note of
        Notification_INVITE_RECEIVED \<Rightarrow>
          (case invites_Get (ntf_Block note) (ns_invites s) of
             None \<Rightarrow> Inr (note, None)
           | Some i \<Rightarrow>
               (case Textile_InviteView now i s of Inl err \<Rightarrow> Inl err
                | Inr view \<Rightarrow> Inr (note, iv_Inviter view)))
      | _ \<Rightarrow> Inr (note, Some (PeerUser (ntf_Actor note) s)))"

definition Textile_Notifications ::
  "timestamp \<Rightarrow> string \<Rightarrow> int \<Rightarrow> node_state \<Rightarrow> goerr + (Notification \<times> User option) list" where
  "Textile_Notifications now offset limit s =
     each_view (\<lambda>n. NotificationView now n s) (notifications_List offset limit (ns_notifications s))"

definition CountUnreadNotifications :: "node_state \<Rightarrow> int" where
  "CountUnreadNotifications s = notifications_CountUnread (ns_notifications s)"

definition ReadNotification :: "string \<Rightarrow> unit node_op" where
  "ReadNotification nid = on_notifications (notifications_Read nid)"

definition ReadAllNotifications :: "unit node_op" where
  "ReadAllNotifications = on_notifications notifications_ReadAll"

text \<open>The invite a notification is about.\<close>

definition invite_of_notification :: "string \<Rightarrow> string node_op" where
  "invite_of_notification nid =
     go_bind (go_get (\<lambda>s. notifications_Get nid (ns_notifications s))) (\<lambda>notification.
     case notification of
       None \<Rightarrow> go_fail (ErrMsg ''could not find notification'')
     | Some n \<Rightarrow>
         if ntf_Type n \<noteq> Notification_INVITE_RECEIVED then go_fail (ErrMsg ''notification type is not invite'')
         else go_return (ntf_Block n))"

definition AcceptInviteViaNotification ::
  "nat \<Rightarrow> world \<Rightarrow> thread_env \<Rightarrow> string \<Rightarrow> (string \<times> thread \<times> string list) option node_op" where
  "AcceptInviteViaNotification fuel w te nid =
     go_bind (invite_of_notification nid) (\<lambda>iid.
     go_bind (AcceptInvite fuel w te iid) (\<lambda>r.
     go_seq (on_notifications (notifications_Delete nid)) (go_return r)))"

definition IgnoreInviteViaNotification :: "string \<Rightarrow> unit node_op" where
  "IgnoreInviteViaNotification nid =
     go_bind (invite_of_notification nid) (\<lambda>iid.
     go_seq (IgnoreInvite iid) (on_notifications (notifications_Delete nid)))"

section \<open>Contacts\<close>

record Contact =
  con_Address :: string
  con_Name :: string
  con_Avatar :: string
  con_Peers :: "Peer list"
  con_Threads :: "string list"

text \<open>The loop of \<open>ensureContactUser\<close>.\<close>

fun fill_contact :: "Contact \<Rightarrow> Peer list \<Rightarrow> Contact" where
  "fill_contact contact [] = contact"
| "fill_contact contact (p # ps) =
     (let c1 = (if peer_Name p \<noteq> [] \<and> con_Name contact = [] then contact\<lparr>con_Name := peer_Name p\<rparr>
                else contact);
          c2 = (if peer_Avatar p \<noteq> [] \<and> con_Avatar c1 = [] then c1\<lparr>con_Avatar := peer_Avatar p\<rparr> else c1)
      in if con_Name c2 \<noteq> [] \<and> con_Avatar c2 \<noteq> [] then c2 else fill_contact c2 ps)"

definition ensureContactUser :: "Contact \<Rightarrow> Contact" where
  "ensureContactUser contact =
     (if con_Name contact \<noteq> [] \<and> con_Avatar contact \<noteq> [] then contact
      else fill_contact contact (con_Peers contact))"

definition contact_threads :: "Contact \<Rightarrow> node_state \<Rightarrow> string list" where
  "contact_threads contact s =
     con_Threads contact @ foldl add_unique []
       (concat (map (\<lambda>p. map tp_Thread (thread_peers_ListById (peer_Id p) (ns_thread_peers s)))
          (con_Peers contact)))"

definition contactView :: "Contact \<Rightarrow> bool \<Rightarrow> node_state \<Rightarrow> Contact" where
  "contactView contact addThreads s =
     ensureContactUser (if addThreads then contact\<lparr>con_Threads := contact_threads contact s\<rparr> else contact)"

definition contact :: "string \<Rightarrow> bool \<Rightarrow> node_state \<Rightarrow> Contact option" where
  "contact address addThreads s =
     (case peers_List (\<lambda>r. peers_address r = address) (ns_peers s) of
        [] \<Rightarrow> None
      | p # ps \<Rightarrow> Some (contactView
          \<lparr>con_Address = address, con_Name = peer_Name p, con_Avatar = peer_Avatar p,
           con_Peers = p # ps, con_Threads = []\<rparr> addThreads s))"

text \<open>The groups by address, in the order in which the addresses come first.\<close>

definition contacts :: "world \<Rightarrow> bool \<Rightarrow> node_state \<Rightarrow> Contact list" where
  "contacts w addThreads s =
     (let peers = peers_List (\<lambda>r. peers_address r \<noteq> w_accountAddress w) (ns_peers s)
      in map (\<lambda>p. contactView
           \<lparr>con_Address = peer_Address p, con_Name = peer_Name p, con_Avatar = peer_Avatar p,
            con_Peers = filter (\<lambda>x. peer_Address x = peer_Address p) peers, con_Threads = []\<rparr>
           addThreads s) (distinct_by peer_Address peers))"

definition AddContact :: "world \<Rightarrow> Peer list \<Rightarrow> unit node_op" where
  "AddContact w card_peers = go_foreach (addPeer w) card_peers"

definition RemoveContact :: "world \<Rightarrow> string \<Rightarrow> unit node_op" where
  "RemoveContact w address =
     (if address = w_accountAddress w then go_fail (ErrMsg ''cannot remove own contact'')
      else on_peers (peers_DeleteByAddress address))"

text \<open>One search result is added to the contacts found so far; the contact it belongs to is sent.\<close>

definition add_result :: "(string \<times> Contact) list \<Rightarrow> Peer \<Rightarrow> (string \<times> Contact) list \<times> Contact" where
  "add_result found peer =
     (let c0 = (case map_of found (peer_Address peer) of
                  Some c \<Rightarrow> c
                | None \<Rightarrow> \<lparr>con_Address = peer_Address peer, con_Name = peer_Name peer,
                           con_Avatar = peer_Avatar peer, con_Peers = [], con_Threads = []\<rparr>);
          c1 = ensureContactUser (c0\<lparr>con_Peers := con_Peers c0 @ [peer]\<rparr>)
      in ((peer_Address peer, c1) # filter (\<lambda>e. fst e \<noteq> peer_Address peer) found, c1))"

section \<open>The profile\<close>

definition Profile :: "world \<Rightarrow> node_state \<Rightarrow> Peer option" where
  "Profile w s = peers_Get (w_self w) (ns_peers s)"

definition profile_Name :: "world \<Rightarrow> node_state \<Rightarrow> string" where
  "profile_Name w s = (case Profile w s of None \<Rightarrow> [] | Some self \<Rightarrow> peer_Name self)"

definition profile_Avatar :: "world \<Rightarrow> node_state \<Rightarrow> string" where
  "profile_Avatar w s = (case Profile w s of None \<Rightarrow> [] | Some self \<Rightarrow> peer_Avatar self)"

definition announce_all :: "world \<Rightarrow> unit node_op" where
  "announce_all w =
     go_bind (go_get ns_loaded) (\<lambda>threads.
     go_foreach (\<lambda>t. go_bind (annouce w t None) (\<lambda>_. go_return ())) threads)"

text \<open>\<open>publish\<close> is the publication of the peer to the cafes.\<close>

definition SetName :: "world \<Rightarrow> unit node_op \<Rightarrow> string \<Rightarrow> unit node_op" where
  "SetName w publish name =
     go_bind (go_get (profile_Name w)) (\<lambda>old.
     if name = old then go_return ()
     else go_bind (TimestampNow w) (\<lambda>now.
       go_seq (on_peers (peers_UpdateName now (w_self w) name))
      (go_seq (announce_all w) publish)))"

text \<open>The newest files block of a thread.\<close>

definition LatestFiles :: "thread \<Rightarrow> node_state \<Rightarrow> Block option" where
  "LatestFiles t s =
     first_row (blocks_List [] 1
       (\<lambda>r. blocks_threadId r = t_Id t \<and> blocks_type r = BlockType_to_int Block_FILES) (ns_blocks s))"

definition SetAvatar :: "world \<Rightarrow> unit node_op \<Rightarrow> unit node_op" where
  "SetAvatar w publish =
     go_bind (go_get (\<lambda>s. (AccountThread w s, s))) (\<lambda>(account, s).
     case account of None \<Rightarrow> go_fail (Panic ''nil account thread'')
     | Some t \<Rightarrow>
         (case LatestFiles t s of
            None \<Rightarrow> go_fail (ErrMsg ''account thread contains no files'')
          | Some latest \<Rightarrow>
              if blk_Data latest = profile_Avatar w s then go_return ()
              else go_bind (TimestampNow w) (\<lambda>now.
                go_seq (on_peers (peers_UpdateAvatar now (w_self w) (blk_Data latest)))
               (go_seq (announce_all w) publish))))"

end
