(* ===== verification/CafeWire.thy ===== *)
theory CafeWire
  imports Inbound
begin

text \<open>
  What the cafe service puts on the wire: the messages of \<^verbatim>\<open>pb/message.proto\<close>, \<^verbatim>\<open>pb/cafe_service.proto\<close> and
  \<^verbatim>\<open>pb/query.proto\<close>, and the operations of \<^verbatim>\<open>service/service.go\<close> that build, verify, send and answer
  them. A \<open>bytes\<close> field of a protobuf message is absent when it is empty, so an empty list stands for
  the nil slice that a reader of the message sees. Signing, the libp2p streams and the peer id codec
  are functions of a record.
\<close>

section \<open>Messages\<close>

datatype MessageType =
    Message_PING | Message_PONG
  | Message_THREAD_ENVELOPE | Message_THREAD_ENVELOPE_ACK
  | Message_CAFE_CHALLENGE | Message_CAFE_NONCE
  | Message_CAFE_REGISTRATION
  | Message_CAFE_DEREGISTRATION | Message_CAFE_DEREGISTRATION_ACK
  | Message_CAFE_SESSION | Message_CAFE_REFRESH_SESSION
  | Message_CAFE_STORE | Message_CAFE_STORE_ACK
  | Message_CAFE_UNSTORE | Message_CAFE_UNSTORE_ACK
  | Message_CAFE_OBJECT | Message_CAFE_OBJECT_LIST
  | Message_CAFE_STORE_THREAD | Message_CAFE_STORE_THREAD_ACK
  | Message_CAFE_UNSTORE_THREAD | Message_CAFE_UNSTORE_THREAD_ACK
  | Message_CAFE_DELIVER_MESSAGE
  | Message_CAFE_CHECK_MESSAGES | Message_CAFE_MESSAGES
  | Message_CAFE_DELETE_MESSAGES | Message_CAFE_DELETE_MESSAGES_ACK
  | Message_CAFE_YOU_HAVE_MAIL
  | Message_CAFE_PUBLISH_PEER | Message_CAFE_PUBLISH_PEER_ACK
  | Message_CAFE_QUERY | Message_CAFE_QUERY_RES
  | Message_CAFE_PUBSUB_QUERY | Message_CAFE_PUBSUB_QUERY_RES
  | Message_ERROR
  | Message_OTHER int

record CafeRegistration =
  reg_Address :: string
  reg_Value :: string
  reg_Nonce :: string
  reg_Sig :: bytes
  reg_Token :: string

record CafeRefreshSession =
  ref_Access :: string
  ref_Refresh :: string

record CafePublishPeer =
  pub_Token :: string
  pub_Peer :: "Peer option"

record CafeStore =
  sto_Token :: string
  sto_Cids :: "string list"

record CafeObject =
  obj_Token :: string
  obj_Cid :: string
  obj_Data :: bytes
  obj_Node :: bytes

record CafeStoreThread =
  sth_Token :: string
  sth_Id :: string
  sth_Ciphertext :: bytes

record CafeUnstoreThread =
  uth_Token :: string
  uth_Id :: string

record CafeDeliverMessage =
  del_Id :: string
  del_Client :: string
  del_Env :: bytes

section \<open>Queries\<close>

datatype FilterType = NO_FILTER | HIDE_OLDER

record QueryOptions =
  qo_LocalOnly :: bool
  qo_RemoteOnly :: bool
  qo_Limit :: int
  qo_Wait :: int
  qo_Filter :: FilterType
  qo_Exclude :: "string list"

datatype QueryType = Query_THREAD_SNAPSHOTS | Query_CONTACTS

datatype ResponseType = PubSubQuery_P2P | PubSubQuery_PUBSUB

text \<open>The payloads of a query, a protobuf \<open>Any\<close> of one of two messages or of another one.\<close>

datatype query_payload =
    AnyContactQuery string string
  | AnyThreadSnapshotQuery string
  | AnyOtherQuery

record Query =
  q_Id :: string
  q_Token :: string
  q_Type :: QueryType
  q_Options :: "QueryOptions option"
  q_Payload :: "query_payload option"

record PubSubQuery =
  psq_Id :: string
  psq_Type :: QueryType
  psq_Payload :: "query_payload option"
  psq_ResponseType :: ResponseType
  psq_Exclude :: "string list"
  psq_Topic :: string
  psq_Timeout :: int

datatype result_value = AnyPeer Peer | AnyCafeClientThread CafeClientThread | AnyThread bytes

record QueryResult =
  qr_Id :: string
  qr_Date :: "timestamp option"
  qr_Local :: bool
  qr_Value :: result_value

record QueryResults =
  qrs_Type :: QueryType
  qrs_Items :: "QueryResult list"

record PubSubQueryResults =
  psr_Id :: string
  psr_Results :: QueryResults

section \<open>Payloads and envelopes\<close>

datatype msg_payload =
    MError nat string
  | MCafeChallenge string
  | MCafeNonce string
  | MCafeRegistration CafeRegistration
  | MCafeDeregistration string
  | MCafeDeregistrationAck string
  | MCafeSession CafeSession
  | MCafeRefreshSession CafeRefreshSession
  | MCafeStore CafeStore
  | MCafeStoreAck string
  | MCafeUnstore CafeStore
  | MCafeUnstoreAck "string list"
  | MCafeObject CafeObject
  | MCafeObjectList "string list"
  | MCafeStoreThread CafeStoreThread
  | MCafeStoreThreadAck string
  | MCafeUnstoreThread CafeUnstoreThread
  | MCafeUnstoreThreadAck string
  | MCafeDeliverMessage CafeDeliverMessage
  | MCafeCheckMessages string
  | MCafeMessages "CafeMessage list"
  | MCafeDeleteMessages string
  | MCafeDeleteMessagesAck bool
  | MCafePublishPeer CafePublishPeer
  | MCafePublishPeerAck string
  | MQuery Query
  | MQueryResults QueryResults
  | MPubSubQuery PubSubQuery
  | MPubSubQueryResults PubSubQueryResults
  | MThreadEnvelope ThreadEnvelope
  | MThreadEnvelopeAck string
  | MOther

record Message =
  msg_Type :: MessageType
  msg_Payload :: "msg_payload option"
  msg_Request :: int
  msg_Response :: bool

record MsgEnvelope =
  me_Message :: "Message option"
  me_Sig :: bytes

text \<open>
  \<open>ptypes.UnmarshalAny\<close>: the payload as one kind of message, an error for a nil payload or another
  kind; \<open>sel\<close> is the partial inverse of the constructor of the kind.
\<close>

definition UnmarshalAny :: "(msg_payload \<Rightarrow> 'a option) \<Rightarrow> msg_payload option \<Rightarrow> goerr + 'a" where
  "UnmarshalAny sel p =
     (case p of None \<Rightarrow> Inl any_error
      | Some x \<Rightarrow> (case sel x of None \<Rightarrow> Inl any_error | Some m \<Rightarrow> Inr m))"

section \<open>The service\<close>

text \<open>
  The world of a service: signing a marshalled message with the node key (\<open>sn_sign\<close>), checking a
  signature with the key of a peer id, decoding peer ids, a request and its answer (nil when there
  is none), a message without an answer and a publication. The network may answer differently each
  time: these functions take a draw.
\<close>

record service_net =
  sn_sign :: "Message \<Rightarrow> goerr + bytes"
  sn_checkSig :: "string \<Rightarrow> Message \<Rightarrow> bytes \<Rightarrow> goerr + unit"
  sn_decodePeer :: "string \<Rightarrow> goerr + string"
  sn_request :: "nat \<Rightarrow> string \<Rightarrow> MsgEnvelope \<Rightarrow> goerr + MsgEnvelope option"
  sn_message :: "nat \<Rightarrow> string \<Rightarrow> MsgEnvelope \<Rightarrow> goerr + unit"
  sn_publish :: "nat \<Rightarrow> string \<Rightarrow> MsgEnvelope \<Rightarrow> goerr + unit"

definition NewEnvelope ::
  "service_net \<Rightarrow> MessageType \<Rightarrow> msg_payload option \<Rightarrow> int option \<Rightarrow> bool \<Rightarrow> goerr + MsgEnvelope" where
  "NewEnvelope sn mtype payload request response =
     (let message = \<lparr>msg_Type = mtype, msg_Payload = payload,
                     msg_Request = (case request of None \<Rightarrow> 0 | Some r \<Rightarrow> r),
                     msg_Response = response\<rparr>
      in case sn_sign sn message of
           Inl err \<Rightarrow> Inl err
         | Inr sig \<Rightarrow> Inr \<lparr>me_Message = Some message, me_Sig = sig\<rparr>)"

definition NewError :: "service_net \<Rightarrow> nat \<Rightarrow> string \<Rightarrow> int \<Rightarrow> goerr + MsgEnvelope" where
  "NewError sn code text request =
     NewEnvelope sn Message_ERROR (Some (MError code text)) (Some request) True"

definition VerifyEnvelope :: "service_net \<Rightarrow> MsgEnvelope \<Rightarrow> string \<Rightarrow> goerr + unit" where
  "VerifyEnvelope sn env pid =
     (case me_Message env of
        None \<Rightarrow> Inl (ErrMsg ''proto: Marshal called with nil'')
      | Some message \<Rightarrow> sn_checkSig sn pid message (me_Sig env))"

definition handleError :: "Message \<Rightarrow> goerr + unit" where
  "handleError m =
     (if msg_Payload m = None \<and> msg_Type m \<noteq> Message_PONG then Inl (ErrMsg ''message payload is nil'')
      else if msg_Type m \<noteq> Message_ERROR then Inr ()
      else case UnmarshalAny (\<lambda>p. case p of MError _ text \<Rightarrow> Some text | _ \<Rightarrow> None) (msg_Payload m) of
             Inl err \<Rightarrow> Inl err
           | Inr text \<Rightarrow> Inl (ErrMsg text))"

definition SendRequest :: "service_net \<Rightarrow> string \<Rightarrow> MsgEnvelope \<Rightarrow> Message node_op" where
  "SendRequest sn p env =
     go_bind (go_lift (sn_decodePeer sn p)) (\<lambda>pid.
     go_bind (draw (sn_request sn)) (\<lambda>request.
     go_bind (go_lift (request pid env)) (\<lambda>answer.
     case answer of
       None \<Rightarrow> go_fail (ErrMsg ''no response'')
     | Some renv \<Rightarrow>
         (case me_Message renv of
            None \<Rightarrow> go_fail (Panic ''nil message in response'')
          | Some m \<Rightarrow> go_seq (go_lift (handleError m)) (go_return m)))))"

definition SendMessage :: "service_net \<Rightarrow> string \<Rightarrow> MsgEnvelope \<Rightarrow> unit node_op" where
  "SendMessage sn p env =
     go_bind (go_lift (sn_decodePeer sn p)) (\<lambda>pid.
     go_bind (draw (sn_message sn)) (\<lambda>send.
     go_seq (go_lift (send pid env)) (emit (MessageSent pid))))"

definition Publish :: "service_net \<Rightarrow> string \<Rightarrow> MsgEnvelope \<Rightarrow> unit node_op" where
  "Publish sn topic env =
     go_bind (draw (sn_publish sn)) (\<lambda>publish.
     go_seq (go_lift (publish topic env)) (emit (PubSubSent topic)))"

definition handlePing :: "service_net \<Rightarrow> Message \<Rightarrow> MsgEnvelope option node_op" where
  "handlePing sn m =
     go_bind (go_lift (NewEnvelope sn Message_PONG None (Some (msg_Request m)) True)) (\<lambda>env.
     go_return (Some env))"

text \<open>
  The body of the loop of \<open>handleNewMessage\<close> after a message was read: a message that does not verify
  is skipped, a ping is answered by the service and everything else goes to the handler of the
  protocol. The result says whether the stream stays open and what is written to it.
\<close>

definition serve ::
  "service_net \<Rightarrow> (Message \<Rightarrow> string \<Rightarrow> MsgEnvelope option node_op)
   \<Rightarrow> MsgEnvelope \<Rightarrow> string \<Rightarrow> (bool \<times> MsgEnvelope option) node_op" where
  "serve sn handler req mPeer =
     (case VerifyEnvelope sn req mPeer of
        Inl _ \<Rightarrow> go_return (True, None)
      | Inr _ \<Rightarrow>
        (case me_Message req of
           None \<Rightarrow> go_fail (Panic ''nil message'')
         | Some m \<Rightarrow>
             go_catch
               (go_bind (if msg_Type m = Message_PING then handlePing sn m else handler m mPeer)
                  (\<lambda>rpmes. go_return (True, rpmes)))
               (\<lambda>_. go_return (False, None))))"

end
