(* ===== verification/Jwt.thy ===== *)
theory Jwt
  imports CafeWire
begin

text \<open>
  Sessions of a cafe, \<^verbatim>\<open>jwt/session.go\<close>: the pair of tokens a session is made of and the validation of
  a token. The token codec is a library: \<open>jw_parse\<close> is \<open>jwt.Parse\<close> with the key of the host at a time
  in seconds, which returns no token, or the claims of one (\<open>None\<close> when they are not the claims of a
  session) and whether it was returned with an error, as it is for a bad signature or an expired
  token. The other functions are the claim checks of the library, signing, and the host's peer id.
\<close>

record TextileClaims =
  jc_Scope :: string
  jc_Audience :: string
  jc_ExpiresAt :: int
  jc_Id :: string
  jc_IssuedAt :: int
  jc_Issuer :: string
  jc_Subject :: string

record jwt_env =
  jw_parse :: "int \<Rightarrow> string \<Rightarrow> (TextileClaims option \<times> bool) option"
  jw_verifyExpiresAt :: "TextileClaims \<Rightarrow> int \<Rightarrow> bool \<Rightarrow> bool"
  jw_verifyAudience :: "TextileClaims \<Rightarrow> string \<Rightarrow> bool \<Rightarrow> bool"
  jw_signed :: "TextileClaims \<Rightarrow> goerr + string"
  jw_issuer :: "goerr + string"

definition scope_Access :: string where
  "scope_Access = ''access''"

definition scope_Refresh :: string where
  "scope_Refresh = ''refresh''"

definition ParseClaims :: "TextileClaims option \<Rightarrow> goerr + TextileClaims" where
  "ParseClaims claims = (case claims of None \<Rightarrow> Inl (ErrMsg ''claims invalid'') | Some c \<Rightarrow> Inr c)"

section \<open>Validation\<close>

text \<open>What is checked of claims whose token was parsed without an error.\<close>

definition check_claims :: "jwt_env \<Rightarrow> TextileClaims \<Rightarrow> bool \<Rightarrow> string \<Rightarrow> string option \<Rightarrow> goerr + TextileClaims" where
  "check_claims jw claims refreshing audience subject =
     (let scope_ok = (if jc_Scope claims = scope_Access then \<not> refreshing
                      else if jc_Scope claims = scope_Refresh then refreshing
                      else False)
      in if \<not> scope_ok then Inl ErrInvalid
         else if (case subject of None \<Rightarrow> False | Some s \<Rightarrow> s \<noteq> jc_Subject claims) then Inl ErrInvalid
         else if \<not> jw_verifyAudience jw claims audience True then Inl ErrInvalid
         else Inr claims)"

definition Validate ::
  "world \<Rightarrow> jwt_env \<Rightarrow> string \<Rightarrow> bool \<Rightarrow> string \<Rightarrow> string option \<Rightarrow> TextileClaims node_op" where
  "Validate w jw tokenString refreshing audience subject =
     go_bind (TimestampNow w) (\<lambda>now.
     case jw_parse jw (Seconds now) tokenString of
       None \<Rightarrow> go_fail ErrNoToken
     | Some (tclaims, pErr) \<Rightarrow>
         (case ParseClaims tclaims of
            Inl _ \<Rightarrow> go_fail ErrInvalid
          | Inr claims \<Rightarrow>
              if pErr
              then go_bind (TimestampNow w) (\<lambda>now.
                   if \<not> jw_verifyExpiresAt jw claims (Seconds now) True then go_fail ErrExpired
                   else go_fail ErrInvalid)
              else go_lift (check_claims jw claims refreshing audience subject)))"

section \<open>Sessions\<close>

text \<open>Years 1 to 9999, the range of a protobuf timestamp.\<close>

definition TimestampProto :: "timestamp \<Rightarrow> goerr + timestamp" where
  "TimestampProto t =
     (if - 62135596800 \<le> Seconds t \<and> Seconds t < 253402300800 then Inr t
      else Inl (ErrMsg ''timestamp out of range''))"

definition later :: "timestamp \<Rightarrow> int \<Rightarrow> timestamp" where
  "later t seconds = t\<lparr>Seconds := Seconds t + seconds\<rparr>"

definition NewSession :: "world \<Rightarrow> jwt_env \<Rightarrow> string \<Rightarrow> string \<Rightarrow> int \<Rightarrow> Cafe \<Rightarrow> CafeSession node_op" where
  "NewSession w jw pid proto duration cafe =
     go_bind (go_lift (jw_issuer jw)) (\<lambda>issuer.
     go_bind (new_ksuid w) (\<lambda>sid.
     go_bind (TimestampNow w) (\<lambda>now.
     let exp = later now duration in
     go_bind (TimestampNow w) (\<lambda>iat.
     go_bind (go_lift (jw_signed jw
        \<lparr>jc_Scope = scope_Access, jc_Audience = proto, jc_ExpiresAt = Seconds exp, jc_Id = sid,
         jc_IssuedAt = Seconds iat, jc_Issuer = issuer, jc_Subject = pid\<rparr>)) (\<lambda>access.
     let rexp = later now (duration * 2) in
     go_bind (TimestampNow w) (\<lambda>riat.
     go_bind (go_lift (jw_signed jw
        \<lparr>jc_Scope = scope_Refresh, jc_Audience = proto, jc_ExpiresAt = Seconds rexp, jc_Id = ''r'' @ sid,
         jc_IssuedAt = Seconds riat, jc_Issuer = issuer, jc_Subject = pid\<rparr>)) (\<lambda>refresh.
     go_bind (go_lift (TimestampProto exp)) (\<lambda>pexp.
     go_bind (go_lift (TimestampProto rexp)) (\<lambda>prexp.
     go_return
       \<lparr>ses_Id = issuer, ses_Access = access, ses_Exp = Some pexp, ses_Refresh = refresh,
        ses_Rexp = Some prexp, ses_Subject = pid, ses_Type = ''JWT'', ses_Cafe = cafe\<rparr>)))))))))"

section \<open>Lemmas\<close>

text \<open>
  A token that validates was parsed without an error, has the scope that was asked for, belongs to
  the subject and names the audience.
\<close>

definition valid_claims :: "jwt_env \<Rightarrow> TextileClaims \<Rightarrow> bool \<Rightarrow> string \<Rightarrow> string \<Rightarrow> bool" where
  "valid_claims jw c refreshing audience subject \<longleftrightarrow>
     jc_Scope c = (if refreshing then scope_Refresh else scope_Access)
     \<and> jc_Subject c = subject \<and> jw_verifyAudience jw c audience True"

lemma check_claims_iff:
  "check_claims jw c refreshing audience (Some subject) = Inr c' \<longleftrightarrow>
     c' = c \<and> valid_claims jw c refreshing audience subject"
  by (auto simp: check_claims_def valid_claims_def scope_Access_def scope_Refresh_def Let_def
      split: if_splits)

end
