(* ===== verification/CafeClient.thy ===== *)
theory CafeClient
  imports Jwt ThreadsAdmin
begin

text \<open>
  The client side of the cafe service, \<^verbatim>\<open>core/cafe_service.go\<close>: registering with a cafe, requests with a
  session that are retried once after a refresh, fetching messages, and the batches of queued
  requests. The goroutines of a batch run in the order in which the cafes first appear in it, and
  the types of a cafe in their order.
\<close>

text \<open>
  The environment of the service: whether and as what it is a host, the network, the token codec,
  base58, the address and the signatures of the account (\<open>ca_accountAddress\<close>, \<open>ca_accountSign\<close>),
  encryption of a thread with the account key, bcrypt, the check of an account signature
  (\<open>ca_verifySig\<close>), adding an object, the state of the pins after what the node did so far, the hash
  of a cid, decoding an envelope, and the flush of the inbox, which runs in the background.
\<close>

record cafe_env =
  ca_open :: bool
  ca_info :: Cafe
  ca_net :: service_net
  ca_jwt :: jwt_env
  ca_dec58 :: base58_dec
  ca_accountAddress :: "keypair \<Rightarrow> string"
  ca_accountSign :: "keypair \<Rightarrow> bytes \<Rightarrow> goerr + bytes"
  ca_encryptThread :: "Thread \<Rightarrow> goerr + bytes"
  ca_bcryptCompare :: "bytes \<Rightarrow> bytes \<Rightarrow> goerr + unit"
  ca_verifySig :: "string \<Rightarrow> bytes \<Rightarrow> bytes \<Rightarrow> goerr + unit"
  ca_addObject :: "bytes \<Rightarrow> goerr + string"
  ca_checkPinned :: "effect list \<Rightarrow> string list \<Rightarrow> goerr + (string \<times> bool) list"
  ca_cidHash :: "string \<Rightarrow> string"
  ca_unmarshalEnvelope :: "bytes \<Rightarrow> goerr + MsgEnvelope"
  ca_inboxFlush :: "unit node_op"

definition cafeServiceProtocol :: string where
  "cafeServiceProtocol = ''/textile/cafe/1.0.0''"

definition errUnauthorized :: string where
  "errUnauthorized = ''unauthorized''"

definition maxRequestAttempts :: int where
  "maxRequestAttempts = 5"

definition cafeOutFlushGroupSize :: int where
  "cafeOutFlushGroupSize = 32"

definition string_bytes :: "string \<Rightarrow> bytes" where
  "string_bytes s = map (\<lambda>c. word_of_nat (of_char c)) s"

section \<open>Registration\<close>

definition send :: "cafe_env \<Rightarrow> string \<Rightarrow> MessageType \<Rightarrow> msg_payload \<Rightarrow> Message node_op" where
  "send ca p mtype payload =
     go_bind (go_lift (NewEnvelope (ca_net ca) mtype (Some payload) None False)) (\<lambda>env.
     SendRequest (ca_net ca) p env)"

definition response :: "(msg_payload \<Rightarrow> 'a option) \<Rightarrow> Message \<Rightarrow> 'a node_op" where
  "response sel renv = go_lift (UnmarshalAny sel (msg_Payload renv))"

definition as_session :: "msg_payload \<Rightarrow> CafeSession option" where
  "as_session p = (case p of MCafeSession x \<Rightarrow> Some x | _ \<Rightarrow> None)"

definition challenge :: "cafe_env \<Rightarrow> string \<Rightarrow> keypair \<Rightarrow> string node_op" where
  "challenge ca cafeId kp =
     go_bind (send ca cafeId Message_CAFE_CHALLENGE (MCafeChallenge (ca_accountAddress ca kp)))
       (response (\<lambda>p. case p of MCafeNonce v \<Rightarrow> Some v | _ \<Rightarrow> None))"

definition Register :: "cafe_env \<Rightarrow> world \<Rightarrow> string \<Rightarrow> string \<Rightarrow> CafeSession node_op" where
  "Register ca w cafeId token =
     go_bind (go_get (\<lambda>s. config_GetAccount (ca_dec58 ca) (ns_config s))) (\<lambda>r.
     go_bind (go_lift r) (\<lambda>a.
     case a of None \<Rightarrow> go_fail (Panic ''nil account'')
     | Some accnt \<Rightarrow>
         go_bind (challenge ca cafeId accnt) (\<lambda>value.
         go_bind (new_ksuid w) (\<lambda>cnonce.
         go_bind (go_lift (ca_accountSign ca accnt (string_bytes (value @ cnonce)))) (\<lambda>sig.
         go_bind (send ca cafeId Message_CAFE_REGISTRATION (MCafeRegistration
            \<lparr>reg_Address = ca_accountAddress ca accnt, reg_Value = value, reg_Nonce = cnonce,
             reg_Sig = sig, reg_Token = token\<rparr>)) (\<lambda>renv.
         go_bind (response as_session renv) (\<lambda>session.
         go_bind (TimestampNow w) (\<lambda>now.
         go_seq (on_cafe_sessions (cafe_sessions_AddOrUpdate now session))
                (go_return session)))))))))"

definition Deregister :: "string \<Rightarrow> unit node_op" where
  "Deregister cafeId =
     go_seq (on_cafe_requests (cafe_requests_DeleteByCafe cafeId))
            (on_cafe_sessions (cafe_sessions_Delete cafeId))"

definition refresh :: "cafe_env \<Rightarrow> world \<Rightarrow> CafeSession \<Rightarrow> CafeSession node_op" where
  "refresh ca w session =
     go_bind (send ca (cafe_Peer (ses_Cafe session)) Message_CAFE_REFRESH_SESSION
        (MCafeRefreshSession \<lparr>ref_Access = ses_Access session, ref_Refresh = ses_Refresh session\<rparr>)) (\<lambda>renv.
     go_bind (response as_session renv) (\<lambda>refreshed.
     go_bind (TimestampNow w) (\<lambda>now.
     go_seq (on_cafe_sessions (cafe_sessions_AddOrUpdate now refreshed))
            (go_return refreshed))))"

section \<open>Requests with a session\<close>

text \<open>
  \<open>payload\<close> is the message the envelope factory builds for a session. The session of the last
  envelope is returned with the answer: \<open>store\<close> goes on with its access token.
\<close>

definition sendCafeRequest ::
  "cafe_env \<Rightarrow> world \<Rightarrow> string \<Rightarrow> MessageType \<Rightarrow> (CafeSession \<Rightarrow> msg_payload) \<Rightarrow> (Message \<times> CafeSession) node_op" where
  "sendCafeRequest ca w cafeId mtype payload =
     go_bind (go_get (\<lambda>s. cafe_sessions_Get cafeId (ns_cafe_sessions s))) (\<lambda>found.
     case found of None \<Rightarrow> go_fail (ErrMsg ''could not find session for cafe'')
     | Some session \<Rightarrow>
         go_bind (go_lift (NewEnvelope (ca_net ca) mtype (Some (payload session)) None False)) (\<lambda>env.
         go_bind (go_try (SendRequest (ca_net ca) (cafe_Peer (ses_Cafe session)) env)) (\<lambda>r.
         case r of
           Inr renv \<Rightarrow> go_return (renv, session)
         | Inl err \<Rightarrow>
             if err = ErrMsg errUnauthorized
             then go_bind (refresh ca w session) (\<lambda>refreshed.
                  go_bind (send ca (cafe_Peer (ses_Cafe refreshed)) mtype (payload refreshed)) (\<lambda>renv.
                  go_return (renv, refreshed)))
             else go_fail err)))"

definition PublishPeer :: "cafe_env \<Rightarrow> world \<Rightarrow> Peer \<Rightarrow> string \<Rightarrow> unit node_op" where
  "PublishPeer ca w peer cafeId =
     go_bind (sendCafeRequest ca w cafeId Message_CAFE_PUBLISH_PEER
        (\<lambda>session. MCafePublishPeer \<lparr>pub_Token = ses_Access session, pub_Peer = Some peer\<rparr>))
       (\<lambda>_. go_return ())"

section \<open>Messages\<close>

text \<open>A message that is already in the inbox is not an error.\<close>

definition CafeInbox_Add :: "world \<Rightarrow> CafeMessage \<Rightarrow> unit node_op" where
  "CafeInbox_Add w msg = go_bind (TimestampNow w) (\<lambda>now. on_cafe_messages (cafe_messages_Add now msg))"

definition save_message :: "world \<Rightarrow> CafeMessage \<Rightarrow> unit node_op" where
  "save_message w msg =
     go_catch (CafeInbox_Add w msg) (\<lambda>err. if \<not> ConflictError err then go_fail err else go_return ())"

text \<open>
  \<open>CheckMessages\<close> and \<open>DeleteMessages\<close> call each other for as long as the cafe says that there are more
  messages, so they take fuel.
\<close>

fun CheckMessages :: "nat \<Rightarrow> cafe_env \<Rightarrow> world \<Rightarrow> string \<Rightarrow> unit node_op"
  and DeleteMessages :: "nat \<Rightarrow> cafe_env \<Rightarrow> world \<Rightarrow> string \<Rightarrow> unit node_op" where
  "CheckMessages 0 ca w cafeId = go_fail out_of_fuel"
| "CheckMessages (Suc fuel) ca w cafeId =
     go_bind (sendCafeRequest ca w cafeId Message_CAFE_CHECK_MESSAGES
        (\<lambda>session. MCafeCheckMessages (ses_Access session))) (\<lambda>(renv, _).
     go_bind (response (\<lambda>p. case p of MCafeMessages ms \<Rightarrow> Some ms | _ \<Rightarrow> None) renv) (\<lambda>msgs.
     go_seq (go_foreach (save_message w) msgs)
    (go_seq (ca_inboxFlush ca)
            (if 0 < length msgs then DeleteMessages fuel ca w cafeId else go_return ()))))"
| "DeleteMessages 0 ca w cafeId = go_fail out_of_fuel"
| "DeleteMessages (Suc fuel) ca w cafeId =
     go_bind (sendCafeRequest ca w cafeId Message_CAFE_DELETE_MESSAGES
        (\<lambda>session. MCafeDeleteMessages (ses_Access session))) (\<lambda>(renv, _).
     go_bind (response (\<lambda>p. case p of MCafeDeleteMessagesAck m \<Rightarrow> Some m | _ \<Rightarrow> None) renv) (\<lambda>moreLeft.
     if \<not> moreLeft then go_return () else CheckMessages fuel ca w cafeId))"

text \<open>Every session in turn; the last error is returned.\<close>

fun check_sessions :: "nat \<Rightarrow> cafe_env \<Rightarrow> world \<Rightarrow> CafeSession list \<Rightarrow> goerr option \<Rightarrow> goerr option node_op" where
  "check_sessions fuel ca w [] cerr = go_return cerr"
| "check_sessions fuel ca w (session # sessions) cerr =
     go_bind (go_try (CheckMessages fuel ca w (ses_Id session))) (\<lambda>r.
     check_sessions fuel ca w sessions (case r of Inl err \<Rightarrow> Some err | Inr _ \<Rightarrow> cerr))"

definition CafeInbox_CheckMessages :: "nat \<Rightarrow> cafe_env \<Rightarrow> world \<Rightarrow> unit node_op" where
  "CafeInbox_CheckMessages fuel ca w =
     go_bind (go_get (\<lambda>s. cafe_sessions_List (ns_cafe_sessions s))) (\<lambda>sessions.
     go_bind (check_sessions fuel ca w sessions None) (\<lambda>cerr.
     case cerr of None \<Rightarrow> go_return () | Some err \<Rightarrow> go_fail err))"

section \<open>Content\<close>

definition ErrIsDir :: goerr where
  "ErrIsDir = ErrMsg ''this dag node is a directory''"

definition sendObject :: "cafe_env \<Rightarrow> world \<Rightarrow> string \<Rightarrow> string \<Rightarrow> string \<Rightarrow> unit node_op" where
  "sendObject ca w cid cafeId token =
     (let hash = ca_cidHash ca cid; obj = \<lparr>obj_Token = token, obj_Cid = hash, obj_Data = [], obj_Node = []\<rparr>
      in go_bind
           (case w_dataAt w hash of
              Inl err \<Rightarrow>
                if err = ErrIsDir
                then go_bind (go_lift (w_objectAt w hash)) (\<lambda>data. go_return (obj\<lparr>obj_Node := data\<rparr>))
                else go_fail err
            | Inr data \<Rightarrow> go_return (obj\<lparr>obj_Data := data\<rparr>)) (\<lambda>obj.
         go_bind (send ca cafeId Message_CAFE_OBJECT (MCafeObject obj)) (\<lambda>_. go_return ())))"

text \<open>The functions return what they have stored so far with an error.\<close>

fun store_objects ::
  "cafe_env \<Rightarrow> world \<Rightarrow> string \<Rightarrow> string \<Rightarrow> string list \<Rightarrow> string list \<Rightarrow> (string list \<times> goerr option) node_op" where
  "store_objects ca w cafeId token stored [] = go_return (stored, None)"
| "store_objects ca w cafeId token stored (cid # cids) =
     (case w_parseCid w cid of
        Inl err \<Rightarrow> go_return (stored, Some err)
      | Inr decoded \<Rightarrow>
          go_bind (go_try (sendObject ca w decoded cafeId token)) (\<lambda>r.
          case r of Inl err \<Rightarrow> go_return (stored, Some err)
          | Inr _ \<Rightarrow> store_objects ca w cafeId token (stored @ [cid]) cids))"

definition cafe_store :: "cafe_env \<Rightarrow> world \<Rightarrow> string list \<Rightarrow> string \<Rightarrow> (string list \<times> goerr option) node_op" where
  "cafe_store ca w cids cafeId =
     go_bind (go_try (sendCafeRequest ca w cafeId Message_CAFE_STORE
        (\<lambda>session. MCafeStore \<lparr>sto_Token = ses_Access session, sto_Cids = cids\<rparr>))) (\<lambda>r.
     case r of Inl err \<Rightarrow> go_return ([], Some err)
     | Inr (renv, session) \<Rightarrow>
         (case UnmarshalAny (\<lambda>p. case p of MCafeObjectList x \<Rightarrow> Some x | _ \<Rightarrow> None) (msg_Payload renv) of
            Inl err \<Rightarrow> go_return ([], Some err)
          | Inr req \<Rightarrow>
              if length req = 0 then go_return (cids, None)
              else store_objects ca w cafeId (ses_Access session) (filter (\<lambda>i. i \<notin> set req) cids) req))"

definition cafe_unstore :: "cafe_env \<Rightarrow> world \<Rightarrow> string list \<Rightarrow> string \<Rightarrow> string list node_op" where
  "cafe_unstore ca w cids cafeId =
     go_bind (sendCafeRequest ca w cafeId Message_CAFE_UNSTORE
        (\<lambda>session. MCafeUnstore \<lparr>sto_Token = ses_Access session, sto_Cids = cids\<rparr>)) (\<lambda>(renv, _).
     response (\<lambda>p. case p of MCafeUnstoreAck x \<Rightarrow> Some x | _ \<Rightarrow> None) renv)"

definition storeThread :: "cafe_env \<Rightarrow> world \<Rightarrow> Thread \<Rightarrow> string \<Rightarrow> unit node_op" where
  "storeThread ca w thrd cafeId =
     go_bind (go_lift (ca_encryptThread ca thrd)) (\<lambda>ciphertext.
     go_bind (sendCafeRequest ca w cafeId Message_CAFE_STORE_THREAD
        (\<lambda>session. MCafeStoreThread
           \<lparr>sth_Token = ses_Access session, sth_Id = thr_Id thrd, sth_Ciphertext = ciphertext\<rparr>))
       (\<lambda>_. go_return ()))"

definition unstoreThread :: "cafe_env \<Rightarrow> world \<Rightarrow> string \<Rightarrow> string \<Rightarrow> unit node_op" where
  "unstoreThread ca w tid cafeId =
     go_bind (sendCafeRequest ca w cafeId Message_CAFE_UNSTORE_THREAD
        (\<lambda>session. MCafeUnstoreThread \<lparr>uth_Token = ses_Access session, uth_Id = tid\<rparr>)) (\<lambda>(renv, _).
     go_bind (response (\<lambda>p. case p of MCafeUnstoreThreadAck x \<Rightarrow> Some x | _ \<Rightarrow> None) renv) (\<lambda>_.
     go_return ()))"

definition deliverMessage :: "cafe_env \<Rightarrow> world \<Rightarrow> string \<Rightarrow> string \<Rightarrow> Cafe \<Rightarrow> unit node_op" where
  "deliverMessage ca w mid peerId cafe =
     go_bind (go_lift (w_dataAt w mid)) (\<lambda>body.
     go_bind (go_lift (NewEnvelope (ca_net ca) Message_CAFE_DELIVER_MESSAGE
        (Some (MCafeDeliverMessage \<lparr>del_Id = mid, del_Client = peerId, del_Env = body\<rparr>)) None False)) (\<lambda>env.
     SendMessage (ca_net ca) (cafe_Peer cafe) env))"

end
