(* ===== verification/Search.thy ===== *)
theory Search
  imports CafeWire "HOL-Library.AList"
begin

text \<open>
  Searching: the result set of a query (\<^verbatim>\<open>core/search.go\<close>), the bounds of its options and the local
  search of the cafe service (\<^verbatim>\<open>core/cafe_service.go\<close>). The Go map of results is an association list
  in the order in which the ids came first; Go leaves the order of a map open.
\<close>

section \<open>Result sets\<close>

record queryResultSet =
  rs_options :: QueryOptions
  rs_items :: "(string \<times> QueryResult) list"

definition newQueryResultSet :: "QueryOptions \<Rightarrow> queryResultSet" where
  "newQueryResultSet options = \<lparr>rs_options = options, rs_items = []\<rparr>"

text \<open>The check of one item: an item that is not newer than the last one of its id is skipped. An item without a
  date counts as of now; the clock is read for each of them in the code, and once for a call here.\<close>

definition skips :: "timestamp \<Rightarrow> QueryResult \<Rightarrow> queryResultSet \<Rightarrow> bool" where
  "skips now i s =
     (case qo_Filter (rs_options s) of
        NO_FILTER \<Rightarrow> False
      | HIDE_OLDER \<Rightarrow>
          (case map_of (rs_items s) (qr_Id i) of
             None \<Rightarrow> False
           | Some l \<Rightarrow> ProtoNanos now (qr_Date i) \<le> ProtoNanos now (qr_Date l)))"

text \<open>The result is the items that were added and the new set.\<close>

fun rs_Add :: "timestamp \<Rightarrow> QueryResult list \<Rightarrow> queryResultSet \<Rightarrow> QueryResult list \<times> queryResultSet" where
  "rs_Add now [] s = ([], s)"
| "rs_Add now (i # is) s =
     (if skips now i s then rs_Add now is s
      else let (added, s') = rs_Add now is (s\<lparr>rs_items := AList.update (qr_Id i) i (rs_items s)\<rparr>)
           in (i # added, s'))"

definition rs_List :: "queryResultSet \<Rightarrow> QueryResult list" where
  "rs_List s = map snd (rs_items s)"

definition rs_Full :: "queryResultSet \<Rightarrow> bool" where
  "rs_Full s \<longleftrightarrow> qo_Limit (rs_options s) \<le> int (length (rs_items s))"

section \<open>Options\<close>

definition defaultQueryWaitSeconds :: int where "defaultQueryWaitSeconds = 5"

definition maxQueryWaitSeconds :: int where "maxQueryWaitSeconds = 30"

definition defaultQueryResultsLimit :: int where "defaultQueryResultsLimit = 5"

definition queryDefaults :: "Query \<Rightarrow> Query" where
  "queryDefaults query =
     (let o1 = (case q_Options query of
                  None \<Rightarrow> \<lparr>qo_LocalOnly = False, qo_RemoteOnly = False,
                           qo_Limit = defaultQueryResultsLimit, qo_Wait = defaultQueryWaitSeconds,
                           qo_Filter = NO_FILTER, qo_Exclude = []\<rparr>
                | Some o0 \<Rightarrow> o0);
          o2 = (if qo_Limit o1 \<le> 0 then o1\<lparr>qo_Limit := 2147483647\<rparr> else o1);
          o3 = (if qo_Wait o2 \<le> 0 then o2\<lparr>qo_Wait := defaultQueryWaitSeconds\<rparr>
                else if maxQueryWaitSeconds < qo_Wait o2 then o2\<lparr>qo_Wait := maxQueryWaitSeconds\<rparr>
                else o2)
      in query\<lparr>q_Options := Some o3\<rparr>)"

section \<open>Local search\<close>

text \<open>
  \<open>encryptThread\<close> marshals a thread and encrypts it with the account key. Marshalling the results
  cannot fail.
\<close>

definition client_thread_result :: "bool \<Rightarrow> CafeClientThread \<Rightarrow> QueryResult" where
  "client_thread_result local ct =
     \<lparr>qr_Id = ct_Id ct, qr_Date = None, qr_Local = local, qr_Value = AnyCafeClientThread ct\<rparr>"

definition peer_result :: "bool \<Rightarrow> Peer \<Rightarrow> QueryResult" where
  "peer_result local p =
     \<lparr>qr_Id = peer_Id p, qr_Date = peer_Updated p, qr_Local = local, qr_Value = AnyPeer p\<rparr>"

fun own_threads :: "(Thread \<Rightarrow> goerr + bytes) \<Rightarrow> string \<Rightarrow> Thread list \<Rightarrow> goerr + CafeClientThread list" where
  "own_threads encryptThread self [] = Inr []"
| "own_threads encryptThread self (t # ts) =
     (case encryptThread t of Inl err \<Rightarrow> Inl err
      | Inr ciphertext \<Rightarrow>
          (case own_threads encryptThread self ts of Inl err \<Rightarrow> Inl err
           | Inr rest \<Rightarrow> Inr (\<lparr>ct_Id = thr_Id t, ct_Client = self, ct_Ciphertext = ciphertext\<rparr> # rest)))"

definition searchLocal ::
  "world \<Rightarrow> (Thread \<Rightarrow> goerr + bytes) \<Rightarrow> timestamp \<Rightarrow> QueryType \<Rightarrow> QueryOptions \<Rightarrow> query_payload option
   \<Rightarrow> bool \<Rightarrow> node_state \<Rightarrow> goerr + queryResultSet" where
  "searchLocal w encryptThread now qtype options payload local s =
     (let results = newQueryResultSet options
      in case qtype of
        Query_THREAD_SNAPSHOTS \<Rightarrow>
          (case payload of
             Some (AnyThreadSnapshotQuery address) \<Rightarrow>
               (let clients = clients_ListByAddress address (ns_cafe_clients s);
                    stored = concat (map (\<lambda>c. client_threads_ListByClient (cl_Id c) (ns_cafe_client_threads s)) clients);
                    r1 = snd (rs_Add now (map (client_thread_result local) stored) results)
                in if address = w_accountAddress w
                   then (case own_threads encryptThread (w_self w) (threads_List (ns_threads s)) of
                           Inl err \<Rightarrow> Inl err
                         | Inr own \<Rightarrow> Inr (snd (rs_Add now (map (client_thread_result local) own) r1)))
                   else Inr r1)
           | _ \<Rightarrow> Inl any_error)
      | Query_CONTACTS \<Rightarrow>
          (case payload of
             Some (AnyContactQuery address name) \<Rightarrow>
               Inr (snd (rs_Add now
                 (map (peer_result local) (peers_Find address name (qo_Exclude options) (ns_peers s))) results))
           | _ \<Rightarrow> Inl any_error))"

section \<open>Lemmas\<close>

text \<open>
  The specification of a result set with hidden older results: for every id the newest date seen,
  and of several items with that date the first one.
\<close>

lemma rs_Add_options [simp]: "rs_options (snd (rs_Add now is s)) = rs_options s"
  by (induction now "is" s rule: rs_Add.induct) (auto split: prod.splits)

lemma rs_Add_append:
  "rs_Add now (xs @ ys) s =
     (fst (rs_Add now xs s) @ fst (rs_Add now ys (snd (rs_Add now xs s))),
      snd (rs_Add now ys (snd (rs_Add now xs s))))"
  by (induction now xs s rule: rs_Add.induct) (auto simp: split_beta)

lemma rs_Add_subset: "set (fst (rs_Add now is s)) \<subseteq> set is"
  by (induction now "is" s rule: rs_Add.induct) (auto simp: split_beta)

lemma rs_distinct:
  "distinct (map fst (rs_items s)) \<Longrightarrow> distinct (map fst (rs_items (snd (rs_Add now is s))))"
  by (induction now "is" s rule: rs_Add.induct) (auto simp: split_beta distinct_update)

text \<open>One step: an item that is not skipped replaces the entry of its id and no other.\<close>

lemma map_of_rs_update:
  "map_of (AList.update (qr_Id i) i items) k = (if k = qr_Id i then Some i else map_of items k)"
  by (simp add: update_conv')

lemma rs_Add_other:
  "\<forall>i\<in>set is. qr_Id i \<noteq> k \<Longrightarrow> map_of (rs_items (snd (rs_Add now is s))) k = map_of (rs_items s) k"
  by (induction now "is" s rule: rs_Add.induct) (auto simp: split_beta map_of_rs_update)

text \<open>The entry of an id never gets an older date.\<close>

lemma rs_newest:
  assumes "qo_Filter (rs_options s) = HIDE_OLDER" "i \<in> set is"
  shows "\<exists>x. map_of (rs_items (snd (rs_Add now is s))) (qr_Id i) = Some x
    \<and> ProtoNanos now (qr_Date i) \<le> ProtoNanos now (qr_Date x)"
proof -
  define d where "d = (\<lambda>i :: QueryResult. ProtoNanos now (qr_Date i))"
  have keep: "\<exists>y. map_of (rs_items (snd (rs_Add now is s))) k = Some y \<and> d x \<le> d y"
    if "qo_Filter (rs_options s) = HIDE_OLDER" "map_of (rs_items s) k = Some x" for k x "is" s
    using that
  proof (induction "is" arbitrary: s x)
    case (Cons a as)
    show ?case
    proof (cases "skips now a s")
      case True
      then show ?thesis using Cons by simp
    next
      case False
      define s' where "s' = s\<lparr>rs_items := AList.update (qr_Id a) a (rs_items s)\<rparr>"
      have f: "qo_Filter (rs_options s') = HIDE_OLDER" using Cons.prems by (simp add: s'_def)
      have "\<exists>z. map_of (rs_items s') k = Some z \<and> d x \<le> d z"
        using False Cons.prems by (auto simp: s'_def map_of_rs_update skips_def d_def)
      then obtain z where z: "map_of (rs_items s') k = Some z" "d x \<le> d z" by blast
      obtain y where "map_of (rs_items (snd (rs_Add now as s'))) k = Some y" "d z \<le> d y"
        using Cons.IH [OF f z(1)] by blast
      then show ?thesis using False z(2) by (auto simp: split_beta s'_def [symmetric])
    qed
  qed auto
  have "\<exists>x. map_of (rs_items (snd (rs_Add now is s))) (qr_Id i) = Some x \<and> d i \<le> d x"
    using assms
  proof (induction "is" arbitrary: s)
    case (Cons a as)
    show ?case
    proof (cases "a = i")
      case False
      then show ?thesis using Cons by (auto simp: split_beta)
    next
      case True
      show ?thesis
      proof (cases "skips now a s")
        case skip: True
        then obtain l where l: "map_of (rs_items s) (qr_Id i) = Some l" "d i \<le> d l"
          using Cons.prems(1) True by (auto simp: skips_def d_def split: option.splits)
        obtain y where "map_of (rs_items (snd (rs_Add now as s))) (qr_Id i) = Some y" "d l \<le> d y"
          using keep [OF Cons.prems(1) l(1)] by blast
        then show ?thesis using skip l(2) by auto
      next
        case no: False
        define s' where "s' = s\<lparr>rs_items := AList.update (qr_Id a) a (rs_items s)\<rparr>"
        have "qo_Filter (rs_options s') = HIDE_OLDER" "map_of (rs_items s') (qr_Id i) = Some i"
          using Cons.prems(1) True by (simp_all add: s'_def map_of_rs_update)
        from keep [OF this] show ?thesis using no by (auto simp: split_beta s'_def [symmetric])
      qed
    qed
  qed simp
  then show ?thesis by (simp add: d_def)
qed

end
