(* ===== verification/CafeHost.thy ===== *)
theory CafeHost
  imports CafeClient Search
begin

text \<open>
  The handlers of a cafe host, \<^verbatim>\<open>core/cafe_service.go\<close>. A handler returns an envelope to send back or
  nothing; an error of a handler is not answered. A request that is refused is answered with an
  error envelope that carries a code and a text.
\<close>

definition errInvalidAddress :: string where
  "errInvalidAddress = ''invalid address''"

definition errForbidden :: string where
  "errForbidden = ''forbidden''"

definition errBadRequest :: string where
  "errBadRequest = ''bad request''"

definition inboxMessagePageSize :: int where
  "inboxMessagePageSize = 10"

text \<open>Four weeks, in seconds.\<close>

definition defaultSessionDuration :: int where
  "defaultSessionDuration = 2419200"

text \<open>\<open>err.Error()\<close>.\<close>

fun error_text :: "goerr \<Rightarrow> string" where
  "error_text (UniqueFailed column) = ''UNIQUE constraint failed: '' @ column"
| "error_text (ErrMsg text) = text"
| "error_text (Panic text) = text"
| "error_text ErrNoToken = ''no token found''"
| "error_text ErrExpired = ''token expired''"
| "error_text ErrInvalid = ''token invalid''"
| "error_text ErrInvalidVersionByte = ''invalid version byte''"
| "error_text ErrInvalidChecksum = ''invalid checksum''"
| "error_text ErrInvalidNode = ''thread node is not valid''"
| "error_text ErrNotShareable = ''thread is not shareable''"
| "error_text ErrNotReadable = ''thread is not readable''"
| "error_text ErrNotAnnotatable = ''thread is not annotatable''"
| "error_text ErrNotWritable = ''thread is not writable''"
| "error_text ErrThreadNotFound = ''thread not found''"
| "error_text ErrBlockNotFound = ''block not found''"
| "error_text ErrInvalidThreadBlock = ''invalid thread block''"
| "error_text _ = ''error''"

text \<open>\<open>hex.EncodeToString\<close>.\<close>

definition hex_digit :: "nat \<Rightarrow> char" where
  "hex_digit n = ''0123456789abcdef'' ! n"

definition hex_encode :: "bytes \<Rightarrow> string" where
  "hex_encode bs = concat (map (\<lambda>b. [hex_digit (unat b div 16), hex_digit (unat b mod 16)]) bs)"

section \<open>Replies\<close>

type_synonym handler = "MsgEnvelope option node_op"

definition reply :: "cafe_env \<Rightarrow> Message \<Rightarrow> MessageType \<Rightarrow> msg_payload \<Rightarrow> handler" where
  "reply ca m mtype payload =
     go_bind (go_lift (NewEnvelope (ca_net ca) mtype (Some payload) (Some (msg_Request m)) True)) (\<lambda>env.
     go_return (Some env))"

definition refuse :: "cafe_env \<Rightarrow> Message \<Rightarrow> nat \<Rightarrow> string \<Rightarrow> handler" where
  "refuse ca m code text =
     go_bind (go_lift (NewError (ca_net ca) code text (msg_Request m))) (\<lambda>env. go_return (Some env))"

text \<open>\<open>err := op; if err != nil { return NewError(500, text(err)) }\<close>.\<close>

definition or_500 :: "cafe_env \<Rightarrow> Message \<Rightarrow> 'a node_op \<Rightarrow> (goerr \<Rightarrow> string) \<Rightarrow> ('a \<Rightarrow> handler) \<Rightarrow> handler" where
  "or_500 ca m op text k =
     go_bind (go_try op) (\<lambda>r. case r of Inl err \<Rightarrow> refuse ca m 500 (text err) | Inr x \<Rightarrow> k x)"

definition request :: "(msg_payload \<Rightarrow> 'a option) \<Rightarrow> Message \<Rightarrow> 'a node_op" where
  "request sel m = go_lift (UnmarshalAny sel (msg_Payload m))"

section \<open>Registration\<close>

definition handleChallenge :: "cafe_env \<Rightarrow> world \<Rightarrow> Message \<Rightarrow> string \<Rightarrow> handler" where
  "handleChallenge ca w m pid =
     go_bind (request (\<lambda>p. case p of MCafeChallenge a \<Rightarrow> Some a | _ \<Rightarrow> None) m) (\<lambda>address.
     go_bind (go_lift (keypair_Parse (ca_dec58 ca) address)) (\<lambda>accnt.
     if can_Sign accnt then refuse ca m 400 errInvalidAddress
     else go_bind (new_ksuid w) (\<lambda>value.
       go_bind (TimestampNow w) (\<lambda>now.
       or_500 ca m
         (on_cafe_client_nonces (nonces_Add now
            \<lparr>nonce_Value = value, nonce_Address = address, nonce_Date = Some now\<rparr>)) error_text
         (\<lambda>_. reply ca m Message_CAFE_NONCE (MCafeNonce value))))))"

text \<open>The token of a registration: base58 of a twelve byte id and the password, hashed in the store.\<close>

definition registration_token :: "cafe_env \<Rightarrow> string \<Rightarrow> node_state \<Rightarrow> CafeToken option" where
  "registration_token ca token s =
     (case ca_dec58 ca token of
        Inl _ \<Rightarrow> None
      | Inr plainBytes \<Rightarrow>
          if length plainBytes < 44 then None
          else case tokens_Get (hex_encode (take 12 plainBytes)) (ns_cafe_tokens s) of
              None \<Rightarrow> None
            | Some encodedToken \<Rightarrow>
                (case ca_bcryptCompare ca (tok_Value encodedToken) (drop 12 plainBytes) of
                   Inl _ \<Rightarrow> None | Inr _ \<Rightarrow> Some encodedToken))"

text \<open>
  The client is added, or kept as it is when the peer is registered already; then the session is
  made and the nonce is deleted.
\<close>

definition register_client ::
  "cafe_env \<Rightarrow> world \<Rightarrow> Message \<Rightarrow> string \<Rightarrow> CafeRegistration \<Rightarrow> CafeToken \<Rightarrow> CafeClientNonce \<Rightarrow> handler" where
  "register_client ca w m pid reg encodedToken snonce =
     go_bind (TimestampNow w) (\<lambda>now.
     go_bind (go_try (on_cafe_clients (clients_Add now
        \<lparr>cl_Id = pid, cl_Address = reg_Address reg, cl_Created = Some now, cl_Seen = Some now,
         cl_Token = tok_Id encodedToken\<rparr>))) (\<lambda>added.
     go_bind (go_get (\<lambda>s. clients_Get pid (ns_cafe_clients s))) (\<lambda>client.
     if isl added \<and> client = None then refuse ca m 500 ''get or create client failed''
     else
       or_500 ca m
         (NewSession w (ca_jwt ca) pid cafeServiceProtocol defaultSessionDuration (ca_info ca))
         error_text (\<lambda>session.
       or_500 ca m (on_cafe_client_nonces (nonces_Delete (nonce_Value snonce))) error_text (\<lambda>_.
       reply ca m Message_CAFE_SESSION (MCafeSession session))))))"

definition handleRegistration :: "cafe_env \<Rightarrow> world \<Rightarrow> Message \<Rightarrow> string \<Rightarrow> handler" where
  "handleRegistration ca w m pid =
     go_bind (request (\<lambda>p. case p of MCafeRegistration r \<Rightarrow> Some r | _ \<Rightarrow> None) m) (\<lambda>reg.
     if \<not> ca_open ca then refuse ca m 403 errForbidden
     else go_bind (go_get (registration_token ca (reg_Token reg))) (\<lambda>tok.
     case tok of None \<Rightarrow> refuse ca m 403 errForbidden
     | Some encodedToken \<Rightarrow>
       go_bind (go_get (\<lambda>s. nonces_Get (reg_Value reg) (ns_cafe_client_nonces s))) (\<lambda>nonce.
       case nonce of None \<Rightarrow> refuse ca m 403 errForbidden
       | Some snonce \<Rightarrow>
         if nonce_Address snonce \<noteq> reg_Address reg then refuse ca m 403 errForbidden
         else go_bind (go_lift (keypair_Parse (ca_dec58 ca) (reg_Address reg))) (\<lambda>accnt.
         if can_Sign accnt then refuse ca m 400 errInvalidAddress
         else if isl (ca_verifySig ca (reg_Address reg) (string_bytes (reg_Value reg @ reg_Nonce reg)) (reg_Sig reg))
         then refuse ca m 403 errForbidden
         else register_client ca w m pid reg encodedToken snonce))))"

definition handleDeregistration :: "cafe_env \<Rightarrow> Message \<Rightarrow> string \<Rightarrow> handler" where
  "handleDeregistration ca m pid =
     go_bind (request (\<lambda>p. case p of MCafeDeregistration t \<Rightarrow> Some t | _ \<Rightarrow> None) m) (\<lambda>_.
     or_500 ca m (on_cafe_client_threads (client_threads_DeleteByClient pid))
       (\<lambda>_. ''delete client threads failed'') (\<lambda>_.
     or_500 ca m (on_cafe_client_messages (client_messages_DeleteByClient pid (- 1)))
       (\<lambda>_. ''delete client messages failed'') (\<lambda>_.
     or_500 ca m (on_cafe_clients (clients_Delete pid))
       (\<lambda>_. ''delete client failed'') (\<lambda>_.
     reply ca m Message_CAFE_DEREGISTRATION_ACK (MCafeDeregistrationAck pid)))))"

section \<open>Tokens\<close>

text \<open>No envelope means that the token is good.\<close>

definition authToken :: "cafe_env \<Rightarrow> world \<Rightarrow> Message \<Rightarrow> string \<Rightarrow> string \<Rightarrow> bool \<Rightarrow> handler" where
  "authToken ca w m pid token refreshing =
     go_bind (go_try (Validate w (ca_jwt ca) token refreshing cafeServiceProtocol (Some pid))) (\<lambda>r.
     case r of
       Inr _ \<Rightarrow> go_return None
     | Inl err \<Rightarrow>
         if err = ErrNoToken \<or> err = ErrExpired then refuse ca m 401 errUnauthorized
         else if err = ErrInvalid then refuse ca m 403 errForbidden
         else go_return None)"

definition authorized :: "cafe_env \<Rightarrow> world \<Rightarrow> Message \<Rightarrow> string \<Rightarrow> string \<Rightarrow> bool \<Rightarrow> handler \<Rightarrow> handler" where
  "authorized ca w m pid token refreshing k =
     go_bind (authToken ca w m pid token refreshing) (\<lambda>rerr.
     case rerr of Some e \<Rightarrow> go_return (Some e) | None \<Rightarrow> k)"

text \<open>The client behind a request, or an error.\<close>

definition with_client :: "cafe_env \<Rightarrow> Message \<Rightarrow> string \<Rightarrow> (CafeClient \<Rightarrow> handler) \<Rightarrow> handler" where
  "with_client ca m pid k =
     go_bind (go_get (\<lambda>s. clients_Get pid (ns_cafe_clients s))) (\<lambda>client.
     case client of None \<Rightarrow> refuse ca m 403 errForbidden | Some c \<Rightarrow> k c)"

text \<open>The claims of a token whatever the error it was parsed with; \<open>None\<close> is answered with an error.\<close>

definition parsed_claims :: "cafe_env \<Rightarrow> timestamp \<Rightarrow> string \<Rightarrow> TextileClaims option" where
  "parsed_claims ca now token =
     (case jw_parse (ca_jwt ca) (Seconds now) token of
        None \<Rightarrow> None
      | Some (tclaims, _) \<Rightarrow> (case ParseClaims tclaims of Inl _ \<Rightarrow> None | Inr c \<Rightarrow> Some c))"

definition handleRefreshSession :: "cafe_env \<Rightarrow> world \<Rightarrow> Message \<Rightarrow> string \<Rightarrow> handler" where
  "handleRefreshSession ca w m pid =
     go_bind (request (\<lambda>p. case p of MCafeRefreshSession r \<Rightarrow> Some r | _ \<Rightarrow> None) m) (\<lambda>ref.
     if \<not> ca_open ca then refuse ca m 403 errForbidden
     else authorized ca w m pid (ref_Refresh ref) True
       (go_bind (TimestampNow w) (\<lambda>now1.
        go_bind (TimestampNow w) (\<lambda>now2.
        case (parsed_claims ca now1 (ref_Access ref), parsed_claims ca now2 (ref_Refresh ref)) of
          (Some accessClaims, Some refreshClaims) \<Rightarrow>
            if jc_Id refreshClaims = [] then go_fail (Panic ''slice bounds out of range'')
            else if tl (jc_Id refreshClaims) \<noteq> jc_Id accessClaims then refuse ca m 403 errForbidden
            else if jc_Subject refreshClaims \<noteq> jc_Subject accessClaims then refuse ca m 403 errForbidden
            else or_500 ca m (go_lift (sn_decodePeer (ca_net ca) (jc_Subject accessClaims))) error_text (\<lambda>spid.
              or_500 ca m
                (NewSession w (ca_jwt ca) spid cafeServiceProtocol defaultSessionDuration (ca_info ca))
                error_text (\<lambda>session.
              reply ca m Message_CAFE_SESSION (MCafeSession session)))
        | _ \<Rightarrow> refuse ca m 403 errForbidden))))"

section \<open>Content\<close>

fun decode_cids :: "world \<Rightarrow> string list \<Rightarrow> goerr + string list" where
  "decode_cids w [] = Inr []"
| "decode_cids w (c # cs) =
     (case w_parseCid w c of Inl err \<Rightarrow> Inl err
      | Inr d \<Rightarrow> (case decode_cids w cs of Inl err \<Rightarrow> Inl err | Inr ds \<Rightarrow> Inr (d # ds)))"

text \<open>\<open>ipfs.Pinned\<close> and \<open>ipfs.NotPinned\<close>: the given cids that are pinned, or that are not.\<close>

definition pinned_is :: "bool \<Rightarrow> cafe_env \<Rightarrow> world \<Rightarrow> string list \<Rightarrow> string list node_op" where
  "pinned_is b ca w cids =
     go_bind (go_lift (decode_cids w cids)) (\<lambda>decoded.
     go_bind (go_get ns_effects) (\<lambda>past.
     go_bind (go_lift (ca_checkPinned ca past decoded)) (\<lambda>list.
     go_return (map fst (filter (\<lambda>e. snd e = b) list)))))"

definition Pinned :: "cafe_env \<Rightarrow> world \<Rightarrow> string list \<Rightarrow> string list node_op" where
  "Pinned = pinned_is True"

definition NotPinned :: "cafe_env \<Rightarrow> world \<Rightarrow> string list \<Rightarrow> string list node_op" where
  "NotPinned = pinned_is False"

definition AddObject :: "cafe_env \<Rightarrow> bytes \<Rightarrow> string node_op" where
  "AddObject ca node =
     go_bind (go_lift (ca_addObject ca node)) (\<lambda>cid. go_seq (emit (IpfsAdd node)) (go_return cid))"

definition handleStore :: "cafe_env \<Rightarrow> world \<Rightarrow> Message \<Rightarrow> string \<Rightarrow> handler" where
  "handleStore ca w m pid =
     go_bind (request (\<lambda>p. case p of MCafeStore x \<Rightarrow> Some x | _ \<Rightarrow> None) m) (\<lambda>sto.
     authorized ca w m pid (sto_Token sto) False
       (go_bind (NotPinned ca w (sto_Cids sto)) (\<lambda>list.
        reply ca m Message_CAFE_OBJECT_LIST (MCafeObjectList (map (ca_cidHash ca) list)))))"

definition handleUnstore :: "cafe_env \<Rightarrow> world \<Rightarrow> Message \<Rightarrow> string \<Rightarrow> handler" where
  "handleUnstore ca w m pid =
     go_bind (request (\<lambda>p. case p of MCafeUnstore x \<Rightarrow> Some x | _ \<Rightarrow> None) m) (\<lambda>unstore.
     authorized ca w m pid (sto_Token unstore) False
       (go_bind (Pinned ca w (sto_Cids unstore)) (\<lambda>list.
        go_seq (go_foreach (\<lambda>cid. UnpinNode w cid True) list)
               (reply ca m Message_CAFE_UNSTORE_ACK (MCafeUnstoreAck (map (ca_cidHash ca) list))))))"

text \<open>The acknowledgement names the cid the client asked for, whatever the object hashes to.\<close>

definition handleObject :: "cafe_env \<Rightarrow> world \<Rightarrow> Message \<Rightarrow> string \<Rightarrow> handler" where
  "handleObject ca w m pid =
     go_bind (request (\<lambda>p. case p of MCafeObject x \<Rightarrow> Some x | _ \<Rightarrow> None) m) (\<lambda>obj.
     authorized ca w m pid (obj_Token obj) False
       (if obj_Data obj \<noteq> []
        then go_bind (AddData w (obj_Data obj) False) (\<lambda>_.
             reply ca m Message_CAFE_STORE_ACK (MCafeStoreAck (obj_Cid obj)))
        else if obj_Node obj \<noteq> []
        then go_bind (AddObject ca (obj_Node obj)) (\<lambda>_.
             reply ca m Message_CAFE_STORE_ACK (MCafeStoreAck (obj_Cid obj)))
        else refuse ca m 400 errBadRequest))"

section \<open>Threads\<close>

definition handleStoreThread :: "cafe_env \<Rightarrow> world \<Rightarrow> Message \<Rightarrow> string \<Rightarrow> handler" where
  "handleStoreThread ca w m pid =
     go_bind (request (\<lambda>p. case p of MCafeStoreThread x \<Rightarrow> Some x | _ \<Rightarrow> None) m) (\<lambda>sth.
     authorized ca w m pid (sth_Token sth) False
       (with_client ca m pid (\<lambda>client.
        or_500 ca m
          (on_cafe_client_threads (client_threads_AddOrUpdate
             \<lparr>ct_Id = sth_Id sth, ct_Client = cl_Id client, ct_Ciphertext = sth_Ciphertext sth\<rparr>))
          error_text (\<lambda>_.
        reply ca m Message_CAFE_STORE_THREAD_ACK (MCafeStoreThreadAck (sth_Id sth))))))"

definition handleUnstoreThread :: "cafe_env \<Rightarrow> world \<Rightarrow> Message \<Rightarrow> string \<Rightarrow> handler" where
  "handleUnstoreThread ca w m pid =
     go_bind (request (\<lambda>p. case p of MCafeUnstoreThread x \<Rightarrow> Some x | _ \<Rightarrow> None) m) (\<lambda>uth.
     authorized ca w m pid (uth_Token uth) False
       (with_client ca m pid (\<lambda>client.
        or_500 ca m (on_cafe_client_threads (client_threads_Delete (uth_Id uth) (cl_Id client)))
          error_text (\<lambda>_.
        reply ca m Message_CAFE_UNSTORE_THREAD_ACK (MCafeUnstoreThreadAck (uth_Id uth))))))"

section \<open>Messages for clients\<close>

definition notifyClient :: "cafe_env \<Rightarrow> string \<Rightarrow> unit node_op" where
  "notifyClient ca peerId =
     go_bind (go_lift (NewEnvelope (ca_net ca) Message_CAFE_YOU_HAVE_MAIL None None False)) (\<lambda>env.
     Publish (ca_net ca) (cafeServiceProtocol @ ''/'' @ peerId) env)"

text \<open>
  Pinning what an envelope carries: the node, the block when it is in the envelope, what the node
  links to, and the envelope itself, whose hash is the id of the message.
\<close>

definition pin_envelope :: "cafe_env \<Rightarrow> world \<Rightarrow> bytes \<Rightarrow> string node_op" where
  "pin_envelope ca w envb =
     go_bind (go_lift (ca_unmarshalEnvelope ca envb)) (\<lambda>nenv.
     case me_Message nenv of
       None \<Rightarrow> go_fail (Panic ''nil message in envelope'')
     | Some nm \<Rightarrow>
         go_bind (request (\<lambda>p. case p of MThreadEnvelope x \<Rightarrow> Some x | _ \<Rightarrow> None) nm) (\<lambda>tenv.
         go_bind (AddObject ca (te_Node tenv)) (\<lambda>oid.
         go_bind (go_lift (w_nodeAt w oid)) (\<lambda>node.
         go_seq (case te_Block tenv of None \<Rightarrow> go_return ()
                 | Some b \<Rightarrow> go_bind (AddData w b False) (\<lambda>_. go_return ()))
        (go_bind (extractNode w node (te_Block tenv = None)) (\<lambda>_.
         AddData w envb False))))))"

definition handleDeliverMessage :: "cafe_env \<Rightarrow> world \<Rightarrow> Message \<Rightarrow> string \<Rightarrow> handler" where
  "handleDeliverMessage ca w m pid =
     go_bind (request (\<lambda>p. case p of MCafeDeliverMessage x \<Rightarrow> Some x | _ \<Rightarrow> None) m) (\<lambda>msg.
     go_bind (go_get (\<lambda>s. clients_Get (del_Client msg) (ns_cafe_clients s))) (\<lambda>client.
     case client of None \<Rightarrow> go_return None
     | Some c \<Rightarrow>
         go_bind (if del_Env msg \<noteq> [] then pin_envelope ca w (del_Env msg) else go_return (del_Id msg)) (\<lambda>mid.
         go_bind (TimestampNow w) (\<lambda>now.
         go_bind (go_try (on_cafe_client_messages (client_messages_AddOrUpdate now
            \<lparr>ccm_Id = mid, ccm_Peer = pid, ccm_Client = cl_Id c, ccm_Date = Some now\<rparr>))) (\<lambda>r.
         if isl r then go_return None
         else go_seq (go_catch (notifyClient ca (cl_Id c)) (\<lambda>_. go_return ()))
                     (go_return None))))))"

definition handleCheckMessages :: "cafe_env \<Rightarrow> world \<Rightarrow> Message \<Rightarrow> string \<Rightarrow> handler" where
  "handleCheckMessages ca w m pid =
     go_bind (request (\<lambda>p. case p of MCafeCheckMessages t \<Rightarrow> Some t | _ \<Rightarrow> None) m) (\<lambda>token.
     authorized ca w m pid token False
       (with_client ca m pid (\<lambda>client.
        go_bind (TimestampNow w) (\<lambda>now.
        or_500 ca m
          (on_cafe_clients (clients_UpdateLastSeen (cl_Id client) (ProtoNanos now (Some now)))) error_text (\<lambda>_.
        go_bind (go_get (\<lambda>s. client_messages_ListByClient (cl_Id client) inboxMessagePageSize
                                (ns_cafe_client_messages s))) (\<lambda>msgs.
        reply ca m Message_CAFE_MESSAGES (MCafeMessages
          (map (\<lambda>x. \<lparr>cm_Id = ccm_Id x, cm_Peer = ccm_Peer x, cm_Date = ccm_Date x, cm_Attempts = 0\<rparr>) msgs))))))))"

definition handleDeleteMessages :: "cafe_env \<Rightarrow> world \<Rightarrow> Message \<Rightarrow> string \<Rightarrow> handler" where
  "handleDeleteMessages ca w m pid =
     go_bind (request (\<lambda>p. case p of MCafeDeleteMessages t \<Rightarrow> Some t | _ \<Rightarrow> None) m) (\<lambda>token.
     authorized ca w m pid token False
       (with_client ca m pid (\<lambda>client.
        or_500 ca m
          (on_cafe_client_messages (client_messages_DeleteByClient (cl_Id client) inboxMessagePageSize))
          error_text (\<lambda>_.
        go_bind (go_get (\<lambda>s. client_messages_CountByClient (cl_Id client) (ns_cafe_client_messages s))) (\<lambda>remaining.
        reply ca m Message_CAFE_DELETE_MESSAGES_ACK (MCafeDeleteMessagesAck (0 < remaining)))))))"

definition handleNotifyClient :: "nat \<Rightarrow> cafe_env \<Rightarrow> world \<Rightarrow> Message \<Rightarrow> string \<Rightarrow> handler" where
  "handleNotifyClient fuel ca w m pid =
     go_bind (go_get (\<lambda>s. cafe_sessions_Get pid (ns_cafe_sessions s))) (\<lambda>session.
     if session = None then go_return None
     else go_seq (CheckMessages fuel ca w pid) (go_return None))"

section \<open>Peers and queries\<close>

definition handlePublishPeer :: "cafe_env \<Rightarrow> world \<Rightarrow> Message \<Rightarrow> string \<Rightarrow> handler" where
  "handlePublishPeer ca w m pid =
     go_bind (request (\<lambda>p. case p of MCafePublishPeer x \<Rightarrow> Some x | _ \<Rightarrow> None) m) (\<lambda>pub.
     authorized ca w m pid (pub_Token pub) False
       (with_client ca m pid (\<lambda>client.
        case pub_Peer pub of
          None \<Rightarrow> go_fail (Panic ''nil peer'')
        | Some peer \<Rightarrow>
            go_bind (TimestampNow w) (\<lambda>now.
            go_seq (on_peers (peers_AddOrUpdate now peer))
                   (reply ca m Message_CAFE_PUBLISH_PEER_ACK (MCafePublishPeerAck (peer_Id peer)))))))"

definition handlePubSubQuery :: "cafe_env \<Rightarrow> world \<Rightarrow> Message \<Rightarrow> string \<Rightarrow> handler" where
  "handlePubSubQuery ca w m pid =
     go_bind (request (\<lambda>p. case p of MPubSubQuery x \<Rightarrow> Some x | _ \<Rightarrow> None) m) (\<lambda>query.
     go_bind (go_get ns_inFlight) (\<lambda>inFlight.
     if psq_Id query \<in> set inFlight then go_return None
     else go_bind (TimestampNow w) (\<lambda>now.
       go_bind (go_get (searchLocal w (ca_encryptThread ca) now (psq_Type query)
          \<lparr>qo_LocalOnly = False, qo_RemoteOnly = False, qo_Limit = 0, qo_Wait = 0, qo_Filter = NO_FILTER,
           qo_Exclude = psq_Exclude query\<rparr> (psq_Payload query) False)) (\<lambda>found.
       go_bind (go_lift found) (\<lambda>results.
       if length (rs_items results) = 0 then go_return None
       else go_bind (go_lift (NewEnvelope (ca_net ca) Message_CAFE_PUBSUB_QUERY_RES
              (Some (MPubSubQueryResults \<lparr>psr_Id = psq_Id query,
                 psr_Results = \<lparr>qrs_Type = psq_Type query, qrs_Items = rs_List results\<rparr>\<rparr>)) None False)) (\<lambda>renv.
         case psq_ResponseType query of
           PubSubQuery_P2P \<Rightarrow>
             go_seq (go_catch (SendMessage (ca_net ca) pid renv) (\<lambda>_. go_return ())) (go_return None)
         | PubSubQuery_PUBSUB \<Rightarrow>
             go_seq (Publish (ca_net ca) (if psq_Topic query = [] then psq_Id query else psq_Topic query) renv)
                    (go_return None)))))))"

definition handlePubSubQueryResults :: "Message \<Rightarrow> handler" where
  "handlePubSubQueryResults m =
     go_bind (request (\<lambda>p. case p of MPubSubQueryResults x \<Rightarrow> Some x | _ \<Rightarrow> None) m) (\<lambda>res.
     go_seq (emit (QueryResultsSent (psr_Id res))) (go_return None))"

section \<open>All handlers\<close>

definition CafeService_Handle :: "nat \<Rightarrow> cafe_env \<Rightarrow> world \<Rightarrow> Message \<Rightarrow> string \<Rightarrow> handler" where
  "CafeService_Handle fuel ca w m pid =
     (case msg_Type m of
        Message_CAFE_CHALLENGE \<Rightarrow> handleChallenge ca w m pid
      | Message_CAFE_REGISTRATION \<Rightarrow> handleRegistration ca w m pid
      | Message_CAFE_DEREGISTRATION \<Rightarrow> handleDeregistration ca m pid
      | Message_CAFE_REFRESH_SESSION \<Rightarrow> handleRefreshSession ca w m pid
      | Message_CAFE_STORE \<Rightarrow> handleStore ca w m pid
      | Message_CAFE_UNSTORE \<Rightarrow> handleUnstore ca w m pid
      | Message_CAFE_OBJECT \<Rightarrow> handleObject ca w m pid
      | Message_CAFE_STORE_THREAD \<Rightarrow> handleStoreThread ca w m pid
      | Message_CAFE_UNSTORE_THREAD \<Rightarrow> handleUnstoreThread ca w m pid
      | Message_CAFE_DELIVER_MESSAGE \<Rightarrow> handleDeliverMessage ca w m pid
      | Message_CAFE_CHECK_MESSAGES \<Rightarrow> handleCheckMessages ca w m pid
      | Message_CAFE_DELETE_MESSAGES \<Rightarrow> handleDeleteMessages ca w m pid
      | Message_CAFE_YOU_HAVE_MAIL \<Rightarrow> handleNotifyClient fuel ca w m pid
      | Message_CAFE_PUBLISH_PEER \<Rightarrow> handlePublishPeer ca w m pid
      | Message_CAFE_PUBSUB_QUERY \<Rightarrow> handlePubSubQuery ca w m pid
      | Message_CAFE_PUBSUB_QUERY_RES \<Rightarrow> handlePubSubQueryResults m
      | _ \<Rightarrow> go_return None)"

end
