(* ===== verification/CafeQuery.thy ===== *)
theory CafeQuery
  imports CafeHost
begin

text \<open>
  Queries of a cafe host (\<open>handleQuery\<close>, \<open>searchPubSub\<close> and \<open>publishQuery\<close> of \<^verbatim>\<open>core/cafe_service.go\<close>).
  A query is answered from the local stores and then by what arrives over pubsub until it is full,
  cancelled or out of time. What the loop receives is a list of events: the results from the
  listener, in order, and the end of the wait. Results that are already waiting when the query is
  full may still be read before the end is seen, so the end is an event of its own.
\<close>

datatype query_event = Received PubSubQueryResults | WaitOver

text \<open>The state of the reply closure of \<open>handleQuery\<close>: the results so far and the envelopes sent.\<close>

type_synonym reply_state = "queryResultSet \<times> MsgEnvelope list"

definition query_reply ::
  "service_net \<Rightarrow> timestamp \<Rightarrow> int \<Rightarrow> QueryResults \<Rightarrow> reply_state \<Rightarrow> bool \<times> reply_state" where
  "query_reply sn now rid res st =
     (let (results, sent) = st; (added, results') = rs_Add now (qrs_Items res) results
      in if length added = 0 then (False, results', sent)
         else (case NewEnvelope sn Message_CAFE_QUERY_RES (Some (MQueryResults res)) (Some rid) True of
                 Inl _ \<Rightarrow> (False, results', sent)
               | Inr renv \<Rightarrow> (rs_Full results', results', sent @ [renv])))"

fun listen_results ::
  "(QueryResults \<Rightarrow> 's \<Rightarrow> bool \<times> 's) \<Rightarrow> string \<Rightarrow> QueryType \<Rightarrow> query_event list \<Rightarrow> 's \<Rightarrow> 's" where
  "listen_results respond qid qtype [] st = st"
| "listen_results respond qid qtype (WaitOver # es) st = st"
| "listen_results respond qid qtype (Received r # es) st =
     (if psr_Id r = qid \<and> qrs_Type (psr_Results r) = qtype
      then listen_results respond qid qtype es (snd (respond (psr_Results r) st))
      else listen_results respond qid qtype es st)"

definition publishQuery :: "cafe_env \<Rightarrow> PubSubQuery \<Rightarrow> unit node_op" where
  "publishQuery ca req =
     go_bind (go_lift (NewEnvelope (ca_net ca) Message_CAFE_PUBSUB_QUERY (Some (MPubSubQuery req)) None False))
       (\<lambda>env. Publish (ca_net ca) cafeServiceProtocol env)"

definition pubsub_query :: "cafe_env \<Rightarrow> world \<Rightarrow> Query \<Rightarrow> QueryOptions \<Rightarrow> bool \<Rightarrow> PubSubQuery" where
  "pubsub_query ca w query options fromCafe =
     \<lparr>psq_Id = q_Id query, psq_Type = q_Type query, psq_Payload = q_Payload query,
      psq_ResponseType = (if ca_open ca \<and> \<not> fromCafe then PubSubQuery_PUBSUB else PubSubQuery_P2P),
      psq_Exclude = qo_Exclude options, psq_Topic = cafeServiceProtocol @ ''/'' @ w_self w,
      psq_Timeout = qo_Wait options\<rparr>"

text \<open>The result is the final state of the reply function and the error, if any.\<close>

definition searchPubSub ::
  "cafe_env \<Rightarrow> world \<Rightarrow> Query \<Rightarrow> QueryOptions \<Rightarrow> (QueryResults \<Rightarrow> 's \<Rightarrow> bool \<times> 's) \<Rightarrow> query_event list \<Rightarrow> bool \<Rightarrow> 's
   \<Rightarrow> ('s \<times> goerr option) node_op" where
  "searchPubSub ca w query options respond events fromCafe st =
     go_seq (go_modify (\<lambda>s. s\<lparr>ns_inFlight := List.insert (q_Id query) (ns_inFlight s)\<rparr>))
    (go_bind (go_try (publishQuery ca (pubsub_query ca w query options fromCafe))) (\<lambda>r.
     go_seq (go_modify (\<lambda>s. s\<lparr>ns_inFlight := filter (\<lambda>i. i \<noteq> q_Id query) (ns_inFlight s)\<rparr>))
       (go_return (case r of
          Inl err \<Rightarrow> (st, Some err)
        | Inr _ \<Rightarrow> (listen_results respond (q_Id query) (q_Type query) events st, None)))))"

definition handleQuery ::
  "cafe_env \<Rightarrow> world \<Rightarrow> query_event list \<Rightarrow> Message \<Rightarrow> string \<Rightarrow> (MsgEnvelope list \<times> goerr option) node_op" where
  "handleQuery ca w events m pid =
     go_bind (go_try (request (\<lambda>p. case p of MQuery x \<Rightarrow> Some x | _ \<Rightarrow> None) m)) (\<lambda>r.
     case r of Inl err \<Rightarrow> go_return ([], Some err)
     | Inr query0 \<Rightarrow>
       (let query = queryDefaults query0
        in case q_Options query of None \<Rightarrow> go_fail (Panic ''nil query options'')
           | Some options \<Rightarrow>
             go_bind (TimestampNow w) (\<lambda>now.
             go_bind (go_get (searchLocal w (ca_encryptThread ca) now (q_Type query) options
                        (q_Payload query) False)) (\<lambda>found.
             case found of Inl err \<Rightarrow> go_return ([], Some err)
             | Inr localResults \<Rightarrow>
               (let respond = query_reply (ca_net ca) now (msg_Request m);
                    (full, st) = respond \<lparr>qrs_Type = q_Type query, qrs_Items = rs_List localResults\<rparr>
                                   (newQueryResultSet options, [])
                in if full then go_return (snd st, None)
                   else go_bind (searchPubSub ca w query options respond events True st) (\<lambda>(st', err).
                        go_return (snd st', err)))))))"

end
