(* ===== verification/CafeTokens.thy ===== *)
theory CafeTokens
  imports CafeHost
begin

text \<open>
  The tokens a cafe host gives out for registration, \<^verbatim>\<open>core/tokens.go\<close>. A token is base58 of 44 bytes,
  the size of an AES key with its nonce: the first twelve are its id and the rest is a password,
  which the store keeps hashed. base58, bcrypt and the generator of keys are functions.
\<close>

record token_env =
  tk_dec58 :: base58_dec
  tk_enc58 :: base58_enc
  tk_generateKey :: "nat \<Rightarrow> goerr + bytes"
  tk_hashPassword :: "nat \<Rightarrow> bytes \<Rightarrow> goerr + bytes"
  tk_compare :: "bytes \<Rightarrow> bytes \<Rightarrow> goerr + unit"

definition invalid_token_format :: goerr where
  "invalid_token_format = ErrMsg ''invalid token format''"

definition CreateCafeToken :: "world \<Rightarrow> token_env \<Rightarrow> string \<Rightarrow> bool \<Rightarrow> string node_op" where
  "CreateCafeToken w tk token keep =
     go_bind
       (if token \<noteq> []
        then go_bind (go_lift (tk_dec58 tk token)) (\<lambda>key.
             if length key \<noteq> 44 then go_fail invalid_token_format else go_return key)
        else go_bind (draw (tk_generateKey tk)) go_lift) (\<lambda>key.
     let rawToken = drop 12 key
     in go_bind (draw (tk_hashPassword tk)) (\<lambda>hashPassword.
        go_bind (go_lift (hashPassword rawToken)) (\<lambda>safeToken.
        go_seq
          (if keep
           then go_bind (TimestampNow w) (\<lambda>now.
                on_cafe_tokens (tokens_Add now
                  \<lparr>tok_Id = hex_encode (take 12 key), tok_Value = safeToken, tok_Date = Some now\<rparr>))
           else go_return ())
          (go_return (tk_enc58 tk key)))))"

text \<open>A missing token is no error, only not valid.\<close>

definition ValidateCafeToken :: "token_env \<Rightarrow> string \<Rightarrow> node_state \<Rightarrow> bool \<times> goerr option" where
  "ValidateCafeToken tk token s =
     (case tk_dec58 tk token of
        Inl err \<Rightarrow> (False, Some err)
      | Inr plainBytes \<Rightarrow>
          if length plainBytes < 44 then (False, Some invalid_token_format)
          else case tokens_Get (hex_encode (take 12 plainBytes)) (ns_cafe_tokens s) of
              None \<Rightarrow> (False, None)
            | Some encodedToken \<Rightarrow>
                (case tk_compare tk (tok_Value encodedToken) (drop 12 plainBytes) of
                   Inl err \<Rightarrow> (False, Some err)
                 | Inr _ \<Rightarrow> (True, None)))"

definition RemoveCafeToken :: "token_env \<Rightarrow> string \<Rightarrow> unit node_op" where
  "RemoveCafeToken tk token =
     go_bind (go_lift (tk_dec58 tk token)) (\<lambda>plainBytes.
     if length plainBytes < 44 then go_fail invalid_token_format
     else on_cafe_tokens (tokens_Delete (hex_encode (take 12 plainBytes))))"

end
