(* ===== verification/CafeProps.thy ===== *)
theory CafeProps
  imports CafeQuery CafeTokens Sample
begin

text \<open>
  The properties of a cafe host: what a request without a good token can do, and what a registration needs.
\<close>

section \<open>Operations that change only the draws\<close>

text \<open>Refusals and replies and the check of a token only draw from the clock.\<close>

definition only_tick :: "node_state \<Rightarrow> node_state \<Rightarrow> bool" where
  "only_tick s s' \<longleftrightarrow> (\<exists>n. s' = s\<lparr>ns_tick := n\<rparr>)"

interpretation tick: step_relation only_tick
proof
  show "only_tick s s" for s unfolding only_tick_def by (rule exI [of _ "ns_tick s"]) simp
  show "only_tick s u" if "only_tick s t" "only_tick t u" for s t u
    using that by (auto simp: only_tick_def)
qed

lemma only_tick_part: "only_tick s s' \<Longrightarrow> (\<And>n. part (s\<lparr>ns_tick := n\<rparr>) = part s) \<Longrightarrow> part s' = part s"
  by (auto simp: only_tick_def)

named_theorems ticks "operations that only draw"

lemmas [ticks] = tick.keeps_intros

lemma tick_draw [ticks]: "tick.keeps (draw f)" "tick.keeps (TimestampNow w)" "tick.keeps (new_ksuid w)"
  by (auto intro!: tick.keepsI simp: only_tick_def draw_def TimestampNow_def new_ksuid_def)

lemma tick_replies [ticks]:
  "tick.keeps (reply ca m ty p)" "tick.keeps (refuse ca m c t)" "tick.keeps (request sel m)"
  unfolding reply_def refuse_def request_def by (intro ticks)+

lemma tick_Validate [ticks]: "tick.keeps (Validate w jw token r aud sub)"
  unfolding Validate_def
  by (intro ticks) (auto intro!: ticks split: option.splits sum.splits)

lemma tick_NewSession [ticks]: "tick.keeps (NewSession w jw pid proto d c)"
  unfolding NewSession_def Let_def by (intro ticks)

lemma tick_authToken [ticks]: "tick.keeps (authToken ca w m pid token r)"
  unfolding authToken_def by (intro ticks) (auto intro!: ticks split: sum.splits)

section \<open>Tokens\<close>

text \<open>
  A token is good for a peer when it parses without an error at the time of the request as the
  claims of a session of this protocol for the peer, with the scope the request needs.
\<close>

definition good_token :: "cafe_env \<Rightarrow> world \<Rightarrow> node_state \<Rightarrow> string \<Rightarrow> string \<Rightarrow> bool \<Rightarrow> bool" where
  "good_token ca w s pid token refreshing \<longleftrightarrow>
     (\<exists>c. jw_parse (ca_jwt ca) (Seconds (w_clock w (ns_tick s))) token = Some (Some c, False)
        \<and> valid_claims (ca_jwt ca) c refreshing cafeServiceProtocol pid)"

lemma Validate_run:
  "fst (Validate w (ca_jwt ca) token r cafeServiceProtocol (Some pid) s) =
     (case jw_parse (ca_jwt ca) (Seconds (w_clock w (ns_tick s))) token of
        None \<Rightarrow> Inl ErrNoToken
      | Some (None, _) \<Rightarrow> Inl ErrInvalid
      | Some (Some c, True) \<Rightarrow>
          if jw_verifyExpiresAt (ca_jwt ca) c (Seconds (w_clock w (ns_tick s + 1))) True
          then Inl ErrInvalid else Inl ErrExpired
      | Some (Some c, False) \<Rightarrow> check_claims (ca_jwt ca) c r cafeServiceProtocol (Some pid))"
  by (auto simp: Validate_def ParseClaims_def go_defs TimestampNow_def draw_def
      split: option.splits bool.splits)

lemma check_claims_error: "check_claims jw c r a p = Inl e \<Longrightarrow> e = ErrInvalid"
  by (auto simp: check_claims_def Let_def split: if_splits)

lemma Validate_iff:
  "(\<exists>c. fst (Validate w (ca_jwt ca) token r cafeServiceProtocol (Some pid) s) = Inr c)
     \<longleftrightarrow> good_token ca w s pid token r"
  by (auto simp: Validate_run good_token_def check_claims_iff split: option.splits bool.splits)

lemma Validate_error:
  "fst (Validate w (ca_jwt ca) token r cafeServiceProtocol (Some pid) s) = Inl e
     \<Longrightarrow> e \<in> {ErrNoToken, ErrExpired, ErrInvalid}"
  by (auto simp: Validate_run split: option.splits bool.splits if_splits dest: check_claims_error)

text \<open>Without a good token a request that needs one ends with the check of the token.\<close>

definition refusal :: "MsgEnvelope option \<Rightarrow> bool" where
  "refusal r \<longleftrightarrow> (\<exists>env msg code text. r = Some env \<and> me_Message env = Some msg
     \<and> msg_Type msg = Message_ERROR \<and> msg_Payload msg = Some (MError code text))"

lemma go_end_Inr [simp]:
  "go_fail e s = (Inr x, s') \<longleftrightarrow> False" "go_return y s = (Inr x, s') \<longleftrightarrow> x = y \<and> s' = s"
  by (auto simp: go_fail_def go_return_def)

lemma go_lift_Inr_iff: "go_bind (go_lift r) f s = (Inr x, s') \<longleftrightarrow> (\<exists>y. r = Inr y \<and> f y s = (Inr x, s'))"
  by (cases r) (auto simp: go_bind_lift)

lemma refuse_refusal: "refuse ca m code text s = (Inr r, s') \<Longrightarrow> refusal r \<and> s' = s"
  by (auto simp: refuse_def NewError_def NewEnvelope_def refusal_def go_defs Let_def split: sum.splits)

lemma refuse_fst: "fst (refuse ca m code text s) = Inr r \<Longrightarrow> refusal r"
  by (metis prod.collapse refuse_refusal)

lemma refuse_Inr: "refuse ca m code text s = (Inr r, s') \<Longrightarrow> s' = s"
  by (simp add: refuse_refusal)

lemma authToken_bad:
  assumes "\<not> good_token ca w s pid token r" "authToken ca w m pid token r s = (Inr x, s')"
  shows "refusal x"
proof -
  obtain v s1 where v: "Validate w (ca_jwt ca) token r cafeServiceProtocol (Some pid) s = (v, s1)"
    by fastforce
  obtain e where e: "v = Inl e"
    using assms(1) Validate_iff [of w ca token r pid s] v by (cases v) auto
  have "e \<in> {ErrNoToken, ErrExpired, ErrInvalid}" using Validate_error [of w ca token r pid s e] v e by simp
  then show ?thesis
    using assms(2) e v
    by (auto simp: authToken_def go_try_run go_bind_def is_panic_def dest: refuse_refusal)
qed

lemma authorized_bad:
  assumes bad: "\<not> good_token ca w s pid token r"
  shows "only_tick s (snd (authorized ca w m pid token r k s))
    \<and> (\<forall>x. fst (authorized ca w m pid token r k s) = Inr x \<longrightarrow> refusal x)"
proof -
  obtain v s1 where v: "authToken ca w m pid token r s = (v, s1)" by fastforce
  have t: "only_tick s s1" using tick.keeps_run [OF tick_authToken v] .
  show ?thesis
  proof (cases v)
    case (Inl e)
    then show ?thesis using v t by (simp add: authorized_def go_bind_def)
  next
    case (Inr x)
    then have "refusal x" using authToken_bad [OF bad] v by simp
    then obtain env where "x = Some env" by (auto simp: refusal_def)
    then show ?thesis using v t Inr \<open>refusal x\<close> by (simp add: authorized_def go_bind_def go_return_def)
  qed
qed

text \<open>The token of a request, and whether it must be a refresh token.\<close>

definition request_token :: "Message \<Rightarrow> (string \<times> bool) option" where
  "request_token m =
     (case (msg_Type m, msg_Payload m) of
        (Message_CAFE_STORE, Some (MCafeStore x)) \<Rightarrow> Some (sto_Token x, False)
      | (Message_CAFE_UNSTORE, Some (MCafeUnstore x)) \<Rightarrow> Some (sto_Token x, False)
      | (Message_CAFE_OBJECT, Some (MCafeObject x)) \<Rightarrow> Some (obj_Token x, False)
      | (Message_CAFE_STORE_THREAD, Some (MCafeStoreThread x)) \<Rightarrow> Some (sth_Token x, False)
      | (Message_CAFE_UNSTORE_THREAD, Some (MCafeUnstoreThread x)) \<Rightarrow> Some (uth_Token x, False)
      | (Message_CAFE_CHECK_MESSAGES, Some (MCafeCheckMessages t)) \<Rightarrow> Some (t, False)
      | (Message_CAFE_DELETE_MESSAGES, Some (MCafeDeleteMessages t)) \<Rightarrow> Some (t, False)
      | (Message_CAFE_PUBLISH_PEER, Some (MCafePublishPeer x)) \<Rightarrow> Some (pub_Token x, False)
      | (Message_CAFE_REFRESH_SESSION, Some (MCafeRefreshSession x)) \<Rightarrow> Some (ref_Refresh x, True)
      | _ \<Rightarrow> None)"

lemma request_run:
  "request sel m = (case msg_Payload m of None \<Rightarrow> go_fail any_error
     | Some p \<Rightarrow> (case sel p of None \<Rightarrow> go_fail any_error | Some x \<Rightarrow> go_return x))"
  by (auto simp: request_def UnmarshalAny_def go_defs split: option.splits)

text \<open>C4. A request that names a token does nothing but answer with an error, or fail, when the token is not
  good: it has to parse without an error, carry the scope the request needs, the protocol, and the
  id of the peer that sent it. No table, no pin and no query is touched.\<close>

theorem bad_token_changes_nothing:
  assumes "request_token m = Some (token, refreshing)" "\<not> good_token ca w s pid token refreshing"
    and "CafeService_Handle fuel ca w m pid s = (r, s')"
  shows "(\<exists>n. s' = s\<lparr>ns_tick := n\<rparr>) \<and> (\<forall>x. r = Inr x \<longrightarrow> refusal x)"
proof -
  note bad = authorized_bad [OF assms(2)]
  have "only_tick s (snd (CafeService_Handle fuel ca w m pid s))
      \<and> (\<forall>x. fst (CafeService_Handle fuel ca w m pid s) = Inr x \<longrightarrow> refusal x)"
    using assms(1) bad
    by (auto simp: request_token_def CafeService_Handle_def handleStore_def handleUnstore_def handleObject_def
        handleStoreThread_def handleUnstoreThread_def handleCheckMessages_def handleDeleteMessages_def
        handlePublishPeer_def handleRefreshSession_def request_run tick.refl
        intro: tick.keepsD [OF tick_replies(2)]
        split: MessageType.splits option.splits msg_payload.splits
        dest!: refuse_fst)
  then show ?thesis using assms(3) by (simp add: only_tick_def)
qed

section \<open>Registration\<close>

lemma or_500_ok:
  assumes "or_500 ca m op text k s = (Inr x, s')" "\<not> refusal x"
  shows "\<exists>y s1. op s = (Inr y, s1) \<and> k y s1 = (Inr x, s')"
  using assms
  by (auto simp: or_500_def go_try_run go_bind_def split: prod.splits sum.splits if_splits dest: refuse_refusal)

lemma reply_run:
  "reply ca m ty p s = (Inr x, s') \<Longrightarrow>
     s' = s \<and> (\<exists>sig. x = Some \<lparr>me_Message = Some \<lparr>msg_Type = ty, msg_Payload = Some p,
        msg_Request = msg_Request m, msg_Response = True\<rparr>, me_Sig = sig\<rparr>)"
  by (auto simp: reply_def NewEnvelope_def go_defs Let_def split: sum.splits)

lemma findSomeD: "find P xs = Some x \<Longrightarrow> P x \<and> x \<in> set xs"
  by (auto simp: find_Some_iff in_set_conv_nth)

lemma nonces_Get_value: "nonces_Get v t = Some n \<Longrightarrow> nonce_Value n = v"
  by (auto simp: nonces_Get_def first_row_select cafe_client_nonces_dec_def dest: findSomeD)

definition session_reply :: "MsgEnvelope option \<Rightarrow> bool" where
  "session_reply r \<longleftrightarrow> (\<exists>env msg session. r = Some env \<and> me_Message env = Some msg
     \<and> msg_Type msg = Message_CAFE_SESSION \<and> msg_Payload msg = Some (MCafeSession session))"

lemma session_no_refusal: "session_reply r \<Longrightarrow> \<not> refusal r"
  by (auto simp: session_reply_def refusal_def)

text \<open>What a registration presents, checked against the state it arrives in.\<close>

definition registration_proof :: "cafe_env \<Rightarrow> node_state \<Rightarrow> CafeRegistration \<Rightarrow> bool" where
  "registration_proof ca s reg \<longleftrightarrow>
     ca_open ca
     \<and> registration_token ca (reg_Token reg) s \<noteq> None
     \<and> (\<exists>n. nonces_Get (reg_Value reg) (ns_cafe_client_nonces s) = Some n \<and> nonce_Address n = reg_Address reg)
     \<and> (\<exists>kp. keypair_Parse (ca_dec58 ca) (reg_Address reg) = Inr kp \<and> \<not> can_Sign kp)
     \<and> \<not> isl (ca_verifySig ca (reg_Address reg) (string_bytes (reg_Value reg @ reg_Nonce reg)) (reg_Sig reg))"

text \<open>Either a check fails and the state is as before, or all hold and the tail runs.\<close>

lemma refuse_state: "snd (refuse ca m code text s) = s"
  by (simp add: refuse_def go_defs split: sum.splits)

lemma refuse_run: "refuse ca m code msg s = (r, s') \<Longrightarrow> s' = s"
  using refuse_state [of ca m code msg s] by simp

lemma reply_state: "reply ca m ty p s = (r, s') \<Longrightarrow> s' = s"
  by (auto simp: reply_def go_defs split: sum.splits)

lemma handleRegistration_cases:
  assumes "handleRegistration ca w m pid s = (r, s')"
  obtains (checked) reg tok n where "msg_Payload m = Some (MCafeRegistration reg)" "registration_proof ca s reg"
      "registration_token ca (reg_Token reg) s = Some tok"
      "nonces_Get (reg_Value reg) (ns_cafe_client_nonces s) = Some n" "nonce_Address n = reg_Address reg"
      "register_client ca w m pid reg tok n s = (r, s')"
  | (stopped) "s' = s" "\<And>x. r = Inr x \<Longrightarrow> refusal x"
proof -
  define halt where "halt \<longleftrightarrow> s' = s \<and> (\<forall>x. r = Inr x \<longrightarrow> refusal x)"
  have stop: "refuse ca m c t s = (r, s') \<Longrightarrow> halt" for c t
    using refuse_state [of ca m c t s] by (auto simp: halt_def dest: refuse_refusal)
  have fail: "(Inl e, s) = (r, s') \<Longrightarrow> halt" for e by (auto simp: halt_def)
  have "halt \<or> (\<exists>reg tok n. msg_Payload m = Some (MCafeRegistration reg) \<and> registration_proof ca s reg
      \<and> registration_token ca (reg_Token reg) s = Some tok
      \<and> nonces_Get (reg_Value reg) (ns_cafe_client_nonces s) = Some n \<and> nonce_Address n = reg_Address reg
      \<and> register_client ca w m pid reg tok n s = (r, s'))"
  proof (cases "\<exists>reg. msg_Payload m = Some (MCafeRegistration reg)")
    case False
    then have "handleRegistration ca w m pid s = (Inl any_error, s)"
      by (auto simp: handleRegistration_def request_run go_fail_def go_bind_def split: option.splits msg_payload.splits)
    then show ?thesis using assms fail by simp
  next
    case True
    then obtain reg where p: "msg_Payload m = Some (MCafeRegistration reg)" by blast
    show ?thesis
    proof (cases "keypair_Parse (ca_dec58 ca) (reg_Address reg)")
      case (Inl e)
      then show ?thesis
        using assms p
        by (auto simp: handleRegistration_def request_run go_bind_get go_bind_lift go_fail_def
            split: option.splits if_splits dest: stop) (auto simp: halt_def)
    next
      case (Inr kp)
      then show ?thesis
        using assms p
        by (auto simp: handleRegistration_def request_run go_bind_get go_bind_lift registration_proof_def
            split: option.splits if_splits dest: stop)
    qed
  qed
  then show thesis using checked stopped by (auto simp: halt_def)
qed

lemma find_append: "find P (xs @ ys) = (case find P xs of None \<Rightarrow> find P ys | Some x \<Rightarrow> Some x)"
  by (induction xs) auto

lemma clients_Get_Add:
  assumes "clients_Add now c t = (r, t')"
  shows "map_option cl_Address (clients_Get k t') =
      (if k = cl_Id c \<and> clients_Get k t = None then Some (cl_Address c) else map_option cl_Address (clients_Get k t))"
    and "isl r \<Longrightarrow> clients_Get (cl_Id c) t' \<noteq> None"
  using assms
  by (auto simp: clients_Add_def clients_Get_def first_row_select sql_insert_def cafe_clients_enc_def
      cafe_clients_dec_def find_append find_None_iff split: option.splits if_splits dest!: findSomeD)

text \<open>
  What the tail leaves, whatever it returns: the peer is a client, with the address of its first
  registration, and no other client changes; the nonce is used up exactly when the session was
  made.
\<close>

lemma register_client_run:
  assumes "register_client ca w m pid reg tok n s = (res, s')"
  shows "(\<forall>k. map_option cl_Address (clients_Get k (ns_cafe_clients s')) =
        (if k = pid \<and> clients_Get k (ns_cafe_clients s) = None then Some (reg_Address reg)
         else map_option cl_Address (clients_Get k (ns_cafe_clients s))))
    \<and> (ns_cafe_client_nonces s' = ns_cafe_client_nonces s \<and> (\<forall>x. res = Inr x \<longrightarrow> refusal x)
       \<or> ns_cafe_client_nonces s' = snd (nonces_Delete (nonce_Value n) (ns_cafe_client_nonces s))
         \<and> (\<forall>x. res = Inr x \<longrightarrow> session_reply x))"
proof -
  define now where "now = w_clock w (ns_tick s)"
  define cl where "cl = \<lparr>cl_Id = pid, cl_Address = reg_Address reg, cl_Created = Some now,
     cl_Seen = Some now, cl_Token = tok_Id tok\<rparr>"
  obtain r t where rt: "clients_Add now cl (ns_cafe_clients s) = (r, t)" by fastforce
  define s1 where "s1 = s\<lparr>ns_tick := ns_tick s + 1, ns_cafe_clients := t\<rparr>"
  have np: "r = Inl e \<Longrightarrow> \<not> is_panic e" for e
    using rt by (auto simp: clients_Add_def sql_insert_def is_panic_def split: if_splits)
  have clk: "cl_Id cl = pid" "cl_Address cl = reg_Address reg" by (simp_all add: cl_def)
  have "\<not> (isl r \<and> clients_Get pid t = None)" using clients_Get_Add(2) [OF rt] clk by auto
  then have start: "register_client ca w m pid reg tok n s =
       or_500 ca m
         (NewSession w (ca_jwt ca) pid cafeServiceProtocol defaultSessionDuration (ca_info ca))
         error_text (\<lambda>session.
       or_500 ca m (on_cafe_client_nonces (nonces_Delete (nonce_Value n))) error_text (\<lambda>_.
       reply ca m Message_CAFE_SESSION (MCafeSession session))) s1"
    using rt np
    by (cases r) (auto simp: register_client_def TimestampNow_def draw_def go_bind_def go_get_def
        go_try_run on_cafe_clients_def go_on_def now_def [symmetric] cl_def [symmetric] s1_def)
  have ns: "ns_cafe_clients s1 = t" by (simp add: s1_def)
  have clients: "map_option cl_Address (clients_Get k (ns_cafe_clients s1)) =
      (if k = pid \<and> clients_Get k (ns_cafe_clients s) = None then Some (reg_Address reg)
       else map_option cl_Address (clients_Get k (ns_cafe_clients s)))" for k
    using clients_Get_Add(1) [OF rt, of k] unfolding clk ns .
  obtain v s2 where v: "NewSession w (ca_jwt ca) pid cafeServiceProtocol defaultSessionDuration (ca_info ca) s1 = (v, s2)"
    by fastforce
  have tk: "only_tick s1 s2" using tick.keeps_run [OF tick_NewSession v] .
  have s2_parts: "ns_cafe_clients s2 = ns_cafe_clients s1" "ns_cafe_client_nonces s2 = ns_cafe_client_nonces s"
    using only_tick_part [OF tk, of ns_cafe_clients] only_tick_part [OF tk, of ns_cafe_client_nonces]
    by (simp_all add: s1_def)
  have ref: "s' = s2 \<and> (\<forall>x. res = Inr x \<longrightarrow> refusal x)" if "refuse ca m 500 msg s2 = (res, s')" for msg
    using that refuse_state [of ca m 500 msg s2] by (auto dest: refuse_refusal)
  show ?thesis
  proof (cases v)
    case (Inl e)
    then have "s' = s2 \<and> (\<forall>x. res = Inr x \<longrightarrow> refusal x)"
      using assms start v ref by (auto simp: or_500_def go_try_run go_bind_def split: if_splits)
    then show ?thesis using s2_parts clients by simp
  next
    case (Inr session)
    define s3 where "s3 = s2\<lparr>ns_cafe_client_nonces := snd (nonces_Delete (nonce_Value n) (ns_cafe_client_nonces s))\<rparr>"
    have run: "reply ca m Message_CAFE_SESSION (MCafeSession session) s3 = (res, s')"
      using assms start v Inr s2_parts
      by (auto simp: or_500_def go_try_run go_bind_def on_cafe_client_nonces_def go_on_def
          nonces_Delete_def sql_delete_def go_modify_def s3_def)
    have "s' = s3" using run by (auto simp: reply_def go_defs split: sum.splits)
    moreover have "session_reply x" if "res = Inr x" for x
      using reply_run run that by (fastforce simp: session_reply_def)
    ultimately show ?thesis using s2_parts clients by (simp add: s3_def)
  qed
qed

lemma nonces_Get_Delete:
  "nonces_Get k (snd (nonces_Delete v t)) = (if k = v then None else nonces_Get k t)"
proof -
  have "find (\<lambda>r. cafe_client_nonces_value r = k) (filter (\<lambda>r. cafe_client_nonces_value r \<noteq> v) t)
      = (if k = v then None else find (\<lambda>r. cafe_client_nonces_value r = k) t)"
    by (induction t) (auto simp: find_None_iff)
  then show ?thesis
    by (simp add: nonces_Delete_def sql_delete_def go_modify_def nonces_Get_def first_row_select)
qed

section \<open>A sample host\<close>

text \<open>An open host with a network that accepts everything, and the address of a sample account.\<close>

definition sample_net_service :: service_net where
  "sample_net_service = \<lparr>sn_sign = (\<lambda>_. Inr []), sn_checkSig = (\<lambda>_ _ _. Inr ()), sn_decodePeer = Inr,
     sn_request = (\<lambda>_ _ _. Inr None), sn_message = (\<lambda>_ _ _. Inr ()), sn_publish = (\<lambda>_ _ _. Inr ())\<rparr>"

definition sample_claims :: TextileClaims where
  "sample_claims = \<lparr>jc_Scope = scope_Access, jc_Audience = cafeServiceProtocol, jc_ExpiresAt = 100, jc_Id = ''i'',
     jc_IssuedAt = 0, jc_Issuer = ''C'', jc_Subject = ''P''\<rparr>"

text \<open>A codec of tokens: the token \<open>t\<close> has the sample claims and everything else is no token.\<close>

definition sample_jwt :: jwt_env where
  "sample_jwt = \<lparr>jw_parse = (\<lambda>_ t. if t = ''t'' then Some (Some sample_claims, False) else None),
     jw_verifyExpiresAt = (\<lambda>c now _. now \<le> jc_ExpiresAt c),
     jw_verifyAudience = (\<lambda>c a _. jc_Audience c = a), jw_signed = (\<lambda>_. Inr ''t''), jw_issuer = Inr ''C''\<rparr>"

definition sample_info :: Cafe where
  "sample_info = \<lparr>cafe_Peer = ''C'', cafe_Address = ''A'', cafe_Api = ''v0'',
     cafe_Protocol = cafeServiceProtocol, cafe_Node = ''n'', cafe_Url = ''u''\<rparr>"

definition sample_host :: cafe_env where
  "sample_host = \<lparr>ca_open = True, ca_info = sample_info, ca_net = sample_net_service, ca_jwt = sample_jwt,
     ca_dec58 = plain_dec, ca_accountAddress = (\<lambda>_. ''A''), ca_accountSign = (\<lambda>_ _. Inr []),
     ca_encryptThread = (\<lambda>_. Inr []), ca_bcryptCompare = (\<lambda>_ _. Inr ()), ca_verifySig = (\<lambda>_ _ _. Inr ()),
     ca_addObject = (\<lambda>_. Inr ''n1''), ca_checkPinned = (\<lambda>_ cs. Inr (map (\<lambda>c. (c, False)) cs)),
     ca_cidHash = (\<lambda>c. c), ca_unmarshalEnvelope = (\<lambda>_. Inr \<lparr>me_Message = None, me_Sig = []\<rparr>),
     ca_inboxFlush = go_return ()\<rparr>"

lemmas sample_host_defs =
  sample_net_service_def sample_claims_def sample_jwt_def sample_info_def sample_host_def

definition sample_address :: string where
  "sample_address = (case Encode plain_enc VersionByteAccountID [1] of Inr a \<Rightarrow> a | Inl _ \<Rightarrow> [])"

definition sample_token :: string where
  "sample_token = replicate 44 CHR ''t''"

definition sample_registration :: Message where
  "sample_registration = \<lparr>msg_Type = Message_CAFE_REGISTRATION, msg_Payload = Some (MCafeRegistration
     \<lparr>reg_Address = sample_address, reg_Value = ''nonce'', reg_Nonce = ''c'', reg_Sig = [], reg_Token = sample_token\<rparr>),
     msg_Request = 7, msg_Response = False\<rparr>"

definition sample_host_state :: node_state where
  "sample_host_state = sample_state\<lparr>
     ns_cafe_client_nonces := [\<lparr>cafe_client_nonces_value = ''nonce'', cafe_client_nonces_address = sample_address,
       cafe_client_nonces_date = 1\<rparr>],
     ns_cafe_tokens := [\<lparr>cafe_tokens_id = hex_encode (replicate 12 116), cafe_tokens_token = [], cafe_tokens_date = 1\<rparr>]\<rparr>"

lemma sample_address_parses: "keypair_Parse plain_dec sample_address = Inr (FromAddress sample_address)"
proof -
  have e: "\<exists>a. Encode plain_enc VersionByteAccountID [1] = Inr a"
    by (simp add: Encode_def checkValidVersionByte_def VersionByteAccountID_def VersionByteSeed_def)
  then have "Encode plain_enc VersionByteAccountID [1] = Inr sample_address"
    by (auto simp: sample_address_def)
  from Decode_Encode [OF plain_inverse this, of VersionByteAccountID] show ?thesis
    by (simp add: keypair_Parse_def checkValidVersionByte_def)
qed

lemma sample_token_bytes: "plain_dec sample_token = Inr (replicate 44 116)"
  by (simp add: plain_dec_def sample_token_def)

lemma sample_registration_run:
  "\<exists>x s'. handleRegistration sample_host (sample_world b) sample_registration ''P'' sample_host_state = (Inr x, s')
     \<and> session_reply x"
proof -
  have tok: "registration_token sample_host sample_token sample_host_state
      = Some \<lparr>tok_Id = hex_encode (replicate 12 116), tok_Value = [], tok_Date = Some (ProtoTs 1)\<rparr>"
    by (simp add: registration_token_def sample_host_def sample_token_bytes sample_host_state_def
        tokens_Get_def sql_defs cafe_tokens_dec_def)
  have nonce: "nonces_Get ''nonce'' (ns_cafe_client_nonces sample_host_state)
      = Some \<lparr>nonce_Value = ''nonce'', nonce_Address = sample_address, nonce_Date = Some (ProtoTs 1)\<rparr>"
    by (simp add: sample_host_state_def nonces_Get_def sql_defs cafe_client_nonces_dec_def)
  have p: "keypair_Parse (ca_dec58 sample_host) sample_address = Inr (FromAddress sample_address)"
    using sample_address_parses by (simp add: sample_host_def)
  have "handleRegistration sample_host (sample_world b) sample_registration ''P'' sample_host_state =
      register_client sample_host (sample_world b) sample_registration ''P''
        \<lparr>reg_Address = sample_address, reg_Value = ''nonce'', reg_Nonce = ''c'', reg_Sig = [], reg_Token = sample_token\<rparr>
        \<lparr>tok_Id = hex_encode (replicate 12 116), tok_Value = [], tok_Date = Some (ProtoTs 1)\<rparr>
        \<lparr>nonce_Value = ''nonce'', nonce_Address = sample_address, nonce_Date = Some (ProtoTs 1)\<rparr> sample_host_state"
    using tok nonce p
    by (simp add: handleRegistration_def sample_registration_def request_run go_bind_get go_bind_lift can_Sign_def)
      (simp add: sample_host_def)
  moreover have "\<exists>x s'. register_client sample_host (sample_world b) sample_registration ''P'' reg tok n sample_host_state
      = (Inr x, s') \<and> session_reply x" for reg tok n
    by (simp add: register_client_def or_500_def go_try_run NewSession_def reply_def NewEnvelope_def session_reply_def
        sample_host_defs sample_registration_def sample_host_state_def sample_defs go_defs Let_def TimestampNow_def
        new_ksuid_def draw_def on_cafe_clients_def on_cafe_client_nonces_def clients_Add_def clients_Get_def
        nonces_Delete_def sql_defs cafe_clients_enc_def later_def TimestampProto_def
        defaultSessionDuration_def)
  ultimately show ?thesis by simp
qed

theorem bad_token_changes_nothing_witness:
  "\<exists>n. snd (CafeService_Handle 0 sample_host (sample_world undefined)
       \<lparr>msg_Type = Message_CAFE_STORE, msg_Payload = Some (MCafeStore \<lparr>sto_Token = ''x'', sto_Cids = [''c'']\<rparr>),
        msg_Request = 1, msg_Response = False\<rparr> ''P'' sample_host_state) = sample_host_state\<lparr>ns_tick := n\<rparr>"
proof -
  define m where "m = \<lparr>msg_Type = Message_CAFE_STORE,
    msg_Payload = Some (MCafeStore \<lparr>sto_Token = ''x'', sto_Cids = [''c'']\<rparr>), msg_Request = 1, msg_Response = False\<rparr>"
  have t: "request_token m = Some (''x'', False)" by (simp add: m_def request_token_def)
  have b: "\<not> good_token sample_host (sample_world undefined) sample_host_state ''P'' ''x'' False"
    by (simp add: good_token_def sample_host_defs)
  show ?thesis
    using bad_token_changes_nothing [OF t b prod.collapse [symmetric], of 0] by (simp add: m_def)
qed

end
