(* ===== verification/CafeRegistry.thy ===== *)
theory CafeRegistry
  imports CafeProps
begin

text \<open>
  The registry a cafe host implements: the nonces it has given out with the address they were given
  to, and its clients with their addresses. The specification has five steps; every message a host
  handles is one of them for the peer that sent it, so no message of a peer touches the
  registration of another.
\<close>

section \<open>The specification\<close>

record registry =
  rg_nonces :: "string \<rightharpoonup> string"
  rg_clients :: "string \<rightharpoonup> string"

text \<open>
  A challenge issues a fresh nonce. A registration spends a nonce for its address; it keeps the
  address of a peer that is a client already. An enrolment is a registration whose session could
  not be made: the peer is a client and the nonce is not spent.
\<close>

definition enroll :: "string \<Rightarrow> string \<Rightarrow> (string \<rightharpoonup> string) \<Rightarrow> (string \<rightharpoonup> string)" where
  "enroll pid address c = (if c pid = None then c(pid \<mapsto> address) else c)"

inductive registry_step :: "string \<Rightarrow> registry \<Rightarrow> registry \<Rightarrow> bool" for pid where
  stutter: "registry_step pid r r"
| challenge: "rg_nonces r v = None \<Longrightarrow> registry_step pid r (r\<lparr>rg_nonces := (rg_nonces r)(v \<mapsto> address)\<rparr>)"
| register: "rg_nonces r v = Some address \<Longrightarrow>
    registry_step pid r \<lparr>rg_nonces = (rg_nonces r)(v := None), rg_clients = enroll pid address (rg_clients r)\<rparr>"
| enrolment: "rg_nonces r v = Some address \<Longrightarrow>
    registry_step pid r (r\<lparr>rg_clients := enroll pid address (rg_clients r)\<rparr>)"
| deregister: "registry_step pid r (r\<lparr>rg_clients := (rg_clients r)(pid := None)\<rparr>)"

inductive_cases registry_stepE: "registry_step pid r r'"

text \<open>What the specification gives: another peer's registration and address never change.\<close>

lemma registry_step_other:
  "registry_step pid r r' \<Longrightarrow> k \<noteq> pid \<Longrightarrow> rg_clients r' k = rg_clients r k"
  by (induction rule: registry_step.induct) (auto simp: enroll_def)

lemma registry_step_joins:
  "registry_step pid r r' \<Longrightarrow> rg_clients r pid = None \<Longrightarrow> rg_clients r' pid = Some a
     \<Longrightarrow> \<exists>v. rg_nonces r v = Some a"
  by (induction rule: registry_step.induct) (auto simp: enroll_def)

section \<open>The abstraction\<close>

definition registry_of :: "node_state \<Rightarrow> registry" where
  "registry_of s =
     \<lparr>rg_nonces = (\<lambda>v. map_option nonce_Address (nonces_Get v (ns_cafe_client_nonces s))),
      rg_clients = (\<lambda>k. map_option cl_Address (clients_Get k (ns_cafe_clients s)))\<rparr>"

lemma registry_parts:
  "registry_of (s\<lparr>ns_tick := n\<rparr>) = registry_of s" "registry_of (s\<lparr>ns_effects := e\<rparr>) = registry_of s"
  "registry_of (s\<lparr>ns_peers := p\<rparr>) = registry_of s" "registry_of (s\<lparr>ns_cafe_client_threads := t\<rparr>) = registry_of s"
  "registry_of (s\<lparr>ns_cafe_client_messages := u\<rparr>) = registry_of s"
  "registry_of (s\<lparr>ns_cafe_sessions := v\<rparr>) = registry_of s" "registry_of (s\<lparr>ns_cafe_messages := x\<rparr>) = registry_of s"
  by (simp_all add: registry_of_def)

lemma apart_registry [simp]: "apart_from_cafe registry_of"
  by (simp add: apart_from_cafe_def registry_of_def)

abbreviation keeps_registry :: "'a node_op \<Rightarrow> bool" where
  "keeps_registry \<equiv> keeps_part registry_of"

named_theorems registry "operations that keep the registry"

lemmas [registry] = same.keeps_intros

lemma tick_registry: "tick.keeps m \<Longrightarrow> keeps_registry m"
proof (rule same.keepsI)
  fix s assume "tick.keeps m"
  then obtain n where "snd (m s) = s\<lparr>ns_tick := n\<rparr>"
    using tick.keepsD [of m s] by (auto simp: only_tick_def)
  then show "same registry_of s (snd (m s))" by (simp add: same_def registry_parts)
qed

lemma registry_base [registry]:
  "keeps_registry (reply ca m ty p)" "keeps_registry (refuse ca m c t)" "keeps_registry (request sel m)"
  "keeps_registry (draw f)" "keeps_registry (TimestampNow w)" "keeps_registry (new_ksuid w)"
  "keeps_registry (authToken ca w m pid token r)" "keeps_registry (NewSession w jw q proto d info)"
  by (intro tick_registry ticks)+

lemma registry_tables [registry]:
  "keeps_registry (on_peers a)" "keeps_registry (on_cafe_client_threads b)"
  "keeps_registry (on_cafe_client_messages c)" "keeps_registry (on_cafe_sessions d)"
  "keeps_registry (on_cafe_messages e)" "keeps_registry (emit f)"
  by (auto intro!: same.keepsI simp: same_def node_ops go_on_def go_modify_def split_beta registry_parts)

lemma clients_Get_UpdateLastSeen:
  "map_option cl_Address (clients_Get k (snd (clients_UpdateLastSeen c n t)))
     = map_option cl_Address (clients_Get k t)"
proof -
  have "map_option (cl_Address \<circ> cafe_clients_dec) (find (\<lambda>r. cafe_clients_id r = k) (snd (clients_UpdateLastSeen c n t)))
      = map_option (cl_Address \<circ> cafe_clients_dec) (find (\<lambda>r. cafe_clients_id r = k) t)"
    unfolding clients_UpdateLastSeen_def sql_update_def go_modify_def snd_conv
    by (induction t) (auto simp: cafe_clients_dec_def)
  then show ?thesis by (simp add: clients_Get_def first_row_select option.map_comp)
qed

lemma registry_lastSeen [registry]: "keeps_registry (on_cafe_clients (clients_UpdateLastSeen c n))"
  by (auto intro!: same.keepsI simp: same_def on_cafe_clients_def go_on_def split_beta registry_of_def
      clients_Get_UpdateLastSeen)

lemma registry_ipfs [registry]:
  "keeps_registry (PinNode w c b)" "keeps_registry (UnpinNode w c b)" "keeps_registry (AddData w d h)"
  "keeps_registry (AddObject ca n)" "keeps_registry (extractNode w nd dl)"
  unfolding AddObject_def extractNode_def Let_def NodeAtLink_def
  by (auto intro!: keeps_node registry apart_registry split: option.splits)

lemma registry_or_500 [registry]:
  "keeps_registry op \<Longrightarrow> (\<And>x. keeps_registry (k x)) \<Longrightarrow> keeps_registry (or_500 ca m op text k)"
  unfolding or_500_def by (intro registry) (auto intro!: registry split: sum.splits)

lemma registry_authorized [registry]:
  "keeps_registry k \<Longrightarrow> keeps_registry (authorized ca w m pid token r k)"
  unfolding authorized_def by (intro registry) (auto intro!: registry split: option.splits)

lemma registry_with_client [registry]:
  "(\<And>c. keeps_registry (k c)) \<Longrightarrow> keeps_registry (with_client ca m pid k)"
  unfolding with_client_def by (intro registry)

section \<open>The handlers that keep the registry\<close>

lemma registry_send [registry]:
  "keeps_registry (SendRequest sn p env)" "keeps_registry (SendMessage sn p env)"
  "keeps_registry (Publish sn t env)" "keeps_registry (send ca p ty x)" "keeps_registry (response sel renv)"
  "keeps_registry (notifyClient ca p)"
  unfolding SendRequest_def SendMessage_def Publish_def send_def response_def notifyClient_def
  by (auto intro!: registry split: option.splits)

lemma registry_sendCafeRequest [registry]:
  "keeps_registry (refresh ca w session)" "keeps_registry (sendCafeRequest ca w c ty f)"
  unfolding refresh_def sendCafeRequest_def
  by (auto intro!: registry split: option.splits sum.splits)

lemma registry_save_message [registry]: "keeps_registry (save_message w msg)"
  unfolding save_message_def CafeInbox_Add_def by (intro registry)

lemma registry_mail:
  assumes "keeps_registry (ca_inboxFlush ca)"
  shows "keeps_registry (CheckMessages fuel ca w c)" "keeps_registry (DeleteMessages fuel ca w c)"
proof (induction fuel)
  case 0
  show "keeps_registry (CheckMessages 0 ca w c)" "keeps_registry (DeleteMessages 0 ca w c)"
    by (simp_all add: registry)
next
  case (Suc fuel)
  show "keeps_registry (CheckMessages (Suc fuel) ca w c)" "keeps_registry (DeleteMessages (Suc fuel) ca w c)"
    unfolding CheckMessages.simps DeleteMessages.simps
    by (auto intro!: registry assms Suc split: prod.splits)
qed

lemma registry_pin_envelope [registry]: "keeps_registry (pin_envelope ca w e)"
  unfolding pin_envelope_def by (intro registry)

lemma registry_pinned [registry]: "keeps_registry (NotPinned ca w cs)" "keeps_registry (Pinned ca w cs)"
  unfolding NotPinned_def Pinned_def pinned_is_def by (intro registry)+

lemma registry_handlers:
  "keeps_registry (handleStore ca w m pid)" "keeps_registry (handleUnstore ca w m pid)"
  "keeps_registry (handleObject ca w m pid)" "keeps_registry (handleStoreThread ca w m pid)"
  "keeps_registry (handleUnstoreThread ca w m pid)" "keeps_registry (handleCheckMessages ca w m pid)"
  "keeps_registry (handleDeleteMessages ca w m pid)" "keeps_registry (handlePubSubQueryResults m)"
  unfolding handleStore_def handleUnstore_def handleObject_def handleStoreThread_def handleUnstoreThread_def
    handleCheckMessages_def handleDeleteMessages_def handlePubSubQueryResults_def
  by (intro registry)+

lemma registry_handlers2:
  "keeps_registry (handleRefreshSession ca w m pid)" "keeps_registry (handleDeliverMessage ca w m pid)"
  "keeps_registry (handlePublishPeer ca w m pid)" "keeps_registry (handlePubSubQuery ca w m pid)"
  unfolding handleRefreshSession_def handleDeliverMessage_def handlePublishPeer_def handlePubSubQuery_def
  by (auto intro!: registry split: option.splits ResponseType.splits)

lemma registry_notifyClient:
  "keeps_registry (ca_inboxFlush ca) \<Longrightarrow> keeps_registry (handleNotifyClient fuel ca w m pid)"
  unfolding handleNotifyClient_def by (intro registry registry_mail)

section \<open>The handlers that step\<close>

lemma registry_stutter: "keeps_registry n \<Longrightarrow> n s = (r, s') \<Longrightarrow> registry_step pid (registry_of s) (registry_of s')"
  using same.keeps_run [of registry_of n s r s'] registry_step.stutter by (auto simp: same_def)

lemma nonces_Get_Add:
  assumes "nonces_Add now n t = (r, t')"
  shows "isl r \<Longrightarrow> t' = t" and "\<not> isl r \<Longrightarrow> nonces_Get (nonce_Value n) t = None"
    and "\<not> isl r \<Longrightarrow> map_option nonce_Address (nonces_Get k t') =
      (if k = nonce_Value n then Some (nonce_Address n) else map_option nonce_Address (nonces_Get k t))"
  using assms
  by (auto simp: nonces_Add_def nonces_Get_def first_row_select sql_insert_def cafe_client_nonces_enc_def
      cafe_client_nonces_dec_def find_append find_None_iff split: option.splits if_splits dest!: findSomeD)

lemma step_handleChallenge:
  assumes "handleChallenge ca w m pid s = (r, s')"
  shows "registry_step pid (registry_of s) (registry_of s')"
proof -
  have "registry_of s' = registry_of s \<or>
    (\<exists>v a. rg_nonces (registry_of s) v = None
       \<and> registry_of s' = (registry_of s)\<lparr>rg_nonces := (rg_nonces (registry_of s))(v \<mapsto> a)\<rparr>)"
  proof (cases "\<exists>a kp. msg_Payload m = Some (MCafeChallenge a) \<and> keypair_Parse (ca_dec58 ca) a = Inr kp \<and> \<not> can_Sign kp")
    case False
    then have "s' = s"
      using assms refuse_state [of ca m 400 errInvalidAddress s]
      by (auto simp: handleChallenge_def request_run go_fail_def go_bind_def go_return_def go_lift_def
          split: option.splits msg_payload.splits sum.splits if_splits)
    then show ?thesis by simp
  next
    case True
    then obtain a kp where a: "msg_Payload m = Some (MCafeChallenge a)" "keypair_Parse (ca_dec58 ca) a = Inr kp"
        "\<not> can_Sign kp" by blast
    define v where "v = w_ksuid w (ns_tick s)"
    define now where "now = w_clock w (Suc (ns_tick s))"
    define n where "n = \<lparr>nonce_Value = v, nonce_Address = a, nonce_Date = Some now\<rparr>"
    obtain res t where rt: "nonces_Add now n (ns_cafe_client_nonces s) = (res, t)" by fastforce
    define s1 where "s1 = s\<lparr>ns_tick := Suc (Suc (ns_tick s)), ns_cafe_client_nonces := t\<rparr>"
    have np: "res = Inl e \<Longrightarrow> \<not> is_panic e" for e
      using rt by (auto simp: nonces_Add_def sql_insert_def is_panic_def split: if_splits)
    have "handleChallenge ca w m pid s =
        (case res of Inl e \<Rightarrow> refuse ca m 500 (error_text e) s1
         | Inr _ \<Rightarrow> reply ca m Message_CAFE_NONCE (MCafeNonce v) s1)"
      using a rt np
      by (cases res) (auto simp: handleChallenge_def request_run go_bind_lift new_ksuid_def TimestampNow_def draw_def
          go_bind_def go_return_def go_lift_def or_500_def go_try_run on_cafe_client_nonces_def go_on_def v_def [symmetric]
          now_def [symmetric] n_def [symmetric] s1_def)
    then have "(case res of Inl e \<Rightarrow> refuse ca m 500 (error_text e) s1
         | Inr _ \<Rightarrow> reply ca m Message_CAFE_NONCE (MCafeNonce v) s1) = (r, s')"
      using assms by simp
    then have "s' = s1"
      by (cases res) (auto dest: refuse_run reply_state)
    then have new: "ns_cafe_client_nonces s' = t" "ns_cafe_clients s' = ns_cafe_clients s"
      by (simp_all add: s1_def)
    show ?thesis
    proof (cases "isl res")
      case True
      then show ?thesis using nonces_Get_Add(1) [OF rt] new by (simp add: registry_of_def)
    next
      case False
      have "nonces_Get v (ns_cafe_client_nonces s) = None"
        using nonces_Get_Add(2) [OF rt False] by (simp add: n_def)
      moreover have "rg_nonces (registry_of s') = (rg_nonces (registry_of s))(v \<mapsto> a)"
        using nonces_Get_Add(3) [OF rt False] new by (auto simp: registry_of_def n_def)
      ultimately show ?thesis using new by (intro disjI2 exI [of _ v] exI [of _ a]) (simp add: registry_of_def)
    qed
  qed
  then show ?thesis using registry_step.stutter registry_step.challenge by metis
qed

lemma step_handleRegistration:
  assumes "handleRegistration ca w m pid s = (r, s')"
  shows "registry_step pid (registry_of s) (registry_of s')"
  using assms
proof (cases rule: handleRegistration_cases)
  case stopped
  then show ?thesis using registry_step.stutter by simp
next
  case (checked reg tok n)
  define v where "v = reg_Value reg"
  have nv: "nonce_Value n = v" using nonces_Get_value [OF checked(4)] by (simp add: v_def)
  have out: "rg_nonces (registry_of s) v = Some (reg_Address reg)"
    using checked(4,5) by (simp add: registry_of_def v_def)
  have cl: "rg_clients (registry_of s') = enroll pid (reg_Address reg) (rg_clients (registry_of s))"
    using register_client_run [OF checked(6)] by (auto simp: registry_of_def enroll_def fun_eq_iff)
  consider "ns_cafe_client_nonces s' = ns_cafe_client_nonces s"
    | "ns_cafe_client_nonces s' = snd (nonces_Delete v (ns_cafe_client_nonces s))"
    using register_client_run [OF checked(6)] nv by auto
  then show ?thesis
  proof cases
    case 1
    then have "registry_of s' = (registry_of s)\<lparr>rg_clients := enroll pid (reg_Address reg) (rg_clients (registry_of s))\<rparr>"
      using cl by (simp add: registry_of_def)
    then show ?thesis using registry_step.enrolment [of "registry_of s" v, OF out] by simp
  next
    case 2
    then have "registry_of s' = \<lparr>rg_nonces = (rg_nonces (registry_of s))(v := None),
        rg_clients = enroll pid (reg_Address reg) (rg_clients (registry_of s))\<rparr>"
      using cl by (auto simp: registry_of_def nonces_Get_Delete)
    then show ?thesis using registry_step.register [of "registry_of s" v, OF out] by simp
  qed
qed

lemma clients_Get_Delete:
  "clients_Get k (snd (clients_Delete c t)) = (if k = c then None else clients_Get k t)"
proof -
  have "find (\<lambda>r. cafe_clients_id r = k) (filter (\<lambda>r. cafe_clients_id r \<noteq> c) t)
      = (if k = c then None else find (\<lambda>r. cafe_clients_id r = k) t)"
    by (induction t) (auto simp: find_None_iff)
  then show ?thesis
    by (simp add: clients_Delete_def sql_delete_def go_modify_def clients_Get_def first_row_select)
qed

lemma step_handleDeregistration:
  assumes "handleDeregistration ca m pid s = (r, s')"
  shows "registry_step pid (registry_of s) (registry_of s')"
proof (cases "\<exists>t. msg_Payload m = Some (MCafeDeregistration t)")
  case False
  then have "s' = s"
    using assms
    by (auto simp: handleDeregistration_def request_run go_fail_def go_bind_def split: option.splits msg_payload.splits)
  then show ?thesis using registry_step.stutter by simp
next
  case True
  define s1 where "s1 = s\<lparr>ns_cafe_client_threads := snd (client_threads_DeleteByClient pid (ns_cafe_client_threads s)),
    ns_cafe_client_messages := snd (client_messages_DeleteByClient pid (- 1) (ns_cafe_client_messages s)),
    ns_cafe_clients := snd (clients_Delete pid (ns_cafe_clients s))\<rparr>"
  have "handleDeregistration ca m pid s = reply ca m Message_CAFE_DEREGISTRATION_ACK (MCafeDeregistrationAck pid) s1"
    using True
    by (auto simp: handleDeregistration_def request_run or_500_def go_try_run go_bind_def go_return_def node_ops go_on_def
        client_threads_DeleteByClient_def client_messages_DeleteByClient_def clients_Delete_def sql_delete_def
        go_modify_def Let_def s1_def)
  then have "s' = s1" using assms by (auto simp: reply_def go_defs split: sum.splits)
  then have "registry_of s' = (registry_of s)\<lparr>rg_clients := (rg_clients (registry_of s))(pid := None)\<rparr>"
    by (auto simp: s1_def registry_of_def clients_Get_Delete)
  then show ?thesis using registry_step.deregister by simp
qed

text \<open>C6. The handlers of a cafe host implement its registry. Whatever message a peer sends and whatever a
  handler returns, the outstanding nonces and the clients change by one step of the specification
  for that peer: nothing, a fresh nonce, a nonce spent for its address, an enrolment, or the peer's
  own deregistration. Other peers keep their registration and address. The flush of the inbox,
  which runs the thread handlers, does not touch the registry.\<close>

theorem host_refines_registry:
  assumes "keeps_registry (ca_inboxFlush ca)" "CafeService_Handle fuel ca w m pid s = (r, s')"
  shows "registry_step pid (registry_of s) (registry_of s')
    \<and> (\<forall>k. k \<noteq> pid \<longrightarrow> rg_clients (registry_of s') k = rg_clients (registry_of s) k)"
proof -
  have stay: "registry_step pid (registry_of s) (registry_of s')" if "keeps_registry n" "n s = (r, s')" for n
    using registry_stutter [OF that] .
  have "registry_step pid (registry_of s) (registry_of s')"
    using assms(2)
    by (auto simp: CafeService_Handle_def
        intro: stay registry_handlers registry_handlers2 registry_notifyClient [OF assms(1)]
          same.keeps_return step_handleChallenge step_handleRegistration step_handleDeregistration
        split: MessageType.splits)
  then show ?thesis using registry_step_other by blast
qed

theorem host_refines_registry_witness:
  "\<exists>r s'. CafeService_Handle 0 sample_host (sample_world undefined) sample_registration ''P'' sample_host_state = (r, s')
     \<and> registry_step ''P'' (registry_of sample_host_state) (registry_of s')
     \<and> rg_nonces (registry_of s') \<noteq> rg_nonces (registry_of sample_host_state)"
proof -
  have flush: "keeps_registry (ca_inboxFlush sample_host)"
    by (simp add: sample_host_def same.keeps_return)
  obtain x s' where run: "handleRegistration sample_host (sample_world undefined) sample_registration ''P'' sample_host_state = (Inr x, s')"
      "session_reply x"
    using sample_registration_run by blast
  have h: "CafeService_Handle 0 sample_host (sample_world undefined) sample_registration ''P'' sample_host_state = (Inr x, s')"
    using run by (simp add: CafeService_Handle_def sample_registration_def)
  have "rg_nonces (registry_of sample_host_state) ''nonce'' = Some sample_address"
    by (simp add: registry_of_def sample_host_state_def nonces_Get_def sql_defs cafe_client_nonces_dec_def)
  moreover have "rg_nonces (registry_of s') ''nonce'' = None"
    using run(1)
  proof (cases rule: handleRegistration_cases)
    case (checked reg tok n)
    have "reg_Value reg = ''nonce''" using checked(1) by (auto simp: sample_registration_def)
    then show ?thesis
      using register_client_run [OF checked(6)] session_no_refusal [OF run(2)] nonces_Get_value [OF checked(4)]
      by (simp add: registry_of_def nonces_Get_Delete)
  qed (use session_no_refusal [OF run(2)] in auto)
  ultimately have "rg_nonces (registry_of s') \<noteq> rg_nonces (registry_of sample_host_state)" by auto
  then show ?thesis using host_refines_registry [OF flush h] h by blast
qed

section \<open>Spent nonces\<close>

text \<open>A host that serves requests, none of them a challenge that draws the nonce \<open>v\<close> from the id generator.\<close>

inductive served :: "nat \<Rightarrow> cafe_env \<Rightarrow> world \<Rightarrow> string \<Rightarrow> node_state \<Rightarrow> node_state \<Rightarrow> bool" for fuel ca w v where
  served_start: "served fuel ca w v s s"
| served_request: "\<lbrakk>served fuel ca w v s t; CafeService_Handle fuel ca w m pid t = (r, u);
    msg_Type m = Message_CAFE_CHALLENGE \<longrightarrow> w_ksuid w (ns_tick t) \<noteq> v\<rbrakk> \<Longrightarrow> served fuel ca w v s u"

definition unissued :: "string \<Rightarrow> node_state \<Rightarrow> bool" where
  "unissued v s \<longleftrightarrow> nonces_Get v (ns_cafe_client_nonces s) = None"

lemma unissued_registry: "unissued v s \<longleftrightarrow> rg_nonces (registry_of s) v = None"
  by (simp add: unissued_def registry_of_def)

lemma unissued_challenge:
  assumes "handleChallenge ca w m pid s = (r, s')" "w_ksuid w (ns_tick s) \<noteq> v" "unissued v s"
  shows "unissued v s'"
proof -
  have add: "unissued v (snd (on_cafe_client_nonces (nonces_Add now n) t))"
    if "nonce_Value n \<noteq> v" "unissued v t" for now n t
  proof -
    obtain q u where "nonces_Add now n (ns_cafe_client_nonces t) = (q, u)" by fastforce
    then have "map_option nonce_Address (nonces_Get v u) = None"
      using nonces_Get_Add(1) [of now n "ns_cafe_client_nonces t" q u]
        nonces_Get_Add(3) [of now n "ns_cafe_client_nonces t" q u v] that by (cases "isl q") (auto simp: unissued_def)
    then have "nonces_Get v u = None" by simp
    then show ?thesis
      using \<open>nonces_Add now n (ns_cafe_client_nonces t) = (q, u)\<close>
      by (simp add: on_cafe_client_nonces_def go_on_def unissued_def)
  qed
  show ?thesis
  proof (cases "\<exists>a kp. msg_Payload m = Some (MCafeChallenge a) \<and> keypair_Parse (ca_dec58 ca) a = Inr kp \<and> \<not> can_Sign kp")
    case False
    then have "s' = s"
      using assms(1) refuse_state [of ca m 400 errInvalidAddress s]
      by (auto simp: handleChallenge_def request_run go_fail_def go_bind_def go_return_def go_lift_def
          split: option.splits msg_payload.splits sum.splits if_splits)
    then show ?thesis using assms(3) by simp
  next
    case True
    then obtain a kp where a: "msg_Payload m = Some (MCafeChallenge a)" "keypair_Parse (ca_dec58 ca) a = Inr kp"
        "\<not> can_Sign kp" by blast
    define n where "n = \<lparr>nonce_Value = w_ksuid w (ns_tick s), nonce_Address = a, nonce_Date = Some (w_clock w (Suc (ns_tick s)))\<rparr>"
    define s0 where "s0 = s\<lparr>ns_tick := Suc (Suc (ns_tick s))\<rparr>"
    let ?add = "on_cafe_client_nonces (nonces_Add (w_clock w (Suc (ns_tick s))) n)"
    have "unissued v s0" using assms(3) by (simp add: s0_def unissued_def)
    then have u: "unissued v (snd (?add s0))" using add assms(2) by (simp add: n_def)
    have "(r, s') = or_500 ca m ?add error_text (\<lambda>_. reply ca m Message_CAFE_NONCE (MCafeNonce (w_ksuid w (ns_tick s)))) s0"
      using assms(1) a
      by (simp add: handleChallenge_def request_run go_bind_lift new_ksuid_def TimestampNow_def draw_def go_bind_step
          n_def s0_def)
    moreover obtain q s1 where q: "?add s0 = (q, s1)" by fastforce
    ultimately have "s' = s1"
      by (cases q) (auto simp: or_500_def go_try_run go_bind_def split: if_splits
          dest: refuse_run [OF sym] reply_state [OF sym])
    then show ?thesis using u q by simp
  qed
qed

lemma served_unissued:
  assumes "keeps_registry (ca_inboxFlush ca)" "served fuel ca w v s u" "unissued v s"
  shows "unissued v u"
  using assms(2,3)
proof induction
  case (served_request s t m pid r u)
  have t: "unissued v t" using served_request by simp
  have stay: "unissued v u" if "keeps_registry n" "n t = (r, u)" for n
    using same.keeps_run [of registry_of n t r u] that t by (simp add: same_def unissued_registry)
  have reg: "unissued v u" if "handleRegistration ca w m pid t = (r, u)"
    using that
  proof (cases rule: handleRegistration_cases)
    case (checked reg tok n)
    then show ?thesis using register_client_run [OF checked(6)] t by (auto simp: unissued_def nonces_Get_Delete)
  qed (use t in simp)
  have dereg: "unissued v u" if "handleDeregistration ca m pid t = (r, u)"
  proof -
    have "keeps_part ns_cafe_client_nonces (handleDeregistration ca m pid)"
      unfolding handleDeregistration_def or_500_def request_def refuse_def reply_def
      by (intro same.keeps_intros same.keeps_sum same.keeps_on) (auto simp: same_def node_ops intro!: same.keeps_intros same.keeps_on)
    from same.keeps_run [OF this that] show ?thesis using t by (simp add: same_def unissued_def)
  qed
  have chal: "unissued v u" if "handleChallenge ca w m pid t = (r, u)" "msg_Type m = Message_CAFE_CHALLENGE"
    using unissued_challenge [OF that(1)] served_request(3) that(2) t by simp
  show ?case
    using served_request(2)
    by (auto simp: CafeService_Handle_def
        intro: stay registry_handlers registry_handlers2 registry_notifyClient [OF assms(1)]
          same.keeps_return chal reg dereg
        split: MessageType.splits)
qed simp

text \<open>C5. A registration changes something on a host or returns a session only when it proves itself in the
  state it arrives in: the host is open, the dev token matches a stored hash, the nonce was issued
  for the address, the address is not a seed, and the account signed the nonce. Requests are served
  one after the other here. When a session is returned the peer is a client and the nonce is used
  up: in every later state, whatever requests the host serves until then, a registration with the
  same nonce changes nothing and gets no session, unless a challenge draws this very nonce again.\<close>

theorem registration_uses_a_nonce_once:
  assumes "keeps_registry (ca_inboxFlush ca)" "handleRegistration ca w m pid s = (r, s')"
  shows "(s' \<noteq> s \<or> (\<exists>x. r = Inr x \<and> session_reply x)
      \<longrightarrow> (\<exists>reg. msg_Payload m = Some (MCafeRegistration reg) \<and> registration_proof ca s reg))
    \<and> (\<forall>x reg. r = Inr x \<and> session_reply x \<and> msg_Payload m = Some (MCafeRegistration reg)
      \<longrightarrow> clients_Get pid (ns_cafe_clients s') \<noteq> None
        \<and> (\<forall>u m' reg' pid' r' u'. served fuel ca w (reg_Value reg) s' u
             \<and> msg_Payload m' = Some (MCafeRegistration reg') \<and> reg_Value reg' = reg_Value reg
             \<and> handleRegistration ca w m' pid' u = (r', u')
             \<longrightarrow> u' = u \<and> (\<forall>x'. r' = Inr x' \<longrightarrow> \<not> session_reply x')))"
  using assms(2)
proof (cases rule: handleRegistration_cases)
  case (checked reg tok n)
  have again: "u' = u \<and> (\<forall>x'. r' = Inr x' \<longrightarrow> \<not> session_reply x')"
    if x: "r = Inr x" "session_reply x" and u: "served fuel ca w (reg_Value reg) s' u"
      "msg_Payload m' = Some (MCafeRegistration reg')" "reg_Value reg' = reg_Value reg"
      "handleRegistration ca w m' pid' u = (r', u')"
    for x m' reg' pid' r' u u'
  proof -
    have "unissued (reg_Value reg) s'"
      using register_client_run [OF checked(6)] x session_no_refusal [OF x(2)] nonces_Get_value [OF checked(4)]
      by (simp add: unissued_def nonces_Get_Delete)
    then have "unissued (reg_Value reg) u" by (rule served_unissued [OF assms(1) u(1)])
    with u(4) show ?thesis
      by (cases rule: handleRegistration_cases) (use u(2,3) session_no_refusal in \<open>auto simp: unissued_def\<close>)
  qed
  have "map_option cl_Address (clients_Get pid (ns_cafe_clients s')) \<noteq> None"
    using register_client_run [OF checked(6)] by auto
  then have client: "clients_Get pid (ns_cafe_clients s') \<noteq> None" by simp
  show ?thesis using checked(1,2) again client by auto
next
  case stopped
  then show ?thesis using session_no_refusal by auto
qed

theorem registration_uses_a_nonce_once_witness:
  "\<exists>x s'. handleRegistration sample_host (sample_world undefined) sample_registration ''P'' sample_host_state
       = (Inr x, s') \<and> session_reply x \<and> clients_Get ''P'' (ns_cafe_clients s') \<noteq> None
     \<and> snd (handleRegistration sample_host (sample_world undefined) sample_registration ''Q'' s') = s'"
proof -
  have flush: "keeps_registry (ca_inboxFlush sample_host)"
    by (simp add: sample_host_def same.keeps_return)
  obtain x s' where run: "handleRegistration sample_host (sample_world undefined) sample_registration ''P'' sample_host_state = (Inr x, s')"
      "session_reply x"
    using sample_registration_run by blast
  obtain reg where reg: "msg_Payload sample_registration = Some (MCafeRegistration reg)"
    by (auto simp: sample_registration_def)
  obtain r' u' where again: "handleRegistration sample_host (sample_world undefined) sample_registration ''Q'' s' = (r', u')"
    by fastforce
  have "clients_Get ''P'' (ns_cafe_clients s') \<noteq> None \<and> u' = s'"
    using registration_uses_a_nonce_once [OF flush run(1), of 0] run(2) reg again served_start by blast
  then show ?thesis using run again by auto
qed

text \<open>The handler holds no lock: two registrations that present the same nonce can both pass the check
  before either of them deletes it. Then both get a session.\<close>

lemma concurrent_registrations_share_a_nonce:
  "\<exists>reg tok n x s1 y s2. msg_Payload sample_registration = Some (MCafeRegistration reg)
     \<and> handleRegistration sample_host (sample_world undefined) sample_registration ''P'' sample_host_state
         = register_client sample_host (sample_world undefined) sample_registration ''P'' reg tok n sample_host_state
     \<and> handleRegistration sample_host (sample_world undefined) sample_registration ''Q'' sample_host_state
         = register_client sample_host (sample_world undefined) sample_registration ''Q'' reg tok n sample_host_state
     \<and> register_client sample_host (sample_world undefined) sample_registration ''P'' reg tok n sample_host_state = (Inr x, s1)
     \<and> register_client sample_host (sample_world undefined) sample_registration ''Q'' reg tok n s1 = (Inr y, s2)
     \<and> session_reply x \<and> session_reply y"
proof -
  have tail: "\<exists>x s1 y s2. register_client sample_host (sample_world undefined) sample_registration ''P'' reg tok n sample_host_state = (Inr x, s1)
     \<and> register_client sample_host (sample_world undefined) sample_registration ''Q'' reg tok n s1 = (Inr y, s2)
     \<and> session_reply x \<and> session_reply y" for reg tok n
    by (simp add: register_client_def or_500_def go_try_run NewSession_def reply_def NewEnvelope_def session_reply_def
        sample_host_defs sample_registration_def sample_host_state_def sample_defs go_defs Let_def TimestampNow_def
        new_ksuid_def draw_def on_cafe_clients_def on_cafe_client_nonces_def clients_Add_def clients_Get_def
        nonces_Delete_def sql_defs cafe_clients_enc_def later_def TimestampProto_def
        defaultSessionDuration_def)
  from sample_registration_run obtain x s' where
    run: "handleRegistration sample_host (sample_world undefined) sample_registration ''P'' sample_host_state = (Inr x, s')"
    "session_reply x" by blast
  from run(1) show ?thesis
  proof (cases rule: handleRegistration_cases)
    case (checked reg tok n)
    have "handleRegistration sample_host (sample_world undefined) sample_registration pid sample_host_state
        = register_client sample_host (sample_world undefined) sample_registration pid reg tok n sample_host_state" for pid
      using checked(1-5)
      by (auto simp: handleRegistration_def request_run go_bind_get go_bind_lift registration_proof_def)
    then show ?thesis using tail [of reg tok n] checked(1) by blast
  qed (use session_no_refusal [OF run(2)] in auto)
qed

end
