(* ===== verification/CafeMail.thy ===== *)
theory CafeMail
  imports CafeRegistry
begin

text \<open>
  The mail of a cafe client: what a check lists, what a deletion removes, and what happens to a message
  that arrives in between.
\<close>

section \<open>Requests with a good token\<close>

lemma authorized_ok:
  assumes "authorized ca w m pid token r k s = (Inr x, s')" "\<not> refusal x"
  shows "\<exists>s0. only_tick s s0 \<and> k s0 = (Inr x, s')"
proof -
  obtain v s0 where v: "authToken ca w m pid token r s = (v, s0)" by fastforce
  have t: "only_tick s s0" using tick.keeps_run [OF tick_authToken v] .
  have "v = Inr None"
  proof (cases v)
    case (Inl e)
    then show ?thesis using assms v by (simp add: authorized_def go_bind_def)
  next
    case (Inr y)
    have "y = None \<or> refusal y"
      using v Inr
      by (auto simp: authToken_def go_bind_def go_try_run go_return_def split: prod.splits sum.splits if_splits
          dest: refuse_refusal)
    then show ?thesis using assms v Inr by (auto simp: authorized_def go_bind_def go_return_def refusal_def)
  qed
  then show ?thesis using assms v t by (auto simp: authorized_def go_bind_def)
qed

lemma clients_Get_Id: "clients_Get k t = Some c \<Longrightarrow> cl_Id c = k"
  by (auto simp: clients_Get_def first_row_select cafe_clients_dec_def dest: findSomeD)

lemma with_client_ok:
  assumes "with_client ca m pid k s = (Inr x, s')" "\<not> refusal x"
  shows "\<exists>c. clients_Get pid (ns_cafe_clients s) = Some c \<and> cl_Id c = pid \<and> k c s = (Inr x, s')"
  using assms clients_Get_Id
  by (auto simp: with_client_def go_bind_get split: option.splits dest: refuse_refusal)

section \<open>Pages\<close>

definition mail_rows :: "string \<Rightarrow> cafe_client_messages_row sql_table \<Rightarrow> cafe_client_messages_row list" where
  "mail_rows pid t = filter (\<lambda>r. cafe_client_messages_clientId r = pid) t"

lemma ListByClient_page:
  "client_messages_ListByClient pid limit t =
     map cafe_client_messages_dec (sql_limit limit (order_asc cafe_client_messages_date (mail_rows pid t)))"
  by (simp add: client_messages_ListByClient_def mail_rows_def sql_select_def)

lemma sql_limit_all: "int (length rows) \<le> n \<Longrightarrow> sql_limit n rows = rows"
  by (auto simp: sql_limit_def)

lemma length_order [simp]: "length (order_asc f rows) = length rows"
  by (simp add: order_asc_def)

text \<open>A page that is not full lists all the mail.\<close>

lemma short_page:
  assumes "int (length (client_messages_ListByClient pid n t)) < n"
  shows "int (length (mail_rows pid t)) < n
    \<and> ccm_Id ` set (client_messages_ListByClient pid n t) = cafe_client_messages_id ` set (mail_rows pid t)"
proof -
  have "0 \<le> n" using assms by linarith
  then have l: "int (length (mail_rows pid t)) < n"
    using assms length_sql_limit [of n "order_asc cafe_client_messages_date (mail_rows pid t)"]
    by (simp add: ListByClient_page)
  then have "client_messages_ListByClient pid n t
      = map cafe_client_messages_dec (order_asc cafe_client_messages_date (mail_rows pid t))"
    by (simp add: ListByClient_page sql_limit_all)
  then show ?thesis using l by (force simp: cafe_client_messages_dec_def)
qed

text \<open>Deleting a page that holds all the mail leaves none.\<close>

lemma delete_all_mail:
  assumes "int (length (mail_rows pid t)) \<le> n" "0 < n"
  shows "mail_rows pid (snd (client_messages_DeleteByClient pid n t)) = []"
proof -
  have "int (length (sql_select (\<lambda>r. cafe_client_messages_clientId r = pid) t)) \<le> n"
    using assms(1) by (simp add: mail_rows_def sql_select_def)
  then show ?thesis
    using assms(2)
    by (auto simp: client_messages_DeleteByClient_def sql_limit_all sql_delete_def go_modify_def mail_rows_def
        sql_select_def filter_empty_conv image_iff)
qed

text \<open>Adding or replacing one message adds at most one row.\<close>

lemma mail_rows_add:
  "length (mail_rows pid (snd (client_messages_AddOrUpdate now msg t))) \<le> Suc (length (mail_rows pid t))"
proof -
  have "length (filter P (filter Q t)) \<le> length (filter P t)" for P Q by (induction t) auto
  then show ?thesis
    by (simp add: client_messages_AddOrUpdate_def sql_replace_def go_modify_def mail_rows_def le_SucI
        del: filter_filter)
qed

section \<open>The handlers\<close>

definition replies :: "MsgEnvelope option \<Rightarrow> msg_payload \<Rightarrow> bool" where
  "replies x p \<longleftrightarrow> (\<exists>env msg. x = Some env \<and> me_Message env = Some msg \<and> msg_Payload msg = Some p
     \<and> msg_Type msg \<noteq> Message_ERROR)"

lemma replies_no_refusal: "replies x p \<Longrightarrow> \<not> refusal x"
  by (auto simp: replies_def refusal_def)

lemma check_lists_page:
  assumes "handleCheckMessages ca w m pid s = (Inr x, s')" "replies x (MCafeMessages page)"
  shows "page = map (\<lambda>c. \<lparr>cm_Id = ccm_Id c, cm_Peer = ccm_Peer c, cm_Date = ccm_Date c, cm_Attempts = 0\<rparr>)
      (client_messages_ListByClient pid inboxMessagePageSize (ns_cafe_client_messages s))
    \<and> ns_cafe_client_messages s' = ns_cafe_client_messages s"
proof -
  have nr: "\<not> refusal x" using replies_no_refusal [OF assms(2)] .
  obtain token where p: "msg_Payload m = Some (MCafeCheckMessages token)"
    using assms(1) by (auto simp: handleCheckMessages_def request_run split: option.splits msg_payload.splits)
  obtain s0 where t0: "only_tick s s0"
      and run: "with_client ca m pid (\<lambda>client.
        go_bind (TimestampNow w) (\<lambda>now.
        or_500 ca m
          (on_cafe_clients (clients_UpdateLastSeen (cl_Id client) (ProtoNanos now (Some now)))) error_text (\<lambda>_.
        go_bind (go_get (\<lambda>s. client_messages_ListByClient (cl_Id client) inboxMessagePageSize
                                (ns_cafe_client_messages s))) (\<lambda>msgs.
        reply ca m Message_CAFE_MESSAGES (MCafeMessages
          (map (\<lambda>x. \<lparr>cm_Id = ccm_Id x, cm_Peer = ccm_Peer x, cm_Date = ccm_Date x, cm_Attempts = 0\<rparr>) msgs)))))) s0
        = (Inr x, s')"
    using authorized_ok assms(1) nr p by (fastforce simp: handleCheckMessages_def request_run)
  have mail0: "ns_cafe_client_messages s0 = ns_cafe_client_messages s"
    using only_tick_part [OF t0, of ns_cafe_client_messages] by simp
  have run': "reply ca m Message_CAFE_MESSAGES (MCafeMessages
          (map (\<lambda>x. \<lparr>cm_Id = ccm_Id x, cm_Peer = ccm_Peer x, cm_Date = ccm_Date x, cm_Attempts = 0\<rparr>)
            (client_messages_ListByClient pid inboxMessagePageSize (ns_cafe_client_messages s))))
        (s0\<lparr>ns_tick := ns_tick s0 + 1, ns_cafe_clients := snd (clients_UpdateLastSeen pid
            (ProtoNanos (w_clock w (ns_tick s0)) (Some (w_clock w (ns_tick s0)))) (ns_cafe_clients s0))\<rparr>)
        = (Inr x, s')"
    using with_client_ok [OF run nr] mail0
    by (auto simp: TimestampNow_def draw_def go_bind_def or_500_def go_try_run on_cafe_clients_def go_on_def
        clients_UpdateLastSeen_def sql_update_def go_modify_def go_get_def)
  show ?thesis using reply_run [OF run'] assms(2) mail0 by (auto simp: replies_def)
qed

lemma delete_removes_page:
  assumes "handleDeleteMessages ca w m pid s = (Inr x, s')" "replies x (MCafeDeleteMessagesAck moreLeft)"
  shows "ns_cafe_client_messages s' =
      snd (client_messages_DeleteByClient pid inboxMessagePageSize (ns_cafe_client_messages s))
    \<and> moreLeft = (mail_rows pid (ns_cafe_client_messages s') \<noteq> [])"
proof -
  have nr: "\<not> refusal x" using replies_no_refusal [OF assms(2)] .
  obtain token where p: "msg_Payload m = Some (MCafeDeleteMessages token)"
    using assms(1) by (auto simp: handleDeleteMessages_def request_run split: option.splits msg_payload.splits)
  obtain s0 where t0: "only_tick s s0"
      and run: "with_client ca m pid (\<lambda>client.
        or_500 ca m
          (on_cafe_client_messages (client_messages_DeleteByClient (cl_Id client) inboxMessagePageSize))
          error_text (\<lambda>_.
        go_bind (go_get (\<lambda>s. client_messages_CountByClient (cl_Id client) (ns_cafe_client_messages s))) (\<lambda>remaining.
        reply ca m Message_CAFE_DELETE_MESSAGES_ACK (MCafeDeleteMessagesAck (0 < remaining))))) s0 = (Inr x, s')"
    using authorized_ok assms(1) nr p by (fastforce simp: handleDeleteMessages_def request_run)
  have mail0: "ns_cafe_client_messages s0 = ns_cafe_client_messages s"
    using only_tick_part [OF t0, of ns_cafe_client_messages] by simp
  define t where "t = snd (client_messages_DeleteByClient pid inboxMessagePageSize (ns_cafe_client_messages s))"
  have ok: "client_messages_DeleteByClient pid inboxMessagePageSize (ns_cafe_client_messages s) = (Inr (), t)"
    by (simp add: t_def client_messages_DeleteByClient_def sql_delete_def go_modify_def Let_def)
  have run': "reply ca m Message_CAFE_DELETE_MESSAGES_ACK
        (MCafeDeleteMessagesAck (0 < client_messages_CountByClient pid t)) (s0\<lparr>ns_cafe_client_messages := t\<rparr>) = (Inr x, s')"
    using with_client_ok [OF run nr] mail0 ok
    by (auto simp: go_bind_def or_500_def go_try_run on_cafe_client_messages_def go_on_def go_get_def)
  have "0 < client_messages_CountByClient pid t \<longleftrightarrow> mail_rows pid t \<noteq> []"
    by (simp add: client_messages_CountByClient_def sql_count_def mail_rows_def)
  then show ?thesis using reply_run [OF run'] assms(2) by (auto simp: replies_def t_def)
qed

text \<open>The id under which a delivered message is kept: of the envelope that comes with it, or its own.\<close>

definition delivered_id :: "cafe_env \<Rightarrow> world \<Rightarrow> CafeDeliverMessage \<Rightarrow> node_state \<Rightarrow> goerr + string" where
  "delivered_id ca w msg s = (if del_Env msg \<noteq> [] then fst (pin_envelope ca w (del_Env msg) s) else Inr (del_Id msg))"

lemma deliver_adds:
  assumes "handleDeliverMessage ca w m q s = (r, s')"
    and "msg_Payload m = Some (MCafeDeliverMessage msg)"
    and "clients_Get (del_Client msg) (ns_cafe_clients s) = Some c"
    and "delivered_id ca w msg s = Inr mid"
  shows "\<exists>now. ns_cafe_client_messages s' = snd (client_messages_AddOrUpdate now
      \<lparr>ccm_Id = mid, ccm_Peer = q, ccm_Client = del_Client msg, ccm_Date = Some now\<rparr> (ns_cafe_client_messages s))"
proof -
  let ?pid = "del_Client msg"
  define s0 where "s0 = (if del_Env msg \<noteq> [] then snd (pin_envelope ca w (del_Env msg) s) else s)"
  have pin: "(if del_Env msg \<noteq> [] then pin_envelope ca w (del_Env msg) else go_return (del_Id msg)) s = (Inr mid, s0)"
    using assms(4) by (simp add: delivered_id_def s0_def go_return_def prod_eq_iff split: if_splits)
  have "keeps_part ns_cafe_client_messages (pin_envelope ca w e)" for e
    unfolding pin_envelope_def AddObject_def extractNode_def Let_def NodeAtLink_def request_def
    by (intro keeps_node keeps_emit) simp_all
  then have k0: "ns_cafe_client_messages s0 = ns_cafe_client_messages s"
    unfolding s0_def using same.keepsD by (auto simp: same_def)
  define now where "now = w_clock w (ns_tick s0)"
  define s1 where "s1 = s0\<lparr>ns_tick := ns_tick s0 + 1, ns_cafe_client_messages := snd (client_messages_AddOrUpdate now
      \<lparr>ccm_Id = mid, ccm_Peer = q, ccm_Client = ?pid, ccm_Date = Some now\<rparr> (ns_cafe_client_messages s0))\<rparr>"
  have "handleDeliverMessage ca w m q s =
      go_seq (go_catch (notifyClient ca ?pid) (\<lambda>_. go_return ())) (go_return None) s1"
    using assms(2,3) clients_Get_Id [OF assms(3)]
    by (simp add: handleDeliverMessage_def request_run go_bind_get go_bind_step [where m = "if del_Env msg \<noteq> [] then pin_envelope ca w (del_Env msg) else go_return (del_Id msg)", OF pin] TimestampNow_def draw_def)
      (simp add: go_bind_def go_try_run on_cafe_client_messages_def go_on_def
        client_messages_AddOrUpdate_def sql_replace_def go_modify_def s1_def now_def)
  moreover have "keeps_part ns_cafe_client_messages (go_seq (go_catch (notifyClient ca ?pid) (\<lambda>_. go_return ())) (go_return None))"
    unfolding notifyClient_def Publish_def
    by (intro same.keeps_intros keeps_draw keeps_emit) simp_all
  ultimately have "ns_cafe_client_messages s' = ns_cafe_client_messages s1"
    using assms(1) same.keeps_run by (metis same_def)
  then show ?thesis by (auto simp: s1_def k0)
qed

text \<open>A delivered message is among the mail of its client.\<close>

lemma mail_rows_added:
  "mid \<in> cafe_client_messages_id ` set (mail_rows pid (snd (client_messages_AddOrUpdate now
      \<lparr>ccm_Id = mid, ccm_Peer = q, ccm_Client = pid, ccm_Date = d\<rparr> t)))"
  by (simp add: client_messages_AddOrUpdate_def sql_replace_def go_modify_def mail_rows_def
      cafe_client_messages_enc_def)

text \<open>C24. Mail that arrives between a check and the deletion that follows it is lost when the checked page
  was not full: the client lists fewer than ten messages, another peer delivers a message, with its
  envelope or only its id, and the client deletes. The deletion takes the ten oldest of what is
  there and not the listed page, so the new message, which was never listed, is gone too, and the
  host answers that no mail is left.\<close>

theorem deleting_loses_new_mail:
  assumes "handleCheckMessages ca w mc pid s = (Inr x, s1)" "replies x (MCafeMessages page)"
    and "int (length page) < inboxMessagePageSize" "mid \<notin> cm_Id ` set page"
    and "clients_Get pid (ns_cafe_clients s1) = Some c"
    and "msg_Payload md = Some (MCafeDeliverMessage msg)" "del_Client msg = pid"
    and "(if del_Env msg \<noteq> [] then fst (pin_envelope ca w (del_Env msg) s1) else Inr (del_Id msg)) = Inr mid"
    and "handleDeliverMessage ca w md q s1 = (r, s2)"
    and "handleDeleteMessages ca w mx pid s2 = (Inr y, s3)" "replies y (MCafeDeleteMessagesAck moreLeft)"
  shows "mid \<in> cafe_client_messages_id ` set (mail_rows pid (ns_cafe_client_messages s2))
    \<and> mail_rows pid (ns_cafe_client_messages s3) = [] \<and> \<not> moreLeft"
proof -
  obtain now where s2: "ns_cafe_client_messages s2 = snd (client_messages_AddOrUpdate now
      \<lparr>ccm_Id = mid, ccm_Peer = q, ccm_Client = pid, ccm_Date = Some now\<rparr> (ns_cafe_client_messages s1))"
    using deliver_adds [OF assms(9,6)] assms(5,7,8) by (auto simp: delivered_id_def)
  have "int (length (client_messages_ListByClient pid inboxMessagePageSize (ns_cafe_client_messages s1)))
      < inboxMessagePageSize"
    using check_lists_page [OF assms(1,2)] assms(3) by simp
  from conjunct1 [OF short_page [OF this]]
  have "int (length (mail_rows pid (ns_cafe_client_messages s2))) \<le> inboxMessagePageSize"
    using mail_rows_add [of pid now _ "ns_cafe_client_messages s1"] unfolding s2
    by (smt (verit) of_nat_Suc of_nat_le_iff)
  then have "mail_rows pid (ns_cafe_client_messages s3) = []"
    using delete_removes_page [OF assms(10,11)] delete_all_mail [of pid _ inboxMessagePageSize]
    by (simp add: inboxMessagePageSize_def)
  moreover have "mid \<in> cafe_client_messages_id ` set (mail_rows pid (ns_cafe_client_messages s2))"
    unfolding s2 by (rule mail_rows_added)
  ultimately show ?thesis using delete_removes_page [OF assms(10,11)] by blast
qed

text \<open>A client with no mail checks, gets a message and deletes.\<close>

definition sample_mail_state :: node_state where
  "sample_mail_state = sample_state\<lparr>ns_cafe_clients := [cafe_clients_enc (ProtoTs 1)
     \<lparr>cl_Id = ''P'', cl_Address = ''A'', cl_Created = Some (ProtoTs 1), cl_Seen = Some (ProtoTs 1), cl_Token = []\<rparr>]\<rparr>"

definition sample_cafe_message :: "MessageType \<Rightarrow> msg_payload \<Rightarrow> Message" where
  "sample_cafe_message ty p = \<lparr>msg_Type = ty, msg_Payload = Some p, msg_Request = 1, msg_Response = False\<rparr>"

lemma sample_mail_run:
  "\<exists>x s1 r s2 y s3 moreLeft.
     handleCheckMessages sample_host (sample_world b) (sample_cafe_message Message_CAFE_CHECK_MESSAGES (MCafeCheckMessages ''t''))
       ''P'' sample_mail_state = (Inr x, s1) \<and> replies x (MCafeMessages [])
   \<and> handleDeliverMessage sample_host (sample_world b) (sample_cafe_message Message_CAFE_DELIVER_MESSAGE
       (MCafeDeliverMessage \<lparr>del_Id = ''e'', del_Client = ''P'', del_Env = []\<rparr>)) ''Q'' s1 = (r, s2)
   \<and> clients_Get ''P'' (ns_cafe_clients s1) \<noteq> None
   \<and> handleDeleteMessages sample_host (sample_world b) (sample_cafe_message Message_CAFE_DELETE_MESSAGES (MCafeDeleteMessages ''t''))
       ''P'' s2 = (Inr y, s3) \<and> replies y (MCafeDeleteMessagesAck moreLeft)"
  by (simp add: handleCheckMessages_def handleDeliverMessage_def handleDeleteMessages_def sample_cafe_message_def
      authorized_def authToken_def with_client_def request_run Validate_def ParseClaims_def check_claims_def
      scope_Access_def scope_Refresh_def reply_def NewEnvelope_def replies_def or_500_def go_try_run
      sample_host_defs sample_mail_state_def sample_defs go_defs Let_def TimestampNow_def draw_def
      on_cafe_clients_def on_cafe_client_messages_def clients_Get_def clients_UpdateLastSeen_def sql_defs
      cafe_clients_enc_def cafe_clients_dec_def client_messages_ListByClient_def client_messages_AddOrUpdate_def
      client_messages_DeleteByClient_def client_messages_CountByClient_def cafe_client_messages_enc_def
      cafe_client_messages_dec_def inboxMessagePageSize_def notifyClient_def Publish_def emit_def sql_limit_def
      order_asc_def cafeServiceProtocol_def) blast

theorem deleting_loses_new_mail_witness:
  "\<exists>s1 s2 y s3 r. handleDeliverMessage sample_host (sample_world undefined) (sample_cafe_message Message_CAFE_DELIVER_MESSAGE
       (MCafeDeliverMessage \<lparr>del_Id = ''e'', del_Client = ''P'', del_Env = []\<rparr>)) ''Q'' s1 = (r, s2)
   \<and> handleDeleteMessages sample_host (sample_world undefined)
       (sample_cafe_message Message_CAFE_DELETE_MESSAGES (MCafeDeleteMessages ''t'')) ''P'' s2 = (Inr y, s3)
   \<and> ''e'' \<in> cafe_client_messages_id ` set (mail_rows ''P'' (ns_cafe_client_messages s2))
   \<and> mail_rows ''P'' (ns_cafe_client_messages s3) = []"
proof -
  obtain x s1 r s2 y s3 moreLeft c where run:
      "handleCheckMessages sample_host (sample_world undefined)
         (sample_cafe_message Message_CAFE_CHECK_MESSAGES (MCafeCheckMessages ''t'')) ''P'' sample_mail_state = (Inr x, s1)"
      "replies x (MCafeMessages [])"
      "handleDeliverMessage sample_host (sample_world undefined) (sample_cafe_message Message_CAFE_DELIVER_MESSAGE
         (MCafeDeliverMessage \<lparr>del_Id = ''e'', del_Client = ''P'', del_Env = []\<rparr>)) ''Q'' s1 = (r, s2)"
      "clients_Get ''P'' (ns_cafe_clients s1) = Some c"
      "handleDeleteMessages sample_host (sample_world undefined)
         (sample_cafe_message Message_CAFE_DELETE_MESSAGES (MCafeDeleteMessages ''t'')) ''P'' s2 = (Inr y, s3)"
      "replies y (MCafeDeleteMessagesAck moreLeft)"
    using sample_mail_run [of undefined] by blast
  have "msg_Payload (sample_cafe_message ty p) = Some p" for ty p by (simp add: sample_cafe_message_def)
  then show ?thesis
    using deleting_loses_new_mail [OF run(1,2) _ _ run(4) _ _ _ run(3,5,6), where mid = "''e''"] run(3,5)
    by (intro exI conjI) (assumption | simp add: inboxMessagePageSize_def)+
qed

end
