(* ===== verification/CafeReplies.thy ===== *)
theory CafeReplies
  imports CafeProps
begin

text \<open>
  The types of a conversation with a cafe: which message answers which, and that every answer of
  a host is signed, carries the payload of its type and belongs to the request it answers.
\<close>

section \<open>The protocol\<close>

text \<open>The type of message a payload belongs to.\<close>

fun payload_type :: "msg_payload \<Rightarrow> MessageType option" where
  "payload_type (MError _ _) = Some Message_ERROR"
| "payload_type (MCafeChallenge _) = Some Message_CAFE_CHALLENGE"
| "payload_type (MCafeNonce _) = Some Message_CAFE_NONCE"
| "payload_type (MCafeRegistration _) = Some Message_CAFE_REGISTRATION"
| "payload_type (MCafeDeregistration _) = Some Message_CAFE_DEREGISTRATION"
| "payload_type (MCafeDeregistrationAck _) = Some Message_CAFE_DEREGISTRATION_ACK"
| "payload_type (MCafeSession _) = Some Message_CAFE_SESSION"
| "payload_type (MCafeRefreshSession _) = Some Message_CAFE_REFRESH_SESSION"
| "payload_type (MCafeStore _) = Some Message_CAFE_STORE"
| "payload_type (MCafeStoreAck _) = Some Message_CAFE_STORE_ACK"
| "payload_type (MCafeUnstore _) = Some Message_CAFE_UNSTORE"
| "payload_type (MCafeUnstoreAck _) = Some Message_CAFE_UNSTORE_ACK"
| "payload_type (MCafeObject _) = Some Message_CAFE_OBJECT"
| "payload_type (MCafeObjectList _) = Some Message_CAFE_OBJECT_LIST"
| "payload_type (MCafeStoreThread _) = Some Message_CAFE_STORE_THREAD"
| "payload_type (MCafeStoreThreadAck _) = Some Message_CAFE_STORE_THREAD_ACK"
| "payload_type (MCafeUnstoreThread _) = Some Message_CAFE_UNSTORE_THREAD"
| "payload_type (MCafeUnstoreThreadAck _) = Some Message_CAFE_UNSTORE_THREAD_ACK"
| "payload_type (MCafeDeliverMessage _) = Some Message_CAFE_DELIVER_MESSAGE"
| "payload_type (MCafeCheckMessages _) = Some Message_CAFE_CHECK_MESSAGES"
| "payload_type (MCafeMessages _) = Some Message_CAFE_MESSAGES"
| "payload_type (MCafeDeleteMessages _) = Some Message_CAFE_DELETE_MESSAGES"
| "payload_type (MCafeDeleteMessagesAck _) = Some Message_CAFE_DELETE_MESSAGES_ACK"
| "payload_type (MCafePublishPeer _) = Some Message_CAFE_PUBLISH_PEER"
| "payload_type (MCafePublishPeerAck _) = Some Message_CAFE_PUBLISH_PEER_ACK"
| "payload_type (MQuery _) = Some Message_CAFE_QUERY"
| "payload_type (MQueryResults _) = Some Message_CAFE_QUERY_RES"
| "payload_type (MPubSubQuery _) = Some Message_CAFE_PUBSUB_QUERY"
| "payload_type (MPubSubQueryResults _) = Some Message_CAFE_PUBSUB_QUERY_RES"
| "payload_type (MThreadEnvelope _) = Some Message_THREAD_ENVELOPE"
| "payload_type (MThreadEnvelopeAck _) = Some Message_THREAD_ENVELOPE_ACK"
| "payload_type MOther = None"

text \<open>The type of message that answers a request when it does not fail.\<close>

fun ack_of :: "MessageType \<Rightarrow> MessageType option" where
  "ack_of Message_CAFE_CHALLENGE = Some Message_CAFE_NONCE"
| "ack_of Message_CAFE_REGISTRATION = Some Message_CAFE_SESSION"
| "ack_of Message_CAFE_DEREGISTRATION = Some Message_CAFE_DEREGISTRATION_ACK"
| "ack_of Message_CAFE_REFRESH_SESSION = Some Message_CAFE_SESSION"
| "ack_of Message_CAFE_STORE = Some Message_CAFE_OBJECT_LIST"
| "ack_of Message_CAFE_UNSTORE = Some Message_CAFE_UNSTORE_ACK"
| "ack_of Message_CAFE_OBJECT = Some Message_CAFE_STORE_ACK"
| "ack_of Message_CAFE_STORE_THREAD = Some Message_CAFE_STORE_THREAD_ACK"
| "ack_of Message_CAFE_UNSTORE_THREAD = Some Message_CAFE_UNSTORE_THREAD_ACK"
| "ack_of Message_CAFE_CHECK_MESSAGES = Some Message_CAFE_MESSAGES"
| "ack_of Message_CAFE_DELETE_MESSAGES = Some Message_CAFE_DELETE_MESSAGES_ACK"
| "ack_of Message_CAFE_PUBLISH_PEER = Some Message_CAFE_PUBLISH_PEER_ACK"
| "ack_of _ = None"

definition typed_reply :: "cafe_env \<Rightarrow> Message \<Rightarrow> MsgEnvelope \<Rightarrow> bool" where
  "typed_reply ca m env \<longleftrightarrow> (\<exists>msg p. me_Message env = Some msg \<and> msg_Payload msg = Some p
     \<and> payload_type p = Some (msg_Type msg)
     \<and> (msg_Type msg = Message_ERROR \<or> ack_of (msg_Type m) = Some (msg_Type msg))
     \<and> msg_Request msg = msg_Request m \<and> msg_Response msg
     \<and> sn_sign (ca_net ca) msg = Inr (me_Sig env))"

section \<open>What an operation returns\<close>

text \<open>A handler is typed when whatever it replies is.\<close>

definition typed :: "cafe_env \<Rightarrow> Message \<Rightarrow> handler \<Rightarrow> bool" where
  "typed ca m h \<longleftrightarrow> (\<forall>s env s'. h s = (Inr (Some env), s') \<longrightarrow> typed_reply ca m env)"

named_theorems typing "typed handlers"

lemma typed_fail [typing]: "typed ca m (go_fail e)"
  by (simp add: typed_def)

lemma typed_none [typing]: "typed ca m (go_return None)"
  by (simp add: typed_def)

lemma typed_bind [typing]: "(\<And>x. typed ca m (k x)) \<Longrightarrow> typed ca m (go_bind op k)"
  by (fastforce simp: typed_def go_bind_Inr_iff)

lemma typed_seq [typing]: "typed ca m k \<Longrightarrow> typed ca m (go_seq op k)"
  by (simp add: go_seq_def typed_bind)

lemma typed_if [typing]: "(b \<Longrightarrow> typed ca m h) \<Longrightarrow> (\<not> b \<Longrightarrow> typed ca m h') \<Longrightarrow> typed ca m (if b then h else h')"
  by simp

lemma typed_option [typing]:
  "typed ca m h \<Longrightarrow> (\<And>y. typed ca m (k y)) \<Longrightarrow> typed ca m (case x of None \<Rightarrow> h | Some y \<Rightarrow> k y)"
  by (cases x) auto

lemma typed_sum [typing]:
  "(\<And>e. typed ca m (h e)) \<Longrightarrow> (\<And>y. typed ca m (k y)) \<Longrightarrow> typed ca m (case x of Inl e \<Rightarrow> h e | Inr y \<Rightarrow> k y)"
  by (cases x) auto

lemma typed_reply_op [typing]:
  "payload_type p = Some ty \<Longrightarrow> ack_of (msg_Type m) = Some ty \<Longrightarrow> typed ca m (reply ca m ty p)"
  by (fastforce simp: typed_def typed_reply_def reply_def NewEnvelope_def go_bind_Inr_iff go_lift_def Let_def
      split: sum.splits)

lemma typed_refuse [typing]: "typed ca m (refuse ca m code t)"
  by (fastforce simp: typed_def typed_reply_def refuse_def NewError_def NewEnvelope_def go_bind_Inr_iff go_lift_def
      Let_def split: sum.splits)

lemma typed_or_500 [typing]: "(\<And>x. typed ca m (k x)) \<Longrightarrow> typed ca m (or_500 ca m op t k)"
  unfolding or_500_def by (intro typing)

lemma typed_authToken: "typed ca m (authToken ca w m pid token r)"
  unfolding authToken_def by (intro typing)

lemma typed_authorized [typing]: "typed ca m k \<Longrightarrow> typed ca m (authorized ca w m pid token r k)"
  using typed_authToken [of ca m w pid token r]
  by (fastforce simp: typed_def authorized_def go_bind_Inr_iff split: option.splits)

lemma typed_with_client [typing]: "(\<And>c. typed ca m (k c)) \<Longrightarrow> typed ca m (with_client ca m pid k)"
  unfolding with_client_def by (intro typing)

lemma typed_registration [typing]:
  "msg_Type m = Message_CAFE_REGISTRATION \<Longrightarrow> typed ca m (register_client ca w m pid reg tok n)"
  unfolding register_client_def by (intro typing; simp add: typing)

text \<open>C7. Every answer of a cafe host is a well-typed response: it is the acknowledgement the protocol has for
  the type of the request, or an error, with the payload that belongs to its type; it carries the
  number of the request, is marked as a response and is signed by the host.\<close>

theorem replies_are_typed:
  assumes "CafeService_Handle fuel ca w m pid s = (Inr (Some env), s')"
  shows "typed_reply ca m env"
proof -
  have "typed ca m (CafeService_Handle fuel ca w m pid)"
    unfolding CafeService_Handle_def
    by (cases "msg_Type m")
      (simp_all add: handleChallenge_def handleRegistration_def handleDeregistration_def handleRefreshSession_def
        handleStore_def handleUnstore_def handleObject_def handleStoreThread_def handleUnstoreThread_def
        handleDeliverMessage_def handleCheckMessages_def handleDeleteMessages_def handleNotifyClient_def
        handlePublishPeer_def handlePubSubQuery_def handlePubSubQueryResults_def typing split: ResponseType.splits)
  then show ?thesis using assms by (auto simp: typed_def)
qed

theorem replies_are_typed_witness:
  "\<exists>env s'. CafeService_Handle 0 sample_host (sample_world undefined) sample_registration ''P'' sample_host_state
       = (Inr (Some env), s')
     \<and> typed_reply sample_host sample_registration env"
proof -
  obtain x s' where x: "handleRegistration sample_host (sample_world undefined) sample_registration ''P'' sample_host_state = (Inr x, s')"
      "session_reply x"
    using sample_registration_run by blast
  then obtain env where env: "x = Some env" by (auto simp: session_reply_def)
  have "msg_Type sample_registration = Message_CAFE_REGISTRATION" by (simp add: sample_registration_def)
  then have "CafeService_Handle 0 sample_host (sample_world undefined) sample_registration ''P'' sample_host_state
      = (Inr (Some env), s')"
    using x(1) env by (simp add: CafeService_Handle_def)
  then show ?thesis using replies_are_typed by blast
qed

end
