(* ===== verification/CafeBatch.thy ===== *)
theory CafeBatch
  imports CafeClient Views
begin

text \<open>
  The queued cafe requests: handling the requests of one type for one cafe, the batches
  (\<open>handleRequests\<close> and \<open>batchRequests\<close> of \<^verbatim>\<open>core/cafe_service.go\<close>), and what the account does when it
  registers and deregisters (\<^verbatim>\<open>core/cafes.go\<close>, \<^verbatim>\<open>core/peers.go\<close>).
\<close>

section \<open>One type for one cafe\<close>

text \<open>The ids that were handled, the ids that failed and the last error.\<close>

type_synonym handled = "string list \<times> string list \<times> goerr option"

definition ids_of_targets :: "CafeRequest list \<Rightarrow> string list \<Rightarrow> string list" where
  "ids_of_targets reqs targets =
     concat (map (\<lambda>x. map req_Id (filter (\<lambda>r. req_Target r = x) reqs)) targets)"

text \<open>The loop over requests that are sent one by one.\<close>

fun each_request ::
  "(CafeRequest \<Rightarrow> unit node_op) \<Rightarrow> CafeRequest list \<Rightarrow> handled \<Rightarrow> handled node_op" where
  "each_request f [] acc = go_return acc"
| "each_request f (req # reqs) (handled, failed, herr) =
     go_bind (go_try (f req)) (\<lambda>r.
     each_request f reqs
       (case r of Inl err \<Rightarrow> (handled, failed @ [req_Id req], Some err)
        | Inr _ \<Rightarrow> (handled @ [req_Id req], failed, herr)))"

text \<open>A thread that is gone counts as stored.\<close>

definition store_thread_request :: "cafe_env \<Rightarrow> world \<Rightarrow> string \<Rightarrow> CafeRequest \<Rightarrow> unit node_op" where
  "store_thread_request ca w cafeId req =
     go_bind (go_get (\<lambda>s. threads_Get (req_Target req) (ns_threads s))) (\<lambda>thrd.
     case thrd of None \<Rightarrow> go_return () | Some t \<Rightarrow> storeThread ca w t cafeId)"

definition handleRequests ::
  "cafe_env \<Rightarrow> world \<Rightarrow> CafeRequest list \<Rightarrow> RequestType \<Rightarrow> string \<Rightarrow> handled node_op" where
  "handleRequests ca w reqs rtype cafeId =
     (case rtype of
        CafeRequest_STORE \<Rightarrow>
          go_bind (cafe_store ca w (map req_Target reqs) cafeId) (\<lambda>(stored, err).
          go_return (ids_of_targets reqs stored, if err = None then [] else map req_Id reqs, err))
      | CafeRequest_UNSTORE \<Rightarrow>
          go_bind (go_try (cafe_unstore ca w (map req_Target reqs) cafeId)) (\<lambda>r.
          case r of
            Inl err \<Rightarrow> go_return ([], map req_Id reqs, Some err)
          | Inr unstored \<Rightarrow> go_return (ids_of_targets reqs unstored, [], None))
      | CafeRequest_STORE_THREAD \<Rightarrow>
          each_request (store_thread_request ca w cafeId) reqs ([], [], None)
      | CafeRequest_UNSTORE_THREAD \<Rightarrow>
          each_request (\<lambda>req. unstoreThread ca w (req_Target req) cafeId) reqs ([], [], None)
      | CafeRequest_INBOX \<Rightarrow>
          each_request (\<lambda>req. deliverMessage ca w (req_Target req) (req_Peer req) (req_Cafe req)) reqs
            ([], [], None)
      | _ \<Rightarrow> go_return ([], [], None))"

section \<open>Batches\<close>

definition grouped :: "('r \<Rightarrow> 'k) \<Rightarrow> 'r list \<Rightarrow> ('k \<times> 'r list) list" where
  "grouped f rs = map (\<lambda>r. (f r, filter (\<lambda>x. f x = f r) rs)) (distinct_by f rs)"

text \<open>What a batch collects: the ids to complete, to fail and to unpin.\<close>

record batch_result =
  br_toComplete :: "string list"
  br_toFail :: "string list"
  br_toUnpin :: "string list"

fun each_type ::
  "cafe_env \<Rightarrow> world \<Rightarrow> string \<Rightarrow> (RequestType \<times> CafeRequest list) list \<Rightarrow> batch_result \<Rightarrow> batch_result node_op" where
  "each_type ca w cafeId [] acc = go_return acc"
| "each_type ca w cafeId ((t, reqs) # rest) acc =
     go_bind (handleRequests ca w reqs t cafeId) (\<lambda>(handled, failed, _).
     each_type ca w cafeId rest
       (acc\<lparr>br_toComplete := br_toComplete acc @ handled, br_toFail := br_toFail acc @ failed,
            br_toUnpin := br_toUnpin acc @ (if t = CafeRequest_INBOX then handled else [])\<rparr>))"

fun each_cafe ::
  "cafe_env \<Rightarrow> world \<Rightarrow> (string \<times> CafeRequest list) list \<Rightarrow> batch_result \<Rightarrow> batch_result node_op" where
  "each_cafe ca w [] acc = go_return acc"
| "each_cafe ca w ((cafeId, reqs) # rest) acc =
     go_bind (each_type ca w cafeId (grouped req_Type reqs) acc) (each_cafe ca w rest)"

definition unpin_request :: "world \<Rightarrow> string \<Rightarrow> unit node_op" where
  "unpin_request w rid =
     go_bind (go_get (\<lambda>s. cafe_requests_Get rid (ns_cafe_requests s))) (\<lambda>req.
     case req of None \<Rightarrow> go_return ()
     | Some r \<Rightarrow> go_bind (go_lift (w_parseCid w (req_Target r))) (\<lambda>cid. UnpinNode w cid False))"

definition fail_request :: "string \<Rightarrow> unit node_op" where
  "fail_request rid =
     go_bind (go_get (\<lambda>s. cafe_requests_Get rid (ns_cafe_requests s))) (\<lambda>req.
     case req of None \<Rightarrow> go_return ()
     | Some r \<Rightarrow>
         on_cafe_requests
           (if maxRequestAttempts \<le> int32 (req_Attempts r + 1) then cafe_requests_Delete rid
            else cafe_requests_AddAttempt rid))"

text \<open>The end of a batch: an error is logged and ends the flush.\<close>

definition settle :: "world \<Rightarrow> batch_result \<Rightarrow> unit node_op" where
  "settle w br =
     go_seq (go_foreach (unpin_request w) (br_toUnpin br))
    (go_seq (go_foreach fail_request (br_toFail br))
            (go_foreach (\<lambda>rid. on_cafe_requests (cafe_requests_UpdateStatus rid CafeRequest_COMPLETE))
               (br_toComplete br)))"

definition request_cafe :: "CafeRequest \<Rightarrow> string" where
  "request_cafe req = cafe_Peer (req_Cafe req)"

fun batchRequests :: "nat \<Rightarrow> cafe_env \<Rightarrow> world \<Rightarrow> CafeRequest list \<Rightarrow> unit node_op" where
  "batchRequests 0 ca w reqs = (if reqs = [] then go_return () else go_fail out_of_fuel)"
| "batchRequests (Suc fuel) ca w reqs =
     (if length reqs = 0 then go_return ()
      else go_bind (each_cafe ca w (grouped request_cafe reqs)
                      \<lparr>br_toComplete = [], br_toFail = [], br_toUnpin = []\<rparr>) (\<lambda>br.
        go_bind (go_get (\<lambda>s. cafe_requests_List (req_Id (last reqs)) cafeOutFlushGroupSize
                               (ns_cafe_requests s))) (\<lambda>next.
        go_bind (go_try (settle w br)) (\<lambda>r.
        case r of Inl _ \<Rightarrow> go_return ()
        | Inr _ \<Rightarrow> batchRequests fuel ca w next))))"

definition CafeService_Flush :: "cafe_env \<Rightarrow> world \<Rightarrow> unit node_op" where
  "CafeService_Flush ca w = (\<lambda>s.
     batchRequests (length (ns_cafe_requests s)) ca w
       (cafe_requests_List [] cafeOutFlushGroupSize (ns_cafe_requests s)) s)"

section \<open>Registering and deregistering an account\<close>

definition publishPeer :: "cafe_env \<Rightarrow> world \<Rightarrow> unit node_op" where
  "publishPeer ca w =
     go_bind (go_get (\<lambda>s. (peers_Get (w_self w) (ns_peers s), cafe_sessions_List (ns_cafe_sessions s))))
       (\<lambda>(self, sessions).
     case self of None \<Rightarrow> go_return ()
     | Some peer \<Rightarrow> go_foreach (\<lambda>session. PublishPeer ca w peer (ses_Id session)) sessions)"

definition updatePeerInboxes :: "world \<Rightarrow> unit node_op" where
  "updatePeerInboxes w =
     go_bind (go_get (\<lambda>s. map ses_Cafe (cafe_sessions_List (ns_cafe_sessions s)))) (\<lambda>inboxes.
     go_bind (TimestampNow w) (\<lambda>now.
     on_peers (peers_UpdateInboxes now (w_self w) inboxes)))"

definition SnapshotThreads :: "world \<Rightarrow> unit node_op" where
  "SnapshotThreads w = go_bind (go_get ns_loaded) (\<lambda>threads. go_foreach (store w) threads)"

definition request_block :: "world \<Rightarrow> string \<Rightarrow> Block \<Rightarrow> unit node_op" where
  "request_block w cafe b =
     go_seq (CafeOutbox_Add w (blk_Id b) CafeRequest_STORE [opt_SyncGroup (blk_Id b), opt_Cafe cafe])
       (if blk_Type b = Block_FILES
        then go_bind (go_lift (w_parseCid w (blk_Data b))) (\<lambda>cid.
             go_bind (go_lift (w_nodeAt w cid)) (\<lambda>node.
             cafeReqFileData w node (blk_Id b) cafe))
        else go_return ())"

definition cafeRequestThreadsContent :: "world \<Rightarrow> string \<Rightarrow> unit node_op" where
  "cafeRequestThreadsContent w cafe =
     go_bind (go_get ns_loaded) (\<lambda>threads.
     go_foreach (\<lambda>t.
       go_bind (go_get (Textile_Blocks [] (- 1) (\<lambda>r. blocks_threadId r = t_Id t)))
         (go_foreach (request_block w cafe))) threads)"

definition RegisterCafe :: "cafe_env \<Rightarrow> world \<Rightarrow> string \<Rightarrow> string \<Rightarrow> CafeSession node_op" where
  "RegisterCafe ca w cafeId token =
     (case sn_decodePeer (ca_net ca) cafeId of
        Inl _ \<Rightarrow> go_fail (ErrMsg ''not a valid peerID'')
      | Inr _ \<Rightarrow>
          go_bind (go_get (\<lambda>s. cafe_sessions_Get cafeId (ns_cafe_sessions s))) (\<lambda>x.
          case x of Some session \<Rightarrow> go_return session
          | None \<Rightarrow>
              go_bind (Register ca w cafeId token) (\<lambda>session.
              go_seq (updatePeerInboxes w)
             (go_seq (cafeRequestThreadsContent w (ses_Id session))
             (go_seq (announce_all w)
             (go_seq (publishPeer ca w)
             (go_seq (SnapshotThreads w) (go_return session))))))))"

definition DeregisterCafe :: "cafe_env \<Rightarrow> world \<Rightarrow> string \<Rightarrow> unit node_op" where
  "DeregisterCafe ca w cafeId =
     (case sn_decodePeer (ca_net ca) cafeId of
        Inl _ \<Rightarrow> go_fail (ErrMsg ''not a valid peerID'')
      | Inr _ \<Rightarrow>
          go_seq (Deregister cafeId)
         (go_seq (updatePeerInboxes w)
         (go_seq (announce_all w)
                 (publishPeer ca w))))"

definition RefreshCafeSession :: "cafe_env \<Rightarrow> world \<Rightarrow> string \<Rightarrow> CafeSession node_op" where
  "RefreshCafeSession ca w cafeId =
     go_bind (go_get (\<lambda>s. cafe_sessions_Get cafeId (ns_cafe_sessions s))) (\<lambda>x.
     case x of None \<Rightarrow> go_fail (ErrMsg ''session not found'')
     | Some session \<Rightarrow> refresh ca w session)"

end
