(* ===== verification/CafeBatchProps.thy ===== *)
theory CafeBatchProps
  imports CafeBatch CafeMail QueueProps
begin

text \<open>
  The batches of queued cafe requests: what a batch does to the queue, that the pages of a flush
  end, and which requests a flush settles.
\<close>

section \<open>Sending leaves the queue alone\<close>

abbreviation keeps_requests :: "'a node_op \<Rightarrow> bool" where
  "keeps_requests \<equiv> keeps_part ns_cafe_requests"

named_theorems requests "operations that keep the queue of cafe requests"

lemmas [requests] = same.keeps_intros

lemma requests_base [requests]:
  "keeps_requests (draw f)" "keeps_requests (TimestampNow w)" "keeps_requests (new_ksuid w)"
  "keeps_requests (emit e)" "keeps_requests (on_cafe_sessions d)" "keeps_requests (UnpinNode w c b)"
  by (auto intro!: same.keepsI simp: same_def node_ops go_on_def go_modify_def draw_def split_beta
      UnpinNode_def go_defs emit_def TimestampNow_def new_ksuid_def on_cafe_sessions_def split: sum.splits)

lemma requests_send [requests]:
  "keeps_requests (SendRequest sn p env)" "keeps_requests (SendMessage sn p env)"
  "keeps_requests (send ca p ty x)" "keeps_requests (response sel renv)"
  unfolding SendRequest_def SendMessage_def send_def response_def
  by (auto intro!: requests split: option.splits)

lemma requests_sendCafeRequest [requests]:
  "keeps_requests (refresh ca w session)" "keeps_requests (sendCafeRequest ca w c ty f)"
  unfolding refresh_def sendCafeRequest_def
  by (auto intro!: requests split: option.splits sum.splits)

lemma requests_sendObject [requests]: "keeps_requests (sendObject ca w cid c token)"
  unfolding sendObject_def Let_def
  by (intro requests) (auto intro!: requests split: sum.splits)

lemma requests_store_objects [requests]: "keeps_requests (store_objects ca w c token stored cids)"
  by (induction cids arbitrary: stored) (auto intro!: requests split: sum.splits)

lemma requests_content [requests]:
  "keeps_requests (cafe_store ca w cids c)" "keeps_requests (cafe_unstore ca w cids c)"
  "keeps_requests (storeThread ca w t c)" "keeps_requests (unstoreThread ca w i c)"
  "keeps_requests (deliverMessage ca w m p cafe)"
  unfolding cafe_store_def cafe_unstore_def storeThread_def unstoreThread_def deliverMessage_def
  by (intro requests; auto intro!: requests split: sum.splits prod.splits)+

lemma requests_each_request [requests]:
  "(\<And>r. keeps_requests (f r)) \<Longrightarrow> keeps_requests (each_request f reqs acc)"
  by (induction f reqs acc rule: each_request.induct) (auto intro!: requests split: sum.splits)

lemma requests_handleRequests [requests]: "keeps_requests (handleRequests ca w reqs ty c)"
  unfolding handleRequests_def store_thread_request_def
  by (cases ty) (auto intro!: requests split: prod.splits sum.splits option.splits)

lemma requests_each_type [requests]: "keeps_requests (each_type ca w c ts acc)"
  by (induction ca w c ts acc rule: each_type.induct) (auto intro!: requests split: prod.splits)

lemma requests_each_cafe [requests]: "keeps_requests (each_cafe ca w cs acc)"
  by (induction ca w cs acc rule: each_cafe.induct) (auto intro!: requests)

section \<open>Settling a batch\<close>

text \<open>A settled batch deletes requests and changes their status and attempts, but no id and no date.\<close>

definition queue_shrinks :: "node_state \<Rightarrow> node_state \<Rightarrow> bool" where
  "queue_shrinks s s' \<longleftrightarrow> shrinks cafe_requests_id cafe_requests_date (ns_cafe_requests s) (ns_cafe_requests s')"

interpretation queue: step_relation queue_shrinks
  by unfold_locales (auto simp: queue_shrinks_def intro: shrinks_trans)

lemma queue_same:
  assumes "keeps_requests m"
  shows "queue.keeps m"
proof (rule queue.keepsI)
  fix s show "queue_shrinks s (snd (m s))"
    using same.keepsD [OF assms, of s] by (simp add: queue_shrinks_def same_def)
qed

lemma queue_update:
  "queue.keeps (on_cafe_requests (cafe_requests_UpdateStatus rid st))"
  "queue.keeps (on_cafe_requests (cafe_requests_AddAttempt rid))"
  "queue.keeps (on_cafe_requests (cafe_requests_Delete rid))"
  by (auto intro!: queue.keepsI shrinks_update shrinks_filter
      simp: queue_shrinks_def on_cafe_requests_def go_on_def cafe_requests_UpdateStatus_def
        cafe_requests_AddAttempt_def cafe_requests_Delete_def sql_update_def sql_delete_def go_modify_def)

lemma queue_settle: "queue.keeps (settle w br)"
  unfolding settle_def unpin_request_def fail_request_def
  by (intro queue.keeps_intros queue_update queue_same [OF requests_base(6)]; simp add: queue_update)

section \<open>Pages\<close>

text \<open>A run of \<open>batchRequests\<close> without fuel: the number of pages after the first, and the result.\<close>

inductive pages :: "cafe_env \<Rightarrow> world \<Rightarrow> nat \<Rightarrow> CafeRequest list \<Rightarrow> node_state \<Rightarrow> (goerr + unit) \<times> node_state \<Rightarrow> bool"
  for ca w where
  none: "pages ca w 0 [] s (Inr (), s)"
| panic: "reqs \<noteq> [] \<Longrightarrow>
    each_cafe ca w (grouped request_cafe reqs) \<lparr>br_toComplete = [], br_toFail = [], br_toUnpin = []\<rparr> s = (Inl e, s1)
    \<Longrightarrow> pages ca w 0 reqs s (Inl e, s1)"
| settle_panic: "reqs \<noteq> [] \<Longrightarrow>
    each_cafe ca w (grouped request_cafe reqs) \<lparr>br_toComplete = [], br_toFail = [], br_toUnpin = []\<rparr> s = (Inr br, s1)
    \<Longrightarrow> go_try (settle w br) s1 = (Inl e, s2) \<Longrightarrow> pages ca w 0 reqs s (Inl e, s2)"
| stopped: "reqs \<noteq> [] \<Longrightarrow>
    each_cafe ca w (grouped request_cafe reqs) \<lparr>br_toComplete = [], br_toFail = [], br_toUnpin = []\<rparr> s = (Inr br, s1)
    \<Longrightarrow> go_try (settle w br) s1 = (Inr (Inl e), s2) \<Longrightarrow> pages ca w 0 reqs s (Inr (), s2)"
| page: "reqs \<noteq> [] \<Longrightarrow>
    each_cafe ca w (grouped request_cafe reqs) \<lparr>br_toComplete = [], br_toFail = [], br_toUnpin = []\<rparr> s = (Inr br, s1)
    \<Longrightarrow> go_try (settle w br) s1 = (Inr (Inr ()), s2)
    \<Longrightarrow> pages ca w n (cafe_requests_List (req_Id (last reqs)) cafeOutFlushGroupSize (ns_cafe_requests s1)) s2 res
    \<Longrightarrow> pages ca w (Suc n) reqs s res"

definition queue_left :: "cafe_requests_row list \<Rightarrow> CafeRequest list \<Rightarrow> nat" where
  "queue_left t reqs =
     (if reqs = [] then 0 else rows_left cafe_requests_id cafe_requests_date t (req_Id (last reqs)))"

lemma requests_page:
  assumes "cafe_requests_List offset limit t \<noteq> []"
  shows "\<exists>r\<in>set t. req_Id (last (cafe_requests_List offset limit t)) = cafe_requests_id r
    \<and> (offset \<noteq> [] \<longrightarrow>
        sql_greater (sql_scalar cafe_requests_date (\<lambda>x. cafe_requests_id x = offset) t) (cafe_requests_date r))"
proof -
  define rows where "rows = sql_limit limit (order_asc cafe_requests_date (sql_select (\<lambda>r.
       cafe_requests_status r = 0 \<and> (offset \<noteq> [] \<longrightarrow>
         sql_greater (sql_scalar cafe_requests_date (\<lambda>x. cafe_requests_id x = offset) t)
           (cafe_requests_date r))) t))"
  have l: "cafe_requests_List offset limit t = map cafe_requests_dec rows"
    by (simp add: cafe_requests_List_def rows_def)
  then have ne: "rows \<noteq> []" using assms by auto
  have "last rows \<in> set t \<and> (offset \<noteq> [] \<longrightarrow>
         sql_greater (sql_scalar cafe_requests_date (\<lambda>x. cafe_requests_id x = offset) t)
           (cafe_requests_date (last rows)))"
    using last_in_set [OF ne] unfolding rows_def using sql_limit_subset by (fastforce simp: sql_select_def)
  then show ?thesis using ne by (intro bexI [of _ "last rows"]) (simp_all add: l last_map cafe_requests_dec_def)
qed

lemma queue_left_next:
  assumes "distinct (map cafe_requests_id t)" "shrinks cafe_requests_id cafe_requests_date t t'"
    and "reqs \<noteq> []" "req_Id (last reqs) \<noteq> []"
  shows "queue_left t' (cafe_requests_List (req_Id (last reqs)) limit t) < queue_left t reqs"
proof (cases "cafe_requests_List (req_Id (last reqs)) limit t = []")
  case True
  then show ?thesis using assms(3) by (simp add: queue_left_def rows_left_def)
next
  case False
  obtain r where r: "r \<in> set t"
      "req_Id (last (cafe_requests_List (req_Id (last reqs)) limit t)) = cafe_requests_id r"
      "sql_greater (sql_scalar cafe_requests_date (\<lambda>x. cafe_requests_id x = req_Id (last reqs)) t) (cafe_requests_date r)"
    using requests_page [OF False] assms(4) by blast
  from rows_left_less [OF assms(1,2) r(1,3)] show ?thesis using False assms(3) r(2) by (simp add: queue_left_def)
qed

lemma batch_pages:
  assumes "queue_left (ns_cafe_requests s) reqs \<le> fuel" "distinct (map cafe_requests_id (ns_cafe_requests s))"
    and "\<forall>r\<in>set (ns_cafe_requests s). cafe_requests_id r \<noteq> []" "reqs \<noteq> [] \<Longrightarrow> req_Id (last reqs) \<noteq> []"
  shows "\<exists>n\<le>fuel. pages ca w n reqs s (batchRequests fuel ca w reqs s)"
  using assms
proof (induction fuel arbitrary: reqs s)
  case 0
  then have "reqs = []" by (auto simp: queue_left_def rows_left_def split: if_splits)
  then show ?case by (simp add: go_return_def pages.none)
next
  case (Suc fuel)
  show ?case
  proof (cases "reqs = []")
    case True
    then show ?thesis by (intro exI [of _ 0]) (simp add: go_return_def pages.none)
  next
    case ne: False
    let ?t = "ns_cafe_requests s"
    obtain v s1 where b: "each_cafe ca w (grouped request_cafe reqs)
        \<lparr>br_toComplete = [], br_toFail = [], br_toUnpin = []\<rparr> s = (v, s1)" by fastforce
    have t: "ns_cafe_requests s1 = ?t" using same.keeps_run [OF requests_each_cafe b] by (simp add: same_def)
    show ?thesis
    proof (cases v)
      case (Inl e)
      then show ?thesis
        using ne b by (intro exI [of _ 0]) (simp add: go_bind_def pages.panic)
    next
      case (Inr br)
      obtain u s2 where u: "go_try (settle w br) s1 = (u, s2)" by fastforce
      show ?thesis
      proof (cases u)
        case (Inl e)
        then show ?thesis
          using ne b u Inr by (intro exI [of _ 0]) (simp add: go_bind_def go_get_def pages.settle_panic)
      next
        case z: (Inr z)
        let ?next = "cafe_requests_List (req_Id (last reqs)) cafeOutFlushGroupSize ?t"
        show ?thesis
        proof (cases z)
          case (Inl e)
          then show ?thesis
            using ne b u Inr z
            by (intro exI [of _ 0]) (simp add: go_bind_def go_get_def go_return_def pages.stopped)
        next
          case (Inr x)
          have run: "batchRequests (Suc fuel) ca w reqs s = batchRequests fuel ca w ?next s2"
            using ne b u z Inr \<open>v = Inr br\<close> t by (simp add: go_bind_def go_get_def)
          have sh: "shrinks cafe_requests_id cafe_requests_date ?t (ns_cafe_requests s2)"
            using queue.keeps_run [OF queue.keeps_try [OF queue_settle] u] t by (simp add: queue_shrinks_def)
          have less: "queue_left (ns_cafe_requests s2) ?next < queue_left ?t reqs"
            by (rule queue_left_next [OF Suc.prems(2) sh ne Suc.prems(4) [OF ne]])
          have "\<exists>n\<le>fuel. pages ca w n ?next s2 (batchRequests fuel ca w ?next s2)"
          proof (rule Suc.IH)
            show "queue_left (ns_cafe_requests s2) ?next \<le> fuel" using less Suc.prems(1) by simp
            show "distinct (map cafe_requests_id (ns_cafe_requests s2))"
              by (rule shrinks_distinct [OF sh Suc.prems(2)])
            show "\<forall>r\<in>set (ns_cafe_requests s2). cafe_requests_id r \<noteq> []"
              using shrinks_member [OF sh] Suc.prems(3) by metis
            show "req_Id (last ?next) \<noteq> []" if "?next \<noteq> []"
              using requests_page [OF that] Suc.prems(3) by metis
          qed
          then obtain n where "n \<le> fuel" "pages ca w n ?next s2 (batchRequests fuel ca w ?next s2)" by blast
          then show ?thesis
            unfolding run using pages.page [OF ne, of ca w s br s1 s2 n] b u z Inr \<open>v = Inr br\<close> t
            by (intro exI [of _ "Suc n"]) simp
        qed
      qed
    qed
  qed
qed

text \<open>C23. A flush of the queued cafe requests ends, whatever the cafes answer: it is a finite run of
  pages, no more than there are requests, and the fuel of the model plays no part in its result.
  This needs the ids of the requests to be distinct, which the primary key ensures, and not empty.\<close>

theorem cafe_flush_ends:
  assumes "distinct (map cafe_requests_id (ns_cafe_requests s))"
    and "\<forall>r\<in>set (ns_cafe_requests s). cafe_requests_id r \<noteq> []"
  shows "\<exists>n\<le>length (ns_cafe_requests s).
    pages ca w n (cafe_requests_List [] cafeOutFlushGroupSize (ns_cafe_requests s)) s (CafeService_Flush ca w s)"
  unfolding CafeService_Flush_def
proof (rule batch_pages [OF _ assms])
  let ?t = "ns_cafe_requests s"
  let ?page = "cafe_requests_List [] cafeOutFlushGroupSize ?t"
  show "queue_left ?t ?page \<le> length ?t"
    using requests_page [of "[]"] rows_left_bound [OF assms(1)] by (fastforce simp: queue_left_def)
  show "req_Id (last ?page) \<noteq> []" if "?page \<noteq> []"
    using requests_page [OF that] assms(2) by metis
qed

theorem cafe_flush_ends_witness:
  "\<exists>n\<le>1. pages sample_host (sample_world undefined) n
     (cafe_requests_List [] cafeOutFlushGroupSize [sample_request])
     (sample_state\<lparr>ns_cafe_requests := [sample_request]\<rparr>)
     (CafeService_Flush sample_host (sample_world undefined) (sample_state\<lparr>ns_cafe_requests := [sample_request]\<rparr>))"
  using cafe_flush_ends [of "sample_state\<lparr>ns_cafe_requests := [sample_request]\<rparr>" sample_host "sample_world undefined"]
  by (simp add: sample_request_def)

section \<open>Requests that are never settled\<close>

text \<open>What a host acknowledges of an unstore request: the cids that it has pinned, and no other.\<close>

lemma handleUnstore_acks:
  assumes "handleUnstore ca w m pid s = (Inr x, s')" "replies x (MCafeUnstoreAck acked)"
    and "msg_Payload m = Some (MCafeUnstore un)"
  shows "\<exists>cids state. decode_cids w (sto_Cids un) = Inr cids \<and> ca_checkPinned ca (ns_effects s) cids = Inr state
    \<and> acked = map (ca_cidHash ca) (map fst (filter snd state))"
proof -
  have nr: "\<not> refusal x" using replies_no_refusal [OF assms(2)] .
  obtain s0 where t0: "only_tick s s0"
      and run: "go_bind (Pinned ca w (sto_Cids un)) (\<lambda>list.
        go_seq (go_foreach (\<lambda>cid. UnpinNode w cid True) list)
               (reply ca m Message_CAFE_UNSTORE_ACK (MCafeUnstoreAck (map (ca_cidHash ca) list)))) s0 = (Inr x, s')"
    using authorized_ok assms(1) nr assms(3) by (fastforce simp: handleUnstore_def request_run)
  have e: "ns_effects s0 = ns_effects s" using only_tick_part [OF t0, of ns_effects] by simp
  obtain cids state s1 where c: "decode_cids w (sto_Cids un) = Inr cids"
      "ca_checkPinned ca (ns_effects s0) cids = Inr state"
      and tail: "go_seq (go_foreach (\<lambda>cid. UnpinNode w cid True) (map fst (filter snd state)))
        (reply ca m Message_CAFE_UNSTORE_ACK (MCafeUnstoreAck (map (ca_cidHash ca) (map fst (filter snd state))))) s1
        = (Inr x, s')"
    using run
    by (auto simp: Pinned_def pinned_is_def go_bind_Inr_iff go_lift_def go_get_def go_return_def)
  obtain s2 where "reply ca m Message_CAFE_UNSTORE_ACK (MCafeUnstoreAck (map (ca_cidHash ca) (map fst (filter snd state)))) s2
      = (Inr x, s')"
    using tail by (auto simp: go_seq_def go_bind_Inr_iff)
  from reply_run [OF this] assms(2) c e show ?thesis by (auto simp: replies_def)
qed

definition keeps_row :: "cafe_requests_row \<Rightarrow> node_state \<Rightarrow> node_state \<Rightarrow> bool" where
  "keeps_row row s s' \<longleftrightarrow> (row \<in> set (ns_cafe_requests s) \<longrightarrow> row \<in> set (ns_cafe_requests s'))"

interpretation row: step_relation "keeps_row row" for row
  by unfold_locales (auto simp: keeps_row_def)

lemma row_complete:
  "cafe_requests_id row \<noteq> rid \<Longrightarrow>
     step_relation.keeps (keeps_row row) (on_cafe_requests (cafe_requests_UpdateStatus rid st))"
  by (auto intro!: row.keepsI image_eqI
      simp: keeps_row_def on_cafe_requests_def go_on_def cafe_requests_UpdateStatus_def sql_update_def go_modify_def)

lemma settle_keeps_row:
  assumes "cafe_requests_id row \<notin> set ids"
  shows "step_relation.keeps (keeps_row row) (settle w \<lparr>br_toComplete = ids, br_toFail = [], br_toUnpin = []\<rparr>)"
  unfolding settle_def using assms
  by (auto intro!: row.keeps_seq row.keeps_foreach row.keeps_return row_complete)

lemma ids_of_targets_iff:
  "i \<in> set (ids_of_targets reqs xs) \<longleftrightarrow> (\<exists>r\<in>set reqs. req_Id r = i \<and> req_Target r \<in> set xs)"
  by (auto simp: ids_of_targets_def)

text \<open>A request to unstore content that the cafe has not pinned is never settled. The host acknowledges
  only the cids it finds pinned; the client then takes the request neither for handled nor for failed,
  so settling the batch leaves its row as it is, without an attempt, for every flush to come.\<close>

lemma unstore_of_unpinned_stays_queued:
  assumes "handleUnstore ca w m pid s = (Inr x, s')" "replies x (MCafeUnstoreAck acked)"
    and "msg_Payload m = Some (MCafeUnstore un)"
    and "\<And>cids state c. decode_cids w (sto_Cids un) = Inr cids \<Longrightarrow> ca_checkPinned ca (ns_effects s) cids = Inr state
           \<Longrightarrow> (c, True) \<in> set state \<Longrightarrow> ca_cidHash ca c \<noteq> req_Target r"
    and "cafe_unstore ca' w' (map req_Target reqs) cafeId t = (Inr acked, t')"
    and "r \<in> set reqs" "distinct (map req_Id reqs)"
  shows "\<exists>handled. handleRequests ca' w' reqs CafeRequest_UNSTORE cafeId t = (Inr (handled, [], None), t')
    \<and> req_Id r \<notin> set handled
    \<and> (\<forall>row\<in>set (ns_cafe_requests t'). cafe_requests_id row = req_Id r \<longrightarrow>
         row \<in> set (ns_cafe_requests (snd (settle w'
           \<lparr>br_toComplete = handled, br_toFail = [], br_toUnpin = []\<rparr> t'))))"
proof -
  have a: "req_Target r \<notin> set acked"
    using handleUnstore_acks [OF assms(1-3)] assms(4) by fastforce
  let ?handled = "ids_of_targets reqs acked"
  have run: "handleRequests ca' w' reqs CafeRequest_UNSTORE cafeId t = (Inr (?handled, [], None), t')"
    using assms(5) by (simp add: handleRequests_def go_bind_def go_try_run go_return_def)
  have h: "req_Id r \<notin> set ?handled"
  proof
    assume "req_Id r \<in> set ?handled"
    then obtain r' where "r' \<in> set reqs" "req_Id r' = req_Id r" "req_Target r' \<in> set acked"
      by (auto simp: ids_of_targets_iff)
    then have "r' = r" using assms(6,7) by (auto simp: distinct_map dest: inj_onD)
    with a \<open>req_Target r' \<in> set acked\<close> show False by simp
  qed
  have "row \<in> set (ns_cafe_requests (snd (settle w' \<lparr>br_toComplete = ?handled, br_toFail = [], br_toUnpin = []\<rparr> t')))"
    if "row \<in> set (ns_cafe_requests t')" "cafe_requests_id row = req_Id r" for row
    using row.keepsD [OF settle_keeps_row [where w = w'], of row ?handled t'] that h by (simp add: keeps_row_def)
  with run h show ?thesis by blast
qed

text \<open>A client with a session whose cafe answers an unstore request with an empty acknowledgement.\<close>

definition sample_session :: CafeSession where
  "sample_session = \<lparr>ses_Id = ''C'', ses_Access = ''t'', ses_Exp = Some (ProtoTs 1), ses_Refresh = ''r'',
     ses_Rexp = Some (ProtoTs 1), ses_Subject = ''P'', ses_Type = ''JWT'', ses_Cafe = sample_info\<rparr>"

definition sample_unstore :: Message where
  "sample_unstore = sample_cafe_message Message_CAFE_UNSTORE
     (MCafeUnstore \<lparr>sto_Token = ''t'', sto_Cids = [''h1'']\<rparr>)"

definition sample_unstore_client :: cafe_env where
  "sample_unstore_client = sample_host\<lparr>ca_net := sample_net_service\<lparr>sn_request := (\<lambda>_ _ _. Inr (Some
     \<lparr>me_Message = Some (sample_cafe_message Message_CAFE_UNSTORE_ACK (MCafeUnstoreAck [])), me_Sig = []\<rparr>))\<rparr>\<rparr>"

definition sample_unstore_state :: node_state where
  "sample_unstore_state = sample_state\<lparr>ns_cafe_sessions := snd (cafe_sessions_AddOrUpdate
     (ProtoTs 1) sample_session []), ns_cafe_requests := [sample_request]\<rparr>"

lemma sample_unstore_host:
  "\<exists>x s'. handleUnstore sample_host (sample_world b) sample_unstore ''P'' sample_state = (Inr x, s')
     \<and> replies x (MCafeUnstoreAck [])"
  by (simp add: handleUnstore_def sample_unstore_def sample_cafe_message_def authorized_def authToken_def request_run
      Validate_def ParseClaims_def check_claims_def scope_Access_def scope_Refresh_def reply_def NewEnvelope_def
      replies_def go_try_run sample_host_defs sample_defs go_defs Let_def TimestampNow_def draw_def
      Pinned_def pinned_is_def)

lemma sample_unstore_answer:
  "\<exists>t'. cafe_unstore sample_unstore_client (sample_world b) [''h1''] ''C'' sample_unstore_state = (Inr [], t')
     \<and> ns_cafe_requests t' = [sample_request]"
  by (simp add: cafe_unstore_def sendCafeRequest_def cafe_sessions_Get_def sample_unstore_state_def sample_session_def
      cafe_sessions_AddOrUpdate_def cafe_sessions_enc_def cafe_sessions_dec_def sql_defs go_defs NewEnvelope_def
      sample_unstore_client_def sample_host_defs sample_cafe_message_def SendRequest_def draw_def handleError_def
      go_try_run response_def UnmarshalAny_def sample_defs Let_def)

end
