(* ===== verification/Crypto.thy ===== *)
theory Crypto
  imports Inbound
begin

text \<open>
  \<^verbatim>\<open>crypto/symmetric.go\<close> and \<^verbatim>\<open>crypto/asymmetric.go\<close>: AES-256 GCM with a 44 byte key that holds the
  nonce, and the framing of a nacl box as nonce, ephemeral public key and box. The ciphers, the key
  conversions and the random bytes are functions; what a caller draws at random is an argument.
\<close>

section \<open>AES\<close>

record aes_env =
  gcm_seal :: "bytes \<Rightarrow> bytes \<Rightarrow> bytes \<Rightarrow> goerr + bytes"
  gcm_open :: "bytes \<Rightarrow> bytes \<Rightarrow> bytes \<Rightarrow> goerr + bytes"

text \<open>\<open>gcm_seal key nonce plain\<close>; an invalid length of the key is an error.\<close>

definition EncryptAES :: "aes_env \<Rightarrow> bytes \<Rightarrow> bytes \<Rightarrow> goerr + bytes" where
  "EncryptAES ae plain key =
     (if length key \<noteq> 44 then Inl (ErrMsg ''invalid key'')
      else gcm_seal ae (take 32 key) (drop 32 key) plain)"

definition DecryptAES :: "aes_env \<Rightarrow> bytes \<Rightarrow> bytes \<Rightarrow> goerr + bytes" where
  "DecryptAES ae ciph key =
     (if length key \<noteq> 44 then Inl (ErrMsg ''invalid key'')
      else gcm_open ae (take 32 key) (drop 32 key) ciph)"

section \<open>Boxes\<close>

definition NonceBytes :: nat where
  "NonceBytes = 24"

definition EphemeralPublicKeyBytes :: nat where
  "EphemeralPublicKeyBytes = 32"

datatype pub_key = Ed25519PublicKey bytes | OtherPublicKey

datatype priv_key = Ed25519PrivateKey bytes | OtherPrivateKey

text \<open>
  \<open>box_seal plain nonce pk sk\<close> and \<open>box_open box nonce pk sk\<close> of the nacl library, and the conversions
  of ed25519 keys to curve25519.
\<close>

record box_env =
  box_seal :: "bytes \<Rightarrow> bytes \<Rightarrow> bytes \<Rightarrow> bytes \<Rightarrow> bytes"
  box_open :: "bytes \<Rightarrow> bytes \<Rightarrow> bytes \<Rightarrow> bytes \<Rightarrow> bytes option"
  box_publicToCurve :: "bytes \<Rightarrow> goerr + bytes"
  box_privateToCurve :: "bytes \<Rightarrow> goerr + bytes"

definition unknown_key :: goerr where
  "unknown_key = ErrMsg ''could not determine key type''"

definition BoxDecryptionError :: goerr where
  "BoxDecryptionError = ErrMsg ''failed to decrypt curve25519''"

text \<open>\<open>ephem\<close> is the generated key pair, \<open>nonce\<close> the random nonce.\<close>

definition encryptCurve25519 ::
  "box_env \<Rightarrow> goerr + bytes \<times> bytes \<Rightarrow> goerr + bytes \<Rightarrow> bytes \<Rightarrow> bytes \<Rightarrow> goerr + bytes" where
  "encryptCurve25519 be ephem nonce pubKey plain =
     (case ephem of Inl err \<Rightarrow> Inl err | Inr (ephemPub, ephemPriv) \<Rightarrow>
      case box_publicToCurve be pubKey of Inl err \<Rightarrow> Inl err | Inr pk \<Rightarrow>
      case nonce of Inl err \<Rightarrow> Inl err | Inr n \<Rightarrow>
      Inr (n @ ephemPub @ box_seal be plain n pk ephemPriv))"

definition box_Encrypt ::
  "box_env \<Rightarrow> goerr + bytes \<times> bytes \<Rightarrow> goerr + bytes \<Rightarrow> pub_key \<Rightarrow> bytes \<Rightarrow> goerr + bytes" where
  "box_Encrypt be ephem nonce pubKey plain =
     (case pubKey of
        Ed25519PublicKey k \<Rightarrow> encryptCurve25519 be ephem nonce k plain
      | OtherPublicKey \<Rightarrow> Inl unknown_key)"

text \<open>The slices of the ciphertext panic when it is too short.\<close>

definition decryptCurve25519 :: "box_env \<Rightarrow> bytes \<Rightarrow> bytes \<Rightarrow> goerr + bytes" where
  "decryptCurve25519 be privKey ciphertext =
     (case box_privateToCurve be privKey of Inl err \<Rightarrow> Inl err | Inr sk \<Rightarrow>
      if length ciphertext < NonceBytes + EphemeralPublicKeyBytes
      then Inl (Panic ''slice bounds out of range'')
      else (let n = take NonceBytes ciphertext;
                ephemPub = take EphemeralPublicKeyBytes (drop NonceBytes ciphertext);
                ct = drop (NonceBytes + EphemeralPublicKeyBytes) ciphertext
            in case box_open be ct n ephemPub sk of
                 None \<Rightarrow> Inl BoxDecryptionError
               | Some plain \<Rightarrow> Inr plain))"

definition box_Decrypt :: "box_env \<Rightarrow> priv_key \<Rightarrow> bytes \<Rightarrow> goerr + bytes" where
  "box_Decrypt be privKey ciphertext =
     (case privKey of
        Ed25519PrivateKey k \<Rightarrow> decryptCurve25519 be k ciphertext
      | OtherPrivateKey \<Rightarrow> Inl unknown_key)"

section \<open>Lemmas\<close>

text \<open>
  What the nacl library documents: opening a box that was sealed for a key with its private half
  returns the message. \<open>pair\<close> relates the halves of an ed25519 key.
\<close>

definition nacl_box :: "box_env \<Rightarrow> (bytes \<Rightarrow> bytes \<Rightarrow> bool) \<Rightarrow> bytes \<Rightarrow> bytes \<Rightarrow> bool" where
  "nacl_box be pair ephemPub ephemPriv \<longleftrightarrow>
     (\<forall>k sk pk' sk' m n. pair k sk \<and> box_publicToCurve be k = Inr pk' \<and> box_privateToCurve be sk = Inr sk'
        \<longrightarrow> box_open be (box_seal be m n pk' ephemPriv) n ephemPub sk' = Some m)"

lemma decrypt_encrypt:
  assumes "nacl_box be pair ephemPub ephemPriv" "pair k sk" "box_privateToCurve be sk = Inr sk'"
    and "length n = NonceBytes" "length ephemPub = EphemeralPublicKeyBytes"
    and "encryptCurve25519 be (Inr (ephemPub, ephemPriv)) (Inr n) k m = Inr c"
  shows "decryptCurve25519 be sk c = Inr m"
proof -
  obtain pk where pk: "box_publicToCurve be k = Inr pk" and c: "c = n @ ephemPub @ box_seal be m n pk ephemPriv"
    using assms(6) by (auto simp: encryptCurve25519_def split: sum.splits)
  have "box_open be (box_seal be m n pk ephemPriv) n ephemPub sk' = Some m"
    using assms(1-3) pk unfolding nacl_box_def by blast
  then show ?thesis
    using assms(3-5) by (simp add: decryptCurve25519_def c Let_def)
qed

lemma decrypt_panics_iff:
  "(\<exists>t. decryptCurve25519 be sk c = Inl (Panic t)) \<longleftrightarrow>
     (\<exists>t. box_privateToCurve be sk = Inl (Panic t))
     \<or> (\<exists>sk'. box_privateToCurve be sk = Inr sk') \<and> length c < 56"
  by (auto simp: decryptCurve25519_def NonceBytes_def EphemeralPublicKeyBytes_def BoxDecryptionError_def
      Let_def split: sum.splits option.splits)

end
