(* ===== verification/CryptoProps.thy ===== *)
theory CryptoProps
  imports Crypto Sample
begin

text \<open>
  What an envelope from a stranger does to a node whose peer key opens boxes, the composition of the
  threads service with the crypto package.
\<close>

text \<open>Anybody can crash a node: an envelope of the old kind for a thread the node does not have, with a
  ciphertext shorter than a nonce and a key (56 bytes), makes the decryption slice out of range, and
  this panic is not an error that is handled. A longer ciphertext that does not open is ignored, and
  nothing changes.\<close>

lemma short_invite_panics:
  assumes "loaded_thread (te_Thread tenv) s = None" "te_Ciphertext tenv = Some c"
    and "sv_decryptPeer sv = box_Decrypt be (Ed25519PrivateKey sk)" "box_privateToCurve be sk = Inr sk'"
  shows "(length c < 56 \<longrightarrow> (\<exists>t. Handle w sv tenv s = (Inl (Panic t), s)))
    \<and> (56 \<le> length c \<longrightarrow> box_open be (drop 56 c) (take 24 c) (take 32 (drop 24 c)) sk' = None \<longrightarrow>
         Handle w sv tenv s = (Inr Done, s))"
proof -
  have "Handle w sv tenv s = go_seq
      (handleAdd w sv (te_Thread tenv)
        \<lparr>bn_hash = te_Hash tenv, bn_ciphertext = c, bn_parents = [], bn_target = [], bn_data = []\<rparr>
        (case te_Sig tenv of None \<Rightarrow> False | Some sig \<Rightarrow> sv_verify sv c sig)) (go_return Done) s"
    using assms(1,2) by (cases "te_Sig tenv") (simp_all add: Handle_def unpack_def go_bind_get Let_def)
  then show ?thesis
    using assms(3,4)
    by (simp add: handleAdd_def box_Decrypt_def decryptCurve25519_def NonceBytes_def EphemeralPublicKeyBytes_def
        BoxDecryptionError_def is_panic_def go_defs Let_def)
qed

end
