(* ===== verification/SearchProps.thy ===== *)
theory SearchProps
  imports Search Sample
begin

text \<open>The specification of the result set of a query.\<close>

definition result_date :: "timestamp \<Rightarrow> QueryResult \<Rightarrow> int" where
  "result_date now i = ProtoNanos now (qr_Date i)"

text \<open>The first of the newest items with an id.\<close>

definition newest :: "timestamp \<Rightarrow> string \<Rightarrow> QueryResult list \<Rightarrow> QueryResult \<Rightarrow> bool" where
  "newest now k is x \<longleftrightarrow> (\<exists>pre post. is = pre @ x # post \<and> qr_Id x = k
     \<and> (\<forall>i\<in>set pre. qr_Id i = k \<longrightarrow> result_date now i < result_date now x)
     \<and> (\<forall>i\<in>set post. qr_Id i = k \<longrightarrow> result_date now i \<le> result_date now x))"

lemma newest_snoc_old:
  assumes "newest now k is x" "qr_Id a = k \<Longrightarrow> result_date now a \<le> result_date now x"
  shows "newest now k (is @ [a]) x"
proof -
  obtain pre post where s: "is = pre @ x # post" "qr_Id x = k"
      "\<forall>i\<in>set pre. qr_Id i = k \<longrightarrow> result_date now i < result_date now x"
      "\<forall>i\<in>set post. qr_Id i = k \<longrightarrow> result_date now i \<le> result_date now x"
    using assms(1) by (auto simp: newest_def)
  show ?thesis
    unfolding newest_def
    by (rule exI [of _ pre], rule exI [of _ "post @ [a]"]) (use s assms(2) in auto)
qed

lemma newest_max: "newest now k is x \<Longrightarrow> i \<in> set is \<Longrightarrow> qr_Id i = k \<Longrightarrow> result_date now i \<le> result_date now x"
  by (fastforce simp: newest_def)

lemma newest_snoc_new:
  assumes "qr_Id a = k" "\<forall>i\<in>set is. qr_Id i = k \<longrightarrow> result_date now i < result_date now a"
  shows "newest now k (is @ [a]) a"
  unfolding newest_def by (rule exI [of _ "is"], rule exI [of _ "[]"]) (use assms in auto)

lemma skips_hide:
  "qo_Filter (rs_options s) = HIDE_OLDER \<Longrightarrow> skips now a s \<longleftrightarrow>
     (\<exists>l. map_of (rs_items s) (qr_Id a) = Some l \<and> result_date now a \<le> result_date now l)"
  by (auto simp: skips_def result_date_def split: option.splits)

lemma result_set_spec:
  assumes "qo_Filter opts = HIDE_OLDER"
  shows "case map_of (rs_items (snd (rs_Add now is (newQueryResultSet opts)))) k of
      None \<Rightarrow> \<forall>i\<in>set is. qr_Id i \<noteq> k
    | Some x \<Rightarrow> newest now k is x"
proof (induction "is" arbitrary: k rule: rev_induct)
  case Nil
  then show ?case by (simp add: newQueryResultSet_def)
next
  case (snoc a as)
  define s where "s = snd (rs_Add now as (newQueryResultSet opts))"
  have f: "qo_Filter (rs_options s) = HIDE_OLDER" using assms by (simp add: s_def newQueryResultSet_def)
  have IH: "case map_of (rs_items s) k of None \<Rightarrow> \<forall>i\<in>set as. qr_Id i \<noteq> k | Some x \<Rightarrow> newest now k as x" for k
    using snoc.IH [of k] by (simp add: s_def)
  have step: "rs_items (snd (rs_Add now (as @ [a]) (newQueryResultSet opts))) =
      (if skips now a s then rs_items s else AList.update (qr_Id a) a (rs_items s))"
    by (simp add: rs_Add_append s_def [symmetric])
  show ?case
  proof (cases "skips now a s")
    case True
    then obtain l where l: "map_of (rs_items s) (qr_Id a) = Some l" "result_date now a \<le> result_date now l"
      using skips_hide [OF f] by blast
    show ?thesis
      using IH [of k] l True by (auto simp: step split: option.splits intro!: newest_snoc_old)
  next
    case False
    have new: "newest now (qr_Id a) (as @ [a]) a"
    proof (rule newest_snoc_new [OF HOL.refl], intro ballI impI)
      fix i assume i: "i \<in> set as" "qr_Id i = qr_Id a"
      then obtain x where x: "map_of (rs_items s) (qr_Id a) = Some x" "newest now (qr_Id a) as x"
        using IH [of "qr_Id a"] by (auto split: option.splits)
      then have "result_date now x < result_date now a" using False skips_hide [OF f] by force
      then show "result_date now i < result_date now a" using newest_max [OF x(2) i] by simp
    qed
    show ?thesis
    proof (cases "k = qr_Id a")
      case True
      then show ?thesis using False new by (simp add: step map_of_rs_update)
    next
      case k: False
      then show ?thesis
        using IH [of k] False newest_snoc_old [of now k as _ a]
        by (auto simp: step map_of_rs_update split: option.splits)
    qed
  qed
qed

text \<open>C35. A result set that hides older results holds every id that was found exactly once, with the newest
  of its items and, of several with the same date, the one that came first, however the results
  arrive in batches.\<close>

theorem result_set_holds_the_newest:
  assumes "qo_Filter opts = HIDE_OLDER"
    and "s = fold (\<lambda>is s. snd (rs_Add now is s)) batches (newQueryResultSet opts)"
  shows "distinct (map fst (rs_items s))
    \<and> (\<forall>k. map_of (rs_items s) k = None \<longleftrightarrow> k \<notin> qr_Id ` set (concat batches))
    \<and> (\<forall>k x. map_of (rs_items s) k = Some x \<longrightarrow> newest now k (concat batches) x)"
proof -
  have all: "fold (\<lambda>is s. snd (rs_Add now is s)) bs q = snd (rs_Add now (concat bs) q)" for bs q
    by (induction bs arbitrary: q) (simp_all add: rs_Add_append)
  have s: "s = snd (rs_Add now (concat batches) (newQueryResultSet opts))"
    using all assms(2) by simp
  have "distinct (map fst (rs_items s))"
    unfolding s by (rule rs_distinct) (simp add: newQueryResultSet_def)
  moreover have "(map_of (rs_items s) k = None \<longleftrightarrow> k \<notin> qr_Id ` set (concat batches))
      \<and> (\<forall>x. map_of (rs_items s) k = Some x \<longrightarrow> newest now k (concat batches) x)" for k
  proof (cases "map_of (rs_items s) k")
    case None
    then have "\<forall>i\<in>set (concat batches). qr_Id i \<noteq> k"
      using result_set_spec [OF assms(1), of "concat batches" k now] by (simp add: s [symmetric])
    then show ?thesis using None by (metis imageE option.distinct(1))
  next
    case (Some x)
    then have n: "newest now k (concat batches) x"
      using result_set_spec [OF assms(1), of "concat batches" k now] by (simp add: s [symmetric])
    obtain pre post where "concat batches = pre @ x # post" "qr_Id x = k" using n unfolding newest_def by blast
    then have "k \<in> qr_Id ` set (concat batches)" by (metis image_eqI in_set_conv_decomp)
    then show ?thesis using Some n by simp
  qed
  ultimately show ?thesis by blast
qed

definition sample_result :: "string \<Rightarrow> int \<Rightarrow> QueryResult" where
  "sample_result i d = \<lparr>qr_Id = i, qr_Date = Some \<lparr>Seconds = d, Nanos = 0\<rparr>, qr_Local = False,
     qr_Value = AnyCafeClientThread \<lparr>ct_Id = i, ct_Client = [], ct_Ciphertext = []\<rparr>\<rparr>"

theorem result_set_holds_the_newest_witness:
  "\<exists>s. s = fold (\<lambda>is s. snd (rs_Add \<lparr>Seconds = 0, Nanos = 0\<rparr> is s))
       [[sample_result ''p'' 2, sample_result ''q'' 1], [sample_result ''p'' 1]]
       (newQueryResultSet \<lparr>qo_LocalOnly = False, qo_RemoteOnly = False, qo_Limit = 5, qo_Wait = 5,
          qo_Filter = HIDE_OLDER, qo_Exclude = []\<rparr>)
     \<and> distinct (map fst (rs_items s)) \<and> map_of (rs_items s) ''z'' = None"
proof -
  let ?opts = "\<lparr>qo_LocalOnly = False, qo_RemoteOnly = False, qo_Limit = 5, qo_Wait = 5,
     qo_Filter = HIDE_OLDER, qo_Exclude = []\<rparr>"
  let ?s = "fold (\<lambda>is s. snd (rs_Add \<lparr>Seconds = 0, Nanos = 0\<rparr> is s))
       [[sample_result ''p'' 2, sample_result ''q'' 1], [sample_result ''p'' 1]] (newQueryResultSet ?opts)"
  have "qo_Filter ?opts = HIDE_OLDER" by simp
  from result_set_holds_the_newest [OF this HOL.refl, of "\<lparr>Seconds = 0, Nanos = 0\<rparr>"
      "[[sample_result ''p'' 2, sample_result ''q'' 1], [sample_result ''p'' 1]]"]
  have d: "distinct (map fst (rs_items ?s))"
    and n: "\<forall>k. map_of (rs_items ?s) k = None \<longleftrightarrow>
      k \<notin> qr_Id ` set (concat [[sample_result ''p'' 2, sample_result ''q'' 1], [sample_result ''p'' 1]])"
    by blast+
  have "map_of (rs_items ?s) ''z'' = None" using n by (simp add: sample_result_def)
  with d show ?thesis by blast
qed

end
