(* ===== verification/StoreKeys.thy ===== *)
theory StoreKeys
  imports NodeState
begin

text \<open>
  The primary keys of the tables under the operations of the stores, one lemma for the statements of
  each table, and the keys of all tables of a node together.
\<close>

section \<open>One table\<close>

definition keeps_key :: "('r \<Rightarrow> 'k) \<Rightarrow> ('r sql_table, 'a) go \<Rightarrow> bool" where
  "keeps_key key m \<longleftrightarrow> (\<forall>t. distinct (map key t) \<longrightarrow> distinct (map key (snd (m t))))"

named_theorems key_rules "operations of a store that keep its primary key unique"

lemma keeps_key_insert [key_rules]: "keeps_key key (sql_insert c key row)"
  by (auto simp: keeps_key_def sql_insert_def)

lemma keeps_key_replace: "key row = k \<Longrightarrow> keeps_key key (sql_replace key row)"
  by (auto simp: keeps_key_def sql_defs go_defs distinct_map_filter_key)

lemma keeps_key_delete [key_rules]: "keeps_key key (sql_delete P)"
  by (simp add: keeps_key_def sql_defs go_defs distinct_map_filter_key)

lemma keeps_key_update: "(\<And>r. key (f r) = key r) \<Longrightarrow> keeps_key key (sql_update P f)"
  unfolding keeps_key_def sql_update_def go_modify_def snd_conv by (simp only: map_key_update) simp

lemma keeps_key_seq:
  assumes "keeps_key key m" "keeps_key key n"
  shows "keeps_key key (go_seq m n)"
  unfolding keeps_key_def
proof (intro allI impI)
  fix t assume d: "distinct (map key t)"
  obtain r t' where m: "m t = (r, t')" by fastforce
  have d': "distinct (map key t')" using assms(1) d m by (auto simp: keeps_key_def dest: spec [of _ t])
  then show "distinct (map key (snd (go_seq m n t)))"
    using assms(2) m by (cases r) (auto simp: keeps_key_def go_seq_def go_bind_def)
qed

lemma keeps_key_pure [key_rules]:
  "keeps_key key (go_require e b)" "keeps_key key (go_bind (go_get f) (\<lambda>x. go_require e (p x)))"
  "keeps_key key (\<lambda>t. (r, t))"
  by (auto simp: keeps_key_def go_defs)

lemma keeps_key_if [key_rules]: "keeps_key key m \<Longrightarrow> keeps_key key n \<Longrightarrow> keeps_key key (if b then m else n)"
  by simp

lemma keys_blocks [key_rules]:
  "keeps_key blocks_id (blocks_Add now b)"
  "keeps_key blocks_id (blocks_Delete i)" "keeps_key blocks_id (blocks_DeleteByThread i)"
  "keeps_key blocks_id (blocks_AddAttempt i)"
  unfolding blocks_Add_def blocks_Delete_def blocks_DeleteByThread_def blocks_AddAttempt_def
  by (intro key_rules keeps_key_update; simp)+

lemma keys_blocks_Replace [key_rules]: "keeps_key blocks_id (blocks_Replace now b)"
  unfolding blocks_Replace_def
  by (auto simp: keeps_key_def sql_replace_def go_modify_def distinct_map_filter_key)

lemma keys_threads [key_rules]:
  "keeps_key threads_id (threads_Add m)" "keeps_key threads_id (threads_UpdateHead i hs)"
  "keeps_key threads_id (threads_UpdateName i n)" "keeps_key threads_id (threads_UpdateSchema i n)"
  "keeps_key threads_id (threads_Delete i)"
  unfolding threads_Add_def threads_UpdateHead_def threads_UpdateName_def threads_UpdateSchema_def threads_Delete_def
  by (intro keeps_key_seq key_rules keeps_key_update; simp)+

lemma keys_thread_peers [key_rules]:
  "keeps_key thread_peers_key (thread_peers_Add p)" "keeps_key thread_peers_key (thread_peers_WelcomeByThread i)"
  "keeps_key thread_peers_key (thread_peers_Delete i j)" "keeps_key thread_peers_key (thread_peers_DeleteById i)"
  "keeps_key thread_peers_key (thread_peers_DeleteByThread i)"
  unfolding thread_peers_Add_def thread_peers_WelcomeByThread_def thread_peers_Delete_def
    thread_peers_DeleteById_def thread_peers_DeleteByThread_def
  by (intro key_rules keeps_key_update; simp add: thread_peers_key_def)+

lemma keys_messages [key_rules]:
  "keeps_key block_messages_id (block_messages_Add now m)" "keeps_key block_messages_id (block_messages_Delete i)"
  "keeps_key invites_id (invites_Add now v)" "keeps_key invites_id (invites_Delete i)"
  unfolding block_messages_Add_def block_messages_Delete_def invites_Add_def invites_Delete_def
  by (intro keeps_key_seq key_rules)+

lemma keys_notifications [key_rules]:
  "keeps_key notifications_id (notifications_Add now n)" "keeps_key notifications_id (notifications_Read i)"
  "keeps_key notifications_id notifications_ReadAll" "keeps_key notifications_id (notifications_Delete i)"
  "keeps_key notifications_id (notifications_DeleteByActor i)"
  "keeps_key notifications_id (notifications_DeleteBySubject i)"
  "keeps_key notifications_id (notifications_DeleteByBlock i)"
  unfolding notifications_Add_def notifications_Read_def notifications_ReadAll_def notifications_Delete_def
    notifications_DeleteByActor_def notifications_DeleteBySubject_def notifications_DeleteByBlock_def
  by (intro key_rules keeps_key_update; simp)+

lemma keys_peers [key_rules]:
  "keeps_key peers_id (peers_Add now p)"
  "keeps_key peers_id (peers_UpdateName now i n)" "keeps_key peers_id (peers_UpdateAvatar now i n)"
  "keeps_key peers_id (peers_UpdateInboxes now i cs)" "keeps_key peers_id (peers_Delete i)"
  "keeps_key peers_id (peers_DeleteByAddress i)"
  unfolding peers_Add_def peers_UpdateName_def peers_UpdateAvatar_def
    peers_UpdateInboxes_def peers_Delete_def peers_DeleteByAddress_def
  by (intro key_rules keeps_key_update; simp)+

lemma keys_peers_AddOrUpdate [key_rules]: "keeps_key peers_id (peers_AddOrUpdate now p)"
  unfolding peers_AddOrUpdate_def
  by (auto simp: keeps_key_def sql_replace_def go_modify_def distinct_map_filter_key)

lemma keys_files [key_rules]:
  "keeps_key files_key (files_Add now f)" "keeps_key files_key (files_Delete i)"
  "keeps_key files_key (files_AddTarget h x)" "keeps_key files_key (files_RemoveTarget h x)"
proof -
  show "keeps_key files_key (files_Add now f)" "keeps_key files_key (files_Delete i)"
    unfolding files_Add_def files_Delete_def Let_def by (intro keeps_key_seq key_rules)+
  have upd: "keeps_key files_key (sql_update P (\<lambda>r. r\<lparr>files_targets := v\<rparr>))" for P v
    by (rule keeps_key_update) (simp add: files_key_def)
  show "keeps_key files_key (files_AddTarget h x)" "keeps_key files_key (files_RemoveTarget h x)"
    using upd by (auto simp: keeps_key_def files_AddTarget_def files_RemoveTarget_def split: list.splits)
qed

lemma keys_cafe_client [key_rules]:
  "keeps_key cafe_sessions_cafeId (cafe_sessions_AddOrUpdate now x)"
  "keeps_key cafe_sessions_cafeId (cafe_sessions_Delete i)"
  "keeps_key cafe_messages_id (cafe_messages_Add now c)" "keeps_key cafe_messages_id (cafe_messages_AddAttempt i)"
  "keeps_key cafe_messages_id (cafe_messages_Delete i)"
  unfolding cafe_sessions_AddOrUpdate_def cafe_sessions_Delete_def cafe_messages_Add_def
    cafe_messages_AddAttempt_def cafe_messages_Delete_def
  by (intro keeps_key_replace key_rules keeps_key_update HOL.refl; simp)+

lemma keys_cafe_requests [key_rules]:
  "keeps_key cafe_requests_id (cafe_requests_Add now x)" "keeps_key cafe_requests_id (cafe_requests_UpdateStatus i st)"
  "keeps_key cafe_requests_id (cafe_requests_UpdateGroupStatus i st)"
  "keeps_key cafe_requests_id (cafe_requests_UpdateGroupProgress i a b)"
  "keeps_key cafe_requests_id (cafe_requests_AddAttempt i)" "keeps_key cafe_requests_id (cafe_requests_Delete i)"
  "keeps_key cafe_requests_id (cafe_requests_DeleteByGroup i)"
  "keeps_key cafe_requests_id (cafe_requests_DeleteBySyncGroup i)"
  "keeps_key cafe_requests_id (cafe_requests_DeleteByCafe i)"
  unfolding cafe_requests_Add_def cafe_requests_UpdateStatus_def cafe_requests_UpdateGroupStatus_def
    cafe_requests_UpdateGroupProgress_def cafe_requests_AddAttempt_def cafe_requests_Delete_def
    cafe_requests_DeleteByGroup_def cafe_requests_DeleteBySyncGroup_def cafe_requests_DeleteByCafe_def
  by (intro key_rules keeps_key_update; simp)+

lemma keys_DeleteCompleteSyncGroups [key_rules]: "keeps_key cafe_requests_id DeleteCompleteSyncGroups"
  unfolding DeleteCompleteSyncGroups_def
  by (auto simp: keeps_key_def sql_delete_def go_modify_def distinct_map_filter_key)

lemma keys_cafe_host [key_rules]:
  "keeps_key cafe_client_nonces_value (nonces_Add now n)" "keeps_key cafe_client_nonces_value (nonces_Delete i)"
  "keeps_key cafe_clients_id (clients_Add now c)" "keeps_key cafe_clients_id (clients_UpdateLastSeen i v)"
  "keeps_key cafe_clients_id (clients_Delete i)"
  "keeps_key cafe_client_threads_key (client_threads_AddOrUpdate th)"
  "keeps_key cafe_client_threads_key (client_threads_Delete i j)"
  "keeps_key cafe_client_threads_key (client_threads_DeleteByClient i)"
  "keeps_key cafe_client_messages_key (client_messages_AddOrUpdate now cm)"
  "keeps_key cafe_client_messages_key (client_messages_Delete i j)"
  "keeps_key cafe_tokens_id (tokens_Add now tk)" "keeps_key cafe_tokens_id (tokens_Delete i)"
  unfolding nonces_Add_def nonces_Delete_def clients_Add_def clients_UpdateLastSeen_def clients_Delete_def
    client_threads_AddOrUpdate_def client_threads_Delete_def client_threads_DeleteByClient_def
    client_messages_AddOrUpdate_def client_messages_Delete_def tokens_Add_def tokens_Delete_def
  by (intro keeps_key_replace key_rules keeps_key_update HOL.refl; simp)+

lemma keys_DeleteByClient [key_rules]:
  "keeps_key cafe_client_messages_key (client_messages_DeleteByClient i n)"
  unfolding client_messages_DeleteByClient_def Let_def
  by (auto simp: keeps_key_def sql_delete_def go_modify_def distinct_map_filter_key)

end
