(* ===== verification/NodeRelation.thy ===== *)
theory NodeRelation
  imports StoreKeys CafeBatch CafeQuery CafeTokens Queues
begin

text \<open>
  Relations between the states of a node that every operation keeps. The locale asks for the draws,
  the effects, the tables, as long as their primary keys stay unique, and the changes of the threads
  in memory; the operations of the threads, the queues, the account and the cafe service follow
  once and for all.
\<close>

named_theorems node_rules "operations of a node that keep a relation"

locale node_relation = step_relation R for R :: "node_state \<Rightarrow> node_state \<Rightarrow> bool" +
  assumes tick: "R s (s\<lparr>ns_tick := ns_tick s + 1\<rparr>)"
    and effect: "R s (s\<lparr>ns_effects := ns_effects s @ [e]\<rparr>)"
    and blocks: "(distinct (map blocks_id (ns_blocks s)) \<Longrightarrow> distinct (map blocks_id t1)) \<Longrightarrow> R s (s\<lparr>ns_blocks := t1\<rparr>)"
    and threads: "(distinct (map threads_id (ns_threads s)) \<Longrightarrow> distinct (map threads_id t2)) \<Longrightarrow> R s (s\<lparr>ns_threads := t2\<rparr>)"
    and thread_peers: "(distinct (map thread_peers_key (ns_thread_peers s)) \<Longrightarrow> distinct (map thread_peers_key t3))
        \<Longrightarrow> R s (s\<lparr>ns_thread_peers := t3\<rparr>)"
    and block_messages: "(distinct (map block_messages_id (ns_block_messages s)) \<Longrightarrow> distinct (map block_messages_id t4))
        \<Longrightarrow> R s (s\<lparr>ns_block_messages := t4\<rparr>)"
    and invites: "(distinct (map invites_id (ns_invites s)) \<Longrightarrow> distinct (map invites_id t5)) \<Longrightarrow> R s (s\<lparr>ns_invites := t5\<rparr>)"
    and notifications: "(distinct (map notifications_id (ns_notifications s)) \<Longrightarrow> distinct (map notifications_id t6))
        \<Longrightarrow> R s (s\<lparr>ns_notifications := t6\<rparr>)"
    and peers: "(distinct (map peers_id (ns_peers s)) \<Longrightarrow> distinct (map peers_id t7)) \<Longrightarrow> R s (s\<lparr>ns_peers := t7\<rparr>)"
    and files: "(distinct (map files_key (ns_files s)) \<Longrightarrow> distinct (map files_key t8)) \<Longrightarrow> R s (s\<lparr>ns_files := t8\<rparr>)"
    and cafe_sessions: "(distinct (map cafe_sessions_cafeId (ns_cafe_sessions s)) \<Longrightarrow> distinct (map cafe_sessions_cafeId t9))
        \<Longrightarrow> R s (s\<lparr>ns_cafe_sessions := t9\<rparr>)"
    and cafe_requests: "(distinct (map cafe_requests_id (ns_cafe_requests s)) \<Longrightarrow> distinct (map cafe_requests_id t10))
        \<Longrightarrow> R s (s\<lparr>ns_cafe_requests := t10\<rparr>)"
    and cafe_messages: "(distinct (map cafe_messages_id (ns_cafe_messages s)) \<Longrightarrow> distinct (map cafe_messages_id t11))
        \<Longrightarrow> R s (s\<lparr>ns_cafe_messages := t11\<rparr>)"
    and nonces: "(distinct (map cafe_client_nonces_value (ns_cafe_client_nonces s)) \<Longrightarrow> distinct (map cafe_client_nonces_value t12))
        \<Longrightarrow> R s (s\<lparr>ns_cafe_client_nonces := t12\<rparr>)"
    and clients: "(distinct (map cafe_clients_id (ns_cafe_clients s)) \<Longrightarrow> distinct (map cafe_clients_id t13))
        \<Longrightarrow> R s (s\<lparr>ns_cafe_clients := t13\<rparr>)"
    and client_threads: "(distinct (map cafe_client_threads_key (ns_cafe_client_threads s)) \<Longrightarrow> distinct (map cafe_client_threads_key t14))
        \<Longrightarrow> R s (s\<lparr>ns_cafe_client_threads := t14\<rparr>)"
    and client_messages: "(distinct (map cafe_client_messages_key (ns_cafe_client_messages s)) \<Longrightarrow> distinct (map cafe_client_messages_key t15))
        \<Longrightarrow> R s (s\<lparr>ns_cafe_client_messages := t15\<rparr>)"
    and tokens: "(distinct (map cafe_tokens_id (ns_cafe_tokens s)) \<Longrightarrow> distinct (map cafe_tokens_id t16)) \<Longrightarrow> R s (s\<lparr>ns_cafe_tokens := t16\<rparr>)"
    and loads: "loaded_thread (t_Id th) s = None \<Longrightarrow> R s (s\<lparr>ns_loaded := ns_loaded s @ [th]\<rparr>)"
    and alters: "(\<And>th. t_Id (f th) = t_Id th) \<Longrightarrow> R s (s\<lparr>ns_loaded := map f (ns_loaded s)\<rparr>)"
    and stops: "R s (s\<lparr>ns_loaded := []\<rparr>)"
    and unloads: "R s (s\<lparr>ns_loaded := remove1 th (ns_loaded s)\<rparr>)"
    and flights: "R s (s\<lparr>ns_inFlight := l\<rparr>)"
begin

section \<open>The primitives\<close>

lemmas [node_rules] = keeps_intros keeps_sum

lemma keeps_tables [node_rules]:
  "keeps_key blocks_id a1 \<Longrightarrow> keeps (on_blocks a1)" "keeps_key threads_id a2 \<Longrightarrow> keeps (on_threads a2)"
  "keeps_key thread_peers_key a3 \<Longrightarrow> keeps (on_thread_peers a3)"
  "keeps_key block_messages_id a4 \<Longrightarrow> keeps (on_block_messages a4)"
  "keeps_key invites_id a5 \<Longrightarrow> keeps (on_invites a5)" "keeps_key notifications_id a6 \<Longrightarrow> keeps (on_notifications a6)"
  "keeps_key peers_id a7 \<Longrightarrow> keeps (on_peers a7)" "keeps_key files_key a8 \<Longrightarrow> keeps (on_files a8)"
  "keeps_key cafe_sessions_cafeId a9 \<Longrightarrow> keeps (on_cafe_sessions a9)"
  "keeps_key cafe_requests_id a10 \<Longrightarrow> keeps (on_cafe_requests a10)"
  "keeps_key cafe_messages_id a11 \<Longrightarrow> keeps (on_cafe_messages a11)"
  "keeps_key cafe_client_nonces_value a12 \<Longrightarrow> keeps (on_cafe_client_nonces a12)"
  "keeps_key cafe_clients_id a13 \<Longrightarrow> keeps (on_cafe_clients a13)"
  "keeps_key cafe_client_threads_key a14 \<Longrightarrow> keeps (on_cafe_client_threads a14)"
  "keeps_key cafe_client_messages_key a15 \<Longrightarrow> keeps (on_cafe_client_messages a15)"
  "keeps_key cafe_tokens_id a16 \<Longrightarrow> keeps (on_cafe_tokens a16)"
  unfolding on_blocks_def on_threads_def on_thread_peers_def on_block_messages_def on_invites_def on_notifications_def
    on_peers_def on_files_def on_cafe_sessions_def on_cafe_requests_def on_cafe_messages_def on_cafe_client_nonces_def
    on_cafe_clients_def on_cafe_client_threads_def on_cafe_client_messages_def on_cafe_tokens_def keeps_key_def
  by (rule keeps_on; rule blocks threads thread_peers block_messages invites notifications peers files cafe_sessions
      cafe_requests cafe_messages nonces clients client_threads client_messages tokens; simp)+

lemma keeps_primitives [node_rules]:
  "keeps (draw f)" "keeps (emit e)" "keeps (TimestampNow w)" "keeps (new_ksuid w)"
  "keeps (go_modify (\<lambda>s. s\<lparr>ns_loaded := map (\<lambda>th. if t_Id th = i then th\<lparr>t_Name := n\<rparr> else th) (ns_loaded s)\<rparr>))"
  "keeps (go_modify (\<lambda>s. s\<lparr>ns_loaded := remove1 t (ns_loaded s)\<rparr>))"
  "keeps (go_modify (\<lambda>s. s\<lparr>ns_inFlight := g (ns_inFlight s)\<rparr>))"
proof -
  show d: "keeps (draw f)" for f :: "nat \<Rightarrow> 'd" by (rule keepsI) (use tick in \<open>simp add: draw_def\<close>)
  show "keeps (emit e)" unfolding emit_def by (intro keeps_modify effect)
  show "keeps (TimestampNow w)" "keeps (new_ksuid w)" unfolding TimestampNow_def new_ksuid_def
    by (rule keepsI, use tick in \<open>simp add: draw_def\<close>)+
  show "keeps (go_modify (\<lambda>s. s\<lparr>ns_loaded := map (\<lambda>th. if t_Id th = i then th\<lparr>t_Name := n\<rparr> else th) (ns_loaded s)\<rparr>))"
    by (intro keeps_modify alters) simp
qed (intro keeps_modify unloads flights)+

lemma keeps_loadThread [node_rules]: "keeps (loadThread te model)"
proof (rule keepsI)
  fix s show "R s (snd (loadThread te model s))"
    by (auto simp: loadThread_def NewThread_def go_defs Let_def refl split: sum.splits intro!: loads)
qed

lemma keeps_let [node_rules]: "keeps (f x) \<Longrightarrow> keeps (Let x f)"
  by (simp add: Let_def)

lemma keeps_prod [node_rules]: "(\<And>a b. keeps (f a b)) \<Longrightarrow> keeps (case p of (a, b) \<Rightarrow> f a b)"
  by (simp add: split_beta)

lemma keeps_RequestType [node_rules]:
  assumes "keeps a" "keeps b" "keeps c" "keeps d" "keeps e" "\<And>i. keeps (f i)"
  shows "keeps (case ty of CafeRequest_STORE \<Rightarrow> a | CafeRequest_UNSTORE \<Rightarrow> b | CafeRequest_STORE_THREAD \<Rightarrow> c
    | CafeRequest_UNSTORE_THREAD \<Rightarrow> d | CafeRequest_INBOX \<Rightarrow> e | RequestType_Other i \<Rightarrow> f i)"
  using assms by (cases ty) auto

lemma rel_ipfs [node_rules]:
  "keeps (PinNode w c r)" "keeps (UnpinNode w c r)" "keeps (AddData w d h)"
  unfolding PinNode_def UnpinNode_def AddData_def by (intro node_rules)+

section \<open>Threads\<close>

lemma keeps_CafeOutbox [node_rules]:
  "keeps (CafeRequestOptions w os)" "keeps (CafeOutbox_add w p t c ty sets)"
  "keeps (add_session w t ty sets ses)" "keeps (CafeOutbox_Add w t ty os)" "keeps (CafeOutbox_AddForInbox w f p env cs)"
proof -
  show o: "keeps (CafeRequestOptions w os)" for os unfolding CafeRequestOptions_def by (intro node_rules key_rules)
  show a: "keeps (CafeOutbox_add w p t c ty sets)" for p t c ty sets
    unfolding CafeOutbox_add_def by (intro node_rules key_rules)
  show s: "keeps (add_session w t ty sets ses)" for t ty sets ses
    unfolding add_session_def by (intro node_rules a o)
  show "keeps (CafeOutbox_Add w t ty os)" unfolding CafeOutbox_Add_def by (intro node_rules a o s)
  show "keeps (CafeOutbox_AddForInbox w f p env cs)" unfolding CafeOutbox_AddForInbox_def by (intro node_rules a o s)
qed

lemma keeps_heads [node_rules]:
  "keeps (Heads t)" "keeps (store w t)" "keeps (updateHead w t hs b)" "keeps (addHead w t h)" "keeps (handleHead w t hs ps)"
  unfolding Heads_def store_def updateHead_def addHead_def handleHead_def
  by (intro node_rules key_rules)+

lemma keeps_blocks [node_rules]:
  "keeps (newBlockHeader w)" "keeps (addBlock w d b)" "keeps (pushUpdate w blk i)"
  unfolding newBlockHeader_def addBlock_def pushUpdate_def
  by (intro node_rules key_rules)+

lemma keeps_commit [node_rules]: "keeps (commitBlock w p ty b f)" "keeps (indexBlock w t blk b)"
  unfolding commitBlock_def indexBlock_def by (intro node_rules key_rules)+

lemma keeps_out_op [node_rules]: "keeps (out_op w t p ty x y)"
  unfolding out_op_def by (intro node_rules key_rules)

lemma keeps_out [node_rules]:
  "keeps (annouce w t a)" "keeps (AddMessage w t x y)" "keeps (AddComment w t x y)" "keeps (AddLike w t x)"
  "keeps (AddFlag w t x)" "keeps (thread_join w t x)" "keeps (AddInvite w f t p)"
  unfolding annouce_def AddMessage_def AddComment_def AddLike_def AddFlag_def thread_join_def AddInvite_def
  by (intro node_rules key_rules)+

lemma keeps_post [node_rules]:
  "keeps (commitNode w t blk ps b)" "keeps (BlockOutbox_Add w p env)" "keeps (envelope_for w t x y)"
  unfolding commitNode_def BlockOutbox_Add_def envelope_for_def by (intro node_rules key_rules)+

lemma keeps_post_all [node_rules]:
  "keeps (post w t blk)" "keeps (blockCIDFromNode w x)" "keeps (sendWelcome w t)"
  unfolding post_def blockCIDFromNode_def sendWelcome_def
  by (intro node_rules key_rules)+

lemma keeps_peers_ops [node_rules]:
  "keeps (addPeer w p)"
  unfolding addPeer_def
  by (intro node_rules key_rules)+

lemma rel_addOrUpdatePeer [node_rules]:
  "keeps (addOrUpdatePeer w t p b)"
  unfolding addOrUpdatePeer_def
  by (intro node_rules key_rules)+

section \<open>Files\<close>

lemma keeps_file_link [node_rules]:
  "keeps (NodeAtLink w l)" "keeps (validateJsonNode w t nd k)"
  unfolding NodeAtLink_def validateJsonNode_def
  by (intro node_rules key_rules)+

lemma keeps_process_link [node_rules]:
  "keeps (processFileLink w t nd b m k i)" "keeps (indexFileLink nd d)" "keeps (deIndexFileLink w nd d)"
  "keeps (cafeReqFileLink w nd st)"
  unfolding processFileLink_def indexFileLink_def deIndexFileLink_def cafeReqFileLink_def
  by (intro node_rules key_rules)+

lemma keeps_process_node [node_rules]:
  "keeps (processFileNode w t sch nd i ks b)" "keeps (indexFileNode w nd d)"
  "keeps (deIndexFileNode w nd d)" "keeps (cafeReqFileNode w nd st)"
  unfolding processFileNode_def indexFileNode_def deIndexFileNode_def cafeReqFileNode_def
  by (intro node_rules key_rules)+

lemma keeps_process_data [node_rules]:
  "keeps (processFileData w t sch nd ks b)" "keeps (indexFileData w nd d)" "keeps (removeFiles w nd)"
  "keeps (cafeReqFileData w nd g c)"
  unfolding processFileData_def indexFileData_def removeFiles_def cafeReqFileData_def
  by (intro node_rules key_rules)+

lemma rel_ignoreBlockTarget [node_rules]:
  "keeps (ignoreBlockTarget w ob)"
  unfolding ignoreBlockTarget_def
  by (intro node_rules key_rules)+

lemma keeps_file_ops [node_rules]:
  "keeps (AddFiles w t ond x y ks)" "keeps (AddIgnore w t x)" "keeps (leave w t)"
  unfolding AddFiles_def AddIgnore_def leave_def
  by (intro node_rules key_rules)+

section \<open>Inbound blocks\<close>

lemma rel_optional_payload [node_rules]:
  "keeps (optional_payload p z u)" "keeps (receiveFile w h k)"
  unfolding optional_payload_def receiveFile_def
  by (intro node_rules key_rules)+

lemma rel_handlers [node_rules]:
  "keeps (handleMergeBlock w t h)" "keeps (handleIgnoreBlock w t bn blk h)"
  "keeps (handleFlagBlock w t blk h)" "keeps (handleLikeBlock w t blk h)"
  "keeps (handleCommentBlock w t blk h)" "keeps (handleJoinBlock w t blk h)"
  "keeps (handleAnnounceBlock w t blk h)" "keeps (handleLeaveBlock w t h)"
  "keeps (handleMessageBlock w t blk h)" "keeps (handleFilesBlock w t bn blk h)"
  unfolding handleMergeBlock_def handleIgnoreBlock_def handleFlagBlock_def handleLikeBlock_def
    handleCommentBlock_def handleJoinBlock_def handleAnnounceBlock_def handleLeaveBlock_def
    handleMessageBlock_def handleFilesBlock_def
  by (intro node_rules key_rules)+

lemma rel_dispatch [node_rules]: "keeps (dispatch w t bn blk h)"
  unfolding dispatch_def by (cases "tb_Type blk") (auto intro!: node_rules)

lemma rel_handle [node_rules]:
  "keeps (handle w t bn b)"
  unfolding handle_def
  by (intro node_rules key_rules)+

lemma keeps_BlockDownloads_Add [node_rules]:
  "keeps (BlockDownloads_Add w blk)"
  unfolding BlockDownloads_Add_def
  by (intro node_rules key_rules)+

lemma keeps_inbound [node_rules]:
  "keeps (extractNode w nd b)" "keeps (parent_node w h)"
  unfolding extractNode_def parent_node_def
  by (intro node_rules key_rules)+

lemma keeps_visit_parent [node_rules]:
  "keeps (visit_parent w t x)"
  unfolding visit_parent_def
  by (intro node_rules key_rules)+

lemma keeps_followParents [node_rules]: "keeps (followParents fuel w t ps)"
  by (induction fuel w t ps rule: followParents.induct) (auto intro!: node_rules split: sum.splits option.splits)

lemma keeps_handle_tail [node_rules]:
  "keeps (handle_tail fuel w t ps hs)" "keeps (sendNotification w note)" "keeps (unpack w sv tenv)"
  unfolding handle_tail_def sendNotification_def unpack_def
  by (intro node_rules key_rules)+

lemma rel_notifyBlock [node_rules]:
  "keeps (notifyBlock w t bn b i)"
  unfolding notifyBlock_def
  by (intro node_rules key_rules)+

text \<open>An invite and a leave of the account's own peers run what the service is given for them.\<close>

lemma keeps_Handle:
  assumes "\<And>p ps. keeps (sv_addThread sv p ps)" "\<And>i. keeps (sv_removeThread sv i)"
  shows "keeps (Handle w sv tenv)"
  unfolding Handle_def handleAdd_def
  by (intro node_rules key_rules assms; auto split: option.splits intro!: node_rules key_rules)

section \<open>Queues\<close>

lemma keeps_offline_inbox [node_rules]:
  "keeps (offline_inbox n w msg)"
  unfolding offline_inbox_def
  by (intro node_rules key_rules)+

lemma rel_BlockOutbox_handle [node_rules]:
  "keeps (BlockOutbox_handle n w msg)"
  unfolding BlockOutbox_handle_def
  by (intro node_rules key_rules)+

lemma rel_handle_all [node_rules]: "keeps (handle_all n w msgs)"
  by (induction msgs) (auto intro!: node_rules)

lemma keeps_BlockOutbox_batch [node_rules]: "keeps (BlockOutbox_batch fuel n w msgs)"
  by (induction fuel arbitrary: msgs) (auto intro!: node_rules key_rules)

lemma keeps_BlockOutbox_Flush [node_rules]: "keeps (BlockOutbox_Flush n w)"
  unfolding BlockOutbox_Flush_def by (rule keepsI) (intro keepsD keeps_BlockOutbox_batch)

lemma keeps_BlockDownloads_handle [node_rules]:
  "keeps (BlockDownloads_handleErr e blk)" "keeps (BlockDownloads_handle w blk)"
  unfolding BlockDownloads_handleErr_def BlockDownloads_handle_def
  by (intro node_rules key_rules)+

lemma keeps_BlockDownloads_batch [node_rules]: "keeps (BlockDownloads_batch fuel w ds)"
  by (induction fuel arbitrary: ds) (auto intro!: node_rules key_rules)

lemma keeps_CafeInbox_handleErr [node_rules]:
  "keeps (CafeInbox_handleErr e msg)"
  unfolding CafeInbox_handleErr_def
  by (intro node_rules key_rules)+

lemma keeps_CafeInbox_step:
  assumes "\<And>env p. keeps (h env p)"
  shows "keeps (CafeInbox_handle w f u v h msg)" "keeps (CafeInbox_step w f u v h msg)"
  unfolding CafeInbox_handle_def CafeInbox_step_def by (intro node_rules key_rules assms)+

lemma keeps_post_queued [node_rules]:
  "keeps (post_queued w blk)"
  unfolding post_queued_def
  by (intro node_rules key_rules)+

lemma keeps_FlushBlocks:
  assumes "keeps cafeFlush"
  shows "keeps (flush_queued n w cafeFlush blk)" "keeps (FlushBlocks n w cafeFlush)"
  unfolding flush_queued_def FlushBlocks_def by (intro node_rules key_rules assms)+

section \<open>Threads, invites, notifications, contacts and the profile\<close>

lemma keeps_sendUpdate [node_rules]:
  "keeps (sendUpdate w e i)"
  unfolding sendUpdate_def
  by (intro node_rules key_rules)+

lemma keeps_AddThread:
  assumes "\<And>j. keeps (te_addSchema te j)"
  shows "keeps (AddThread fuel w te conf sk i join invAcc)"
proof (induction fuel arbitrary: conf)
  case (Suc fuel)
  have "keeps (config_schema w te c)" for c
    unfolding config_schema_def by (intro node_rules key_rules assms)
  then show ?case unfolding AddThread.simps insert_thread_def enter_thread_def by (intro node_rules key_rules Suc)
qed (auto intro!: node_rules)

lemma keeps_admin [node_rules]:
  "keeps (RemoveThread w i)" "keeps (RenameThread w i n)" "keeps (IgnoreInvite i)"
    "keeps (ReadNotification i)" "keeps (ReadAllNotifications)" "keeps (invite_of_notification i)"
    "keeps (AddContact w ps)" "keeps (RemoveContact w a)" "keeps (announce_all w)"
    "keeps (BlockByParent w i)" "keeps (Textile_AddInvite w te i a)"
  unfolding RemoveThread_def RenameThread_def IgnoreInvite_def ReadNotification_def
    ReadAllNotifications_def invite_of_notification_def AddContact_def RemoveContact_def announce_all_def
    BlockByParent_def Textile_AddInvite_def
  by (intro node_rules key_rules)+

lemma keeps_IgnoreInvite [node_rules]:
  "keeps (IgnoreInviteViaNotification i)"
  unfolding IgnoreInviteViaNotification_def
  by (intro node_rules key_rules)+

lemma keeps_invites:
  assumes "\<And>j. keeps (te_addSchema te j)"
  shows "keeps (handleThreadAdd fuel w te p ps)" "keeps (AcceptInvite fuel w te i)"
    "keeps (AcceptInviteViaNotification fuel w te i)" "keeps (AcceptExternalInvite fuel w te aes i k)"
proof -
  show h: "keeps (handleThreadAdd fuel w te p ps)" for p ps
    unfolding handleThreadAdd_def
    by (intro node_rules key_rules keeps_AddThread assms; auto split: option.splits intro!: node_rules key_rules keeps_AddThread assms)
  show a: "keeps (AcceptInvite fuel w te i)" for i
    unfolding AcceptInvite_def by (intro node_rules key_rules h)
  show "keeps (AcceptInviteViaNotification fuel w te i)" "keeps (AcceptExternalInvite fuel w te aes i k)"
    unfolding AcceptInviteViaNotification_def AcceptExternalInvite_def by (intro node_rules key_rules h a)+
qed

lemma keeps_profile:
  assumes "keeps publish"
  shows "keeps (SetName w publish n)" "keeps (SetAvatar w publish)"
  unfolding SetName_def SetAvatar_def by (intro node_rules key_rules assms)+

section \<open>The cafe client\<close>

lemma keeps_net [node_rules]:
  "keeps (SendRequest sn p env)" "keeps (SendMessage sn p env)" "keeps (Publish sn tp env)"
    "keeps (handlePing sn m)" "keeps (Validate w jw tk b a sub)" "keeps (NewSession w jw p a d c)"
  unfolding SendRequest_def SendMessage_def Publish_def handlePing_def Validate_def NewSession_def
  by (intro node_rules key_rules)+

lemma keeps_send [node_rules]:
  "keeps (send ca p ty x)" "keeps (response sel m)"
  unfolding send_def response_def
  by (intro node_rules key_rules)+

lemma keeps_register [node_rules]:
  "keeps (challenge ca c kp)" "keeps (Register ca w c tk)" "keeps (Deregister c)"
    "keeps (refresh ca w ses)"
  unfolding challenge_def Register_def Deregister_def refresh_def
  by (intro node_rules key_rules)+

lemma keeps_sendCafeRequest [node_rules]:
  "keeps (sendCafeRequest ca w c ty f)" "keeps (CafeInbox_Add w msg)"
  unfolding sendCafeRequest_def CafeInbox_Add_def
  by (intro node_rules key_rules)+

lemma keeps_save_message [node_rules]:
  "keeps (PublishPeer ca w p c)" "keeps (save_message w msg)" "keeps (sendObject ca w c d tk)"
  unfolding PublishPeer_def save_message_def sendObject_def
  by (intro node_rules key_rules)+

lemma keeps_CheckMessages:
  assumes "keeps (ca_inboxFlush ca)"
  shows "keeps (CheckMessages fuel ca w c)" "keeps (DeleteMessages fuel ca w c)"
proof (induction fuel)
  case (Suc fuel)
  case 1
  show ?case unfolding CheckMessages.simps by (intro node_rules assms Suc)
  case 2
  show ?case unfolding DeleteMessages.simps by (intro node_rules assms Suc)
qed (auto intro!: node_rules)

lemma keeps_CafeInbox_CheckMessages:
  assumes "keeps (ca_inboxFlush ca)"
  shows "keeps (CafeInbox_CheckMessages fuel ca w)"
proof -
  have "keeps (check_sessions fuel ca w ss e)" for ss e
    by (induction ss arbitrary: e) (auto intro!: node_rules keeps_CheckMessages assms)
  then show ?thesis unfolding CafeInbox_CheckMessages_def by (intro node_rules)
qed

lemma keeps_store_objects [node_rules]: "keeps (store_objects ca w c tk sofar cids)"
  by (induction cids arbitrary: sofar) (auto intro!: node_rules split: sum.splits)

lemma rel_content [node_rules]:
  "keeps (cafe_store ca w cs c)" "keeps (cafe_unstore ca w cs c)" "keeps (storeThread ca w th c)"
    "keeps (unstoreThread ca w i c)" "keeps (deliverMessage ca w i p cafe)"
  unfolding cafe_store_def cafe_unstore_def storeThread_def unstoreThread_def deliverMessage_def
  by (intro node_rules key_rules)+

lemma keeps_each_request [node_rules]: "(\<And>r. keeps (f r)) \<Longrightarrow> keeps (each_request f rs acc)"
  by (induction f rs acc rule: each_request.induct) (auto intro!: node_rules)

lemma keeps_store_thread_request [node_rules]:
  "keeps (store_thread_request ca w c r)" "keeps (unpin_request w i)" "keeps (fail_request i)"
  unfolding store_thread_request_def unpin_request_def fail_request_def
  by (intro node_rules key_rules)+

lemma keeps_handleRequests [node_rules]:
  "keeps (handleRequests ca w rs ty c)" "keeps (settle w br)"
  unfolding handleRequests_def settle_def
  by (intro node_rules key_rules)+

lemma keeps_each_type [node_rules]: "keeps (each_type ca w c ts acc)"
  by (induction ca w c ts acc rule: each_type.induct) (auto intro!: node_rules)

lemma keeps_each_cafe [node_rules]: "keeps (each_cafe ca w cs acc)"
  by (induction ca w cs acc rule: each_cafe.induct) (auto intro!: node_rules)

lemma keeps_batchRequests [node_rules]: "keeps (batchRequests fuel ca w rs)"
  by (induction fuel arbitrary: rs) (auto intro!: node_rules key_rules)

lemma keeps_CafeService_Flush [node_rules]: "keeps (CafeService_Flush ca w)"
  unfolding CafeService_Flush_def by (rule keepsI) (intro keepsD keeps_batchRequests)

lemma keeps_account [node_rules]:
  "keeps (publishPeer ca w)" "keeps (updatePeerInboxes w)" "keeps (SnapshotThreads w)"
    "keeps (request_block w c blk)"
  unfolding publishPeer_def updatePeerInboxes_def SnapshotThreads_def request_block_def
  by (intro node_rules key_rules)+

lemma keeps_cafe_content [node_rules]:
  "keeps (cafeRequestThreadsContent w c)"
  unfolding cafeRequestThreadsContent_def
  by (intro node_rules key_rules)+

lemma keeps_cafes [node_rules]:
  "keeps (RegisterCafe ca w c tk)" "keeps (DeregisterCafe ca w c)" "keeps (RefreshCafeSession ca w c)"
  unfolding RegisterCafe_def DeregisterCafe_def RefreshCafeSession_def
  by (intro node_rules key_rules)+

section \<open>The cafe host\<close>

lemma keeps_replies [node_rules]:
  "keeps (reply ca m ty p)" "keeps (refuse ca m c x)" "keeps (request sel m)"
  unfolding reply_def refuse_def request_def
  by (intro node_rules key_rules)+

lemma keeps_or_500 [node_rules]: "keeps op \<Longrightarrow> (\<And>x. keeps (k x)) \<Longrightarrow> keeps (or_500 ca m op txt k)"
  unfolding or_500_def by (intro node_rules)

lemma keeps_authorized [node_rules]: "keeps k \<Longrightarrow> keeps (authorized ca w m p tk b k)"
  unfolding authorized_def authToken_def by (intro node_rules)

lemma keeps_with_client [node_rules]: "(\<And>c. keeps (k c)) \<Longrightarrow> keeps (with_client ca m p k)"
  unfolding with_client_def by (intro node_rules)

lemma keeps_host_ipfs [node_rules]:
  "keeps (pinned_is b ca w cs)" "keeps (AddObject ca d)" "keeps (notifyClient ca p)"
  unfolding pinned_is_def AddObject_def notifyClient_def
  by (intro node_rules key_rules)+

lemma keeps_pins [node_rules]:
  "keeps (Pinned ca w cs)" "keeps (NotPinned ca w cs)" "keeps (pin_envelope ca w d)"
    "keeps (register_client ca w m p reg tok n)"
  unfolding Pinned_def NotPinned_def pin_envelope_def register_client_def
  by (intro node_rules key_rules)+

lemma keeps_cafe_handlers [node_rules]:
  "keeps (handleChallenge ca w m p)" "keeps (handleRegistration ca w m p)"
    "keeps (handleDeregistration ca m p)" "keeps (handleRefreshSession ca w m p)"
    "keeps (handleStore ca w m p)" "keeps (handleUnstore ca w m p)" "keeps (handleObject ca w m p)"
    "keeps (handleStoreThread ca w m p)" "keeps (handleUnstoreThread ca w m p)"
    "keeps (handleDeliverMessage ca w m p)" "keeps (handleCheckMessages ca w m p)"
    "keeps (handleDeleteMessages ca w m p)" "keeps (handlePublishPeer ca w m p)"
    "keeps (handlePubSubQueryResults m)"
  unfolding handleChallenge_def handleRegistration_def handleDeregistration_def handleRefreshSession_def
    handleStore_def handleUnstore_def handleObject_def handleStoreThread_def handleUnstoreThread_def
    handleDeliverMessage_def handleCheckMessages_def handleDeleteMessages_def handlePublishPeer_def
    handlePubSubQueryResults_def
  by (intro node_rules key_rules)+

lemma keeps_handlePubSubQuery [node_rules]: "keeps (handlePubSubQuery ca w m p)"
  unfolding handlePubSubQuery_def
  by (intro node_rules; auto split: ResponseType.splits intro!: node_rules)

lemma keeps_CafeService_Handle:
  assumes "keeps (ca_inboxFlush ca)"
  shows "keeps (CafeService_Handle fuel ca w m p)"
proof -
  have "keeps (handleNotifyClient fuel ca w m p)"
    unfolding handleNotifyClient_def by (intro node_rules keeps_CheckMessages assms)
  then show ?thesis unfolding CafeService_Handle_def by (cases "msg_Type m") (auto intro!: node_rules)
qed

lemma keeps_queries [node_rules]:
  "keeps (publishQuery ca req)"
  unfolding publishQuery_def
  by (intro node_rules key_rules)+

lemma keeps_searchPubSub [node_rules]:
  "keeps (searchPubSub ca w q opts resp es b st)"
  unfolding searchPubSub_def
  by (intro node_rules key_rules)+

lemma keeps_handleQuery [node_rules]:
  "keeps (handleQuery ca w es m p)" "keeps (CreateCafeToken w tk x b)" "keeps (RemoveCafeToken tk x)"
  unfolding handleQuery_def CreateCafeToken_def RemoveCafeToken_def
  by (intro node_rules key_rules)+

end

end
