(* ===== verification/Snapshots.thy ===== *)
theory Snapshots
  imports CafeBatch Search
begin

text \<open>
  The threads of an account as a whole: the lists and views of \<^verbatim>\<open>core/threads.go\<close> and \<^verbatim>\<open>core/contacts.go\<close>,
  the account thread, thread snapshots from a search and the synchronisation of an account
  (\<^verbatim>\<open>core/account.go\<close>), the start of a node as far as it concerns its threads (\<^verbatim>\<open>core/core.go\<close>), and
  external invites. What a function leaves to a goroutine is returned as a value and run by an
  operation of its own.
\<close>

section \<open>Lists and views\<close>

definition Textile_Threads :: "world \<Rightarrow> node_state \<Rightarrow> thread list" where
  "Textile_Threads w s = filter (\<lambda>t. t_Key t \<noteq> w_accountAddress w) (ns_loaded s)"

definition Textile_ThreadPeers :: "string \<Rightarrow> node_state \<Rightarrow> goerr + Peer list" where
  "Textile_ThreadPeers tid s =
     (case loaded_thread tid s of None \<Rightarrow> Inl ErrThreadNotFound
      | Some t \<Rightarrow> Inr (List.map_filter (\<lambda>tp. peers_Get (tp_Id tp) (ns_peers s))
                         (thread_peers_ListByThread (t_Id t) (ns_thread_peers s))))"

definition ThreadByKey :: "string \<Rightarrow> node_state \<Rightarrow> thread option" where
  "ThreadByKey key s = find (\<lambda>t. t_Key t = key) (ns_loaded s)"

text \<open>The view of a thread: its row with the schema, the blocks of its heads and two counts.\<close>

record ThreadView =
  tv_Thread :: Thread
  tv_SchemaNode :: "Node option"
  tv_HeadBlocks :: "(Block \<times> User) list"
  tv_BlockCount :: int
  tv_PeerCount :: int

text \<open>The block of a head; a head that cannot be read is logged, and one without a block is left out.\<close>

fun head_blocks :: "world \<Rightarrow> string list \<Rightarrow> (Block \<times> User) list node_op" where
  "head_blocks w [] = go_return []"
| "head_blocks w (head # heads) =
     go_bind (go_try (blockCIDFromNode w head)) (\<lambda>r.
     go_bind (go_get (\<lambda>s. case r of Inl _ \<Rightarrow> []
        | Inr hid \<Rightarrow> (case blocks_Get hid (ns_blocks s) of None \<Rightarrow> []
            | Some block \<Rightarrow> [(block, PeerUser (blk_Author block) s)]))) (\<lambda>found.
     go_bind (head_blocks w heads) (\<lambda>rest. go_return (found @ rest))))"

definition Textile_ThreadView :: "world \<Rightarrow> string \<Rightarrow> ThreadView node_op" where
  "Textile_ThreadView w tid =
     go_bind (go_get (loaded_thread tid)) (\<lambda>thread.
     case thread of None \<Rightarrow> go_fail ErrThreadNotFound
     | Some t \<Rightarrow>
         go_bind (go_get (\<lambda>s. threads_Get (t_Id t) (ns_threads s))) (\<lambda>model.
         case model of None \<Rightarrow> go_fail ErrThreadReload
         | Some m \<Rightarrow>
             go_bind (head_blocks w (SplitString (thr_Head m) CHR '','')) (\<lambda>blocks.
             go_get (\<lambda>s. \<lparr>tv_Thread = m, tv_SchemaNode = t_Schema t, tv_HeadBlocks = blocks,
               tv_BlockCount = int32 (blocks_Count (\<lambda>r. blocks_threadId r = t_Id t) (ns_blocks s)),
               tv_PeerCount = int32 (int (length (thread_peers_ListByThread (t_Id t) (ns_thread_peers s))) + 1)\<rparr>))))"

text \<open>The threads of a contact; one that cannot be viewed ends the list with its error.\<close>

fun view_threads :: "world \<Rightarrow> string list \<Rightarrow> string list \<Rightarrow> ThreadView list node_op" where
  "view_threads w seen [] = go_return []"
| "view_threads w seen (tid # tids) =
     (if tid \<in> set seen then view_threads w seen tids
      else go_bind (Textile_ThreadView w tid) (\<lambda>view.
           go_bind (view_threads w (tid # seen) tids) (\<lambda>rest. go_return (view # rest))))"

definition ContactThreads :: "world \<Rightarrow> string \<Rightarrow> ThreadView list node_op" where
  "ContactThreads w address =
     go_bind (go_get (\<lambda>s. concat (map (\<lambda>p. map tp_Thread (thread_peers_ListById (peer_Id p) (ns_thread_peers s)))
        (peers_List (\<lambda>r. peers_address r = address) (ns_peers s))))) (view_threads w [])"

definition AccountContact :: "world \<Rightarrow> node_state \<Rightarrow> Contact option" where
  "AccountContact w s = contact (w_accountAddress w) False s"

section \<open>The cafe outbox\<close>

text \<open>A node without a handler flushes nothing; an error of the clean up is logged.\<close>

definition CafeOutbox_Flush :: "unit node_op option \<Rightarrow> unit node_op \<Rightarrow> bool \<Rightarrow> unit node_op" where
  "CafeOutbox_Flush handler flushBlocks skipBlocks =
     (case handler of None \<Rightarrow> go_return ()
      | Some flush \<Rightarrow>
          go_seq flush
         (go_seq (go_when (\<not> skipBlocks) flushBlocks)
                 (go_catch (on_cafe_requests DeleteCompleteSyncGroups) (\<lambda>_. go_return ()))))"

section \<open>Loading threads\<close>

text \<open>The loop of \<^verbatim>\<open>Start\<close>: a thread that is loaded already is passed over.\<close>

definition load_threads :: "thread_env \<Rightarrow> unit node_op" where
  "load_threads te =
     go_bind (go_get (\<lambda>s. threads_List (ns_threads s)))
       (go_foreach (\<lambda>model. go_catch (go_bind (loadThread te model) (\<lambda>_. go_return ()))
          (\<lambda>err. if err = ErrThreadLoaded then go_return () else go_fail err)))"

text \<open>A thread that has a schema hash and no schema asks for it again.\<close>

definition thread_loadSchema :: "thread_env \<Rightarrow> thread \<Rightarrow> goerr + thread" where
  "thread_loadSchema te t =
     (if t_schemaId t = [] \<or> t_Schema t \<noteq> None then Inr t
      else case te_loadSchema te (t_schemaId t) of
        Inl err \<Rightarrow> Inl err | Inr schema \<Rightarrow> Inr (t\<lparr>t_Schema := schema\<rparr>))"

definition loadThreadSchemas :: "thread_env \<Rightarrow> unit node_op" where
  "loadThreadSchemas te =
     go_modify (\<lambda>s. s\<lparr>ns_loaded := map (\<lambda>t. case thread_loadSchema te t of Inl _ \<Rightarrow> t | Inr t' \<Rightarrow> t')
                                      (ns_loaded s)\<rparr>)"

text \<open>The field \<open>schemaId\<close> of the thread in memory stays as it is.\<close>

definition replace_thread :: "thread \<Rightarrow> unit node_op" where
  "replace_thread t =
     go_modify (\<lambda>s. s\<lparr>ns_loaded := map (\<lambda>x. if t_Id x = t_Id t then t else x) (ns_loaded s)\<rparr>)"

definition UpdateSchema :: "thread_env \<Rightarrow> thread \<Rightarrow> string \<Rightarrow> unit node_op" where
  "UpdateSchema te t hash =
     go_seq (on_threads (threads_UpdateSchema (t_Id t) hash))
    (go_seq (replace_thread (t\<lparr>t_Schema := None\<rparr>))
    (go_bind (go_lift (thread_loadSchema te (t\<lparr>t_Schema := None\<rparr>))) replace_thread))"

section \<open>The account thread\<close>

text \<open>
  \<open>ac_addSchema\<close> is \<open>AddSchema\<close> with the avatar schema of the repository, \<open>ac_id\<close> and \<open>ac_privKey\<close> are
  the peer id and the private key of the account.
\<close>

record account_env =
  ac_id :: "goerr + string"
  ac_privKey :: "goerr + bytes"
  ac_addSchema :: "FileIndex option node_op"

definition avatar_schema :: "account_env \<Rightarrow> string node_op" where
  "avatar_schema ac =
     go_bind (ac_addSchema ac) (\<lambda>sf.
     case sf of None \<Rightarrow> go_fail (Panic ''nil file index'') | Some f \<Rightarrow> go_return (file_Hash f))"

definition create_account_thread :: "nat \<Rightarrow> world \<Rightarrow> thread_env \<Rightarrow> account_env \<Rightarrow> unit node_op" where
  "create_account_thread fuel w te ac =
     go_bind (avatar_schema ac) (\<lambda>hash.
     go_bind (go_lift (ac_privKey ac)) (\<lambda>sk.
     go_bind (AddThread fuel w te
        \<lparr>cf_Key = w_accountAddress w, cf_Name = ''account'',
         cf_Schema = Some \<lparr>sc_Id = hash, sc_Json = [], sc_Preset = []\<rparr>,
         cf_Type = Thread_PRIVATE, cf_Sharing = Thread_NOT_SHARED, cf_Whitelist = [], cf_Force = False\<rparr>
        sk (w_accountAddress w) True False) (\<lambda>thread.
     go_bind (go_get (\<lambda>s. peers_List (\<lambda>r. peers_address r \<noteq> w_accountAddress w) (ns_peers s)))
       (go_foreach (\<lambda>p. go_bind (annouce w thread (Some \<lparr>ann_Peer = Some p, ann_Name = []\<rparr>))
                           (\<lambda>_. go_return ()))))))"

definition addAccountThread :: "nat \<Rightarrow> world \<Rightarrow> thread_env \<Rightarrow> account_env \<Rightarrow> unit node_op" where
  "addAccountThread fuel w te ac =
     go_bind (go_get (AccountThread w)) (\<lambda>x.
     case x of None \<Rightarrow> create_account_thread fuel w te ac
     | Some t \<Rightarrow>
         go_bind (go_lift (ac_id ac)) (\<lambda>aid.
         if t_Id t = aid
         then (if t_Schema t = None
               then go_bind (avatar_schema ac) (UpdateSchema te t)
               else go_return ())
         else go_bind (RemoveThread w (t_Id t)) (\<lambda>_. create_account_thread fuel w te ac)))"

text \<open>\<^verbatim>\<open>Start\<close> and \<^verbatim>\<open>Stop\<close> as far as they concern the threads.\<close>

definition Start :: "nat \<Rightarrow> world \<Rightarrow> thread_env \<Rightarrow> account_env \<Rightarrow> unit node_op" where
  "Start fuel w te ac = go_seq (load_threads te) (addAccountThread fuel w te ac)"

definition Stop :: "unit node_op" where
  "Stop = go_modify (\<lambda>s. s\<lparr>ns_loaded := []\<rparr>)"

section \<open>Snapshots\<close>

definition snapshot_config :: "Thread \<Rightarrow> AddThreadConfig" where
  "snapshot_config snap =
     \<lparr>cf_Key = thr_Key snap, cf_Name = thr_Name snap,
      cf_Schema = Some \<lparr>sc_Id = thr_Schema snap, sc_Json = [], sc_Preset = []\<rparr>,
      cf_Type = thr_Type snap, cf_Sharing = thr_Sharing snap, cf_Whitelist = thr_Whitelist snap,
      cf_Force = True\<rparr>"

definition joined_query :: "world \<Rightarrow> string \<Rightarrow> blocks_row \<Rightarrow> bool" where
  "joined_query w tid r \<longleftrightarrow>
     blocks_threadId r = tid \<and> blocks_type r = BlockType_to_int Block_JOIN \<and> blocks_authorId r = w_self w"

text \<open>
  The result is what is left to the background: \<open>None\<close> to flush the cafe outbox, or the thread and
  the heads of the snapshot, whose tail is to be followed.
\<close>

definition AddOrUpdateThread ::
  "nat \<Rightarrow> world \<Rightarrow> thread_env \<Rightarrow> Thread \<Rightarrow> (thread \<times> string list) option node_op" where
  "AddOrUpdateThread fuel w te snap =
     (if \<not> shareable (dummy_thread snap) (w_configAddress w) (w_configAddress w) then go_fail ErrNotShareable
      else go_bind (go_lift (te_threadId te (thr_Sk snap))) (\<lambda>tid.
        let heads = SplitString (thr_Head snap) CHR '',''
        in go_bind (go_get (loaded_thread tid)) (\<lambda>loaded.
           go_bind
             (case loaded of Some t \<Rightarrow> go_return t
              | None \<Rightarrow>
                  go_bind (AddThread fuel w te (snapshot_config snap) (thr_Sk snap) (thr_Initiator snap) False False) (\<lambda>t.
                  go_seq (updateHead w t heads False) (go_return t))) (\<lambda>nthread.
           go_bind (go_get (\<lambda>s. blocks_Count (joined_query w (t_Id nthread)) (ns_blocks s))) (\<lambda>n.
           go_seq (go_when (n = 0) (go_bind (thread_join w nthread (w_self w)) (\<lambda>_. go_return ())))
          (go_bind (Heads nthread) (\<lambda>xheads.
           go_return (if EqualStringSlices xheads heads then None else Some (nthread, heads))))))))) "

definition snapshot_background ::
  "nat \<Rightarrow> world \<Rightarrow> unit node_op \<Rightarrow> (thread \<times> string list) option \<Rightarrow> unit node_op" where
  "snapshot_background fuel w flush rest =
     (case rest of None \<Rightarrow> flush
      | Some (t, heads) \<Rightarrow>
          go_catch (go_seq (handle_tail fuel w t heads heads) flush) (\<lambda>_. go_return ()))"

text \<open>The operation with its goroutine, run to its end.\<close>

definition AddOrUpdateThread_whole ::
  "nat \<Rightarrow> world \<Rightarrow> thread_env \<Rightarrow> unit node_op \<Rightarrow> Thread \<Rightarrow> unit node_op" where
  "AddOrUpdateThread_whole fuel w te flush snap =
     go_bind (AddOrUpdateThread fuel w te snap) (snapshot_background fuel w flush)"

text \<open>A snapshot travels as the bytes of a thread; \<open>unmarshal\<close> reads them.\<close>

definition applySnapshot ::
  "nat \<Rightarrow> world \<Rightarrow> thread_env \<Rightarrow> (bytes \<Rightarrow> goerr + Thread) \<Rightarrow> QueryResult
   \<Rightarrow> (thread \<times> string list) option node_op" where
  "applySnapshot fuel w te unmarshal result =
     (case qr_Value result of
        AnyThread b \<Rightarrow> go_bind (go_lift (unmarshal b)) (AddOrUpdateThread fuel w te)
      | _ \<Rightarrow> go_fail any_error)"

definition snapshot_query :: "QueryOptions \<Rightarrow> string \<Rightarrow> Query" where
  "snapshot_query options address =
     \<lparr>q_Id = [], q_Token = [], q_Type = Query_THREAD_SNAPSHOTS,
      q_Options = Some (options\<lparr>qo_RemoteOnly := True, qo_Limit := - 1, qo_Filter := NO_FILTER\<rparr>),
      q_Payload = Some (AnyThreadSnapshotQuery address)\<rparr>"

text \<open>
  The loop of \<^verbatim>\<open>SearchThreadSnapshots\<close> over what arrives on the channels of the search: results that can be
  read and decrypted are passed on once for every id and head, errors are passed on.
\<close>

definition open_snapshot ::
  "(bytes \<Rightarrow> goerr + bytes) \<Rightarrow> (bytes \<Rightarrow> goerr + Thread) \<Rightarrow> QueryResult \<Rightarrow> goerr + (string \<times> bytes)" where
  "open_snapshot decrypt unmarshal res =
     (case qr_Value res of
        AnyCafeClientThread backup \<Rightarrow>
          (case decrypt (ct_Ciphertext backup) of Inl err \<Rightarrow> Inl err
           | Inr plaintext \<Rightarrow>
               (case unmarshal plaintext of Inl err \<Rightarrow> Inl err
                | Inr thread \<Rightarrow> Inr (qr_Id res @ '':'' @ thr_Head thread, plaintext)))
      | _ \<Rightarrow> Inl any_error)"

fun snapshot_results ::
  "(bytes \<Rightarrow> goerr + bytes) \<Rightarrow> (bytes \<Rightarrow> goerr + Thread) \<Rightarrow> string list \<Rightarrow> (goerr + QueryResult) list
   \<Rightarrow> (goerr + QueryResult) list" where
  "snapshot_results decrypt unmarshal backups [] = []"
| "snapshot_results decrypt unmarshal backups (Inl err # events) =
     Inl err # snapshot_results decrypt unmarshal backups events"
| "snapshot_results decrypt unmarshal backups (Inr res # events) =
     (case open_snapshot decrypt unmarshal res of
        Inl err \<Rightarrow> Inl err # snapshot_results decrypt unmarshal backups events
      | Inr (rid, plaintext) \<Rightarrow>
          if rid \<in> set backups then snapshot_results decrypt unmarshal backups events
          else Inr (res\<lparr>qr_Id := rid, qr_Value := AnyThread plaintext\<rparr>)
               # snapshot_results decrypt unmarshal (rid # backups) events)"

text \<open>
  The search itself may publish a query, ask the cafes and register the query as in flight: it is an operation
  of the node, \<open>Textile_search\<close> with its parameters. \<open>stream\<close> is the order in which its results and errors arrive.
\<close>

definition SearchThreadSnapshots ::
  "world \<Rightarrow> (bytes \<Rightarrow> goerr + bytes) \<Rightarrow> (bytes \<Rightarrow> goerr + Thread) \<Rightarrow> (Query \<Rightarrow> (QueryResult list \<times> goerr list) node_op)
   \<Rightarrow> (QueryResult list \<times> goerr list \<Rightarrow> (goerr + QueryResult) list) \<Rightarrow> QueryOptions \<Rightarrow> (goerr + QueryResult) list node_op" where
  "SearchThreadSnapshots w decrypt unmarshal search stream options =
     go_bind (search (snapshot_query options (w_accountAddress w))) (\<lambda>found.
     go_return (snapshot_results decrypt unmarshal [] (stream found)))"

text \<open>\<^verbatim>\<open>SyncAccount\<close>: every snapshot is applied in turn with its background part; errors are logged.\<close>

definition sync_event ::
  "nat \<Rightarrow> world \<Rightarrow> thread_env \<Rightarrow> (bytes \<Rightarrow> goerr + Thread) \<Rightarrow> unit node_op \<Rightarrow> goerr + QueryResult \<Rightarrow> unit node_op" where
  "sync_event fuel w te unmarshal flush ev =
     (case ev of Inl _ \<Rightarrow> go_return ()
      | Inr res \<Rightarrow> go_catch
          (go_bind (applySnapshot fuel w te unmarshal res) (snapshot_background fuel w flush)) (\<lambda>_. go_return ()))"

definition SyncAccount ::
  "nat \<Rightarrow> world \<Rightarrow> thread_env \<Rightarrow> (bytes \<Rightarrow> goerr + bytes) \<Rightarrow> (bytes \<Rightarrow> goerr + Thread) \<Rightarrow> unit node_op
   \<Rightarrow> (Query \<Rightarrow> (QueryResult list \<times> goerr list) node_op) \<Rightarrow> (QueryResult list \<times> goerr list \<Rightarrow> (goerr + QueryResult) list)
   \<Rightarrow> QueryOptions \<Rightarrow> unit node_op" where
  "SyncAccount fuel w te decrypt unmarshal flush search stream options =
     go_bind (SearchThreadSnapshots w decrypt unmarshal search stream options) (\<lambda>found.
     go_foreach (sync_event fuel w te unmarshal flush) found)"

text \<open>
  The synchronisation runs when the last one, at the time \<open>daily\<close> of the configuration, is more than
  an hour ago. \<open>parse\<close> and \<open>print\<close> are the time format of the configuration; without an entry the time is
  the zero time of Go.
\<close>

definition kSyncAccountFreq :: int where
  "kSyncAccountFreq = 3600"

definition zero_time :: timestamp where
  "zero_time = \<lparr>Seconds = - 62135596800, Nanos = 0\<rparr>"

definition time_Before :: "timestamp \<Rightarrow> timestamp \<Rightarrow> bool" where
  "time_Before a b \<longleftrightarrow> Seconds a < Seconds b \<or> Seconds a = Seconds b \<and> Nanos a < Nanos b"

definition last_daily :: "(string \<Rightarrow> goerr + timestamp) \<Rightarrow> node_state \<Rightarrow> goerr + timestamp" where
  "last_daily parse s =
     (case config_GetLastDaily (ns_config s) of None \<Rightarrow> Inr zero_time | Some v \<Rightarrow> parse v)"

definition maybeSyncAccount ::
  "world \<Rightarrow> (string \<Rightarrow> goerr + timestamp) \<Rightarrow> (timestamp \<Rightarrow> string) \<Rightarrow> unit node_op \<Rightarrow> unit node_op" where
  "maybeSyncAccount w parse print sync =
     go_bind (go_get (last_daily parse)) (\<lambda>r.
     case r of Inl _ \<Rightarrow> go_return ()
     | Inr daily \<Rightarrow>
         go_bind (TimestampNow w) (\<lambda>now.
         if time_Before (daily\<lparr>Seconds := Seconds daily + kSyncAccountFreq\<rparr>) now
         then go_catch
           (go_seq sync (go_bind (TimestampNow w) (\<lambda>today. on_config (config_SetLastDaily (print today)))))
           (\<lambda>_. go_return ())
         else go_return ()))"

section \<open>External invites\<close>

text \<open>
  An invite that anybody can read who has its key: \<open>newKey\<close> draws the AES key. The node of the invite is
  built on the heads of the thread but does not become one.
\<close>

definition AddExternalInvite ::
  "world \<Rightarrow> (nat \<Rightarrow> goerr + bytes) \<Rightarrow> (bytes \<Rightarrow> bytes \<Rightarrow> goerr + bytes) \<Rightarrow> thread \<Rightarrow> (string \<times> bytes) node_op" where
  "AddExternalInvite w newKey aes t =
     go_bind (go_get (\<lambda>s. \<lparr>add_Inviter = peers_Get (w_self w) (ns_peers s),
                           add_Thread = threads_Get (t_Id t) (ns_threads s), add_Invitee = []\<rparr>)) (\<lambda>msg.
     go_bind (go_bind (draw newKey) go_lift) (\<lambda>key.
     go_bind (commitBlock w (Some (AnyAdd msg)) Block_ADD True (\<lambda>plaintext. aes plaintext key)) (\<lambda>res.
     go_bind (commitNode w t
        \<lparr>blk_Id = cr_hash res, blk_Thread = [], blk_Author = [], blk_Type = Block_MERGE, blk_Date = None,
         blk_Parents = [], blk_Target = [], blk_Data = [], blk_Body = [], blk_Status = Block_READY,
         blk_Attempts = 0\<rparr> [] False) (\<lambda>nhash.
     go_bind (TimestampNow w) (\<lambda>now.
     go_seq (on_blocks (blocks_Add now (outBlock t res Block_ADD [] [] [])))
            (go_return (nhash, key)))))))"

record ExternalInvite =
  ei_Id :: string
  ei_Key :: string
  ei_Inviter :: string

definition Textile_AddExternalInvite ::
  "world \<Rightarrow> base58_enc \<Rightarrow> (nat \<Rightarrow> goerr + bytes) \<Rightarrow> (bytes \<Rightarrow> bytes \<Rightarrow> goerr + bytes) \<Rightarrow> string
   \<Rightarrow> ExternalInvite node_op" where
  "Textile_AddExternalInvite w enc58 newKey aes tid =
     go_bind (go_get (loaded_thread tid)) (\<lambda>thread.
     case thread of None \<Rightarrow> go_fail ErrThreadNotFound
     | Some t \<Rightarrow>
         go_bind (AddExternalInvite w newKey aes t) (\<lambda>(hash, key).
         go_return \<lparr>ei_Id = hash, ei_Key = enc58 key, ei_Inviter = w_accountAddress w\<rparr>))"

end
