(* ===== verification/Files.thy ===== *)
theory Files
  imports ThreadFiles Crypto "HOL-Library.List_Lexorder" "HOL-Library.Char_ord"
begin

text \<open>
  The files of a node, \<^verbatim>\<open>core/files.go\<close>: a mill turns the input into the content of a file, the content is
  added to IPFS, encrypted under a key of its own unless it must stay plain, and an index row
  records its mill, source, options, checksum, hash and key. Directories of pairs (an index and its
  content) make the data nodes of a thread, whose keys are collected by their links. The mills of
  \<^verbatim>\<open>mill/blob.go\<close>, \<^verbatim>\<open>mill/json.go\<close> and \<^verbatim>\<open>mill/schema.go\<close> are here too.
\<close>

section \<open>Mills\<close>

record mill_result =
  mr_File :: bytes
  mr_Meta :: "string option"

text \<open>
  \<open>mill.Mill\<close>. The options are asked for with the value of \<open>plaintext\<close>; the meta data of a result is
  the JSON text of its struct, \<open>None\<close> when there is none.
\<close>

record mill =
  ml_ID :: string
  ml_Encrypt :: bool
  ml_Pin :: bool
  ml_AcceptMedia :: "string \<Rightarrow> goerr + unit"
  ml_Options :: "bool \<Rightarrow> goerr + string"
  ml_Mill :: "bytes \<Rightarrow> string \<Rightarrow> goerr + mill_result"

text \<open>
  What files use of the libraries: AES, the keys that are drawn, SHA-256, base58, the JSON of an index
  and the normal form of a JSON text.
\<close>

record files_env =
  fe_aes :: aes_env
  fe_newKey :: "nat \<Rightarrow> goerr + bytes"
  fe_sha256 :: "bytes \<Rightarrow> bytes"
  fe_enc58 :: base58_enc
  fe_dec58 :: base58_dec
  fe_printIndex :: "FileIndex \<Rightarrow> goerr + bytes"
  fe_normalJson :: "bytes \<Rightarrow> goerr + bytes"

definition ascii :: "string \<Rightarrow> bytes" where
  "ascii s = map (\<lambda>c. word_of_nat (of_char c)) s"

definition accepts :: "string list \<Rightarrow> string \<Rightarrow> goerr + unit" where
  "accepts xs media =
     (if list_ex (\<lambda>m. media = m) xs then Inr () else Inl (ErrMsg ''media type not supported''))"

text \<open>A Go map as a list without duplicate keys; its JSON text has the keys in order.\<close>

definition map_set :: "'k \<Rightarrow> 'v \<Rightarrow> ('k \<times> 'v) list \<Rightarrow> ('k \<times> 'v) list" where
  "map_set k v m = filter (\<lambda>e. fst e \<noteq> k) m @ [(k, v)]"

definition json_object :: "(string \<times> string) list \<Rightarrow> string" where
  "json_object m =
     ''{'' @ Join '','' (map (\<lambda>(k, v). [CHR 0x22] @ k @ [CHR 0x22] @ '':'' @ v) (sort_key fst m)) @ ''}''"

definition hashOpts :: "files_env \<Rightarrow> (string \<times> string) list \<Rightarrow> (string \<times> string) list \<Rightarrow> string" where
  "hashOpts fe opts add =
     (let final = fold (\<lambda>(k, v). map_set k v) add opts
      in fe_enc58 fe (fe_sha256 fe (ascii (json_object final))))"

definition plaintext_opts :: "files_env \<Rightarrow> bool \<Rightarrow> goerr + string" where
  "plaintext_opts fe plain =
     Inr (hashOpts fe [] [(''plaintext'', if plain then ''true'' else ''false'')])"

definition Blob_mill :: "files_env \<Rightarrow> mill" where
  "Blob_mill fe =
     \<lparr>ml_ID = ''/blob'', ml_Encrypt = True, ml_Pin = False, ml_AcceptMedia = (\<lambda>_. Inr ()),
      ml_Options = plaintext_opts fe,
      ml_Mill = (\<lambda>input _. Inr \<lparr>mr_File = input, mr_Meta = None\<rparr>)\<rparr>"

definition Json_mill :: "files_env \<Rightarrow> mill" where
  "Json_mill fe =
     \<lparr>ml_ID = ''/json'', ml_Encrypt = True, ml_Pin = False,
      ml_AcceptMedia = accepts [''application/json''], ml_Options = plaintext_opts fe,
      ml_Mill = (\<lambda>input _.
        case fe_normalJson fe input of Inl err \<Rightarrow> Inl err
        | Inr j \<Rightarrow> Inr \<lparr>mr_File = j, mr_Meta = None\<rparr>)\<rparr>"

text \<open>\<open>schema_mill\<close> is \<open>Schema_Mill\<close> with its library functions.\<close>

definition Schema_mill :: "files_env \<Rightarrow> (bytes \<Rightarrow> goerr + bytes) \<Rightarrow> mill" where
  "Schema_mill fe schema_mill =
     \<lparr>ml_ID = ''/schema'', ml_Encrypt = False, ml_Pin = True,
      ml_AcceptMedia = accepts [''application/json''], ml_Options = plaintext_opts fe,
      ml_Mill = (\<lambda>input _.
        case schema_mill input of Inl err \<Rightarrow> Inl err
        | Inr out \<Rightarrow> Inr \<lparr>mr_File = out, mr_Meta = None\<rparr>)\<rparr>"

section \<open>Adding a file\<close>

definition ErrFileNotFound :: goerr where
  "ErrFileNotFound = ErrMsg ''file not found''"

definition ErrMissingContentLink :: goerr where
  "ErrMissingContentLink = ErrMsg ''content link not in node''"

record AddFileConfig =
  af_Input :: bytes
  af_Use :: string
  af_Media :: string
  af_Name :: string
  af_Plaintext :: bool

text \<open>The checksum covers whether the content stays plain.\<close>

definition file_checksum :: "files_env \<Rightarrow> bytes \<Rightarrow> bool \<Rightarrow> string" where
  "file_checksum fe plain wontEncrypt =
     fe_enc58 fe (fe_sha256 fe (plain @ [if wontEncrypt then 1 else 0]))"

text \<open>The content that goes to IPFS and the key it is under, the empty key for plain content.\<close>

definition seal_content :: "files_env \<Rightarrow> mill \<Rightarrow> bool \<Rightarrow> bytes \<Rightarrow> (bytes \<times> string) node_op" where
  "seal_content fe ml plain file =
     (if ml_Encrypt ml \<and> \<not> plain
      then go_bind (go_bind (draw (fe_newKey fe)) go_lift) (\<lambda>key.
           go_bind (go_lift (EncryptAES (fe_aes fe) file key)) (\<lambda>ciph.
           go_return (ciph, fe_enc58 fe key)))
      else go_return (file, []))"

definition add_content :: "world \<Rightarrow> bytes \<Rightarrow> bool \<Rightarrow> string node_op" where
  "add_content w data pin =
     go_bind (AddData w data False) (\<lambda>hash.
     go_seq (go_when pin (PinNode w hash False)) (go_return hash))"

text \<open>A conflict of the insertion is taken for a lost race; the row is read back by its hash alone.\<close>

definition add_index :: "world \<Rightarrow> FileIndex \<Rightarrow> FileIndex option node_op" where
  "add_index w model =
     go_bind (TimestampNow w) (\<lambda>now.
     go_bind (go_try (on_files (files_Add now model))) (\<lambda>r.
     case r of
       Inl err \<Rightarrow>
         if ConflictError err then go_get (\<lambda>s. files_Get (file_Hash model) (ns_files s)) else go_fail err
     | Inr _ \<Rightarrow> go_get (\<lambda>s. files_Get (file_Hash model) (ns_files s))))"

definition new_index ::
  "files_env \<Rightarrow> world \<Rightarrow> mill \<Rightarrow> AddFileConfig \<Rightarrow> string \<Rightarrow> string \<Rightarrow> string \<Rightarrow> mill_result
   \<Rightarrow> FileIndex option node_op" where
  "new_index fe w ml conf source opts check res =
     go_bind (TimestampNow w) (\<lambda>now.
     go_bind (seal_content fe ml (af_Plaintext conf) (mr_File res)) (\<lambda>(content, key).
     go_bind (add_content w content (ml_Pin ml)) (\<lambda>hash.
     add_index w
       \<lparr>file_Mill = ml_ID ml, file_Checksum = check, file_Source = source, file_Opts = opts,
        file_Hash = hash, file_Key = key, file_Media = af_Media conf, file_Name = af_Name conf,
        file_Size = int (length (mr_File res)), file_Added = Some now, file_Meta = mr_Meta res,
        file_Targets = []\<rparr>)))"

definition AddFileIndex ::
  "files_env \<Rightarrow> world \<Rightarrow> mill \<Rightarrow> AddFileConfig \<Rightarrow> FileIndex option node_op" where
  "AddFileIndex fe w ml conf =
     (let source = (if af_Use conf \<noteq> [] then af_Use conf
                    else file_checksum fe (af_Input conf) (af_Plaintext conf))
      in go_bind (go_lift (ml_Options ml (af_Plaintext conf))) (\<lambda>opts.
         go_bind (go_get (\<lambda>s. files_GetBySource (ml_ID ml) source opts (ns_files s))) (\<lambda>efile.
         if efile \<noteq> None then go_return efile
         else
           go_bind (go_lift (ml_Mill ml (af_Input conf) (af_Name conf))) (\<lambda>res.
           let check = file_checksum fe (mr_File res) (af_Plaintext conf)
           in go_bind (go_get (\<lambda>s. files_GetByPrimary (ml_ID ml) check (ns_files s))) (\<lambda>efile.
              if efile \<noteq> None then go_return efile
              else new_index fe w ml conf source opts check res)))))"

text \<open>\<open>parse\<close> reads and prints the schema again, as \<open>jsonpb\<close> does.\<close>

definition Textile_AddSchema ::
  "files_env \<Rightarrow> world \<Rightarrow> (bytes \<Rightarrow> goerr + bytes) \<Rightarrow> (string \<Rightarrow> goerr + bytes) \<Rightarrow> string \<Rightarrow> string
   \<Rightarrow> FileIndex option node_op" where
  "Textile_AddSchema fe w schema_mill reprint jsonstr name =
     go_bind (go_lift (reprint jsonstr)) (\<lambda>data.
     AddFileIndex fe w (Schema_mill fe schema_mill)
       \<lparr>af_Input = data, af_Use = [], af_Media = ''application/json'', af_Name = name,
        af_Plaintext = False\<rparr>)"

text \<open>The media type of the first 512 bytes, which \<open>detect\<close> finds, and whether the mill takes it.\<close>

definition GetMedia :: "(bytes \<Rightarrow> string) \<Rightarrow> bytes \<Rightarrow> string" where
  "GetMedia detect input = detect (take 512 input)"

definition GetMillMedia :: "(bytes \<Rightarrow> string) \<Rightarrow> bytes \<Rightarrow> mill \<Rightarrow> string \<times> (goerr + unit)" where
  "GetMillMedia detect input ml = (let media = GetMedia detect input in (media, ml_AcceptMedia ml media))"

section \<open>Reading a file\<close>

definition FileMeta :: "string \<Rightarrow> node_state \<Rightarrow> goerr + FileIndex" where
  "FileMeta hash s =
     (case files_Get hash (ns_files s) of
        None \<Rightarrow> Inl (ErrMsg ''failed to get the file meta content: file not found'')
      | Some file \<Rightarrow> Inr file)"

definition FileIndexContent :: "files_env \<Rightarrow> world \<Rightarrow> FileIndex \<Rightarrow> goerr + bytes" where
  "FileIndexContent fe w file =
     (case w_dataAt w (file_Hash file) of
        Inl err \<Rightarrow> Inl (if is_panic err then err else ErrMsg ''failed to get file index content'')
      | Inr fd \<Rightarrow>
          if file_Key file \<noteq> []
          then (case fe_dec58 fe (file_Key file) of Inl err \<Rightarrow> Inl err
                | Inr key \<Rightarrow> DecryptAES (fe_aes fe) fd key)
          else Inr fd)"

definition FileContent :: "files_env \<Rightarrow> world \<Rightarrow> string \<Rightarrow> node_state \<Rightarrow> goerr + (bytes \<times> FileIndex)" where
  "FileContent fe w hash s =
     (case FileMeta hash s of Inl err \<Rightarrow> Inl err
      | Inr file \<Rightarrow>
          (case FileIndexContent fe w file of Inl err \<Rightarrow> Inl err | Inr c \<Rightarrow> Inr (c, file)))"

section \<open>Data nodes\<close>

text \<open>\<open>ipfs.ResolveLinkByNames\<close>: the first of the names that has a link.\<close>

fun ResolveLinkByNames :: "(string \<times> string) list \<Rightarrow> string list \<Rightarrow> (string \<times> string) option" where
  "ResolveLinkByNames links [] = None"
| "ResolveLinkByNames links (n # ns) =
     (case List.find (\<lambda>l. fst l = n) links of
        Some l \<Rightarrow> Some l
      | None \<Rightarrow> ResolveLinkByNames links ns)"

definition fileIndexForPair :: "dag_node \<Rightarrow> node_state \<Rightarrow> FileIndex option" where
  "fileIndexForPair pair s =
     (case ResolveLinkByNames (dag_Links pair) ValidContentLinkNames of
        None \<Rightarrow> None
      | Some c \<Rightarrow> files_Get (snd c) (ns_files s))"

text \<open>
  A directory that is being built is its list of links; a child with a taken name replaces the old
  one. \<open>ipfs.AddLinkToDirectory\<close> and \<open>ipfs.AddDataToDirectory\<close>.
\<close>

definition AddLinkToDirectory ::
  "world \<Rightarrow> (string \<times> string) list \<Rightarrow> string \<Rightarrow> string \<Rightarrow> (string \<times> string) list node_op" where
  "AddLinkToDirectory w dir fname pth =
     go_bind (go_lift (w_parseCid w pth)) (\<lambda>cid.
     go_bind (go_lift (w_nodeAt w cid)) (\<lambda>_.
     go_return (map_set fname cid dir)))"

definition AddDataToDirectory ::
  "world \<Rightarrow> (string \<times> string) list \<Rightarrow> string \<Rightarrow> bytes \<Rightarrow> (string \<times> string) list node_op" where
  "AddDataToDirectory w dir fname data =
     go_bind (AddData w data False) (\<lambda>cid.
     go_bind (go_lift (w_nodeAt w cid)) (\<lambda>_.
     go_return (map_set fname cid dir)))"

text \<open>The node of a directory, pinned.\<close>

definition pinned_directory :: "world \<Rightarrow> (string \<times> string) list \<Rightarrow> string node_op" where
  "pinned_directory w dir =
     go_bind (go_lift (w_directory w dir)) (\<lambda>node. go_seq (PinNode w node False) (go_return node))"

definition sealed_index :: "files_env \<Rightarrow> FileIndex \<Rightarrow> goerr + bytes" where
  "sealed_index fe file =
     (case fe_printIndex fe (file\<lparr>file_Targets := []\<rparr>) of Inl err \<Rightarrow> Inl err
      | Inr plain \<Rightarrow>
          if file_Key file \<noteq> []
          then (case fe_dec58 fe (file_Key file) of Inl err \<Rightarrow> Inl err
                | Inr key \<Rightarrow> EncryptAES (fe_aes fe) plain key)
          else Inr plain)"

definition fileNode ::
  "files_env \<Rightarrow> world \<Rightarrow> FileIndex \<Rightarrow> (string \<times> string) list \<Rightarrow> string \<Rightarrow> (string \<times> string) list node_op" where
  "fileNode fe w file dir link =
     go_bind (go_get (\<lambda>s. files_Get (file_Hash file) (ns_files s))) (\<lambda>known.
     if known = None then go_fail ErrFileNotFound
     else
       go_bind (go_lift (sealed_index fe file)) (\<lambda>data.
       go_bind (AddDataToDirectory w [] ''meta'' data) (\<lambda>pair.
       go_bind (AddLinkToDirectory w pair ''content'' (file_Hash file)) (\<lambda>pair.
       go_bind (pinned_directory w pair) (\<lambda>node.
       AddLinkToDirectory w dir link node)))))"

fun files_loop ::
  "files_env \<Rightarrow> world \<Rightarrow> (string \<times> string \<times> FileIndex) list \<Rightarrow> (string \<times> string) list \<times> (string \<times> string) list
   \<Rightarrow> ((string \<times> string) list \<times> (string \<times> string) list) node_op" where
  "files_loop fe w [] acc = go_return acc"
| "files_loop fe w ((link, path, file) # rest) (dir, keys) =
     go_bind (fileNode fe w file dir link) (\<lambda>dir.
     files_loop fe w rest (dir, map_set path (file_Key file) keys))"

text \<open>The node of a list of files and the keys of its files by their paths.\<close>

definition AddNodeFromFiles ::
  "files_env \<Rightarrow> world \<Rightarrow> FileIndex list \<Rightarrow> (string \<times> (string \<times> string) list) node_op" where
  "AddNodeFromFiles fe w files =
     go_bind (files_loop fe w
        (map (\<lambda>(i, file). (Itoa (int i), index_path i, file)) (enumerate 0 files)) ([], [])) (\<lambda>(outer, keys).
     go_bind (pinned_directory w outer) (\<lambda>node. go_return (node, keys)))"

fun dirs_loop ::
  "files_env \<Rightarrow> world \<Rightarrow> (nat \<times> (string \<times> FileIndex) list) list
   \<Rightarrow> (string \<times> string) list \<times> (string \<times> string) list
   \<Rightarrow> ((string \<times> string) list \<times> (string \<times> string) list) node_op" where
  "dirs_loop fe w [] acc = go_return acc"
| "dirs_loop fe w ((i, dir) # rest) (outer, keys) =
     go_bind (files_loop fe w
        (map (\<lambda>(link, file). (link, index_path i @ link @ ''/'', file)) dir) ([], keys)) (\<lambda>(inner, keys).
     go_bind (pinned_directory w inner) (\<lambda>node.
     go_bind (AddLinkToDirectory w outer (Itoa (int i)) node) (\<lambda>outer.
     dirs_loop fe w rest (outer, keys))))"

text \<open>The files of a directory come in the order in which the iteration over the map gives them.\<close>

definition AddNodeFromDirs ::
  "files_env \<Rightarrow> world \<Rightarrow> (string \<times> FileIndex) list list \<Rightarrow> (string \<times> (string \<times> string) list) node_op" where
  "AddNodeFromDirs fe w dirs =
     go_bind (dirs_loop fe w (enumerate 0 dirs) ([], [])) (\<lambda>(outer, keys).
     go_bind (pinned_directory w outer) (\<lambda>node. go_return (node, keys)))"

section \<open>The keys of a data node\<close>

definition fileLinkKey :: "dag_node \<Rightarrow> node_state \<Rightarrow> goerr + string" where
  "fileLinkKey inode s =
     (case LinkByName (dag_Links inode) ValidContentLinkNames of
        None \<Rightarrow> Inl ErrMissingContentLink
      | Some dlink \<Rightarrow>
          (case files_Get (snd dlink) (ns_files s) of
             None \<Rightarrow> Inl ErrFileNotFound
           | Some file \<Rightarrow> Inr (file_Key file)))"

fun link_keys ::
  "world \<Rightarrow> node_state \<Rightarrow> nat \<Rightarrow> (string \<times> string) list \<Rightarrow> (string \<times> string) list
   \<Rightarrow> goerr + (string \<times> string) list" where
  "link_keys w s i [] keys = Inr keys"
| "link_keys w s i (link # rest) keys =
     (case w_nodeAt w (snd link) of Inl err \<Rightarrow> Inl err
      | Inr n \<Rightarrow>
        (case fileLinkKey n s of Inl err \<Rightarrow> Inl err
         | Inr key \<Rightarrow> link_keys w s i rest (map_set (index_path i @ fst link @ ''/'') key keys)))"

definition fileNodeKeys ::
  "world \<Rightarrow> node_state \<Rightarrow> dag_node \<Rightarrow> nat \<Rightarrow> (string \<times> string) list \<Rightarrow> goerr + (string \<times> string) list" where
  "fileNodeKeys w s node i keys =
     (if looksLikeFileNode node
      then (case fileLinkKey node s of Inl err \<Rightarrow> Inl err
            | Inr key \<Rightarrow> Inr (map_set (index_path i) key keys))
      else link_keys w s i (dag_Links node) keys)"

fun target_keys ::
  "world \<Rightarrow> node_state \<Rightarrow> nat \<Rightarrow> (string \<times> string) list \<Rightarrow> (string \<times> string) list
   \<Rightarrow> goerr + (string \<times> string) list" where
  "target_keys w s i [] keys = Inr keys"
| "target_keys w s i (link # rest) keys =
     (case w_nodeAt w (snd link) of Inl err \<Rightarrow> Inl err
      | Inr fn \<Rightarrow>
        (case fileNodeKeys w s fn i keys of Inl err \<Rightarrow> Inl err
         | Inr keys \<Rightarrow> target_keys w s (Suc i) rest keys))"

definition TargetNodeKeys :: "world \<Rightarrow> dag_node \<Rightarrow> node_state \<Rightarrow> goerr + (string \<times> string) list" where
  "TargetNodeKeys w node s = target_keys w s 0 (dag_Links node) []"

end
