(* ===== verification/CafeApi.thy ===== *)
theory CafeApi
  imports CafeQuery Files
begin

text \<open>
  The HTTP API of a cafe host, \<^verbatim>\<open>core/cafe_api.go\<close>, \<^verbatim>\<open>core/cafe_api_v0.go\<close> and \<^verbatim>\<open>core/cafe_api_v1.go\<close>, and the
  reader of its streams in \<^verbatim>\<open>service/service.go\<close>. A handler returns the status it answers with; what it
  is given of a request are the parameters and the body, which may fail to be read. The router of the
  library calls a handler with the parameters of its path and answers a panic of it with the status
  500; a panic in a goroutine is not caught by anybody.
\<close>

section \<open>Tokens\<close>

definition bearer :: "string \<Rightarrow> string option" where
  "bearer header =
     (let auth = Split CHR '' '' header in if length auth < 2 then None else Some (auth ! 1))"

text \<open>
  The middleware: \<open>route\<close> is the handler of the route, with the value of \<open>from\<close>, which is not set when
  the error of the token is none of the three.
\<close>

definition validateToken ::
  "cafe_env \<Rightarrow> world \<Rightarrow> string \<Rightarrow> (string \<Rightarrow> nat node_op) \<Rightarrow> nat node_op" where
  "validateToken ca w header route =
     (case bearer header of None \<Rightarrow> go_return 401
      | Some token \<Rightarrow>
          go_bind (go_try (Validate w (ca_jwt ca) token False cafeServiceProtocol None)) (\<lambda>r.
          case r of
            Inl err \<Rightarrow>
              if err = ErrNoToken \<or> err = ErrExpired then go_return 401
              else if err = ErrInvalid then go_return 403
              else route []
          | Inr claims \<Rightarrow> route (jc_Subject claims)))"

text \<open>\<open>if err != nil { abort(code, err); return }\<close>.\<close>

definition or_abort :: "nat \<Rightarrow> 'a node_op \<Rightarrow> ('a \<Rightarrow> nat node_op) \<Rightarrow> nat node_op" where
  "or_abort code op k = go_bind (go_try op) (\<lambda>r. case r of Inl _ \<Rightarrow> go_return code | Inr x \<Rightarrow> k x)"

definition recovered :: "nat node_op \<Rightarrow> nat node_op" where
  "recovered m = (\<lambda>s. case m s of (Inl _, s') \<Rightarrow> (Inr 500, s') | (Inr c, s') \<Rightarrow> (Inr c, s'))"

section \<open>Version 1\<close>

text \<open>Every file of the form as an object of IPFS, or as plain data when it is none.\<close>

fun api_store :: "cafe_env \<Rightarrow> world \<Rightarrow> (goerr + bytes) list \<Rightarrow> nat node_op" where
  "api_store ca w [] = go_return 204"
| "api_store ca w (file # files) =
     or_abort 400 (go_lift file) (\<lambda>f.
     go_bind (go_try (AddObject ca f)) (\<lambda>r.
     or_abort 400 (case r of Inr aid \<Rightarrow> go_return aid | Inl _ \<Rightarrow> AddData w f False) (\<lambda>_.
     api_store ca w files)))"

definition api_store_form :: "cafe_env \<Rightarrow> world \<Rightarrow> goerr + (goerr + bytes) list \<Rightarrow> nat node_op" where
  "api_store_form ca w form = or_abort 400 (go_lift form) (api_store ca w)"

fun api_unpin :: "world \<Rightarrow> (string \<times> bool) list \<Rightarrow> nat node_op" where
  "api_unpin w [] = go_return 204"
| "api_unpin w ((cid, pinned) # rest) =
     (if pinned then or_abort 400 (UnpinNode w cid True) (\<lambda>_. api_unpin w rest) else api_unpin w rest)"

definition api_unstore :: "cafe_env \<Rightarrow> world \<Rightarrow> string \<Rightarrow> nat node_op" where
  "api_unstore ca w cid =
     or_abort 400 (go_lift (w_parseCid w cid)) (\<lambda>i.
     go_bind (go_get ns_effects) (\<lambda>past.
     or_abort 400 (go_lift (ca_checkPinned ca past [i])) (api_unpin w)))"

definition api_storeThread :: "string \<Rightarrow> string \<Rightarrow> goerr + bytes \<Rightarrow> nat node_op" where
  "api_storeThread from tid body =
     go_bind (go_get (\<lambda>s. clients_Get from (ns_cafe_clients s))) (\<lambda>client.
     case client of None \<Rightarrow> go_return 403
     | Some c \<Rightarrow>
         or_abort 400 (go_lift body) (\<lambda>ciphertext.
         or_abort 500 (on_cafe_client_threads (client_threads_AddOrUpdate
             \<lparr>ct_Id = tid, ct_Client = cl_Id c, ct_Ciphertext = ciphertext\<rparr>)) (\<lambda>_. go_return 204)))"

definition api_unstoreThread :: "string \<Rightarrow> string \<Rightarrow> nat node_op" where
  "api_unstoreThread from tid =
     go_bind (go_get (\<lambda>s. clients_Get from (ns_cafe_clients s))) (\<lambda>client.
     case client of None \<Rightarrow> go_return 403
     | Some c \<Rightarrow>
         or_abort 500 (on_cafe_client_threads (client_threads_Delete tid (cl_Id c))) (\<lambda>_. go_return 204))"

text \<open>Who sends a message is a parameter of the path, and the route takes no token.\<close>

definition api_deliverMessage :: "cafe_env \<Rightarrow> world \<Rightarrow> string \<Rightarrow> string \<Rightarrow> goerr + bytes \<Rightarrow> nat node_op" where
  "api_deliverMessage ca w from to body =
     go_bind (go_get (\<lambda>s. clients_Get to (ns_cafe_clients s))) (\<lambda>client.
     case client of None \<Rightarrow> go_return 200
     | Some c \<Rightarrow>
         or_abort 400 (go_lift body) (\<lambda>envb.
         or_abort 400 (pin_envelope ca w envb) (\<lambda>mid.
         go_bind (TimestampNow w) (\<lambda>now.
         or_abort 500 (on_cafe_client_messages (client_messages_AddOrUpdate now
             \<lparr>ccm_Id = mid, ccm_Peer = from, ccm_Client = cl_Id c, ccm_Date = Some now\<rparr>)) (\<lambda>_.
         go_seq (go_catch (notifyClient ca (cl_Id c)) (\<lambda>_. go_return ())) (go_return 200))))))"

section \<open>Streams\<close>

text \<open>
  An envelope of a stream is written after its length, a little endian number of two bytes; \<open>uint16\<close>
  of a larger length drops the higher bits. The reader goes on until the end of the input or an error.
\<close>

definition PutUint16 :: "nat \<Rightarrow> bytes" where
  "PutUint16 n = [word_of_nat (n mod 256), word_of_nat (n div 256 mod 256)]"

definition Uint16 :: "bytes \<Rightarrow> nat" where
  "Uint16 b = unat (b ! 0) + 256 * unat (b ! 1)"

definition frame :: "bytes \<Rightarrow> bytes" where
  "frame payload = PutUint16 (length payload) @ payload"

datatype frame_result = Frame bytes bytes | EndOfFrames | CutFrame

text \<open>\<open>io.ReadFull\<close>: nothing to read is the end, too little is an error.\<close>

definition read_frame :: "bytes \<Rightarrow> frame_result" where
  "read_frame input =
     (if input = [] then EndOfFrames
      else if length input < 2 then CutFrame
      else (let n = Uint16 (take 2 input); rest = drop 2 input
            in if n = 0 then Frame [] rest
               else if rest = [] then EndOfFrames
               else if length rest < n then CutFrame
               else Frame (take n rest) (drop n rest)))"

lemma read_frame_shorter: "read_frame input = Frame m rest \<Longrightarrow> length rest < length input"
  by (auto simp: read_frame_def Let_def split: if_splits)

function read_frames :: "bytes \<Rightarrow> bytes list \<times> bool" where
  "read_frames input =
     (case read_frame input of
        EndOfFrames \<Rightarrow> ([], True) | CutFrame \<Rightarrow> ([], False)
      | Frame m rest \<Rightarrow> (let (ms, ok) = read_frames rest in (m # ms, ok)))"
  by pat_completeness auto
termination by (relation "measure length") (auto dest: read_frame_shorter)

declare read_frames.simps [simp del]

text \<open>
  What the reader does with the envelopes of a response: it passes them on until one cannot be read or
  carries an error. The result is what was passed on and the error.
\<close>

fun stream_envelopes ::
  "(bytes \<Rightarrow> goerr + MsgEnvelope) \<Rightarrow> bytes list \<Rightarrow> Message list \<times> goerr option" where
  "stream_envelopes unmarshal [] = ([], None)"
| "stream_envelopes unmarshal (mes # rest) =
     (case unmarshal mes of Inl err \<Rightarrow> ([], Some err)
      | Inr env \<Rightarrow>
          (case me_Message env of None \<Rightarrow> ([], Some (ErrMsg ''message is nil''))
           | Some m \<Rightarrow>
               (case handleError m of Inl err \<Rightarrow> ([], Some err)
                | Inr _ \<Rightarrow> (let (ms, e) = stream_envelopes unmarshal rest in (m # ms, e)))))"

text \<open>A response with an error status, or the stream of its body.\<close>

definition SendHTTPStreamRequest ::
  "(bytes \<Rightarrow> goerr + MsgEnvelope) \<Rightarrow> goerr + nat \<times> bytes \<Rightarrow> (bytes \<Rightarrow> string) \<Rightarrow> Message list \<times> goerr option" where
  "SendHTTPStreamRequest unmarshal answer body_text =
     (case answer of Inl err \<Rightarrow> ([], Some err)
      | Inr (status, body) \<Rightarrow>
          if 400 \<le> status then ([], Some (ErrMsg (body_text body)))
          else let (frames, complete) = read_frames body; (ms, e) = stream_envelopes unmarshal frames
               in (ms, if e = None \<and> \<not> complete then Some (ErrMsg ''unexpected EOF'') else e))"

text \<open>The items of the results that a cafe streams; the first thing that is no result ends the search.\<close>

fun stream_items :: "Message list \<Rightarrow> QueryResult list \<times> goerr option" where
  "stream_items [] = ([], None)"
| "stream_items (m # ms) =
     (case UnmarshalAny (\<lambda>p. case p of MQueryResults x \<Rightarrow> Some x | _ \<Rightarrow> None) (msg_Payload m) of
        Inl err \<Rightarrow> ([], Some err)
      | Inr res \<Rightarrow> (let (more, e) = stream_items ms in (qrs_Items res @ more, e)))"

definition cafe_Search ::
  "cafe_env \<Rightarrow> (MsgEnvelope \<Rightarrow> string \<Rightarrow> goerr + nat \<times> bytes) \<Rightarrow> (bytes \<Rightarrow> string) \<Rightarrow> Query \<Rightarrow> string
   \<Rightarrow> (QueryResult list \<times> goerr option) node_op" where
  "cafe_Search ca http body_text query cafeId =
     go_bind (go_get (\<lambda>s. cafe_sessions_Get cafeId (ns_cafe_sessions s))) (\<lambda>found.
     case found of None \<Rightarrow> go_return ([], Some (ErrMsg ''could not find session for cafe''))
     | Some session \<Rightarrow>
         (case NewEnvelope (ca_net ca) Message_CAFE_QUERY (Some (MQuery query)) None False of
            Inl err \<Rightarrow> go_return ([], Some err)
          | Inr env \<Rightarrow>
              (let (ms, e) = SendHTTPStreamRequest (ca_unmarshalEnvelope ca) (http env (ses_Access session)) body_text;
                   (items, e') = stream_items ms
               in go_return (items, if e' \<noteq> None then e' else e))))"

text \<open>
  \<open>HandleStream\<close> looks at the type of the message in a goroutine of its own, so an envelope without a
  message ends the process. The answer is the status, the frames and the error.
\<close>

definition HandleStream ::
  "cafe_env \<Rightarrow> world \<Rightarrow> query_event list \<Rightarrow> MsgEnvelope \<Rightarrow> string \<Rightarrow> (MsgEnvelope list \<times> goerr option) node_op" where
  "HandleStream ca w events env pid =
     (case me_Message env of None \<Rightarrow> go_fail (Panic ''nil message'')
      | Some m \<Rightarrow> if msg_Type m = Message_CAFE_QUERY then handleQuery ca w events m pid
                  else go_return ([], None))"

definition api_search ::
  "cafe_env \<Rightarrow> world \<Rightarrow> query_event list \<Rightarrow> (MsgEnvelope \<Rightarrow> bytes) \<Rightarrow> string \<Rightarrow> goerr + bytes
   \<Rightarrow> (nat \<times> bytes) node_op" where
  "api_search ca w events marshal from body =
     (case sn_decodePeer (ca_net ca) from of Inl _ \<Rightarrow> go_return (400, [])
      | Inr pid \<Rightarrow>
         (case body of Inl _ \<Rightarrow> go_return (400, [])
          | Inr b \<Rightarrow>
             (case ca_unmarshalEnvelope ca b of Inl _ \<Rightarrow> go_return (400, [])
              | Inr pmes \<Rightarrow>
                  go_bind (HandleStream ca w events pmes pid) (\<lambda>(renvs, err).
                  go_return (if err = None then 200 else 400, concat (map (\<lambda>e. frame (marshal e)) renvs))))))"

section \<open>Version 0\<close>

datatype tar_entry = TarDir | TarReg string bytes | TarOther

text \<open>The entries of an archive, each of which may fail to be read, as a directory.\<close>

fun tar_directory :: "world \<Rightarrow> (goerr + tar_entry) list \<Rightarrow> (string \<times> string) list \<Rightarrow> (nat + (string \<times> string) list) node_op" where
  "tar_directory w [] dir = go_return (Inr dir)"
| "tar_directory w (Inl err # entries) dir = go_return (Inl 500)"
| "tar_directory w (Inr TarDir # entries) dir = go_return (Inl 400)"
| "tar_directory w (Inr TarOther # entries) dir = tar_directory w entries dir"
| "tar_directory w (Inr (TarReg name data) # entries) dir =
     go_bind (go_try (AddDataToDirectory w dir name data)) (\<lambda>r.
     case r of Inl _ \<Rightarrow> go_return (Inl 500) | Inr dir \<Rightarrow> tar_directory w entries dir)"

datatype pin_body = Gzip "goerr + (goerr + tar_entry) list" | OctetStream bytes | OtherContent

definition api_pin :: "world \<Rightarrow> pin_body \<Rightarrow> (nat \<times> string option) node_op" where
  "api_pin w body =
     (case body of
        Gzip archive \<Rightarrow>
          (case archive of Inl _ \<Rightarrow> go_return (400, None)
           | Inr entries \<Rightarrow>
               go_bind (tar_directory w entries []) (\<lambda>r.
               case r of Inl code \<Rightarrow> go_return (code, None)
               | Inr dir \<Rightarrow>
                   go_bind (go_try (go_bind (go_lift (w_directory w dir)) (\<lambda>node.
                      go_seq (PinNode w node True) (go_return node)))) (\<lambda>r.
                   go_return (case r of Inl _ \<Rightarrow> (500, None) | Inr node \<Rightarrow> (201, Some node)))))
      | OctetStream data \<Rightarrow>
          go_bind (go_try (AddData w data False)) (\<lambda>r.
          go_return (case r of Inl _ \<Rightarrow> (500, None) | Inr hash \<Rightarrow> (201, Some hash)))
      | OtherContent \<Rightarrow> go_return (400, None))"

text \<open>The answer of a service request: a status and envelopes.\<close>

definition api_service ::
  "nat \<Rightarrow> cafe_env \<Rightarrow> world \<Rightarrow> query_event list \<Rightarrow> string \<Rightarrow> goerr + bytes \<Rightarrow> (nat \<times> MsgEnvelope list) node_op" where
  "api_service fuel ca w events peerId body =
     (case body of Inl _ \<Rightarrow> go_return (400, [])
      | Inr b \<Rightarrow>
        (case ca_unmarshalEnvelope ca b of Inl _ \<Rightarrow> go_return (400, [])
         | Inr pmes \<Rightarrow>
           if peerId = [] then go_return (400, [])
           else case sn_decodePeer (ca_net ca) peerId of Inl _ \<Rightarrow> go_return (400, [])
           | Inr mPeer \<Rightarrow>
             (case VerifyEnvelope (ca_net ca) pmes mPeer of Inl _ \<Rightarrow> go_return (400, [])
              | Inr _ \<Rightarrow>
                (case me_Message pmes of None \<Rightarrow> go_fail (Panic ''nil message'')
                 | Some m \<Rightarrow>
                   go_bind (go_try (CafeService_Handle fuel ca w m mPeer)) (\<lambda>r.
                   case r of Inl _ \<Rightarrow> go_return (400, [])
                   | Inr (Some rpmes) \<Rightarrow> go_return (200, [rpmes])
                   | Inr None \<Rightarrow>
                       go_bind (HandleStream ca w events pmes mPeer) (\<lambda>(renvs, err).
                       go_return (if err = None then 200 else 400, renvs)))))))"

end
