(* ===== verification/AccountRelation.thy ===== *)
theory AccountRelation
  imports NodeRelation Snapshots CafeApi
begin

text \<open>
  The operations on the files of a node and on its threads as a whole, and the HTTP API of a cafe, keep
  every relation that the other operations keep.
\<close>

context node_relation
begin

section \<open>Files\<close>

lemma keeps_directories [node_rules]:
  "keeps (AddLinkToDirectory w dir f p)" "keeps (AddDataToDirectory w dir f d)" "keeps (pinned_directory w dir)"
  "keeps (fileNode fe w file dir link)"
  unfolding AddLinkToDirectory_def AddDataToDirectory_def pinned_directory_def fileNode_def by (intro node_rules key_rules)+

lemma keeps_files_loop [node_rules]: "keeps (files_loop fe w fs acc)"
  by (induction fe w fs acc rule: files_loop.induct) (auto intro!: node_rules)

lemma keeps_dirs_loop [node_rules]: "keeps (dirs_loop fe w ds acc)"
  by (induction fe w ds acc rule: dirs_loop.induct) (auto intro!: node_rules)

lemma keeps_new_index [node_rules]: "keeps (new_index fe w ml conf src opts check res)"
  unfolding new_index_def seal_content_def add_content_def add_index_def by (intro node_rules key_rules)

lemma keeps_files_ops [node_rules]:
  "keeps (AddFileIndex fe w ml conf)" "keeps (Textile_AddSchema fe w smill reprint js name)"
  "keeps (AddNodeFromFiles fe w fs)" "keeps (AddNodeFromDirs fe w ds)"
proof -
  show a: "keeps (AddFileIndex fe w ml conf)" for ml conf
    unfolding AddFileIndex_def by (intro node_rules key_rules)
  show "keeps (Textile_AddSchema fe w smill reprint js name)"
    unfolding Textile_AddSchema_def by (intro node_rules a)
  show "keeps (AddNodeFromFiles fe w fs)" "keeps (AddNodeFromDirs fe w ds)"
    unfolding AddNodeFromFiles_def AddNodeFromDirs_def by (intro node_rules)+
qed

section \<open>Threads\<close>

lemma thread_loadSchema_Id: "thread_loadSchema te t = Inr t' \<Longrightarrow> t_Id t' = t_Id t"
  by (auto simp: thread_loadSchema_def split: if_splits sum.splits)

lemma keeps_replace_thread [node_rules]: "keeps (replace_thread t)"
  unfolding replace_thread_def by (intro keeps_modify alters) simp

lemma keeps_load_schemas [node_rules]: "keeps (loadThreadSchemas te)" "keeps Stop" "keeps (UpdateSchema te t hash)"
proof -
  show "keeps (loadThreadSchemas te)"
    unfolding loadThreadSchemas_def by (intro keeps_modify alters) (auto split: sum.splits dest: thread_loadSchema_Id)
  show "keeps Stop" unfolding Stop_def by (intro keeps_modify stops)
  show "keeps (UpdateSchema te t hash)" unfolding UpdateSchema_def by (intro node_rules key_rules)
qed

lemma keeps_load_threads [node_rules]: "keeps (load_threads te)"
  unfolding load_threads_def by (intro node_rules)

lemma keeps_threads_of_account:
  assumes "\<And>j. keeps (te_addSchema te j)" "keeps (ac_addSchema ac)"
  shows "keeps (addAccountThread fuel w te ac)" "keeps (Start fuel w te ac)"
proof -
  have c: "keeps (create_account_thread fuel w te ac)"
    unfolding create_account_thread_def avatar_schema_def by (intro node_rules key_rules keeps_AddThread assms)
  show a: "keeps (addAccountThread fuel w te ac)"
    unfolding addAccountThread_def avatar_schema_def by (intro node_rules c assms)
  show "keeps (Start fuel w te ac)" unfolding Start_def by (intro node_rules a)
qed

lemma keeps_snapshots:
  assumes "\<And>j. keeps (te_addSchema te j)" "keeps flush"
  shows "keeps (applySnapshot fuel w te dec res)" "keeps (snapshot_background fuel w flush rest)"
    "keeps (AddExternalInvite w draws aes t)"
proof -
  have "keeps (AddOrUpdateThread fuel w te snap)" for snap
    unfolding AddOrUpdateThread_def by (intro node_rules key_rules keeps_AddThread assms)
  then show "keeps (applySnapshot fuel w te dec res)"
    unfolding applySnapshot_def by (cases "qr_Value res") (auto intro!: node_rules)
  show "keeps (snapshot_background fuel w flush rest)"
    unfolding snapshot_background_def by (intro node_rules assms)
  show "keeps (AddExternalInvite w draws aes t)"
    unfolding AddExternalInvite_def by (intro node_rules key_rules)
qed

section \<open>The HTTP API\<close>

lemma keeps_or_abort [node_rules]: "keeps op \<Longrightarrow> (\<And>x. keeps (k x)) \<Longrightarrow> keeps (or_abort code op k)"
  unfolding or_abort_def by (intro node_rules)

lemma keeps_validateToken: "(\<And>from. keeps (route from)) \<Longrightarrow> keeps (validateToken ca w header route)"
  unfolding validateToken_def Validate_def by (intro node_rules)

lemma keeps_api_store [node_rules]: "keeps (api_store ca w fs)"
  by (induction ca w fs rule: api_store.induct) (auto simp: AddObject_def intro!: node_rules)

lemma keeps_api_unpin [node_rules]: "keeps (api_unpin w ps)"
  by (induction w ps rule: api_unpin.induct) (auto intro!: node_rules)

lemma keeps_tar_directory [node_rules]: "keeps (tar_directory w es dir)"
  by (induction w es dir rule: tar_directory.induct) (auto intro!: node_rules split: sum.splits)

lemma keeps_HandleStream [node_rules]: "keeps (HandleStream ca w es env p)"
  unfolding HandleStream_def by (intro node_rules)

lemma keeps_api [node_rules]:
  "keeps (api_store_form ca w form)" "keeps (api_unstore ca w cid)" "keeps (api_storeThread from tid body)"
  "keeps (api_unstoreThread from tid)" "keeps (api_deliverMessage ca w from to body)"
  "keeps (api_search ca w es marshal from body)"
  unfolding api_store_form_def api_unstore_def api_storeThread_def api_unstoreThread_def api_deliverMessage_def
    api_search_def pin_envelope_def notifyClient_def Publish_def AddObject_def
  by (intro node_rules key_rules)+

lemma keeps_api_pin [node_rules]: "keeps (api_pin w body)"
  unfolding api_pin_def by (cases body) (auto intro!: node_rules split: sum.splits)

end

end
