(* ===== verification/HttpCodec.thy ===== *)
theory HttpCodec
  imports GoUtil
begin

text \<open>
  How the command line passes arguments and options to the HTTP API of a node: \<open>request\<close> of \<^verbatim>\<open>cmd/cmd.go\<close>
  writes two headers, \<open>readArgs\<close> and \<open>readOpts\<close> of \<^verbatim>\<open>core/api.go\<close> read them; with the escaping of
  \<^verbatim>\<open>net/url\<close> that both use. A string is a list of bytes.
\<close>

section \<open>Escaping\<close>

definition is_alnum :: "char \<Rightarrow> bool" where
  "is_alnum c \<longleftrightarrow>
     (let n = (of_char c :: nat) in 48 \<le> n \<and> n \<le> 57 \<or> 65 \<le> n \<and> n \<le> 90 \<or> 97 \<le> n \<and> n \<le> 122)"

text \<open>\<open>shouldEscape\<close> for a segment of a path, where only the last four of its reserved characters are escaped.\<close>

definition shouldEscape :: "char \<Rightarrow> bool" where
  "shouldEscape c \<longleftrightarrow> \<not> is_alnum c \<and> c \<notin> set ''-_.~$&+:=@''"

definition upperhex :: "nat \<Rightarrow> char" where
  "upperhex d = (if d < 10 then char_of (48 + d) else char_of (55 + d))"

definition unhex :: "char \<Rightarrow> nat option" where
  "unhex c =
     (let n = (of_char c :: nat)
      in if 48 \<le> n \<and> n \<le> 57 then Some (n - 48)
         else if 65 \<le> n \<and> n \<le> 70 then Some (n - 55)
         else if 97 \<le> n \<and> n \<le> 102 then Some (n - 87) else None)"

fun PathEscape :: "string \<Rightarrow> string" where
  "PathEscape [] = []"
| "PathEscape (c # s) =
     (if shouldEscape c
      then CHR ''%'' # upperhex (of_char c div 16) # upperhex (of_char c mod 16) # PathEscape s
      else c # PathEscape s)"

definition EscapeError :: goerr where
  "EscapeError = ErrMsg ''invalid URL escape''"

fun PathUnescape :: "string \<Rightarrow> goerr + string" where
  "PathUnescape [] = Inr []"
| "PathUnescape (c # s) =
     (if c = CHR ''%''
      then (case s of
              a # b # t \<Rightarrow>
                (case (unhex a, unhex b) of
                   (Some x, Some y) \<Rightarrow>
                     (case PathUnescape t of Inl err \<Rightarrow> Inl err | Inr r \<Rightarrow> Inr (char_of (16 * x + y) # r))
                 | _ \<Rightarrow> Inl EscapeError)
            | _ \<Rightarrow> Inl EscapeError)
      else (case PathUnescape s of Inl err \<Rightarrow> Inl err | Inr r \<Rightarrow> Inr (c # r)))"

section \<open>The headers\<close>

text \<open>\<open>request\<close>: a header that is not set reads as the empty string. The options are a map, in any order.\<close>

definition args_header :: "string list \<Rightarrow> string" where
  "args_header args = Join '','' (map PathEscape args)"

definition opts_header :: "(string \<times> string) list \<Rightarrow> string" where
  "opts_header opts = Join '','' (map (\<lambda>(k, v). k @ ''='' @ PathEscape v) opts)"

fun read_args :: "string list \<Rightarrow> goerr + string list" where
  "read_args [] = Inr []"
| "read_args (a # rest) =
     (case PathUnescape (TrimSpace a) of Inl err \<Rightarrow> Inl err
      | Inr arg \<Rightarrow>
          (case read_args rest of Inl err \<Rightarrow> Inl err
           | Inr args \<Rightarrow> Inr (if arg \<noteq> [] then arg # args else args)))"

definition readArgs :: "string \<Rightarrow> goerr + string list" where
  "readArgs header = read_args (Split CHR '','' header)"

type_synonym api_opts = "string \<Rightarrow> string option"

fun read_opts :: "string list \<Rightarrow> api_opts \<Rightarrow> goerr + api_opts" where
  "read_opts [] opts = Inr opts"
| "read_opts (o' # rest) opts =
     (let opt = TrimSpace o'; parts = Split CHR ''='' opt
      in if opt \<noteq> [] \<and> length parts = 2
         then (case PathUnescape (parts ! 1) of Inl err \<Rightarrow> Inl err
               | Inr v \<Rightarrow> read_opts rest (opts(parts ! 0 \<mapsto> v)))
         else read_opts rest opts)"

definition readOpts :: "string \<Rightarrow> goerr + api_opts" where
  "readOpts header = read_opts (Split CHR '','' header) (\<lambda>_. None)"

definition opt_of :: "api_opts \<Rightarrow> string \<Rightarrow> string" where
  "opt_of opts k = (case opts k of None \<Rightarrow> [] | Some v \<Rightarrow> v)"

section \<open>Round trips\<close>

lemma unhex_upperhex: "d < 16 \<Longrightarrow> unhex (upperhex d) = Some d"
  by (auto simp: unhex_def upperhex_def Let_def)

lemma plain_percent: "shouldEscape CHR ''%''"
  by (simp add: shouldEscape_def is_alnum_def)

lemma char_high: "(of_char c :: nat) div 16 < 16"
proof -
  have "(of_char c :: nat) = of_char c mod 256" by simp
  also have "\<dots> < 256" by (rule mod_less_divisor) simp
  finally show ?thesis by (rule less_mult_imp_div_less [where n = 16 and i = 16, simplified])
qed

lemma PathUnescape_PathEscape: "PathUnescape (PathEscape s) = Inr s"
proof (induction s)
  case (Cons c s)
  have "(of_char c :: nat) div 16 < 16" by (rule char_high)
  then show ?case
    using Cons.IH plain_percent unhex_upperhex [of "of_char c div 16"] unhex_upperhex [of "of_char c mod 16"]
    by auto
qed simp

text \<open>What is left of a text after escaping.\<close>

lemma is_alnum_upperhex: "d < 16 \<Longrightarrow> is_alnum (upperhex d)"
  by (auto simp: is_alnum_def upperhex_def Let_def)

lemma PathEscape_chars:
  assumes "c \<in> set (PathEscape s)"
  shows "c = CHR ''%'' \<or> is_alnum c \<or> c \<in> set s \<and> \<not> shouldEscape c"
  using assms
proof (induction s)
  case (Cons d s)
  have "(of_char d :: nat) div 16 < 16" by (rule char_high)
  then show ?case
    using Cons is_alnum_upperhex [of "of_char d div 16"] is_alnum_upperhex [of "of_char d mod 16"]
    by (auto split: if_splits)
qed simp

lemma escaped_clean: "c \<in> set (PathEscape s) \<Longrightarrow> c \<noteq> CHR '','' \<and> \<not> is_space c"
  by (drule PathEscape_chars) (auto simp: is_alnum_def shouldEscape_def is_space_def)

lemma escaped_equals: "CHR ''='' \<in> set (PathEscape s) \<longleftrightarrow> CHR ''='' \<in> set s"
proof
  show "CHR ''='' \<in> set s" if "CHR ''='' \<in> set (PathEscape s)"
    using PathEscape_chars [OF that] by (auto simp: is_alnum_def)
  show "CHR ''='' \<in> set (PathEscape s)" if "CHR ''='' \<in> set s"
    using that by (induction s) (auto simp: shouldEscape_def)
qed

lemma PathEscape_Nil [simp]: "PathEscape s = [] \<longleftrightarrow> s = []"
  by (cases s) auto

lemma Split_header:
  assumes "\<forall>w \<in> set ws. CHR '','' \<notin> set w"
  shows "Split CHR '','' (Join '','' ws) = (if ws = [] then [[]] else ws)"
  using assms Split_Join [of ws "CHR '',''"] by auto

end
