(* ===== verification/Feed.thy ===== *)
theory Feed
  imports Views Files
begin

text \<open>
  The feed, \<^verbatim>\<open>core/feed.go\<close> and \<^verbatim>\<open>core/feed_*.go\<close>: blocks as items whose payload is a view of the block,
  with the files, comments, likes and targets that belong to it, in pages that are chronological,
  annotated or stacked by target. An item of a block that refers to other blocks holds their items, so
  the construction is recursive; it takes fuel, and \<open>Feed_targets\<close> in \<open>FeedProps\<close> says how much
  is enough and when none is. Nothing here changes the state.
\<close>

section \<open>Items\<close>

record feed_file =
  ff_Index :: int
  ff_File :: "FileIndex option"
  ff_Links :: "(string \<times> FileIndex) list"

text \<open>
  An item and its payload, an \<open>Any\<close> with the type URL of the block; a payload is one of the views of
  \<^verbatim>\<open>view.proto\<close>. An absent file of a files view is a nil element.
\<close>

datatype feed_item = FeedItem (fi_Block: string) (fi_Thread: string) (fi_TypeUrl: string) (fi_Value: feed_payload)
and feed_payload =
    PMerge string "timestamp option" "feed_item list"
  | PIgnore string "timestamp option" User "feed_item option"
  | PFlag string "timestamp option" User "feed_item option"
  | PJoin string "timestamp option" User "like_view list"
  | PAnnounce string "timestamp option" User
  | PLeave string "timestamp option" User "like_view list"
  | PText string "timestamp option" User string "comment_view list" "like_view list"
  | PFiles string string "timestamp option" User string "feed_file option list"
      "comment_view list" "like_view list" "string list"
  | PComment comment_view
  | PLike like_view
and comment_view =
    Comment (cv_Id: string) (cv_Date: "timestamp option") (cv_User: User) (cv_Body: string)
      (cv_Target: "feed_item option")
and like_view =
    Like (lv_Id: string) (lv_Date: "timestamp option") (lv_User: User) (lv_Target: "feed_item option")

record feed_opts =
  fo_annotations :: bool
  fo_comments :: "comment_view list"
  fo_likes :: "like_view list"
  fo_target :: "feed_item option"

definition no_opts :: feed_opts where
  "no_opts = \<lparr>fo_annotations = False, fo_comments = [], fo_likes = [], fo_target = None\<rparr>"

definition annotated :: feed_opts where
  "annotated = no_opts\<lparr>fo_annotations := True\<rparr>"

text \<open>The function that turns a target into an item.\<close>

type_synonym resolver = "Block option \<Rightarrow> goerr + feed_item option"

section \<open>Comments and likes\<close>

text \<open>The target of an annotation: the given one, none when annotations are listed, or the stored block.\<close>

definition annotation_target :: "resolver \<Rightarrow> node_state \<Rightarrow> Block \<Rightarrow> feed_opts \<Rightarrow> goerr + feed_item option" where
  "annotation_target item s block opts =
     (if fo_target opts \<noteq> None then Inr (fo_target opts)
      else if \<not> fo_annotations opts then item (blocks_Get (blk_Target block) (ns_blocks s))
      else Inr None)"

definition feed_comment :: "resolver \<Rightarrow> node_state \<Rightarrow> Block \<Rightarrow> feed_opts \<Rightarrow> goerr + comment_view" where
  "feed_comment item s block opts =
     (if blk_Type block \<noteq> Block_COMMENT then Inl ErrBlockWrongType
      else case annotation_target item s block opts of Inl err \<Rightarrow> Inl err
           | Inr target \<Rightarrow>
               Inr (Comment (blk_Id block) (blk_Date block) (PeerUser (blk_Author block) s)
                 (blk_Body block) target))"

definition feed_like :: "resolver \<Rightarrow> node_state \<Rightarrow> Block \<Rightarrow> feed_opts \<Rightarrow> goerr + like_view" where
  "feed_like item s block opts =
     (if blk_Type block \<noteq> Block_LIKE then Inl ErrBlockWrongType
      else case annotation_target item s block opts of Inl err \<Rightarrow> Inl err
           | Inr target \<Rightarrow>
               Inr (Like (blk_Id block) (blk_Date block) (PeerUser (blk_Author block) s) target))"

definition of_type_at :: "BlockType \<Rightarrow> string \<Rightarrow> blocks_row \<Rightarrow> bool" where
  "of_type_at ty target r \<longleftrightarrow> blocks_type r = BlockType_to_int ty \<and> blocks_target r = target"

text \<open>With annotations the target is not looked up; a block that gives an error is left out.\<close>

definition Comments :: "string \<Rightarrow> node_state \<Rightarrow> comment_view list" where
  "Comments target s =
     List.map_filter (\<lambda>block. case feed_comment (\<lambda>_. Inr None) s block annotated of
         Inl _ \<Rightarrow> None | Inr info \<Rightarrow> Some info)
       (Textile_Blocks [] (- 1) (of_type_at Block_COMMENT target) s)"

definition Likes :: "string \<Rightarrow> node_state \<Rightarrow> like_view list" where
  "Likes target s =
     List.map_filter (\<lambda>block. case feed_like (\<lambda>_. Inr None) s block annotated of
         Inl _ \<Rightarrow> None | Inr info \<Rightarrow> Some info)
       (Textile_Blocks [] (- 1) (of_type_at Block_LIKE target) s)"

definition with_block :: "string \<Rightarrow> node_state \<Rightarrow> (Block \<Rightarrow> goerr + 'a) \<Rightarrow> goerr + 'a" where
  "with_block bid s view = (case Textile_Block bid s of Inl err \<Rightarrow> Inl err | Inr block \<Rightarrow> view block)"

definition Textile_Comment :: "string \<Rightarrow> node_state \<Rightarrow> goerr + comment_view" where
  "Textile_Comment bid s = with_block bid s (\<lambda>block. feed_comment (\<lambda>_. Inr None) s block annotated)"

definition Textile_Like :: "string \<Rightarrow> node_state \<Rightarrow> goerr + like_view" where
  "Textile_Like bid s = with_block bid s (\<lambda>block. feed_like (\<lambda>_. Inr None) s block annotated)"

section \<open>Files\<close>

text \<open>The links of a node that is no file itself.\<close>

fun links_of_node ::
  "world \<Rightarrow> node_state \<Rightarrow> (string \<times> string) list \<Rightarrow> (string \<times> FileIndex) list \<Rightarrow> goerr + (string \<times> FileIndex) list" where
  "links_of_node w s [] acc = Inr acc"
| "links_of_node w s (link # rest) acc =
     (case w_nodeAt w (snd link) of Inl err \<Rightarrow> Inl err
      | Inr pair \<Rightarrow>
          links_of_node w s rest
            (case fileIndexForPair pair s of None \<Rightarrow> acc | Some file \<Rightarrow> map_set (fst link) file acc))"

definition file_of_node :: "world \<Rightarrow> node_state \<Rightarrow> int \<Rightarrow> dag_node \<Rightarrow> goerr + feed_file" where
  "file_of_node w s i node =
     (if looksLikeFileNode node
      then Inr \<lparr>ff_Index = int32 i, ff_File = fileIndexForPair node s, ff_Links = []\<rparr>
      else case links_of_node w s (dag_Links node) [] of Inl err \<Rightarrow> Inl err
           | Inr links \<Rightarrow> Inr \<lparr>ff_Index = int32 i, ff_File = None, ff_Links = links\<rparr>)"

text \<open>The name of a link is the index of its file; an index past the number of links panics.\<close>

fun files_at_links ::
  "world \<Rightarrow> node_state \<Rightarrow> (string \<times> string) list \<Rightarrow> feed_file option list \<Rightarrow> goerr + feed_file option list" where
  "files_at_links w s [] files = Inr files"
| "files_at_links w s (index # rest) files =
     (case w_nodeAt w (snd index) of Inl err \<Rightarrow> Inl err
      | Inr node \<Rightarrow>
        (case Atoi (fst index) of Inl err \<Rightarrow> Inl err
         | Inr i \<Rightarrow>
           (case file_of_node w s i node of Inl err \<Rightarrow> Inl err
            | Inr f \<Rightarrow>
                if 0 \<le> i \<and> i < int (length files)
                then files_at_links w s rest (files[nat i := Some f])
                else Inl (Panic ''index out of range''))))"

text \<open>\<open>ls\<close> lists the links under a path, as \<open>ipfs.LinksAtPath\<close> does.\<close>

definition fileAtData ::
  "(string \<Rightarrow> goerr + (string \<times> string) list) \<Rightarrow> world \<Rightarrow> string \<Rightarrow> node_state \<Rightarrow> goerr + feed_file option list" where
  "fileAtData ls w data s =
     (case ls data of Inl err \<Rightarrow> Inl err
      | Inr links \<Rightarrow> files_at_links w s links (replicate (length links) None))"

definition fileThreads :: "string \<Rightarrow> node_state \<Rightarrow> string list" where
  "fileThreads data s =
     foldl add_unique [] (map blk_Thread (blocks_List [] (- 1) (\<lambda>r. blocks_data r = data) (ns_blocks s)))"

text \<open>The comments and likes of a view: those of the store, or those that were collected before.\<close>

definition view_comments :: "Block \<Rightarrow> feed_opts \<Rightarrow> node_state \<Rightarrow> comment_view list" where
  "view_comments block opts s = (if fo_annotations opts then Comments (blk_Id block) s else fo_comments opts)"

definition view_likes :: "Block \<Rightarrow> feed_opts \<Rightarrow> node_state \<Rightarrow> like_view list" where
  "view_likes block opts s = (if fo_annotations opts then Likes (blk_Id block) s else fo_likes opts)"

definition feed_files ::
  "(string \<Rightarrow> goerr + (string \<times> string) list) \<Rightarrow> world \<Rightarrow> node_state \<Rightarrow> Block \<Rightarrow> feed_opts \<Rightarrow> goerr + feed_payload" where
  "feed_files ls w s block opts =
     (if blk_Type block \<noteq> Block_FILES then Inl ErrBlockWrongType
      else case fileAtData ls w (blk_Data block) s of Inl err \<Rightarrow> Inl err
           | Inr files \<Rightarrow>
               Inr (PFiles (blk_Id block) (blk_Data block) (blk_Date block) (PeerUser (blk_Author block) s)
                 (blk_Body block) files (view_comments block opts s) (view_likes block opts s)
                 (fileThreads (blk_Data block) s)))"

section \<open>The other views\<close>

definition feed_message :: "node_state \<Rightarrow> Block \<Rightarrow> feed_opts \<Rightarrow> goerr + feed_payload" where
  "feed_message s block opts =
     (if blk_Type block \<noteq> Block_TEXT then Inl ErrBlockWrongType
      else Inr (PText (blk_Id block) (blk_Date block) (PeerUser (blk_Author block) s) (blk_Body block)
        (view_comments block opts s) (view_likes block opts s)))"

definition feed_join :: "node_state \<Rightarrow> Block \<Rightarrow> feed_opts \<Rightarrow> goerr + feed_payload" where
  "feed_join s block opts =
     (if blk_Type block \<noteq> Block_JOIN then Inl ErrBlockWrongType
      else Inr (PJoin (blk_Id block) (blk_Date block) (PeerUser (blk_Author block) s) (view_likes block opts s)))"

definition feed_leave :: "node_state \<Rightarrow> Block \<Rightarrow> feed_opts \<Rightarrow> goerr + feed_payload" where
  "feed_leave s block opts =
     (if blk_Type block \<noteq> Block_LEAVE then Inl ErrBlockWrongType
      else Inr (PLeave (blk_Id block) (blk_Date block) (PeerUser (blk_Author block) s) (view_likes block opts s)))"

definition feed_announce :: "node_state \<Rightarrow> Block \<Rightarrow> feed_opts \<Rightarrow> goerr + feed_payload" where
  "feed_announce s block opts =
     (if blk_Type block \<noteq> Block_ANNOUNCE then Inl ErrBlockWrongType
      else Inr (PAnnounce (blk_Id block) (blk_Date block) (PeerUser (blk_Author block) s)))"

definition TrimPrefix :: "string \<Rightarrow> string \<Rightarrow> string" where
  "TrimPrefix x prefix = (if take (length prefix) x = prefix then drop (length prefix) x else x)"

definition feed_flag :: "resolver \<Rightarrow> node_state \<Rightarrow> Block \<Rightarrow> feed_opts \<Rightarrow> goerr + feed_payload" where
  "feed_flag item s block opts =
     (if blk_Type block \<noteq> Block_FLAG then Inl ErrBlockWrongType
      else case item (blocks_Get (TrimPrefix (blk_Target block) ''flag-'') (ns_blocks s)) of Inl err \<Rightarrow> Inl err
           | Inr target \<Rightarrow> Inr (PFlag (blk_Id block) (blk_Date block) (PeerUser (blk_Author block) s) target))"

definition feed_ignore :: "resolver \<Rightarrow> node_state \<Rightarrow> Block \<Rightarrow> feed_opts \<Rightarrow> goerr + feed_payload" where
  "feed_ignore item s block opts =
     (if blk_Type block \<noteq> Block_IGNORE then Inl ErrBlockWrongType
      else case item (blocks_Get (TrimPrefix (blk_Target block) ''ignore-'') (ns_blocks s)) of Inl err \<Rightarrow> Inl err
           | Inr target \<Rightarrow> Inr (PIgnore (blk_Id block) (blk_Date block) (PeerUser (blk_Author block) s) target))"

text \<open>The parents of a merge are looked up as if they were blocks.\<close>

fun merge_targets :: "resolver \<Rightarrow> node_state \<Rightarrow> string list \<Rightarrow> goerr + feed_item list" where
  "merge_targets item s [] = Inr []"
| "merge_targets item s (p # ps) =
     (case item (blocks_Get p (ns_blocks s)) of Inl err \<Rightarrow> Inl err
      | Inr parent \<Rightarrow>
        (case merge_targets item s ps of Inl err \<Rightarrow> Inl err
         | Inr targets \<Rightarrow> Inr (case parent of None \<Rightarrow> targets | Some x \<Rightarrow> x # targets)))"

definition feed_merge :: "resolver \<Rightarrow> node_state \<Rightarrow> Block \<Rightarrow> feed_opts \<Rightarrow> goerr + feed_payload" where
  "feed_merge item s block opts =
     (if blk_Type block \<noteq> Block_MERGE then Inl ErrBlockWrongType
      else case merge_targets item s (blk_Parents block) of Inl err \<Rightarrow> Inl err
           | Inr targets \<Rightarrow> Inr (PMerge (blk_Id block) (blk_Date block) targets))"

section \<open>Type URLs\<close>

definition upper :: "char \<Rightarrow> char" where
  "upper c = (let n = (of_char c :: nat) in if 97 \<le> n \<and> n \<le> 122 then char_of (n - 32) else c)"

definition BlockType_names :: "(string \<times> BlockType) list" where
  "BlockType_names =
     [(''MERGE'', Block_MERGE), (''IGNORE'', Block_IGNORE), (''FLAG'', Block_FLAG), (''JOIN'', Block_JOIN),
      (''ANNOUNCE'', Block_ANNOUNCE), (''LEAVE'', Block_LEAVE), (''TEXT'', Block_TEXT),
      (''FILES'', Block_FILES), (''COMMENT'', Block_COMMENT), (''LIKE'', Block_LIKE), (''ADD'', Block_ADD)]"

text \<open>The name of a type, its number when it has none.\<close>

definition BlockType_String :: "BlockType \<Rightarrow> string" where
  "BlockType_String ty =
     (case List.find (\<lambda>e. snd e = ty) BlockType_names of
        Some e \<Rightarrow> fst e
      | None \<Rightarrow> Itoa (BlockType_to_int ty))"

text \<open>\<open>strings.Title\<close> of a word in lower case.\<close>

definition title_case :: "string \<Rightarrow> string" where
  "title_case x = (case map lower x of [] \<Rightarrow> [] | c # cs \<Rightarrow> upper c # cs)"

definition feed_TypeUrl :: "BlockType \<Rightarrow> string" where
  "feed_TypeUrl ty = ''/'' @ title_case (BlockType_String ty)"

definition FeedItemType :: "feed_item \<Rightarrow> goerr + BlockType" where
  "FeedItemType item =
     (case fi_TypeUrl item of
        [] \<Rightarrow> Inl (Panic ''slice bounds out of range'')
      | _ # name \<Rightarrow>
          (case map_of BlockType_names (map upper name) of
             Some ty \<Rightarrow> Inr ty
           | None \<Rightarrow> Inl (ErrMsg ''unable to determine block type'')))"

fun payload_view :: "feed_payload \<Rightarrow> BlockType" where
  "payload_view (PMerge _ _ _) = Block_MERGE"
| "payload_view (PIgnore _ _ _ _) = Block_IGNORE"
| "payload_view (PFlag _ _ _ _) = Block_FLAG"
| "payload_view (PJoin _ _ _ _) = Block_JOIN"
| "payload_view (PAnnounce _ _ _) = Block_ANNOUNCE"
| "payload_view (PLeave _ _ _ _) = Block_LEAVE"
| "payload_view (PText _ _ _ _ _ _) = Block_TEXT"
| "payload_view (PFiles _ _ _ _ _ _ _ _ _) = Block_FILES"
| "payload_view (PComment _) = Block_COMMENT"
| "payload_view (PLike _) = Block_LIKE"

text \<open>An \<open>Any\<close> is read into a view of the type that its URL names.\<close>

definition GetFeedItemPayload :: "feed_item \<Rightarrow> goerr + feed_payload" where
  "GetFeedItemPayload item =
     (case FeedItemType item of Inl err \<Rightarrow> Inl err
      | Inr ty \<Rightarrow>
          if ty = Block_ADD then Inl (ErrMsg ''unable to parse payload'')
          else if payload_view (fi_Value item) = ty \<and> fi_TypeUrl item = feed_TypeUrl ty then Inr (fi_Value item)
          else Inl any_error)"

section \<open>The item of a block\<close>

text \<open>\<open>proto.Marshal\<close> refuses a repeated field with a nil element.\<close>

fun marshal_payload :: "feed_payload \<Rightarrow> goerr + feed_payload" where
  "marshal_payload (PFiles b d t u c files cs ls ts) =
     (if list_ex (\<lambda>f. f = None) files then Inl (ErrMsg ''proto: repeated field Files has nil element'')
      else Inr (PFiles b d t u c files cs ls ts))"
| "marshal_payload p = Inr p"

definition sum_map :: "('a \<Rightarrow> 'b) \<Rightarrow> goerr + 'a \<Rightarrow> goerr + 'b" where
  "sum_map f r = (case r of Inl err \<Rightarrow> Inl err | Inr x \<Rightarrow> Inr (f x))"

definition payload_of ::
  "resolver \<Rightarrow> (string \<Rightarrow> goerr + (string \<times> string) list) \<Rightarrow> world \<Rightarrow> node_state \<Rightarrow> Block \<Rightarrow> feed_opts
   \<Rightarrow> goerr + feed_payload option" where
  "payload_of item ls w s block opts =
     (case blk_Type block of
        Block_MERGE \<Rightarrow> sum_map Some (feed_merge item s block opts)
      | Block_IGNORE \<Rightarrow> sum_map Some (feed_ignore item s block opts)
      | Block_FLAG \<Rightarrow> sum_map Some (feed_flag item s block opts)
      | Block_JOIN \<Rightarrow> sum_map Some (feed_join s block opts)
      | Block_ANNOUNCE \<Rightarrow> sum_map Some (feed_announce s block opts)
      | Block_LEAVE \<Rightarrow> sum_map Some (feed_leave s block opts)
      | Block_TEXT \<Rightarrow> sum_map Some (feed_message s block opts)
      | Block_FILES \<Rightarrow> sum_map Some (feed_files ls w s block opts)
      | Block_COMMENT \<Rightarrow> sum_map (\<lambda>c. Some (PComment c)) (feed_comment item s block opts)
      | Block_LIKE \<Rightarrow> sum_map (\<lambda>l. Some (PLike l)) (feed_like item s block opts)
      | _ \<Rightarrow> Inr None)"

definition item_of ::
  "resolver \<Rightarrow> (string \<Rightarrow> goerr + (string \<times> string) list) \<Rightarrow> world \<Rightarrow> node_state \<Rightarrow> Block \<Rightarrow> feed_opts
   \<Rightarrow> goerr + feed_item option" where
  "item_of item ls w s block opts =
     (case payload_of item ls w s block opts of Inl err \<Rightarrow> Inl err
      | Inr None \<Rightarrow> Inr None
      | Inr (Some payload) \<Rightarrow>
        (case marshal_payload payload of Inl err \<Rightarrow> Inl err
         | Inr value \<Rightarrow>
             Inr (Some (FeedItem (blk_Id block) (blk_Thread block) (feed_TypeUrl (blk_Type block)) value))))"

primrec feedItem ::
  "nat \<Rightarrow> (string \<Rightarrow> goerr + (string \<times> string) list) \<Rightarrow> world \<Rightarrow> node_state \<Rightarrow> Block option \<Rightarrow> feed_opts
   \<Rightarrow> goerr + feed_item option" where
  "feedItem 0 ls w s block opts = (case block of None \<Rightarrow> Inr None | Some b \<Rightarrow> Inl out_of_fuel)"
| "feedItem (Suc fuel) ls w s block opts =
     (case block of None \<Rightarrow> Inr None
      | Some b \<Rightarrow> item_of (\<lambda>target. feedItem fuel ls w s target no_opts) ls w s b opts)"

section \<open>Stacks\<close>

record feed_stack =
  st_id :: string
  st_top :: Block
  st_children :: "Block list"

definition isAnnotation :: "Block \<Rightarrow> bool" where
  "isAnnotation block \<longleftrightarrow> blk_Type block = Block_COMMENT \<or> blk_Type block = Block_LIKE"

definition getTargetId :: "Block \<Rightarrow> string" where
  "getTargetId block = (if isAnnotation block then blk_Target block else blk_Id block)"

text \<open>A block goes on the last stack when it has the same target as its top.\<close>

definition add_to_stacks :: "feed_stack list \<Rightarrow> Block \<Rightarrow> feed_stack list" where
  "add_to_stacks stacks block =
     (if stacks = [] \<or> getTargetId block \<noteq> getTargetId (st_top (last stacks))
      then stacks @ [\<lparr>st_id = getTargetId block, st_top = block, st_children = []\<rparr>]
      else butlast stacks @ [(last stacks)\<lparr>st_children := st_children (last stacks) @ [block]\<rparr>])"

definition feed_stacks :: "Block list \<Rightarrow> feed_stack list" where
  "feed_stacks blocks = foldl add_to_stacks [] blocks"

type_synonym stack_parts = "comment_view list \<times> like_view list \<times> Block option"

text \<open>A child is a comment, a like or the target itself.\<close>

definition handleChild :: "node_state \<Rightarrow> Block \<Rightarrow> stack_parts \<Rightarrow> goerr + stack_parts" where
  "handleChild s child parts =
     (case parts of (comments, likes, target) \<Rightarrow>
      (case blk_Type child of
         Block_COMMENT \<Rightarrow>
           sum_map (\<lambda>c. (comments @ [c], likes, target)) (feed_comment (\<lambda>_. Inr None) s child annotated)
       | Block_LIKE \<Rightarrow>
           sum_map (\<lambda>l. (comments, likes @ [l], target)) (feed_like (\<lambda>_. Inr None) s child annotated)
       | _ \<Rightarrow> Inr (comments, likes, Some child)))"

fun handle_children :: "node_state \<Rightarrow> Block list \<Rightarrow> stack_parts \<Rightarrow> goerr + stack_parts" where
  "handle_children s [] parts = Inr parts"
| "handle_children s (child # rest) parts =
     (case handleChild s child parts of Inl err \<Rightarrow> Inl err | Inr parts' \<Rightarrow> handle_children s rest parts')"

text \<open>
  The initial target of a stack and its annotations; a stack of annotations alone loads its target,
  \<open>None\<close> when it is ignored or gone.
\<close>

definition stack_target :: "node_state \<Rightarrow> feed_stack \<Rightarrow> stack_parts \<Rightarrow> goerr + (bool \<times> stack_parts) option" where
  "stack_target s stack parts =
     (case parts of (comments, likes, target) \<Rightarrow>
      if target \<noteq> None then sum_map (\<lambda>parts'. Some (True, parts')) (handleChild s (st_top stack) parts)
      else if \<not> isAnnotation (st_top stack) then Inr (Some (True, comments, likes, Some (st_top stack)))
      else if blockIgnored (st_id stack) s then Inr None
      else Inr (case blocks_Get (st_id stack) (ns_blocks s) of
             None \<Rightarrow> None
           | Some t \<Rightarrow> Some (False, comments, likes, Some t)))"

definition feedStackItem ::
  "nat \<Rightarrow> (string \<Rightarrow> goerr + (string \<times> string) list) \<Rightarrow> world \<Rightarrow> node_state \<Rightarrow> feed_stack
   \<Rightarrow> goerr + feed_item option" where
  "feedStackItem fuel ls w s stack =
     (case handle_children s (st_children stack) ([], [], None) of Inl err \<Rightarrow> Inl err
      | Inr parts \<Rightarrow>
        (case stack_target s stack parts of Inl err \<Rightarrow> Inl err
         | Inr None \<Rightarrow> Inr None
         | Inr (Some (initial, comments, likes, target)) \<Rightarrow>
           (case feedItem fuel ls w s target (no_opts\<lparr>fo_comments := comments, fo_likes := likes\<rparr>) of
              Inl err \<Rightarrow> Inl err
            | Inr targetItem \<Rightarrow>
                if \<not> initial then feedItem fuel ls w s (Some (st_top stack)) (no_opts\<lparr>fo_target := targetItem\<rparr>)
                else Inr targetItem)))"

section \<open>Pages\<close>

datatype feed_mode = FeedRequest_CHRONO | FeedRequest_ANNOTATED | FeedRequest_STACKS | FeedRequest_Other int

record FeedRequest =
  fr_Thread :: string
  fr_Offset :: string
  fr_Limit :: int
  fr_Mode :: feed_mode

record FeedItemList =
  fl_Items :: "feed_item option list"
  fl_Count :: int
  fl_Next :: string

definition flatFeedTypes :: "BlockType list" where
  "flatFeedTypes = [Block_JOIN, Block_LEAVE, Block_FILES, Block_TEXT, Block_COMMENT, Block_LIKE]"

definition annotatedFeedTypes :: "BlockType list" where
  "annotatedFeedTypes = [Block_JOIN, Block_LEAVE, Block_FILES, Block_TEXT]"

text \<open>Another mode has no types, and its query, \<open>()\<close>, finds nothing.\<close>

definition feed_types :: "feed_mode \<Rightarrow> BlockType list" where
  "feed_types mode =
     (case mode of
        FeedRequest_CHRONO \<Rightarrow> flatFeedTypes
      | FeedRequest_STACKS \<Rightarrow> flatFeedTypes
      | FeedRequest_ANNOTATED \<Rightarrow> annotatedFeedTypes
      | FeedRequest_Other _ \<Rightarrow> [])"

definition feed_query :: "FeedRequest \<Rightarrow> blocks_row \<Rightarrow> bool" where
  "feed_query req r \<longleftrightarrow>
     (fr_Thread req \<noteq> [] \<longrightarrow> blocks_threadId r = fr_Thread req)
     \<and> list_ex (\<lambda>ty. blocks_type r = BlockType_to_int ty) (feed_types (fr_Mode req))"

text \<open>A stack without an item is left out, and its blocks are not counted.\<close>

fun stack_items ::
  "nat \<Rightarrow> (string \<Rightarrow> goerr + (string \<times> string) list) \<Rightarrow> world \<Rightarrow> node_state \<Rightarrow> feed_stack list
   \<Rightarrow> goerr + (feed_item option list \<times> int)" where
  "stack_items fuel ls w s [] = Inr ([], 0)"
| "stack_items fuel ls w s (stack # rest) =
     (case feedStackItem fuel ls w s stack of Inl err \<Rightarrow> Inl err
      | Inr item \<Rightarrow>
        sum_map (\<lambda>(items, n). if item = None then (items, n)
            else (item # items, int (length (st_children stack)) + 1 + n))
          (stack_items fuel ls w s rest))"

definition block_items ::
  "nat \<Rightarrow> (string \<Rightarrow> goerr + (string \<times> string) list) \<Rightarrow> world \<Rightarrow> node_state \<Rightarrow> bool \<Rightarrow> Block list
   \<Rightarrow> goerr + (feed_item option list \<times> int)" where
  "block_items fuel ls w s annotations blocks =
     sum_map (\<lambda>items. (items, int (length items)))
       (each_view (\<lambda>b. feedItem fuel ls w s (Some b) (no_opts\<lparr>fo_annotations := annotations\<rparr>)) blocks)"

definition nextOffset :: "FeedRequest \<Rightarrow> Block list \<Rightarrow> node_state \<Rightarrow> string" where
  "nextOffset req blocks s =
     (if blocks = [] then []
      else let offset = blk_Id (last blocks)
           in if length (blocks_List offset 1 (feed_query req) (ns_blocks s)) = 0 then [] else offset)"

definition Textile_Feed ::
  "nat \<Rightarrow> (string \<Rightarrow> goerr + (string \<times> string) list) \<Rightarrow> world \<Rightarrow> FeedRequest \<Rightarrow> node_state \<Rightarrow> goerr + FeedItemList" where
  "Textile_Feed fuel ls w req s =
     (if fr_Thread req \<noteq> [] \<and> loaded_thread (fr_Thread req) s = None then Inl ErrThreadNotFound
      else let blocks = Textile_Blocks (fr_Offset req) (fr_Limit req) (feed_query req) s
           in sum_map (\<lambda>(items, n). \<lparr>fl_Items = items, fl_Count = int32 n, fl_Next = nextOffset req blocks s\<rparr>)
                (case fr_Mode req of
                   FeedRequest_CHRONO \<Rightarrow> block_items fuel ls w s False blocks
                 | FeedRequest_ANNOTATED \<Rightarrow> block_items fuel ls w s True blocks
                 | FeedRequest_STACKS \<Rightarrow> stack_items fuel ls w s (feed_stacks blocks)
                 | FeedRequest_Other _ \<Rightarrow> Inr ([], 0)))"

section \<open>Lists of one type\<close>

definition of_thread :: "string \<Rightarrow> BlockType \<Rightarrow> blocks_row \<Rightarrow> bool" where
  "of_thread threadId ty r \<longleftrightarrow>
     (threadId \<noteq> [] \<longrightarrow> blocks_threadId r = threadId) \<and> blocks_type r = BlockType_to_int ty"

definition list_views ::
  "BlockType \<Rightarrow> string \<Rightarrow> int \<Rightarrow> string \<Rightarrow> (Block \<Rightarrow> goerr + feed_payload) \<Rightarrow> node_state \<Rightarrow> goerr + feed_payload list" where
  "list_views ty offset limit threadId view s =
     (if threadId \<noteq> [] \<and> loaded_thread threadId s = None then Inl ErrThreadNotFound
      else each_view view (Textile_Blocks offset limit (of_thread threadId ty) s))"

definition Textile_Files ::
  "(string \<Rightarrow> goerr + (string \<times> string) list) \<Rightarrow> world \<Rightarrow> string \<Rightarrow> int \<Rightarrow> string \<Rightarrow> node_state
   \<Rightarrow> goerr + feed_payload list" where
  "Textile_Files ls w offset limit threadId s =
     list_views Block_FILES offset limit threadId (\<lambda>b. feed_files ls w s b annotated) s"

definition Textile_File ::
  "(string \<Rightarrow> goerr + (string \<times> string) list) \<Rightarrow> world \<Rightarrow> string \<Rightarrow> node_state \<Rightarrow> goerr + feed_payload" where
  "Textile_File ls w bid s = with_block bid s (\<lambda>b. feed_files ls w s b annotated)"

definition Textile_Messages :: "string \<Rightarrow> int \<Rightarrow> string \<Rightarrow> node_state \<Rightarrow> goerr + feed_payload list" where
  "Textile_Messages offset limit threadId s =
     list_views Block_TEXT offset limit threadId (\<lambda>b. feed_message s b annotated) s"

definition Textile_Message :: "string \<Rightarrow> node_state \<Rightarrow> goerr + feed_payload" where
  "Textile_Message bid s = with_block bid s (\<lambda>b. feed_message s b annotated)"

end
