(* ===== verification/NodeApi.thy ===== *)
theory NodeApi
  imports HttpCodec CafeApi CafeTokens Feed Snapshots Queues
begin

text \<open>
  The HTTP API of a node, \<^verbatim>\<open>core/api.go\<close> and \<^verbatim>\<open>core/api_*.go\<close>: blocks, messages, comments, likes, files and
  the feed. A handler is an operation that returns its answer, a status with a body, an error or
  nothing; it is given the headers of arguments and options, the parameters of its path, and the body
  as what the library reads from it. The router answers a panic with the status 500 (\<open>recovered\<close>).
\<close>

section \<open>Answers\<close>

record api_node =
  an_fuel :: nat
  an_world :: world
  an_net :: net
  an_cafe :: cafe_env
  an_threads :: thread_env
  an_files :: files_env
  an_tokens :: token_env
  an_links :: "string \<Rightarrow> goerr + (string \<times> string) list"

datatype 'a answer = Answer nat 'a | Refused nat goerr | Status nat

type_synonym 'a route = "'a answer node_op"

text \<open>\<open>if err != nil { g.String(code, err.Error()); return }\<close>.\<close>

definition or_status :: "nat \<Rightarrow> 'b node_op \<Rightarrow> ('b \<Rightarrow> 'a route) \<Rightarrow> 'a route" where
  "or_status code op k =
     go_bind (go_try op) (\<lambda>r. case r of Inl err \<Rightarrow> go_return (Refused code err) | Inr x \<Rightarrow> k x)"

text \<open>The same for a lookup that chooses the status itself, \<open>sendError(g, err, code)\<close>.\<close>

definition or_code :: "(node_state \<Rightarrow> (nat \<times> goerr) + 'b) \<Rightarrow> ('b \<Rightarrow> 'a route) \<Rightarrow> 'a route" where
  "or_code f k =
     go_bind (go_get f) (\<lambda>r.
     case r of Inl (code, err) \<Rightarrow> if is_panic err then go_fail err else go_return (Refused code err)
     | Inr x \<Rightarrow> k x)"

definition refused :: "nat \<Rightarrow> string \<Rightarrow> 'a route" where
  "refused code msg = go_return (Refused code (ErrMsg msg))"

text \<open>A message that is nil cannot be printed.\<close>

definition pbJSON :: "nat \<Rightarrow> 'a option \<Rightarrow> 'a route" where
  "pbJSON status msg =
     (case msg of None \<Rightarrow> refused 400 ''Marshal called with nil'' | Some m \<Rightarrow> go_return (Answer status m))"

text \<open>The first argument, and the options; a header that cannot be read is an error of the server.\<close>

definition first_arg :: "string \<Rightarrow> string \<Rightarrow> (string \<Rightarrow> 'a route) \<Rightarrow> 'a route" where
  "first_arg header missing k =
     or_status 500 (go_lift (readArgs header)) (\<lambda>args.
     case args of [] \<Rightarrow> refused 400 missing | arg # _ \<Rightarrow> k arg)"

definition with_opts :: "string \<Rightarrow> (api_opts \<Rightarrow> 'a route) \<Rightarrow> 'a route" where
  "with_opts header k = or_status 500 (go_lift (readOpts header)) k"

definition with_limit :: "int \<Rightarrow> api_opts \<Rightarrow> (int \<Rightarrow> 'a route) \<Rightarrow> 'a route" where
  "with_limit fallback opts k =
     (if opt_of opts ''limit'' \<noteq> [] then or_status 400 (go_lift (Atoi (opt_of opts ''limit''))) k else k fallback)"

definition with_thread :: "string \<Rightarrow> (thread \<Rightarrow> 'a route) \<Rightarrow> 'a route" where
  "with_thread tid k =
     go_bind (go_get (loaded_thread tid)) (\<lambda>t.
     case t of None \<Rightarrow> go_return (Refused 404 ErrThreadNotFound) | Some t \<Rightarrow> k t)"

text \<open>A thread that is named must be there, an empty name stands for all.\<close>

definition check_thread :: "string \<Rightarrow> 'a route \<Rightarrow> 'a route" where
  "check_thread tid k = (if tid \<noteq> [] then with_thread tid (\<lambda>_. k) else k)"

definition ParseBool :: "string \<Rightarrow> goerr + bool" where
  "ParseBool x =
     (if x \<in> {''1'', ''t'', ''T'', ''TRUE'', ''true'', ''True''} then Inr True
      else if x \<in> {''0'', ''f'', ''F'', ''FALSE'', ''false'', ''False''} then Inr False
      else Inl (ErrMsg ''invalid syntax''))"

text \<open>The flush of the cafe outbox, which the code leaves to a goroutine.\<close>

definition FlushCafes :: "api_node \<Rightarrow> unit node_op" where
  "FlushCafes a =
     (let flush = CafeService_Flush (an_cafe a) (an_world a)
      in CafeOutbox_Flush (Some flush) (FlushBlocks (an_net a) (an_world a) flush) False)"

definition created :: "api_node \<Rightarrow> 'a \<Rightarrow> 'a route" where
  "created a body = go_seq (FlushCafes a) (pbJSON 201 (Some body))"

section \<open>Blocks\<close>

definition getBlock :: "string \<Rightarrow> node_state \<Rightarrow> (nat \<times> goerr) + (Block \<times> User)" where
  "getBlock bid s =
     (case BlockView bid s of Inl _ \<Rightarrow> Inl (404, ErrMsg ''block not found'') | Inr b \<Rightarrow> Inr b)"

definition getThread :: "string \<Rightarrow> node_state \<Rightarrow> (nat \<times> goerr) + thread" where
  "getThread tid s =
     (case loaded_thread tid s of None \<Rightarrow> Inl (404, ErrMsg ''thread not found'') | Some t \<Rightarrow> Inr t)"

definition getBlockThread :: "string \<Rightarrow> node_state \<Rightarrow> (nat \<times> goerr) + thread" where
  "getBlockThread bid s =
     (case getBlock bid s of Inl e \<Rightarrow> Inl e | Inr (block, _) \<Rightarrow> getThread (blk_Thread block) s)"

definition getFiles :: "api_node \<Rightarrow> string \<Rightarrow> node_state \<Rightarrow> (nat \<times> goerr) + feed_payload" where
  "getFiles a bid s =
     (case Textile_File (an_links a) (an_world a) bid s of Inl err \<Rightarrow> Inl (404, err) | Inr files \<Rightarrow> Inr files)"

fun files_of_view :: "feed_payload \<Rightarrow> feed_file option list" where
  "files_of_view (PFiles _ _ _ _ _ files _ _ _) = files"
| "files_of_view _ = []"

text \<open>
  The file at an index. For a path the file of the link is assigned to a variable of the inner block,
  and the result is the outer one, which is nil.
\<close>

definition getFile :: "feed_payload \<Rightarrow> string \<Rightarrow> string \<Rightarrow> (nat \<times> goerr) + FileIndex option" where
  "getFile view indexStr path =
     (case Atoi indexStr of Inl _ \<Rightarrow> Inl (400, ErrMsg ''invalid file index'')
      | Inr index \<Rightarrow>
          (let files = files_of_view view
           in if index < 0 \<or> int (length files) \<le> index then Inl (500, Panic ''index out of range'')
              else case files ! nat index of None \<Rightarrow> Inl (404, ErrMsg ''failed to get the file at index'')
              | Some f \<Rightarrow>
                  if path = [] \<or> path = ''.''
                  then (case ff_File f of None \<Rightarrow> Inl (404, ErrMsg ''no file content'') | Some fi \<Rightarrow> Inr (Some fi))
                  else (case map_of (ff_Links f) path of None \<Rightarrow> Inl (404, ErrMsg ''did not exist'')
                        | Some fi \<Rightarrow> Inr None)))"

definition getFilesFile ::
  "api_node \<Rightarrow> string \<Rightarrow> string \<Rightarrow> string \<Rightarrow> node_state \<Rightarrow> (nat \<times> goerr) + FileIndex option" where
  "getFilesFile a bid index path s =
     (case getFiles a bid s of Inl e \<Rightarrow> Inl e | Inr files \<Rightarrow> getFile files index path)"

definition getBlockMeta :: "string \<Rightarrow> (Block \<times> User) route" where
  "getBlockMeta bid = or_code (getBlock bid) (\<lambda>b. pbJSON 200 (Some b))"

definition getBlockFiles :: "api_node \<Rightarrow> string \<Rightarrow> feed_payload route" where
  "getBlockFiles a bid = or_code (getFiles a bid) (\<lambda>files. pbJSON 200 (Some files))"

definition getBlockFileMeta :: "api_node \<Rightarrow> string \<Rightarrow> string \<Rightarrow> string \<Rightarrow> FileIndex route" where
  "getBlockFileMeta a bid index path = or_code (getFilesFile a bid index path) (pbJSON 200)"

text \<open>The content with its media type; the file index is read even when it is nil.\<close>

definition getBlockFileContent :: "api_node \<Rightarrow> string \<Rightarrow> string \<Rightarrow> string \<Rightarrow> (string \<times> bytes) route" where
  "getBlockFileContent a bid index path =
     or_code (getFilesFile a bid index path) (\<lambda>file.
     case file of None \<Rightarrow> go_fail (Panic ''nil file index'')
     | Some f \<Rightarrow>
         or_status 404 (go_lift (FileIndexContent (an_files a) (an_world a) f)) (\<lambda>content.
         go_return (Answer 200 (file_Media f, content))))"

definition rmBlocks :: "api_node \<Rightarrow> string \<Rightarrow> (Block \<times> User) route" where
  "rmBlocks a blockID =
     or_code (getBlockThread blockID) (\<lambda>thread.
     or_status 500 (AddIgnore (an_world a) thread blockID) (\<lambda>hash.
     or_code (getBlock hash) (created a)))"

section \<open>The graph of blocks\<close>

definition pre :: "string \<Rightarrow> string" where
  "pre hash = (if length hash < 7 then hash else take 7 hash)"

definition toDot :: "Block \<Rightarrow> string" where
  "toDot block =
     BlockType_String (blk_Type block)
     @ (if blk_Type block \<noteq> Block_MERGE then ''_'' @ ShortenID (blk_Author block) else [])
     @ ''_'' @ pre (blk_Id block)"

definition edge :: "string \<Rightarrow> string \<Rightarrow> string" where
  "edge x y = [CHR 0x0A] @ ''    '' @ x @ '' -> '' @ y @ '';''"

fun parent_dots :: "world \<Rightarrow> string \<Rightarrow> string list \<Rightarrow> string node_op" where
  "parent_dots w dot [] = go_return []"
| "parent_dots w dot (p # ps) =
     (if TrimSpace p = [] then parent_dots w dot ps
      else go_bind (go_try (BlockByParent w p)) (\<lambda>r.
           go_bind (parent_dots w dot ps) (\<lambda>dots.
           go_return (edge dot (case r of Inl _ \<Rightarrow> ''MISSING_'' @ pre p | Inr pp \<Rightarrow> toDot pp) @ dots))))"

fun block_dots :: "world \<Rightarrow> Block list \<Rightarrow> string node_op" where
  "block_dots w [] = go_return []"
| "block_dots w (b # bs) =
     go_bind (parent_dots w (toDot b) (blk_Parents b)) (\<lambda>dots.
     go_bind (block_dots w bs) (\<lambda>more. go_return (dots @ more)))"

definition toDots :: "world \<Rightarrow> Block list \<Rightarrow> string node_op" where
  "toDots w blocks =
     go_bind (block_dots w blocks) (\<lambda>dots.
     go_return (''digraph {'' @ [CHR 0x0A] @ ''    rankdir='' @ [CHR 0x22] @ ''BT'' @ [CHR 0x22] @ '';''
       @ dots @ [CHR 0x0A] @ ''}''))"

datatype block_listing = BlockItems "(Block \<times> User) list" | BlockViz string int string

definition lsBlocks :: "api_node \<Rightarrow> string \<Rightarrow> block_listing route" where
  "lsBlocks a header =
     with_opts header (\<lambda>opts.
     let threadId = opt_of opts ''thread''
     in if threadId = [] then refused 400 ''missing thread id''
        else with_thread threadId (\<lambda>thread.
     with_limit 5 opts (\<lambda>limit.
     let query = (\<lambda>r. blocks_threadId r = t_Id thread)
     in go_bind (go_get (\<lambda>s. blocks_List (opt_of opts ''offset'') limit query (ns_blocks s))) (\<lambda>blocks.
        or_status 400 (if opt_of opts ''dots'' \<noteq> [] then go_lift (ParseBool (opt_of opts ''dots'')) else go_return False)
        (\<lambda>dots.
        if \<not> dots
        then go_bind (go_get (\<lambda>s. BlockItems (map (\<lambda>b. (b, PeerUser (blk_Author b) s)) blocks))) (\<lambda>items.
             pbJSON 200 (Some items))
        else
          go_bind (go_get (\<lambda>s.
             if blocks = [] then []
             else let offset = blk_Id (last blocks)
                  in if blocks_List offset 1 query (ns_blocks s) = [] then [] else offset)) (\<lambda>next_offset.
          or_status 400 (toDots (an_world a) blocks) (\<lambda>dotsf.
          pbJSON 200 (Some (BlockViz dotsf (int32 (int (length blocks))) next_offset)))))))))"

section \<open>Messages, comments and likes\<close>

definition addThreadMessages :: "api_node \<Rightarrow> string \<Rightarrow> string \<Rightarrow> feed_payload route" where
  "addThreadMessages a args threadId =
     first_arg args ''missing message body'' (\<lambda>body.
     with_thread threadId (\<lambda>thrd.
     or_status 400 (AddMessage (an_world a) thrd [] body) (\<lambda>hash.
     or_status 400 (go_bind (go_get (Textile_Message hash)) go_lift) (created a))))"

definition lsThreadMessages :: "string \<Rightarrow> feed_payload list route" where
  "lsThreadMessages header =
     with_opts header (\<lambda>opts.
     let threadId = opt_of opts ''thread''
     in check_thread threadId (with_limit 10 opts (\<lambda>limit.
        or_status 400 (go_bind (go_get (Textile_Messages (opt_of opts ''offset'') limit threadId)) go_lift) (\<lambda>list.
        pbJSON 200 (Some list)))))"

definition getThreadMessages :: "string \<Rightarrow> feed_payload route" where
  "getThreadMessages block =
     or_status 400 (go_bind (go_get (Textile_Message block)) go_lift) (\<lambda>info. pbJSON 200 (Some info))"

definition addBlockComments :: "api_node \<Rightarrow> string \<Rightarrow> string \<Rightarrow> comment_view route" where
  "addBlockComments a bid args =
     or_code (getBlockThread bid) (\<lambda>thread.
     first_arg args ''missing comment body'' (\<lambda>body.
     or_status 500 (AddComment (an_world a) thread bid body) (\<lambda>hash.
     or_status 400 (go_bind (go_get (Textile_Comment hash)) go_lift) (created a))))"

definition lsBlockComments :: "string \<Rightarrow> comment_view list route" where
  "lsBlockComments bid = go_bind (go_get (Comments bid)) (\<lambda>list. pbJSON 200 (Some list))"

definition getBlockComment :: "string \<Rightarrow> comment_view route" where
  "getBlockComment bid =
     or_status 400 (go_bind (go_get (Textile_Comment bid)) go_lift) (\<lambda>info. pbJSON 200 (Some info))"

definition addBlockLikes :: "api_node \<Rightarrow> string \<Rightarrow> like_view route" where
  "addBlockLikes a bid =
     or_code (getBlockThread bid) (\<lambda>thread.
     or_status 500 (AddLike (an_world a) thread bid) (\<lambda>hash.
     or_status 400 (go_bind (go_get (Textile_Like hash)) go_lift) (created a)))"

definition lsBlockLikes :: "string \<Rightarrow> like_view list route" where
  "lsBlockLikes bid = go_bind (go_get (Likes bid)) (\<lambda>list. pbJSON 200 (Some list))"

definition getBlockLike :: "string \<Rightarrow> like_view route" where
  "getBlockLike bid =
     or_status 400 (go_bind (go_get (Textile_Like bid)) go_lift) (\<lambda>info. pbJSON 200 (Some info))"

section \<open>Files\<close>

text \<open>The files of directories that hold one each; a later directory without it is read all the same.\<close>

fun single_files :: "(string \<times> FileIndex) list list \<Rightarrow> goerr + FileIndex list" where
  "single_files [] = Inr []"
| "single_files (dir # dirs) =
     (if dir = [] then single_files dirs
      else case map_of dir SingleFileTag of None \<Rightarrow> Inl (Panic ''nil file index'')
      | Some f \<Rightarrow>
          (case single_files dirs of Inl err \<Rightarrow> Inl err
           | Inr files \<Rightarrow> Inr (if file_Hash f \<noteq> [] then f # files else files)))"

text \<open>The node that was added is read back by its hash; a node that is not there stands for one that is nil.\<close>

definition addThreadFiles ::
  "api_node \<Rightarrow> string \<Rightarrow> string \<Rightarrow> goerr + (string \<times> FileIndex) list list \<Rightarrow> feed_payload route" where
  "addThreadFiles a header threadId body =
     (let w = an_world a; fe = an_files a
      in with_opts header (\<lambda>opts.
         with_thread threadId (\<lambda>thrd.
         or_status 400 (go_lift body) (\<lambda>dirs.
         if dirs = [] then refused 400 ''no files found''
         else
           or_status 400
             (if map_of (hd dirs) SingleFileTag \<noteq> None
              then go_bind (go_lift (single_files dirs)) (AddNodeFromFiles fe w)
              else AddNodeFromDirs fe w dirs) (\<lambda>(node, keys).
           case w_nodeAt w node of Inl _ \<Rightarrow> refused 400 ''no files found''
           | Inr nd \<Rightarrow>
               or_status 400 (AddFiles w thrd (Some nd) [] (opt_of opts ''caption'') keys) (\<lambda>hash.
               or_status 400 (go_bind (go_get (Textile_File (an_links a) w hash)) go_lift) (created a)))))))"

definition lsThreadFiles :: "api_node \<Rightarrow> string \<Rightarrow> feed_payload list route" where
  "lsThreadFiles a header =
     with_opts header (\<lambda>opts.
     let threadId = opt_of opts ''thread''
     in check_thread threadId (with_limit 5 opts (\<lambda>limit.
        or_status 400 (go_bind (go_get (Textile_Files (an_links a) (an_world a) (opt_of opts ''offset'') limit threadId))
          go_lift) (\<lambda>list. pbJSON 200 (Some list)))))"

definition lsThreadFileTargetKeys :: "api_node \<Rightarrow> string \<Rightarrow> (string \<times> string) list route" where
  "lsThreadFileTargetKeys a target =
     or_status 400 (go_lift (w_nodeAt (an_world a) target)) (\<lambda>node.
     or_status 400 (go_bind (go_get (TargetNodeKeys (an_world a) node)) go_lift) (\<lambda>keys. pbJSON 200 (Some keys)))"

definition getFileMeta :: "string \<Rightarrow> FileIndex route" where
  "getFileMeta hash =
     or_status 404 (go_bind (go_get (FileMeta hash)) go_lift) (\<lambda>file. pbJSON 200 (Some file))"

definition getFileContent :: "api_node \<Rightarrow> string \<Rightarrow> (string \<times> bytes) route" where
  "getFileContent a hash =
     or_status 404 (go_bind (go_get (FileContent (an_files a) (an_world a) hash)) go_lift) (\<lambda>(content, file).
     go_return (Answer 200 (file_Media file, content)))"

section \<open>The feed\<close>

text \<open>A mode that is no name of the enumeration is the first one.\<close>

definition FeedRequest_Mode_of_name :: "string \<Rightarrow> feed_mode" where
  "FeedRequest_Mode_of_name m =
     (if m = ''ANNOTATED'' then FeedRequest_ANNOTATED else if m = ''STACKS'' then FeedRequest_STACKS
      else FeedRequest_CHRONO)"

definition lsThreadFeed :: "api_node \<Rightarrow> string \<Rightarrow> FeedItemList route" where
  "lsThreadFeed a header =
     with_opts header (\<lambda>opts.
     let threadId = opt_of opts ''thread''
     in check_thread threadId (with_limit 5 opts (\<lambda>limit.
        or_status 400 (go_bind (go_get (Textile_Feed (an_fuel a) (an_links a) (an_world a)
            \<lparr>fr_Thread = threadId, fr_Offset = opt_of opts ''offset'', fr_Limit = int32 limit,
             fr_Mode = FeedRequest_Mode_of_name (map upper (opt_of opts ''mode''))\<rparr>)) go_lift) (\<lambda>list.
        pbJSON 200 (Some list)))))"

section \<open>Lemmas\<close>

text \<open>A relation that the steps of a route keep is kept by the route.\<close>

locale route_relation = step_relation R for R :: "node_state \<Rightarrow> node_state \<Rightarrow> bool"
begin

lemma keeps_or_status: "keeps op \<Longrightarrow> (\<And>x. keeps (k x)) \<Longrightarrow> keeps (or_status c op k)"
  unfolding or_status_def by (intro keeps_intros keeps_sum)

lemma keeps_refused: "keeps (refused c m)"
  unfolding refused_def by (intro keeps_intros)

lemma keeps_or_code: "(\<And>x. keeps (k x)) \<Longrightarrow> keeps (or_code f k)"
  unfolding or_code_def by (auto intro!: keeps_intros split: sum.splits)

lemma keeps_pbJSON: "keeps (pbJSON c m)"
  unfolding pbJSON_def by (intro keeps_intros keeps_refused)

lemma keeps_first_arg: "(\<And>x. keeps (k x)) \<Longrightarrow> keeps (first_arg h m k)"
  unfolding first_arg_def by (rule keeps_or_status [OF keeps_lift]) (auto intro!: keeps_refused split: list.splits)

lemma keeps_with_opts: "(\<And>x. keeps (k x)) \<Longrightarrow> keeps (with_opts h k)"
  unfolding with_opts_def by (intro keeps_or_status keeps_lift)

lemma keeps_with_limit: "(\<And>x. keeps (k x)) \<Longrightarrow> keeps (with_limit d o' k)"
  unfolding with_limit_def by (intro keeps_intros keeps_or_status)

lemma keeps_with_thread: "(\<And>x. keeps (k x)) \<Longrightarrow> keeps (with_thread t k)"
  unfolding with_thread_def by (intro keeps_intros)

lemma keeps_check_thread: "keeps k \<Longrightarrow> keeps (check_thread t k)"
  unfolding check_thread_def by (intro keeps_intros keeps_with_thread)

lemma keeps_prod: "(\<And>x y. keeps (k x y)) \<Longrightarrow> keeps (case p of (x, y) \<Rightarrow> k x y)"
  by (cases p) simp

lemmas keeps_routes = keeps_or_status keeps_refused keeps_or_code keeps_pbJSON keeps_first_arg keeps_with_opts
  keeps_with_limit keeps_with_thread keeps_check_thread keeps_prod keeps_intros keeps_sum

end

end
