(* ===== verification/NodeSearch.thy ===== *)
theory NodeSearch
  imports CafeApi Views
begin

text \<open>
  A search of a node, \<open>Textile.search\<close> of \<^verbatim>\<open>core/search.go\<close>: its own tables first, then the cafes it has a
  session with, or everybody when it has none. What is sent on the channel of results is a list. The
  searches of several cafes run at once, and end early when the result set is full: which of their
  results come in, and in which order, is the parameter \<open>arrivals\<close>.
\<close>

definition network_reply ::
  "timestamp \<Rightarrow> QueryResults \<Rightarrow> queryResultSet \<times> QueryResult list \<Rightarrow> bool \<times> queryResultSet \<times> QueryResult list" where
  "network_reply now res st =
     (let (results, sent) = st; (added, results') = rs_Add now (qrs_Items res) results
      in (rs_Full results', results', sent @ added))"

fun search_cafes ::
  "cafe_env \<Rightarrow> (MsgEnvelope \<Rightarrow> string \<Rightarrow> goerr + nat \<times> bytes) \<Rightarrow> (bytes \<Rightarrow> string) \<Rightarrow> Query \<Rightarrow> CafeSession list
   \<Rightarrow> (QueryResult list \<times> goerr option) list node_op" where
  "search_cafes ca http body_text query [] = go_return []"
| "search_cafes ca http body_text query (session # sessions) =
     go_bind (cafe_Search ca http body_text query (ses_Id session)) (\<lambda>answer.
     go_bind (search_cafes ca http body_text query sessions) (\<lambda>answers.
     go_return (answer # answers)))"

definition Textile_search ::
  "cafe_env \<Rightarrow> world \<Rightarrow> (MsgEnvelope \<Rightarrow> string \<Rightarrow> goerr + nat \<times> bytes) \<Rightarrow> (bytes \<Rightarrow> string)
   \<Rightarrow> (QueryResult list list \<Rightarrow> QueryResult list) \<Rightarrow> query_event list \<Rightarrow> Query
   \<Rightarrow> (QueryResult list \<times> goerr list) node_op" where
  "Textile_search ca w http body_text arrivals events query0 =
     go_bind (new_ksuid w) (\<lambda>qid.
     let query = (queryDefaults query0)\<lparr>q_Id := qid\<rparr>
     in case q_Options query of None \<Rightarrow> go_fail (Panic ''nil query options'')
     | Some options \<Rightarrow>
       go_bind (go_get (\<lambda>s. cafe_sessions_List (ns_cafe_sessions s))) (\<lambda>sessions.
       go_bind (TimestampNow w) (\<lambda>now.
       go_bind (go_get (\<lambda>s. if qo_RemoteOnly options then Inr (newQueryResultSet options)
                           else searchLocal w (ca_encryptThread ca) now (q_Type query) options (q_Payload query) True s))
       (\<lambda>found.
       case found of Inl err \<Rightarrow> go_return ([], [err])
       | Inr results \<Rightarrow>
         (let sent = (if qo_RemoteOnly options then [] else rs_List results)
          in if qo_LocalOnly options \<or> rs_Full results then go_return (sent, [])
             else if sessions = []
             then go_bind (searchPubSub ca w query options (network_reply now) events False (results, sent))
                    (\<lambda>((_, sent'), err). go_return (sent', case err of None \<Rightarrow> [] | Some e \<Rightarrow> [e]))
             else go_bind (search_cafes ca http body_text query sessions) (\<lambda>answers.
                  go_return (sent @ fst (rs_Add now (arrivals (map fst answers)) results),
                             List.map_filter snd answers)))))))"

section \<open>Contacts\<close>

text \<open>\<open>SearchContacts\<close> asks for the newest results and not for the peer itself.\<close>

definition contact_query :: "world \<Rightarrow> string \<Rightarrow> string \<Rightarrow> QueryOptions \<Rightarrow> node_state \<Rightarrow> Query" where
  "contact_query w address name options s =
     \<lparr>q_Id = [], q_Token = [], q_Type = Query_CONTACTS,
      q_Options = Some (options\<lparr>qo_Filter := HIDE_OLDER,
        qo_Exclude := (case Profile w s of None \<Rightarrow> qo_Exclude options | Some self \<Rightarrow> qo_Exclude options @ [peer_Id self])\<rparr>),
      q_Payload = Some (AnyContactQuery address name)\<rparr>"

text \<open>The contact that every peer that is found leads to, with the peers of its address so far.\<close>

fun contact_results :: "(string \<times> Contact) list \<Rightarrow> QueryResult list \<Rightarrow> Contact list \<times> goerr list" where
  "contact_results found [] = ([], [])"
| "contact_results found (res # rest) =
     (case qr_Value res of
        AnyPeer peer \<Rightarrow>
          (let (found', c) = add_result found peer; (cs, errs) = contact_results found' rest in (c # cs, errs))
      | _ \<Rightarrow> (let (cs, errs) = contact_results found rest in (cs, any_error # errs)))"

definition SearchContacts ::
  "world \<Rightarrow> (Query \<Rightarrow> (QueryResult list \<times> goerr list) node_op) \<Rightarrow> string \<Rightarrow> string \<Rightarrow> QueryOptions
   \<Rightarrow> (Contact list \<times> goerr list) node_op" where
  "SearchContacts w search address name options =
     go_bind (go_get (contact_query w address name options)) (\<lambda>query.
     go_bind (search query) (\<lambda>(results, errs).
     let (cs, errs') = contact_results [] results in go_return (cs, errs' @ errs)))"

section \<open>Lemmas\<close>

text \<open>A search whose local results are enough, or that is local only, sends nothing to anybody.\<close>

lemma draws_send_nothing:
  "ns_effects (snd (TimestampNow w s)) = ns_effects s" "ns_effects (snd (new_ksuid w s)) = ns_effects s"
  by (simp_all add: TimestampNow_def new_ksuid_def draw_def go_defs Let_def)

lemma local_search_stays_local:
  assumes "q_Options (queryDefaults query) = Some options" "qo_LocalOnly options"
  shows "ns_effects (snd (Textile_search ca w http body_text arrivals events query s)) = ns_effects s"
  using assms draws_send_nothing
  by (simp add: Textile_search_def TimestampNow_def new_ksuid_def draw_def go_bind_def go_get_def go_return_def Let_def
      split: sum.splits)

text \<open>Every contact that is sent has a peer at its end, the one it was sent for.\<close>

lemma contact_results_peers:
  "map (\<lambda>c. last (con_Peers c)) (fst (contact_results found results))
     = List.map_filter (\<lambda>r. case qr_Value r of AnyPeer p \<Rightarrow> Some p | _ \<Rightarrow> None) results"
proof -
  have fill: "con_Peers (fill_contact c ps) = con_Peers c" for c ps
    by (induction c ps rule: fill_contact.induct) (auto simp: Let_def)
  have last_peer: "last (con_Peers (snd (add_result found p))) = p" for found p
    by (simp add: add_result_def Let_def ensureContactUser_def fill)
  show ?thesis
  proof (induction found results rule: contact_results.induct)
    case (2 found res rest)
    show ?case
    proof (cases "qr_Value res")
      case (AnyPeer p)
      obtain found' c where add: "add_result found p = (found', c)" by fastforce
      obtain cs errs where rest: "contact_results found' rest = (cs, errs)" by fastforce
      show ?thesis
        using "2.IH"(1) [OF AnyPeer add [symmetric] refl] AnyPeer add rest last_peer [of found p]
        by (simp add: List.map_filter_simps)
    qed (use "2.IH" in \<open>auto simp: List.map_filter_simps split: prod.splits\<close>)
  qed (simp add: List.map_filter_simps)
qed

end
