(* ===== verification/NodeApiAdmin.thy ===== *)
theory NodeApiAdmin
  imports NodeApi NodeSearch "HOL-Library.List_Lexorder" "HOL-Library.Char_ord"
begin

text \<open>
  The rest of the HTTP API of a node: threads and snapshots, invites, contacts and the profile, cafes and
  their tokens, notifications, mills, IPFS, searches and the observation of threads, and the
  configuration (\<^verbatim>\<open>core/api_*.go\<close>, \<^verbatim>\<open>core/tokens.go\<close>, \<^verbatim>\<open>core/summary.go\<close>).
\<close>

section \<open>Threads\<close>

definition Thread_Type_value :: "(string \<times> int) list" where
  "Thread_Type_value = [(''PRIVATE'', 0), (''READ_ONLY'', 1), (''PUBLIC'', 2), (''OPEN'', 3)]"

definition Thread_Sharing_value :: "(string \<times> int) list" where
  "Thread_Sharing_value = [(''NOT_SHARED'', 0), (''INVITE_ONLY'', 1), (''SHARED'', 2)]"

text \<open>A name in any case; what is no name is the first value.\<close>

definition pbValForEnumString :: "(string \<times> int) list \<Rightarrow> string \<Rightarrow> int" where
  "pbValForEnumString vals str =
     (case List.find (\<lambda>e. map lower (fst e) = map lower str) vals of Some e \<Rightarrow> snd e | None \<Rightarrow> 0)"

definition addThreads_config :: "string \<Rightarrow> string \<Rightarrow> api_opts \<Rightarrow> AddThreadConfig" where
  "addThreads_config name key opts =
     \<lparr>cf_Key = key, cf_Name = name,
      cf_Schema = (if opt_of opts ''schema'' \<noteq> []
                   then Some \<lparr>sc_Id = opt_of opts ''schema'', sc_Json = [], sc_Preset = []\<rparr> else None),
      cf_Type = ThreadType_of_int (pbValForEnumString Thread_Type_value (opt_of opts ''type'')),
      cf_Sharing = Sharing_of_int (pbValForEnumString Thread_Sharing_value (opt_of opts ''sharing'')),
      cf_Whitelist = SplitString (opt_of opts ''whitelist'') CHR '','', cf_Force = False\<rparr>"

text \<open>\<open>generate\<close> draws a new secret.\<close>

definition addThreads ::
  "api_node \<Rightarrow> (nat \<Rightarrow> goerr + bytes) \<Rightarrow> string \<Rightarrow> string \<Rightarrow> ThreadView route" where
  "addThreads a generate args header =
     (let w = an_world a
      in first_arg args ''missing thread name'' (\<lambda>name.
         with_opts header (\<lambda>opts.
         go_bind (if opt_of opts ''key'' \<noteq> [] then go_return (opt_of opts ''key'') else new_ksuid w) (\<lambda>key.
         or_status 500 (go_bind (draw generate) go_lift) (\<lambda>sk.
         or_status 400 (AddThread (an_fuel a) w (an_threads a) (addThreads_config name key opts) sk (w_accountAddress w)
             True True) (\<lambda>thrd.
         or_status 500 (Textile_ThreadView w (t_Id thrd)) (created a)))))))"

text \<open>What \<open>AddOrUpdateThread\<close> leaves to a goroutine runs before the flush.\<close>

definition addOrUpdateThreads :: "api_node \<Rightarrow> string \<Rightarrow> goerr + Thread \<Rightarrow> unit route" where
  "addOrUpdateThreads a tid body =
     (let w = an_world a
      in or_status 400 (go_lift body) (\<lambda>thrd.
         if thr_Id thrd = [] \<or> thr_Sk thrd = [] then refused 400 ''invalid thread''
         else if thr_Id thrd \<noteq> tid then refused 400 ''thread id mismatch''
         else or_status 400 (AddOrUpdateThread (an_fuel a) w (an_threads a) thrd) (\<lambda>rest.
              go_seq (snapshot_background (an_fuel a) w (FlushCafes a) rest)
             (go_seq (FlushCafes a) (go_return (Status 204))))))"

definition renameThreads :: "api_node \<Rightarrow> string \<Rightarrow> string \<Rightarrow> unit route" where
  "renameThreads a tid args =
     first_arg args ''missing thread name'' (\<lambda>name.
     or_status 400 (RenameThread (an_world a) tid name) (\<lambda>_.
     go_seq (FlushCafes a) (go_return (Status 204))))"

text \<open>A thread that cannot be viewed is left out.\<close>

fun thread_views :: "world \<Rightarrow> string list \<Rightarrow> ThreadView list node_op" where
  "thread_views w [] = go_return []"
| "thread_views w (tid # tids) =
     go_bind (go_try (Textile_ThreadView w tid)) (\<lambda>r.
     go_bind (thread_views w tids) (\<lambda>views.
     go_return (case r of Inl _ \<Rightarrow> views | Inr view \<Rightarrow> view # views)))"

definition lsThreads :: "api_node \<Rightarrow> ThreadView list route" where
  "lsThreads a =
     go_bind (go_get (\<lambda>s. map t_Id (Textile_Threads (an_world a) s))) (\<lambda>tids.
     go_bind (thread_views (an_world a) tids) (\<lambda>views. pbJSON 200 (Some views)))"

definition getThreads :: "api_node \<Rightarrow> string \<Rightarrow> ThreadView route" where
  "getThreads a tid =
     go_bind (go_try (Textile_ThreadView (an_world a) tid)) (\<lambda>r.
     case r of Inl _ \<Rightarrow> go_return (Refused 404 ErrThreadNotFound) | Inr view \<Rightarrow> pbJSON 200 (Some view))"

definition peersThreads :: "string \<Rightarrow> Peer list route" where
  "peersThreads tid =
     or_status 400 (go_bind (go_get (Textile_ThreadPeers tid)) go_lift) (\<lambda>peers. pbJSON 200 (Some peers))"

definition rmThreads :: "api_node \<Rightarrow> string \<Rightarrow> unit route" where
  "rmThreads a tid =
     with_thread tid (\<lambda>_.
     or_status 500 (RemoveThread (an_world a) tid) (\<lambda>_.
     go_seq (FlushCafes a) (go_return (Status 204))))"

definition createThreadSnapshots :: "api_node \<Rightarrow> string route" where
  "createThreadSnapshots a =
     or_status 400 (SnapshotThreads (an_world a)) (\<lambda>_.
     go_seq (FlushCafes a) (go_return (Answer 201 ''ok'')))"

section \<open>Invites\<close>

definition createInvites :: "api_node \<Rightarrow> string \<Rightarrow> ExternalInvite route" where
  "createInvites a header =
     (let fe = an_files a
      in with_opts header (\<lambda>opts.
         let threadId = opt_of opts ''thread''
         in if opt_of opts ''address'' \<noteq> []
            then or_status 400 (Textile_AddInvite (an_world a) (an_threads a) threadId (opt_of opts ''address'')) (\<lambda>_.
                 go_seq (FlushCafes a) (go_return (Status 201)))
            else or_status 400 (Textile_AddExternalInvite (an_world a) (fe_enc58 fe) (fe_newKey fe)
                   (EncryptAES (fe_aes fe)) threadId) (created a)))"

definition lsInvites :: "api_node \<Rightarrow> InviteView list route" where
  "lsInvites a =
     go_bind (TimestampNow (an_world a)) (\<lambda>now.
     go_bind (go_bind (go_get (Textile_Invites now)) go_lift) (\<lambda>list. pbJSON 200 (Some list)))"

text \<open>Accepting gives no hash for a thread that is there already.\<close>

definition acceptInvites :: "api_node \<Rightarrow> string \<Rightarrow> string \<Rightarrow> (Block \<times> User) route" where
  "acceptInvites a iid header =
     (let w = an_world a; te = an_threads a; fe = an_files a
      in with_opts header (\<lambda>opts.
         or_status 400
           (if opt_of opts ''key'' \<noteq> []
            then go_bind (go_lift (fe_dec58 fe (opt_of opts ''key'')))
                   (AcceptExternalInvite (an_fuel a) w te (DecryptAES (fe_aes fe)) iid)
            else AcceptInvite (an_fuel a) w te iid) (\<lambda>r.
         case r of None \<Rightarrow> refused 409 ''thread already exists''
         | Some (hash, t, parents) \<Rightarrow>
             or_status 400 (go_bind (go_get (BlockView hash)) go_lift) (created a))))"

definition ignoreInvites :: "api_node \<Rightarrow> string \<Rightarrow> string route" where
  "ignoreInvites a iid =
     or_status 400 (IgnoreInvite iid) (\<lambda>_. go_seq (FlushCafes a) (go_return (Answer 200 ''ok'')))"

section \<open>Contacts, profile and account\<close>

definition addContacts :: "api_node \<Rightarrow> string \<Rightarrow> goerr + Contact \<Rightarrow> unit route" where
  "addContacts a address body =
     or_status 400 (go_lift body) (\<lambda>contact.
     if con_Address contact = [] \<or> con_Peers contact = [] then refused 400 ''invalid contact''
     else if con_Address contact \<noteq> address then refused 400 ''contact address mismatch''
     else or_status 400 (AddContact (an_world a) (con_Peers contact)) (\<lambda>_.
          go_seq (FlushCafes a) (go_return (Status 204))))"

definition lsContacts :: "api_node \<Rightarrow> Contact list route" where
  "lsContacts a = go_bind (go_get (contacts (an_world a) True)) (\<lambda>list. pbJSON 200 (Some list))"

definition getContacts :: "string \<Rightarrow> Contact route" where
  "getContacts address =
     go_bind (go_get (contact address True)) (\<lambda>c.
     case c of None \<Rightarrow> refused 404 ''contact not found'' | Some c \<Rightarrow> pbJSON 200 (Some c))"

definition rmContacts :: "api_node \<Rightarrow> string \<Rightarrow> unit route" where
  "rmContacts a address =
     go_bind (go_get (contact address True)) (\<lambda>c.
     case c of None \<Rightarrow> refused 404 ''contact not found''
     | Some _ \<Rightarrow>
         or_status 500 (RemoveContact (an_world a) address) (\<lambda>_.
         go_seq (FlushCafes a) (go_return (Status 204))))"

definition getProfile :: "api_node \<Rightarrow> Peer route" where
  "getProfile a =
     go_bind (go_get (Profile (an_world a))) (\<lambda>p.
     case p of None \<Rightarrow> refused 400 ''profile is not set'' | Some p \<Rightarrow> pbJSON 200 (Some p))"

definition api_setName :: "api_node \<Rightarrow> string \<Rightarrow> string route" where
  "api_setName a args =
     first_arg args ''missing name'' (\<lambda>name.
     or_status 500 (SetName (an_world a) (publishPeer (an_cafe a) (an_world a)) name) (\<lambda>_.
     go_seq (FlushCafes a) (go_return (Answer 201 ''ok''))))"

definition api_setAvatar :: "api_node \<Rightarrow> string route" where
  "api_setAvatar a =
     or_status 500 (SetAvatar (an_world a) (publishPeer (an_cafe a) (an_world a))) (\<lambda>_.
     go_seq (FlushCafes a) (go_return (Answer 201 ''ok'')))"

definition accountGet :: "api_node \<Rightarrow> Contact route" where
  "accountGet a = go_bind (go_get (AccountContact (an_world a))) (pbJSON 200)"

definition accountAddress :: "api_node \<Rightarrow> string route" where
  "accountAddress a = go_return (Answer 200 (w_accountAddress (an_world a)))"

section \<open>The summary\<close>

record Summary =
  sum_Id :: string
  sum_Address :: string
  sum_AccountPeerCount :: int
  sum_ThreadCount :: int
  sum_FilesCount :: int
  sum_ContactCount :: int

definition Textile_Summary :: "world \<Rightarrow> node_state \<Rightarrow> Summary" where
  "Textile_Summary w s =
     \<lparr>sum_Id = w_self w, sum_Address = w_accountAddress w,
      sum_AccountPeerCount =
        int32 (int32 (peers_Count (\<lambda>r. peers_address r = w_accountAddress w) (ns_peers s)) - 1),
      sum_ThreadCount = int32 (threads_Count (ns_threads s)),
      sum_FilesCount = int32 (blocks_Count (\<lambda>r. blocks_type r = BlockType_to_int Block_FILES) (ns_blocks s)),
      sum_ContactCount = int32 (int (length (contacts w True s)))\<rparr>"

definition nodeSummary :: "api_node \<Rightarrow> Summary route" where
  "nodeSummary a = go_bind (go_get (Textile_Summary (an_world a))) (\<lambda>summary. pbJSON 200 (Some summary))"

section \<open>Cafes, tokens and notifications\<close>

definition addCafes :: "api_node \<Rightarrow> string \<Rightarrow> string \<Rightarrow> CafeSession route" where
  "addCafes a args header =
     first_arg args ''missing cafe id'' (\<lambda>cafe.
     with_opts header (\<lambda>opts.
     let token = opt_of opts ''token''
     in if token = [] then refused 400 ''missing access token''
        else or_status 500 (RegisterCafe (an_cafe a) (an_world a) cafe token) (created a)))"

definition lsCafes :: "CafeSession list route" where
  "lsCafes = go_bind (go_get (\<lambda>s. cafe_sessions_List (ns_cafe_sessions s))) (\<lambda>list. pbJSON 200 (Some list))"

definition getCafes :: "string \<Rightarrow> CafeSession route" where
  "getCafes cid =
     go_bind (go_get (\<lambda>s. cafe_sessions_Get cid (ns_cafe_sessions s))) (\<lambda>session.
     case session of None \<Rightarrow> refused 404 ''cafe not found'' | Some x \<Rightarrow> pbJSON 200 (Some x))"

definition rmCafes :: "api_node \<Rightarrow> string \<Rightarrow> unit route" where
  "rmCafes a cid =
     or_status 500 (DeregisterCafe (an_cafe a) (an_world a) cid) (\<lambda>_.
     go_seq (FlushCafes a) (go_return (Status 204)))"

definition checkCafeMessages :: "api_node \<Rightarrow> string route" where
  "checkCafeMessages a =
     or_status 500 (CafeInbox_CheckMessages (an_fuel a) (an_cafe a) (an_world a)) (\<lambda>_.
     go_seq (FlushCafes a) (go_return (Answer 200 ''ok'')))"

definition createTokens :: "api_node \<Rightarrow> string \<Rightarrow> string route" where
  "createTokens a header =
     with_opts header (\<lambda>opts.
     or_status 400 (CreateCafeToken (an_world a) (an_tokens a) (opt_of opts ''token'') (opt_of opts ''store'' = ''true''))
       (\<lambda>token. go_return (Answer 201 token)))"

text \<open>The list prints what is stored: the first bytes of a token and the hash of the others.\<close>

fun hex_decode :: "string \<Rightarrow> goerr + bytes" where
  "hex_decode [] = Inr []"
| "hex_decode [c] = Inl (ErrMsg ''odd length hex string'')"
| "hex_decode (c # d # cs) =
     (case (unhex c, unhex d) of
        (Some x, Some y) \<Rightarrow>
          (case hex_decode cs of Inl err \<Rightarrow> Inl err | Inr bs \<Rightarrow> Inr (word_of_nat (16 * x + y) # bs))
      | _ \<Rightarrow> Inl (ErrMsg ''invalid byte''))"

definition tokens_List :: "cafe_tokens_row sql_table \<Rightarrow> CafeToken list" where
  "tokens_List t = map cafe_tokens_dec (rev (sort_key cafe_tokens_id t))"

definition CafeTokens :: "token_env \<Rightarrow> node_state \<Rightarrow> goerr + string list" where
  "CafeTokens tk s =
     each_view (\<lambda>token. case hex_decode (tok_Id token) of Inl err \<Rightarrow> Inl err
                        | Inr tid \<Rightarrow> Inr (tk_enc58 tk (tid @ tok_Value token)))
       (tokens_List (ns_cafe_tokens s))"

definition lsTokens :: "api_node \<Rightarrow> string list route" where
  "lsTokens a =
     or_status 500 (go_bind (go_get (CafeTokens (an_tokens a))) go_lift) (\<lambda>tokens. go_return (Answer 200 tokens))"

definition validateTokens :: "api_node \<Rightarrow> string \<Rightarrow> string route" where
  "validateTokens a token =
     go_bind (go_get (ValidateCafeToken (an_tokens a) token)) (\<lambda>(ok, err).
     if err \<noteq> None \<or> \<not> ok then refused 401 ''invalid credentials'' else go_return (Answer 200 ''ok''))"

definition rmTokens :: "api_node \<Rightarrow> string \<Rightarrow> unit route" where
  "rmTokens a token =
     or_status 500 (RemoveCafeToken (an_tokens a) token) (\<lambda>_. go_return (Status 204))"

definition lsNotifications :: "api_node \<Rightarrow> (Notification \<times> User option) list route" where
  "lsNotifications a =
     go_bind (TimestampNow (an_world a)) (\<lambda>now.
     go_bind (go_bind (go_get (Textile_Notifications now [] (- 1))) go_lift) (\<lambda>list. pbJSON 200 (Some list)))"

definition readNotifications :: "string \<Rightarrow> string route" where
  "readNotifications nid =
     or_status 400 (if nid = ''all'' then ReadAllNotifications else ReadNotification nid) (\<lambda>_.
     go_return (Answer 200 ''ok''))"

end
