(* ===== verification/NodeApiData.thy ===== *)
theory NodeApiData
  imports NodeApiAdmin
begin

text \<open>
  The routes of the HTTP API of a node that go through libraries: mills and their input
  (\<^verbatim>\<open>core/api_mill.go\<close>), IPFS, ping and publish, the streams of searches and of thread updates, and the
  configuration file. What a library does is a parameter.
\<close>

section \<open>Mills\<close>

text \<open>The first attached file with its name; \<open>form\<close> is what the parser of the body finds.\<close>

definition openFile :: "goerr + (goerr + bytes \<times> string) list \<Rightarrow> goerr + bytes \<times> string" where
  "openFile form =
     (case form of Inl err \<Rightarrow> Inl err
      | Inr [] \<Rightarrow> Inl (ErrMsg ''no file attached'')
      | Inr (f # _) \<Rightarrow> f)"

record mill_env =
  me_detect :: "bytes \<Rightarrow> string"
  me_parsePath :: "string \<Rightarrow> goerr + string"

text \<open>
  The input of a mill is the attached file, or a file that is named. A name that the index does not
  know is looked for in IPFS, if the error of the index is \<open>ErrFileNotFound\<close>.
\<close>

definition getFileConfig ::
  "api_node \<Rightarrow> mill_env \<Rightarrow> mill \<Rightarrow> goerr + (goerr + bytes \<times> string) list \<Rightarrow> string \<Rightarrow> bool \<Rightarrow> AddFileConfig node_op" where
  "getFileConfig a me ml form use plaintext =
     go_bind
       (if use = []
        then go_bind (go_lift (openFile form)) (\<lambda>(f, fn). go_return (f, fn, []))
        else
          go_bind (go_lift (me_parsePath me use)) (\<lambda>ref.
          go_bind (go_try (go_bind (go_get (FileContent (an_files a) (an_world a) (last (Split CHR ''/'' ref)))) go_lift))
          (\<lambda>r.
          case r of
            Inr (content, file) \<Rightarrow> go_return (content, [], file_Checksum file)
          | Inl err \<Rightarrow>
              if err = ErrFileNotFound
              then go_bind (go_lift (w_dataAt (an_world a) ref)) (\<lambda>b. go_return (b, [], ref))
              else go_fail err)))
       (\<lambda>(input, fname, used).
        let (media, accepted) = GetMillMedia (me_detect me) input ml
        in go_seq (go_lift accepted)
             (go_return \<lparr>af_Input = input, af_Use = used, af_Media = media, af_Name = fname, af_Plaintext = plaintext\<rparr>))"

text \<open>The answer is the file index that was added, or the one that was there.\<close>

definition add_milled :: "api_node \<Rightarrow> mill \<Rightarrow> AddFileConfig \<Rightarrow> FileIndex route" where
  "add_milled a ml conf = or_status 400 (AddFileIndex (an_files a) (an_world a) ml conf) (pbJSON 201)"

definition schemaMill :: "api_node \<Rightarrow> (bytes \<Rightarrow> goerr + bytes) \<Rightarrow> goerr + bytes \<Rightarrow> FileIndex route" where
  "schemaMill a schema_mill body =
     or_status 400 (go_lift body) (\<lambda>b.
     add_milled a (Schema_mill (an_files a) schema_mill)
       \<lparr>af_Input = b, af_Use = [], af_Media = ''application/json'', af_Name = [], af_Plaintext = False\<rparr>)"

definition blobMill ::
  "api_node \<Rightarrow> mill_env \<Rightarrow> string \<Rightarrow> goerr + (goerr + bytes \<times> string) list \<Rightarrow> FileIndex route" where
  "blobMill a me header form =
     with_opts header (\<lambda>opts.
     or_status 400 (getFileConfig a me (Blob_mill (an_files a)) form (opt_of opts ''use'') (opt_of opts ''plaintext'' = ''true''))
       (add_milled a (Blob_mill (an_files a))))"

text \<open>\<open>resize\<close> is the mill for a width and a quality.\<close>

definition imageResizeMill ::
  "api_node \<Rightarrow> mill_env \<Rightarrow> (string \<Rightarrow> string \<Rightarrow> mill) \<Rightarrow> string \<Rightarrow> goerr + (goerr + bytes \<times> string) list \<Rightarrow> FileIndex route" where
  "imageResizeMill a me resize header form =
     with_opts header (\<lambda>opts.
     if opt_of opts ''width'' = [] then refused 400 ''missing width''
     else let ml = resize (opt_of opts ''width'') (if opt_of opts ''quality'' \<noteq> [] then opt_of opts ''quality'' else ''75'')
          in or_status 400 (getFileConfig a me ml form (opt_of opts ''use'') (opt_of opts ''plaintext'' = ''true''))
               (add_milled a ml))"

definition imageExifMill ::
  "api_node \<Rightarrow> mill_env \<Rightarrow> mill \<Rightarrow> string \<Rightarrow> goerr + (goerr + bytes \<times> string) list \<Rightarrow> FileIndex route" where
  "imageExifMill a me exif header form =
     with_opts header (\<lambda>opts.
     or_status 400 (getFileConfig a me exif form (opt_of opts ''use'') (opt_of opts ''plaintext'' = ''true'')) (\<lambda>conf.
     add_milled a exif (conf\<lparr>af_Media := ''application/json''\<rparr>)))"

text \<open>A body that was read is not nil.\<close>

definition jsonMill :: "api_node \<Rightarrow> string \<Rightarrow> goerr + bytes \<Rightarrow> FileIndex route" where
  "jsonMill a header body =
     with_opts header (\<lambda>opts.
     let conf = \<lparr>af_Input = [], af_Use = [], af_Media = ''application/json'', af_Name = [],
                 af_Plaintext = (opt_of opts ''plaintext'' = ''true'')\<rparr>
     in if opt_of opts ''use'' = []
        then or_status 400 (go_lift body) (\<lambda>b. add_milled a (Json_mill (an_files a)) (conf\<lparr>af_Input := b\<rparr>))
        else or_status 400 (go_bind (go_get (FileContent (an_files a) (an_world a) (opt_of opts ''use''))) go_lift)
          (\<lambda>(content, file).
          add_milled a (Json_mill (an_files a)) (conf\<lparr>af_Input := content, af_Use := file_Checksum file\<rparr>)))"

section \<open>IPFS and the network\<close>

definition ipfsId :: "api_node \<Rightarrow> string route" where
  "ipfsId a = go_return (Answer 200 (w_self (an_world a)))"

text \<open>
  The content of a path, decrypted with a key that is given. The handler goes on after an error of
  the key, so the answer has the status of the first error and all texts, and the content, which is
  empty then.
\<close>

definition ipfsCat :: "api_node \<Rightarrow> string \<Rightarrow> string \<Rightarrow> (nat \<times> goerr list \<times> bytes) route" where
  "ipfsCat a pth header =
     (if pth = [] then or_status 400 (go_lift (readOpts header)) (\<lambda>_. go_fail (Panic ''slice bounds out of range''))
      else with_opts header (\<lambda>opts.
        or_status 404 (go_lift (w_dataAt (an_world a) (tl pth))) (\<lambda>data.
        if opt_of opts ''key'' = [] then go_return (Answer 200 (200, [], data))
        else
          let (errs1, key) = (case fe_dec58 (an_files a) (opt_of opts ''key'') of
                                Inl err \<Rightarrow> ([(400, err)], []) | Inr key \<Rightarrow> ([], key))
          in case DecryptAES (fe_aes (an_files a)) data key of
               Inl err \<Rightarrow>
                 if is_panic err then go_fail err
                 else let errs = errs1 @ [(401, err)]
                      in go_return (Answer (fst (hd errs)) (fst (hd errs), map snd errs, []))
             | Inr plaintext \<Rightarrow>
                 (case errs1 of [] \<Rightarrow> go_return (Answer 200 (200, [], plaintext))
                  | (code, err) # _ \<Rightarrow> go_return (Answer code (code, [err], plaintext))))))"

datatype PeerStatus = PeerOnline | PeerOffline

definition service_Ping :: "service_net \<Rightarrow> (nat \<Rightarrow> int) \<Rightarrow> string \<Rightarrow> PeerStatus node_op" where
  "service_Ping sn rand p =
     go_bind (draw rand) (\<lambda>rid.
     go_bind (go_lift (NewEnvelope sn Message_PING None (Some rid) False)) (\<lambda>env.
     go_bind (go_try (SendRequest sn p env)) (\<lambda>r.
     go_return (case r of Inl _ \<Rightarrow> PeerOffline | Inr _ \<Rightarrow> PeerOnline))))"

definition api_ping :: "api_node \<Rightarrow> (nat \<Rightarrow> int) \<Rightarrow> string \<Rightarrow> PeerStatus route" where
  "api_ping a rand args =
     first_arg args ''missing peer id'' (\<lambda>arg.
     or_status 400 (go_lift (sn_decodePeer (ca_net (an_cafe a)) arg)) (\<lambda>pid.
     or_status 500 (service_Ping (ca_net (an_cafe a)) rand pid) (\<lambda>status. go_return (Answer 200 status))))"

definition api_publish :: "(nat \<Rightarrow> string \<Rightarrow> bytes \<Rightarrow> goerr + unit) \<Rightarrow> string \<Rightarrow> goerr + bytes \<Rightarrow> unit route" where
  "api_publish publish args body =
     first_arg args ''missing topic'' (\<lambda>topic.
     or_status 400 (go_lift body) (\<lambda>payload.
     or_status 500 (go_bind (draw publish) (\<lambda>p. go_seq (go_lift (p topic payload)) (emit (PubSubSent topic)))) (\<lambda>_.
     go_return (Status 204))))"

section \<open>Streams\<close>

text \<open>
  What the loop of a search stream sees: the client is gone, an error, a result, or the end of the
  results. It ends with an error or the results; a client that is gone cancels the search, which
  ends the results.
\<close>

datatype 'a search_event = ClientGone | SearchFailed goerr | SearchFound 'a | SearchOver

fun handleSearchStream :: "'a search_event list \<Rightarrow> 'a list \<times> goerr option" where
  "handleSearchStream [] = ([], None)"
| "handleSearchStream (ClientGone # es) = handleSearchStream es"
| "handleSearchStream (SearchFailed err # es) = ([], Some err)"
| "handleSearchStream (SearchFound res # es) = (let (found, err) = handleSearchStream es in (res # found, err))"
| "handleSearchStream (SearchOver # es) = ([], None)"

text \<open>The options of a search; what cannot be read has its default.\<close>

definition search_options :: "api_opts \<Rightarrow> QueryOptions" where
  "search_options opts =
     \<lparr>qo_LocalOnly = (case ParseBool (opt_of opts ''local'') of Inl _ \<Rightarrow> False | Inr b \<Rightarrow> b),
      qo_RemoteOnly = (case ParseBool (opt_of opts ''remote'') of Inl _ \<Rightarrow> False | Inr b \<Rightarrow> b),
      qo_Limit = int32 (case Atoi (opt_of opts ''limit'') of Inl _ \<Rightarrow> 5 | Inr i \<Rightarrow> i),
      qo_Wait = int32 (case Atoi (opt_of opts ''wait'') of Inl _ \<Rightarrow> 5 | Inr i \<Rightarrow> i),
      qo_Filter = NO_FILTER, qo_Exclude = []\<rparr>"

text \<open>\<open>stream\<close> is the order in which contacts and errors arrive.\<close>

definition api_searchContacts ::
  "api_node \<Rightarrow> (Query \<Rightarrow> (QueryResult list \<times> goerr list) node_op) \<Rightarrow> (Contact list \<times> goerr list \<Rightarrow> Contact search_event list)
   \<Rightarrow> string \<Rightarrow> (Contact list \<times> goerr option) route" where
  "api_searchContacts a search stream header =
     with_opts header (\<lambda>opts.
     or_status 400 (SearchContacts (an_world a) search (opt_of opts ''address'') (opt_of opts ''name'') (search_options opts))
       (\<lambda>r. go_return (Answer 200 (handleSearchStream (stream r)))))"

definition searchThreadSnapshots ::
  "api_node \<Rightarrow> (bytes \<Rightarrow> goerr + bytes) \<Rightarrow> (bytes \<Rightarrow> goerr + Thread) \<Rightarrow> (Query \<Rightarrow> (QueryResult list \<times> goerr list) node_op)
   \<Rightarrow> (QueryResult list \<times> goerr list \<Rightarrow> (goerr + QueryResult) list) \<Rightarrow> string \<Rightarrow> (QueryResult list \<times> goerr option) route" where
  "searchThreadSnapshots a decrypt unmarshal search stream header =
     with_opts header (\<lambda>opts.
     let options = \<lparr>qo_LocalOnly = False, qo_RemoteOnly = False, qo_Limit = - 1,
           qo_Wait = int32 (case Atoi (opt_of opts ''wait'') of Inl _ \<Rightarrow> 5 | Inr i \<Rightarrow> i),
           qo_Filter = NO_FILTER, qo_Exclude = []\<rparr>
     in or_status 400 (SearchThreadSnapshots (an_world a) decrypt unmarshal search stream options) (\<lambda>found.
        go_return (Answer 200 (handleSearchStream
          (map (\<lambda>r. case r of Inl err \<Rightarrow> SearchFailed err | Inr res \<Rightarrow> SearchFound res) found)))))"

text \<open>
  The updates of threads. The route of one thread names its parameter \<open>thread\<close>, and the handler asks
  for the parameter \<open>id\<close>, which is the empty string when there is none.
\<close>

definition Param :: "(string \<times> string) list \<Rightarrow> string \<Rightarrow> string" where
  "Param params key = (case map_of params key of None \<Rightarrow> [] | Some v \<Rightarrow> v)"

definition observe_params :: "string option \<Rightarrow> (string \<times> string) list" where
  "observe_params thread = (case thread of None \<Rightarrow> [] | Some t \<Rightarrow> [(''thread'', t)])"

definition shows_update :: "string list \<Rightarrow> string \<Rightarrow> feed_item \<Rightarrow> goerr + bool" where
  "shows_update types threadId update =
     (if threadId \<noteq> [] \<and> fi_Thread update \<noteq> threadId then Inr False
      else case FeedItemType update of
        Inl err \<Rightarrow> if is_panic err then Inl err else Inr False
      | Inr btype \<Rightarrow> Inr (\<exists>t \<in> set types. t = [] \<or> BlockType_String btype = t))"

fun observe_updates :: "string list \<Rightarrow> string \<Rightarrow> feed_item list \<Rightarrow> goerr + feed_item list" where
  "observe_updates types threadId [] = Inr []"
| "observe_updates types threadId (update # updates) =
     (case shows_update types threadId update of Inl err \<Rightarrow> Inl err
      | Inr b \<Rightarrow>
          (case observe_updates types threadId updates of Inl err \<Rightarrow> Inl err
           | Inr shown \<Rightarrow> Inr (if b then update # shown else shown)))"

definition getThreadsObserve :: "string \<Rightarrow> (string \<times> string) list \<Rightarrow> feed_item list \<Rightarrow> feed_item list route" where
  "getThreadsObserve header params updates =
     with_opts header (\<lambda>opts.
     go_bind (go_lift (observe_updates (Split CHR ''|'' (TrimSpace (map upper (opt_of opts ''type''))))
       (Param params ''id'') updates)) (\<lambda>shown. go_return (Answer 200 shown)))"

section \<open>The configuration\<close>

text \<open>A value of the configuration as reflection sees it: a struct, a pointer or anything else.\<close>

datatype go_value = GoStruct "(string \<times> go_value) list" | GoPtr "go_value option" | GoOther string

fun deref :: "go_value \<Rightarrow> go_value option" where
  "deref (GoPtr None) = None"
| "deref (GoPtr (Some v)) = deref v"
| "deref v = Some v"

fun key_value :: "string list \<Rightarrow> go_value \<Rightarrow> goerr + go_value" where
  "key_value [] v = Inr v"
| "key_value (key # keys) v =
     (case deref v of
        Some (GoStruct fs) \<Rightarrow>
          (case map_of fs key of None \<Rightarrow> Inl (ErrMsg ''empty struct value'') | Some f \<Rightarrow> key_value keys f)
      | _ \<Rightarrow> Inl (ErrMsg ''unable to parse struct path''))"

definition getKeyValue :: "string \<Rightarrow> go_value \<Rightarrow> goerr + go_value" where
  "getKeyValue path v = key_value (Split CHR ''/'' path) v"

definition getConfig :: "go_value \<Rightarrow> string \<Rightarrow> go_value route" where
  "getConfig conf pth =
     (if pth = [] then go_return (Answer 200 conf)
      else or_status 400 (go_lift (getKeyValue (tl pth) conf)) (\<lambda>v. go_return (Answer 200 v)))"

text \<open>
  The file of the configuration is replaced when everything before could be done. \<open>decode\<close> reads the JSON
  of a configuration, \<open>print\<close> prints it; the result is the answer and the file.
\<close>

definition setConfig ::
  "(bytes \<Rightarrow> goerr + 'c) \<Rightarrow> ('c \<Rightarrow> goerr + bytes) \<Rightarrow> goerr + bytes \<Rightarrow> bytes \<Rightarrow> unit answer \<times> bytes" where
  "setConfig decode print body file =
     (case body of Inl err \<Rightarrow> (Refused 400 err, file)
      | Inr b \<Rightarrow>
          (case decode b of Inl err \<Rightarrow> (Refused 400 err, file)
           | Inr conf \<Rightarrow>
               (case print conf of Inl err \<Rightarrow> (Refused 400 err, file) | Inr jsn \<Rightarrow> (Status 204, jsn))))"

definition patchConfig ::
  "(bytes \<Rightarrow> goerr + (bytes \<Rightarrow> goerr + bytes)) \<Rightarrow> (bytes \<Rightarrow> goerr + 'c) \<Rightarrow> ('c \<Rightarrow> goerr + bytes)
   \<Rightarrow> goerr + bytes \<Rightarrow> bytes \<Rightarrow> unit answer \<times> bytes" where
  "patchConfig decodePatch decode print body file =
     (case body of Inl err \<Rightarrow> (Refused 400 err, file)
      | Inr b \<Rightarrow>
          (case decodePatch b of Inl err \<Rightarrow> (Refused 400 err, file)
           | Inr patch \<Rightarrow>
               (case patch file of Inl err \<Rightarrow> (Refused 400 err, file)
                | Inr modified \<Rightarrow> setConfig decode print (Inr modified) file)))"

end
