(* ===== verification/ApiRelation.thy ===== *)
theory ApiRelation
  imports AccountRelation NodeApiData
begin

text \<open>
  The requests that change a node over its HTTP API: a step relation with one rule for each route, and
  the proof that every relation that the operations of a node keep is kept by its routes too.
\<close>

section \<open>The routes\<close>

sublocale node_relation \<subseteq> route: route_relation R
  by unfold_locales

context node_relation
begin

lemmas [node_rules] = route.keeps_or_status route.keeps_refused route.keeps_or_code route.keeps_pbJSON route.keeps_first_arg
  route.keeps_with_opts route.keeps_with_limit route.keeps_with_thread route.keeps_check_thread

lemma keeps_FlushCafes [node_rules]: "keeps (FlushCafes a)"
  unfolding FlushCafes_def Let_def CafeOutbox_Flush_def option.case
  by (intro node_rules key_rules keeps_FlushBlocks(2))

lemma keeps_created [node_rules]: "keeps (created a x)"
  unfolding created_def by (intro node_rules)

lemma keeps_block_routes [node_rules]:
  "keeps (rmBlocks a b)" "keeps (addThreadMessages a h t)" "keeps (addBlockComments a b h)" "keeps (addBlockLikes a b)"
  "keeps (addThreadFiles a h t body)"
  unfolding rmBlocks_def addThreadMessages_def addBlockComments_def addBlockLikes_def addThreadFiles_def Let_def
  by (intro node_rules key_rules)+

lemma keeps_thread_routes [node_rules]:
  "keeps (renameThreads a t h)" "keeps (rmThreads a t)" "keeps (createThreadSnapshots a)"
  "keeps (ignoreInvites a i)" "keeps (lsInvites a)"
  unfolding renameThreads_def rmThreads_def createThreadSnapshots_def ignoreInvites_def lsInvites_def Let_def
  by (intro node_rules key_rules)+

lemma keeps_account_routes [node_rules]:
  "keeps (addContacts a ad body)" "keeps (rmContacts a ad)" "keeps (api_setName a h)" "keeps (api_setAvatar a)"
  "keeps (addCafes a h o')" "keeps (rmCafes a c)"  "keeps (createTokens a h)" "keeps (rmTokens a tk)"
  "keeps (lsNotifications a)" "keeps (readNotifications i)"
  unfolding addContacts_def rmContacts_def api_setName_def api_setAvatar_def addCafes_def rmCafes_def createTokens_def
    rmTokens_def lsNotifications_def readNotifications_def Let_def
  by (intro node_rules key_rules keeps_profile)+

lemma keeps_data_routes [node_rules]:
  "keeps (schemaMill a sm body)" "keeps (blobMill a me h form)" "keeps (imageResizeMill a me rs h form)"
  "keeps (imageExifMill a me ex h form)" "keeps (jsonMill a h body)" "keeps (api_ping a rnd h)"
  "keeps (api_publish pub h body)"
  unfolding schemaMill_def blobMill_def imageResizeMill_def imageExifMill_def jsonMill_def api_ping_def api_publish_def
    service_Ping_def add_milled_def getFileConfig_def Let_def
  by (intro node_rules key_rules)+

lemma keeps_schema_routes:
  assumes "\<And>j. keeps (te_addSchema (an_threads a) j)"
  shows "keeps (addThreads a gen args h)" "keeps (addOrUpdateThreads a tid body)" "keeps (createInvites a h)"
    "keeps (acceptInvites a iid h)"
proof -
  have u: "keeps (AddOrUpdateThread fuel w (an_threads a) snap)" for fuel w snap
    unfolding AddOrUpdateThread_def by (intro node_rules key_rules keeps_AddThread assms)
  have v: "keeps (head_blocks w hs)" for w hs by (induction hs) (auto intro!: node_rules)
  show "keeps (addThreads a gen args h)"
    unfolding addThreads_def Textile_ThreadView_def Let_def by (intro node_rules keeps_AddThread assms v)
  show "keeps (addOrUpdateThreads a tid body)"
    unfolding addOrUpdateThreads_def Let_def by (intro node_rules u keeps_snapshots(2) [where te = "an_threads a"] assms)
  show "keeps (createInvites a h)"
    unfolding createInvites_def Textile_AddExternalInvite_def Let_def by (intro node_rules keeps_snapshots(3) [where te = "an_threads a" and flush = "go_return ()"] assms)
  show "keeps (acceptInvites a iid h)"
    unfolding acceptInvites_def Let_def by (intro node_rules keeps_invites assms)
qed

lemma keeps_mail_routes:
  assumes "keeps (ca_inboxFlush (an_cafe a))"
  shows "keeps (checkCafeMessages a)"
  unfolding checkCafeMessages_def by (intro node_rules keeps_CafeInbox_CheckMessages assms)

end

section \<open>Requests\<close>

text \<open>A request to a route that changes the node. What the handler is given beside its request are the libraries.\<close>

inductive api_step :: "api_node \<Rightarrow> node_state \<Rightarrow> node_state \<Rightarrow> bool" for a :: api_node where
  "api_step a s (snd (rmBlocks a bid s))"
| "api_step a s (snd (addThreadMessages a args tid s))"
| "api_step a s (snd (addBlockComments a bid args s))"
| "api_step a s (snd (addBlockLikes a bid s))"
| "api_step a s (snd (addThreadFiles a opts tid dirs s))"
| "api_step a s (snd (addThreads a gen args opts s))"
| "api_step a s (snd (addOrUpdateThreads a tid snap s))"
| "api_step a s (snd (renameThreads a tid args s))"
| "api_step a s (snd (rmThreads a tid s))"
| "api_step a s (snd (createThreadSnapshots a s))"
| "api_step a s (snd (createInvites a opts s))"
| "api_step a s (snd (lsInvites a s))"
| "api_step a s (snd (acceptInvites a iid opts s))"
| "api_step a s (snd (ignoreInvites a iid s))"
| "api_step a s (snd (addContacts a address con s))"
| "api_step a s (snd (rmContacts a address s))"
| "api_step a s (snd (api_setName a args s))"
| "api_step a s (snd (api_setAvatar a s))"
| "api_step a s (snd (addCafes a args opts s))"
| "api_step a s (snd (rmCafes a cid s))"
| "api_step a s (snd (checkCafeMessages a s))"
| "api_step a s (snd (createTokens a opts s))"
| "api_step a s (snd (rmTokens a token s))"
| "api_step a s (snd (lsNotifications a s))"
| "api_step a s (snd (readNotifications nid s))"
| "api_step a s (snd (schemaMill a sm body s))"
| "api_step a s (snd (blobMill a me opts form s))"
| "api_step a s (snd (imageResizeMill a me resize opts form s))"
| "api_step a s (snd (imageExifMill a me exif opts form s))"
| "api_step a s (snd (jsonMill a opts body s))"
| "api_step a s (snd (api_ping a rnd args s))"
| "api_step a s (snd (api_publish pub args body s))"

context node_relation
begin

lemma api_step_kept:
  assumes "api_step a s s'" "\<And>j. keeps (te_addSchema (an_threads a) j)" "keeps (ca_inboxFlush (an_cafe a))"
  shows "R s s'"
  using assms(1) by cases (auto intro!: keepsD node_rules keeps_schema_routes keeps_mail_routes assms(2,3))

end

end
