(* ===== verification/NodeInvariant.thy ===== *)
theory NodeInvariant
  imports ApiRelation CafeMail
begin

text \<open>
  The states a node can reach from an empty repository, and what holds in all of them: every table
  has unique primary keys and no thread is loaded twice.
\<close>

section \<open>The invariant\<close>

definition keys_unique :: "node_state \<Rightarrow> bool" where
  "keys_unique s \<longleftrightarrow>
     distinct (map blocks_id (ns_blocks s)) \<and> distinct (map threads_id (ns_threads s))
     \<and> distinct (map thread_peers_key (ns_thread_peers s))
     \<and> distinct (map block_messages_id (ns_block_messages s)) \<and> distinct (map invites_id (ns_invites s))
     \<and> distinct (map notifications_id (ns_notifications s)) \<and> distinct (map peers_id (ns_peers s))
     \<and> distinct (map files_key (ns_files s)) \<and> distinct (map cafe_sessions_cafeId (ns_cafe_sessions s))
     \<and> distinct (map cafe_requests_id (ns_cafe_requests s)) \<and> distinct (map cafe_messages_id (ns_cafe_messages s))
     \<and> distinct (map cafe_client_nonces_value (ns_cafe_client_nonces s))
     \<and> distinct (map cafe_clients_id (ns_cafe_clients s))
     \<and> distinct (map cafe_client_threads_key (ns_cafe_client_threads s))
     \<and> distinct (map cafe_client_messages_key (ns_cafe_client_messages s))
     \<and> distinct (map cafe_tokens_id (ns_cafe_tokens s)) \<and> distinct (map t_Id (ns_loaded s))"

definition keyed :: "node_state \<Rightarrow> node_state \<Rightarrow> bool" where
  "keyed s s' \<longleftrightarrow> (keys_unique s \<longrightarrow> keys_unique s')"

lemma loaded_fresh: "loaded_thread i s = None \<Longrightarrow> i \<notin> t_Id ` set (ns_loaded s)"
  by (auto simp: loaded_thread_def find_None_iff)

interpretation keyed: node_relation keyed
proof unfold_locales
  show "keyed s (s\<lparr>ns_loaded := ns_loaded s @ [th]\<rparr>)" if "loaded_thread (t_Id th) s = None" for th s
    using loaded_fresh [OF that] by (simp add: keyed_def keys_unique_def)
  show "keyed s (s\<lparr>ns_loaded := map f (ns_loaded s)\<rparr>)" if "\<And>th. t_Id (f th) = t_Id th" for s f
  proof -
    have "t_Id \<circ> f = t_Id" using that by (simp add: fun_eq_iff)
    then show ?thesis by (simp add: keyed_def keys_unique_def)
  qed
  show "keyed s (s\<lparr>ns_loaded := remove1 th (ns_loaded s)\<rparr>)" for s th
  proof -
    have "distinct (map t_Id l) \<Longrightarrow> distinct (map t_Id (remove1 th l))" for l :: "thread list"
      by (induction l) (auto dest: subsetD [OF set_remove1_subset])
    then show ?thesis by (simp add: keyed_def keys_unique_def)
  qed
qed (auto simp: keyed_def keys_unique_def)

text \<open>A second relation that every operation keeps: the effects are a history, and draws are never taken back.\<close>

definition history :: "node_state \<Rightarrow> node_state \<Rightarrow> bool" where
  "history s s' \<longleftrightarrow> ns_tick s \<le> ns_tick s' \<and> (\<exists>es. ns_effects s' = ns_effects s @ es)"

interpretation history: node_relation history
  by unfold_locales (auto simp: history_def)

section \<open>Reachable states\<close>

definition empty_node :: "node_state \<Rightarrow> bool" where
  "empty_node s \<longleftrightarrow> ns_blocks s = [] \<and> ns_threads s = [] \<and> ns_thread_peers s = [] \<and> ns_block_messages s = []
     \<and> ns_invites s = [] \<and> ns_notifications s = [] \<and> ns_peers s = [] \<and> ns_files s = [] \<and> ns_cafe_sessions s = []
     \<and> ns_cafe_requests s = [] \<and> ns_cafe_messages s = [] \<and> ns_cafe_client_nonces s = [] \<and> ns_cafe_clients s = []
     \<and> ns_cafe_client_threads s = [] \<and> ns_cafe_client_messages s = [] \<and> ns_cafe_tokens s = [] \<and> ns_loaded s = []"

text \<open>
  What stands behind the parameters of a node in the code: the threads service adds and removes threads with
  the operations of the node, a schema is stored as a file, and a flush of the inbox delivers
  messages, one after the other, to the handler of the threads service.
\<close>

definition wired :: "world \<Rightarrow> thread_env \<Rightarrow> cafe_env \<Rightarrow> service_env \<Rightarrow> bool" where
  "wired w te ca sv \<longleftrightarrow>
     (\<forall>p ps. \<exists>fuel. sv_addThread sv p ps = go_bind (handleThreadAdd fuel w te p ps) (\<lambda>_. go_return ()))
     \<and> (\<forall>i. sv_removeThread sv i = go_bind (RemoveThread w i) (\<lambda>_. go_return ()))
     \<and> (\<forall>j. \<exists>fe smill reprint name. te_addSchema te j =
          go_bind (Textile_AddSchema fe w smill reprint j name) (\<lambda>sf.
          case sf of None \<Rightarrow> go_fail (Panic ''nil file index'') | Some f \<Rightarrow> go_return (file_Hash f)))
     \<and> (\<forall>s. \<exists>decodePeer unmarshal verify payload msgs. snd (ca_inboxFlush ca s) = snd (go_foreach
          (CafeInbox_step w decodePeer unmarshal verify
            (\<lambda>env pid. go_bind (go_lift (payload env)) (\<lambda>tenv. go_bind (Handle w sv tenv) (\<lambda>_. go_return ())))) msgs s))"

inductive reachable :: "world \<Rightarrow> thread_env \<Rightarrow> cafe_env \<Rightarrow> service_env \<Rightarrow> net \<Rightarrow> node_state \<Rightarrow> bool"
  for w te ca sv n where
  start: "empty_node s \<Longrightarrow> reachable w te ca sv n s"
| envelope: "reachable w te ca sv n s \<Longrightarrow> reachable w te ca sv n (snd (Handle w sv tenv s))"
| tail: "reachable w te ca sv n s \<Longrightarrow> reachable w te ca sv n (snd (handle_tail fuel w t ps hs s))"
| cafe_request: "reachable w te ca sv n s \<Longrightarrow> reachable w te ca sv n (snd (CafeService_Handle fuel ca w m p s))"
| cafe_query: "reachable w te ca sv n s \<Longrightarrow> reachable w te ca sv n (snd (handleQuery ca w es m p s))"
| outbox: "reachable w te ca sv n s \<Longrightarrow> reachable w te ca sv n (snd (BlockOutbox_Flush n w s))"
| blocks: "reachable w te ca sv n s \<Longrightarrow> reachable w te ca sv n (snd (FlushBlocks n w (CafeService_Flush ca w) s))"
| requests: "reachable w te ca sv n s \<Longrightarrow> reachable w te ca sv n (snd (CafeService_Flush ca w s))"
| downloads: "reachable w te ca sv n s \<Longrightarrow> reachable w te ca sv n (snd (BlockDownloads_batch fuel w ds s))"
| inbox: "reachable w te ca sv n s \<Longrightarrow> reachable w te ca sv n (snd (CafeInbox_CheckMessages fuel ca w s))"
| message: "reachable w te ca sv n s \<Longrightarrow> reachable w te ca sv n (snd (AddMessage w t x y s))"
| comment: "reachable w te ca sv n s \<Longrightarrow> reachable w te ca sv n (snd (AddComment w t x y s))"
| like: "reachable w te ca sv n s \<Longrightarrow> reachable w te ca sv n (snd (AddLike w t x s))"
| flag: "reachable w te ca sv n s \<Longrightarrow> reachable w te ca sv n (snd (AddFlag w t x s))"
| ignore: "reachable w te ca sv n s \<Longrightarrow> reachable w te ca sv n (snd (AddIgnore w t x s))"
| files: "reachable w te ca sv n s \<Longrightarrow> reachable w te ca sv n (snd (AddFiles w t nd x y ks s))"
| thread: "reachable w te ca sv n s \<Longrightarrow> reachable w te ca sv n (snd (AddThread fuel w te conf sk i j b s))"
| remove: "reachable w te ca sv n s \<Longrightarrow> reachable w te ca sv n (snd (RemoveThread w x s))"
| rename: "reachable w te ca sv n s \<Longrightarrow> reachable w te ca sv n (snd (RenameThread w x y s))"
| invite: "reachable w te ca sv n s \<Longrightarrow> reachable w te ca sv n (snd (Textile_AddInvite w te x y s))"
| accept: "reachable w te ca sv n s \<Longrightarrow> reachable w te ca sv n (snd (AcceptInvite fuel w te x s))"
| accept_external: "reachable w te ca sv n s \<Longrightarrow> reachable w te ca sv n (snd (AcceptExternalInvite fuel w te aes x k s))"
| accept_note: "reachable w te ca sv n s \<Longrightarrow> reachable w te ca sv n (snd (AcceptInviteViaNotification fuel w te x s))"
| ignore_invite: "reachable w te ca sv n s \<Longrightarrow> reachable w te ca sv n (snd (IgnoreInvite x s))"
| ignore_note: "reachable w te ca sv n s \<Longrightarrow> reachable w te ca sv n (snd (IgnoreInviteViaNotification x s))"
| read_note: "reachable w te ca sv n s \<Longrightarrow> reachable w te ca sv n (snd (ReadNotification x s))"
| read_all: "reachable w te ca sv n s \<Longrightarrow> reachable w te ca sv n (snd (ReadAllNotifications s))"
| contact: "reachable w te ca sv n s \<Longrightarrow> reachable w te ca sv n (snd (AddContact w peers s))"
| no_contact: "reachable w te ca sv n s \<Longrightarrow> reachable w te ca sv n (snd (RemoveContact w x s))"
| name: "reachable w te ca sv n s \<Longrightarrow> reachable w te ca sv n (snd (SetName w (publishPeer ca w) x s))"
| avatar: "reachable w te ca sv n s \<Longrightarrow> reachable w te ca sv n (snd (SetAvatar w (publishPeer ca w) s))"
| register: "reachable w te ca sv n s \<Longrightarrow> reachable w te ca sv n (snd (RegisterCafe ca w x y s))"
| deregister: "reachable w te ca sv n s \<Longrightarrow> reachable w te ca sv n (snd (DeregisterCafe ca w x s))"
| refresh: "reachable w te ca sv n s \<Longrightarrow> reachable w te ca sv n (snd (RefreshCafeSession ca w x s))"
| snapshot: "reachable w te ca sv n s \<Longrightarrow> reachable w te ca sv n (snd (SnapshotThreads w s))"
| token: "reachable w te ca sv n s \<Longrightarrow> reachable w te ca sv n (snd (CreateCafeToken w tk x b s))"
| no_token: "reachable w te ca sv n s \<Longrightarrow> reachable w te ca sv n (snd (RemoveCafeToken tk x s))"
| load: "reachable w te ca sv n s \<Longrightarrow> reachable w te ca sv n (snd (load_threads te s))"
| load_schemas: "reachable w te ca sv n s \<Longrightarrow> reachable w te ca sv n (snd (loadThreadSchemas te s))"
| account: "reachable w te ca sv n s \<Longrightarrow> reachable w te ca sv n
     (snd (addAccountThread fuel w te
        \<lparr>ac_id = aid, ac_privKey = sk, ac_addSchema = Textile_AddSchema fe w smill reprint preset ''avatars''\<rparr> s))"
| stop: "reachable w te ca sv n s \<Longrightarrow> reachable w te ca sv n (snd (Stop s))"
| apply_snapshot: "reachable w te ca sv n s \<Longrightarrow> reachable w te ca sv n (snd (applySnapshot fuel w te dec res s))"
| snapshot_rest: "reachable w te ca sv n s \<Longrightarrow> reachable w te ca sv n
     (snd (snapshot_background fuel w (CafeService_Flush ca w) rest s))"
| external_invite: "reachable w te ca sv n s \<Longrightarrow> reachable w te ca sv n (snd (AddExternalInvite w draws aes t s))"
| add_file: "reachable w te ca sv n s \<Longrightarrow> reachable w te ca sv n (snd (AddFileIndex fe w ml fconf s))"
| data_node: "reachable w te ca sv n s \<Longrightarrow> reachable w te ca sv n (snd (AddNodeFromFiles fe w fs s))"
| data_dirs: "reachable w te ca sv n s \<Longrightarrow> reachable w te ca sv n (snd (AddNodeFromDirs fe w dirs s))"
| http_store: "reachable w te ca sv n s \<Longrightarrow> reachable w te ca sv n (snd (validateToken ca w h (\<lambda>_. api_store_form ca w form) s))"
| http_unstore: "reachable w te ca sv n s \<Longrightarrow> reachable w te ca sv n (snd (validateToken ca w h (\<lambda>_. api_unstore ca w x) s))"
| http_thread: "reachable w te ca sv n s \<Longrightarrow> reachable w te ca sv n (snd (validateToken ca w h (\<lambda>from. api_storeThread from x body) s))"
| http_no_thread: "reachable w te ca sv n s \<Longrightarrow> reachable w te ca sv n (snd (validateToken ca w h (\<lambda>from. api_unstoreThread from x) s))"
| http_message: "reachable w te ca sv n s \<Longrightarrow> reachable w te ca sv n (snd (api_deliverMessage ca w x y body s))"
| http_search: "reachable w te ca sv n s \<Longrightarrow> reachable w te ca sv n (snd (api_search ca w es marshal x body s))"
| http_pin: "reachable w te ca sv n s \<Longrightarrow> reachable w te ca sv n (snd (api_pin w pinned s))"
| api: "reachable w te ca sv n s \<Longrightarrow> an_world a = w \<Longrightarrow> an_threads a = te \<Longrightarrow> an_cafe a = ca \<Longrightarrow> an_net a = n
     \<Longrightarrow> api_step a s s' \<Longrightarrow> reachable w te ca sv n s'"

lemma wiredD:
  assumes "wired w te ca sv"
  shows "keyed.keeps (te_addSchema te j)" "keyed.keeps (ca_inboxFlush ca)"
    "keyed.keeps (sv_addThread sv p ps)" "keyed.keeps (sv_removeThread sv i)"
proof -
  show schema: "keyed.keeps (te_addSchema te j)" for j
  proof -
    obtain fe smill reprint name where "te_addSchema te j =
        go_bind (Textile_AddSchema fe w smill reprint j name) (\<lambda>sf.
        case sf of None \<Rightarrow> go_fail (Panic ''nil file index'') | Some f \<Rightarrow> go_return (file_Hash f))"
      using assms unfolding wired_def by blast
    then show ?thesis
      by (simp add: keyed.keeps_bind keyed.keeps_files_ops keyed.keeps_option keyed.keeps_fail keyed.keeps_return)
  qed
  show add: "keyed.keeps (sv_addThread sv p ps)" for p ps
  proof -
    obtain fuel where f: "sv_addThread sv p ps = go_bind (handleThreadAdd fuel w te p ps) (\<lambda>_. go_return ())"
      using assms unfolding wired_def by blast
    show ?thesis unfolding f by (intro keyed.keeps_bind keyed.keeps_return keyed.keeps_invites schema)
  qed
  show remove: "keyed.keeps (sv_removeThread sv i)" for i
  proof -
    have r: "sv_removeThread sv i = go_bind (RemoveThread w i) (\<lambda>_. go_return ())"
      using assms unfolding wired_def by blast
    show ?thesis unfolding r by (intro keyed.keeps_bind keyed.keeps_return keyed.keeps_admin)
  qed
  show "keyed.keeps (ca_inboxFlush ca)"
  proof (rule keyed.keepsI)
    fix s
    obtain decodePeer unmarshal verify payload msgs where "snd (ca_inboxFlush ca s) = snd (go_foreach
          (CafeInbox_step w decodePeer unmarshal verify
            (\<lambda>env pid. go_bind (go_lift (payload env)) (\<lambda>tenv. go_bind (Handle w sv tenv) (\<lambda>_. go_return ())))) msgs s)"
      using assms unfolding wired_def by blast
    moreover have "keyed.keeps (go_foreach (CafeInbox_step w decodePeer unmarshal verify
            (\<lambda>env pid. go_bind (go_lift (payload env)) (\<lambda>tenv. go_bind (Handle w sv tenv) (\<lambda>_. go_return ())))) msgs)"
      by (intro keyed.keeps_foreach keyed.keeps_CafeInbox_step keyed.keeps_bind keyed.keeps_lift keyed.keeps_return
          keyed.keeps_Handle add remove)
    ultimately show "keyed s (snd (ca_inboxFlush ca s))" by (simp add: keyed.keepsD)
  qed
qed
lemma keeps_wired:
  assumes "wired w te ca sv"
  shows "keyed.keeps (addAccountThread fuel w te
      \<lparr>ac_id = aid, ac_privKey = sk, ac_addSchema = Textile_AddSchema fe w smill reprint preset ''avatars''\<rparr>)"
    "keyed.keeps (applySnapshot fuel w te dec res)"
    "keyed.keeps (snapshot_background fuel w (CafeService_Flush ca w) rest)"
    "keyed.keeps (AddExternalInvite w draws aes t)"
proof -
  have schema: "keyed.keeps (te_addSchema te j)" for j by (rule wiredD [OF assms])
  show "keyed.keeps (addAccountThread fuel w te
      \<lparr>ac_id = aid, ac_privKey = sk, ac_addSchema = Textile_AddSchema fe w smill reprint preset ''avatars''\<rparr>)"
    by (rule keyed.keeps_threads_of_account [OF schema]) (simp add: keyed.keeps_files_ops)
  show "keyed.keeps (applySnapshot fuel w te dec res)"
    "keyed.keeps (snapshot_background fuel w (CafeService_Flush ca w) rest)"
    "keyed.keeps (AddExternalInvite w draws aes t)"
    by (rule keyed.keeps_snapshots [OF schema keyed.keeps_CafeService_Flush])+
qed

lemma keeps_http:
  "keyed.keeps (validateToken ca w h (\<lambda>_. api_store_form ca w form))"
  "keyed.keeps (validateToken ca w h (\<lambda>_. api_unstore ca w x))"
  "keyed.keeps (validateToken ca w h (\<lambda>from. api_storeThread from x body))"
  "keyed.keeps (validateToken ca w h (\<lambda>from. api_unstoreThread from x))"
  "keyed.keeps (api_deliverMessage ca w x y body)" "keyed.keeps (api_search ca w es marshal x body)"
  "keyed.keeps (api_pin w pinned)"
  by (intro keyed.keeps_validateToken keyed.keeps_api keyed.keeps_api_pin)+

text \<open>In every state a node can reach from an empty repository, by its own operations, by envelopes,
  cafe and HTTP requests from anybody, by the requests to its own API and by its queues, whatever fails in between, the primary keys of the
  tables are unique and no thread is loaded twice. The table of the configuration, which has one row for each
  key it is given, and the entry points of the mobile library are not among the steps.\<close>

lemma keys_stay_unique:
  assumes "reachable w te ca sv n s" "wired w te ca sv"
  shows "keys_unique s"
  using assms(1)
proof (induction rule: reachable.induct)
  case (start s)
  then show ?case by (simp add: empty_node_def keys_unique_def)
next
  case (api s a s')
  then have "keyed s s'"
    using wiredD(1,2) [OF assms(2)] by (intro keyed.api_step_kept [OF api.hyps(6)]) simp_all
  with api.IH show ?case by (simp add: keyed_def)
qed (blast intro: keyed.keepsD [THEN keyed_def [THEN iffD1, THEN mp]] keyed.keeps_Handle keyed.keeps_handle_tail
    keyed.keeps_CafeService_Handle keyed.keeps_handleQuery keyed.keeps_BlockOutbox_Flush keyed.keeps_FlushBlocks
    keyed.keeps_CafeService_Flush keyed.keeps_BlockDownloads_batch keyed.keeps_CafeInbox_CheckMessages
    keyed.keeps_out keyed.keeps_file_ops keyed.keeps_AddThread keyed.keeps_admin keyed.keeps_invites
    keyed.keeps_IgnoreInvite keyed.keeps_profile keyed.keeps_account keyed.keeps_cafes
    keyed.keeps_files_ops keyed.keeps_load_threads keyed.keeps_load_schemas keeps_http keeps_wired [OF assms(2)] wiredD [OF assms(2)])+

end
