(* ===== verification/FilesProps.thy ===== *)
theory FilesProps
  imports Files CafeQueue Sample
begin

text \<open>
  What the file index promises: a content that was added opens again, the index that is returned is
  one of the asked mill unless the content is stored already.
\<close>

section \<open>Adding an index\<close>

lemma files_Get_eq: "files_Get h t = map_option files_dec (find (\<lambda>r. files_hash r = h) t)"
  by (simp add: files_Get_def first_row_select)

lemma find_snoc: "find P (t @ [r]) = (case find P t of None \<Rightarrow> if P r then Some r else None | Some x \<Rightarrow> Some x)"
  by (induction t) auto

lemma files_Get_row: "files_Get h t = Some f \<Longrightarrow> \<exists>r\<in>set t. files_hash r = h \<and> f = files_dec r"
  by (auto simp: files_Get_eq find_Some_iff)

lemma files_GetBySource_row:
  "files_GetBySource i x opts t = Some f \<Longrightarrow> \<exists>r\<in>set t. files_mill r = i \<and> f = files_dec r"
  by (auto simp: files_GetBySource_def first_row_select find_Some_iff)

lemma files_GetByPrimary_row:
  "files_GetByPrimary i c t = Some f \<Longrightarrow> \<exists>r\<in>set t. files_mill r = i \<and> f = files_dec r"
  by (auto simp: files_GetByPrimary_def first_row_select find_Some_iff)

text \<open>An index whose source and content are new is always inserted: there is no conflict to lose.\<close>

lemma files_Add_new:
  assumes "files_GetBySource (file_Mill m) (file_Source m) (file_Opts m) t = None"
    and "files_GetByPrimary (file_Mill m) (file_Checksum m) t = None"
  shows "files_Add now m t = (Inr (), t @ [files_enc now m])"
proof -
  have a: "\<not> same_source (files_enc now m) r" if "r \<in> set t" for r
    using assms(1) that
    by (auto simp: files_GetBySource_def first_row_select find_None_iff same_source_def files_enc_def)
  have b: "files_key (files_enc now m) \<noteq> files_key r" if "r \<in> set t" for r
    using assms(2) that
    by (auto simp: files_GetByPrimary_def first_row_select find_None_iff files_key_def files_enc_def)
  have "\<not> list_ex (same_source (files_enc now m)) t" using a by (auto simp: list_ex_iff)
  moreover have "\<not> list_ex (\<lambda>r. files_key r = files_key (files_enc now m)) t"
    using b by (fastforce simp: list_ex_iff)
  ultimately show ?thesis using b
    by (fastforce simp: files_Add_def Let_def go_seq_def go_bind_def go_get_def go_require_def go_return_def
        sql_insert_def)
qed

lemma keeps_seal [keeps_node]: "keeps_part ns_files (seal_content fe ml plain file)"
  unfolding seal_content_def by (intro keeps_node keeps_draw) simp_all

lemma keeps_add_content [keeps_node]: "keeps_part ns_files (add_content w data pin)"
  unfolding add_content_def by (intro keeps_node) simp_all

text \<open>What \<open>seal_content\<close> returns.\<close>

definition sealed :: "files_env \<Rightarrow> bytes \<Rightarrow> bytes \<Rightarrow> string \<Rightarrow> bool" where
  "sealed fe file content key \<longleftrightarrow>
     content = file \<and> key = []
     \<or> (\<exists>k. EncryptAES (fe_aes fe) file k = Inr content \<and> key = fe_enc58 fe k)"

lemma seal_content_run: "seal_content fe ml plain file s = (Inr (content, key), s') \<Longrightarrow> sealed fe file content key"
  by (auto simp: seal_content_def sealed_def go_defs draw_def split: if_splits sum.splits)

lemma add_content_run: "add_content w data pin s = (Inr hash, s') \<Longrightarrow> w_addData w data = Inr hash"
  by (auto simp: add_content_def AddData_def PinNode_def emit_def go_defs split: sum.splits prod.splits if_splits)

lemma new_index_run:
  assumes "new_index fe w ml conf source opts check res s = (r, s')"
    and "files_GetBySource (ml_ID ml) source opts (ns_files s) = None"
    and "files_GetByPrimary (ml_ID ml) check (ns_files s) = None"
  obtains (failed) e where "r = Inl e" "ns_files s' = ns_files s"
  | (added) now m content where "r = Inr (files_Get (file_Hash m) (ns_files s'))"
      "ns_files s' = ns_files s @ [files_enc now m]" "file_Mill m = ml_ID ml" "file_Checksum m = check"
      "w_addData w content = Inr (file_Hash m)" "sealed fe (mr_File res) content (file_Key m)"
proof -
  obtain now s1 where s1: "TimestampNow w s = (Inr now, s1)" "ns_files s1 = ns_files s"
    by (simp add: TimestampNow_def draw_def)
  obtain r2 s2 where r2: "seal_content fe ml (af_Plaintext conf) (mr_File res) s1 = (r2, s2)" by fastforce
  have s2: "ns_files s2 = ns_files s"
    using same.keeps_run [OF keeps_seal r2] s1(2) by (simp add: same_def)
  show thesis
  proof (cases r2)
    case (Inl e)
    then show thesis using failed assms(1) s1 r2 s2 by (auto simp: new_index_def go_bind_def)
  next
    case (Inr ck)
    obtain content key where ck: "ck = (content, key)" by fastforce
    obtain r3 s3 where r3: "add_content w content (ml_Pin ml) s2 = (r3, s3)" by fastforce
    have s3: "ns_files s3 = ns_files s"
      using same.keeps_run [OF keeps_add_content r3] s2 by (simp add: same_def)
    show thesis
    proof (cases r3)
      case (Inl e)
      then show thesis using failed assms(1) s1 r2 Inr ck r3 s3 by (auto simp: new_index_def go_bind_def)
    next
      case hash: (Inr hash)
      define m where "m = \<lparr>file_Mill = ml_ID ml, file_Checksum = check, file_Source = source, file_Opts = opts,
        file_Hash = hash, file_Key = key, file_Media = af_Media conf, file_Name = af_Name conf,
        file_Size = int (length (mr_File res)), file_Added = Some now, file_Meta = mr_Meta res,
        file_Targets = []\<rparr>"
      have run: "add_index w m s3 = (r, s')"
        using assms(1) s1 r2 Inr ck r3 hash by (simp add: new_index_def go_bind_def m_def)
      obtain now' s4 where s4: "TimestampNow w s3 = (Inr now', s4)" "ns_files s4 = ns_files s"
        using s3 by (simp add: TimestampNow_def draw_def)
      have new: "files_Add now' m (ns_files s4) = (Inr (), ns_files s @ [files_enc now' m])"
        using files_Add_new [of m "ns_files s" now'] assms(2,3) s4(2) by (simp add: m_def)
      have ns: "ns_files s' = ns_files s @ [files_enc now' m]"
        and rr: "r = Inr (files_Get (file_Hash m) (ns_files s'))"
        using run s4 new by (auto simp: add_index_def go_bind_def go_try_run on_files_def go_on_def go_get_def)
      show thesis
        by (rule added [OF rr ns])
          (use add_content_run r3 hash seal_content_run r2 Inr ck in \<open>auto simp: m_def\<close>)
    qed
  qed
qed

lemma AddFileIndex_cases:
  assumes "AddFileIndex fe w ml conf s = (r, s')"
  obtains (failed) e where "r = Inl e" "ns_files s' = ns_files s"
  | (found) row where "r = Inr (Some (files_dec row))" "ns_files s' = ns_files s" "row \<in> set (ns_files s)"
      "files_mill row = ml_ID ml"
  | (added) now m content res where "r = Inr (files_Get (file_Hash m) (ns_files s'))"
      "ns_files s' = ns_files s @ [files_enc now m]" "file_Mill m = ml_ID ml"
      "file_Checksum m = file_checksum fe (mr_File res) (af_Plaintext conf)"
      "files_GetByPrimary (ml_ID ml) (file_Checksum m) (ns_files s) = None"
      "ml_Mill ml (af_Input conf) (af_Name conf) = Inr res"
      "w_addData w content = Inr (file_Hash m)" "sealed fe (mr_File res) content (file_Key m)"
proof -
  define source where "source = (if af_Use conf \<noteq> [] then af_Use conf
      else file_checksum fe (af_Input conf) (af_Plaintext conf))"
  note run = assms [unfolded AddFileIndex_def Let_def, folded source_def]
  show thesis
  proof (cases "ml_Options ml (af_Plaintext conf)")
    case (Inl e)
    then show thesis using failed run by (auto simp: go_defs)
  next
    case opts: (Inr opts)
    show thesis
    proof (cases "files_GetBySource (ml_ID ml) source opts (ns_files s)")
      case (Some f)
      then show thesis using found files_GetBySource_row [OF Some] run opts by (auto simp: go_defs)
    next
      case none: None
      show thesis
      proof (cases "ml_Mill ml (af_Input conf) (af_Name conf)")
        case (Inl e)
        then show thesis using failed run opts none by (auto simp: go_defs)
      next
        case res: (Inr res)
        let ?check = "file_checksum fe (mr_File res) (af_Plaintext conf)"
        show thesis
        proof (cases "files_GetByPrimary (ml_ID ml) ?check (ns_files s)")
          case (Some f)
          then show thesis using found files_GetByPrimary_row [OF Some] run opts none res by (auto simp: go_defs)
        next
          case None
          have "new_index fe w ml conf source opts ?check res s = (r, s')"
            using run opts none res None by (simp add: go_bind_lift go_bind_get)
          from new_index_run [OF this none None] show thesis
            by (metis failed added None res)
        qed
      qed
    qed
  qed
qed

section \<open>Files that stay readable\<close>

text \<open>
  What the libraries document: IPFS returns under a hash what was added under it, base58 decodes what
  it encoded and a key is not encoded as nothing, and AES opens what it sealed.
\<close>

definition faithful_libraries :: "files_env \<Rightarrow> world \<Rightarrow> bool" where
  "faithful_libraries fe w \<longleftrightarrow>
     (\<forall>d h. w_addData w d = Inr h \<longrightarrow> w_dataAt w h = Inr d)
     \<and> (\<forall>b. fe_dec58 fe (fe_enc58 fe b) = Inr b) \<and> (\<forall>b. b \<noteq> [] \<longrightarrow> fe_enc58 fe b \<noteq> [])
     \<and> (\<forall>k n p c. gcm_seal (fe_aes fe) k n p = Inr c \<longrightarrow> gcm_open (fe_aes fe) k n c = Inr p)"

text \<open>An index opens when its content can be read and has the checksum of the index.\<close>

definition opens :: "files_env \<Rightarrow> world \<Rightarrow> FileIndex \<Rightarrow> bool" where
  "opens fe w f \<longleftrightarrow>
     (\<exists>c plain. FileIndexContent fe w f = Inr c \<and> file_Checksum f = file_checksum fe c plain)"

lemma sealed_opens:
  assumes "faithful_libraries fe w" "w_addData w content = Inr (file_Hash f)"
    and "sealed fe c content (file_Key f)"
  shows "FileIndexContent fe w f = Inr c"
proof -
  have d: "w_dataAt w (file_Hash f) = Inr content"
    using assms(1,2) unfolding faithful_libraries_def by blast
  show ?thesis
  proof (cases "content = c \<and> file_Key f = []")
    case True
    then show ?thesis using d by (simp add: FileIndexContent_def)
  next
    case False
    then obtain k where k: "EncryptAES (fe_aes fe) c k = Inr content" "file_Key f = fe_enc58 fe k"
      using assms(3) by (auto simp: sealed_def)
    then have "length k = 44" by (auto simp: EncryptAES_def split: if_splits)
    moreover from this have "k \<noteq> []" by auto
    moreover have "gcm_open (fe_aes fe) (take 32 k) (drop 32 k) content = Inr c"
      using k(1) \<open>length k = 44\<close> assms(1) by (simp add: EncryptAES_def faithful_libraries_def)
    moreover have "fe_dec58 fe (fe_enc58 fe k) = Inr k" "fe_enc58 fe k \<noteq> []"
      using assms(1) \<open>k \<noteq> []\<close> by (auto simp: faithful_libraries_def)
    ultimately show ?thesis by (simp add: FileIndexContent_def d k(2) DecryptAES_def)
  qed
qed

lemma stored_index:
  "file_Hash (files_dec (files_enc now m)) = file_Hash m" "file_Key (files_dec (files_enc now m)) = file_Key m"
  "file_Checksum (files_dec (files_enc now m)) = file_Checksum m"
  by (simp_all add: files_dec_def files_enc_def)

lemma stored_mill: "file_Mill (files_dec (files_enc now m)) = file_Mill m"
  by (simp add: files_dec_def files_enc_def)

lemma same_content:
  "file_Hash f = file_Hash g \<Longrightarrow> file_Key f = file_Key g \<Longrightarrow> FileIndexContent fe w f = FileIndexContent fe w g"
  unfolding FileIndexContent_def by (simp split: sum.splits)

lemma opens_stored: "opens fe w (files_dec (files_enc now m)) \<longleftrightarrow> opens fe w m"
  using same_content [OF stored_index(1,2)] by (simp add: opens_def stored_index)

text \<open>An addition that runs alone, through every mill and with or without encryption.\<close>

lemma AddFileIndex_opens:
  assumes "faithful_libraries fe w" "\<forall>row\<in>set (ns_files s). opens fe w (files_dec row)"
    and "AddFileIndex fe w ml conf s = (r, s')"
  shows "(\<forall>row\<in>set (ns_files s'). opens fe w (files_dec row))
    \<and> (\<forall>x. r = Inr x \<longrightarrow> (\<exists>f. x = Some f \<and> opens fe w f))"
  using assms(3)
proof (cases rule: AddFileIndex_cases)
  case (failed e)
  then show ?thesis using assms(2) by simp
next
  case (found row)
  then show ?thesis using assms(2) by auto
next
  case (added now m content res)
  have "opens fe w m"
    using sealed_opens [OF assms(1) added(7,8)] added(4) by (auto simp: opens_def)
  then have all: "\<forall>row\<in>set (ns_files s'). opens fe w (files_dec row)"
    using assms(2) added(2) by (simp add: opens_stored)
  have hash: "files_hash (files_enc now m) = file_Hash m" by (simp add: files_enc_def)
  obtain f where f: "files_Get (file_Hash m) (ns_files s') = Some f"
    unfolding added(2) by (cases "find (\<lambda>r. files_hash r = file_Hash m) (ns_files s)")
      (simp_all add: files_Get_eq find_snoc hash)
  obtain row where "row \<in> set (ns_files s')" "f = files_dec row" using files_Get_row [OF f] by blast
  with all have "opens fe w f" by blast
  then show ?thesis using added(1) f all by blast
qed

section \<open>Adding while others add\<close>

text \<open>
  \<^verbatim>\<open>AddFileIndex\<close> takes no lock, so other goroutines may change the node between its reads and
  its writes. \<open>other\<close> is what they do: before the lookup by checksum (0), before the
  insertion (1) and before the row is read back (2).
\<close>

definition add_index_among :: "world \<Rightarrow> (nat \<Rightarrow> node_state \<Rightarrow> node_state) \<Rightarrow> FileIndex \<Rightarrow> FileIndex option node_op" where
  "add_index_among w other model =
     go_bind (TimestampNow w) (\<lambda>now.
     go_bind (go_try (on_files (files_Add now model))) (\<lambda>r.
     go_seq (go_modify (other 2))
     (case r of
       Inl err \<Rightarrow>
         if ConflictError err then go_get (\<lambda>s. files_Get (file_Hash model) (ns_files s)) else go_fail err
     | Inr _ \<Rightarrow> go_get (\<lambda>s. files_Get (file_Hash model) (ns_files s)))))"

definition AddFileIndex_among ::
  "files_env \<Rightarrow> world \<Rightarrow> (nat \<Rightarrow> node_state \<Rightarrow> node_state) \<Rightarrow> mill \<Rightarrow> AddFileConfig \<Rightarrow> FileIndex option node_op" where
  "AddFileIndex_among fe w other ml conf =
     (let source = (if af_Use conf \<noteq> [] then af_Use conf
                    else file_checksum fe (af_Input conf) (af_Plaintext conf))
      in go_bind (go_lift (ml_Options ml (af_Plaintext conf))) (\<lambda>opts.
         go_bind (go_get (\<lambda>s. files_GetBySource (ml_ID ml) source opts (ns_files s))) (\<lambda>efile.
         if efile \<noteq> None then go_return efile
         else
           go_bind (go_lift (ml_Mill ml (af_Input conf) (af_Name conf))) (\<lambda>res.
           let check = file_checksum fe (mr_File res) (af_Plaintext conf)
           in go_seq (go_modify (other 0))
             (go_bind (go_get (\<lambda>s. files_GetByPrimary (ml_ID ml) check (ns_files s))) (\<lambda>efile.
              if efile \<noteq> None then go_return efile
              else
                go_bind (TimestampNow w) (\<lambda>now.
                go_bind (seal_content fe ml (af_Plaintext conf) (mr_File res)) (\<lambda>(content, key).
                go_bind (add_content w content (ml_Pin ml)) (\<lambda>hash.
                go_seq (go_modify (other 1))
                (add_index_among w other
                  \<lparr>file_Mill = ml_ID ml, file_Checksum = check, file_Source = source, file_Opts = opts,
                   file_Hash = hash, file_Key = key, file_Media = af_Media conf, file_Name = af_Name conf,
                   file_Size = int (length (mr_File res)), file_Added = Some now, file_Meta = mr_Meta res,
                   file_Targets = []\<rparr>))))))))))"

lemma go_modify_id [simp]: "go_seq (go_modify (\<lambda>s. s)) m = m"
  by (rule ext) (simp add: go_seq_def go_bind_def go_modify_def)

lemma AddFileIndex_alone: "AddFileIndex_among fe w (\<lambda>_ s. s) ml conf = AddFileIndex fe w ml conf"
proof -
  have "add_index_among w (\<lambda>_ s. s) m = add_index w m" for m
    unfolding add_index_among_def add_index_def go_modify_id ..
  then show ?thesis unfolding AddFileIndex_among_def AddFileIndex_def new_index_def go_modify_id by (simp only:)
qed

text \<open>An operation that keeps \<open>P\<close> and whose result, if it has one, satisfies \<open>Q\<close>.\<close>

definition yields :: "(node_state \<Rightarrow> bool) \<Rightarrow> 'a node_op \<Rightarrow> ('a \<Rightarrow> bool) \<Rightarrow> bool" where
  "yields P m Q \<longleftrightarrow> (\<forall>s. P s \<longrightarrow> P (snd (m s)) \<and> (\<forall>x. fst (m s) = Inr x \<longrightarrow> Q x))"

lemma yields_bind:
  assumes "yields P m Q" "\<And>x. Q x \<Longrightarrow> yields P (f x) R"
  shows "yields P (go_bind m f) R"
  unfolding yields_def
proof (intro allI impI)
  fix s assume "P s"
  obtain r s1 where m: "m s = (r, s1)" by fastforce
  then have "P s1" "\<And>x. r = Inr x \<Longrightarrow> Q x" using assms(1) \<open>P s\<close> by (auto simp: yields_def)
  then show "P (snd (go_bind m f s)) \<and> (\<forall>x. fst (go_bind m f s) = Inr x \<longrightarrow> R x)"
    using assms(2) m by (cases r) (auto simp: go_bind_def yields_def)
qed

lemma yields_seq: "yields P m (\<lambda>_. True) \<Longrightarrow> yields P n Q \<Longrightarrow> yields P (go_seq m n) Q"
  unfolding go_seq_def by (rule yields_bind)

lemma yields_get: "(\<And>s. P s \<Longrightarrow> Q (f s)) \<Longrightarrow> yields P (go_get f) Q"
  by (simp add: yields_def go_get_def)

lemma yields_modify: "(\<And>s. P s \<Longrightarrow> P (f s)) \<Longrightarrow> yields P (go_modify f) (\<lambda>_. True)"
  by (simp add: yields_def go_modify_def)

lemma yields_simple:
  "(\<And>x. r = Inr x \<Longrightarrow> Q x) \<Longrightarrow> yields P (go_lift r) Q" "Q x \<Longrightarrow> yields P (go_return x) Q" "yields P (go_fail e) Q"
  by (simp_all add: yields_def go_lift_def go_return_def go_fail_def)

lemma yields_if: "(b \<Longrightarrow> yields P m Q) \<Longrightarrow> (\<not> b \<Longrightarrow> yields P n Q) \<Longrightarrow> yields P (if b then m else n) Q"
  by simp

lemma yields_let: "yields P (f a) Q \<Longrightarrow> yields P (Let a f) Q"
  by simp

lemma yields_pair: "(\<And>a b. x = (a, b) \<Longrightarrow> yields P (f a b) Q) \<Longrightarrow> yields P (case x of (a, b) \<Rightarrow> f a b) Q"
  by (cases x) simp

lemma yields_part:
  assumes "keeps_part part m" "\<And>s x. fst (m s) = Inr x \<Longrightarrow> Q x"
  shows "yields (\<lambda>s. P (part s)) m Q"
  unfolding yields_def
proof (intro allI impI conjI)
  fix s x assume "P (part s)"
  then show "P (part (snd (m s)))" using same.keepsD [OF assms(1), of s] by (simp add: same_def)
next
  fix s x assume "fst (m s) = Inr x"
  then show "Q x" by (rule assms(2))
qed

definition all_open :: "files_env \<Rightarrow> world \<Rightarrow> files_row sql_table \<Rightarrow> bool" where
  "all_open fe w t \<longleftrightarrow> (\<forall>row\<in>set t. opens fe w (files_dec row))"

lemma all_open_Get: "all_open fe w t \<Longrightarrow> files_Get h t = Some f \<Longrightarrow> opens fe w f"
  using files_Get_row [of h t f] by (auto simp: all_open_def)

lemma add_index_among_opens:
  assumes "opens fe w m" "\<And>i s. all_open fe w (ns_files s) \<Longrightarrow> all_open fe w (ns_files (other i s))"
  shows "yields (\<lambda>s. all_open fe w (ns_files s)) (add_index_among w other m) (\<lambda>x. \<forall>f. x = Some f \<longrightarrow> opens fe w f)"
proof -
  have add: "yields (\<lambda>s. all_open fe w (ns_files s)) (go_try (on_files (files_Add now m))) (\<lambda>_. True)" for now
  proof -
    have t: "all_open fe w (snd (files_Add now m t))" if "all_open fe w t" for t
      using that assms(1)
      by (auto simp: files_Add_def Let_def go_seq_def go_bind_def go_get_def go_require_def go_return_def go_fail_def
          sql_insert_def all_open_def opens_stored split: if_splits)
    show ?thesis
      unfolding yields_def go_try_run on_files_def go_on_def split_beta
      using t by (auto split: sum.splits)
  qed
  have get: "yields (\<lambda>s. all_open fe w (ns_files s)) (go_get (\<lambda>s. files_Get h (ns_files s))) (\<lambda>x. \<forall>f. x = Some f \<longrightarrow> opens fe w f)"
    for h by (intro yields_get) (use all_open_Get in blast)
  have now: "yields (\<lambda>s. all_open fe w (ns_files s)) (TimestampNow w) (\<lambda>_. True)"
    by (rule yields_part [of ns_files]) (intro keeps_node, simp_all)
  have res: "yields (\<lambda>s. all_open fe w (ns_files s))
      (case r of Inl err \<Rightarrow> if ConflictError err then go_get (\<lambda>s. files_Get h (ns_files s)) else go_fail err
       | Inr _ \<Rightarrow> go_get (\<lambda>s. files_Get h (ns_files s))) (\<lambda>x. \<forall>f. x = Some f \<longrightarrow> opens fe w f)" for r :: "goerr + 'b" and h
    by (cases r) (simp_all add: get yields_simple)
  show ?thesis
    unfolding add_index_among_def by (intro yields_bind [OF now] yields_bind [OF add] yields_seq yields_modify assms(2) res)
qed

lemma AddFileIndex_among_opens:
  assumes "faithful_libraries fe w" "\<And>i s. all_open fe w (ns_files s) \<Longrightarrow> all_open fe w (ns_files (other i s))"
  shows "yields (\<lambda>s. all_open fe w (ns_files s)) (AddFileIndex_among fe w other ml conf)
    (\<lambda>x. \<forall>f. x = Some f \<longrightarrow> opens fe w f)"
proof -
  let ?P = "\<lambda>s. all_open fe w (ns_files s)" and ?Q = "\<lambda>x. \<forall>f. x = Some f \<longrightarrow> opens fe w f"
  have source: "yields ?P (go_get (\<lambda>s. files_GetBySource i so op (ns_files s))) ?Q" for i so op
    by (intro yields_get) (use files_GetBySource_row in \<open>force simp: all_open_def\<close>)
  have primary: "yields ?P (go_get (\<lambda>s. files_GetByPrimary i ch (ns_files s))) ?Q" for i ch
    by (intro yields_get) (use files_GetByPrimary_row in \<open>force simp: all_open_def\<close>)
  have now: "yields ?P (TimestampNow w) (\<lambda>_. True)"
    by (rule yields_part [of ns_files]) (intro keeps_node, simp_all)
  have seal: "yields ?P (seal_content fe ml plain c) (\<lambda>(content, key). sealed fe c content key)" for plain c
    by (rule yields_part [of ns_files, OF keeps_seal]) (use seal_content_run in \<open>fastforce simp: prod_eq_iff\<close>)
  have add: "yields ?P (add_content w data pin) (\<lambda>h. w_addData w data = Inr h)" for data pin
    by (rule yields_part [of ns_files, OF keeps_add_content]) (metis add_content_run prod.collapse)
  have index: "yields ?P (add_index_among w other m) ?Q"
    if "sealed fe c content (file_Key m)" "w_addData w content = Inr (file_Hash m)"
      "file_Checksum m = file_checksum fe c plain" for m c content plain
    using sealed_opens [OF assms(1) that(2,1)] that(3)
    by (intro add_index_among_opens assms(2)) (auto simp: opens_def)
  have any: "yields ?P (go_lift r) (\<lambda>_. True)" for r :: "goerr + 'c" by (rule yields_simple) simp
  have other: "yields ?P (go_modify (other i)) (\<lambda>_. True)" for i by (intro yields_modify assms(2))
  show ?thesis
    unfolding AddFileIndex_among_def
    apply (rule yields_let)
    apply (rule yields_bind [OF any])
    apply (rule yields_bind [OF source])
    apply (rule yields_if)
    apply (rule yields_simple(2), assumption)
    apply (rule yields_bind [OF any])
    apply (rule yields_let)
    apply (rule yields_seq [OF other])
    apply (rule yields_bind [OF primary])
    apply (rule yields_if)
    apply (rule yields_simple(2), assumption)
    apply (rule yields_bind [OF now])
    apply (rule yields_bind [OF seal])
    apply (rule yields_pair)
    apply (rule yields_bind [OF add])
    apply (rule yields_seq [OF other])
    apply (rule index)
    apply (simp; fail)
    apply (simp; fail)
    apply simp
    done
qed

text \<open>C34. While every index of the file table opens, adding a file keeps it so, through every mill and with or
  without encryption, whatever else happens on the node in between as long as it keeps the indexes
  readable too, and also when the addition fails half way. The index that is returned opens to a
  content with its checksum, and when nothing else runs in between an addition that succeeds does
  return one.\<close>

theorem files_stay_readable:
  assumes "faithful_libraries fe w" "\<forall>row\<in>set (ns_files s). opens fe w (files_dec row)"
    and "\<forall>i s. (\<forall>row\<in>set (ns_files s). opens fe w (files_dec row))
          \<longrightarrow> (\<forall>row\<in>set (ns_files (other i s)). opens fe w (files_dec row))"
    and "AddFileIndex_among fe w other ml conf s = (r, s')"
  shows "(\<forall>row\<in>set (ns_files s'). opens fe w (files_dec row))
    \<and> (\<forall>f. r = Inr (Some f) \<longrightarrow> opens fe w f) \<and> (other = (\<lambda>_ s. s) \<longrightarrow> r \<noteq> Inr None)"
proof -
  have "yields (\<lambda>s. all_open fe w (ns_files s)) (AddFileIndex_among fe w other ml conf) (\<lambda>x. \<forall>f. x = Some f \<longrightarrow> opens fe w f)"
    by (intro AddFileIndex_among_opens assms(1)) (use assms(3) in \<open>simp add: all_open_def\<close>)
  then have "all_open fe w (ns_files s')" "\<And>f. r = Inr (Some f) \<Longrightarrow> opens fe w f"
    using assms(2,4) unfolding yields_def all_open_def by (metis fst_conv snd_conv)+
  moreover have "r \<noteq> Inr None" if "other = (\<lambda>_ s. s)"
    using AddFileIndex_opens [OF assms(1,2), of ml conf r s'] assms(4) that by (auto simp: AddFileIndex_alone)
  ultimately show ?thesis unfolding all_open_def by blast
qed

text \<open>Libraries and a world where everything is stored as it is.\<close>

definition sample_libraries :: files_env where
  "sample_libraries =
     \<lparr>fe_aes = \<lparr>gcm_seal = \<lambda>_ _ p. Inr p, gcm_open = \<lambda>_ _ c. Inr c\<rparr>,
      fe_newKey = (\<lambda>_. Inr (replicate 44 1)), fe_sha256 = (\<lambda>b. b), fe_enc58 = plain_enc, fe_dec58 = plain_dec,
      fe_printIndex = (\<lambda>_. Inr []), fe_normalJson = Inr\<rparr>"

definition store_world :: world where
  "store_world = (sample_world undefined)\<lparr>w_addData := \<lambda>d. Inr (plain_enc d), w_dataAt := plain_dec\<rparr>"

definition sample_file :: "bool \<Rightarrow> AddFileConfig" where
  "sample_file plain =
     \<lparr>af_Input = [1], af_Use = [], af_Media = ''text/plain'', af_Name = ''a.txt'', af_Plaintext = plain\<rparr>"

lemma sample_libraries_faithful: "faithful_libraries sample_libraries store_world"
  using plain_inverse
  by (auto simp: faithful_libraries_def sample_libraries_def store_world_def base58_inverse_def)
    (simp add: plain_enc_def)

lemmas file_runs = AddFileIndex_def new_index_def seal_content_def add_content_def add_index_def
  Blob_mill_def Json_mill_def plaintext_opts_def sample_libraries_def store_world_def sample_file_def
  files_Add_def files_GetBySource_def files_GetByPrimary_def files_Get_def EncryptAES_def
  go_try_run same_source_def files_key_def files_enc_def files_dec_def first_row_def ConflictError_def

theorem files_stay_readable_witness:
  "\<exists>f s'. AddFileIndex_among sample_libraries store_world (\<lambda>_ s. s) (Blob_mill sample_libraries) (sample_file False) sample_state
       = (Inr (Some f), s') \<and> opens sample_libraries store_world f"
proof -
  obtain r s' where run: "AddFileIndex_among sample_libraries store_world (\<lambda>_ s. s) (Blob_mill sample_libraries)
      (sample_file False) sample_state = (r, s')" by fastforce
  have "\<exists>x. r = Inr x"
    using run by (auto simp: AddFileIndex_alone file_runs sample_defs run_defs)
  moreover have "\<forall>row\<in>set (ns_files sample_state). opens sample_libraries store_world (files_dec row)"
    by (simp add: sample_state_def)
  ultimately show ?thesis
    using files_stay_readable [OF sample_libraries_faithful _ _ run] run by (metis not_None_eq)
qed

text \<open>The race that \<^verbatim>\<open>AddFileIndex\<close> speaks of: when another goroutine has added the same content by the
  same mill after the lookup, the insertion conflicts and the row is looked up by the hash of the
  new content. A content that is encrypted anew has a hash of its own, so there is no such row, and
  the caller gets nil and no error.\<close>

definition lost_race :: "FileIndex \<Rightarrow> nat \<Rightarrow> node_state \<Rightarrow> node_state" where
  "lost_race winner i s = (if i = 1 then snd (on_files (files_Add (ProtoTs 1) winner) s) else s)"

lemma lost_race_returns_nil:
  "\<exists>winner. fst (AddFileIndex_among sample_libraries store_world (lost_race winner) (Blob_mill sample_libraries)
      (sample_file False) sample_state) = Inr None"
proof -
  let ?w = "\<lparr>file_Mill = ml_ID (Blob_mill sample_libraries), file_Checksum = file_checksum sample_libraries [1] False,
     file_Source = ''s'', file_Opts = ''o'', file_Hash = ''another'', file_Key = [], file_Media = ''text/plain'',
     file_Name = ''a.txt'', file_Size = 1, file_Added = None, file_Meta = None, file_Targets = []\<rparr>"
  show ?thesis
    by (rule exI [of _ ?w])
      (simp add: AddFileIndex_among_def add_index_among_def lost_race_def file_runs sample_defs run_defs plain_enc_def
        file_checksum_def is_panic_def)
qed

text \<open>Adding a file returns an index of the asked mill when it finds one; when it adds one, the table grows
  by one row of this mill, but what is returned is the first row with the hash of the content: if
  the same plain content is stored by another mill, the caller gets the index of that mill, with its
  name and media type.\<close>

lemma added_index_is_read_by_hash:
  assumes "AddFileIndex fe w ml conf s = (Inr x, s')"
  shows "if ns_files s' = ns_files s then \<exists>f. x = Some f \<and> file_Mill f = ml_ID ml
    else \<exists>row. ns_files s' = ns_files s @ [row] \<and> files_mill row = ml_ID ml
      \<and> (case files_Get (files_hash row) (ns_files s) of
           None \<Rightarrow> x = Some (files_dec row)
         | Some old \<Rightarrow> x = Some old
             \<and> (file_Mill old \<noteq> ml_ID ml \<or> file_Checksum old \<noteq> files_checksum row))"
  using assms
proof (cases rule: AddFileIndex_cases)
  case (added now m content res)
  let ?row = "files_enc now m"
  have row: "files_hash ?row = file_Hash m" "files_mill ?row = ml_ID ml"
    using added(3) by (simp_all add: files_enc_def)
  have x: "x = files_Get (file_Hash m) (ns_files s @ [?row])" using added(1,2) by simp
  have old: "file_Mill old \<noteq> ml_ID ml \<or> file_Checksum old \<noteq> files_checksum ?row"
    if "files_Get (file_Hash m) (ns_files s) = Some old" for old
    using files_Get_row [OF that] added(5)
    by (auto simp: files_GetByPrimary_def first_row_select find_None_iff files_dec_def files_enc_def)
  have "x = (case files_Get (file_Hash m) (ns_files s) of None \<Rightarrow> Some (files_dec ?row) | Some old \<Rightarrow> Some old)"
    using row(1) unfolding x by (simp add: files_Get_eq find_snoc split: option.splits)
  then show ?thesis
    using added(2) row old by (auto split: option.splits)
qed (auto simp: files_dec_def)

definition sample_index :: FileIndex where
  "sample_index =
     \<lparr>file_Mill = ''/json'', file_Checksum = ''c'', file_Source = ''s'', file_Opts = ''o'', file_Hash = plain_enc [1],
      file_Key = [], file_Media = ''application/json'', file_Name = ''a.json'', file_Size = 1,
      file_Added = None, file_Meta = None, file_Targets = []\<rparr>"

end
