(* ===== verification/FileKeys.thy ===== *)
theory FileKeys
  imports FilesProps
begin

text \<open>
  The keys of a data node: the keys that are returned when the node is made from a list of files, and
  the keys that are collected from its links later, which IPFS keeps sorted by their names.
\<close>

lemma Itoa_of_nat_inj [simp]: "Itoa (int i) = Itoa (int j) \<longleftrightarrow> i = j"
  by (simp add: Itoa_def)

lemma index_path_inj [simp]: "index_path i = index_path j \<longleftrightarrow> i = j"
  by (simp add: index_path_def)

lemma map_set_fresh: "k \<notin> fst ` set m \<Longrightarrow> map_set k v m = m @ [(k, v)]"
  by (auto simp: map_set_def filter_id_conv image_iff)

lemma fold_map_set:
  assumes "distinct (map g xs)" "g ` set xs \<inter> fst ` set m = {}"
  shows "fold (\<lambda>x. map_set (g x) (v x)) xs m = m @ map (\<lambda>x. (g x, v x)) xs"
  using assms
proof (induction xs arbitrary: m)
  case (Cons x xs)
  have "map_set (g x) (v x) m = m @ [(g x, v x)]"
    using Cons.prems(2) by (intro map_set_fresh) auto
  moreover have "g ` set xs \<inter> fst ` set (m @ [(g x, v x)]) = {}"
    using Cons.prems by auto
  ultimately show ?case using Cons.IH Cons.prems(1) by simp
qed simp

lemma distinct_enumerate_key:
  assumes "\<And>i j. g i = g j \<Longrightarrow> i = j"
  shows "distinct (map (\<lambda>x. g (fst x)) (enumerate 0 xs))"
proof -
  have "distinct (map g (map fst (enumerate 0 xs)))"
    using assms by (auto simp: map_fst_enumerate distinct_map inj_on_def)
  then show ?thesis by (simp only: map_map comp_def)
qed

lemma map_insort_key:
  assumes "\<And>x. h (f x) = g x"
  shows "map f (insort_key g x xs) = insort_key h (f x) (map f xs)"
  using assms by (induction xs) auto

lemma map_sort_key:
  assumes "\<And>x. h (f x) = g x"
  shows "map f (sort_key g xs) = sort_key h (map f xs)"
  using map_insort_key [of h f g, OF assms] by (induction xs) simp_all

section \<open>The node of a file\<close>

text \<open>
  What IPFS documents of directories: the node of a directory has its links sorted by their names. A
  hash is read as the id of the object it names.
\<close>

definition sorted_directories :: "world \<Rightarrow> bool" where
  "sorted_directories w \<longleftrightarrow>
     (\<forall>ls h. w_directory w ls = Inr h \<longrightarrow> w_nodeAt w h = Inr \<lparr>dag_Cid = h, dag_Links = sort_key fst ls\<rparr>)
     \<and> (\<forall>p c. w_parseCid w p = Inr c \<longrightarrow> c = p)"

definition pair_node :: "world \<Rightarrow> string \<Rightarrow> string \<Rightarrow> bool" where
  "pair_node w node hash \<longleftrightarrow>
     (\<exists>m. w_nodeAt w node = Inr \<lparr>dag_Cid = node, dag_Links = [(''content'', hash), (''meta'', m)]\<rparr>)"

lemma content_first: "sort_key fst [(''meta'', m), (''content'', h :: string)] = [(''content'', h), (''meta'', m)]"
  by (simp add: less_char_def less_eq_char_def)

lemma AddLinkToDirectory_run:
  assumes "sorted_directories w" "AddLinkToDirectory w dir fname p s = (Inr dir', s')"
  shows "dir' = map_set fname p dir"
  using assms
  by (auto simp: AddLinkToDirectory_def sorted_directories_def go_defs split: sum.splits prod.splits)

lemma fileNode_run:
  assumes "sorted_directories w" "fileNode fe w file dir link s = (Inr dir', s')"
  shows "\<exists>node. dir' = map_set link node dir \<and> pair_node w node (file_Hash file)"
proof -
  obtain pair s1 m s2 node s3 where pair: "AddLinkToDirectory w [(''meta'', m)] ''content'' (file_Hash file) s1
        = (Inr pair, s2)"
      and node: "w_directory w pair = Inr node"
      and out: "AddLinkToDirectory w dir link node s3 = (Inr dir', s')"
    using assms(2) unfolding fileNode_def AddDataToDirectory_def pinned_directory_def
    by (auto simp: go_bind_Inr_iff go_seq_Inr_iff go_return_def go_lift_def go_fail_def map_set_def
        split: if_splits sum.splits)
  have "pair = [(''meta'', m), (''content'', file_Hash file)]"
    using AddLinkToDirectory_run [OF assms(1) pair] by (simp add: map_set_def)
  then have "w_nodeAt w node = Inr \<lparr>dag_Cid = node, dag_Links = [(''content'', file_Hash file), (''meta'', m)]\<rparr>"
    using node assms(1) content_first by (auto simp: sorted_directories_def)
  then show ?thesis using AddLinkToDirectory_run [OF assms(1) out] by (auto simp: pair_node_def)
qed

lemma keeps_fileNode [keeps_node]: "keeps_part ns_files (fileNode fe w file dir link)"
  unfolding fileNode_def AddDataToDirectory_def AddLinkToDirectory_def pinned_directory_def
  by (intro keeps_node) simp_all

section \<open>The loop over the files\<close>

lemma files_loop_run:
  assumes "sorted_directories w" "files_loop fe w xs (dir, keys) s = (Inr (dir', keys'), s')"
    and "distinct (map fst xs)" "fst ` set xs \<inter> fst ` set dir = {}"
    and "distinct (map (fst \<circ> snd) xs)" "(fst \<circ> snd) ` set xs \<inter> fst ` set keys = {}"
  shows "keys' = keys @ map (\<lambda>(l, p, f). (p, file_Key f)) xs \<and> ns_files s' = ns_files s
    \<and> (\<exists>nodes. dir' = dir @ zip (map fst xs) nodes \<and> length nodes = length xs
          \<and> (\<forall>i<length xs. pair_node w (nodes ! i) (file_Hash (snd (snd (xs ! i))))))"
  using assms
proof (induction xs arbitrary: dir keys s)
  case Nil
  then show ?case by (simp add: go_return_def)
next
  case (Cons x xs)
  obtain l p f where x: "x = (l, p, f)" by (metis prod_cases3)
  obtain dir1 s1 where f1: "fileNode fe w f dir l s = (Inr dir1, s1)"
    and rest: "files_loop fe w xs (dir1, map_set p (file_Key f) keys) s1 = (Inr (dir', keys'), s')"
    using Cons.prems(2) by (auto simp: x go_bind_Inr_iff)
  obtain node where node: "dir1 = map_set l node dir" "pair_node w node (file_Hash f)"
    using fileNode_run [OF Cons.prems(1) f1] by blast
  have d1: "dir1 = dir @ [(l, node)]" and k1: "map_set p (file_Key f) keys = keys @ [(p, file_Key f)]"
    using Cons.prems(4,6) by (auto simp: x node(1) intro!: map_set_fresh)
  have s1: "ns_files s1 = ns_files s"
    using same.keeps_run [OF keeps_fileNode f1] by (simp add: same_def)
  note rest = rest [unfolded k1 d1]
  have fresh: "fst ` set xs \<inter> fst ` set (dir @ [(l, node)]) = {}"
      "(fst \<circ> snd) ` set xs \<inter> fst ` set (keys @ [(p, file_Key f)]) = {}"
    using Cons.prems(3-6) by (auto simp: x image_iff)
  obtain nodes where n: "dir' = (dir @ [(l, node)]) @ zip (map fst xs) nodes" "length nodes = length xs"
      "\<forall>i<length xs. pair_node w (nodes ! i) (file_Hash (snd (snd (xs ! i))))"
    and k: "keys' = (keys @ [(p, file_Key f)]) @ map (\<lambda>(l, p, f). (p, file_Key f)) xs" "ns_files s' = ns_files s1"
    using Cons.IH [OF Cons.prems(1) rest _ fresh(1) _ fresh(2)] Cons.prems(3,5) by auto
  have "\<forall>i<length (x # xs). pair_node w ((node # nodes) ! i) (file_Hash (snd (snd ((x # xs) ! i))))"
    using n(3) node(2) by (auto simp: x nth_Cons')
  moreover have "dir' = dir @ zip (map fst (x # xs)) (node # nodes)" using n(1) by (simp add: x)
  ultimately show ?case using k n(2) s1 by (auto simp: x intro!: exI [of _ "node # nodes"])
qed

section \<open>Collecting the keys\<close>

lemma pair_is_file:
  assumes "pair_node w node hash"
  shows "\<exists>n. w_nodeAt w node = Inr n \<and> looksLikeFileNode n
    \<and> fileLinkKey n s = (case files_Get hash (ns_files s) of None \<Rightarrow> Inl ErrFileNotFound | Some g \<Rightarrow> Inr (file_Key g))"
  using assms
  by (auto simp: pair_node_def looksLikeFileNode_def ValidMetaLinkNames_def ValidContentLinkNames_def fileLinkKey_def)

lemma target_keys_run:
  assumes "\<forall>j\<in>set js. pair_node w (snd (L j)) (H j) \<and> (\<exists>g. files_Get (H j) (ns_files s) = Some g \<and> file_Key g = K j)"
    and "\<forall>p\<ge>i. index_path p \<notin> fst ` set acc"
  shows "target_keys w s i (map L js) acc = Inr (acc @ map (\<lambda>(p, j). (index_path p, K j)) (enumerate i js))"
  using assms
proof (induction js arbitrary: i acc)
  case Nil
  then show ?case by simp
next
  case (Cons j js)
  obtain n where n: "w_nodeAt w (snd (L j)) = Inr n" "looksLikeFileNode n" "fileLinkKey n s = Inr (K j)"
    using Cons.prems(1) pair_is_file [of w "snd (L j)" "H j" s] by auto
  have "map_set (index_path i) (K j) acc = acc @ [(index_path i, K j)]"
    using Cons.prems(2) by (intro map_set_fresh) simp
  then show ?case
    using Cons.IH [of "Suc i" "acc @ [(index_path i, K j)]"] Cons.prems n
    by (auto simp: fileNodeKeys_def)
qed

text \<open>The order in which a directory of \<open>n\<close> numbered links lists them.\<close>

definition link_order :: "nat \<Rightarrow> nat list" where
  "link_order n = sort_key (\<lambda>i. Itoa (int i)) [0..<n]"

lemma link_order_bounds: "length (link_order n) = n" "j \<in> set (link_order n) \<Longrightarrow> j < n"
  by (simp_all add: link_order_def)

lemma link_order_small: "n \<le> 10 \<Longrightarrow> link_order n = [0..<n]"
proof -
  have "sorted (map (\<lambda>i. Itoa (int i)) [0..<10])"
    by (simp add: upt_rec Itoa_def Utoa.simps digit_char_def less_eq_char_def less_char_def)
  moreover assume "n \<le> 10"
  then have "[0..<n] = take n [0..<10]" by (simp add: take_upt)
  ultimately have "sorted (map (\<lambda>i. Itoa (int i)) [0..<n])"
    by (metis sorted_wrt_take take_map)
  then show ?thesis by (simp add: link_order_def sort_key_id_if_sorted)
qed

lemma link_order_11: "link_order 11 = [0, 1, 10, 2, 3, 4, 5, 6, 7, 8, 9]"
  by (simp add: link_order_def upt_rec Itoa_def Utoa.simps digit_char_def less_eq_char_def less_char_def)

lemma map_of_enumerated:
  "p < length xs \<Longrightarrow> map_of (map (\<lambda>(p, j). (index_path p, K j)) (enumerate 0 xs)) (index_path p) = Some (K (xs ! p))"
proof -
  assume p: "p < length xs"
  let ?m = "map (\<lambda>(p, j). (index_path p, K j)) (enumerate 0 xs)"
  have "distinct (map fst ?m)"
    by (simp add: comp_def split_beta distinct_map inj_on_def enumerate_eq_zip distinct_zipI1)
       (auto simp: set_zip)
  moreover have "(index_path p, K (xs ! p)) \<in> set ?m"
    using p by (auto simp: in_set_enumerate_eq intro!: image_eqI [of _ _ "(p, xs ! p)"])
  ultimately show ?thesis by simp
qed

text \<open>The keys of a data node, collected from its links, are those that came with the node when it was
  made, but not in the same places: the path of a key is the position of its link, and a directory
  sorts the numbers of its links as text. Up to ten files this is the same order; of eleven files,
  the third link is the file with number 10, and its key is handed out for file 2.\<close>

lemma target_keys_follow_link_order:
  assumes "sorted_directories w"
    and "\<forall>f\<in>set files. \<exists>g. files_Get (file_Hash f) (ns_files s) = Some g \<and> file_Key g = file_Key f"
    and "AddNodeFromFiles fe w files s = (Inr (node, keys), s')"
  shows "\<exists>n ks. w_nodeAt w node = Inr n \<and> TargetNodeKeys w n s' = Inr ks
    \<and> (\<forall>i<length files. map_of keys (index_path i) = Some (file_Key (files ! i))
         \<and> map_of ks (index_path i) = map_of keys (index_path (link_order (length files) ! i)))
    \<and> (length files \<le> 10 \<longrightarrow> ks = keys)"
proof -
  let ?n = "length files"
  let ?K = "\<lambda>j. file_Key (files ! j)"
  let ?xs = "map (\<lambda>(i, file). (Itoa (int i), index_path i, file)) (enumerate 0 files)"
  obtain outer s1 where loop: "files_loop fe w ?xs ([], []) s = (Inr (outer, keys), s1)"
    and dir: "w_directory w outer = Inr node" and s': "ns_files s' = ns_files s1"
    using assms(3)
    by (auto simp: AddNodeFromFiles_def pinned_directory_def PinNode_def emit_def go_defs
        split: sum.splits prod.splits)
  have dist: "distinct (map fst ?xs)" "distinct (map (fst \<circ> snd) ?xs)"
    using distinct_enumerate_key [of "\<lambda>i. Itoa (int i)" files] distinct_enumerate_key [of index_path files]
    by (simp_all add: comp_def split_beta)
  have nth: "?xs ! i = (Itoa (int i), index_path i, files ! i)" if "i < ?n" for i
    using that by (simp add: nth_enumerate_eq)
  obtain nodes where keys: "keys = map (\<lambda>(l, p, f). (p, file_Key f)) ?xs" "ns_files s1 = ns_files s"
    and outer: "outer = zip (map fst ?xs) nodes" "length nodes = ?n"
    and pairs: "\<forall>i<?n. pair_node w (nodes ! i) (file_Hash (files ! i))"
    using files_loop_run [OF assms(1) loop dist(1) _ dist(2)] nth by auto
  define L where "L = (\<lambda>i. (Itoa (int i), nodes ! i))"
  have "outer = map L [0..<?n]"
    by (rule nth_equalityI) (simp_all add: outer L_def nth_enumerate_eq)
  then have "sort_key fst outer = map L (link_order ?n)"
    using map_sort_key [of fst L "\<lambda>i. Itoa (int i)" "[0..<?n]"] by (simp add: L_def link_order_def)
  then have n: "w_nodeAt w node = Inr \<lparr>dag_Cid = node, dag_Links = map L (link_order ?n)\<rparr>"
    using dir assms(1) by (auto simp: sorted_directories_def)
  have "target_keys w s' 0 (map L (link_order ?n)) []
      = Inr ([] @ map (\<lambda>(p, j). (index_path p, ?K j)) (enumerate 0 (link_order ?n)))"
    by (rule target_keys_run [where H = "\<lambda>j. file_Hash (files ! j)"])
      (use pairs assms(2) s' keys(2) in \<open>auto simp: L_def dest!: link_order_bounds(2)\<close>)
  then have ks: "TargetNodeKeys w \<lparr>dag_Cid = node, dag_Links = map L (link_order ?n)\<rparr> s'
      = Inr (map (\<lambda>(p, j). (index_path p, ?K j)) (enumerate 0 (link_order ?n)))"
    by (simp add: TargetNodeKeys_def)
  have k: "keys = map (\<lambda>(p, j). (index_path p, ?K j)) (enumerate 0 [0..<?n])"
    by (rule nth_equalityI) (simp_all add: keys(1) nth_enumerate_eq)
  have "map_of keys (index_path i) = Some (?K i)" if "i < ?n" for i
    using map_of_enumerated [of i "[0..<?n]" ?K] that by (simp add: k)
  moreover have "link_order ?n ! i < ?n" if "i < ?n" for i
    using link_order_bounds that nth_mem by metis
  moreover have "map_of (map (\<lambda>(p, j). (index_path p, ?K j)) (enumerate 0 (link_order ?n))) (index_path i)
      = Some (?K (link_order ?n ! i))" if "i < ?n" for i
    using map_of_enumerated [of i "link_order ?n" ?K] that by (simp add: link_order_bounds)
  ultimately show ?thesis
    using n ks k link_order_small [of ?n] by auto
qed

text \<open>Ten plain files and an encrypted one in a directory.\<close>

definition sample_entry :: "string \<Rightarrow> string \<Rightarrow> FileIndex" where
  "sample_entry hash key = sample_index\<lparr>file_Checksum := hash, file_Hash := hash, file_Key := key\<rparr>"

definition sample_pair :: "string \<Rightarrow> (string \<times> string) list" where
  "sample_pair hash = [(''meta'', ''m''), (''content'', hash)]"

definition sample_outer :: "(string \<times> string) list" where
  "sample_outer = map (\<lambda>i. (Itoa (int i), if i = 10 then ''pG'' else ''pF'')) [0..<11]"

definition directory_world :: world where
  "directory_world = (sample_world undefined)\<lparr>
     w_directory := \<lambda>ls. if ls = sample_pair ''F'' then Inr ''pF'' else if ls = sample_pair ''G'' then Inr ''pG''
        else if ls = sample_outer then Inr ''out'' else Inl (ErrMsg ''no directory''),
     w_nodeAt := \<lambda>h. Inr \<lparr>dag_Cid = h, dag_Links = sort_key fst
        (if h = ''pF'' then sample_pair ''F'' else if h = ''pG'' then sample_pair ''G''
         else if h = ''out'' then sample_outer else [])\<rparr>,
     w_addData := \<lambda>_. Inr ''m''\<rparr>"

abbreviation sample_F :: FileIndex where
  "sample_F \<equiv> sample_entry ''F'' []"

abbreviation sample_G :: FileIndex where
  "sample_G \<equiv> sample_entry ''G'' (replicate 44 CHR ''g'')"

definition directory_state :: node_state where
  "directory_state = sample_state\<lparr>ns_files := [files_enc \<lparr>Seconds = 1, Nanos = 0\<rparr> sample_F,
     files_enc \<lparr>Seconds = 1, Nanos = 0\<rparr> sample_G]\<rparr>"

lemma directory_world_sorted: "sorted_directories directory_world"
  by (auto simp: sorted_directories_def directory_world_def sample_world_def)

lemma directory_files:
  "files_Get ''F'' (ns_files directory_state) = Some (files_dec (files_enc \<lparr>Seconds = 1, Nanos = 0\<rparr> sample_F))"
  "files_Get ''G'' (ns_files directory_state) = Some (files_dec (files_enc \<lparr>Seconds = 1, Nanos = 0\<rparr> sample_G))"
  by (simp_all add: directory_state_def files_Get_eq files_enc_def sample_entry_def)

lemma sample_fileNode:
  assumes "ns_files s = ns_files directory_state" "f \<in> {sample_F, sample_G}"
  shows "\<exists>s'. fileNode sample_libraries directory_world f dir link s
      = (Inr (map_set link (''p'' @ file_Hash f) dir), s') \<and> ns_files s' = ns_files directory_state"
  using assms directory_files
  by (auto simp: fileNode_def sealed_index_def sample_libraries_def AddDataToDirectory_def
      AddLinkToDirectory_def pinned_directory_def directory_world_def sample_pair_def sample_entry_def
      sample_world_def plain_dec_def EncryptAES_def map_set_def run_defs)

lemma sample_files_loop:
  assumes "ns_files s = ns_files directory_state" "\<forall>x\<in>set xs. snd (snd x) \<in> {sample_F, sample_G}"
  shows "\<exists>s'. files_loop sample_libraries directory_world xs (dir, keys) s
      = (Inr (fold (\<lambda>(l, p, f). map_set l (''p'' @ file_Hash f)) xs dir,
              fold (\<lambda>(l, p, f). map_set p (file_Key f)) xs keys), s')"
  using assms
proof (induction xs arbitrary: dir keys s)
  case Nil
  then show ?case by (simp add: go_return_def)
next
  case (Cons x xs)
  obtain l p f where x: "x = (l, p, f)" by (metis prod_cases3)
  then have "f \<in> {sample_F, sample_G}" using Cons.prems(2) by simp
  then obtain s1 where s1: "fileNode sample_libraries directory_world f dir l s
      = (Inr (map_set l (''p'' @ file_Hash f) dir), s1)" "ns_files s1 = ns_files directory_state"
    using sample_fileNode [OF Cons.prems(1)] by blast
  then show ?case using Cons.IH [OF s1(2)] Cons.prems(2) by (simp add: x go_bind_def)
qed

end
