(* ===== verification/FeedProps.thy ===== *)
theory FeedProps
  imports Feed ThreadProps
begin

text \<open>
  What the feed shows: the pages and their next offsets, the stacks as a partition of a page, how much
  fuel the items of a page need, and the blocks for which no fuel is enough.
\<close>

section \<open>Items\<close>

lemma sum_map_Inr_iff: "sum_map f r = Inr y \<longleftrightarrow> (\<exists>x. r = Inr x \<and> y = f x)"
  by (cases r) (auto simp: sum_map_def)

lemma sum_map_Inl_iff: "sum_map f r = Inl e \<longleftrightarrow> r = Inl e"
  by (cases r) (auto simp: sum_map_def)

lemmas feed_views =
  feed_merge_def feed_ignore_def feed_flag_def feed_join_def feed_announce_def feed_leave_def
  feed_message_def feed_files_def feed_comment_def feed_like_def

definition shown_types :: "BlockType set" where
  "shown_types = {Block_MERGE, Block_IGNORE, Block_FLAG, Block_JOIN, Block_ANNOUNCE, Block_LEAVE, Block_TEXT,
     Block_FILES, Block_COMMENT, Block_LIKE}"

lemma view_types:
  "feed_merge item s b opts = Inr p \<Longrightarrow> payload_view p = Block_MERGE"
  "feed_ignore item s b opts = Inr p \<Longrightarrow> payload_view p = Block_IGNORE"
  "feed_flag item s b opts = Inr p \<Longrightarrow> payload_view p = Block_FLAG"
  "feed_join s b opts = Inr p \<Longrightarrow> payload_view p = Block_JOIN"
  "feed_announce s b opts = Inr p \<Longrightarrow> payload_view p = Block_ANNOUNCE"
  "feed_leave s b opts = Inr p \<Longrightarrow> payload_view p = Block_LEAVE"
  "feed_message s b opts = Inr p \<Longrightarrow> payload_view p = Block_TEXT"
  "feed_files ls w s b opts = Inr p \<Longrightarrow> payload_view p = Block_FILES"
  by (auto simp: feed_views split: sum.splits if_splits)

lemma payload_of_shown:
  assumes "payload_of item ls w s b opts = Inr p"
  shows "(p = None \<longleftrightarrow> blk_Type b \<notin> shown_types) \<and> (\<forall>x. p = Some x \<longrightarrow> payload_view x = blk_Type b)"
  using assms
  by (cases "blk_Type b")
    (auto simp: payload_of_def shown_types_def sum_map_Inr_iff dest!: view_types)

lemma marshal_same: "marshal_payload p = Inr v \<Longrightarrow> v = p"
  by (induction p rule: marshal_payload.induct) (auto split: if_splits)

lemma type_of_url:
  "map_of BlockType_names (map upper (title_case (BlockType_String Block_MERGE))) = Some Block_MERGE"
  "map_of BlockType_names (map upper (title_case (BlockType_String Block_IGNORE))) = Some Block_IGNORE"
  "map_of BlockType_names (map upper (title_case (BlockType_String Block_FLAG))) = Some Block_FLAG"
  "map_of BlockType_names (map upper (title_case (BlockType_String Block_JOIN))) = Some Block_JOIN"
  "map_of BlockType_names (map upper (title_case (BlockType_String Block_ANNOUNCE))) = Some Block_ANNOUNCE"
  "map_of BlockType_names (map upper (title_case (BlockType_String Block_LEAVE))) = Some Block_LEAVE"
  "map_of BlockType_names (map upper (title_case (BlockType_String Block_TEXT))) = Some Block_TEXT"
  "map_of BlockType_names (map upper (title_case (BlockType_String Block_FILES))) = Some Block_FILES"
  "map_of BlockType_names (map upper (title_case (BlockType_String Block_COMMENT))) = Some Block_COMMENT"
  "map_of BlockType_names (map upper (title_case (BlockType_String Block_LIKE))) = Some Block_LIKE"
  by code_simp+

lemma GetFeedItemPayload_of_type:
  assumes "ty \<in> shown_types" "payload_view p = ty"
  shows "GetFeedItemPayload (FeedItem b t (feed_TypeUrl ty) p) = Inr p"
proof -
  have "FeedItemType (FeedItem b t (feed_TypeUrl ty) p) = Inr ty"
    using assms(1) type_of_url by (auto simp: shown_types_def FeedItemType_def feed_TypeUrl_def)
  moreover have "ty \<noteq> Block_ADD" using assms(1) by (auto simp: shown_types_def)
  ultimately show ?thesis using assms(2) by (simp add: GetFeedItemPayload_def)
qed

lemma item_of_shown:
  assumes "item_of item ls w s b opts = Inr r"
  shows "(r = None \<longleftrightarrow> blk_Type b \<notin> shown_types)
    \<and> (\<forall>x. r = Some x \<longrightarrow> fi_Block x = blk_Id b \<and> fi_Thread x = blk_Thread b
          \<and> GetFeedItemPayload x = Inr (fi_Value x) \<and> payload_view (fi_Value x) = blk_Type b)"
  using assms payload_of_shown [of item ls w s b opts]
  by (auto simp: item_of_def GetFeedItemPayload_of_type dest!: marshal_same split: sum.splits option.splits)

lemma feedItem_shown:
  assumes "feedItem fuel ls w s (Some b) opts = Inr r"
  shows "(r = None \<longleftrightarrow> blk_Type b \<notin> shown_types)
    \<and> (\<forall>x. r = Some x \<longrightarrow> fi_Block x = blk_Id b \<and> fi_Thread x = blk_Thread b
          \<and> GetFeedItemPayload x = Inr (fi_Value x) \<and> payload_view (fi_Value x) = blk_Type b)"
  using assms by (cases fuel) (auto dest: item_of_shown)

section \<open>Targets\<close>

text \<open>The blocks a block refers to.\<close>

definition refs :: "Block \<Rightarrow> string list" where
  "refs b =
     (case blk_Type b of
        Block_MERGE \<Rightarrow> blk_Parents b
      | Block_IGNORE \<Rightarrow> [TrimPrefix (blk_Target b) ''ignore-'']
      | Block_FLAG \<Rightarrow> [TrimPrefix (blk_Target b) ''flag-'']
      | Block_COMMENT \<Rightarrow> [blk_Target b]
      | Block_LIKE \<Rightarrow> [blk_Target b]
      | _ \<Rightarrow> [])"

lemma merge_targets_cong:
  "(\<And>i. i \<in> set ps \<Longrightarrow> f (blocks_Get i (ns_blocks s)) = g (blocks_Get i (ns_blocks s)))
   \<Longrightarrow> merge_targets f s ps = merge_targets g s ps"
  by (induction ps) (auto split: sum.splits option.splits)

lemma item_of_cong:
  assumes "\<And>i. i \<in> set (refs b) \<Longrightarrow> f (blocks_Get i (ns_blocks s)) = g (blocks_Get i (ns_blocks s))"
  shows "item_of f ls w s b opts = item_of g ls w s b opts"
proof -
  have "payload_of f ls w s b opts = payload_of g ls w s b opts"
    using assms merge_targets_cong [of "blk_Parents b" f s g]
    by (cases "blk_Type b") (simp_all add: payload_of_def refs_def feed_views annotation_target_def)
  then show ?thesis by (simp add: item_of_def)
qed

text \<open>A rank that falls along the references of stored blocks: more fuel than the rank changes nothing.\<close>

definition descends :: "node_state \<Rightarrow> Block set \<Rightarrow> (Block \<Rightarrow> nat) \<Rightarrow> bool" where
  "descends s B rank \<longleftrightarrow>
     (\<forall>b\<in>B. \<forall>i\<in>set (refs b). \<forall>c. blocks_Get i (ns_blocks s) = Some c \<longrightarrow> c \<in> B \<and> rank c < rank b)"

lemma feedItem_rank:
  assumes down: "descends s B rank"
    and "b \<in> B" "rank b < n" "rank b < m"
  shows "feedItem n ls w s (Some b) opts = feedItem m ls w s (Some b) opts"
  using assms(2-4)
proof (induction "rank b" arbitrary: b n m opts rule: less_induct)
  case less
  obtain n' m' where nm: "n = Suc n'" "m = Suc m'"
    using less.prems(2,3) by (metis not0_implies_Suc not_less0)
  have "feedItem n' ls w s (blocks_Get i (ns_blocks s)) no_opts = feedItem m' ls w s (blocks_Get i (ns_blocks s)) no_opts"
    if i: "i \<in> set (refs b)" for i
  proof (cases "blocks_Get i (ns_blocks s)")
    case None
    then show ?thesis by (cases n'; cases m') simp_all
  next
    case (Some c)
    then have "c \<in> B" "rank c < rank b" using down less.prems(1) i Some unfolding descends_def by blast+
    then show ?thesis using less.hyps [of c n' m' no_opts] less.prems(2,3) Some by (simp add: nm)
  qed
  then show ?case by (simp add: nm) (rule item_of_cong)
qed

text \<open>The environment does not report the model's own error.\<close>

definition quiet :: "(string \<Rightarrow> goerr + (string \<times> string) list) \<Rightarrow> world \<Rightarrow> bool" where
  "quiet ls w \<longleftrightarrow> (\<forall>p. ls p \<noteq> Inl out_of_fuel \<and> w_nodeAt w p \<noteq> Inl out_of_fuel)"

lemma links_of_node_quiet: "quiet ls w \<Longrightarrow> links_of_node w s links acc \<noteq> Inl out_of_fuel"
  by (induction links arbitrary: acc) (auto simp: quiet_def split: sum.splits)

lemma files_at_links_quiet: "quiet ls w \<Longrightarrow> files_at_links w s links files \<noteq> Inl out_of_fuel"
proof (induction links arbitrary: files)
  case (Cons index rest)
  have "w_nodeAt w (snd index) \<noteq> Inl out_of_fuel" using Cons.prems by (simp add: quiet_def)
  moreover have "Atoi (fst index) \<noteq> Inl out_of_fuel" by (simp add: Atoi_def out_of_fuel_def Let_def)
  moreover have "file_of_node w s i node \<noteq> Inl out_of_fuel" for i node
    using links_of_node_quiet [OF Cons.prems] by (auto simp: file_of_node_def split: sum.splits)
  ultimately show ?case using Cons by (auto simp: out_of_fuel_def split: sum.splits)
qed simp

lemma merge_targets_quiet:
  "(\<And>i. i \<in> set ps \<Longrightarrow> f (blocks_Get i (ns_blocks s)) \<noteq> Inl out_of_fuel)
   \<Longrightarrow> merge_targets f s ps \<noteq> Inl out_of_fuel"
  by (induction ps) (auto split: sum.splits option.splits)

lemma item_of_quiet:
  assumes "quiet ls w" "\<And>i. i \<in> set (refs b) \<Longrightarrow> f (blocks_Get i (ns_blocks s)) \<noteq> Inl out_of_fuel"
  shows "item_of f ls w s b opts \<noteq> Inl out_of_fuel"
proof -
  have files: "fileAtData ls w d s \<noteq> Inl out_of_fuel" for d
    using assms(1) files_at_links_quiet [OF assms(1)] by (auto simp: fileAtData_def quiet_def split: sum.splits)
  have target: "annotation_target f s b opts \<noteq> Inl out_of_fuel" if "isAnnotation b"
    using assms(2) [of "blk_Target b"] that
    by (auto simp: annotation_target_def refs_def isAnnotation_def)
  have "payload_of f ls w s b opts \<noteq> Inl out_of_fuel"
  proof (cases "blk_Type b")
    case Block_FILES
    then show ?thesis using files
      by (auto simp: payload_of_def sum_map_Inl_iff feed_files_def split: sum.splits)
  next
    case Block_MERGE
    then show ?thesis using assms(2) merge_targets_quiet [of "blk_Parents b" f s]
      by (auto simp: payload_of_def sum_map_Inl_iff feed_merge_def refs_def split: sum.splits)
  next
    case Block_COMMENT
    then show ?thesis using target
      by (auto simp: payload_of_def sum_map_Inl_iff feed_comment_def isAnnotation_def split: sum.splits)
  next
    case Block_LIKE
    then show ?thesis using target
      by (auto simp: payload_of_def sum_map_Inl_iff feed_like_def isAnnotation_def split: sum.splits)
  next
    case Block_FLAG
    then show ?thesis using assms(2) [of "TrimPrefix (blk_Target b) ''flag-''"]
      by (auto simp: payload_of_def sum_map_Inl_iff feed_flag_def refs_def split: sum.splits)
  next
    case Block_IGNORE
    then show ?thesis using assms(2) [of "TrimPrefix (blk_Target b) ''ignore-''"]
      by (auto simp: payload_of_def sum_map_Inl_iff feed_ignore_def refs_def split: sum.splits)
  qed (simp_all add: payload_of_def sum_map_Inl_iff feed_views)
  moreover have "marshal_payload p \<noteq> Inl out_of_fuel" for p
    by (induction p rule: marshal_payload.induct) (auto simp: out_of_fuel_def)
  ultimately show ?thesis by (auto simp: item_of_def split: sum.splits option.splits)
qed

lemma feedItem_quiet:
  assumes down: "descends s B rank"
    and "quiet ls w" "b \<in> B" "rank b < n"
  shows "feedItem n ls w s (Some b) opts \<noteq> Inl out_of_fuel"
  using assms(3,4)
proof (induction "rank b" arbitrary: b n opts rule: less_induct)
  case less
  obtain n' where n: "n = Suc n'" using less.prems(2) by (metis not0_implies_Suc not_less0)
  have "feedItem n' ls w s (blocks_Get i (ns_blocks s)) no_opts \<noteq> Inl out_of_fuel" if i: "i \<in> set (refs b)" for i
  proof (cases "blocks_Get i (ns_blocks s)")
    case None
    then show ?thesis by (cases n') simp_all
  next
    case (Some c)
    then have "c \<in> B" "rank c < rank b" using down less.prems(1) i Some unfolding descends_def by blast+
    then show ?thesis using less.hyps [of c n' no_opts] less.prems(2) Some by (simp add: n)
  qed
  then show ?case by (simp add: n) (rule item_of_quiet [OF assms(2)])
qed

lemma blocks_Get_eq: "blocks_Get i t = map_option blocks_dec (find (\<lambda>r. blocks_id r = i) t)"
  by (simp add: blocks_Get_def first_row_select)

lemma blocks_Get_SomeD: "blocks_Get i t = Some b \<Longrightarrow> \<exists>r\<in>set t. blocks_id r = i \<and> b = blocks_dec r"
  by (auto simp: blocks_Get_eq find_Some_iff)

text \<open>C29. The items of a feed need no more fuel than there are blocks, as long as blocks refer to older blocks
  only, as they do when every peer is honest: the recursion of the code ends, with an item or with
  an error of its own, and more fuel gives the same.\<close>

theorem feed_items_end:
  assumes "distinct (map blocks_id (ns_blocks s))"
    and "\<forall>r\<in>set (ns_blocks s). \<forall>r'\<in>set (ns_blocks s).
           blocks_id r' \<in> set (refs (blocks_dec r)) \<longrightarrow> blocks_date r' < blocks_date r"
    and "quiet ls w" "blocks_Get i (ns_blocks s) = Some b" "length (ns_blocks s) \<le> fuel"
  shows "feedItem fuel ls w s (Some b) opts \<noteq> Inl out_of_fuel
    \<and> feedItem fuel ls w s (Some b) opts = feedItem (length (ns_blocks s)) ls w s (Some b) opts"
proof -
  let ?t = "ns_blocks s"
  let ?older = "\<lambda>r. {x \<in> set ?t. blocks_date x < blocks_date r}"
  define row where "row = (\<lambda>b :: Block. the (find (\<lambda>r. blocks_id r = blk_Id b) ?t))"
  have row: "row (blocks_dec r) = r" if "r \<in> set ?t" for r
  proof -
    have "find (\<lambda>x. blocks_id x = blocks_id r) ?t = Some r"
      using find_key_distinct [OF assms(1) that] by simp
    then show ?thesis by (simp add: row_def blocks_dec_def)
  qed
  let ?rank = "\<lambda>b. card (?older (row b))"
  let ?B = "blocks_dec ` set ?t"
  have small: "card (?older r) < length ?t" if "r \<in> set ?t" for r
    using that by (intro less_le_trans [OF psubset_card_mono card_length]) auto
  have down: "c \<in> ?B \<and> ?rank c < ?rank d"
    if d: "d \<in> ?B" and j: "j \<in> set (refs d)" and c: "blocks_Get j ?t = Some c" for d :: Block and j c
  proof -
    obtain r where r: "r \<in> set ?t" "d = blocks_dec r" using d by auto
    obtain r' where r': "r' \<in> set ?t" "blocks_id r' = j" "c = blocks_dec r'"
      using blocks_Get_SomeD [OF c] by auto
    have "blocks_date r' < blocks_date r" using assms(2) r r' j by auto
    then have "?older r' \<subset> ?older r" using r' by auto
    then have "card (?older r') < card (?older r)" by (intro psubset_card_mono) auto
    then show ?thesis using r r' row by auto
  qed
  obtain r where r: "r \<in> set ?t" "b = blocks_dec r" using blocks_Get_SomeD [OF assms(4)] by auto
  then have b: "b \<in> ?B" "?rank b < length ?t" using small row by auto
  then have "?rank b < fuel" using assms(5) by simp
  moreover have "descends s ?B ?rank" using down unfolding descends_def by blast
  ultimately have "feedItem fuel ls w s (Some b) opts \<noteq> Inl out_of_fuel"
    "feedItem fuel ls w s (Some b) opts = feedItem (length ?t) ls w s (Some b) opts"
    using feedItem_quiet [of s ?B ?rank ls w b fuel opts] assms(3) b
      feedItem_rank [of s ?B ?rank b fuel "length ?t" ls w opts] by blast+
  then show ?thesis ..
qed

text \<open>A thread with a message and a like of it.\<close>

definition sample_shown :: "string \<Rightarrow> BlockType \<Rightarrow> string \<Rightarrow> int \<Rightarrow> Block" where
  "sample_shown i ty target n =
     \<lparr>blk_Id = i, blk_Thread = ''T'', blk_Author = ''P2'', blk_Type = ty, blk_Date = Some \<lparr>Seconds = n, Nanos = 0\<rparr>,
      blk_Parents = [], blk_Target = target, blk_Data = [], blk_Body = ''hi'', blk_Status = Block_READY,
      blk_Attempts = 0\<rparr>"

definition feed_state :: "Block list \<Rightarrow> node_state" where
  "feed_state bs = sample_state\<lparr>ns_blocks := map (blocks_enc (sample_clock 0)) bs\<rparr>"

lemma sample_quiet: "quiet (\<lambda>_. Inr []) (sample_world undefined)"
  by (simp add: quiet_def sample_world_def)

lemmas feed_rows = feed_state_def sample_shown_def blocks_enc_def blocks_dec_def refs_def ProtoNanos_def BlockType_of_int_def

theorem feed_items_end_witness:
  "feedItem 5 (\<lambda>_. Inr []) (sample_world undefined)
     (feed_state [sample_shown ''m'' Block_TEXT [] 1, sample_shown ''l'' Block_LIKE ''m'' 2])
     (Some (sample_shown ''l'' Block_LIKE ''m'' 2)) no_opts \<noteq> Inl out_of_fuel"
proof -
  let ?s = "feed_state [sample_shown ''m'' Block_TEXT [] 1, sample_shown ''l'' Block_LIKE ''m'' 2]"
  have "distinct (map blocks_id (ns_blocks ?s))"
    by (simp add: feed_rows)
  moreover have "\<forall>r\<in>set (ns_blocks ?s). \<forall>r'\<in>set (ns_blocks ?s).
      blocks_id r' \<in> set (refs (blocks_dec r)) \<longrightarrow> blocks_date r' < blocks_date r"
    by (simp add: feed_rows int64_def)
  moreover have "blocks_Get ''l'' (ns_blocks ?s) = Some (sample_shown ''l'' Block_LIKE ''m'' 2)"
    by (simp add: blocks_Get_eq feed_rows csv_enc_def csv_dec_def BlockStatus_of_int_def ProtoTs_def
        int64_def int32_def SplitString_def TrimSpace_def)
  moreover have "length (ns_blocks ?s) \<le> 5" by (simp add: feed_state_def)
  ultimately show ?thesis using feed_items_end [OF _ _ sample_quiet] by blast
qed

section \<open>Blocks that refer to themselves\<close>

lemma self_reference:
  assumes "isAnnotation b" "blocks_Get (blk_Target b) (ns_blocks s) = Some b"
  shows "feedItem fuel ls w s (Some b) no_opts = Inl out_of_fuel"
proof (induction fuel)
  case (Suc fuel)
  have "annotation_target (\<lambda>target. feedItem fuel ls w s target no_opts) s b no_opts = Inl out_of_fuel"
    using Suc assms(2) by (simp add: annotation_target_def no_opts_def)
  then show ?case
    using assms(1) by (auto simp: item_of_def payload_of_def isAnnotation_def feed_comment_def feed_like_def sum_map_def)
qed simp

lemma each_view_isl: "x \<in> set xs \<Longrightarrow> isl (f x) \<Longrightarrow> isl (each_view f xs)"
  by (induction xs) (auto split: sum.splits)

text \<open>C28. One peer that may annotate a thread can stop everybody's feed for good: the block node of a comment or
  a like without a payload names its target by a link, which may be the block itself. The block is
  handled and stored like any other, and the item of this block never gets done, whatever the fuel,
  which on a real node is a stack that overflows; no chronological page with the block is returned.\<close>

theorem self_target_stops_the_feed:
  assumes "handle w t bnode False s = (Inr index, s')"
    and "unmarshalBlock w t (bn_ciphertext bnode) = Inr block" "tb_Payload block = None"
    and "tb_Type block \<in> {Block_COMMENT, Block_LIKE}" "bn_target bnode = bn_hash bnode"
  shows "\<exists>b. blocks_Get (bn_hash bnode) (ns_blocks s') = Some b
    \<and> (\<forall>fuel. feedItem fuel ls w s' (Some b) no_opts = Inl out_of_fuel)
    \<and> (\<forall>fuel req. fr_Mode req = FeedRequest_CHRONO
          \<and> b \<in> set (Textile_Blocks (fr_Offset req) (fr_Limit req) (feed_query req) s')
          \<longrightarrow> isl (Textile_Feed fuel ls w req s'))"
proof -
  obtain hdr res s1 s2 where d: "dispatch w t bnode block hdr s1 = (Inr res, s2)"
    and i: "index = handled_index t bnode block hdr res" "indexBlock w t index False s2 = (Inr (), s')"
    using handle_success [OF assms(1)] assms(2) by auto
  have "hr_oldTarget res = []"
    using d assms(3,4)
    by (auto simp: dispatch_def handleCommentBlock_def handleLikeBlock_def optional_payload_def no_result_def
        go_bind_Inr_iff go_seq_Inr_iff go_return_def)
  then have index: "blk_Id index = bn_hash bnode" "blk_Target index = bn_hash bnode" "blk_Type index = tb_Type block"
    using assms(5) by (simp_all add: i(1) handled_index_def)
  obtain now n where b: "blocks_Get (bn_hash bnode) (ns_blocks s')
      = Some (blocks_dec ((blocks_enc now index)\<lparr>blocks_attempts := n\<rparr>))"
    using indexBlock_row [OF i(2)] index(1) by auto
  let ?b = "blocks_dec ((blocks_enc now index)\<lparr>blocks_attempts := n\<rparr>)"
  have "isAnnotation ?b" "blk_Target ?b = bn_hash bnode"
    using assms(4) index by (auto simp: isAnnotation_def blocks_dec_def blocks_enc_def BlockType_of_int_def)
  then have never: "feedItem fuel ls w s' (Some ?b) no_opts = Inl out_of_fuel" for fuel
    using self_reference [of ?b s' fuel ls w] b by simp
  have "isl (Textile_Feed fuel ls w req s')"
    if "fr_Mode req = FeedRequest_CHRONO"
      "?b \<in> set (Textile_Blocks (fr_Offset req) (fr_Limit req) (feed_query req) s')" for fuel req
  proof -
    have "isl (each_view (\<lambda>b. feedItem fuel ls w s' (Some b) (no_opts\<lparr>fo_annotations := False\<rparr>))
        (Textile_Blocks (fr_Offset req) (fr_Limit req) (feed_query req) s'))"
      by (rule each_view_isl [OF that(2)]) (use never in \<open>simp add: no_opts_def\<close>)
    then show ?thesis
      using that(1) by (auto simp: Textile_Feed_def Let_def block_items_def sum_map_def split: sum.splits)
  qed
  then show ?thesis using b never by blast
qed

theorem self_target_stops_the_feed_witness:
  "\<exists>b. blocks_Get ''b1'' (ns_blocks (snd (handle (sample_world (sample_block Block_LIKE None ''Z'')) sample_thread
        (sample_bnode\<lparr>bn_target := ''b1''\<rparr>) False sample_state))) = Some b
     \<and> feedItem 100 (\<lambda>_. Inr []) (sample_world (sample_block Block_LIKE None ''Z''))
         (snd (handle (sample_world (sample_block Block_LIKE None ''Z'')) sample_thread
           (sample_bnode\<lparr>bn_target := ''b1''\<rparr>) False sample_state)) (Some b) no_opts = Inl out_of_fuel"
proof -
  let ?w = "sample_world (sample_block Block_LIKE None ''Z'')"
  let ?n = "sample_bnode\<lparr>bn_target := ''b1''\<rparr>"
  have "\<exists>index s'. handle ?w sample_thread ?n False sample_state = (Inr index, s')"
    by (simp add: sample_defs run_defs handle_def dispatch_def handleLikeBlock_def)
  then obtain index s' where r: "handle ?w sample_thread ?n False sample_state = (Inr index, s')"
    by blast
  have "unmarshalBlock ?w sample_thread (bn_ciphertext ?n) = Inr (sample_block Block_LIKE None ''Z'')"
    by (simp add: unmarshalBlock_def sample_world_def)
  then obtain b where "blocks_Get ''b1'' (ns_blocks s') = Some b"
      "feedItem 100 (\<lambda>_. Inr []) ?w s' (Some b) no_opts = Inl out_of_fuel"
    using self_target_stops_the_feed [OF r, of "sample_block Block_LIKE None ''Z''" "\<lambda>_. Inr []"]
    by (auto simp: sample_block_def sample_bnode_def)
  then show ?thesis using r by auto
qed

section \<open>Ignored blocks\<close>

text \<open>
  An ignore block hides its target whatever thread the target belongs to: who may annotate one thread
  can hide the blocks of all others.
\<close>

lemma BlockType_of_int_ignore: "BlockType_of_int n = Block_IGNORE \<Longrightarrow> n = 1"
  by (auto simp: BlockType_of_int_def split: if_splits)

lemma ignore_reaches_other_threads:
  assumes "handle w t bnode False s = (Inr index, s')"
    and "unmarshalBlock w t (bn_ciphertext bnode) = Inr block" "tb_Payload block = None"
    and "tb_Type block = Block_IGNORE" "target = remove_first ''ignore-'' (bn_target bnode)" "target \<noteq> []"
  shows "\<forall>b\<in>set (Textile_Blocks offset limit Q s'). blk_Id b \<noteq> target"
proof -
  obtain hdr res s1 s2 where d: "dispatch w t bnode block hdr s1 = (Inr res, s2)"
    and i: "index = handled_index t bnode block hdr res" "indexBlock w t index False s2 = (Inr (), s')"
    using handle_success [OF assms(1)] assms(2) by auto
  have "hr_oldTarget res = target"
    using d assms(3-5)
    by (auto simp: dispatch_def handleIgnoreBlock_def optional_payload_def no_result_def Let_def
        go_bind_Inr_iff go_seq_Inr_iff go_return_def)
  then have index: "blk_Target index = target" "blk_Type index = Block_IGNORE"
    using assms(4,6) by (simp_all add: i(1) handled_index_def)
  obtain now n where "blocks_Get (blk_Id index) (ns_blocks s')
      = Some (blocks_dec ((blocks_enc now index)\<lparr>blocks_attempts := n\<rparr>))"
    using indexBlock_row [OF i(2)] by auto
  then obtain r where r: "r \<in> set (ns_blocks s')"
    "blocks_dec r = blocks_dec ((blocks_enc now index)\<lparr>blocks_attempts := n\<rparr>)"
    using blocks_Get_SomeD by metis
  have "blk_Type (blocks_dec r) = Block_IGNORE" "blk_Target (blocks_dec r) = target"
    unfolding r(2) using index by (simp_all add: blocks_dec_def blocks_enc_def BlockType_of_int_def)
  then have "blocks_target r = target \<and> blocks_type r = BlockType_to_int Block_IGNORE"
    by (simp add: blocks_dec_def BlockType_of_int_ignore)
  then have "blockIgnored target s'"
    using r(1) by (auto simp: blockIgnored_def blocks_List_def sql_limit_def order_desc_def sql_select_def filter_empty_conv)
  then show ?thesis by (auto simp: Textile_Blocks_def)
qed

section \<open>Stacks\<close>

definition stack_blocks :: "feed_stack \<Rightarrow> Block list" where
  "stack_blocks st = st_top st # st_children st"

definition good_stacks :: "feed_stack list \<Rightarrow> bool" where
  "good_stacks stacks \<longleftrightarrow>
     (\<forall>st\<in>set stacks. \<forall>b\<in>set (stack_blocks st). getTargetId b = st_id st)
     \<and> successively (\<lambda>a b. st_id a \<noteq> st_id b) stacks"

lemma add_to_stacks_good:
  assumes "good_stacks stacks"
  shows "good_stacks (add_to_stacks stacks b)
    \<and> concat (map stack_blocks (add_to_stacks stacks b)) = concat (map stack_blocks stacks) @ [b]"
proof (cases stacks rule: rev_cases)
  case Nil
  then show ?thesis by (simp add: add_to_stacks_def good_stacks_def stack_blocks_def)
next
  case (snoc ys y)
  then show ?thesis
    using assms by (auto simp: add_to_stacks_def good_stacks_def stack_blocks_def successively_append_iff)
qed

text \<open>The stacks of a feed are the runs of its page: put together they are the page, block for block and in
  order, the blocks of a stack have one target, which is the id of the stack, and neighbouring
  stacks have different targets.\<close>

lemma stacks_are_runs:
  "concat (map (\<lambda>st. st_top st # st_children st) (feed_stacks blocks)) = blocks
    \<and> (\<forall>st\<in>set (feed_stacks blocks). \<forall>b\<in>set (st_top st # st_children st). getTargetId b = st_id st)
    \<and> successively (\<lambda>a b. st_id a \<noteq> st_id b) (feed_stacks blocks)"
proof -
  have "good_stacks stacks \<Longrightarrow> good_stacks (foldl add_to_stacks stacks blocks)
      \<and> concat (map stack_blocks (foldl add_to_stacks stacks blocks)) = concat (map stack_blocks stacks) @ blocks"
    for stacks
  proof (induction blocks arbitrary: stacks)
    case (Cons b blocks)
    then show ?case using add_to_stacks_good [OF Cons.prems, of b] by simp
  qed simp
  from this [of "[]"] show ?thesis
    by (simp add: good_stacks_def feed_stacks_def stack_blocks_def [abs_def])
qed

section \<open>Pages\<close>

lemma each_view_Inr:
  assumes "each_view f xs = Inr ys"
  shows "length ys = length xs \<and> (\<forall>i<length xs. f (xs ! i) = Inr (ys ! i))"
  using assms
proof (induction xs arbitrary: ys)
  case (Cons x xs)
  then show ?case by (auto simp: nth_Cons' split: sum.splits)
qed simp

lemma feed_page_types:
  assumes "fr_Mode req \<in> {FeedRequest_CHRONO, FeedRequest_ANNOTATED}"
    and "b \<in> set (Textile_Blocks (fr_Offset req) (fr_Limit req) (feed_query req) s)"
  shows "blk_Type b \<in> shown_types"
proof -
  obtain r where r: "feed_query req r" "b = blocks_dec r"
    using assms(2) sql_limit_subset [of "fr_Limit req"]
    by (fastforce simp: Textile_Blocks_def blocks_List_def order_desc_def sql_select_def)
  then obtain ty where "ty \<in> set (feed_types (fr_Mode req))" "blocks_type r = BlockType_to_int ty"
    by (auto simp: feed_query_def list_ex_iff)
  then show ?thesis
    using assms(1) r(2)
    by (auto simp: feed_types_def flatFeedTypes_def annotatedFeedTypes_def blocks_dec_def shown_types_def
        BlockType_of_int_def)
qed

text \<open>C33. A chronological or annotated page of the feed shows the blocks of its page that are not ignored, each
  as an item whose payload reads back as a view of its type, and counts them. The offset of the next
  page is the last block shown if there are older blocks; a page whose blocks are all ignored is
  empty and has no next offset, also when older blocks are left to show.\<close>

theorem feed_page:
  assumes "Textile_Feed fuel ls w req s = Inr l" "fr_Mode req \<in> {FeedRequest_CHRONO, FeedRequest_ANNOTATED}"
    and "shown = filter (\<lambda>b. \<not> blockIgnored (blk_Id b) s)
           (blocks_List (fr_Offset req) (fr_Limit req) (feed_query req) (ns_blocks s))"
  shows "map (map_option (\<lambda>x. (fi_Block x, fi_Thread x))) (fl_Items l) = map (\<lambda>b. Some (blk_Id b, blk_Thread b)) shown
    \<and> (\<forall>x. Some x \<in> set (fl_Items l) \<longrightarrow> GetFeedItemPayload x = Inr (fi_Value x))
    \<and> fl_Count l = int32 (int (length shown))
    \<and> fl_Next l = (if shown = [] \<or> blocks_List (blk_Id (last shown)) 1 (feed_query req) (ns_blocks s) = [] then []
         else blk_Id (last shown))"
proof -
  have blocks: "Textile_Blocks (fr_Offset req) (fr_Limit req) (feed_query req) s = shown"
    by (simp add: Textile_Blocks_def assms(3))
  define opts where "opts = no_opts\<lparr>fo_annotations := (fr_Mode req = FeedRequest_ANNOTATED)\<rparr>"
  obtain items where items: "each_view (\<lambda>b. feedItem fuel ls w s (Some b) opts) shown = Inr items"
    and l: "l = \<lparr>fl_Items = items, fl_Count = int32 (int (length items)), fl_Next = nextOffset req shown s\<rparr>"
    using assms(1,2)
    by (auto simp: Textile_Feed_def Let_def blocks block_items_def sum_map_Inr_iff opts_def split: if_splits)
  have len: "length items = length shown"
    and each: "\<forall>i<length shown. feedItem fuel ls w s (Some (shown ! i)) opts = Inr (items ! i)"
    using each_view_Inr [OF items] by simp_all
  have item: "\<exists>x. items ! i = Some x \<and> fi_Block x = blk_Id (shown ! i) \<and> fi_Thread x = blk_Thread (shown ! i)
      \<and> GetFeedItemPayload x = Inr (fi_Value x)" if "i < length shown" for i
  proof -
    have "blk_Type (shown ! i) \<in> shown_types"
      using feed_page_types [OF assms(2), of "shown ! i" s] that by (simp add: blocks)
    then show ?thesis using feedItem_shown [OF each [rule_format, OF that]] by auto
  qed
  have "map (map_option (\<lambda>x. (fi_Block x, fi_Thread x))) items = map (\<lambda>b. Some (blk_Id b, blk_Thread b)) shown"
    by (rule nth_equalityI) (use item len in fastforce)+
  moreover have "\<forall>x. Some x \<in> set items \<longrightarrow> GetFeedItemPayload x = Inr (fi_Value x)"
    using item len by (fastforce simp: in_set_conv_nth)
  ultimately show ?thesis using len by (simp add: l nextOffset_def Let_def)
qed

definition first_page :: FeedRequest where
  "first_page = \<lparr>fr_Thread = [], fr_Offset = [], fr_Limit = 1, fr_Mode = FeedRequest_CHRONO\<rparr>"

theorem feed_page_witness:
  "\<exists>l. Textile_Feed 5 (\<lambda>_. Inr []) (sample_world undefined) first_page
      (feed_state [sample_shown ''m1'' Block_TEXT [] 1, sample_shown ''m2'' Block_TEXT [] 2,
                   sample_shown ''i'' Block_IGNORE ''m2'' 3]) = Inr l
    \<and> fl_Items l = [] \<and> fl_Next l = []
    \<and> Textile_Blocks [] 2 (feed_query first_page)
        (feed_state [sample_shown ''m1'' Block_TEXT [] 1, sample_shown ''m2'' Block_TEXT [] 2,
                     sample_shown ''i'' Block_IGNORE ''m2'' 3]) \<noteq> []"
proof -
  define s where "s = feed_state [sample_shown ''m1'' Block_TEXT [] 1, sample_shown ''m2'' Block_TEXT [] 2,
                   sample_shown ''i'' Block_IGNORE ''m2'' 3]"
  let ?w = "sample_world undefined"
  have page: "blocks_List [] 1 (feed_query first_page) (ns_blocks s)
        = [blocks_dec (blocks_enc (sample_clock 0) (sample_shown ''m2'' Block_TEXT [] 2))]"
    and page2: "blocks_List [] 2 (feed_query first_page) (ns_blocks s)
        = [blocks_dec (blocks_enc (sample_clock 0) (sample_shown ''m2'' Block_TEXT [] 2)),
           blocks_dec (blocks_enc (sample_clock 0) (sample_shown ''m1'' Block_TEXT [] 1))]"
    by (simp_all add: blocks_List_def feed_query_def feed_types_def flatFeedTypes_def first_page_def feed_state_def
        sample_shown_def blocks_enc_def sql_defs ProtoNanos_def int64_def s_def)
  have ids: "blk_Id (blocks_dec (blocks_enc now (sample_shown i ty x n))) = i" for now i ty x n
    by (simp add: blocks_dec_def blocks_enc_def sample_shown_def)
  have hidden: "blockIgnored ''m2'' s" "\<not> blockIgnored ''m1'' s"
    by (simp_all add: blockIgnored_def blocks_List_def feed_state_def sample_shown_def blocks_enc_def sql_defs s_def)
  have none: "filter (\<lambda>b. \<not> blockIgnored (blk_Id b) s) (blocks_List [] 1 (feed_query first_page) (ns_blocks s)) = []"
    using hidden(1) by (simp add: page ids)
  have "\<exists>l. Textile_Feed 5 (\<lambda>_. Inr []) ?w first_page s = Inr l"
    using none by (simp add: Textile_Feed_def Textile_Blocks_def first_page_def block_items_def sum_map_def Let_def)
  then obtain l where l: "Textile_Feed 5 (\<lambda>_. Inr []) ?w first_page s = Inr l" by blast
  have "fl_Items l = [] \<and> fl_Next l = []"
    using feed_page [OF l _ refl] none by (simp add: first_page_def)
  moreover have "Textile_Blocks [] 2 (feed_query first_page) s \<noteq> []"
    using hidden(2) by (simp add: Textile_Blocks_def page2 ids)
  ultimately show ?thesis using l unfolding s_def by blast
qed

end
