(* ===== verification/SnapshotProps.thy ===== *)
theory SnapshotProps
  imports Snapshots Sample
begin

text \<open>
  Snapshots of threads, the start of a node and the account thread: applying a snapshot twice is applying it once,
  a snapshot of a new thread leaves its history behind, a node starts with all of its threads, and an
  account thread that gets a schema has it after the next start only.
\<close>

section \<open>Adding a thread\<close>

lemma loaded_thread_append:
  "loaded_thread tid (s\<lparr>ns_loaded := ns_loaded s @ [t]\<rparr>)
     = (case loaded_thread tid s of Some x \<Rightarrow> Some x | None \<Rightarrow> if t_Id t = tid then Some t else None)"
proof -
  have "find P (xs @ [t]) = (case find P xs of Some x \<Rightarrow> Some x | None \<Rightarrow> if P t then Some t else None)" for P and xs :: "thread list"
    by (induction xs) auto
  then show ?thesis by (simp add: loaded_thread_def)
qed

lemma go_bind_InrE:
  assumes "go_bind m f s = (Inr y, s')"
  obtains x s1 where "m s = (Inr x, s1)" "f x s1 = (Inr y, s')"
  using assms by (auto simp: go_bind_Inr_iff)

lemma loadThread_result:
  assumes "loadThread te model s = (Inr t, s')"
  shows "t_Id t = thr_Id model \<and> t_Key t = thr_Key model \<and> ns_threads s' = ns_threads s
    \<and> loaded_thread (thr_Id model) s' = Some t \<and> ns_loaded s' = ns_loaded s @ [t]"
proof -
  have n: "loaded_thread (thr_Id model) s = None" and nt: "NewThread te model = Inr t"
    and s': "s' = s\<lparr>ns_loaded := ns_loaded s @ [t]\<rparr>"
    using assms by (auto simp: loadThread_def go_defs split: if_splits sum.splits)
  have k: "t_Id t = thr_Id model" "t_Key t = thr_Key model"
    using nt by (auto simp: NewThread_def split: sum.splits if_splits)
  show ?thesis using n k by (simp add: s' loaded_thread_append)
qed

text \<open>A thread that is inserted is read with the head it was inserted with.\<close>

lemma insert_thread_heads:
  assumes "insert_thread conf model s = (Inr None, s')" "thr_Head model = []"
  shows "heads_of (thr_Id model) s' = Some [] \<and> ns_loaded s' = ns_loaded s"
proof -
  have new: "\<forall>r\<in>set (ns_threads s). threads_id r \<noteq> thr_Id model"
    and s': "s' = s\<lparr>ns_threads := ns_threads s @ [threads_enc model]\<rparr>"
    using assms(1) by (auto simp: insert_thread_def on_threads_run threads_Add_def go_defs sql_insert_def threads_enc_def split: if_splits)
  have "filter (\<lambda>r. threads_id r = thr_Id model) (ns_threads s) = []"
    using new by (simp add: filter_empty_conv)
  then show ?thesis
    using assms(2)
    by (simp add: s' heads_of_def threads_Get_def sql_select_def first_row_def threads_enc_def threads_dec_def SplitString_def TrimSpace_def)
qed

text \<open>What adding a thread without joining it leaves: the thread, loaded and without heads.\<close>

lemma AddThread_adds:
  assumes "AddThread fuel w te conf sk i False False s = (Inr t, s')" "te_threadId te sk = Inr tid"
  shows "t_Id t = tid \<and> heads_of tid s' = Some [] \<and> loaded_thread tid s' = Some t"
  using assms(1)
proof (induction fuel arbitrary: conf s)
  case 0
  then show ?case by (simp add: go_fail_def)
next
  case (Suc fuel)
  define c where "c = conf\<lparr>cf_Key := TrimSpace (cf_Key conf)\<rparr>"
  have ne: "cf_Key c \<noteq> []" using Suc.prems by (auto simp: Let_def c_def go_fail_def split: if_splits)
  obtain sch members s2 retry s3
    where ins: "insert_thread c (thread_model c tid sk i sch members) s2 = (Inr retry, s3)"
      and rest: "(case retry of Some k \<Rightarrow> AddThread fuel w te (c\<lparr>cf_Key := k\<rparr>) sk i False False
          | None \<Rightarrow> enter_thread w te (thread_model c tid sk i sch members) False False) s3 = (Inr t, s')"
    using Suc.prems ne unfolding AddThread.simps Let_def c_def [symmetric] by (auto simp: go_bind_Inr_iff assms(2) go_lift_def)
  show ?case
  proof (cases retry)
    case (Some k)
    then show ?thesis using rest Suc.IH by simp
  next
    case None
    have h: "heads_of tid s3 = Some []" using insert_thread_heads [of c "thread_model c tid sk i sch members" s2 s3] ins None by (simp add: thread_model_def)
    obtain s4 where l: "loadThread te (thread_model c tid sk i sch members) s3 = (Inr t, s4)"
      and u: "sendUpdate w (AccountThreadAdded (t_Id t)) (t_Id t) s4 = (Inr (), s')"
      using rest None by (auto simp: enter_thread_def go_bind_Inr_iff go_seq_Inr_iff go_return_def)
    have "ns_threads s' = ns_threads s4" "ns_loaded s' = ns_loaded s4"
      using u by (auto simp: sendUpdate_def go_defs emit_def split: if_splits)
    then have "heads_of tid s' = heads_of tid s4" "loaded_thread tid s' = loaded_thread tid s4"
      by (simp_all add: heads_of_def loaded_thread_def)
    then show ?thesis
      using loadThread_result [OF l] h heads_of_cong [of s4 s3 tid] by (simp add: thread_model_def)
  qed
qed

section \<open>Snapshots\<close>

text \<open>A thread that was joined by this node has a join block in the index.\<close>

definition joined :: "world \<Rightarrow> string \<Rightarrow> node_state \<Rightarrow> bool" where
  "joined w tid s \<longleftrightarrow> blocks_Count (joined_query w tid) (ns_blocks s) \<noteq> 0"

lemma joined_iff: "joined w tid s \<longleftrightarrow> (\<exists>r\<in>set (ns_blocks s). joined_query w tid r)"
  by (simp add: joined_def blocks_Count_def sql_count_def filter_empty_conv)

lemma thread_join_joins:
  assumes "thread_join w t inviter s = (Inr h, s')"
  shows "joined w (t_Id t) s' \<and> ns_threads s' = ns_threads s \<and> ns_loaded s' = ns_loaded s"
proof -
  obtain p res s1 where c: "commitBlock w p Block_JOIN True (w_encrypt w (t_Id t)) s = (Inr res, s1)"
    and i: "indexBlock w t (outBlock t res Block_JOIN [] [] []) False s1 = (Inr (), s')"
    using assms by (auto simp: thread_join_def out_op_def go_bind_Inr_iff go_seq_Inr_iff go_get_def go_fail_def go_return_def
        split: if_splits option.splits)
  have a: "hdr_Author (cr_header res) = w_self w"
    using c by (auto simp: commitBlock_def newBlockHeader_def go_bind_Inr_iff go_return_def)
  obtain s2 where b: "on_blocks (blocks_Add (w_clock w (ns_tick s1)) (outBlock t res Block_JOIN [] [] []))
        (s1\<lparr>ns_tick := ns_tick s1 + 1\<rparr>) = (Inr (), s2)"
    and u: "pushUpdate w (outBlock t res Block_JOIN [] [] []) (t_Key t) s2 = (Inr (), s')"
    using i by (auto simp: indexBlock_def go_bind_Inr_iff go_seq_Inr_iff TimestampNow_def draw_def)
  have row: "\<exists>r\<in>set (ns_blocks s2). joined_query w (t_Id t) r" "ns_threads s2 = ns_threads s1" "ns_loaded s2 = ns_loaded s1"
    using b by (auto simp: on_blocks_run blocks_Add_def sql_insert_def joined_query_def blocks_enc_def outBlock_def a split: if_splits)
  have s2: "ns_blocks s' = ns_blocks s2" "ns_threads s' = ns_threads s2" "ns_loaded s' = ns_loaded s2"
    using u by (auto simp: pushUpdate_def go_defs emit_def split: if_splits)
  have "keeps_part ns_threads (commitBlock w p Block_JOIN True (w_encrypt w (t_Id t)))"
    "keeps_part ns_loaded (commitBlock w p Block_JOIN True (w_encrypt w (t_Id t)))"
    by (intro keeps_node; simp add: apart_from_cafe_def)+
  then have "ns_threads s1 = ns_threads s" "ns_loaded s1 = ns_loaded s"
    using same.keeps_run c by (fastforce simp: same_def)+
  then show ?thesis using row s2 by (simp add: joined_iff)
qed

lemma Heads_state: "Heads t s = (r, s') \<Longrightarrow> s' = s"
  by (auto simp: Heads_run split: option.splits)

text \<open>The state after a snapshot was applied, whether its thread was there or not.\<close>

lemma snapshot_applied:
  assumes "AddOrUpdateThread fuel w te snap s = (Inr rest, s')"
    and "\<forall>h\<in>set (SplitString (thr_Head snap) CHR '',''). clean_word CHR '','' h"
  obtains tid t where "te_threadId te (thr_Sk snap) = Inr tid" "loaded_thread tid s' = Some t" "t_Id t = tid"
    "joined w tid s'" "heads_of tid s' \<noteq> None"
    "rest = (if heads_of tid s' = Some (SplitString (thr_Head snap) CHR '','') then None
             else Some (t, SplitString (thr_Head snap) CHR '',''))"
    "loaded_thread tid s = None \<Longrightarrow> heads_of tid s' = Some (SplitString (thr_Head snap) CHR '','')"
    "loaded_thread tid s \<noteq> None \<Longrightarrow> heads_of tid s' = heads_of tid s"
proof -
  define heads where "heads = SplitString (thr_Head snap) CHR '',''"
  obtain tid where tid: "te_threadId te (thr_Sk snap) = Inr tid"
    using assms(1) by (auto simp: AddOrUpdateThread_def go_defs split: if_splits sum.splits)
  obtain t s1 where get: "(case loaded_thread tid s of Some t \<Rightarrow> go_return t
              | None \<Rightarrow>
                  go_bind (AddThread fuel w te (snapshot_config snap) (thr_Sk snap) (thr_Initiator snap) False False) (\<lambda>t.
                  go_seq (updateHead w t heads False) (go_return t))) s = (Inr t, s1)"
    and r1: "go_seq (go_when (blocks_Count (joined_query w (t_Id t)) (ns_blocks s1) = 0)
             (go_bind (thread_join w t (w_self w)) (\<lambda>_. go_return ())))
          (go_bind (Heads t) (\<lambda>xheads.
           go_return (if EqualStringSlices xheads heads then None else Some (t, heads)))) s1 = (Inr rest, s')"
    using assms(1) unfolding AddOrUpdateThread_def Let_def heads_def [symmetric]
    by (auto simp: tid go_bind_lift go_get_def go_fail_def split: if_splits elim!: go_bind_InrE)
  have one: "t_Id t = tid \<and> loaded_thread tid s1 = Some t \<and> (loaded_thread tid s = None \<longrightarrow> heads_of tid s1 = Some heads)
      \<and> (loaded_thread tid s \<noteq> None \<longrightarrow> s1 = s)"
  proof (cases "loaded_thread tid s")
    case (Some x)
    then have "x = t" "s1 = s" using get by (auto simp: go_return_def)
    moreover have "t_Id t = tid" using Some \<open>x = t\<close> by (auto simp: loaded_thread_def find_Some_iff)
    ultimately show ?thesis using Some by simp
  next
    case None
    obtain s0 where add: "AddThread fuel w te (snapshot_config snap) (thr_Sk snap) (thr_Initiator snap) False False s = (Inr t, s0)"
      and up: "updateHead w t heads False s0 = (Inr (), s1)"
      using get None by (auto simp: go_seq_Inr_iff go_return_def elim!: go_bind_InrE)
    have a: "t_Id t = tid" "heads_of tid s0 = Some []" "loaded_thread tid s0 = Some t"
      using AddThread_adds [OF add tid] by auto
    have "heads_of tid s1 = Some heads"
      using updateHead_heads [OF _ _ up] assms(2) a by (simp add: heads_def)
    moreover have "ns_loaded s1 = ns_loaded s0"
      using up by (auto simp: updateHead_def on_threads_run go_defs threads_UpdateHead_def sql_update_def)
    ultimately show ?thesis using a None by (simp add: loaded_thread_def)
  qed
  obtain xheads s2 where j: "go_when (blocks_Count (joined_query w (t_Id t)) (ns_blocks s1) = 0)
       (go_bind (thread_join w t (w_self w)) (\<lambda>_. go_return ())) s1 = (Inr (), s2)"
    and x: "Heads t s2 = (Inr xheads, s')" and rest: "rest = (if xheads = heads then None else Some (t, heads))"
    using r1 by (auto simp: go_bind_get go_bind_Inr_iff go_seq_Inr_iff go_return_def EqualStringSlices_iff)
  have s': "s' = s2" using Heads_state [OF x] .
  have two: "joined w tid s2 \<and> ns_threads s2 = ns_threads s1 \<and> ns_loaded s2 = ns_loaded s1"
  proof (cases "joined w tid s1")
    case True
    then show ?thesis using j one by (simp add: joined_def go_when_def go_return_def)
  next
    case False
    then show ?thesis
      using j one thread_join_joins [of w t "w_self w" s1] by (auto simp: joined_def go_when_def go_bind_Inr_iff go_return_def)
  qed
  have h2: "heads_of tid s2 = heads_of tid s1" using two heads_of_cong by blast
  have xh: "heads_of tid s' = Some xheads" using x one by (auto simp: s' Heads_run split: option.splits)
  show ?thesis
  proof (rule that [OF tid])
    show "loaded_thread tid s' = Some t" using one two by (simp add: s' loaded_thread_def)
    show "t_Id t = tid" using one by blast
    show "joined w tid s'" using two by (simp add: s')
    show "heads_of tid s' \<noteq> None" by (simp add: xh)
    show "rest = (if heads_of tid s' = Some (SplitString (thr_Head snap) CHR '','') then None
             else Some (t, SplitString (thr_Head snap) CHR '',''))"
      by (simp add: rest xh heads_def)
    show "heads_of tid s' = Some (SplitString (thr_Head snap) CHR '','')" if "loaded_thread tid s = None"
      using that one h2 by (simp add: s' heads_def)
    show "heads_of tid s' = heads_of tid s" if "loaded_thread tid s \<noteq> None"
      using that one h2 by (simp add: s')
  qed
qed


text \<open>A snapshot of a thread the node does not have is added with the heads of the snapshot, and since the heads
  are then compared with those of the snapshot they are equal: nothing is left to follow, so the
  blocks behind the heads are not asked for.\<close>

lemma new_snapshot_follows_nothing:
  assumes "AddOrUpdateThread fuel w te snap s = (Inr rest, s')"
    and "te_threadId te (thr_Sk snap) = Inr tid" "loaded_thread tid s = None"
    and "\<forall>h\<in>set (SplitString (thr_Head snap) CHR '',''). clean_word CHR '','' h"
  shows "rest = None \<and> heads_of tid s' = Some (SplitString (thr_Head snap) CHR '','')
    \<and> loaded_thread tid s' \<noteq> None \<and> joined w tid s'"
proof -
  obtain t where "loaded_thread tid s' = Some t" "joined w tid s'"
    "rest = (if heads_of tid s' = Some (SplitString (thr_Head snap) CHR '','') then None
             else Some (t, SplitString (thr_Head snap) CHR '',''))"
    "heads_of tid s' = Some (SplitString (thr_Head snap) CHR '','')"
    by (rule snapshot_applied [OF assms(1,4)]) (use assms(2,3) in auto)
  then show ?thesis by simp
qed








section \<open>Loading the threads\<close>

lemma loadThread_run:
  assumes "loaded_thread (thr_Id m) s = None"
  shows "loadThread te m s = (case NewThread te m of Inl e \<Rightarrow> (Inl e, s)
    | Inr t \<Rightarrow> (Inr t, s\<lparr>ns_loaded := ns_loaded s @ [t]\<rparr>))"
  using assms by (simp add: loadThread_def go_defs split: sum.splits)

lemma NewThread_Id: "NewThread te m = Inr t \<Longrightarrow> t_Id t = thr_Id m"
  by (auto simp: NewThread_def split: sum.splits if_splits)

definition load_one :: "thread_env \<Rightarrow> Thread \<Rightarrow> unit node_op" where
  "load_one te model = go_catch (go_bind (loadThread te model) (\<lambda>_. go_return ()))
     (\<lambda>err. if err = ErrThreadLoaded then go_return () else go_fail err)"

text \<open>A run over models none of which is loaded yet: all are loaded, or the first error is returned.\<close>

lemma load_all_run:
  assumes "\<And>h. te_loadSchema te h \<noteq> Inl ErrThreadLoaded"
    and "distinct (map t_Id (ns_loaded s) @ map thr_Id ms)"
  shows "case each_view (NewThread te) ms of
       Inr ts \<Rightarrow> go_foreach (load_one te) ms s = (Inr (), s\<lparr>ns_loaded := ns_loaded s @ ts\<rparr>)
     | Inl e \<Rightarrow> fst (go_foreach (load_one te) ms s) = Inl e"
  using assms(2)
proof (induction ms arbitrary: s)
  case Nil
  then show ?case by (simp add: go_return_def)
next
  case (Cons m ms)
  have n: "loaded_thread (thr_Id m) s = None"
    using Cons.prems by (auto simp: loaded_thread_def find_None_iff) (metis imageI)
  show ?case
  proof (cases "NewThread te m")
    case (Inl e)
    then have "e \<noteq> ErrThreadLoaded" using assms(1) by (auto simp: NewThread_def split: if_splits sum.splits)
    then show ?thesis by (simp add: load_one_def go_defs loadThread_run [OF n] Inl)
  next
    case (Inr t)
    define s1 where "s1 = s\<lparr>ns_loaded := ns_loaded s @ [t]\<rparr>"
    have one: "load_one te m s = (Inr (), s1)"
      by (simp add: load_one_def go_catch_def go_bind_def go_return_def loadThread_run [OF n] Inr s1_def)
    have "distinct (map t_Id (ns_loaded s1) @ map thr_Id ms)"
      using Cons.prems NewThread_Id [OF Inr] by (auto simp: s1_def)
    from Cons.IH [OF this] show ?thesis
      by (cases "each_view (NewThread te) ms") (simp_all add: go_seq_def go_bind_step [where m = "load_one te m" and s = s, OF one] Inr, simp add: s1_def)
  qed
qed

lemma each_view_Inr_iff: "each_view f xs = Inr ys \<longleftrightarrow> map f xs = map Inr ys"
proof (induction xs arbitrary: ys)
  case (Cons x xs)
  show ?case by (cases "f x"; cases ys) (auto simp: Cons.IH [symmetric] split: sum.splits)
qed auto

lemma threads_List_ids: "map thr_Id (threads_List t) = map threads_id t"
  by (simp add: threads_List_def threads_dec_def)

text \<open>A node that starts loads every thread of its table, in the order of the table, and changes nothing
  else; it starts exactly when the schema of each of its threads can be read or is not found.\<close>

lemma start_loads_every_thread:
  assumes "ns_loaded s = []" "distinct (map threads_id (ns_threads s))"
    and "\<And>h. te_loadSchema te h \<noteq> Inl ErrThreadLoaded"
  shows "load_threads te s = (Inr (), s')
    \<longleftrightarrow> (\<exists>ts. map (NewThread te) (threads_List (ns_threads s)) = map Inr ts \<and> s' = s\<lparr>ns_loaded := ts\<rparr>)"
proof -
  define ms where "ms = threads_List (ns_threads s)"
  have d: "distinct (map t_Id (ns_loaded s) @ map thr_Id ms)"
    using assms(1,2) by (simp add: ms_def threads_List_ids)
  have run: "load_threads te s = go_foreach (load_one te) ms s"
    by (simp add: load_threads_def go_bind_get ms_def load_one_def [abs_def])
  show ?thesis
  proof (cases "each_view (NewThread te) ms")
    case (Inl e)
    have "fst (load_threads te s) = Inl e" using load_all_run [OF assms(3) d] run by (simp add: Inl)
    moreover have "\<nexists>ts. map (NewThread te) ms = map Inr ts" by (simp add: each_view_Inr_iff [symmetric] Inl)
    ultimately show ?thesis by (auto simp: ms_def)
  next
    case (Inr ts)
    have "load_threads te s = (Inr (), s\<lparr>ns_loaded := ts\<rparr>)" using load_all_run [OF assms(3) d] run assms(1) by (simp add: Inr)
    moreover have "map (NewThread te) ms = map Inr ts" using Inr by (simp add: each_view_Inr_iff)
    ultimately show ?thesis by (auto simp: ms_def map_injective)
  qed
qed

section \<open>The account thread\<close>

lemma UpdateSchema_result:
  assumes "t_schemaId t = []" "UpdateSchema te t hash s = (Inr (), s')"
  shows "ns_loaded s' = map (\<lambda>x. if t_Id x = t_Id t then t\<lparr>t_Schema := None\<rparr> else x) (ns_loaded s)"
    "ns_threads s' = map (\<lambda>r. if threads_id r = t_Id t then r\<lparr>threads_schema := hash\<rparr> else r) (ns_threads s)"
  using assms
  by (auto simp: UpdateSchema_def replace_thread_def thread_loadSchema_def go_defs on_threads_run threads_UpdateSchema_def sql_update_def)

lemma loaded_Some: "loaded_thread tid s = Some t \<Longrightarrow> t_Id t = tid \<and> t \<in> set (ns_loaded s)"
  by (auto simp: loaded_thread_def find_Some_iff)

text \<open>An account thread without a schema gets one in the table only: the field \<open>schemaId\<close> of the thread in memory is
  not set, so reading the schema again reads none, and files cannot be added until the node starts again.\<close>

lemma account_schema_needs_a_restart:
  assumes "AccountThread w s = Some t" "ac_id ac = Inr (t_Id t)" "t_Schema t = None" "t_schemaId t = []"
    and "addAccountThread fuel w te ac s = (Inr (), s')" "\<And>s. ns_loaded (snd (ac_addSchema ac s)) = ns_loaded s"
    and "writable t (w_configAddress w)"
  shows "(\<forall>r\<in>set (ns_threads s'). threads_id r = t_Id t \<longrightarrow> fst (avatar_schema ac s) = Inr (threads_schema r))
    \<and> loaded_thread (t_Id t) s' = Some t
    \<and> fst (AddFiles w t node caption target keys s') = Inl (ErrMsg ''thread schema required to add files'')"
proof -
  have mem: "t \<in> set (ns_loaded s)" using assms(1) by (auto simp: AccountThread_def find_Some_iff)
  obtain hash s1 where a: "avatar_schema ac s = (Inr hash, s1)" and u: "UpdateSchema te t hash s1 = (Inr (), s')"
    using assms(1-3,5) by (auto simp: addAccountThread_def go_bind_get go_bind_lift go_bind_Inr_iff)
  have "ns_loaded s1 = ns_loaded s"
    using a assms(6) [of s] by (auto simp: avatar_schema_def go_bind_Inr_iff go_return_def go_fail_def split: option.splits)
  moreover have same: "t\<lparr>t_Schema := None\<rparr> = t" using assms(3) by simp
  ultimately have l: "ns_loaded s' = map (\<lambda>x. if t_Id x = t_Id t then t else x) (ns_loaded s)"
    using UpdateSchema_result(1) [OF assms(4) u] by simp
  have f: "find (\<lambda>x. t_Id x = t_Id t) (map (\<lambda>x. if t_Id x = t_Id t then t else x) xs) = Some t" if "t \<in> set xs" for xs
    using that by (induction xs) auto
  have loaded: "loaded_thread (t_Id t) s' = Some t" by (simp add: loaded_thread_def l f [OF mem])
  have row: "\<forall>r\<in>set (ns_threads s'). threads_id r = t_Id t \<longrightarrow> threads_schema r = hash"
    using UpdateSchema_result(2) [OF assms(4) u] by auto
  show ?thesis using loaded row assms(3,7) a by (simp add: AddFiles_def go_fail_def)
qed

text \<open>An account thread without a schema, and a schema store that returns the hash \<open>q\<close>.\<close>

definition sample_account_thread :: thread where
  "sample_account_thread = sample_thread\<lparr>t_Key := ''A'', t_initiator := ''A''\<rparr>"

definition sample_avatars :: FileIndex where
  "sample_avatars = \<lparr>file_Mill = [], file_Checksum = [], file_Source = [], file_Opts = [], file_Hash = ''q'',
     file_Key = [], file_Media = [], file_Name = [], file_Size = 0, file_Added = None, file_Meta = None, file_Targets = []\<rparr>"

definition sample_account :: account_env where
  "sample_account = \<lparr>ac_id = Inr ''T'', ac_privKey = Inr [], ac_addSchema = go_return (Some sample_avatars)\<rparr>"

section \<open>Results of a snapshot search\<close>

definition opened_ids ::
  "(bytes \<Rightarrow> goerr + bytes) \<Rightarrow> (bytes \<Rightarrow> goerr + Thread) \<Rightarrow> (goerr + QueryResult) list \<Rightarrow> string list" where
  "opened_ids d u events = concat (map (\<lambda>ev. case ev of Inl _ \<Rightarrow> []
     | Inr res \<Rightarrow> (case open_snapshot d u res of Inl _ \<Rightarrow> [] | Inr (rid, _) \<Rightarrow> [rid])) events)"

definition delivered :: "(goerr + 'a) list \<Rightarrow> 'a list" where
  "delivered out = concat (map (\<lambda>x. case x of Inl _ \<Rightarrow> [] | Inr y \<Rightarrow> [y]) out)"

lemma delivered_simps [simp]:
  "delivered [] = []" "delivered (Inl e # xs) = delivered xs" "delivered (Inr y # xs) = y # delivered xs"
  by (simp_all add: delivered_def)

lemma opened_ids_simps [simp]:
  "opened_ids d u [] = []" "opened_ids d u (Inl e # xs) = opened_ids d u xs"
  "opened_ids d u (Inr res # xs) = (case open_snapshot d u res of Inl _ \<Rightarrow> [] | Inr (rid, _) \<Rightarrow> [rid]) @ opened_ids d u xs"
  by (simp_all add: opened_ids_def)

text \<open>The snapshots of a search are passed on once for every thread and head, at their first result.\<close>

lemma snapshot_results_ids:
  "map qr_Id (delivered (snapshot_results d u seen events))
     = filter (\<lambda>i. i \<notin> set seen) (distinct_by id (opened_ids d u events))"
proof (induction d u seen events rule: snapshot_results.induct)
  case (3 d u seen res events)
  show ?case
  proof (cases "open_snapshot d u res")
    case (Inl e)
    then show ?thesis using 3 by simp
  next
    case (Inr p)
    obtain rid b where p: "p = (rid, b)" by fastforce
    have "filter (\<lambda>i. i \<notin> set seen) (filter (\<lambda>x. x \<noteq> rid) xs) = filter (\<lambda>i. i \<notin> set (rid # seen)) xs" for xs
      by (induction xs) auto
    then show ?thesis using 3 Inr p by (auto simp: filter_id_conv intro!: filter_cong)
  qed
qed simp_all

end
