(* ===== verification/CafeApiProps.thy ===== *)
theory CafeApiProps
  imports CafeApi CafeProps
begin

text \<open>
  The HTTP API of a cafe host: what a request without a good token does, snapshots over HTTP and over
  the peer protocol, the frames of a stream, and a search that ends the process of the host.
\<close>

section \<open>Frames\<close>

lemma Uint16_PutUint16: "Uint16 (PutUint16 n) = n mod 65536"
proof -
  have a: "unat (word_of_nat (n mod 256) :: 8 word) = n mod 256"
    by (simp add: unat_of_nat take_bit_eq_mod)
  have b: "unat (word_of_nat (n div 256 mod 256) :: 8 word) = n div 256 mod 256"
    by (simp add: unat_of_nat take_bit_eq_mod)
  have "n mod 256 + 256 * (n div 256 mod 256) = n mod 65536"
    using mod_mult2_eq [of n 256 256] by simp
  then show ?thesis by (simp add: Uint16_def PutUint16_def a b)
qed

lemma read_frame_frame:
  "read_frame (frame m @ rest) =
     (let n = length m mod 65536 in
      if n = 0 then Frame [] (m @ rest) else Frame (take n m) (drop n m @ rest))"
proof -
  have len: "length (PutUint16 k) = 2" for k by (simp add: PutUint16_def)
  have "length m mod 65536 \<le> length m" by simp
  then have l: "length m mod 65536 - length m = 0" by linarith
  have two: "frame m @ rest = PutUint16 (length m) @ (m @ rest)" by (simp add: frame_def)
  have ne: "m @ rest \<noteq> []" if "length m mod 65536 \<noteq> 0" using that by auto
  show ?thesis
    unfolding read_frame_def two using ne l
    by (simp add: len Uint16_PutUint16 Let_def) (simp add: PutUint16_def)
qed

text \<open>A message of a stream is read back as it was written exactly when it is shorter than 64 KiB: the two bytes of
  its length hold no more, and of a longer one the reader takes the first part for the message and
  the rest for the next frames.\<close>

lemma frame_is_read_back_iff_short:
  "read_frame (frame m @ rest) = Frame m rest \<longleftrightarrow> length m < 65536"
proof
  assume "length m < 65536"
  then show "read_frame (frame m @ rest) = Frame m rest" by (simp add: read_frame_frame Let_def)
next
  assume a: "read_frame (frame m @ rest) = Frame m rest"
  define n where "n = length m mod 65536"
  have "n < 65536" by (simp add: n_def)
  have "take n m = m" using a by (auto simp: read_frame_frame Let_def n_def [symmetric] split: if_splits)
  then have "length m \<le> n" by (metis length_take min.cobounded2)
  then show "length m < 65536" using \<open>n < 65536\<close> by simp
qed

lemma frame_ne: "frame m @ rest \<noteq> []"
  by (simp add: frame_def PutUint16_def)

text \<open>C11. The client of a search gets the envelopes of the host, all of them and nothing else, exactly when each of them is
  shorter than 64 KiB.\<close>

theorem streamed_envelopes_arrive_iff_short:
  "read_frames (concat (map (\<lambda>e. frame (marshal e)) envs)) = (map marshal envs, True)
     \<longleftrightarrow> (\<forall>e\<in>set envs. length (marshal e) < 65536)"
proof (induction envs)
  case Nil
  show ?case by (simp add: read_frames.simps [of "[]"] read_frame_def)
next
  case (Cons e envs)
  define m where "m = marshal e"
  define rest where "rest = concat (map (\<lambda>e. frame (marshal e)) envs)"
  have u: "read_frames (frame m @ rest) =
     (case read_frame (frame m @ rest) of
        EndOfFrames \<Rightarrow> ([], True) | CutFrame \<Rightarrow> ([], False)
      | Frame m rest \<Rightarrow> (let (ms, ok) = read_frames rest in (m # ms, ok)))"
    by (rule read_frames.simps)
  show ?case
  proof (cases "length m < 65536")
    case True
    then have "read_frame (frame m @ rest) = Frame m rest" by (simp add: frame_is_read_back_iff_short)
    with u have "read_frames (frame m @ rest) = (let (ms, ok) = read_frames rest in (m # ms, ok))" by simp
    then show ?thesis using Cons.IH True by (auto simp: m_def rest_def split: prod.splits)
  next
    case False
    define n where "n = length m mod 65536"
    have "length (take n m) < length m" using False by (simp add: n_def)
    then have "fst (read_frames (frame m @ rest)) \<noteq> m # xs" for xs
      using u False by (auto simp: read_frame_frame Let_def n_def [symmetric] split: prod.splits if_splits)
    then have "read_frames (frame m @ rest) \<noteq> (m # map marshal envs, True)" by (metis fst_conv)
    then show ?thesis using False by (auto simp: m_def rest_def)
  qed
qed

section \<open>Tokens\<close>

lemma Validate_errors:
  assumes "Validate w jw tok refreshing aud sub s = (Inl err, s')"
  shows "err \<in> {ErrNoToken, ErrExpired, ErrInvalid}"
  using assms
  by (auto simp: Validate_def check_claims_def go_defs TimestampNow_def draw_def Let_def
      split: option.splits sum.splits if_splits prod.splits)

lemma Validate_state:
  "\<exists>n. snd (Validate w jw tok refreshing aud sub s) = s\<lparr>ns_tick := n\<rparr>"
  by (auto simp: Validate_def go_defs TimestampNow_def draw_def Let_def
      split: option.splits sum.splits if_splits prod.splits)

text \<open>C8. A request to a route that takes a token gets to its handler only with an access token for the cafe protocol that
  validates, and then as the subject of the token; every other one is answered with 401 or 403
  and changes nothing.\<close>

theorem http_token_guards:
  "case bearer header of
     None \<Rightarrow> validateToken ca w header route s = (Inr 401, s)
   | Some tok \<Rightarrow>
       (case Validate w (ca_jwt ca) tok False cafeServiceProtocol None s of
          (Inr claims, s1) \<Rightarrow> validateToken ca w header route s = route (jc_Subject claims) s1
            \<and> jc_Scope claims = scope_Access \<and> jw_verifyAudience (ca_jwt ca) claims cafeServiceProtocol True
        | (Inl _, s1) \<Rightarrow> \<exists>code n. (code = 401 \<or> code = 403) \<and> validateToken ca w header route s = (Inr code, s\<lparr>ns_tick := n\<rparr>))"
proof (cases "bearer header")
  case None
  then show ?thesis by (simp add: validateToken_def go_return_def)
next
  case (Some tok)
  obtain r s1 where v: "Validate w (ca_jwt ca) tok False cafeServiceProtocol None s = (r, s1)" by fastforce
  obtain n where n: "s1 = s\<lparr>ns_tick := n\<rparr>" using Validate_state [of w "ca_jwt ca" tok False cafeServiceProtocol None s] v by auto
  show ?thesis
  proof (cases r)
    case (Inl err)
    have e: "err = ErrNoToken \<or> err = ErrExpired \<or> err = ErrInvalid" using Validate_errors v Inl by blast
    then have "\<not> is_panic err" by (auto simp: is_panic_def)
    then have "go_try (Validate w (ca_jwt ca) tok False cafeServiceProtocol None) s = (Inr (Inl err), s1)"
      using v Inl by (simp add: go_try_run)
    then have "validateToken ca w header route s = (Inr (if err = ErrInvalid then 403 else 401), s1)"
      using Some e by (auto simp: validateToken_def go_bind_def go_return_def)
    then show ?thesis using Some v Inl n by (cases "err = ErrInvalid") auto
  next
    case (Inr claims)
    then have t: "go_try (Validate w (ca_jwt ca) tok False cafeServiceProtocol None) s = (Inr (Inr claims), s1)"
      using v by (simp add: go_try_run)
    have "check_claims (ca_jwt ca) claims False cafeServiceProtocol None = Inr claims"
      using v Inr by (auto simp: Validate_def go_defs TimestampNow_def draw_def check_claims_def Let_def split: option.splits sum.splits if_splits)
    then have "jc_Scope claims = scope_Access \<and> jw_verifyAudience (ca_jwt ca) claims cafeServiceProtocol True"
      by (auto simp: check_claims_def Let_def scope_Access_def scope_Refresh_def split: if_splits)
    then show ?thesis using Some v Inr t by (simp add: validateToken_def go_bind_def)
  qed
qed

lemma Validate_subject:
  assumes "Validate w jw tok refreshing aud (Some pid) s = (Inr claims, s1)"
  shows "Validate w jw tok refreshing aud None s = (Inr claims, s1) \<and> jc_Subject claims = pid"
  using assms
  by (auto simp: Validate_def check_claims_def go_defs TimestampNow_def draw_def Let_def
      split: option.splits sum.splits if_splits prod.splits)

lemma authorized_run:
  assumes "Validate w (ca_jwt ca) tok refreshing cafeServiceProtocol (Some pid) s = (Inr claims, s1)"
  shows "authorized ca w m pid tok refreshing k s = k s1"
  using assms by (simp add: authorized_def authToken_def go_bind_def go_try_run go_return_def)

lemma answer_state: "snd (reply ca m ty p s) = s"
  by (simp add: reply_def go_defs split: sum.splits)

lemma return_state: "snd (go_return x s) = s"
  by (simp add: go_return_def)

lemma refused_state: "snd (refuse ca m c txt s) = s"
  by (simp add: refuse_def go_defs split: sum.splits)

lemma or_500_state:
  assumes "\<And>x s. snd (k x s) = s" "\<And>x s. snd (k' x s) = s"
  shows "snd (or_500 ca m op txt k s) = snd (or_abort code op k' s)"
  using assms by (simp add: or_500_def or_abort_def go_bind_def go_return_def refused_state split: prod.splits sum.splits)

text \<open>C9. A snapshot that is stored or removed over HTTP with a token of a client does to the host what the message of
  that client with the same token does.\<close>

theorem http_thread_is_p2p:
  assumes "Validate w (ca_jwt ca) tok False cafeServiceProtocol (Some pid) s = (Inr claims, s1)" "bearer header = Some tok"
  shows "(msg_Payload m = Some (MCafeStoreThread \<lparr>sth_Token = tok, sth_Id = tid, sth_Ciphertext = ct\<rparr>) \<longrightarrow>
      snd (validateToken ca w header (\<lambda>from. api_storeThread from tid (Inr ct)) s) = snd (handleStoreThread ca w m pid s))
    \<and> (msg_Payload m = Some (MCafeUnstoreThread \<lparr>uth_Token = tok, uth_Id = tid\<rparr>) \<longrightarrow>
      snd (validateToken ca w header (\<lambda>from. api_unstoreThread from tid) s) = snd (handleUnstoreThread ca w m pid s))"
proof -
  note v = Validate_subject [OF assms(1)]
  have h: "validateToken ca w header route s = route pid s1" for route
    using http_token_guards [where header = header and ca = ca and w = w and route = route and s = s] assms(2) v by simp
  have o: "snd (or_abort 400 (go_lift (Inr ct)) k s) = snd (k ct s)" for k s
    by (simp add: or_abort_def go_bind_def go_try_run go_lift_def)
  have "snd (validateToken ca w header (\<lambda>from. api_storeThread from tid (Inr ct)) s) = snd (handleStoreThread ca w m pid s)"
    if "msg_Payload m = Some (MCafeStoreThread \<lparr>sth_Token = tok, sth_Id = tid, sth_Ciphertext = ct\<rparr>)"
    using that
    by (cases "clients_Get pid (ns_cafe_clients s1)")
      (simp_all add: h handleStoreThread_def request_run authorized_run [OF assms(1)] with_client_def api_storeThread_def go_bind_get
        o refused_state return_state or_500_state [where code = 500 and k' = "\<lambda>_. go_return 204"] answer_state)
  moreover have "snd (validateToken ca w header (\<lambda>from. api_unstoreThread from tid) s) = snd (handleUnstoreThread ca w m pid s)"
    if "msg_Payload m = Some (MCafeUnstoreThread \<lparr>uth_Token = tok, uth_Id = tid\<rparr>)"
    using that
    by (cases "clients_Get pid (ns_cafe_clients s1)")
      (simp_all add: h handleUnstoreThread_def request_run authorized_run [OF assms(1)] with_client_def api_unstoreThread_def go_bind_get
        refused_state return_state or_500_state [where code = 500 and k' = "\<lambda>_. go_return 204"] answer_state)
  ultimately show ?thesis by blast
qed

text \<open>A search over HTTP whose envelope has no message ends the process of the host: the type of the message is
  read in a goroutine of its own. Whoever has a token can send it, an empty body is such an envelope.\<close>

lemma empty_search_panics:
  assumes "ca_unmarshalEnvelope ca b = Inr env" "me_Message env = None" "sn_decodePeer (ca_net ca) from = Inr pid"
  shows "api_search ca w events marshal from (Inr b) s = (Inl (Panic ''nil message''), s)"
  using assms by (simp add: api_search_def HandleStream_def go_defs)


section \<open>Witnesses\<close>

theorem streamed_envelopes_arrive_iff_short_witness:
  "read_frames (concat (map (\<lambda>e. frame (me_Sig e)) [\<lparr>me_Message = None, me_Sig = [1, 2]\<rparr>, \<lparr>me_Message = None, me_Sig = []\<rparr>]))
     = ([[1, 2], []], True)"
  using streamed_envelopes_arrive_iff_short
    [of me_Sig "[\<lparr>me_Message = None, me_Sig = [1, 2]\<rparr>, \<lparr>me_Message = None, me_Sig = []\<rparr>]"] by simp

theorem http_thread_is_p2p_witness:
  "snd (validateToken sample_host (sample_world undefined) ''Basic t'' (\<lambda>from. api_storeThread from ''T'' (Inr [1])) sample_host_state)
   = snd (handleStoreThread sample_host (sample_world undefined)
       \<lparr>msg_Type = Message_CAFE_STORE_THREAD,
        msg_Payload = Some (MCafeStoreThread \<lparr>sth_Token = ''t'', sth_Id = ''T'', sth_Ciphertext = [1]\<rparr>),
        msg_Request = 1, msg_Response = False\<rparr> ''P'' sample_host_state)"
proof -
  have b: "bearer ''Basic t'' = Some ''t''" by (simp add: bearer_def Let_def)
  have v: "Validate (sample_world undefined) (ca_jwt sample_host) ''t'' False cafeServiceProtocol (Some ''P'') sample_host_state
      = (Inr sample_claims, sample_host_state\<lparr>ns_tick := 1\<rparr>)"
    by (simp add: Validate_def go_defs TimestampNow_def draw_def sample_host_defs check_claims_def ParseClaims_def
        sample_defs sample_host_state_def scope_Access_def)
  show ?thesis using http_thread_is_p2p [OF v b] by simp
qed

end
