(* ===== verification/MessageSender.thy ===== *)
theory MessageSender
  imports CafeWire
begin

text \<open>
  Who sends over which stream, \<^verbatim>\<open>service/sender.go\<close>, and the loops that serve what arrives,
  \<^verbatim>\<open>service/service.go\<close>. A service keeps one sender per peer, and a sender keeps a stream to its peer and
  uses it again. Goroutines share the senders: a step of the model is what happens under one lock, and
  the steps of different callers come in any order.
\<close>

section \<open>Senders and streams\<close>

text \<open>
  A pointer to a sender is its position in the heap, and a stream is known by its position among the
  streams that were ever opened. The reader of a sender is made with its stream and reads that one.
\<close>

record message_sender =
  ms_s :: "nat option"
  ms_p :: string
  ms_invalid :: bool
  ms_singleMes :: nat

datatype stream_status = StreamOpen | StreamReset | StreamClosing

record sender_state =
  sd_strmap :: "string \<Rightarrow> nat option"
  sd_heap :: "message_sender list"
  sd_streams :: "(string \<times> stream_status) list"
  sd_tick :: nat

type_synonym 'a sender_op = "(sender_state, 'a) go"

text \<open>
  What the network answers, each call with a number of its own. A read ends with what the reader
  returns, with the context, or with the timer, whichever is first.
\<close>

datatype read_event = ReadMsg "goerr + bytes" | ContextDone goerr | TimerFired

record link =
  ln_NewStream :: "nat \<Rightarrow> string \<Rightarrow> goerr option"
  ln_writeMsg :: "nat \<Rightarrow> MsgEnvelope \<Rightarrow> goerr option"
  ln_read :: "nat \<Rightarrow> read_event"
  ln_unmarshal :: "bytes \<Rightarrow> goerr + MsgEnvelope"

definition ctxReadMsg :: "link \<Rightarrow> read_event \<Rightarrow> goerr + MsgEnvelope" where
  "ctxReadMsg ln e =
     (case e of ReadMsg (Inl err) \<Rightarrow> Inl err | ReadMsg (Inr msg) \<Rightarrow> ln_unmarshal ln msg
      | ContextDone err \<Rightarrow> Inl err | TimerFired \<Rightarrow> Inl (ErrMsg ''timed out reading response''))"

definition on_link :: "(nat \<Rightarrow> 'a) \<Rightarrow> 'a sender_op" where
  "on_link f = (\<lambda>s. (Inr (f (sd_tick s)), s\<lparr>sd_tick := sd_tick s + 1\<rparr>))"

definition sender_at :: "nat \<Rightarrow> message_sender sender_op" where
  "sender_at r = go_get (\<lambda>s. sd_heap s ! r)"

definition set_sender :: "nat \<Rightarrow> (message_sender \<Rightarrow> message_sender) \<Rightarrow> unit sender_op" where
  "set_sender r f = go_modify (\<lambda>s. s\<lparr>sd_heap := (sd_heap s)[r := f (sd_heap s ! r)]\<rparr>)"

text \<open>\<open>ms.s.Reset()\<close> or \<open>go helpers.FullClose(ms.s)\<close>, and \<open>ms.s = nil\<close>.\<close>

definition end_stream :: "stream_status \<Rightarrow> nat \<Rightarrow> unit sender_op" where
  "end_stream status r =
     go_bind (sender_at r) (\<lambda>ms.
     case ms_s ms of None \<Rightarrow> go_return ()
     | Some i \<Rightarrow>
         go_seq (go_modify (\<lambda>s. s\<lparr>sd_streams := (sd_streams s)[i := (fst (sd_streams s ! i), status)]\<rparr>))
                (set_sender r (\<lambda>ms. ms\<lparr>ms_s := None\<rparr>)))"

definition invalidate :: "nat \<Rightarrow> unit sender_op" where
  "invalidate r = go_seq (set_sender r (\<lambda>ms. ms\<lparr>ms_invalid := True\<rparr>)) (end_stream StreamReset r)"

definition open_stream :: "nat \<Rightarrow> unit sender_op" where
  "open_stream r =
     go_modify (\<lambda>s. s\<lparr>sd_heap := (sd_heap s)[r := (sd_heap s ! r)\<lparr>ms_s := Some (length (sd_streams s))\<rparr>],
                      sd_streams := sd_streams s @ [(ms_p (sd_heap s ! r), StreamOpen)]\<rparr>)"

definition prep :: "link \<Rightarrow> nat \<Rightarrow> unit sender_op" where
  "prep ln r =
     go_bind (sender_at r) (\<lambda>ms.
     if ms_invalid ms then go_fail (ErrMsg ''message sender has been invalidated'')
     else if ms_s ms \<noteq> None then go_return ()
     else go_bind (on_link (\<lambda>k. ln_NewStream ln k (ms_p ms))) (\<lambda>res.
          case res of Some err \<Rightarrow> go_fail err | None \<Rightarrow> open_stream r))"

definition prepOrInvalidate :: "link \<Rightarrow> nat \<Rightarrow> unit sender_op" where
  "prepOrInvalidate ln r = go_catch (prep ln r) (\<lambda>err. go_seq (invalidate r) (go_fail err))"

definition streamReuseTries :: nat where
  "streamReuseTries = 3"

text \<open>After a message was sent: a stream that failed too often is not used again.\<close>

definition after_message :: "nat \<Rightarrow> bool \<Rightarrow> unit sender_op" where
  "after_message r retry =
     go_bind (sender_at r) (\<lambda>ms.
     if ms_singleMes ms > streamReuseTries then end_stream StreamClosing r
     else go_when retry (set_sender r (\<lambda>ms. ms\<lparr>ms_singleMes := ms_singleMes ms + 1\<rparr>)))"

function sender_SendMessage :: "link \<Rightarrow> nat \<Rightarrow> MsgEnvelope \<Rightarrow> bool \<Rightarrow> unit sender_op" where
  "sender_SendMessage ln r pmes retry =
     go_seq (prep ln r) (
     go_bind (on_link (\<lambda>k. ln_writeMsg ln k pmes)) (\<lambda>res.
     case res of
       Some err \<Rightarrow>
         go_seq (end_stream StreamReset r)
                (if retry then go_fail err else sender_SendMessage ln r pmes True)
     | None \<Rightarrow> after_message r retry))"
  by pat_completeness auto
termination by (relation "measure (\<lambda>(ln, r, pmes, retry). if retry then 0 else 1)") auto

function sender_SendRequest :: "link \<Rightarrow> nat \<Rightarrow> MsgEnvelope \<Rightarrow> bool \<Rightarrow> MsgEnvelope sender_op" where
  "sender_SendRequest ln r pmes retry =
     go_seq (prep ln r) (
     go_bind (on_link (\<lambda>k. ln_writeMsg ln k pmes)) (\<lambda>res.
     case res of
       Some err \<Rightarrow>
         go_seq (end_stream StreamReset r)
                (if retry then go_fail err else sender_SendRequest ln r pmes True)
     | None \<Rightarrow>
         go_bind (on_link (\<lambda>k. ctxReadMsg ln (ln_read ln k))) (\<lambda>answer.
         case answer of
           Inl err \<Rightarrow>
             go_seq (end_stream StreamReset r)
                    (if retry then go_fail err else sender_SendRequest ln r pmes True)
         | Inr mes \<Rightarrow> go_seq (after_message r retry) (go_return mes))))"
  by pat_completeness auto
termination by (relation "measure (\<lambda>(ln, r, pmes, retry). if retry then 0 else 1)") auto

declare sender_SendMessage.simps [simp del] sender_SendRequest.simps [simp del]

text \<open>
  Looking up the sender of a peer and making one, and removing one that could not be prepared. Each
  holds the lock of the map; the sender that is prepared in between is in the map already.
\<close>

definition lookup_sender :: "string \<Rightarrow> (nat \<times> bool) sender_op" where
  "lookup_sender p =
     (\<lambda>s. case sd_strmap s p of Some r \<Rightarrow> (Inr (r, True), s)
      | None \<Rightarrow>
          (let r = length (sd_heap s)
           in (Inr (r, False),
               s\<lparr>sd_strmap := (sd_strmap s)(p \<mapsto> r),
                 sd_heap := sd_heap s @ [\<lparr>ms_s = None, ms_p = p, ms_invalid = False, ms_singleMes = 0\<rparr>]\<rparr>)))"

definition forget_sender :: "string \<Rightarrow> nat \<Rightarrow> goerr \<Rightarrow> nat sender_op" where
  "forget_sender p r err =
     (\<lambda>s. case sd_strmap s p of
        Some cur \<Rightarrow> if r \<noteq> cur then (Inr cur, s) else (Inl err, s\<lparr>sd_strmap := (sd_strmap s)(p := None)\<rparr>)
      | None \<Rightarrow> (Inl err, s))"

definition messageSenderForPeer :: "link \<Rightarrow> string \<Rightarrow> nat sender_op" where
  "messageSenderForPeer ln p =
     go_bind (lookup_sender p) (\<lambda>(r, found).
     if found then go_return r
     else go_bind (go_try (prepOrInvalidate ln r)) (\<lambda>res.
          case res of Inr _ \<Rightarrow> go_return r | Inl err \<Rightarrow> forget_sender p r err))"

section \<open>Callers\<close>

text \<open>
  Where a goroutine is that sends something to a peer: it has yet to look up the sender, prepares the
  one it has made, removes it again, sends over the one it got, or has returned.
\<close>

datatype caller =
    Wants string | Prepares string nat | Forgets string nat goerr | Sends string nat | Returned

inductive sender_step :: "link \<Rightarrow> caller list \<times> sender_state \<Rightarrow> caller list \<times> sender_state \<Rightarrow> bool" for ln where
  call: "sender_step ln (cs, s) (cs @ [Wants p], s)"
| lookup: "\<lbrakk>i < length cs; cs ! i = Wants p; lookup_sender p s = (Inr (r, found), s')\<rbrakk>
    \<Longrightarrow> sender_step ln (cs, s) (cs[i := if found then Sends p r else Prepares p r], s')"
| prepared: "\<lbrakk>i < length cs; cs ! i = Prepares p r; prepOrInvalidate ln r s = (Inr x, s')\<rbrakk>
    \<Longrightarrow> sender_step ln (cs, s) (cs[i := Sends p r], s')"
| unprepared: "\<lbrakk>i < length cs; cs ! i = Prepares p r; prepOrInvalidate ln r s = (Inl err, s')\<rbrakk>
    \<Longrightarrow> sender_step ln (cs, s) (cs[i := if is_panic err then Returned else Forgets p r err], s')"
| changed: "\<lbrakk>i < length cs; cs ! i = Forgets p r err; forget_sender p r err s = (Inr cur, s')\<rbrakk>
    \<Longrightarrow> sender_step ln (cs, s) (cs[i := Sends p cur], s')"
| forgotten: "\<lbrakk>i < length cs; cs ! i = Forgets p r err; forget_sender p r err s = (Inl err', s')\<rbrakk>
    \<Longrightarrow> sender_step ln (cs, s) (cs[i := Returned], s')"
| message: "\<lbrakk>i < length cs; cs ! i = Sends p r; sender_SendMessage ln r pmes False s = (res, s')\<rbrakk>
    \<Longrightarrow> sender_step ln (cs, s) (cs[i := Returned], s')"
| request: "\<lbrakk>i < length cs; cs ! i = Sends p r; sender_SendRequest ln r pmes False s = (answer, s')\<rbrakk>
    \<Longrightarrow> sender_step ln (cs, s) (cs[i := Returned], s')"

definition no_senders :: sender_state where
  "no_senders = \<lparr>sd_strmap = (\<lambda>_. None), sd_heap = [], sd_streams = [], sd_tick = 0\<rparr>"

inductive sender_reachable :: "link \<Rightarrow> caller list \<times> sender_state \<Rightarrow> bool" for ln where
  new_service: "sender_reachable ln ([], no_senders)"
| sender_steps: "\<lbrakk>sender_reachable ln c; sender_step ln c c'\<rbrakk> \<Longrightarrow> sender_reachable ln c'"

section \<open>Serving what arrives\<close>

text \<open>
  What the reader of a stream returns: a message, with whether a response can be written, the end of
  the stream, or an error. A stream on which nothing more arrives is reset after a while, an error.
\<close>

datatype received = Received bytes bool | ReceivedEOF | ReceivedError

type_synonym message_handler = "Message \<Rightarrow> string \<Rightarrow> MsgEnvelope option node_op"

text \<open>The result says whether the stream is closed gracefully, and what was written to it. The idle timer of the
  stream is not modelled: it is reset for every message that is read, before the envelope is verified,
  so a stream stays open longer for envelopes that do not verify.\<close>

fun handleNewMessage ::
  "service_net \<Rightarrow> message_handler \<Rightarrow> (bytes \<Rightarrow> goerr + MsgEnvelope) \<Rightarrow> string \<Rightarrow> received list
   \<Rightarrow> (bool \<times> MsgEnvelope list) node_op" where
  "handleNewMessage sn handler unmarshal mPeer [] = go_return (False, [])"
| "handleNewMessage sn handler unmarshal mPeer (ReceivedEOF # rest) = go_return (True, [])"
| "handleNewMessage sn handler unmarshal mPeer (ReceivedError # rest) = go_return (False, [])"
| "handleNewMessage sn handler unmarshal mPeer (Received msgbytes accepts # rest) =
     (case unmarshal msgbytes of Inl _ \<Rightarrow> go_return (False, [])
      | Inr req \<Rightarrow>
          go_bind (serve sn handler req mPeer) (\<lambda>(open, response).
          if \<not> open then go_return (False, [])
          else case response of None \<Rightarrow> handleNewMessage sn handler unmarshal mPeer rest
          | Some rpmes \<Rightarrow>
              if \<not> accepts then go_return (False, [])
              else go_bind (handleNewMessage sn handler unmarshal mPeer rest) (\<lambda>(graceful, written).
                   go_return (graceful, rpmes # written))))"

text \<open>The listener of a pubsub topic answers on the topic of the sender, and goes on after every error.\<close>

fun listen ::
  "service_net \<Rightarrow> message_handler \<Rightarrow> (bytes \<Rightarrow> goerr + MsgEnvelope) \<Rightarrow> string \<Rightarrow> string
   \<Rightarrow> (string \<times> bytes) list \<Rightarrow> unit node_op" where
  "listen sn handler unmarshal protocol self [] = go_return ()"
| "listen sn handler unmarshal protocol self ((mPeer, data) # rest) =
     (if mPeer = self then listen sn handler unmarshal protocol self rest
      else case unmarshal data of Inl _ \<Rightarrow> listen sn handler unmarshal protocol self rest
      | Inr req \<Rightarrow>
          go_bind (serve sn handler req mPeer) (\<lambda>(open, response).
          go_seq (case response of None \<Rightarrow> go_return ()
                  | Some rpmes \<Rightarrow>
                      go_catch (Publish sn (protocol @ ''/'' @ mPeer) rpmes) (\<lambda>_. go_return ()))
                 (listen sn handler unmarshal protocol self rest)))"

definition authentic ::
  "service_net \<Rightarrow> (bytes \<Rightarrow> goerr + MsgEnvelope) \<Rightarrow> string \<Rightarrow> bytes \<Rightarrow> bool" where
  "authentic sn unmarshal mPeer data =
     (case unmarshal data of Inl _ \<Rightarrow> True | Inr req \<Rightarrow> \<not> isl (VerifyEnvelope sn req mPeer))"

end
