(* ===== verification/MessageSenderProps.thy ===== *)
theory MessageSenderProps
  imports MessageSender
begin

text \<open>
  However the callers of a service interleave, it keeps at most one open stream to each peer and loses
  none; a message takes at most two attempts; and envelopes that do not verify leave no trace.
\<close>

section \<open>The invariant of the senders\<close>

text \<open>
  A sender with a stream has an open one to its peer; a sender that is not invalid is the one of its
  peer; and every open stream is the stream of a sender.
\<close>

definition sender_ok :: "sender_state \<Rightarrow> nat \<Rightarrow> message_sender \<Rightarrow> bool" where
  "sender_ok s r ms \<longleftrightarrow>
     (\<forall>i. ms_s ms = Some i \<longrightarrow> i < length (sd_streams s) \<and> sd_streams s ! i = (ms_p ms, StreamOpen)
            \<and> \<not> ms_invalid ms)
     \<and> (\<not> ms_invalid ms \<longrightarrow> sd_strmap s (ms_p ms) = Some r) \<and> ms_singleMes ms \<le> streamReuseTries + 1"

definition senders_ok :: "sender_state \<Rightarrow> bool" where
  "senders_ok s \<longleftrightarrow>
     (\<forall>r < length (sd_heap s). sender_ok s r (sd_heap s ! r))
     \<and> (\<forall>p r. sd_strmap s p = Some r \<longrightarrow> r < length (sd_heap s) \<and> ms_p (sd_heap s ! r) = p)
     \<and> (\<forall>i < length (sd_streams s). snd (sd_streams s ! i) = StreamOpen \<longrightarrow>
          (\<exists>r < length (sd_heap s). ms_s (sd_heap s ! r) = Some i))"

text \<open>What an operation on the sender \<open>r\<close> does to all: no sender changes its peer or becomes valid again.\<close>

definition sender_kept :: "nat \<Rightarrow> sender_state \<Rightarrow> sender_state \<Rightarrow> bool" where
  "sender_kept r s s' \<longleftrightarrow>
     (r < length (sd_heap s) \<longrightarrow> senders_ok s \<longrightarrow> senders_ok s') \<and> length (sd_heap s) = length (sd_heap s')
     \<and> (\<forall>q < length (sd_heap s). ms_p (sd_heap s' ! q) = ms_p (sd_heap s ! q)
          \<and> (ms_invalid (sd_heap s ! q) \<longrightarrow> ms_invalid (sd_heap s' ! q)))"

interpretation senders: step_relation "sender_kept r" for r
  by unfold_locales (auto simp: sender_kept_def)

lemma nth_updated: "q < length xs \<Longrightarrow> xs[r := x] ! q = (if q = r then x else xs ! q)"
  by simp

lemma senders_okD:
  assumes "senders_ok s"
  shows "r < length (sd_heap s) \<Longrightarrow> sender_ok s r (sd_heap s ! r)"
    and "sd_strmap s p = Some r \<Longrightarrow> r < length (sd_heap s)"
    and "sd_strmap s p = Some r \<Longrightarrow> ms_p (sd_heap s ! r) = p"
    and "\<lbrakk>i < length (sd_streams s); snd (sd_streams s ! i) = StreamOpen\<rbrakk>
         \<Longrightarrow> \<exists>r < length (sd_heap s). ms_s (sd_heap s ! r) = Some i"
  using assms by (auto simp: senders_ok_def)

lemma one_owner:
  assumes "senders_ok s" "q < length (sd_heap s)" "r < length (sd_heap s)"
    "ms_s (sd_heap s ! q) = Some i" "ms_s (sd_heap s ! r) = Some j"
    "ms_p (sd_heap s ! q) = ms_p (sd_heap s ! r)"
  shows "q = r"
  using senders_okD(1) [OF assms(1,2)] senders_okD(1) [OF assms(1,3)] assms(4-)
  by (auto simp: sender_ok_def)

lemma same_stream:
  assumes "senders_ok s" "q < length (sd_heap s)" "r < length (sd_heap s)"
    "ms_s (sd_heap s ! q) = Some i" "ms_s (sd_heap s ! r) = Some i"
  shows "q = r"
proof (rule one_owner [OF assms])
  show "ms_p (sd_heap s ! q) = ms_p (sd_heap s ! r)"
    using senders_okD(1) [OF assms(1,2)] senders_okD(1) [OF assms(1,3)] assms(4-)
    by (auto simp: sender_ok_def)
qed

section \<open>The operations keep it\<close>

definition ended :: "stream_status \<Rightarrow> bool \<Rightarrow> nat \<Rightarrow> sender_state \<Rightarrow> sender_state" where
  "ended status inval r s =
     s\<lparr>sd_streams := (case ms_s (sd_heap s ! r) of None \<Rightarrow> sd_streams s
                      | Some i \<Rightarrow> (sd_streams s)[i := (fst (sd_streams s ! i), status)]),
       sd_heap := (sd_heap s)[r := (sd_heap s ! r)\<lparr>ms_s := None, ms_invalid := inval \<or> ms_invalid (sd_heap s ! r)\<rparr>]\<rparr>"

lemma ended_kept:
  assumes "status \<noteq> StreamOpen"
  shows "sender_kept r s (ended status inval r s)"
proof -
  have "senders_ok (ended status inval r s)" if r: "r < length (sd_heap s)" and ok: "senders_ok s"
    unfolding senders_ok_def
  proof (intro conjI allI impI)
    fix q assume "q < length (sd_heap (ended status inval r s))"
    then have q: "q < length (sd_heap s)" by (simp add: ended_def)
    have other: "ms_s (sd_heap s ! r) = Some i \<Longrightarrow> ms_s (sd_heap s ! q) = Some j \<Longrightarrow> q \<noteq> r \<Longrightarrow> i \<noteq> j" for i j
      using same_stream [OF ok q r] by auto
    note okq = senders_okD(1) [OF ok q]
    show "sender_ok (ended status inval r s) q (sd_heap (ended status inval r s) ! q)"
      using okq other r q
      by (cases "ms_s (sd_heap s ! r)") (auto simp: ended_def sender_ok_def nth_list_update)
  next
    fix p q assume "sd_strmap (ended status inval r s) p = Some q"
    then have "sd_strmap s p = Some q" by (simp add: ended_def)
    from senders_okD(2,3) [OF ok this]
    show "q < length (sd_heap (ended status inval r s))" "ms_p (sd_heap (ended status inval r s) ! q) = p"
      using r by (auto simp: ended_def nth_list_update)
  next
    fix i assume "i < length (sd_streams (ended status inval r s))"
      and st: "snd (sd_streams (ended status inval r s) ! i) = StreamOpen"
    then have i: "i < length (sd_streams s)" by (simp add: ended_def split: option.splits)
    have ne: "ms_s (sd_heap s ! r) \<noteq> Some i"
      using st i assms by (auto simp: ended_def)
    then have "snd (sd_streams s ! i) = StreamOpen"
      using st i by (auto simp: ended_def nth_list_update split: option.splits if_splits)
    from senders_okD(4) [OF ok i this] obtain q where
      "q < length (sd_heap s)" "ms_s (sd_heap s ! q) = Some i" by blast
    then show "\<exists>q < length (sd_heap (ended status inval r s)). ms_s (sd_heap (ended status inval r s) ! q) = Some i"
      using ne r by (cases "q = r") (auto simp: ended_def intro!: exI [of _ q])
  qed
  then show ?thesis
    by (auto simp: sender_kept_def) (auto simp: ended_def nth_updated)
qed

lemma end_stream_run: "end_stream status r s = (Inr (), if ms_s (sd_heap s ! r) = None then s else ended status False r s)"
  by (simp add: end_stream_def ended_def sender_at_def set_sender_def go_defs list_update_id split: option.splits)

lemma invalidate_run:
  "r < length (sd_heap s) \<Longrightarrow> invalidate r s = (Inr (), ended StreamReset True r s)"
  by (cases "sd_heap s ! r")
    (simp add: invalidate_def end_stream_def ended_def sender_at_def set_sender_def go_defs split: option.splits)

lemma keeps_end_stream: "status \<noteq> StreamOpen \<Longrightarrow> senders.keeps r (end_stream status r)"
  by (intro senders.keepsI) (simp add: end_stream_run senders.refl ended_kept)

lemma keeps_on_link: "senders.keeps r (on_link f)"
  by (intro senders.keepsI) (auto simp: on_link_def sender_kept_def senders_ok_def sender_ok_def)

text \<open>A sender that is prepared is in use by its peer, so a new stream of it is the only one.\<close>

lemma opened_kept:
  assumes "ms_s (sd_heap s ! r) = None" "\<not> ms_invalid (sd_heap s ! r)"
  shows "sender_kept r s (snd (open_stream r s))"
proof -
  let ?s = "s\<lparr>sd_heap := (sd_heap s)[r := (sd_heap s ! r)\<lparr>ms_s := Some (length (sd_streams s))\<rparr>],
              sd_streams := sd_streams s @ [(ms_p (sd_heap s ! r), StreamOpen)]\<rparr>"
  have "senders_ok ?s" if r: "r < length (sd_heap s)" and ok: "senders_ok s"
    unfolding senders_ok_def
  proof (intro conjI allI impI)
    fix q assume "q < length (sd_heap ?s)"
    then have q: "q < length (sd_heap s)" by simp
    show "sender_ok ?s q (sd_heap ?s ! q)"
      using senders_okD(1) [OF ok q] assms r q by (auto simp: sender_ok_def nth_list_update nth_append)
  next
    fix p q assume "sd_strmap ?s p = Some q"
    then have "sd_strmap s p = Some q" by simp
    from senders_okD(2,3) [OF ok this]
    show "q < length (sd_heap ?s)" "ms_p (sd_heap ?s ! q) = p"
      using r by (auto simp: nth_list_update)
  next
    fix i assume i: "i < length (sd_streams ?s)" and st: "snd (sd_streams ?s ! i) = StreamOpen"
    show "\<exists>q < length (sd_heap ?s). ms_s (sd_heap ?s ! q) = Some i"
    proof (cases "i < length (sd_streams s)")
      case True
      then have "snd (sd_streams s ! i) = StreamOpen" using st by (simp add: nth_append)
      from senders_okD(4) [OF ok True this] obtain q where
        "q < length (sd_heap s)" "ms_s (sd_heap s ! q) = Some i" by blast
      then show ?thesis using assms(1) by (cases "q = r") (auto intro!: exI [of _ q])
    next
      case False
      then show ?thesis using i r by (intro exI [of _ r]) auto
    qed
  qed
  then show ?thesis
    by (auto simp: sender_kept_def open_stream_def go_defs nth_updated)
qed

lemma keeps_prep: "senders.keeps r (prep ln r)"
proof (rule senders.keepsI)
  fix s :: sender_state
  let ?s = "s\<lparr>sd_tick := sd_tick s + 1\<rparr>"
  have tick: "sender_kept r s ?s" using senders.keepsD [OF keeps_on_link] by (fastforce simp: on_link_def)
  show "sender_kept r s (snd (prep ln r s))"
    using senders.trans [OF tick opened_kept [of ?s]] tick
    by (auto simp: prep_def sender_at_def on_link_def go_defs senders.refl simp del: senders.trans split: option.splits)
qed

lemma prepOrInvalidate_run:
  assumes "r < length (sd_heap s)"
  shows "prepOrInvalidate ln r s =
    (case prep ln r s of (Inl err, s') \<Rightarrow> (Inl err, if is_panic err then s' else ended StreamReset True r s')
     | (Inr x, s') \<Rightarrow> (Inr x, s'))"
proof -
  have "length (sd_heap s) = length (sd_heap (snd (prep ln r s)))"
    using senders.keepsD [OF keeps_prep] unfolding sender_kept_def by blast
  then show ?thesis using assms
    by (cases "prep ln r s")
      (auto simp: prepOrInvalidate_def go_catch_def go_seq_def go_bind_def invalidate_run go_fail_def split: sum.splits)
qed

lemma prepOrInvalidate_kept:
  assumes "r < length (sd_heap s)"
  shows "sender_kept r s (snd (prepOrInvalidate ln r s))"
proof -
  have kept: "sender_kept r s (snd (prep ln r s))" by (rule senders.keepsD [OF keeps_prep])
  show ?thesis
    unfolding prepOrInvalidate_run [OF assms]
    using kept senders.trans [OF kept ended_kept] by (auto split: prod.splits sum.splits)
qed

lemma keeps_after_message: "senders.keeps r (after_message r retry)"
proof (rule senders.keepsI)
  fix s :: sender_state
  let ?f = "\<lambda>ms. ms\<lparr>ms_singleMes := ms_singleMes ms + 1\<rparr>"
  have count: "sender_kept r s (snd (set_sender r ?f s))" if c: "ms_singleMes (sd_heap s ! r) \<le> streamReuseTries"
  proof -
    let ?h = "(sd_heap s)[r := ?f (sd_heap s ! r)]"
    have same: "ms_s (?h ! q) = ms_s (sd_heap s ! q)" "ms_p (?h ! q) = ms_p (sd_heap s ! q)"
      "ms_invalid (?h ! q) = ms_invalid (sd_heap s ! q)"
      "ms_singleMes (?h ! q) \<le> max (ms_singleMes (sd_heap s ! q)) (streamReuseTries + 1)"
      if "q < length (sd_heap s)" for q
      using c that by (auto simp: nth_updated)
    have "senders_ok (s\<lparr>sd_heap := ?h\<rparr>)" if ok: "senders_ok s"
      unfolding senders_ok_def
    proof (intro conjI allI impI)
      fix q assume "q < length (sd_heap (s\<lparr>sd_heap := ?h\<rparr>))"
      then have q: "q < length (sd_heap s)" by simp
      show "sender_ok (s\<lparr>sd_heap := ?h\<rparr>) q (sd_heap (s\<lparr>sd_heap := ?h\<rparr>) ! q)"
        using senders_okD(1) [OF ok q] same [OF q] by (simp add: sender_ok_def)
    next
      fix p q assume "sd_strmap (s\<lparr>sd_heap := ?h\<rparr>) p = Some q"
      then have m: "sd_strmap s p = Some q" by simp
      show "q < length (sd_heap (s\<lparr>sd_heap := ?h\<rparr>))" "ms_p (sd_heap (s\<lparr>sd_heap := ?h\<rparr>) ! q) = p"
        using senders_okD(2,3) [OF ok m] same by simp_all
    next
      fix i assume "i < length (sd_streams (s\<lparr>sd_heap := ?h\<rparr>))"
        "snd (sd_streams (s\<lparr>sd_heap := ?h\<rparr>) ! i) = StreamOpen"
      with senders_okD(4) [OF ok, of i] obtain q where "q < length (sd_heap s)" "ms_s (sd_heap s ! q) = Some i"
        by auto
      then show "\<exists>q < length (sd_heap (s\<lparr>sd_heap := ?h\<rparr>)). ms_s (sd_heap (s\<lparr>sd_heap := ?h\<rparr>) ! q) = Some i"
        using same by (intro exI [of _ q]) simp
    qed
    then show ?thesis using same
      by (simp add: sender_kept_def set_sender_def go_modify_def)
  qed
  show "sender_kept r s (snd (after_message r retry s))"
    using senders.keepsD [OF keeps_end_stream, of StreamClosing r s] count
    by (auto simp: after_message_def sender_at_def go_when_def go_bind_get go_return_def senders.refl)
qed

lemmas sender_rules = senders.keeps_bind senders.keeps_seq senders.keeps_return senders.keeps_fail
  keeps_on_link keeps_end_stream keeps_prep keeps_after_message

lemma keeps_sender_SendMessage: "senders.keeps r (sender_SendMessage ln r pmes retry)"
proof (induction ln r pmes retry rule: sender_SendMessage.induct)
  case (1 ln r pmes retry)
  then show ?case
    by (subst sender_SendMessage.simps) (auto intro!: sender_rules split: option.splits)
qed

lemma keeps_sender_SendRequest: "senders.keeps r (sender_SendRequest ln r pmes retry)"
proof (induction ln r pmes retry rule: sender_SendRequest.induct)
  case (1 ln r pmes retry)
  then show ?case
    by (subst sender_SendRequest.simps) (auto intro!: sender_rules split: option.splits sum.splits)
qed

section \<open>The callers\<close>

text \<open>What a caller holds is a sender of its peer, and one that it gives up is invalid.\<close>

definition caller_ok :: "sender_state \<Rightarrow> caller \<Rightarrow> bool" where
  "caller_ok s c \<longleftrightarrow>
     (case c of
        Prepares p r \<Rightarrow> r < length (sd_heap s) \<and> ms_p (sd_heap s ! r) = p
      | Sends p r \<Rightarrow> r < length (sd_heap s) \<and> ms_p (sd_heap s ! r) = p
      | Forgets p r _ \<Rightarrow> r < length (sd_heap s) \<and> ms_p (sd_heap s ! r) = p \<and> ms_invalid (sd_heap s ! r)
      | _ \<Rightarrow> True)"

definition callers_ok :: "caller list \<times> sender_state \<Rightarrow> bool" where
  "callers_ok c = (case c of (cs, s) \<Rightarrow> senders_ok s \<and> (\<forall>c \<in> set cs. caller_ok s c))"

lemma caller_ok_kept: "caller_ok s c \<Longrightarrow> sender_kept r s s' \<Longrightarrow> caller_ok s' c"
  by (auto simp: caller_ok_def sender_kept_def split: caller.splits)

lemma callers_ok_update:
  assumes "callers_ok (cs, s)" "r < length (sd_heap s)" "sender_kept r s s'" "caller_ok s' c"
  shows "callers_ok (cs[i := c], s')"
  using assms caller_ok_kept [OF _ assms(3)] set_update_subset_insert [of cs i c]
  by (auto simp: callers_ok_def sender_kept_def)

lemma callers_ok_nth: "callers_ok (cs, s) \<Longrightarrow> i < length cs \<Longrightarrow> caller_ok s (cs ! i)"
  by (simp add: callers_ok_def)

text \<open>A sender that was never in the map before is the newest of the heap.\<close>

lemma lookup_sender_ok:
  assumes "callers_ok (cs, s)" "lookup_sender p s = (Inr (r, found), s')"
  shows "callers_ok (cs[i := if found then Sends p r else Prepares p r], s')"
proof (cases "sd_strmap s p")
  case (Some q)
  then have s: "s' = s" "r = q" "found" using assms(2) by (auto simp: lookup_sender_def)
  have ok: "senders_ok s" using assms(1) by (simp add: callers_ok_def)
  show ?thesis
    unfolding s using callers_ok_update [OF assms(1) senders_okD(2) [OF ok Some] senders.refl]
      senders_okD(2,3) [OF ok Some] s(3) by (simp add: caller_ok_def)
next
  case None
  let ?ms = "\<lparr>ms_s = None, ms_p = p, ms_invalid = False, ms_singleMes = 0\<rparr>"
  let ?s = "s\<lparr>sd_strmap := (sd_strmap s)(p \<mapsto> length (sd_heap s)), sd_heap := sd_heap s @ [?ms]\<rparr>"
  have s: "s' = ?s" "r = length (sd_heap s)" "\<not> found"
    using assms(2) None by (auto simp: lookup_sender_def Let_def)
  have ok: "senders_ok s" using assms(1) by (simp add: callers_ok_def)
  have "senders_ok ?s"
    unfolding senders_ok_def
  proof (intro conjI allI impI)
    fix q assume q: "q < length (sd_heap ?s)"
    show "sender_ok ?s q (sd_heap ?s ! q)"
      using senders_okD(1) [OF ok, of q] q None
      by (cases "q < length (sd_heap s)") (auto simp: sender_ok_def nth_append less_Suc_eq)
  next
    fix p' q assume "sd_strmap ?s p' = Some q"
    then show "q < length (sd_heap ?s)" "ms_p (sd_heap ?s ! q) = p'"
      using senders_okD(2,3) [OF ok, of p' q] by (auto simp: nth_append split: if_splits)
  next
    fix i assume "i < length (sd_streams ?s)" "snd (sd_streams ?s ! i) = StreamOpen"
    with senders_okD(4) [OF ok, of i] obtain q where "q < length (sd_heap s)" "ms_s (sd_heap s ! q) = Some i"
      by auto
    then show "\<exists>q < length (sd_heap ?s). ms_s (sd_heap ?s ! q) = Some i"
      by (intro exI [of _ q]) (simp add: nth_append)
  qed
  moreover have "caller_ok ?s c" if "caller_ok s c" for c
    using that by (auto simp: caller_ok_def nth_append split: caller.splits)
  moreover have "caller_ok ?s (Prepares p r)" by (simp add: caller_ok_def s)
  ultimately show ?thesis
    using assms(1) s set_update_subset_insert [of cs i "Prepares p r"] by (auto simp: callers_ok_def)
qed

text \<open>A sender is removed from the map only when it is invalid.\<close>

lemma forget_sender_ok:
  assumes "callers_ok (cs, s)" "r < length (sd_heap s)" "ms_p (sd_heap s ! r) = p" "ms_invalid (sd_heap s ! r)"
    "forget_sender p r err s = (res, s')"
  shows "callers_ok (cs[i := case res of Inr cur \<Rightarrow> Sends p cur | Inl _ \<Rightarrow> Returned], s')"
proof -
  have ok: "senders_ok s" using assms(1) by (simp add: callers_ok_def)
  have "senders_ok (s\<lparr>sd_strmap := (sd_strmap s)(p := None)\<rparr>)" if "sd_strmap s p = Some r"
    unfolding senders_ok_def
  proof (intro conjI allI impI)
    let ?s = "s\<lparr>sd_strmap := (sd_strmap s)(p := None)\<rparr>"
    fix q assume "q < length (sd_heap ?s)"
    then have q: "q < length (sd_heap s)" by simp
    show "sender_ok ?s q (sd_heap ?s ! q)"
      using senders_okD(1) [OF ok q] that assms(4) by (auto simp: sender_ok_def)
  next
    fix p' q assume "sd_strmap (s\<lparr>sd_strmap := (sd_strmap s)(p := None)\<rparr>) p' = Some q"
    then have "sd_strmap s p' = Some q" by (simp split: if_splits)
    from senders_okD(2,3) [OF ok this]
    show "q < length (sd_heap (s\<lparr>sd_strmap := (sd_strmap s)(p := None)\<rparr>))"
      "ms_p (sd_heap (s\<lparr>sd_strmap := (sd_strmap s)(p := None)\<rparr>) ! q) = p'" by simp_all
  next
    fix i assume "i < length (sd_streams (s\<lparr>sd_strmap := (sd_strmap s)(p := None)\<rparr>))"
      "snd (sd_streams (s\<lparr>sd_strmap := (sd_strmap s)(p := None)\<rparr>) ! i) = StreamOpen"
    with senders_okD(4) [OF ok, of i]
    show "\<exists>q < length (sd_heap (s\<lparr>sd_strmap := (sd_strmap s)(p := None)\<rparr>)).
      ms_s (sd_heap (s\<lparr>sd_strmap := (sd_strmap s)(p := None)\<rparr>) ! q) = Some i" by simp
  qed
  then have "sender_kept r s s'"
    using assms(5) by (cases "sd_strmap s p") (auto simp: forget_sender_def sender_kept_def split: if_splits)
  moreover have "caller_ok s' (case res of Inr cur \<Rightarrow> Sends p cur | Inl _ \<Rightarrow> Returned)"
    using assms(5) senders_okD(2,3) [OF ok, of p]
    by (cases "sd_strmap s p") (auto simp: forget_sender_def caller_ok_def split: if_splits)
  ultimately show ?thesis using callers_ok_update [OF assms(1,2)] by blast
qed

lemma sender_step_ok:
  assumes "sender_step ln c c'" "callers_ok c"
  shows "callers_ok c'"
  using assms
proof (induction rule: sender_step.induct)
  case (call cs s p)
  then show ?case by (simp add: callers_ok_def caller_ok_def)
next
  case (lookup i cs p s r found s')
  then show ?case by (blast intro: lookup_sender_ok)
next
  case (prepared i cs p r s x s')
  have r: "r < length (sd_heap s)" "ms_p (sd_heap s ! r) = p"
    using callers_ok_nth [OF prepared.prems prepared(1)] prepared(2) by (simp_all add: caller_ok_def)
  have kept: "sender_kept r s s'" using prepOrInvalidate_kept [OF r(1), of ln] prepared(3) by simp
  show ?case
    by (rule callers_ok_update [OF prepared.prems r(1) kept])
      (use kept r in \<open>simp add: sender_kept_def caller_ok_def\<close>)
next
  case (unprepared i cs p r s err s')
  have r: "r < length (sd_heap s)" "ms_p (sd_heap s ! r) = p"
    using callers_ok_nth [OF unprepared.prems unprepared(1)] unprepared(2) by (simp_all add: caller_ok_def)
  have kept: "sender_kept r s s'" using prepOrInvalidate_kept [OF r(1), of ln] unprepared(3) by simp
  have "ms_invalid (sd_heap s' ! r)" if "\<not> is_panic err"
    using unprepared(3) that r(1) kept
    by (cases "prep ln r s") (auto simp: prepOrInvalidate_run ended_def sender_kept_def split: sum.splits)
  then show ?case
    by (intro callers_ok_update [OF unprepared.prems r(1) kept])
      (use kept r in \<open>auto simp: sender_kept_def caller_ok_def\<close>)
next
  case (changed i cs p r err s cur s')
  have "caller_ok s (Forgets p r err)"
    using callers_ok_nth [OF changed.prems changed(1)] changed(2) by simp
  then show ?case
    using forget_sender_ok [OF changed.prems _ _ _ changed(3), of i] by (simp add: caller_ok_def)
next
  case (forgotten i cs p r err s err' s')
  have "caller_ok s (Forgets p r err)"
    using callers_ok_nth [OF forgotten.prems forgotten(1)] forgotten(2) by simp
  then show ?case
    using forget_sender_ok [OF forgotten.prems _ _ _ forgotten(3), of i] by (simp add: caller_ok_def)
next
  case (message i cs p r pmes s res s')
  have "r < length (sd_heap s)"
    using callers_ok_nth [OF message.prems message(1)] message(2) by (simp add: caller_ok_def)
  then show ?case
    using callers_ok_update [OF message.prems _ senders.keeps_run [OF keeps_sender_SendMessage message(3)], of Returned]
    by (simp add: caller_ok_def)
next
  case (request i cs p r pmes s answer s')
  have "r < length (sd_heap s)"
    using callers_ok_nth [OF request.prems request(1)] request(2) by (simp add: caller_ok_def)
  then show ?case
    using callers_ok_update [OF request.prems _ senders.keeps_run [OF keeps_sender_SendRequest request(3)], of Returned]
    by (simp add: caller_ok_def)
qed

lemma sender_reachable_ok: "sender_reachable ln c \<Longrightarrow> callers_ok c"
proof (induction rule: sender_reachable.induct)
  case new_service
  show ?case by (simp add: callers_ok_def senders_ok_def no_senders_def)
next
  case (sender_steps c c')
  from sender_step_ok [OF sender_steps(2,3)] show ?case .
qed

section \<open>One stream for a peer\<close>

definition open_peers :: "sender_state \<Rightarrow> string list" where
  "open_peers s = map fst (filter (\<lambda>st. snd st = StreamOpen) (sd_streams s))"

lemma distinct_filter_nth:
  assumes "\<And>i j. i < length xs \<Longrightarrow> j < length xs \<Longrightarrow> P (xs ! i) \<Longrightarrow> P (xs ! j) \<Longrightarrow> f (xs ! i) = f (xs ! j) \<Longrightarrow> i = j"
  shows "distinct (map f (filter P xs))"
  using assms
proof (induction xs)
  case (Cons x xs)
  have "distinct (map f (filter P xs))"
    by (rule Cons.IH) (use Cons.prems [of "Suc _" "Suc _"] in auto)
  moreover have "f x \<notin> f ` set (filter P xs)" if "P x"
  proof
    assume "f x \<in> f ` set (filter P xs)"
    then obtain j where "j < length xs" "P (xs ! j)" "f x = f (xs ! j)" by (auto simp: in_set_conv_nth)
    with that Cons.prems [of 0 "Suc j"] show False by simp
  qed
  ultimately show ?case by simp
qed simp

lemma open_stream_owner:
  assumes "senders_ok s" "i < length (sd_streams s)" "snd (sd_streams s ! i) = StreamOpen"
  shows "\<exists>r < length (sd_heap s). ms_s (sd_heap s ! r) = Some i \<and> sd_strmap s (fst (sd_streams s ! i)) = Some r"
proof -
  obtain r where r: "r < length (sd_heap s)" "ms_s (sd_heap s ! r) = Some i"
    using senders_okD(4) [OF assms] by blast
  with senders_okD(1) [OF assms(1) r(1)] show ?thesis by (auto simp: sender_ok_def)
qed

text \<open>C12. However the goroutines that send over a service interleave, and whatever the network answers, no
  peer ever has two open streams, and every open stream is the one of the sender that the map holds
  for its peer: no stream is left open and forgotten.\<close>

theorem one_stream_per_peer:
  assumes "sender_reachable ln (cs, s)"
  shows "distinct (open_peers s)
    \<and> (\<forall>i < length (sd_streams s). snd (sd_streams s ! i) = StreamOpen \<longrightarrow>
         (\<exists>r. sd_strmap s (fst (sd_streams s ! i)) = Some r \<and> ms_s (sd_heap s ! r) = Some i))"
proof -
  have ok: "senders_ok s" using sender_reachable_ok [OF assms] by (simp add: callers_ok_def)
  have "i = j" if "i < length (sd_streams s)" "j < length (sd_streams s)"
    "snd (sd_streams s ! i) = StreamOpen" "snd (sd_streams s ! j) = StreamOpen"
    "fst (sd_streams s ! i) = fst (sd_streams s ! j)" for i j
    using open_stream_owner [OF ok that(1,3)] open_stream_owner [OF ok that(2,4)] that(5) by auto
  then have "distinct (open_peers s)" unfolding open_peers_def by (intro distinct_filter_nth)
  then show ?thesis using open_stream_owner [OF ok] by blast
qed

text \<open>C14. An envelope that does not verify for the peer it came from leaves no trace: a stream, and a topic, are
  served as if it had never arrived.\<close>

theorem forged_envelopes_leave_no_trace:
  "handleNewMessage sn handler unmarshal p rs
     = handleNewMessage sn handler unmarshal p
         (filter (\<lambda>x. case x of Received b _ \<Rightarrow> authentic sn unmarshal p b | _ \<Rightarrow> True) rs)
   \<and> listen sn handler unmarshal protocol self ms
     = listen sn handler unmarshal protocol self (filter (\<lambda>(q, b). authentic sn unmarshal q b) ms)"
proof
  show "handleNewMessage sn handler unmarshal p rs
     = handleNewMessage sn handler unmarshal p
         (filter (\<lambda>x. case x of Received b _ \<Rightarrow> authentic sn unmarshal p b | _ \<Rightarrow> True) rs)"
  proof (induction sn handler unmarshal p rs rule: handleNewMessage.induct)
    case (4 sn handler unmarshal p b accepts rest)
    then show ?case
      by (cases "unmarshal b") (auto simp: authentic_def serve_def split: sum.splits option.splits
          intro!: arg_cong [where f = "go_bind _"])
  qed simp_all
  show "listen sn handler unmarshal protocol self ms
     = listen sn handler unmarshal protocol self (filter (\<lambda>(q, b). authentic sn unmarshal q b) ms)"
  proof (induction sn handler unmarshal protocol self ms rule: listen.induct)
    case (2 sn handler unmarshal protocol self q b rest)
    then show ?case
      by (cases "unmarshal b") (auto simp: authentic_def serve_def go_seq_def split: sum.splits option.splits
          intro!: arg_cong [where f = "go_bind _"])
  qed simp_all
qed

text \<open>A message takes at most two attempts, each with a stream to be opened and a write.\<close>

lemma prep_costs: "prep ln r s = (res, s') \<Longrightarrow> sd_tick s' \<le> sd_tick s + 1 \<and> length (sd_streams s') \<le> length (sd_streams s) + 1"
  by (auto simp: prep_def sender_at_def on_link_def open_stream_def go_defs split: if_splits option.splits)

lemma end_stream_costs:
  "sd_tick (snd (end_stream st r s)) = sd_tick s \<and> length (sd_streams (snd (end_stream st r s))) = length (sd_streams s)"
  by (simp add: end_stream_run ended_def split: option.splits)

lemma after_message_costs:
  "sd_tick (snd (after_message r b s)) = sd_tick s \<and> length (sd_streams (snd (after_message r b s))) = length (sd_streams s)"
  using end_stream_costs [of StreamClosing r s]
  by (simp add: after_message_def sender_at_def go_bind_get go_when_def set_sender_def go_modify_def go_return_def)

lemma message_takes_two_attempts:
  "sd_tick (snd (sender_SendMessage ln r pmes retry s)) \<le> sd_tick s + (if retry then 2 else 4)
   \<and> length (sd_streams (snd (sender_SendMessage ln r pmes retry s))) \<le> length (sd_streams s) + (if retry then 1 else 2)"
proof (induction ln r pmes retry arbitrary: s rule: sender_SendMessage.induct)
  case (1 ln r pmes retry)
  show ?case
  proof (cases "prep ln r s")
    case (Pair res s1)
    note first = prep_costs [OF Pair]
    show ?thesis
    proof (cases res)
      case (Inl err)
      with Pair first show ?thesis by (subst (1 2) sender_SendMessage.simps) (simp add: go_seq_def go_bind_def)
    next
      case (Inr u)
      let ?t = "s1\<lparr>sd_tick := sd_tick s1 + 1\<rparr>"
      show ?thesis
      proof (cases "ln_writeMsg ln (sd_tick s1) pmes")
        case None
        then show ?thesis
          using Pair Inr first after_message_costs [of r retry ?t]
          by (subst (1 2) sender_SendMessage.simps) (simp add: go_seq_def go_bind_def on_link_def)
      next
        case (Some err)
        obtain v where v: "end_stream StreamReset r ?t = (Inr (), v)" by (simp add: end_stream_run)
        then have "sd_tick v = sd_tick s1 + 1" "length (sd_streams v) = length (sd_streams s1)"
          using end_stream_costs [of StreamReset r ?t] by simp_all
        then show ?thesis
          using Pair Inr Some first v "1.IH" [where s = v]
          by (subst (1 2) sender_SendMessage.simps) (auto simp: go_seq_def go_bind_def on_link_def go_fail_def)
      qed
    qed
  qed
qed

section \<open>An example\<close>

definition sample_link :: link where
  "sample_link = \<lparr>ln_NewStream = \<lambda>_ _. None, ln_writeMsg = \<lambda>_ _. None, ln_read = \<lambda>_. TimerFired,
     ln_unmarshal = \<lambda>_. Inl ErrOffline\<rparr>"

theorem one_stream_per_peer_witness:
  "open_peers (snd (messageSenderForPeer sample_link ''P1'' no_senders)) = [''P1'']
   \<and> distinct (open_peers (snd (messageSenderForPeer sample_link ''P1'' no_senders)))"
proof -
  let ?t = "snd (lookup_sender ''P1'' no_senders)" and ?u = "snd (messageSenderForPeer sample_link ''P1'' no_senders)"
  have l: "lookup_sender ''P1'' no_senders = (Inr (0, False), ?t)"
    by (simp add: lookup_sender_def no_senders_def)
  have p: "prepOrInvalidate sample_link 0 ?t = (Inr (), ?u)"
    by (simp add: messageSenderForPeer_def go_try_run prepOrInvalidate_def prep_def
        sender_at_def on_link_def open_stream_def sample_link_def lookup_sender_def no_senders_def go_defs)
  have "sender_reachable sample_link ([Wants ''P1''], no_senders)"
    using sender_steps [OF new_service call, of sample_link "''P1''"] by simp
  from sender_steps [OF this lookup [OF _ _ l, of 0]]
  have "sender_reachable sample_link ([Prepares ''P1'' 0], ?t)" by simp
  from sender_steps [OF this prepared [OF _ _ p, of 0]]
  have "sender_reachable sample_link ([Sends ''P1'' 0], ?u)" by simp
  from one_stream_per_peer [OF this]
  have "distinct (open_peers ?u)" by (rule conjunct1)
  moreover have "open_peers ?u = [''P1'']"
    by (simp add: messageSenderForPeer_def go_try_run prepOrInvalidate_def prep_def open_peers_def
        sender_at_def on_link_def open_stream_def sample_link_def lookup_sender_def no_senders_def go_defs)
  ultimately show ?thesis by simp
qed

end
