(* ===== verification/NodeApiProps.thy ===== *)
theory NodeApiProps
  imports NodeApiData FeedProps FilesProps CafeProps QueueProps
begin

text \<open>
  What the command line sends and the node reads, what reading routes leave alone, and four routes that
  do less than they promise: options with an equals sign, files at a path, files that only IPFS has,
  and the observation of one thread.
\<close>

section \<open>Arguments and options\<close>

lemma read_args_escaped:
  "read_args (map PathEscape args) = Inr (filter (\<lambda>a. a \<noteq> []) args)"
proof (induction args)
  case (Cons a args)
  have "TrimSpace (PathEscape a) = PathEscape a" by (rule TrimSpace_id) (simp add: escaped_clean)
  then show ?case using Cons.IH by (simp add: PathUnescape_PathEscape)
qed simp

lemma readArgs_args_header: "readArgs (args_header args) = Inr (filter (\<lambda>a. a \<noteq> []) args)"
proof -
  have "\<forall>w \<in> set (map PathEscape args). CHR '','' \<notin> set w" using escaped_clean by auto
  from Split_header [OF this] show ?thesis
    using read_args_escaped [of args] by (auto simp: readArgs_def args_header_def TrimSpace_def)
qed

definition plain_key :: "string \<Rightarrow> bool" where
  "plain_key k \<longleftrightarrow> (\<forall>c \<in> set k. c \<noteq> CHR ''='' \<and> c \<noteq> CHR '','' \<and> \<not> is_space c)"

definition without_equals :: "(string \<times> string) list \<Rightarrow> (string \<times> string) list" where
  "without_equals opts = filter (\<lambda>(k, v). CHR ''='' \<notin> set v) opts"

lemma Split_none: "length (Split sep s) = 1 \<longleftrightarrow> sep \<notin> set s"
  by (induction s) (auto split: list.splits)

lemma Split_first:
  "sep \<notin> set k \<Longrightarrow> Split sep (k @ sep # v) = k # Split sep v"
  by (rule Split_append_sep)

lemma read_opts_escaped:
  assumes "\<forall>(k, v) \<in> set opts. plain_key k"
  shows "read_opts (map (\<lambda>(k, v). k @ ''='' @ PathEscape v) opts) m = Inr (m ++ map_of (rev (without_equals opts)))"
  using assms
proof (induction opts arbitrary: m)
  case (Cons kv opts)
  obtain k v where kv: "kv = (k, v)" by fastforce
  have k: "plain_key k" using Cons.prems kv by simp
  let ?o = "k @ CHR ''='' # PathEscape v"
  have trim: "TrimSpace ?o = ?o"
    using k escaped_clean by (intro TrimSpace_id) (auto simp: plain_key_def is_space_def)
  have split: "Split CHR ''='' ?o = k # Split CHR ''='' (PathEscape v)"
    using k Split_first [of "CHR ''=''" k "PathEscape v"] by (auto simp: plain_key_def)
  show ?case
  proof (cases "CHR ''='' \<in> set v")
    case True
    then have "length (Split CHR ''='' (PathEscape v)) \<noteq> 1" by (simp only: Split_none escaped_equals) simp
    then show ?thesis using Cons kv by (simp add: trim split without_equals_def True Let_def)
  next
    case False
    then have "CHR ''='' \<notin> set (PathEscape v)" by (simp add: escaped_equals)
    then have "Split CHR ''='' ?o = [k, PathEscape v]" using split by (simp add: Split_no_sep)
    then show ?thesis using Cons kv False
      by (simp add: trim PathUnescape_PathEscape without_equals_def Let_def)
  qed
qed (simp add: without_equals_def)

lemma readOpts_opts_header:
  assumes "\<forall>(k, v) \<in> set opts. plain_key k" "distinct (map fst opts)"
  shows "readOpts (opts_header opts) = Inr (map_of (without_equals opts))"
proof -
  let ?h = "map (\<lambda>(k, v). k @ ''='' @ PathEscape v) opts"
  have "\<forall>w \<in> set ?h. CHR '','' \<notin> set w"
    using assms(1) escaped_clean by (fastforce simp: plain_key_def)
  from Split_header [OF this] have "readOpts (opts_header opts) = Inr (Map.empty ++ map_of (rev (without_equals opts)))"
    using read_opts_escaped [OF assms(1), of Map.empty]
    by (auto simp: readOpts_def opts_header_def TrimSpace_def without_equals_def)
  moreover have "distinct (map fst (without_equals opts))"
    unfolding without_equals_def by (rule distinct_map_filter [OF assms(2)])
  then have "map_of (rev (without_equals opts)) = map_of (without_equals opts)"
    by (subst map_of_inject_set) (simp_all add: rev_map [symmetric])
  ultimately show ?thesis by simp
qed

text \<open>C10. What the command line sends arrives at the node: every argument, whatever bytes it holds, but for empty
  ones, after which the others move up; and every option with its value, unless the value holds an
  equals sign: then the option is left out without an error and the node works with its default.\<close>

theorem command_line_is_read:
  assumes "\<forall>(k, v) \<in> set opts. plain_key k" "distinct (map fst opts)"
  shows "readArgs (args_header args) = Inr (filter (\<lambda>a. a \<noteq> []) args)
    \<and> readOpts (opts_header opts) = Inr (map_of (without_equals opts))"
  using readArgs_args_header readOpts_opts_header [OF assms] by blast

theorem command_line_is_read_witness:
  "readArgs (args_header [''a, b'', [], ''c'']) = Inr [''a, b'', ''c'']
   \<and> readOpts (opts_header [(''caption'', ''a=b''), (''limit'', ''5'')]) = Inr (map_of [(''limit'', ''5'')])"
proof -
  let ?o = "[(''caption'', ''a=b''), (''limit'', ''5'')]"
  have "\<forall>(k, v) \<in> set ?o. plain_key k" by (simp add: plain_key_def is_space_def)
  moreover have "distinct (map fst ?o)" by simp
  ultimately show ?thesis
    using command_line_is_read [of ?o "[''a, b'', [], ''c'']"] by (simp add: without_equals_def)
qed

section \<open>A sample node\<close>

definition sample_tokens :: token_env where
  "sample_tokens = \<lparr>tk_dec58 = plain_dec, tk_enc58 = plain_enc, tk_generateKey = (\<lambda>_. Inr (replicate 44 1)),
     tk_hashPassword = (\<lambda>_ b. Inr b), tk_compare = (\<lambda>h b. if h = b then Inr () else Inl (ErrMsg ''mismatch''))\<rparr>"

text \<open>A world where the node \<open>n\<close> is a directory with one link to a file.\<close>

definition link_world :: world where
  "link_world = (sample_world undefined)\<lparr>w_nodeAt := (\<lambda>h. Inr \<lparr>dag_Cid = h,
     dag_Links = (if h = ''n'' then [(''small'', ''pair'')] else [(''meta'', ''m''), (''content'', ''c'')])\<rparr>)\<rparr>"

definition sample_api :: api_node where
  "sample_api = \<lparr>an_fuel = 10, an_world = link_world, an_net = sample_net, an_cafe = sample_host,
     an_threads = sample_threads, an_files = sample_libraries, an_tokens = sample_tokens,
     an_links = (\<lambda>_. Inr [(''0'', ''n'')])\<rparr>"

text \<open>A state with one block of files and the file of the link.\<close>

definition linked_file :: FileIndex where
  "linked_file = sample_index\<lparr>file_Hash := ''c''\<rparr>"

definition link_state :: node_state where
  "link_state = (feed_state [sample_shown ''f'' Block_FILES [] 1])\<lparr>ns_files := [files_enc (sample_clock 0) linked_file]\<rparr>"

lemma zero_index: "Atoi ''0'' = Inr 0"
  by (simp add: Atoi_def all_digits_def is_digit_def digits_value_def digit_value_def)

lemma link_view:
  "\<exists>view f fi. getFiles sample_api ''f'' link_state = Inr view \<and> files_of_view view = [Some f]
     \<and> map_of (ff_Links f) ''small'' = Some fi"
proof -
  have block: "Textile_Block ''f'' link_state = Inr (sample_shown ''f'' Block_FILES [] 1)"
    by (simp add: Textile_Block_def link_state_def blocks_Get_eq feed_rows csv_enc_def csv_dec_def BlockStatus_of_int_def
        ProtoTs_def int64_def int32_def SplitString_def TrimSpace_def)
  have found: "files_Get ''c'' (ns_files link_state) = Some (files_dec (files_enc (sample_clock 0) linked_file))"
    by (simp add: link_state_def files_Get_def sql_defs first_row_def files_enc_def linked_file_def)
  have at: "fileAtData (an_links sample_api) link_world d link_state = Inr [Some \<lparr>ff_Index = 0, ff_File = None,
      ff_Links = [(''small'', files_dec (files_enc (sample_clock 0) linked_file))]\<rparr>]" for d
    using found by (simp add: zero_index fileAtData_def sample_api_def link_world_def file_of_node_def looksLikeFileNode_def
        fileIndexForPair_def ValidContentLinkNames_def map_set_def int32_def)
  show ?thesis
    using at by (simp add: getFiles_def Textile_File_def with_block_def block feed_files_def sample_shown_def
        sample_api_def)
qed

section \<open>Routes that lose something\<close>

text \<open>C30. The routes of a file of a block never find a file of a link: asked for the metadata of a path they answer
  with an error even when the file is there, and asked for its content they panic.\<close>

theorem file_of_a_link_is_lost:
  assumes "getFiles a bid s = Inr view" "Atoi index = Inr i" "0 \<le> i" "i < int (length (files_of_view view))"
    "files_of_view view ! nat i = Some f" "map_of (ff_Links f) path = Some fi" "path \<noteq> []" "path \<noteq> ''.''"
  shows "getBlockFileMeta a bid index path s = (Inr (Refused 400 (ErrMsg ''Marshal called with nil'')), s)
    \<and> getBlockFileContent a bid index path s = (Inl (Panic ''nil file index''), s)"
proof -
  have "getFilesFile a bid index path s = Inr None"
    using assms by (simp add: getFilesFile_def getFile_def Let_def)
  then show ?thesis
    by (simp_all add: getBlockFileMeta_def getBlockFileContent_def or_code_def go_bind_get pbJSON_def refused_def
        go_return_def go_fail_def)
qed

theorem file_of_a_link_is_lost_witness:
  "getBlockFileMeta sample_api ''f'' ''0'' ''small'' link_state
     = (Inr (Refused 400 (ErrMsg ''Marshal called with nil'')), link_state)"
proof -
  obtain view f fi where v: "getFiles sample_api ''f'' link_state = Inr view" "files_of_view view = [Some f]"
    "map_of (ff_Links f) ''small'' = Some fi" using link_view by blast
  from file_of_a_link_is_lost [OF v(1) zero_index, of f "''small''" fi] show ?thesis
    using v by simp
qed

text \<open>Observing one thread shows the updates of all threads: the route of a thread is answered as the route
  without one.\<close>

lemma observing_one_thread_shows_all:
  "getThreadsObserve header (observe_params (Some thread)) updates
     = getThreadsObserve header (observe_params None) updates"
  by (simp add: getThreadsObserve_def observe_params_def Param_def)

text \<open>A mill that is told to use a file which only IPFS has fails, whatever IPFS would return: the error of the
  index is not the one that the handler looks for.\<close>

lemma mills_never_read_from_ipfs:
  assumes "use \<noteq> []" "me_parsePath me use = Inr ref" "files_Get (last (Split CHR ''/'' ref)) (ns_files s) = None"
  shows "getFileConfig a me ml form use plaintext s
           = (Inl (ErrMsg ''failed to get the file meta content: file not found''), s)"
proof -
  have "FileContent fe w (last (Split CHR ''/'' ref)) s
      = Inl (ErrMsg ''failed to get the file meta content: file not found'')" for fe w
    using assms(3) by (simp add: FileContent_def FileMeta_def)
  then show ?thesis
    using assms(1,2) by (simp add: getFileConfig_def go_bind_lift go_bind_def go_get_def go_lift_def go_try_def
        go_catch_def is_panic_def go_return_def go_fail_def ErrFileNotFound_def)
qed

section \<open>Routes that read\<close>

definition reads :: "(node_state \<Rightarrow> 'a \<times> node_state) \<Rightarrow> bool" where
  "reads m \<longleftrightarrow> (\<forall>s. snd (m s) = s)"

interpretation reading: route_relation "(=)"
  by unfold_locales auto

lemma reads_iff: "reads m \<longleftrightarrow> reading.keeps m"
  by (auto simp: reads_def reading.keeps_def)

lemma reads_blocks:
  "reading.keeps (getBlockMeta bid)" "reading.keeps (getBlockFiles a bid)" "reading.keeps (getBlockFileMeta a bid i p)"
  "reading.keeps (getBlockFileContent a bid i p)" "reading.keeps (lsThreadMessages h)" "reading.keeps (getThreadMessages bid)"
  "reading.keeps (lsBlockComments bid)" "reading.keeps (getBlockComment bid)" "reading.keeps (lsBlockLikes bid)"
  "reading.keeps (getBlockLike bid)" "reading.keeps (lsThreadFiles a h)" "reading.keeps (lsThreadFileTargetKeys a tgt)"
  "reading.keeps (getFileMeta hash)" "reading.keeps (getFileContent a hash)" "reading.keeps (lsThreadFeed a h)"
  unfolding getBlockMeta_def getBlockFiles_def getBlockFileMeta_def getBlockFileContent_def lsThreadMessages_def
    getThreadMessages_def lsBlockComments_def getBlockComment_def lsBlockLikes_def getBlockLike_def lsThreadFiles_def
    lsThreadFileTargetKeys_def getFileMeta_def getFileContent_def lsThreadFeed_def Let_def
  by (intro reading.keeps_routes)+

lemmas reads_rules = reading.keeps_routes reading.keeps_prod

lemma reads_heads: "reading.keeps (head_blocks w hs)"
  by (induction hs) (auto intro!: reads_rules simp: BlockByParent_def blockCIDFromNode_def split: option.splits)

lemma reads_view: "reading.keeps (Textile_ThreadView w tid)"
  unfolding Textile_ThreadView_def by (intro reads_rules reads_heads)

lemma reads_views: "reading.keeps (thread_views w tids)"
  by (induction tids) (auto intro!: reads_rules reads_view split: sum.splits)

lemma reads_parents: "reading.keeps (parent_dots w dot ps)"
  by (induction ps) (auto intro!: reads_rules simp: BlockByParent_def blockCIDFromNode_def)

lemma reads_dots: "reading.keeps (block_dots w bs)"
  by (induction bs) (auto intro!: reads_rules reads_parents)

lemma reads_listing: "reading.keeps (lsBlocks a h)"
  unfolding lsBlocks_def toDots_def Let_def by (intro reads_rules reads_dots)

lemma reads_admin:
  "reading.keeps (lsThreads a)" "reading.keeps (getThreads a tid)" "reading.keeps (peersThreads tid)"
  "reading.keeps (lsContacts a)" "reading.keeps (getContacts address)" "reading.keeps (getProfile a)"
  "reading.keeps (accountGet a)" "reading.keeps (accountAddress a)" "reading.keeps lsCafes" "reading.keeps (getCafes cid)"
  "reading.keeps (lsTokens a)" "reading.keeps (validateTokens a token)" "reading.keeps (nodeSummary a)"
  unfolding lsThreads_def getThreads_def peersThreads_def lsContacts_def getContacts_def getProfile_def accountGet_def
    accountAddress_def lsCafes_def getCafes_def lsTokens_def validateTokens_def nodeSummary_def
  by (intro reads_rules reads_view reads_views)+

lemma reads_data:
  "reading.keeps (ipfsId a)" "reading.keeps (ipfsCat a p h)" "reading.keeps (getThreadsObserve h ps us)"
  "reading.keeps (getConfig conf p)"
  unfolding ipfsId_def ipfsCat_def getThreadsObserve_def getConfig_def Let_def
  by (auto intro!: reads_rules split: sum.splits list.splits)

text \<open>The routes that read leave the node as it is, whatever they are asked and however they end: no table, no
  thread in memory, no effect on the network and no draw of the clock or of a key.\<close>

lemma reading_routes_change_nothing:
  "reads (lsBlocks a h) \<and> reads (getBlockMeta bid) \<and> reads (getBlockFiles a bid) \<and> reads (getBlockFileMeta a bid i p)
   \<and> reads (getBlockFileContent a bid i p) \<and> reads (lsThreadMessages h) \<and> reads (getThreadMessages bid)
   \<and> reads (lsBlockComments bid) \<and> reads (getBlockComment bid) \<and> reads (lsBlockLikes bid) \<and> reads (getBlockLike bid)
   \<and> reads (lsThreadFiles a h) \<and> reads (lsThreadFileTargetKeys a tgt) \<and> reads (getFileMeta hash)
   \<and> reads (getFileContent a hash) \<and> reads (lsThreadFeed a h) \<and> reads (lsThreads a) \<and> reads (getThreads a tid)
   \<and> reads (peersThreads tid) \<and> reads (lsContacts a) \<and> reads (getContacts address) \<and> reads (getProfile a)
   \<and> reads (accountGet a) \<and> reads lsCafes \<and> reads (getCafes cid) \<and> reads (lsTokens a)
   \<and> reads (validateTokens a token) \<and> reads (nodeSummary a) \<and> reads (ipfsCat a p h) \<and> reads (getThreadsObserve h ps us)
   \<and> reads (getConfig conf p)"
  unfolding reads_iff by (intro conjI reads_listing reads_blocks reads_admin reads_data)

end
