(* ===== verification/PostProps.thy ===== *)
theory PostProps
  imports NodeApiProps ThreadProps
begin

text \<open>A message over the HTTP API of a node, from the command line to the view that is answered.\<close>

section \<open>What is posted comes back\<close>

lemma or_status_Answer:
  assumes "or_status code op k s = (Inr (Answer c v), s')"
  obtains x s1 where "op s = (Inr x, s1)" "k x s1 = (Inr (Answer c v), s')"
  using assms by (auto simp: or_status_def go_bind_Inr_iff go_try_def go_catch_def go_bind_def go_return_def go_fail_def
      split: sum.splits if_splits prod.splits)

lemma or_code_Answer:
  assumes "or_code f k s = (Inr (Answer c v), s')"
  obtains x where "f s = Inr x" "k x s = (Inr (Answer c v), s')"
  using assms by (auto simp: or_code_def go_bind_get go_return_def go_fail_def split: sum.splits if_splits prod.splits)

lemma created_Answer:
  assumes "created a x s = (Inr (Answer c v), s')"
  shows "c = 201 \<and> v = x"
  using assms by (auto simp: created_def pbJSON_def go_seq_Inr_iff go_return_def)

lemma first_arg_Answer:
  assumes "first_arg (args_header [arg]) m k s = (Inr (Answer c v), s')"
  shows "arg \<noteq> [] \<and> k arg s = (Inr (Answer c v), s')"
  using assms unfolding first_arg_def
  by (rule or_status_Answer)
    (auto simp: readArgs_args_header refused_def go_lift_def go_return_def split: list.splits if_splits)

lemma with_thread_Answer:
  assumes "with_thread tid k s = (Inr (Answer c v), s')"
  obtains t where "loaded_thread tid s = Some t" "k t s = (Inr (Answer c v), s')"
  using assms by (auto simp: with_thread_def go_bind_get go_return_def split: option.splits)

lemma out_op_reads:
  assumes "out_op w t p ty target body s = (Inr h, s')" "BlockType_of_int (BlockType_to_int ty) = ty"
  shows "\<exists>blk. blocks_Get h (ns_blocks s') = Some blk \<and> blk_Id blk = h \<and> blk_Type blk = ty \<and> blk_Body blk = body
    \<and> blk_Thread blk = t_Id t"
  using assms
  by (auto simp: out_op_def go_bind_Inr_iff go_seq_Inr_iff go_return_def outBlock_def blocks_dec_def blocks_enc_def
      dest!: indexBlock_row)

text \<open>A flush has nothing to do when there is no request and no message, and the queued blocks are of threads
  that have no heads yet.\<close>

lemma idle_block:
  assumes "ns_cafe_requests s = []" "ns_block_messages s = []" "loaded_thread (blk_Thread b) s = Some t"
    "heads_of (t_Id t) s = Some []" "blk_Type b \<noteq> Block_JOIN" "flush s = (Inr (), s)"
  shows "flush_queued n w flush b s = (Inr (), s)"
proof -
  have p: "post_queued w b s = (Inr False, s)"
    using assms(3-5) by (simp add: post_queued_def go_get_def go_catch_def go_bind_def Heads_run go_return_def)
  have o: "BlockOutbox_Flush n w s = (Inr (), s)"
    using assms(2) by (simp add: BlockOutbox_Flush_def block_messages_List_def sql_defs go_return_def)
  show ?thesis
    using assms(1,6) p o
    by (simp add: flush_queued_def go_get_def SyncGroupComplete_def sync_total_def sql_count_def go_when_def go_bind_def
        go_seq_def go_return_def)
qed

lemma foreach_idle: "(\<And>x. x \<in> set xs \<Longrightarrow> f x s = (Inr (), s)) \<Longrightarrow> go_foreach f xs s = (Inr (), s)"
  by (induction xs) (simp_all add: go_seq_def go_bind_def go_return_def)

lemma idle_flush:
  assumes "ns_cafe_requests s = []" "ns_block_messages s = []" "heads_of tid s = Some []" "loaded_thread tid s = Some t"
    "t_Id t = tid" "\<forall>r \<in> set (ns_blocks s). blocks_threadId r = tid \<and> blk_Type (blocks_dec r) \<noteq> Block_JOIN"
  shows "FlushCafes a s = (Inr (), s)"
proof -
  let ?f = "CafeService_Flush (an_cafe a) (an_world a)"
  have f: "?f s = (Inr (), s)"
    using assms(1) by (simp add: CafeService_Flush_def cafe_requests_List_def sql_defs go_return_def)
  have "FlushBlocks (an_net a) (an_world a) ?f s = (Inr (), s)"
    unfolding FlushBlocks_def go_bind_get
    using assms f by (intro foreach_idle idle_block [where t = t])
      (auto simp: blocks_List_def sql_defs blocks_dec_def split: if_splits)
  then show ?thesis
    using f assms(1) by (simp add: FlushCafes_def CafeOutbox_Flush_def Let_def go_seq_def go_bind_def go_when_def go_catch_def
        on_cafe_requests_def go_on_def go_return_def DeleteCompleteSyncGroups_def sql_delete_def go_modify_def)
qed

text \<open>C17. A message that is sent on the command line and accepted comes back with its text, but for white space
  around it, from a thread that is loaded and that the account may write to.\<close>

theorem posted_message_comes_back:
  assumes "addThreadMessages a (args_header [body]) tid s = (Inr (Answer c view), s')"
  shows "c = 201 \<and> (\<exists>t bid d u cs ls. loaded_thread tid s = Some t \<and> writable t (w_configAddress (an_world a))
    \<and> view = PText bid d u (TrimSpace body) cs ls)"
proof -
  obtain t where t: "loaded_thread tid s = Some t"
    and r: "or_status 400 (AddMessage (an_world a) t [] body) (\<lambda>hash.
        or_status 400 (go_bind (go_get (Textile_Message hash)) go_lift) (created a)) s = (Inr (Answer c view), s')"
    using first_arg_Answer [OF assms [unfolded addThreadMessages_def]] by (auto elim!: with_thread_Answer)
  obtain h s1 where h: "AddMessage (an_world a) t [] body s = (Inr h, s1)"
    and r1: "or_status 400 (go_bind (go_get (Textile_Message h)) go_lift) (created a) s1 = (Inr (Answer c view), s')"
    using r by (rule or_status_Answer)
  obtain v where v: "Textile_Message h s1 = Inr v" and "c = 201" "view = v"
    using r1 by (auto simp: go_bind_get go_lift_def go_return_def go_fail_def elim!: or_status_Answer split: sum.splits
        dest!: created_Answer)
  have w: "writable t (w_configAddress (an_world a))"
    and out: "out_op (an_world a) t (Some (AnyMessage (TrimSpace body))) Block_TEXT [] (TrimSpace body) s = (Inr h, s1)"
    using h by (auto simp: AddMessage_def Let_def go_fail_def split: if_splits)
  obtain blk where "blocks_Get h (ns_blocks s1) = Some blk" "blk_Type blk = Block_TEXT" "blk_Body blk = TrimSpace body"
    using out_op_reads [OF out] by (auto simp: BlockType_of_int_def)
  then show ?thesis
    using v w t \<open>c = 201\<close> \<open>view = v\<close>
    by (auto simp: Textile_Message_def with_block_def Textile_Block_def feed_message_def)
qed

text \<open>A node whose only thread is its own and has no block yet.\<close>

definition own_thread :: thread where
  "own_thread = sample_thread\<lparr>t_initiator := ''A''\<rparr>"

definition fresh_state :: node_state where
  "fresh_state = sample_state\<lparr>ns_threads := [sample_row\<lparr>threads_head := []\<rparr>], ns_loaded := [own_thread]\<rparr>"

lemma fresh_post:
  "\<exists>s1. AddMessage link_world own_thread [] ''hi'' fresh_state = (Inr ''h1'', s1) \<and> ns_cafe_requests s1 = []
     \<and> ns_block_messages s1 = [] \<and> ns_threads s1 = ns_threads fresh_state \<and> ns_loaded s1 = [own_thread]
     \<and> (\<forall>r \<in> set (ns_blocks s1). blocks_threadId r = ''T'' \<and> blk_Type (blocks_dec r) = Block_TEXT)"
  by (simp add: AddMessage_def out_op_def commitBlock_def newBlockHeader_def link_world_def fresh_state_def own_thread_def sample_defs
      run_defs TrimSpace_def is_space_def blocks_enc_def blocks_dec_def BlockType_of_int_def)

theorem posted_message_comes_back_witness:
  "\<exists>s' bid d u cs ls. addThreadMessages sample_api (args_header [''hi'']) ''T'' fresh_state
     = (Inr (Answer 201 (PText bid d u ''hi'' cs ls)), s')"
proof -
  obtain s1 where s1: "AddMessage link_world own_thread [] ''hi'' fresh_state = (Inr ''h1'', s1)"
    "ns_cafe_requests s1 = []" "ns_block_messages s1 = []" "ns_threads s1 = ns_threads fresh_state"
    "ns_loaded s1 = [own_thread]"
    "\<forall>r \<in> set (ns_blocks s1). blocks_threadId r = ''T'' \<and> blk_Type (blocks_dec r) = Block_TEXT"
    using fresh_post by blast
  have out: "out_op link_world own_thread (Some (AnyMessage ''hi'')) Block_TEXT [] ''hi'' fresh_state = (Inr ''h1'', s1)"
    using s1(1) by (simp add: AddMessage_def TrimSpace_def is_space_def go_fail_def Let_def split: if_splits)
  have "\<exists>view. Textile_Message ''h1'' s1 = Inr view"
    using out_op_reads [OF out] by (auto simp: BlockType_of_int_def Textile_Message_def with_block_def Textile_Block_def
        feed_message_def)
  then obtain view where v: "Textile_Message ''h1'' s1 = Inr view" by blast
  have f: "FlushCafes sample_api s1 = (Inr (), s1)"
    by (rule idle_flush [where tid = "''T''" and t = own_thread])
      (use s1 in \<open>simp_all add: heads_of_def threads_Get_def sql_defs fresh_state_def sample_row_def threads_enc_def
        threads_dec_def SplitString_def TrimSpace_def loaded_thread_def own_thread_def sample_thread_def\<close>)
  have r: "addThreadMessages sample_api (args_header [''hi'']) ''T'' fresh_state = (Inr (Answer 201 view), s1)"
    using s1(1) v f
    by (simp add: addThreadMessages_def first_arg_def or_status_def readArgs_args_header go_try_run go_bind_def go_lift_def
        go_return_def with_thread_def go_get_def loaded_thread_def fresh_state_def sample_state_def own_thread_def sample_thread_def
        created_def go_seq_def pbJSON_def sample_api_def)
  from posted_message_comes_back [OF r] obtain bid d u cs ls where "view = PText bid d u (TrimSpace ''hi'') cs ls" by blast
  then show ?thesis using r by (simp add: TrimSpace_def is_space_def)
qed

end
