(* ===== verification/MobileFiles.thy ===== *)
theory MobileFiles
  imports NodeApiData SchemaSteps
begin

text \<open>
  The bindings for phones, files: \<^verbatim>\<open>mobile/files.go\<close>. A directory of files is built as the schema of the
  thread says, from raw data or from a path, and added to the thread. What the asynchronous flavour of a
  function gives to its callback is the result of the operation; a message is not marshaled.
\<close>

section \<open>The bindings\<close>

record mobile_env =
  mv_api :: api_node
  mv_flush :: "unit node_op"
  mv_started :: bool
  mv_online :: bool
  mv_mill :: mill_env
  mv_resize :: "string \<Rightarrow> string \<Rightarrow> mill"
  mv_exif :: mill
  mv_openFile :: "string \<Rightarrow> goerr + bytes \<times> string"
  mv_base64 :: "string \<Rightarrow> goerr + bytes"
  mv_notFound :: goerr
  mv_order :: "nat \<Rightarrow> links \<Rightarrow> links"
  mv_width :: "string \<Rightarrow> int option"

definition ErrStopped :: goerr where
  "ErrStopped = ErrMsg ''node is stopped''"

definition if_started :: "mobile_env \<Rightarrow> 'a node_op \<Rightarrow> 'a node_op" where
  "if_started mv k = (if \<not> mv_started mv then go_fail ErrStopped else k)"

definition if_online :: "mobile_env \<Rightarrow> 'a node_op \<Rightarrow> 'a node_op" where
  "if_online mv k = (if \<not> mv_online mv then go_fail ErrOffline else k)"

definition mobile_thread :: "string \<Rightarrow> (thread \<Rightarrow> 'a node_op) \<Rightarrow> 'a node_op" where
  "mobile_thread tid k =
     go_bind (go_get (loaded_thread tid)) (\<lambda>t. case t of None \<Rightarrow> go_fail ErrThreadNotFound | Some t \<Rightarrow> k t)"

abbreviation mv_world :: "mobile_env \<Rightarrow> world" where
  "mv_world mv \<equiv> an_world (mv_api mv)"

abbreviation mv_files :: "mobile_env \<Rightarrow> files_env" where
  "mv_files mv \<equiv> an_files (mv_api mv)"

text \<open>The flush of the cafe outbox, whose handler belongs to the app.\<close>

definition mobile_FlushCafes :: "mobile_env \<Rightarrow> unit node_op" where
  "mobile_FlushCafes mv =
     CafeOutbox_Flush (Some (mv_flush mv)) (FlushBlocks (an_net (mv_api mv)) (mv_world mv) (mv_flush mv)) False"

definition flushed :: "mobile_env \<Rightarrow> 'a \<Rightarrow> 'a node_op" where
  "flushed mv x = go_seq (mobile_FlushCafes mv) (go_return x)"

definition mobile_blockView :: "string \<Rightarrow> (Block \<times> User) node_op" where
  "mobile_blockView hash = go_bind (go_get (BlockView hash)) go_lift"

section \<open>Mills and their input\<close>

text \<open>No mill for a name that is not known.\<close>

definition getMill :: "mobile_env \<Rightarrow> string \<Rightarrow> (string \<times> string) list \<Rightarrow> goerr + mill option" where
  "getMill mv mid opts =
     (if mid = ''/blob'' then Inr (Some (Blob_mill (mv_files mv)))
      else if mid = ''/image/resize''
      then let width = (case map_of opts ''width'' of None \<Rightarrow> [] | Some x \<Rightarrow> x);
               quality = (case map_of opts ''quality'' of None \<Rightarrow> [] | Some x \<Rightarrow> x)
           in if width = [] then Inl (ErrMsg ''missing width'')
              else Inr (Some (mv_resize mv width (if quality = [] then ''75'' else quality)))
      else if mid = ''/image/exif'' then Inr (Some (mv_exif mv))
      else if mid = ''/json'' then Inr (Some (Json_mill (mv_files mv)))
      else Inr None)"

text \<open>
  The input of a mill: the raw data when there is some, else a file of the index, data of IPFS, or a file
  of the phone. As in the HTTP API, the error of the index is not the one that is looked for.
\<close>

definition mobile_input :: "mobile_env \<Rightarrow> bytes option \<Rightarrow> string \<Rightarrow> (bytes \<times> string \<times> string) node_op" where
  "mobile_input mv data path =
     (case data of Some d \<Rightarrow> go_return (d, [], [])
      | None \<Rightarrow>
          (case me_parsePath (mv_mill mv) path of
             Inr ref \<Rightarrow>
               go_bind (go_try (go_bind (go_get (FileContent (mv_files mv) (mv_world mv) (last (Split CHR ''/'' ref))))
                 go_lift)) (\<lambda>r.
               case r of
                 Inr (content, file) \<Rightarrow> go_return (content, [], file_Checksum file)
               | Inl err \<Rightarrow>
                   if err = ErrFileNotFound
                   then go_bind (go_lift (w_dataAt (mv_world mv) ref)) (\<lambda>b. go_return (b, [], ref))
                   else go_fail err)
           | Inl _ \<Rightarrow> go_bind (go_lift (mv_openFile mv path)) (\<lambda>(f, name). go_return (f, name, []))))"

definition mobile_getFileConfig ::
  "mobile_env \<Rightarrow> mill \<Rightarrow> bytes option \<Rightarrow> string \<Rightarrow> bool \<Rightarrow> AddFileConfig node_op" where
  "mobile_getFileConfig mv ml data path plaintext =
     go_bind (mobile_input mv data path) (\<lambda>(input, fname, used).
     let (media, accepted) = (if ml_ID ml = ''/json'' then (''application/json'', Inr ())
                              else GetMillMedia (me_detect (mv_mill mv)) input ml)
     in go_seq (go_lift accepted)
          (go_return \<lparr>af_Input = input, af_Use = used, af_Media = media, af_Name = fname, af_Plaintext = plaintext\<rparr>))"

section \<open>Directories\<close>

text \<open>
  The links of a schema in the order of their steps. A link without a known mill panics. A link that uses
  another one is given its file, but raw data goes before a path.
\<close>

fun build_links ::
  "mobile_env \<Rightarrow> bytes option \<Rightarrow> string \<Rightarrow> links \<Rightarrow> (string \<times> FileIndex option) list
   \<Rightarrow> (string \<times> FileIndex option) list node_op" where
  "build_links mv data path [] files = go_return files"
| "build_links mv data path ((name, link) # steps) files =
     go_bind (go_lift (getMill mv (lnk_Mill link) (lnk_Opts link))) (\<lambda>mil.
     go_bind
       (if Use link = FileTag then go_return path
        else case map_of files (Use link) of
               Some (Some f) \<Rightarrow> go_return (file_Hash f)
             | _ \<Rightarrow> go_fail (ErrMsg (Use link @ '' not found''))) (\<lambda>pth.
     case mil of None \<Rightarrow> go_bind (mobile_input mv data pth) (\<lambda>_. go_fail (Panic ''nil mill''))
     | Some ml \<Rightarrow>
         go_bind (mobile_getFileConfig mv ml data pth (lnk_Plaintext link)) (\<lambda>conf.
         go_bind (AddFileIndex (mv_files mv) (mv_world mv) ml conf) (\<lambda>added.
         build_links mv data path steps (map_set name added files)))))"

definition buildDirectory :: "mobile_env \<Rightarrow> bytes option \<Rightarrow> string \<Rightarrow> string \<Rightarrow> (string \<times> FileIndex option) list node_op" where
  "buildDirectory mv data path threadId =
     if_started mv (mobile_thread threadId (\<lambda>thrd.
     case t_Schema thrd of None \<Rightarrow> go_fail (ErrMsg ''thread schema required to add files'')
     | Some sch \<Rightarrow>
         go_bind (go_lift (getMill mv (nd_Mill sch) (nd_Opts sch))) (\<lambda>mil.
         case mil of
           Some ml \<Rightarrow>
             go_bind (mobile_getFileConfig mv ml data path (nd_Plaintext sch)) (\<lambda>conf.
             go_bind (AddFileIndex (mv_files mv) (mv_world mv) ml conf) (\<lambda>added.
             go_return [(SingleFileTag, added)]))
         | None \<Rightarrow>
             if nd_Links sch \<noteq> []
             then go_bind (go_lift (Steps (mv_order mv) (nd_Links sch))) (\<lambda>steps. build_links mv data path steps [])
             else go_fail (ErrMsg ''schema does not create any files''))))"

text \<open>A directory as the core takes it; a file that is nil is read there and panics.\<close>

definition dir_files :: "(string \<times> FileIndex option) list \<Rightarrow> (string \<times> FileIndex) list node_op" where
  "dir_files dir =
     (if \<exists>e \<in> set dir. snd e = None then go_fail (Panic ''nil file index'')
      else go_return (map (\<lambda>(name, f). (name, the f)) dir))"

fun all_files :: "(string \<times> FileIndex option) list list \<Rightarrow> (string \<times> FileIndex) list list node_op" where
  "all_files [] = go_return []"
| "all_files (d # ds) = go_bind (dir_files d) (\<lambda>fs. go_bind (all_files ds) (\<lambda>rest. go_return (fs # rest)))"

text \<open>
  When the first directory holds a single file, the node is made of it alone. The node that was added is
  read back by its hash.
\<close>

definition writeFiles :: "mobile_env \<Rightarrow> (string \<times> FileIndex option) list list \<Rightarrow> string \<Rightarrow> string \<Rightarrow> string node_op" where
  "writeFiles mv dirs threadId caption =
     if_started mv
       (if dirs = [] \<or> hd dirs = [] then go_fail (ErrMsg ''no files found'')
        else mobile_thread threadId (\<lambda>thrd.
          go_bind
            (case map_of (hd dirs) SingleFileTag of
               Some (Some f) \<Rightarrow> AddNodeFromFiles (mv_files mv) (mv_world mv) [f]
             | _ \<Rightarrow> go_bind (all_files dirs) (AddNodeFromDirs (mv_files mv) (mv_world mv))) (\<lambda>(node, keys).
          case w_nodeAt (mv_world mv) node of Inl _ \<Rightarrow> go_fail (ErrMsg ''no files found'')
          | Inr nd \<Rightarrow> go_bind (AddFiles (mv_world mv) thrd (Some nd) [] caption keys) (flushed mv))))"

fun build_directories ::
  "mobile_env \<Rightarrow> string list \<Rightarrow> string \<Rightarrow> (string \<times> FileIndex option) list list node_op" where
  "build_directories mv [] threadId = go_return []"
| "build_directories mv (pth # paths) threadId =
     go_bind (buildDirectory mv None pth threadId) (\<lambda>dir.
     go_bind (build_directories mv paths threadId) (\<lambda>dirs. go_return (dir # dirs)))"

definition mobile_addFiles :: "mobile_env \<Rightarrow> string list \<Rightarrow> string \<Rightarrow> string \<Rightarrow> string node_op" where
  "mobile_addFiles mv paths threadId caption =
     go_bind (build_directories mv paths threadId) (\<lambda>dirs. writeFiles mv dirs threadId caption)"

definition mobile_addData :: "mobile_env \<Rightarrow> bytes \<Rightarrow> string \<Rightarrow> string \<Rightarrow> string node_op" where
  "mobile_addData mv data threadId caption =
     go_bind (buildDirectory mv (Some data) [] threadId) (\<lambda>dir. writeFiles mv [dir] threadId caption)"

definition mobile_shareFiles :: "mobile_env \<Rightarrow> string \<Rightarrow> string \<Rightarrow> string \<Rightarrow> string node_op" where
  "mobile_shareFiles mv data threadId caption =
     if_started mv (mobile_thread threadId (\<lambda>thrd.
     go_bind (go_lift (w_nodeAt (mv_world mv) data)) (\<lambda>node.
     go_bind (go_bind (go_get (TargetNodeKeys (mv_world mv) node)) go_lift) (\<lambda>keys.
     go_bind (AddFiles (mv_world mv) thrd (Some node) [] caption keys) (flushed mv)))))"

definition Mobile_AddData :: "mobile_env \<Rightarrow> string \<Rightarrow> string \<Rightarrow> string \<Rightarrow> (Block \<times> User) node_op" where
  "Mobile_AddData mv data threadId caption =
     go_bind (go_lift (mv_base64 mv data)) (\<lambda>decoded.
     go_bind (mobile_addData mv decoded threadId caption) mobile_blockView)"

definition Mobile_AddFiles :: "mobile_env \<Rightarrow> string \<Rightarrow> string \<Rightarrow> string \<Rightarrow> (Block \<times> User) node_op" where
  "Mobile_AddFiles mv paths threadId caption =
     go_bind (mobile_addFiles mv (SplitString paths CHR '','') threadId caption) mobile_blockView"

definition Mobile_ShareFiles :: "mobile_env \<Rightarrow> string \<Rightarrow> string \<Rightarrow> string \<Rightarrow> (Block \<times> User) node_op" where
  "Mobile_ShareFiles mv data threadId caption =
     go_bind (mobile_shareFiles mv data threadId caption) mobile_blockView"

section \<open>Reading\<close>

definition Mobile_Files :: "mobile_env \<Rightarrow> string \<Rightarrow> string \<Rightarrow> int \<Rightarrow> feed_payload list node_op" where
  "Mobile_Files mv threadId offset limit =
     if_started mv (go_bind (go_get (Textile_Files (an_links (mv_api mv)) (mv_world mv) offset limit threadId)) go_lift)"

text \<open>\<open>None\<close> stands for no data and no error.\<close>

definition mobile_fileContent :: "mobile_env \<Rightarrow> string \<Rightarrow> (bytes \<times> string) option node_op" where
  "mobile_fileContent mv hash =
     if_started mv (go_bind (go_try (go_bind (go_get (FileContent (mv_files mv) (mv_world mv) hash)) go_lift)) (\<lambda>r.
     case r of Inl err \<Rightarrow> if err = ErrFileNotFound \<or> err = mv_notFound mv then go_return None else go_fail err
     | Inr (data, file) \<Rightarrow> go_return (Some (data, file_Media file))))"

record img =
  img_hash :: string
  img_width :: int

text \<open>The images of a node: what the width mill has written in the metadata. \<open>Inr None\<close> ends with no data.\<close>

fun collect_images ::
  "mobile_env \<Rightarrow> node_state \<Rightarrow> (string \<times> string) list \<Rightarrow> img list \<Rightarrow> goerr + img list option" where
  "collect_images mv s [] imgs = Inr (Some imgs)"
| "collect_images mv s (link # links) imgs =
     (case w_nodeAt (mv_world mv) (snd link) of
        Inl err \<Rightarrow> if err = mv_notFound mv then Inr None else Inl err
      | Inr nd \<Rightarrow>
          (case LinkByName (dag_Links nd) ValidContentLinkNames of
             None \<Rightarrow> collect_images mv s links imgs
           | Some dlink \<Rightarrow>
               (case FileMeta (snd dlink) s of
                  Inl err \<Rightarrow> if err = ErrFileNotFound then Inr None else Inl err
                | Inr file \<Rightarrow>
                    if file_Mill file = ''/image/resize''
                    then (case file_Meta file of None \<Rightarrow> Inl (Panic ''nil metadata'')
                          | Some fs \<Rightarrow>
                              collect_images mv s links
                                (case mv_width mv fs of None \<Rightarrow> imgs
                                 | Some width \<Rightarrow> imgs @ [\<lparr>img_hash = file_Hash file, img_width = width\<rparr>]))
                    else collect_images mv s links imgs)))"

text \<open>The smallest image that is wide enough, or the widest; a hash that is empty is passed over.\<close>

definition choose_image :: "int \<Rightarrow> img list \<Rightarrow> string" where
  "choose_image minWidth imgs =
     (let sorted = sort_key img_width imgs;
          hash = (case List.find (\<lambda>i. minWidth \<le> img_width i) sorted of None \<Rightarrow> [] | Some i \<Rightarrow> img_hash i)
      in if hash = [] then img_hash (last sorted) else hash)"

definition imageFileContentForMinWidth :: "mobile_env \<Rightarrow> string \<Rightarrow> int \<Rightarrow> (bytes \<times> string) option node_op" where
  "imageFileContentForMinWidth mv pth minWidth =
     if_started mv
       (case w_nodeAt (mv_world mv) pth of
          Inl err \<Rightarrow> if err = mv_notFound mv then go_return None else go_fail err
        | Inr node \<Rightarrow>
            go_bind (go_bind (go_get (\<lambda>s. collect_images mv s (dag_Links node) [])) go_lift) (\<lambda>imgs.
            case imgs of None \<Rightarrow> go_return None
            | Some imgs \<Rightarrow>
                if imgs = [] then go_return None
                else mobile_fileContent mv (choose_image minWidth imgs)))"

end
