(* ===== verification/MobileApi.thy ===== *)
theory MobileApi
  imports MobileFiles
begin

text \<open>
  The bindings for phones, \<^verbatim>\<open>mobile/*.go\<close>: threads, messages and annotations, the feed, invites,
  notifications, contacts, the account and the profile, schemas, raw data and searches.
\<close>

section \<open>Threads\<close>

definition Mobile_AddThread ::
  "mobile_env \<Rightarrow> (nat \<Rightarrow> goerr + bytes) \<Rightarrow> goerr + AddThreadConfig \<Rightarrow> ThreadView node_op" where
  "Mobile_AddThread mv generate config =
     (let w = mv_world mv
      in if_started mv
          (go_bind (go_lift config) (\<lambda>conf.
           go_bind (go_bind (draw generate) go_lift) (\<lambda>sk.
           go_bind (AddThread (an_fuel (mv_api mv)) w (an_threads (mv_api mv)) conf sk (w_accountAddress w) True True) (\<lambda>thrd.
           go_bind (Textile_ThreadView w (t_Id thrd)) (flushed mv))))))"

definition Mobile_AddOrUpdateThread :: "mobile_env \<Rightarrow> goerr + Thread \<Rightarrow> unit node_op" where
  "Mobile_AddOrUpdateThread mv thrd =
     if_online mv
       (go_bind (go_lift thrd) (\<lambda>mthrd.
        go_bind (AddOrUpdateThread (an_fuel (mv_api mv)) (mv_world mv) (an_threads (mv_api mv)) mthrd) (\<lambda>rest.
        go_seq (snapshot_background (an_fuel (mv_api mv)) (mv_world mv) (mobile_FlushCafes mv) rest)
          (flushed mv ()))))"

definition Mobile_RenameThread :: "mobile_env \<Rightarrow> string \<Rightarrow> string \<Rightarrow> unit node_op" where
  "Mobile_RenameThread mv tid name = if_started mv (go_bind (RenameThread (mv_world mv) tid name) (\<lambda>_. flushed mv ()))"

definition Mobile_Thread :: "mobile_env \<Rightarrow> string \<Rightarrow> ThreadView option node_op" where
  "Mobile_Thread mv tid =
     if_started mv (go_bind (go_try (Textile_ThreadView (mv_world mv) tid)) (\<lambda>r.
     case r of Inl err \<Rightarrow> if err = ErrThreadNotFound then go_return None else go_fail err
     | Inr view \<Rightarrow> go_return (Some view)))"

definition Mobile_Threads :: "mobile_env \<Rightarrow> ThreadView list node_op" where
  "Mobile_Threads mv =
     if_started mv (go_bind (go_get (\<lambda>s. map t_Id (Textile_Threads (mv_world mv) s))) (thread_views (mv_world mv)))"

definition Mobile_ThreadPeers :: "mobile_env \<Rightarrow> string \<Rightarrow> Peer list node_op" where
  "Mobile_ThreadPeers mv tid = if_started mv (go_bind (go_get (Textile_ThreadPeers tid)) go_lift)"

text \<open>The hash of the block, which is empty when there is none.\<close>

definition Mobile_RemoveThread :: "mobile_env \<Rightarrow> string \<Rightarrow> string node_op" where
  "Mobile_RemoveThread mv tid =
     if_started mv (go_bind (RemoveThread (mv_world mv) tid) (\<lambda>hash.
     flushed mv (case hash of None \<Rightarrow> [] | Some h \<Rightarrow> h)))"

definition Mobile_SnapshotThreads :: "mobile_env \<Rightarrow> unit node_op" where
  "Mobile_SnapshotThreads mv = if_started mv (go_bind (SnapshotThreads (mv_world mv)) (\<lambda>_. flushed mv ()))"

section \<open>Messages, annotations and the feed\<close>

definition Mobile_AddMessage :: "mobile_env \<Rightarrow> string \<Rightarrow> string \<Rightarrow> string node_op" where
  "Mobile_AddMessage mv threadId body =
     if_started mv (mobile_thread threadId (\<lambda>thrd.
     go_bind (AddMessage (mv_world mv) thrd [] body) (flushed mv)))"

definition Mobile_Messages :: "mobile_env \<Rightarrow> string \<Rightarrow> int \<Rightarrow> string \<Rightarrow> feed_payload list node_op" where
  "Mobile_Messages mv offset limit threadId =
     if_started mv (go_bind (go_get (Textile_Messages offset limit threadId)) go_lift)"

definition with_mobile_block :: "mobile_env \<Rightarrow> string \<Rightarrow> (thread \<Rightarrow> string \<Rightarrow> string node_op) \<Rightarrow> string node_op" where
  "with_mobile_block mv blockId add =
     if_started mv (go_bind (go_bind (go_get (Textile_Block blockId)) go_lift) (\<lambda>block.
     mobile_thread (blk_Thread block) (\<lambda>thrd. go_bind (add thrd (blk_Id block)) (flushed mv))))"

definition Mobile_AddComment :: "mobile_env \<Rightarrow> string \<Rightarrow> string \<Rightarrow> string node_op" where
  "Mobile_AddComment mv blockId body = with_mobile_block mv blockId (\<lambda>thrd bid. AddComment (mv_world mv) thrd bid body)"

definition Mobile_AddLike :: "mobile_env \<Rightarrow> string \<Rightarrow> string node_op" where
  "Mobile_AddLike mv blockId = with_mobile_block mv blockId (AddLike (mv_world mv))"

definition Mobile_AddIgnore :: "mobile_env \<Rightarrow> string \<Rightarrow> string node_op" where
  "Mobile_AddIgnore mv blockId = with_mobile_block mv blockId (AddIgnore (mv_world mv))"

definition Mobile_AddFlag :: "mobile_env \<Rightarrow> string \<Rightarrow> string node_op" where
  "Mobile_AddFlag mv blockId = with_mobile_block mv blockId (AddFlag (mv_world mv))"

definition Mobile_Feed :: "mobile_env \<Rightarrow> goerr + FeedRequest \<Rightarrow> FeedItemList node_op" where
  "Mobile_Feed mv req =
     if_started mv (go_bind (go_lift req) (\<lambda>mreq.
     go_bind (go_get (Textile_Feed (an_fuel (mv_api mv)) (an_links (mv_api mv)) (mv_world mv) mreq)) go_lift))"

section \<open>Invites and notifications\<close>

definition Mobile_AddInvite :: "mobile_env \<Rightarrow> string \<Rightarrow> string \<Rightarrow> unit node_op" where
  "Mobile_AddInvite mv threadId address =
     if_started mv (go_bind (Textile_AddInvite (mv_world mv) (an_threads (mv_api mv)) threadId address) (\<lambda>_. flushed mv ()))"

definition Mobile_AddExternalInvite :: "mobile_env \<Rightarrow> string \<Rightarrow> ExternalInvite node_op" where
  "Mobile_AddExternalInvite mv threadId =
     if_started mv (go_bind (Textile_AddExternalInvite (mv_world mv) (fe_enc58 (mv_files mv)) (fe_newKey (mv_files mv))
       (EncryptAES (fe_aes (mv_files mv))) threadId) (flushed mv))"

text \<open>The one operation that does not ask whether the node is started.\<close>

definition Mobile_Invites :: "mobile_env \<Rightarrow> InviteView list node_op" where
  "Mobile_Invites mv = go_bind (TimestampNow (mv_world mv)) (\<lambda>now. go_bind (go_get (Textile_Invites now)) go_lift)"

text \<open>The hash of the join block; there is none for a thread that is there already.\<close>

definition joined_hash :: "mobile_env \<Rightarrow> (string \<times> thread \<times> string list) option \<Rightarrow> string node_op" where
  "joined_hash mv r = flushed mv (case r of None \<Rightarrow> [] | Some (hash, t, parents) \<Rightarrow> hash)"

definition Mobile_AcceptInvite :: "mobile_env \<Rightarrow> string \<Rightarrow> string node_op" where
  "Mobile_AcceptInvite mv iid =
     if_online mv (go_bind (AcceptInvite (an_fuel (mv_api mv)) (mv_world mv) (an_threads (mv_api mv)) iid) (joined_hash mv))"

definition Mobile_AcceptExternalInvite :: "mobile_env \<Rightarrow> string \<Rightarrow> string \<Rightarrow> string node_op" where
  "Mobile_AcceptExternalInvite mv iid key =
     if_online mv (go_bind (go_lift (fe_dec58 (mv_files mv) key)) (\<lambda>keyb.
     go_bind (AcceptExternalInvite (an_fuel (mv_api mv)) (mv_world mv) (an_threads (mv_api mv))
       (DecryptAES (fe_aes (mv_files mv))) iid keyb) (joined_hash mv)))"

definition Mobile_IgnoreInvite :: "mobile_env \<Rightarrow> string \<Rightarrow> unit node_op" where
  "Mobile_IgnoreInvite mv iid = if_started mv (go_bind (IgnoreInvite iid) (\<lambda>_. flushed mv ()))"

definition Mobile_Notifications :: "mobile_env \<Rightarrow> string \<Rightarrow> int \<Rightarrow> (Notification \<times> User option) list node_op" where
  "Mobile_Notifications mv offset limit =
     if_started mv (go_bind (TimestampNow (mv_world mv)) (\<lambda>now.
     go_bind (go_get (Textile_Notifications now offset limit)) go_lift))"

definition Mobile_CountUnreadNotifications :: "mobile_env \<Rightarrow> node_state \<Rightarrow> int" where
  "Mobile_CountUnreadNotifications mv s = (if \<not> mv_started mv then 0 else notifications_CountUnread (ns_notifications s))"

definition Mobile_ReadNotification :: "mobile_env \<Rightarrow> string \<Rightarrow> unit node_op" where
  "Mobile_ReadNotification mv nid = if_started mv (ReadNotification nid)"

definition Mobile_ReadAllNotifications :: "mobile_env \<Rightarrow> unit node_op" where
  "Mobile_ReadAllNotifications mv = if_started mv ReadAllNotifications"

definition Mobile_AcceptInviteViaNotification :: "mobile_env \<Rightarrow> string \<Rightarrow> string node_op" where
  "Mobile_AcceptInviteViaNotification mv nid =
     if_online mv (go_bind (AcceptInviteViaNotification (an_fuel (mv_api mv)) (mv_world mv) (an_threads (mv_api mv)) nid)
       (joined_hash mv))"

definition Mobile_IgnoreInviteViaNotification :: "mobile_env \<Rightarrow> string \<Rightarrow> unit node_op" where
  "Mobile_IgnoreInviteViaNotification mv nid =
     if_started mv (go_bind (IgnoreInviteViaNotification nid) (\<lambda>_. flushed mv ()))"

section \<open>Contacts, account and profile\<close>

definition Mobile_AddContact :: "mobile_env \<Rightarrow> goerr + Contact \<Rightarrow> unit node_op" where
  "Mobile_AddContact mv body =
     if_started mv (go_bind (go_lift body) (\<lambda>model.
     go_bind (AddContact (mv_world mv) (con_Peers model)) (\<lambda>_. flushed mv ())))"

definition Mobile_Contact :: "mobile_env \<Rightarrow> string \<Rightarrow> Contact option node_op" where
  "Mobile_Contact mv address = if_started mv (go_get (contact address True))"

definition Mobile_Contacts :: "mobile_env \<Rightarrow> Contact list node_op" where
  "Mobile_Contacts mv = if_started mv (go_get (contacts (mv_world mv) True))"

definition Mobile_RemoveContact :: "mobile_env \<Rightarrow> string \<Rightarrow> unit node_op" where
  "Mobile_RemoveContact mv address = if_started mv (go_bind (RemoveContact (mv_world mv) address) (\<lambda>_. flushed mv ()))"

definition Mobile_ContactThreads :: "mobile_env \<Rightarrow> string \<Rightarrow> ThreadView list node_op" where
  "Mobile_ContactThreads mv address = if_started mv (ContactThreads (mv_world mv) address)"

definition Mobile_Address :: "mobile_env \<Rightarrow> string" where
  "Mobile_Address mv = (if \<not> mv_started mv then [] else w_accountAddress (mv_world mv))"

definition Mobile_AccountThread :: "mobile_env \<Rightarrow> ThreadView node_op" where
  "Mobile_AccountThread mv =
     if_started mv (go_bind (go_get (AccountThread (mv_world mv))) (\<lambda>thrd.
     case thrd of None \<Rightarrow> go_fail (ErrMsg ''account thread not found'')
     | Some t \<Rightarrow> Textile_ThreadView (mv_world mv) (t_Id t)))"

definition Mobile_AccountContact :: "mobile_env \<Rightarrow> Contact node_op" where
  "Mobile_AccountContact mv =
     if_started mv (go_bind (go_get (AccountContact (mv_world mv))) (\<lambda>c.
     case c of None \<Rightarrow> go_fail (ErrMsg ''self contact not found'') | Some c \<Rightarrow> go_return c))"

definition Mobile_Profile :: "mobile_env \<Rightarrow> Peer node_op" where
  "Mobile_Profile mv =
     if_started mv (go_bind (go_get (Profile (mv_world mv))) (\<lambda>p.
     case p of None \<Rightarrow> go_fail (ErrMsg ''profile not found'') | Some p \<Rightarrow> go_return p))"

definition Mobile_Name :: "mobile_env \<Rightarrow> string node_op" where
  "Mobile_Name mv = if_started mv (go_get (profile_Name (mv_world mv)))"

definition Mobile_Avatar :: "mobile_env \<Rightarrow> string node_op" where
  "Mobile_Avatar mv = if_started mv (go_get (profile_Avatar (mv_world mv)))"

definition Mobile_SetName :: "mobile_env \<Rightarrow> string \<Rightarrow> unit node_op" where
  "Mobile_SetName mv name =
     if_online mv (go_bind (SetName (mv_world mv) (publishPeer (an_cafe (mv_api mv)) (mv_world mv)) name) (\<lambda>_. flushed mv ()))"

definition mobile_setAvatar :: "mobile_env \<Rightarrow> string \<Rightarrow> string node_op" where
  "mobile_setAvatar mv pth =
     if_online mv (go_bind (go_get (AccountThread (mv_world mv))) (\<lambda>thrd.
     case thrd of None \<Rightarrow> go_fail (ErrMsg ''account thread not found'')
     | Some t \<Rightarrow>
         go_bind (mobile_addFiles mv [pth] (t_Id t) []) (\<lambda>hash.
         go_bind (SetAvatar (mv_world mv) (publishPeer (an_cafe (mv_api mv)) (mv_world mv))) (\<lambda>_. flushed mv hash))))"

definition Mobile_SetAvatar :: "mobile_env \<Rightarrow> string \<Rightarrow> (Block \<times> User) node_op" where
  "Mobile_SetAvatar mv pth = go_bind (mobile_setAvatar mv pth) mobile_blockView"

definition Mobile_Summary :: "mobile_env \<Rightarrow> Summary node_op" where
  "Mobile_Summary mv = if_started mv (go_get (Textile_Summary (mv_world mv)))"

section \<open>Schemas, data and cafes\<close>

text \<open>\<open>jsn\<close> is the JSON of the schema.\<close>

definition Mobile_AddSchema :: "mobile_env \<Rightarrow> (bytes \<Rightarrow> goerr + bytes) \<Rightarrow> goerr + bytes \<Rightarrow> FileIndex option node_op" where
  "Mobile_AddSchema mv schema_mill jsn =
     if_started mv (go_bind (go_lift jsn) (\<lambda>input.
     go_bind (AddFileIndex (mv_files mv) (mv_world mv) (Schema_mill (mv_files mv) schema_mill)
       \<lparr>af_Input = input, af_Use = [], af_Media = ''application/json'', af_Name = [], af_Plaintext = False\<rparr>) (flushed mv)))"

definition Mobile_PeerId :: "mobile_env \<Rightarrow> string node_op" where
  "Mobile_PeerId mv = if_started mv (go_return (w_self (mv_world mv)))"

definition mobile_dataAtPath :: "mobile_env \<Rightarrow> string \<Rightarrow> (bytes \<times> string) option node_op" where
  "mobile_dataAtPath mv pth =
     if_started mv
       (case w_dataAt (mv_world mv) pth of
          Inl err \<Rightarrow> if err = mv_notFound mv then go_return None else go_fail err
        | Inr data \<Rightarrow> go_return (Some (data, GetMedia (me_detect (mv_mill mv)) data)))"

definition mobile_registerCafe :: "mobile_env \<Rightarrow> string \<Rightarrow> string \<Rightarrow> unit node_op" where
  "mobile_registerCafe mv cid token =
     if_online mv (go_bind (RegisterCafe (an_cafe (mv_api mv)) (mv_world mv) cid token) (\<lambda>_. flushed mv ()))"

definition mobile_deregisterCafe :: "mobile_env \<Rightarrow> string \<Rightarrow> unit node_op" where
  "mobile_deregisterCafe mv cid =
     if_online mv (go_bind (DeregisterCafe (an_cafe (mv_api mv)) (mv_world mv) cid) (\<lambda>_. flushed mv ()))"

definition mobile_refreshCafeSession :: "mobile_env \<Rightarrow> string \<Rightarrow> CafeSession node_op" where
  "mobile_refreshCafeSession mv cid = if_online mv (RefreshCafeSession (an_cafe (mv_api mv)) (mv_world mv) cid)"

text \<open>What goes wrong is logged, and the outbox is flushed all the same.\<close>

definition Mobile_CheckCafeMessages :: "mobile_env \<Rightarrow> unit node_op" where
  "Mobile_CheckCafeMessages mv =
     (if \<not> mv_online mv then go_return ()
      else go_bind (go_try (CafeInbox_CheckMessages (an_fuel (mv_api mv)) (an_cafe (mv_api mv)) (mv_world mv)))
        (\<lambda>_. mobile_FlushCafes mv))"

definition Mobile_CafeSession :: "mobile_env \<Rightarrow> string \<Rightarrow> CafeSession option node_op" where
  "Mobile_CafeSession mv cid = if_started mv (go_get (\<lambda>s. cafe_sessions_Get cid (ns_cafe_sessions s)))"

definition Mobile_CafeSessions :: "mobile_env \<Rightarrow> CafeSession list node_op" where
  "Mobile_CafeSessions mv = if_started mv (go_get (\<lambda>s. cafe_sessions_List (ns_cafe_sessions s)))"

section \<open>Searches\<close>

text \<open>
  The events of a search: each result, then the end or the error. Cancelling calls \<open>done\<close>, which tells the
  end once; the results of a cancelled search end and tell nothing more.
\<close>

datatype 'a mobile_query_event = QueryData 'a | QueryError goerr | QueryDone

fun mobile_handleSearchStream :: "bool \<Rightarrow> 'a search_event list \<Rightarrow> 'a mobile_query_event list" where
  "mobile_handleSearchStream told [] = []"
| "mobile_handleSearchStream told (ClientGone # es) =
     (if told then [] else [QueryDone]) @ mobile_handleSearchStream True es"
| "mobile_handleSearchStream told (SearchFailed err # es) = QueryError err # (if told \<or> ClientGone \<notin> set es then [] else [QueryDone])"
| "mobile_handleSearchStream told (SearchFound res # es) = QueryData res # mobile_handleSearchStream told es"
| "mobile_handleSearchStream told (SearchOver # es) = (if told then [] else [QueryDone])"

definition Mobile_SearchContacts ::
  "mobile_env \<Rightarrow> (Query \<Rightarrow> (QueryResult list \<times> goerr list) node_op) \<Rightarrow> (Contact list \<times> goerr list \<Rightarrow> Contact search_event list)
   \<Rightarrow> goerr + string \<times> string \<Rightarrow> goerr + QueryOptions \<Rightarrow> Contact mobile_query_event list node_op" where
  "Mobile_SearchContacts mv search stream query options =
     if_online mv (go_bind (go_lift query) (\<lambda>(address, name).
     go_bind (go_lift options) (\<lambda>moptions.
     go_bind (SearchContacts (mv_world mv) search address name moptions) (\<lambda>r.
     go_return (mobile_handleSearchStream False (stream r))))))"

end
