(* ===== verification/MobileCafes.thy ===== *)
theory MobileCafes
  imports MobileApi
begin

text \<open>
  The cafe requests of a phone, \<^verbatim>\<open>mobile/cafes.go\<close>. The app sends the queued requests itself: the bindings
  write each group as an HTTP request with its body in a file, the app reports what became of it, and
  the bindings tell the app about the groups that have to be complete together. The state is that of
  the node with the files of the directory for requests and the events for the app.
\<close>

section \<open>State\<close>

datatype CafeHTTPRequest_Type = HTTP_PUT | HTTP_POST | HTTP_DELETE

record CafeHTTPRequest =
  hr_Type :: CafeHTTPRequest_Type
  hr_Url :: string
  hr_Headers :: "(string \<times> string) list"
  hr_Path :: string

text \<open>A status with the error and the id of the group that failed.\<close>

datatype mobile_event =
    SyncGroupUpdate CafeSyncGroupStatus
  | SyncGroupCompleted CafeSyncGroupStatus
  | SyncGroupFailed CafeSyncGroupStatus string string

record mobile =
  mo_node :: node_state
  mo_files :: "string \<Rightarrow> bytes option"
  mo_events :: "mobile_event list"

type_synonym 'a mobile_op = "(mobile, 'a) go"

record request_env =
  rq_env :: mobile_env
  rq_repo :: string
  rq_mkdir :: "goerr + unit"
  rq_create :: "string \<Rightarrow> goerr + unit"
  rq_isDir :: goerr
  rq_multipart :: "(string \<times> bytes) list \<Rightarrow> bytes \<times> string"

definition at_node :: "'a node_op \<Rightarrow> 'a mobile_op" where
  "at_node m = go_on mo_node mo_node_update m"

definition started :: "request_env \<Rightarrow> 'a mobile_op \<Rightarrow> 'a mobile_op" where
  "started rq k = (if \<not> mv_started (rq_env rq) then go_fail ErrStopped else k)"

definition mobile_notify :: "mobile_event \<Rightarrow> unit mobile_op" where
  "mobile_notify e = go_modify (\<lambda>m. m\<lparr>mo_events := mo_events m @ [e]\<rparr>)"

definition request_path :: "request_env \<Rightarrow> string \<Rightarrow> string" where
  "request_path rq grp = rq_repo rq @ ''/tmp/'' @ grp"

definition write_file :: "request_env \<Rightarrow> string \<Rightarrow> bytes \<Rightarrow> unit mobile_op" where
  "write_file rq path body =
     go_seq (go_lift (rq_create rq path)) (go_modify (\<lambda>m. m\<lparr>mo_files := (mo_files m)(path \<mapsto> body)\<rparr>))"

section \<open>Reports of the app\<close>

definition cafeSyncGroupStatus :: "string \<Rightarrow> mobile \<Rightarrow> CafeSyncGroupStatus" where
  "cafeSyncGroupStatus grp m = SyncGroupStatus grp (ns_cafe_requests (mo_node m))"

definition deleteCafeRequestBody :: "request_env \<Rightarrow> string \<Rightarrow> unit mobile_op" where
  "deleteCafeRequestBody rq grp =
     go_bind (go_get (\<lambda>m. mo_files m (request_path rq grp))) (\<lambda>f.
     case f of None \<Rightarrow> go_fail (ErrMsg ''no such file or directory'')
     | Some _ \<Rightarrow> go_modify (\<lambda>m. m\<lparr>mo_files := (mo_files m)(request_path rq grp := None)\<rparr>))"

text \<open>\<open>failure\<close> is the error with the id of the group; a status without an id has not failed.\<close>

definition handleCafeRequestDone :: "request_env \<Rightarrow> string \<Rightarrow> CafeSyncGroupStatus \<Rightarrow> string \<times> string \<Rightarrow> unit mobile_op" where
  "handleCafeRequestDone rq grp status failure =
     (let mv = rq_env rq
      in go_seq
           (if snd failure \<noteq> []
            then go_seq (mobile_notify (SyncGroupFailed status (fst failure) (snd failure)))
                   (at_node (on_cafe_requests (cafe_requests_DeleteByGroup grp)))
            else if sgs_NumComplete status = sgs_NumTotal status
            then mobile_notify (SyncGroupCompleted status)
            else mobile_notify (SyncGroupUpdate status))
        (go_seq (at_node (FlushBlocks (an_net (mv_api mv)) (mv_world mv) (mv_flush mv)))
           (deleteCafeRequestBody rq grp)))"

definition Mobile_CafeRequests :: "request_env \<Rightarrow> int \<Rightarrow> string list mobile_op" where
  "Mobile_CafeRequests rq limit =
     started rq (go_get (\<lambda>m. cafe_requests_ListGroups [] limit (ns_cafe_requests (mo_node m))))"

definition CafeRequestPending :: "request_env \<Rightarrow> string \<Rightarrow> unit mobile_op" where
  "CafeRequestPending rq grp =
     started rq (go_seq (at_node (on_cafe_requests (cafe_requests_UpdateGroupStatus grp CafeRequest_PENDING)))
       (go_bind (go_get (cafeSyncGroupStatus grp)) (\<lambda>status. mobile_notify (SyncGroupUpdate status))))"

definition CafeRequestNotPending :: "request_env \<Rightarrow> string \<Rightarrow> unit mobile_op" where
  "CafeRequestNotPending rq grp =
     started rq (at_node (on_cafe_requests (cafe_requests_UpdateGroupStatus grp CafeRequest_NEW)))"

definition CompleteCafeRequest :: "request_env \<Rightarrow> string \<Rightarrow> unit mobile_op" where
  "CompleteCafeRequest rq grp =
     started rq (go_seq (at_node (on_cafe_requests (cafe_requests_UpdateGroupStatus grp CafeRequest_COMPLETE)))
       (go_bind (go_get (cafeSyncGroupStatus grp)) (\<lambda>status. handleCafeRequestDone rq grp status ([], []))))"

definition FailCafeRequest :: "request_env \<Rightarrow> string \<Rightarrow> string \<Rightarrow> unit mobile_op" where
  "FailCafeRequest rq grp reason =
     started rq (go_bind (go_get (cafeSyncGroupStatus grp)) (\<lambda>status.
     handleCafeRequestDone rq grp status (reason, grp)))"

definition UpdateCafeRequestProgress :: "request_env \<Rightarrow> string \<Rightarrow> int \<Rightarrow> int \<Rightarrow> unit mobile_op" where
  "UpdateCafeRequestProgress rq grp transferred tot =
     started rq (go_seq (at_node (on_cafe_requests (cafe_requests_UpdateGroupProgress grp transferred tot)))
       (go_bind (go_get (cafeSyncGroupStatus grp)) (\<lambda>status. mobile_notify (SyncGroupUpdate status))))"

section \<open>Writing a request\<close>

definition api_url :: "Cafe \<Rightarrow> string" where
  "api_url cafe = cafe_Url cafe @ ''/api/v1''"

definition session_of :: "string \<Rightarrow> CafeSession mobile_op" where
  "session_of cafe =
     go_bind (go_get (\<lambda>m. cafe_sessions_Get cafe (ns_cafe_sessions (mo_node m)))) (\<lambda>x.
     case x of None \<Rightarrow> go_fail (ErrMsg ''session for cafe not found'') | Some session \<Rightarrow> go_return session)"

definition basic_auth :: "CafeSession \<Rightarrow> string \<times> string" where
  "basic_auth session = (''Authorization'', ''Basic '' @ ses_Access session)"

text \<open>The data of an object, of a directory its node.\<close>

definition store_part :: "request_env \<Rightarrow> CafeRequest \<Rightarrow> goerr + string \<times> bytes" where
  "store_part rq req =
     (let w = mv_world (rq_env rq)
      in case w_dataAt w (req_Target req) of
           Inr data \<Rightarrow> Inr (req_Target req, data)
         | Inl err \<Rightarrow>
             if err = rq_isDir rq
             then (case w_objectAt w (req_Target req) of Inl e \<Rightarrow> Inl e | Inr data \<Rightarrow> Inr (req_Target req, data))
             else Inl err)"

text \<open>All objects of a group to one cafe. The file of an attempt that fails on the way is left empty here.\<close>

definition write_store :: "request_env \<Rightarrow> string \<Rightarrow> string \<Rightarrow> CafeRequest list \<Rightarrow> CafeHTTPRequest mobile_op" where
  "write_store rq grp cafe reqs =
     go_bind (session_of cafe) (\<lambda>session.
     let path = request_path rq grp
     in go_seq (write_file rq path [])
       (go_bind (go_lift (each_view (store_part rq) reqs)) (\<lambda>parts.
        let (body, ctype) = rq_multipart rq parts
        in go_seq (write_file rq path body)
             (go_return \<lparr>hr_Type = HTTP_PUT, hr_Url = api_url (ses_Cafe session) @ ''/store'',
                hr_Headers = [basic_auth session, (''Content-Type'', ctype)], hr_Path = path\<rparr>))))"

text \<open>Method, rest of the URL and body of a request of another type.\<close>

definition single_request ::
  "request_env \<Rightarrow> CafeRequest \<Rightarrow> node_state \<Rightarrow> goerr + CafeHTTPRequest_Type \<times> string \<times> bytes" where
  "single_request rq req s =
     (let mv = rq_env rq; target = req_Target req
      in case req_Type req of
           CafeRequest_UNSTORE \<Rightarrow> Inr (HTTP_DELETE, ''/store/'' @ target, ascii ''noop'')
         | CafeRequest_STORE_THREAD \<Rightarrow>
             (case threads_Get target (ns_threads s) of None \<Rightarrow> Inl ErrThreadNotFound
              | Some thrd \<Rightarrow>
                  (case ca_encryptThread (an_cafe (mv_api mv)) thrd of Inl err \<Rightarrow> Inl err
                   | Inr ciphertext \<Rightarrow> Inr (HTTP_PUT, ''/threads/'' @ target, ciphertext)))
         | CafeRequest_UNSTORE_THREAD \<Rightarrow> Inr (HTTP_DELETE, ''/threads/'' @ target, ascii ''noop'')
         | CafeRequest_INBOX \<Rightarrow>
             (case w_dataAt (mv_world mv) target of Inl err \<Rightarrow> Inl err
              | Inr body \<Rightarrow> Inr (HTTP_POST, ''/inbox/'' @ w_self (mv_world mv) @ ''/'' @ req_Peer req, body))
         | _ \<Rightarrow> Inr (HTTP_PUT, [], []))"

definition write_single :: "request_env \<Rightarrow> string \<Rightarrow> string \<Rightarrow> CafeRequest \<Rightarrow> CafeHTTPRequest mobile_op" where
  "write_single rq grp cafe req =
     (let w = mv_world (rq_env rq); path = request_path rq grp; inbox = (req_Type req = CafeRequest_INBOX)
      in go_bind (go_bind (go_get (\<lambda>m. single_request rq req (mo_node m))) go_lift) (\<lambda>(meth, rest, body).
         go_bind (if inbox then go_return [] else go_bind (session_of cafe) (\<lambda>session. go_return [basic_auth session]))
           (\<lambda>auth.
         go_seq (write_file rq path body)
        (go_seq (go_when inbox (go_bind (go_lift (w_parseCid w (req_Target req))) (\<lambda>cid. at_node (UnpinNode w cid False))))
           (go_return \<lparr>hr_Type = meth, hr_Url = api_url (req_Cafe req) @ rest,
              hr_Headers = (''Content-Type'', ''application/octet-stream'') # auth, hr_Path = path\<rparr>)))))"

text \<open>
  The cafes of a group one after the other; the request that was written last is the result. A group
  that mixes types, or has several requests of another type than store, fails and ends the loop.
\<close>

fun write_cafes ::
  "request_env \<Rightarrow> string \<Rightarrow> (string \<times> CafeRequest list) list \<Rightarrow> CafeHTTPRequest option \<Rightarrow> CafeHTTPRequest option mobile_op" where
  "write_cafes rq grp [] hreq = go_return hreq"
| "write_cafes rq grp ((cafe, reqs) # cafes) hreq =
     (if length (grouped req_Type reqs) > 1
      then go_seq (FailCafeRequest rq grp ''request group contains multiple types'') (go_return hreq)
      else if req_Type (hd reqs) = CafeRequest_STORE
      then go_bind (write_store rq grp cafe reqs) (\<lambda>h. write_cafes rq grp cafes (Some h))
      else if length reqs > 1
      then go_seq (FailCafeRequest rq grp ''type does not allow multiple requests per group'') (go_return hreq)
      else go_bind (write_single rq grp cafe (hd reqs)) (\<lambda>h. write_cafes rq grp cafes (Some h)))"

text \<open>The message that is nil cannot be marshaled.\<close>

definition writeCafeRequest :: "request_env \<Rightarrow> string \<Rightarrow> CafeHTTPRequest mobile_op" where
  "writeCafeRequest rq grp =
     started rq (go_seq (go_lift (rq_mkdir rq))
       (go_bind (go_get (\<lambda>m. cafe_requests_GetGroup grp (ns_cafe_requests (mo_node m)))) (\<lambda>reqs.
        if reqs = [] then go_fail (ErrMsg ''request group not found'')
        else go_bind (write_cafes rq grp (grouped request_cafe reqs) None) (\<lambda>hreq.
          case hreq of None \<Rightarrow> go_fail (ErrMsg ''proto: Marshal called with nil'') | Some h \<Rightarrow> go_return h))))"

end
