(* ===== verification/MobileProps.thy ===== *)
theory MobileProps
  imports MobileCafes NodeApiProps FilesProps CafeBatchProps QueueProps
begin

text \<open>
  What the bindings for phones do: the image that is chosen for a width, the files of several paths, the
  requests that are written for the app, and what it is told about a group of requests.
\<close>

section \<open>Images\<close>

lemma find_sorted:
  assumes "sorted (map f xs)" "List.find (\<lambda>x. w \<le> f x) xs = Some i"
  shows "i \<in> set xs \<and> w \<le> f i \<and> (\<forall>j\<in>set xs. w \<le> f j \<longrightarrow> f i \<le> (f j :: int))"
  using assms by (induction xs) (auto split: if_splits)

lemma find_none_last:
  assumes "sorted (map f xs)" "xs \<noteq> []"
  shows "last xs \<in> set xs \<and> (\<forall>j\<in>set xs. f j \<le> (f (last xs) :: int))"
  using assms by (induction xs) (auto split: if_splits)

text \<open>C37. For a width the smallest image that is at least as wide is chosen, and the widest one when none is wide
  enough.\<close>

theorem image_fits_the_width:
  assumes "imgs \<noteq> []" "\<forall>i\<in>set imgs. img_hash i \<noteq> []"
  shows "\<exists>i\<in>set imgs. choose_image w imgs = img_hash i
    \<and> (if \<exists>j\<in>set imgs. w \<le> img_width j
       then w \<le> img_width i \<and> (\<forall>j\<in>set imgs. w \<le> img_width j \<longrightarrow> img_width i \<le> img_width j)
       else \<forall>j\<in>set imgs. img_width j \<le> img_width i)"
proof (cases "List.find (\<lambda>i. w \<le> img_width i) (sort_key img_width imgs)")
  case None
  then have none: "\<not> (\<exists>j\<in>set imgs. w \<le> img_width j)" by (auto simp: find_None_iff)
  have "sort_key img_width imgs \<noteq> []" using assms(1) by (metis length_0_conv length_sort)
  from find_none_last [OF sorted_sort_key this] show ?thesis
    using none by (intro bexI [where x = "last (sort_key img_width imgs)"])
      (auto simp: choose_image_def None Let_def)
next
  case (Some i)
  from find_sorted [OF sorted_sort_key this] have i: "i \<in> set imgs" "w \<le> img_width i"
    "\<forall>j\<in>set imgs. w \<le> img_width j \<longrightarrow> img_width i \<le> img_width j" by auto
  then show ?thesis using assms(2)
    by (intro bexI [where x = i]) (auto simp: choose_image_def Some Let_def)
qed

theorem image_fits_the_width_witness:
  "choose_image 200 [\<lparr>img_hash = ''l'', img_width = 800\<rparr>, \<lparr>img_hash = ''s'', img_width = 100\<rparr>,
     \<lparr>img_hash = ''m'', img_width = 320\<rparr>] = ''m''"
proof -
  let ?is = "[\<lparr>img_hash = ''l'', img_width = 800\<rparr>, \<lparr>img_hash = ''s'', img_width = 100\<rparr>,
     \<lparr>img_hash = ''m'', img_width = 320\<rparr>]"
  from image_fits_the_width [of ?is 200] show ?thesis by auto
qed

section \<open>Files of several paths\<close>

lemma writeFiles_first:
  assumes "map_of d SingleFileTag = Some (Some f)"
  shows "writeFiles mv (d # ds) tid caption = writeFiles mv [d] tid caption"
  using assms by (auto simp: writeFiles_def)

lemma buildDirectory_single:
  assumes "loaded_thread tid s = Some t" "t_Schema t = Some sch" "getMill mv (nd_Mill sch) (nd_Opts sch) = Inr (Some ml)"
    "buildDirectory mv data path tid s = (Inr dir, s')"
  shows "\<exists>added. dir = [(SingleFileTag, added)]"
  using assms by (auto simp: buildDirectory_def if_started_def mobile_thread_def go_bind_Inr_iff go_get_def go_lift_def
      go_return_def go_fail_def split: if_splits)

text \<open>When the schema of a thread makes a single file, the files of all paths are added to the index and to IPFS, but
  the node that is posted is that of the first path alone.\<close>

lemma only_the_first_path_is_posted:
  assumes "loaded_thread tid s = Some t" "t_Schema t = Some sch" "getMill mv (nd_Mill sch) (nd_Opts sch) = Inr (Some ml)"
    "build_directories mv (p # ps) tid s = (Inr (d # ds), s1)"
  shows "mobile_addFiles mv (p # ps) tid caption s = writeFiles mv [d] tid caption s1"
proof -
  obtain s2 where "buildDirectory mv None p tid s = (Inr d, s2)"
    using assms(4) by (auto simp: go_bind_Inr_iff go_return_def)
  from buildDirectory_single [OF assms(1-3) this] obtain added where d: "d = [(SingleFileTag, added)]" by blast
  have "writeFiles mv (d # ds) tid caption = writeFiles mv [d] tid caption"
  proof (cases added)
    case None
    then show ?thesis using d by (simp add: writeFiles_def dir_files_def go_bind_fail)
  next
    case (Some f)
    then show ?thesis using d by (intro writeFiles_first) simp
  qed
  then show ?thesis using assms(4) by (simp add: mobile_addFiles_def go_bind_def)
qed

section \<open>Reports of the app\<close>

lemma add_status_counts:
  "sgs_NumTotal (snd (foldl add_status (g, st) rs)) = sgs_NumTotal st + int (length rs)
   \<and> sgs_NumComplete (snd (foldl add_status (g, st) rs)) = sgs_NumComplete st
      + int (length (filter (\<lambda>r. cafe_requests_status r = RequestStatus_to_int CafeRequest_COMPLETE) rs))"
proof (induction rs arbitrary: g st)
  case (Cons r rs)
  obtain g' st' where step: "add_status (g, st) r = (g', st')" by fastforce
  have "sgs_NumTotal st' = sgs_NumTotal st + 1 \<and> sgs_NumComplete st' = sgs_NumComplete st
      + (if cafe_requests_status r = RequestStatus_to_int CafeRequest_COMPLETE then 1 else 0)"
    using step by (auto simp: add_status_def Let_def split: if_splits)
  then show ?case using Cons.IH [of g' st'] step by simp
qed simp

lemma sync_status_complete:
  "sgs_NumComplete (SyncGroupStatus grp t) = sgs_NumTotal (SyncGroupStatus grp t)
   \<longleftrightarrow> (\<forall>r\<in>set t. Some (cafe_requests_syncGroupId r) = sql_scalar cafe_requests_syncGroupId (\<lambda>x. cafe_requests_groupId x = grp) t
        \<longrightarrow> cafe_requests_status r = RequestStatus_to_int CafeRequest_COMPLETE)"
proof -
  let ?sg = "sql_scalar cafe_requests_syncGroupId (\<lambda>x. cafe_requests_groupId x = grp) t"
  let ?rows = "order_asc cafe_requests_date (sql_select (\<lambda>r. Some (cafe_requests_syncGroupId r) = ?sg) t)"
  have rows: "set ?rows = {r \<in> set t. Some (cafe_requests_syncGroupId r) = ?sg}"
    by (auto simp: sql_defs)
  have "sgs_NumComplete (SyncGroupStatus grp t) = sgs_NumTotal (SyncGroupStatus grp t)
      \<longleftrightarrow> length (filter (\<lambda>r. cafe_requests_status r = RequestStatus_to_int CafeRequest_COMPLETE) ?rows) = length ?rows"
    using add_status_counts [of "{}" empty_status ?rows] by (simp add: SyncGroupStatus_def Let_def empty_status_def)
  also have "\<dots> \<longleftrightarrow> (\<forall>r\<in>set ?rows. cafe_requests_status r = RequestStatus_to_int CafeRequest_COMPLETE)"
    using length_filter_eq_iff [of "\<lambda>_. True" "\<lambda>r. cafe_requests_status r = RequestStatus_to_int CafeRequest_COMPLETE" ?rows]
    by simp
  finally show ?thesis unfolding rows by auto
qed

lemma at_node_events: "mo_events (snd (at_node m x)) = mo_events x"
  by (simp add: at_node_def go_on_def split: prod.splits)

lemma at_node_run: "at_node m x = (case m (mo_node x) of (r, s) \<Rightarrow> (r, x\<lparr>mo_node := s\<rparr>))"
  by (simp add: at_node_def go_on_def split: prod.splits)

lemma events_seq:
  assumes "\<And>x. mo_events (snd (m x)) = mo_events x" "\<And>x. mo_events (snd (n x)) = mo_events x"
  shows "mo_events (snd (go_seq m n x)) = mo_events x"
  using assms(1) [of x] assms(2) by (auto simp: go_seq_def go_bind_def split: prod.splits sum.splits)

lemma go_seq_step: "m s = (Inr x, s1) \<Longrightarrow> go_seq m n s = n s1"
  by (simp add: go_seq_def go_bind_step)

lemma done_events:
  "mo_events (snd (handleCafeRequestDone rq grp status ([], []) x)) = mo_events x @
     [if sgs_NumComplete status = sgs_NumTotal status then SyncGroupCompleted status else SyncGroupUpdate status]"
proof -
  have d: "mo_events (snd (deleteCafeRequestBody rq grp y)) = mo_events y" for y
    by (auto simp: deleteCafeRequestBody_def go_bind_get go_fail_def go_modify_def split: option.splits)
  let ?e = "if sgs_NumComplete status = sgs_NumTotal status then SyncGroupCompleted status else SyncGroupUpdate status"
  let ?f = "FlushBlocks (an_net (mv_api (rq_env rq))) (mv_world (rq_env rq)) (mv_flush (rq_env rq))"
  have "handleCafeRequestDone rq grp status ([], []) x
      = go_seq (at_node ?f) (deleteCafeRequestBody rq grp) (x\<lparr>mo_events := mo_events x @ [?e]\<rparr>)"
    by (simp add: handleCafeRequestDone_def Let_def mobile_notify_def go_seq_step go_modify_def)
  moreover have "mo_events (snd (go_seq (at_node ?f) (deleteCafeRequestBody rq grp) y)) = mo_events y" for y
    by (rule events_seq) (rule at_node_events d)+
  ultimately show ?thesis by simp
qed

lemma completed_rows:
  "(\<forall>r\<in>set (map (\<lambda>r. if cafe_requests_groupId r = grp then r\<lparr>cafe_requests_status := c\<rparr> else r) t).
      Some (cafe_requests_syncGroupId r) = sg \<longrightarrow> cafe_requests_status r = c)
   \<longleftrightarrow> (\<forall>r\<in>set t. Some (cafe_requests_syncGroupId r) = sg \<longrightarrow> cafe_requests_groupId r = grp \<or> cafe_requests_status r = c)"
  by (induction t) auto

text \<open>C32. When the app reports that a group was sent, it is told that all is complete exactly when no other request of
  the same sync group is left, and gets an update of the counts otherwise. A group that is not there counts
  as complete.\<close>

theorem completion_is_told_iff_nothing_is_left:
  assumes "mv_started (rq_env rq)"
  shows "\<exists>status. mo_events (snd (CompleteCafeRequest rq grp m)) = mo_events m @
    [if \<forall>r\<in>set (ns_cafe_requests (mo_node m)).
        Some (cafe_requests_syncGroupId r)
          = sql_scalar cafe_requests_syncGroupId (\<lambda>x. cafe_requests_groupId x = grp) (ns_cafe_requests (mo_node m))
        \<longrightarrow> cafe_requests_groupId r = grp \<or> cafe_requests_status r = RequestStatus_to_int CafeRequest_COMPLETE
     then SyncGroupCompleted status else SyncGroupUpdate status]"
proof -
  let ?t = "ns_cafe_requests (mo_node m)"
  let ?c = "\<lambda>r. r\<lparr>cafe_requests_status := RequestStatus_to_int CafeRequest_COMPLETE\<rparr>"
  let ?t' = "map (\<lambda>r. if cafe_requests_groupId r = grp then ?c r else r) ?t"
  let ?m = "m\<lparr>mo_node := mo_node m\<lparr>ns_cafe_requests := ?t'\<rparr>\<rparr>"
  have upd: "at_node (on_cafe_requests (cafe_requests_UpdateGroupStatus grp CafeRequest_COMPLETE)) m = (Inr (), ?m)"
    by (simp add: at_node_run on_cafe_requests_def go_on_def cafe_requests_UpdateGroupStatus_def sql_update_def go_modify_def)
  have sg: "sql_scalar cafe_requests_syncGroupId (\<lambda>x. cafe_requests_groupId x = grp) ?t'
      = sql_scalar cafe_requests_syncGroupId (\<lambda>x. cafe_requests_groupId x = grp) ?t"
    by (simp add: sql_scalar_def find_map_update map_option.compositionality comp_def if_distrib [of cafe_requests_syncGroupId])
  have "CompleteCafeRequest rq grp m = handleCafeRequestDone rq grp (cafeSyncGroupStatus grp ?m) ([], []) ?m"
    using assms by (simp add: CompleteCafeRequest_def started_def go_seq_step [where m = "at_node (on_cafe_requests (cafe_requests_UpdateGroupStatus grp CafeRequest_COMPLETE))", OF upd] go_bind_get)
  then have "mo_events (snd (CompleteCafeRequest rq grp m)) = mo_events m @
      [if sgs_NumComplete (SyncGroupStatus grp ?t') = sgs_NumTotal (SyncGroupStatus grp ?t')
       then SyncGroupCompleted (SyncGroupStatus grp ?t') else SyncGroupUpdate (SyncGroupStatus grp ?t')]"
    using done_events [of rq grp "cafeSyncGroupStatus grp ?m" ?m] by (simp add: cafeSyncGroupStatus_def)
  then show ?thesis
    unfolding sync_status_complete sg completed_rows by (rule exI)
qed

section \<open>Requests that are written\<close>

lemma distinct_by_subset: "set (distinct_by f rs) \<subseteq> set rs"
  by (induction rs) auto

lemma grouped_one:
  assumes "rs \<noteq> []" "\<forall>r\<in>set rs. f r = c"
  shows "grouped f rs = [(c, rs)]"
proof -
  obtain r rs' where rs: "rs = r # rs'" using assms(1) by (cases rs) auto
  have "filter (\<lambda>x. f x \<noteq> f r) (distinct_by f rs') = []"
    using assms(2) rs distinct_by_subset [of f rs'] by (auto simp: filter_empty_conv)
  then have "distinct_by f rs = [r]" using rs by simp
  moreover have "filter (\<lambda>x. f x = c) rs = rs" using assms(2) by (simp add: filter_id_conv)
  ultimately show ?thesis using assms(2) rs by (simp add: grouped_def)
qed

lemma session_of_run: "session_of c m = (Inr ses, m') \<longleftrightarrow> cafe_sessions_Get c (ns_cafe_sessions (mo_node m)) = Some ses \<and> m' = m"
  by (auto simp: session_of_def go_bind_get go_fail_def go_return_def split: option.splits)

lemma write_file_run: "write_file rq p body m = (Inr u, m') \<Longrightarrow> m' = m\<lparr>mo_files := (mo_files m)(p \<mapsto> body)\<rparr>"
  by (auto simp: write_file_def go_seq_Inr_iff go_lift_def go_modify_def)

lemma bearer_basic:
  assumes "CHR '' '' \<notin> set token"
  shows "bearer (''Basic '' @ token) = Some token"
proof -
  have "Split CHR '' '' (''Basic'' @ CHR '' '' # token) = ''Basic'' # Split CHR '' '' token"
    by (rule Split_append_sep) simp
  then show ?thesis using assms by (simp add: bearer_def Let_def Split_no_sep)
qed

text \<open>What the body of a request has to hold: for objects to store one part for each, under its id and
  with its data (of a directory its node), for a thread the encrypted thread, for a message the
  stored envelope, and for a removal a word that stands for nothing.\<close>

definition store_data :: "request_env \<Rightarrow> CafeRequest \<Rightarrow> string \<times> bytes \<Rightarrow> bool" where
  "store_data rq req part \<longleftrightarrow> fst part = req_Target req
     \<and> (w_dataAt (mv_world (rq_env rq)) (req_Target req) = Inr (snd part)
        \<or> w_dataAt (mv_world (rq_env rq)) (req_Target req) = Inl (rq_isDir rq)
          \<and> w_objectAt (mv_world (rq_env rq)) (req_Target req) = Inr (snd part))"

definition body_of :: "request_env \<Rightarrow> CafeRequest list \<Rightarrow> node_state \<Rightarrow> bytes \<Rightarrow> bool" where
  "body_of rq reqs s body \<longleftrightarrow>
     (case req_Type (hd reqs) of
        CafeRequest_STORE \<Rightarrow> \<exists>parts. list_all2 (store_data rq) reqs parts \<and> body = fst (rq_multipart rq parts)
      | CafeRequest_STORE_THREAD \<Rightarrow>
          \<exists>thrd. threads_Get (req_Target (hd reqs)) (ns_threads s) = Some thrd
            \<and> ca_encryptThread (an_cafe (mv_api (rq_env rq))) thrd = Inr body
      | CafeRequest_INBOX \<Rightarrow> w_dataAt (mv_world (rq_env rq)) (req_Target (hd reqs)) = Inr body
      | CafeRequest_UNSTORE \<Rightarrow> body = ascii ''noop''
      | CafeRequest_UNSTORE_THREAD \<Rightarrow> body = ascii ''noop''
      | RequestType_Other _ \<Rightarrow> body = [])"

text \<open>What a written request has.\<close>

definition sendable ::
  "request_env \<Rightarrow> CafeRequest list \<Rightarrow> string \<Rightarrow> mobile \<Rightarrow> CafeHTTPRequest \<Rightarrow> mobile \<Rightarrow> bool" where
  "sendable rq reqs c m h m' \<longleftrightarrow>
     (\<exists>body. mo_files m' (hr_Path h) = Some body \<and> body_of rq reqs (mo_node m) body)
     \<and> (hr_Type h = HTTP_POST \<or> (\<exists>ses. cafe_sessions_Get c (ns_cafe_sessions (mo_node m)) = Some ses
          \<and> map_of (hr_Headers h) ''Authorization'' = Some (''Basic '' @ ses_Access ses)))"

lemma store_part_data: "store_part rq req = Inr part \<Longrightarrow> store_data rq req part"
  by (auto simp: store_part_def store_data_def Let_def split: sum.splits if_splits)

lemma store_parts: "each_view (store_part rq) reqs = Inr parts \<Longrightarrow> list_all2 (store_data rq) reqs parts"
proof (induction reqs arbitrary: parts)
  case (Cons r reqs)
  then obtain p ps where "store_part rq r = Inr p" "each_view (store_part rq) reqs = Inr ps" "parts = p # ps"
    by (auto split: sum.splits)
  with Cons.IH store_part_data show ?case by simp
qed simp

lemma write_store_sendable:
  assumes "write_store rq grp c reqs m = (Inr h, m')" "req_Type (hd reqs) = CafeRequest_STORE"
  shows "sendable rq reqs c m h m'"
proof -
  let ?p = "request_path rq grp"
  obtain ses parts where ses: "cafe_sessions_Get c (ns_cafe_sessions (mo_node m)) = Some ses"
    and parts: "each_view (store_part rq) reqs = Inr parts"
    and r: "(case rq_multipart rq parts of (body, ctype) \<Rightarrow>
        go_seq (write_file rq ?p body) (go_return \<lparr>hr_Type = HTTP_PUT, hr_Url = api_url (ses_Cafe ses) @ ''/store'',
          hr_Headers = [basic_auth ses, (''Content-Type'', ctype)], hr_Path = ?p\<rparr>))
        (m\<lparr>mo_files := (mo_files m)(?p \<mapsto> [])\<rparr>) = (Inr h, m')"
    using assms(1) unfolding write_store_def Let_def go_bind_Inr_iff session_of_run go_seq_Inr_iff
    by (auto simp: go_lift_def dest!: write_file_run)
  obtain body ctype where b: "rq_multipart rq parts = (body, ctype)" by fastforce
  then have "body_of rq reqs (mo_node m) body"
    using store_parts [OF parts] assms(2) by (auto simp: body_of_def intro!: exI [of _ parts])
  then show ?thesis using r b ses
    by (auto simp: go_seq_Inr_iff go_return_def sendable_def basic_auth_def dest!: write_file_run)
qed

lemma at_node_files: "at_node n m = (r, m') \<Longrightarrow> mo_files m' = mo_files m"
  by (auto simp: at_node_run split: prod.splits)

lemma unpin_files: "go_when b (go_bind (go_lift x) (\<lambda>cid. at_node (UnpinNode w cid False))) m = (Inr u, m')
    \<Longrightarrow> mo_files m' = mo_files m"
  by (auto simp: go_when_def go_bind_Inr_iff go_lift_def go_return_def split: if_splits dest: at_node_files)

lemma inbox_is_posted:
  "single_request rq req s = Inr (meth, rest, body) \<Longrightarrow> req_Type req = CafeRequest_INBOX \<Longrightarrow> meth = HTTP_POST
     \<and> rest = ''/inbox/'' @ w_self (mv_world (rq_env rq)) @ ''/'' @ req_Peer req"
  by (auto simp: single_request_def Let_def split: sum.splits)

lemma write_single_cases:
  assumes "write_single rq grp c req m = (Inr h, m')"
  obtains meth rest body auth m1 where "single_request rq req (mo_node m) = Inr (meth, rest, body)"
    "h = \<lparr>hr_Type = meth, hr_Url = api_url (req_Cafe req) @ rest,
       hr_Headers = (''Content-Type'', ''application/octet-stream'') # auth, hr_Path = request_path rq grp\<rparr>"
    "mo_files m' = (mo_files m)(request_path rq grp \<mapsto> body)"
    "req_Type req \<noteq> CafeRequest_INBOX \<Longrightarrow> \<exists>ses. cafe_sessions_Get c (ns_cafe_sessions (mo_node m)) = Some ses
       \<and> auth = [basic_auth ses]"
proof -
  let ?p = "request_path rq grp" and ?i = "req_Type req = CafeRequest_INBOX"
  obtain meth rest body where sr: "single_request rq req (mo_node m) = Inr (meth, rest, body)"
    and r: "go_bind (if ?i then go_return [] else go_bind (session_of c) (\<lambda>session. go_return [basic_auth session])) (\<lambda>auth.
       go_seq (write_file rq ?p body)
      (go_seq (go_when ?i (go_bind (go_lift (w_parseCid (mv_world (rq_env rq)) (req_Target req)))
          (\<lambda>cid. at_node (UnpinNode (mv_world (rq_env rq)) cid False))))
         (go_return \<lparr>hr_Type = meth, hr_Url = api_url (req_Cafe req) @ rest,
            hr_Headers = (''Content-Type'', ''application/octet-stream'') # auth, hr_Path = ?p\<rparr>))) m = (Inr h, m')"
    using assms unfolding write_single_def Let_def go_bind_get go_bind_Inr_iff
    by (auto simp: go_lift_def go_bind_Inr_iff)
  obtain auth where au: "?i \<and> auth = [] \<or> \<not> ?i \<and> (\<exists>ses. cafe_sessions_Get c (ns_cafe_sessions (mo_node m)) = Some ses
        \<and> auth = [basic_auth ses])"
    and w: "go_seq (write_file rq ?p body)
      (go_seq (go_when ?i (go_bind (go_lift (w_parseCid (mv_world (rq_env rq)) (req_Target req)))
          (\<lambda>cid. at_node (UnpinNode (mv_world (rq_env rq)) cid False))))
         (go_return \<lparr>hr_Type = meth, hr_Url = api_url (req_Cafe req) @ rest,
            hr_Headers = (''Content-Type'', ''application/octet-stream'') # auth, hr_Path = ?p\<rparr>)) m = (Inr h, m')"
    using r by (cases ?i) (auto simp: go_bind_Inr_iff session_of_run go_return_def)
  show ?thesis
    using w sr au
    by (intro that [of meth rest body auth]) (auto simp: go_seq_Inr_iff go_return_def dest!: write_file_run unpin_files)
qed

lemma single_request_body:
  assumes "single_request rq req s = Inr (meth, rest, body)" "req_Type req \<noteq> CafeRequest_STORE"
  shows "body_of rq [req] s body"
  using assms by (cases "req_Type req") (auto simp: single_request_def body_of_def Let_def split: option.splits sum.splits)

lemma write_single_sendable:
  assumes "write_single rq grp c req m = (Inr h, m')" "req_Type req \<noteq> CafeRequest_STORE"
  shows "sendable rq [req] c m h m'"
  using assms(1) by (rule write_single_cases)
    (cases "req_Type req = CafeRequest_INBOX",
      use assms(2) single_request_body in \<open>auto simp: sendable_def basic_auth_def dest: inbox_is_posted\<close>)

text \<open>C31. A request that is written for one cafe can be sent. The file it names holds its body: for objects
  to store a form with a part for each of them, under its id and with its data, for a thread the
  encrypted thread, for a message the stored envelope. And unless it is a message for an inbox its
  header gives the host the token of the session with this cafe.\<close>

theorem written_request_can_be_sent:
  assumes "writeCafeRequest rq grp m = (Inr h, m')"
    and "\<forall>r\<in>set (cafe_requests_GetGroup grp (ns_cafe_requests (mo_node m))). request_cafe r = c"
    and "\<forall>ses. cafe_sessions_Get c (ns_cafe_sessions (mo_node m)) = Some ses \<longrightarrow> CHR '' '' \<notin> set (ses_Access ses)"
  shows "(\<exists>body. mo_files m' (hr_Path h) = Some body
      \<and> body_of rq (cafe_requests_GetGroup grp (ns_cafe_requests (mo_node m))) (mo_node m) body)
    \<and> (hr_Type h = HTTP_POST
       \<or> (\<exists>ses header. cafe_sessions_Get c (ns_cafe_sessions (mo_node m)) = Some ses
         \<and> map_of (hr_Headers h) ''Authorization'' = Some header \<and> bearer header = Some (ses_Access ses)))"
proof -
  let ?rs = "cafe_requests_GetGroup grp (ns_cafe_requests (mo_node m))"
  have ne: "?rs \<noteq> []" and w: "write_cafes rq grp (grouped request_cafe ?rs) None m = (Inr (Some h), m')"
    using assms(1) by (auto simp: writeCafeRequest_def started_def go_seq_Inr_iff go_bind_Inr_iff go_get_def go_lift_def
        go_fail_def go_return_def split: if_splits option.splits)
  have one: "?rs = [hd ?rs]" if "\<not> length ?rs > 1" using that ne by (cases ?rs) auto
  have "sendable rq ?rs c m h m'"
  proof (cases "req_Type (hd ?rs) = CafeRequest_STORE")
    case True
    then show ?thesis
      using w unfolding grouped_one [OF ne assms(2)]
      by (auto simp: go_bind_Inr_iff go_seq_Inr_iff go_return_def split: if_splits intro: write_store_sendable)
  next
    case False
    then have "\<not> length ?rs > 1 \<and> write_single rq grp c (hd ?rs) m = (Inr h, m')"
      using w unfolding grouped_one [OF ne assms(2)]
      by (auto simp: go_bind_Inr_iff go_seq_Inr_iff go_return_def split: if_splits)
    then show ?thesis using write_single_sendable False one by metis
  qed
  then show ?thesis using assms(3) bearer_basic by (fastforce simp: sendable_def)
qed

section \<open>Messages for several inboxes\<close>

lemma grouped_distinct:
  assumes "distinct (map f rs)"
  shows "grouped f rs = map (\<lambda>r. (f r, [r])) rs"
proof -
  have "distinct_by f rs = rs"
    using assms by (induction rs) (auto simp: filter_id_conv image_iff)
  moreover have "filter (\<lambda>x. f x = f r) rs = [r]" if "r \<in> set rs" for r
    using assms that by (induction rs) (force simp: filter_empty_conv image_iff)+
  ultimately show ?thesis by (simp add: grouped_def)
qed

lemma write_inboxes:
  assumes "rs \<noteq> []" "\<forall>r\<in>set rs. req_Type r = CafeRequest_INBOX"
    "write_cafes rq grp (map (\<lambda>r. (f r, [r])) rs) hq m = (Inr (Some h), m')"
  shows "\<exists>r\<in>set rs. hr_Url h = api_url (req_Cafe r) @ ''/inbox/'' @ w_self (mv_world (rq_env rq)) @ ''/'' @ req_Peer r"
  using assms
proof (induction rs arbitrary: hq m)
  case (Cons r rs)
  have "grouped req_Type [r] = [(req_Type r, [r])]" by (simp add: grouped_def)
  then obtain h1 m1 where h1: "write_single rq grp (f r) r m = (Inr h1, m1)"
    and rest: "write_cafes rq grp (map (\<lambda>r. (f r, [r])) rs) (Some h1) m1 = (Inr (Some h), m')"
    using Cons.prems by (auto simp: go_bind_Inr_iff)
  show ?case
  proof (cases "rs = []")
    case True
    then have "h = h1" using rest by (simp add: go_return_def)
    then show ?thesis using True h1 Cons.prems(2) by (auto elim!: write_single_cases dest!: inbox_is_posted)
  next
    case False
    then show ?thesis using Cons.IH [OF False _ rest] Cons.prems(2) by simp
  qed
qed simp

text \<open>A message for a peer with several inboxes has one group with a request for each; the app is given the
  request for one of them alone, and what it reports of this one is written to all of the group.\<close>

lemma message_for_several_inboxes_reaches_one:
  assumes "writeCafeRequest rq grp m = (Inr h, m')"
    and "rs = cafe_requests_GetGroup grp (ns_cafe_requests (mo_node m))"
    and "\<forall>r\<in>set rs. req_Type r = CafeRequest_INBOX" "distinct (map request_cafe rs)"
  shows "\<exists>r\<in>set rs. hr_Url h = cafe_Url (req_Cafe r) @ ''/api/v1/inbox/'' @ w_self (mv_world (rq_env rq)) @ ''/'' @ req_Peer r"
proof -
  have ne: "rs \<noteq> []" and w: "write_cafes rq grp (grouped request_cafe rs) None m = (Inr (Some h), m')"
    using assms(1,2) by (auto simp: writeCafeRequest_def started_def go_seq_Inr_iff go_bind_Inr_iff go_get_def go_lift_def
        go_fail_def go_return_def split: if_splits option.splits)
  show ?thesis
    using write_inboxes [OF ne assms(3) w [unfolded grouped_distinct [OF assms(4)]]] by (simp add: api_url_def)
qed

section \<open>Samples\<close>

definition sample_phone :: mobile_env where
  "sample_phone = \<lparr>mv_api = sample_api, mv_flush = go_return (), mv_started = True, mv_online = True,
     mv_mill = \<lparr>me_detect = (\<lambda>_. ''text/plain''), me_parsePath = Inr\<rparr>, mv_resize = (\<lambda>_ _. undefined), mv_exif = undefined,
     mv_openFile = (\<lambda>p. Inr ([1], p)), mv_base64 = (\<lambda>_. Inr [1]), mv_notFound = ErrMsg ''not found'',
     mv_order = (\<lambda>_ ls. ls), mv_width = (\<lambda>_. Some 1)\<rparr>"

definition sample_requests :: request_env where
  "sample_requests = \<lparr>rq_env = sample_phone, rq_repo = ''repo'', rq_mkdir = Inr (), rq_create = (\<lambda>_. Inr ()),
     rq_isDir = ErrMsg ''directory'', rq_multipart = (\<lambda>parts. (concat (map snd parts), ''multipart''))\<rparr>"

definition sample_mobile :: "cafe_requests_row list \<Rightarrow> mobile" where
  "sample_mobile rs = \<lparr>mo_node = sample_unstore_state\<lparr>ns_cafe_requests := rs\<rparr>, mo_files = Map.empty, mo_events = []\<rparr>"

text \<open>Two groups have to be complete together: after the first the app is told the counts.\<close>

theorem completion_is_told_iff_nothing_is_left_witness:
  "\<exists>status. mo_events (snd (CompleteCafeRequest sample_requests ''g''
      (sample_mobile [sample_request\<lparr>cafe_requests_status := 0\<rparr>,
         sample_request\<lparr>cafe_requests_id := ''r2'', cafe_requests_groupId := ''g2'', cafe_requests_status := 0\<rparr>])))
    = [SyncGroupUpdate status]"
proof -
  have "mv_started (rq_env sample_requests)" by (simp add: sample_requests_def sample_phone_def)
  from completion_is_told_iff_nothing_is_left [OF this, of "''g''" "sample_mobile [sample_request\<lparr>cafe_requests_status := 0\<rparr>,
         sample_request\<lparr>cafe_requests_id := ''r2'', cafe_requests_groupId := ''g2'', cafe_requests_status := 0\<rparr>]"]
  show ?thesis by (simp add: sample_mobile_def sample_request_def sql_scalar_def)
qed

text \<open>A request to the cafe to unstore an object, with the session there.\<close>

definition sample_removal :: cafe_requests_row where
  "sample_removal = sample_request\<lparr>cafe_requests_type := 3, cafe_requests_cafe := sample_info,
     cafe_requests_cafeId := ''C''\<rparr>"

lemma removal_is_written:
  assumes "cafe_requests_GetGroup ''g'' (ns_cafe_requests (mo_node m)) = [r]" "req_Type r = CafeRequest_UNSTORE"
    "request_cafe r = ''C''" "cafe_sessions_Get ''C'' (ns_cafe_sessions (mo_node m)) = Some ses"
  shows "\<exists>h m'. writeCafeRequest sample_requests ''g'' m = (Inr h, m') \<and> hr_Type h = HTTP_DELETE"
  using assms
  by (simp add: writeCafeRequest_def started_def sample_requests_def sample_phone_def go_seq_def go_lift_def
      go_bind_def go_get_def go_return_def grouped_def write_single_def single_request_def session_of_def write_file_def
      go_modify_def go_when_def Let_def)

theorem written_request_can_be_sent_witness:
  "\<exists>h m'. writeCafeRequest sample_requests ''g'' (sample_mobile [sample_removal]) = (Inr h, m')
     \<and> mo_files m' (hr_Path h) = Some (ascii ''noop'')
     \<and> (\<exists>header. map_of (hr_Headers h) ''Authorization'' = Some header \<and> bearer header = Some ''t'')"
proof -
  let ?m = "sample_mobile [sample_removal]"
  obtain ses where s: "cafe_sessions_Get ''C'' (ns_cafe_sessions (mo_node ?m)) = Some ses" "ses_Access ses = ''t''"
    by (simp add: sample_mobile_def sample_unstore_state_def sample_session_def cafe_sessions_Get_def
      cafe_sessions_AddOrUpdate_def cafe_sessions_enc_def cafe_sessions_dec_def sql_defs go_defs)
  have g: "cafe_requests_GetGroup ''g'' (ns_cafe_requests (mo_node ?m)) = [cafe_requests_dec sample_removal]"
    by (simp add: sample_mobile_def cafe_requests_GetGroup_def sql_select_def sample_removal_def sample_request_def)
  have r: "req_Type (cafe_requests_dec sample_removal) = CafeRequest_UNSTORE"
    "request_cafe (cafe_requests_dec sample_removal) = ''C''"
    by (simp_all add: request_cafe_def cafe_requests_dec_def RequestType_of_int_def sample_removal_def sample_info_def)
  obtain h m' where w: "writeCafeRequest sample_requests ''g'' ?m = (Inr h, m')" "hr_Type h = HTTP_DELETE"
    using removal_is_written [OF g r s(1)] by blast
  have c: "\<forall>r\<in>set (cafe_requests_GetGroup ''g'' (ns_cafe_requests (mo_node ?m))). request_cafe r = ''C''"
    using g r(2) by simp
  have "\<forall>x. cafe_sessions_Get ''C'' (ns_cafe_sessions (mo_node ?m)) = Some x \<longrightarrow> CHR '' '' \<notin> set (ses_Access x)"
    using s by simp
  from written_request_can_be_sent [OF w(1) c this] obtain body header where
    "mo_files m' (hr_Path h) = Some body" "body_of sample_requests [cafe_requests_dec sample_removal] (mo_node ?m) body"
    "map_of (hr_Headers h) ''Authorization'' = Some header" "bearer header = Some ''t''"
    using w(2) s unfolding g by auto
  moreover from this(2) have "body = ascii ''noop''" using r(1) by (simp add: body_of_def)
  ultimately show ?thesis using w(1) by auto
qed

end
