(* ===== verification/Gateway.thy ===== *)
theory Gateway
  imports NodeApiData
begin

text \<open>
  The gateway, \<^verbatim>\<open>gateway/gateway.go\<close>: data and directories behind addresses of IPFS and IPNS, decrypted when
  the request has a key, and the information about this cafe and its neighbor. A handler reads the
  network and gives an answer; what it renders with a template is a constructor with the values of the template.
\<close>

section \<open>Answers and requests\<close>

datatype byte_count = Bytes int | Scaled int int char

datatype gateway_answer =
    GwData bytes
  | GwIndex string string "(string \<times> (string \<times> string \<times> int) \<times> byte_count) list"
  | GwNotFound
  | GwMoved string
  | GwCafe Cafe
  | GwCafes Cafe "Cafe option"
  | GwRefused nat goerr
  | GwStatus nat
  | GwPanic goerr

record gateway =
  gw_node :: api_node
  gw_isDir :: goerr
  gw_parsePath :: "string \<Rightarrow> goerr + string"
  gw_links :: "string \<Rightarrow> goerr + (string \<times> string \<times> int) list"
  gw_decodePeer :: "string \<Rightarrow> goerr + string"
  gw_resolve :: "string \<Rightarrow> goerr + string"
  gw_open :: bool
  gw_neighborURL :: string
  gw_hostURL :: string
  gw_get :: "string \<Rightarrow> goerr + nat \<times> (goerr + Cafe)"

record gateway_request =
  gr_root :: string
  gr_path :: string
  gr_key :: "string option"
  gr_url :: string
  gr_location :: string

section \<open>Sizes\<close>

text \<open>The divisor and the exponent for what is left of a size; both grow as long as it has more than three digits.\<close>

function count_scale :: "int \<Rightarrow> int \<Rightarrow> nat \<Rightarrow> int \<times> nat" where
  "count_scale n d e = (if n < 1000 then (d, e) else count_scale (n div 1000) (d * 1000) (Suc e))"
  by pat_completeness auto
termination
  by (relation "measure (\<lambda>(n, d, e). nat n)") auto

declare count_scale.simps [simp del]

text \<open>The quotient that is printed with one digit and its unit.\<close>

definition byteCountDecimal :: "int \<Rightarrow> goerr + byte_count" where
  "byteCountDecimal b =
     (if b < 1000 then Inr (Bytes b)
      else let (d, e) = count_scale (b div 1000) 1000 0
           in if e < 6 then Inr (Scaled b d (''kMGTPE'' ! e)) else Inl (Panic ''index out of range''))"

section \<open>Pages\<close>

fun Contains :: "string \<Rightarrow> string \<Rightarrow> bool" where
  "Contains s sub = (take (length sub) s = sub \<or> (case s of [] \<Rightarrow> False | _ # t \<Rightarrow> Contains t sub))"

declare Contains.simps [simp del]

text \<open>The first occurrence is replaced.\<close>

fun ReplaceFirst :: "string \<Rightarrow> string \<Rightarrow> string \<Rightarrow> string" where
  "ReplaceFirst old new s =
     (if take (length old) s = old then new @ drop (length old) s
      else case s of [] \<Rightarrow> [] | c # t \<Rightarrow> c # ReplaceFirst old new t)"

declare ReplaceFirst.simps [simp del]

definition render404 :: "gateway \<Rightarrow> gateway_request \<Rightarrow> gateway_answer" where
  "render404 g rq =
     (if Contains (gr_url rq) ''small/content'' \<or> Contains (gr_url rq) ''large/content''
      then let url = (if gw_hostURL g \<noteq> [] then rev (dropWhile (\<lambda>c. c = CHR ''/'') (rev (gw_hostURL g)))
                      else gr_location rq)
           in GwMoved (url @ ReplaceFirst ''/content'' ''/d'' (gr_url rq))
      else GwNotFound)"

fun page_links ::
  "gateway \<Rightarrow> string \<Rightarrow> (string \<times> string \<times> int) list
   \<Rightarrow> goerr + (string \<times> (string \<times> string \<times> int) \<times> byte_count) list" where
  "page_links g pth [] = Inr []"
| "page_links g pth (l # ls) =
     (case gw_parsePath g (pth @ ''/'' @ fst l) of Inl err \<Rightarrow> Inl err
      | Inr ipath \<Rightarrow>
          (case byteCountDecimal (int64 (snd (snd l))) of Inl err \<Rightarrow> Inl err
           | Inr sz \<Rightarrow>
               (case page_links g pth ls of Inl err \<Rightarrow> Inl err | Inr links \<Rightarrow> Inr ((ipath, l, sz) # links))))"

text \<open>The path above a path; that of a root is itself.\<close>

definition back_path :: "string \<Rightarrow> string" where
  "back_path root =
     (let back = Join ''/'' (butlast (Split CHR ''/'' root))
      in if back = ''/ipfs'' \<or> back = ''/ipns'' then root else back)"

text \<open>Data, or the answer when there is none.\<close>

definition getDataAtPath :: "gateway \<Rightarrow> gateway_request \<Rightarrow> string \<Rightarrow> gateway_answer + bytes" where
  "getDataAtPath g rq pth =
     (let missing = (\<lambda>err. Inl (if is_panic err then GwPanic err else render404 g rq))
      in case w_dataAt (an_world (gw_node g)) pth of
           Inr data \<Rightarrow> Inr data
         | Inl err \<Rightarrow>
             if err = gw_isDir g
             then (case gw_parsePath g pth of Inl err \<Rightarrow> missing err
                   | Inr root \<Rightarrow>
                       (case gw_links g pth of Inl err \<Rightarrow> missing err
                        | Inr ilinks \<Rightarrow>
                            (case page_links g pth ilinks of Inl err \<Rightarrow> missing err
                             | Inr links \<Rightarrow> Inl (GwIndex root (back_path root) links))))
             else missing err)"

section \<open>Handlers\<close>

text \<open>What follows the last dot of the whole path is taken for an extension.\<close>

definition without_extension :: "string \<Rightarrow> string" where
  "without_extension contentPath =
     (let parts = SplitString contentPath CHR ''.''
      in if length parts > 1 then Join ''.'' (butlast parts) else contentPath)"

definition ipfsHandler :: "gateway \<Rightarrow> gateway_request \<Rightarrow> gateway_answer" where
  "ipfsHandler g rq =
     (case getDataAtPath g rq (without_extension (gr_root rq @ gr_path rq)) of
        Inl answer \<Rightarrow> answer
      | Inr data \<Rightarrow>
          (case gr_key rq of None \<Rightarrow> GwData data
           | Some key \<Rightarrow>
               (case fe_dec58 (an_files (gw_node g)) key of Inl err \<Rightarrow> render404 g rq
                | Inr keyb \<Rightarrow>
                    (case DecryptAES (fe_aes (an_files (gw_node g))) data keyb of
                       Inl err \<Rightarrow> if is_panic err then GwPanic err else render404 g rq
                     | Inr plain \<Rightarrow> GwData plain))))"

definition ipnsHandler :: "gateway \<Rightarrow> gateway_request \<Rightarrow> gateway_answer" where
  "ipnsHandler g rq =
     (let pathp = (if gr_path rq \<noteq> [] \<and> last (gr_path rq) = CHR ''/'' then butlast (gr_path rq) else gr_path rq)
      in case gw_decodePeer g (gr_root rq) of Inl err \<Rightarrow> render404 g rq
         | Inr rootId \<Rightarrow>
             (case gw_resolve g rootId of Inl err \<Rightarrow> render404 g rq
              | Inr pth \<Rightarrow>
                  (case getDataAtPath g rq (pth @ pathp) of Inl answer \<Rightarrow> answer | Inr data \<Rightarrow> GwData data)))"

definition cafeHandler :: "gateway \<Rightarrow> gateway_answer" where
  "cafeHandler g = (if \<not> gw_open g then GwStatus 403 else GwCafe (ca_info (an_cafe (gw_node g))))"

definition getCafeInfo :: "gateway \<Rightarrow> string \<Rightarrow> goerr + Cafe" where
  "getCafeInfo g addr =
     (case gw_get g addr of Inl err \<Rightarrow> Inl err
      | Inr (code, info) \<Rightarrow>
          if 400 \<le> code then Inl (ErrMsg (addr @ '' returned bad status: '' @ Itoa (int code))) else info)"

definition cafesHandler :: "gateway \<Rightarrow> gateway_answer" where
  "cafesHandler g =
     (if \<not> gw_open g then GwStatus 403
      else if gw_neighborURL g = [] then GwCafes (ca_info (an_cafe (gw_node g))) None
      else case getCafeInfo g (gw_neighborURL g) of
             Inl err \<Rightarrow> GwRefused 400 err
           | Inr secondary \<Rightarrow> GwCafes (ca_info (an_cafe (gw_node g))) (Some secondary))"

section \<open>What the gateway serves\<close>

lemma thousand_div:
  assumes "1000 \<le> (b :: int)"
  shows "0 < b div 1000 \<and> b div 1000 * 1000 \<le> b \<and> b + 1 \<le> (b div 1000 + 1) * 1000"
proof -
  have "0 < q \<and> q * 1000 \<le> b \<and> b + 1 \<le> (q + 1) * 1000" if "b = q * 1000 + r" "0 \<le> r" "r < 1000" for q r
    using that assms by auto
  from this [OF div_mult_mod_eq [symmetric]] show ?thesis by simp
qed

lemma count_scale_bounds:
  assumes "0 < n" "n * d \<le> b" "b < (n + 1) * d" "0 < d"
  shows "case count_scale n d e of (d', e') \<Rightarrow> \<exists>k. e' = e + k \<and> d' = d * 1000 ^ k \<and> d' \<le> b \<and> b < 1000 * d'"
  using assms
proof (induction n d e rule: count_scale.induct)
  case (1 n d e)
  show ?case
  proof (cases "n < 1000")
    case True
    have "1 * d \<le> n * d" using "1.prems"(1,4) by (intro mult_right_mono) auto
    moreover have "(n + 1) * d \<le> 1000 * d" using True "1.prems"(4) by (intro mult_right_mono) auto
    ultimately have "d \<le> b \<and> b < 1000 * d" using "1.prems"(2,3) by linarith
    then show ?thesis using True by (subst count_scale.simps) (auto intro!: exI [where x = 0])
  next
    case False
    let ?n = "n div 1000"
    have pos: "0 < ?n" and n: "?n * 1000 \<le> n" "n + 1 \<le> (?n + 1) * 1000" using thousand_div [of n] False by simp_all
    have "?n * (d * 1000) \<le> n * d" "(n + 1) * d \<le> (?n + 1) * (d * 1000)"
      using mult_right_mono [OF n(1), of d] mult_right_mono [OF n(2), of d] "1.prems"(4) by (simp_all add: algebra_simps)
    note a = this
    have "case count_scale ?n (d * 1000) (Suc e) of (d', e') \<Rightarrow>
        \<exists>k. e' = Suc e + k \<and> d' = d * 1000 * 1000 ^ k \<and> d' \<le> b \<and> b < 1000 * d'"
      using "1.IH" [OF False pos order_trans [OF a(1) "1.prems"(2)] less_le_trans [OF "1.prems"(3) a(2)]] "1.prems"(4) by simp
    then obtain k where "count_scale ?n (d * 1000) (Suc e) = (d * 1000 ^ Suc k, e + Suc k)"
      "d * 1000 ^ Suc k \<le> b" "b < 1000 * (d * 1000 ^ Suc k)" by (auto simp: mult.assoc)
    moreover have "count_scale n d e = count_scale ?n (d * 1000) (Suc e)" using False by (subst count_scale.simps) simp
    ultimately show ?thesis by (simp only: prod.case) blast
  qed
qed

text \<open>Every size of 64 bits has a unit: it is divided by the power of thousand that leaves one to three digits,
  and the power never runs out of the units or of 64 bits.\<close>

lemma sizes_have_a_unit:
  assumes "is_int64 b"
  shows "byteCountDecimal b = Inr (Bytes b) \<and> b < 1000
    \<or> (\<exists>e < 6. byteCountDecimal b = Inr (Scaled b (1000 ^ Suc e) (''kMGTPE'' ! e))
        \<and> 1000 ^ Suc e \<le> b \<and> b < 1000 * 1000 ^ Suc e)"
proof (cases "b < 1000")
  case False
  obtain d e where s: "count_scale (b div 1000) 1000 0 = (d, e)" by fastforce
  have "(b div 1000) * 1000 \<le> b" "b < (b div 1000 + 1) * 1000" "0 < b div 1000" using thousand_div [of b] False by auto
  from count_scale_bounds [OF this(3,1,2), of 0] have d: "d = 1000 ^ Suc e" "d \<le> b" "b < 1000 * d"
    by (auto simp: s)
  have "e < 6"
  proof (rule ccontr)
    assume "\<not> e < 6"
    then have "(1000 :: int) ^ 7 \<le> d" unfolding d(1) by (intro power_increasing) auto
    then show False using assms d(2) by (simp add: is_int64_def)
  qed
  then show ?thesis using s d False by (intro disjI2 exI [where x = e]) (simp add: byteCountDecimal_def)
qed (simp add: byteCountDecimal_def)

lemma no_answer_is_data: "getDataAtPath g rq p = Inl a \<Longrightarrow> a \<noteq> GwData d"
  by (auto simp: getDataAtPath_def render404_def Let_def split: sum.splits if_splits)

lemma getDataAtPath_data: "getDataAtPath g rq p = Inr data \<longleftrightarrow> w_dataAt (an_world (gw_node g)) p = Inr data"
  by (auto simp: getDataAtPath_def Let_def split: sum.splits if_splits)

lemma without_extension_plain: "CHR ''.'' \<notin> set p \<Longrightarrow> without_extension p = p"
  by (simp add: without_extension_def SplitString_def Split_no_sep Let_def)

text \<open>The gateway serves for the hash and the key of a file exactly the content that the node itself reads.\<close>

lemma gateway_serves_what_the_node_reads:
  assumes "CHR ''.'' \<notin> set (file_Hash f)" "gr_root rq = file_Hash f" "gr_path rq = []"
    and "gr_key rq = (if file_Key f = [] then None else Some (file_Key f))"
  shows "ipfsHandler g rq = GwData d
    \<longleftrightarrow> FileIndexContent (an_files (gw_node g)) (an_world (gw_node g)) f = Inr d"
proof (cases "getDataAtPath g rq (file_Hash f)")
  case (Inl a)
  then have "\<not> (\<exists>x. w_dataAt (an_world (gw_node g)) (file_Hash f) = Inr x)"
    using getDataAtPath_data [of g rq "file_Hash f"] by auto
  then show ?thesis
    using Inl no_answer_is_data [OF Inl] assms
    by (auto simp: ipfsHandler_def FileIndexContent_def without_extension_plain split: sum.splits)
next
  case (Inr data)
  then show ?thesis
    using assms getDataAtPath_data [of g rq "file_Hash f" data]
    by (auto simp: ipfsHandler_def FileIndexContent_def without_extension_plain render404_def Let_def
        split: sum.splits if_splits)
qed

text \<open>A dot in the name of a directory cuts the path there, so what is behind it cannot be reached.\<close>

lemma dot_in_a_directory_cuts_the_path:
  "without_extension ''Qm/v1.0/photo'' = ''Qm/v1''"
  by (simp add: without_extension_def SplitString_def Let_def TrimSpace_def is_space_def)

end
