(* ===== verification/Broadcast.thy ===== *)
theory Broadcast
  imports TextilePrelude
begin

text \<open>
  The broadcaster, \<^verbatim>\<open>broadcast/broadcast.go\<close>, with the goroutines that use it: listeners that read in a loop
  and leave, as those of \<^verbatim>\<open>core/cafe_service.go\<close> (searchPubSub) and \<^verbatim>\<open>core/threads_service.go\<close> (the wait for
  an acknowledgement) do, and senders. An operation holds the lock of the broadcaster; a send holds it while
  it waits for room in the buffer of each listener, so it is a sequence of steps, in any order of the listeners.
\<close>

section \<open>Operations\<close>

record 'a channel =
  ch_buffer :: "'a list"
  ch_closed :: bool

record 'a broadcaster =
  bc_listeners :: "(nat \<times> nat) list"
  bc_nextID :: nat
  bc_capacity :: nat
  bc_closed :: bool
  bc_channels :: "'a channel list"
  bc_sending :: "('a \<times> nat list) option"

definition NewBroadcaster :: "nat \<Rightarrow> 'a broadcaster" where
  "NewBroadcaster n = \<lparr>bc_listeners = [], bc_nextID = 0, bc_capacity = n, bc_closed = False, bc_channels = [],
     bc_sending = None\<rparr>"

text \<open>The first id from \<open>n\<close> on that has no listener.\<close>

definition free_id :: "(nat \<times> nat) list \<Rightarrow> nat \<Rightarrow> nat" where
  "free_id ls n = hd (filter (\<lambda>k. k \<notin> fst ` set ls) [n..<Suc (n + length ls)])"

definition Broadcaster_Listen :: "'a broadcaster \<Rightarrow> (nat \<times> nat) \<times> 'a broadcaster" where
  "Broadcaster_Listen b =
     (let l = (free_id (bc_listeners b) (bc_nextID b), length (bc_channels b))
      in (l, b\<lparr>bc_listeners := l # bc_listeners b, bc_nextID := fst l,
               bc_channels := bc_channels b @ [\<lparr>ch_buffer = [], ch_closed = bc_closed b\<rparr>]\<rparr>))"

definition Listener_Close :: "nat \<Rightarrow> 'a broadcaster \<Rightarrow> 'a broadcaster" where
  "Listener_Close i b = b\<lparr>bc_listeners := filter (\<lambda>l. fst l \<noteq> i) (bc_listeners b)\<rparr>"

definition close_channels :: "nat list \<Rightarrow> 'a channel list \<Rightarrow> 'a channel list" where
  "close_channels cs chs = map (\<lambda>(k, c). if k \<in> set cs then c\<lparr>ch_closed := True\<rparr> else c) (zip [0..<length chs] chs)"

text \<open>A channel that is closed twice panics.\<close>

definition Broadcaster_Close :: "'a broadcaster \<Rightarrow> goerr + 'a broadcaster" where
  "Broadcaster_Close b =
     (if bc_closed b then Inr b
      else let cs = map snd (bc_listeners b)
           in if \<exists>c\<in>set cs. ch_closed (bc_channels b ! c) then Inl (Panic ''close of closed channel'')
              else Inr (b\<lparr>bc_closed := True, bc_channels := close_channels cs (bc_channels b)\<rparr>))"

definition Broadcaster_Send :: "'a \<Rightarrow> 'a broadcaster \<Rightarrow> 'a broadcaster" where
  "Broadcaster_Send v b = (if bc_closed b then b else b\<lparr>bc_sending := Some (v, map snd (bc_listeners b))\<rparr>)"

text \<open>One listener of a send: a closed channel panics, and \<open>Inr None\<close> stands for a full buffer.\<close>

definition put_channel :: "'a \<Rightarrow> nat \<Rightarrow> 'a broadcaster \<Rightarrow> goerr + 'a broadcaster option" where
  "put_channel v c b =
     (let ch = bc_channels b ! c
      in if ch_closed ch then Inl (Panic ''send on closed channel'')
         else if bc_capacity b \<le> length (ch_buffer ch) then Inr None
         else Inr (Some (b\<lparr>bc_channels := (bc_channels b)[c := ch\<lparr>ch_buffer := ch_buffer ch @ [v]\<rparr>]\<rparr>)))"

section \<open>Goroutines\<close>

text \<open>
  A listener reads in its loop, has left the loop to close itself, or is closed. A timer closes a listener that
  reads on. Without a buffer a send hands its value to a listener that reads.
\<close>

datatype place = Loops | Leaves | Gone

record 'a room =
  rm_bc :: "'a broadcaster"
  rm_users :: "(nat \<times> nat \<times> place) list"

definition free_lock :: "'a room \<Rightarrow> bool" where
  "free_lock r \<longleftrightarrow> bc_sending (rm_bc r) = None"

inductive room_step :: "'a room \<Rightarrow> 'a room \<Rightarrow> bool" where
  joins: "\<lbrakk>free_lock r; Broadcaster_Listen (rm_bc r) = ((i, c), b)\<rbrakk>
    \<Longrightarrow> room_step r (r\<lparr>rm_bc := b, rm_users := rm_users r @ [(i, c, Loops)]\<rparr>)"
| sends: "free_lock r \<Longrightarrow> room_step r (r\<lparr>rm_bc := Broadcaster_Send v (rm_bc r)\<rparr>)"
| puts: "\<lbrakk>bc_sending (rm_bc r) = Some (v, cs); c \<in> set cs; put_channel v c (rm_bc r) = Inr (Some b)\<rbrakk>
    \<Longrightarrow> room_step r (r\<lparr>rm_bc := b\<lparr>bc_sending := Some (v, remove1 c cs)\<rparr>\<rparr>)"
| hands: "\<lbrakk>bc_sending (rm_bc r) = Some (v, cs); c \<in> set cs; bc_capacity (rm_bc r) = 0;
      k < length (rm_users r); rm_users r ! k = (i, c, Loops); put_channel v c (rm_bc r) = Inr None\<rbrakk>
    \<Longrightarrow> room_step r (r\<lparr>rm_bc := (rm_bc r)\<lparr>bc_sending := Some (v, remove1 c cs)\<rparr>\<rparr>)"
| sent: "bc_sending (rm_bc r) = Some (v, []) \<Longrightarrow> room_step r (r\<lparr>rm_bc := (rm_bc r)\<lparr>bc_sending := None\<rparr>\<rparr>)"
| shuts: "\<lbrakk>free_lock r; Broadcaster_Close (rm_bc r) = Inr b\<rbrakk> \<Longrightarrow> room_step r (r\<lparr>rm_bc := b\<rparr>)"
| reads: "\<lbrakk>k < length (rm_users r); rm_users r ! k = (i, c, Loops); ch_buffer (bc_channels (rm_bc r) ! c) = v # vs\<rbrakk>
    \<Longrightarrow> room_step r (r\<lparr>rm_bc := (rm_bc r)\<lparr>bc_channels := (bc_channels (rm_bc r))
          [c := (bc_channels (rm_bc r) ! c)\<lparr>ch_buffer := vs\<rparr>]\<rparr>\<rparr>)"
| ends_loop: "\<lbrakk>k < length (rm_users r); rm_users r ! k = (i, c, Loops)\<rbrakk>
    \<Longrightarrow> room_step r (r\<lparr>rm_users := (rm_users r)[k := (i, c, Leaves)]\<rparr>)"
| leaves: "\<lbrakk>free_lock r; k < length (rm_users r); rm_users r ! k = (i, c, pl); pl \<noteq> Gone\<rbrakk>
    \<Longrightarrow> room_step r (r\<lparr>rm_bc := Listener_Close i (rm_bc r), rm_users := (rm_users r)[k := (i, c, Gone)]\<rparr>)"

definition empty_room :: "nat \<Rightarrow> 'a room" where
  "empty_room n = \<lparr>rm_bc = NewBroadcaster n, rm_users = []\<rparr>"

section \<open>No panics\<close>

text \<open>The channels of the listeners are closed with the broadcaster, and a send goes to open ones.\<close>

definition room_ok :: "'a room \<Rightarrow> bool" where
  "room_ok r \<longleftrightarrow> (let b = rm_bc r in
     (\<forall>i c. (i, c) \<in> set (bc_listeners b) \<longrightarrow> c < length (bc_channels b) \<and> ch_closed (bc_channels b ! c) = bc_closed b)
     \<and> (case bc_sending b of None \<Rightarrow> True | Some (v, cs) \<Rightarrow> \<not> bc_closed b \<and> set cs \<subseteq> snd ` set (bc_listeners b)))"

lemma nth_close_channels: "c < length chs \<Longrightarrow> close_channels cs chs ! c = (if c \<in> set cs then (chs ! c)\<lparr>ch_closed := True\<rparr> else chs ! c)"
  by (simp add: close_channels_def)

lemma length_close_channels [simp]: "length (close_channels cs chs) = length chs"
  by (simp add: close_channels_def)

lemma ok_closed: "room_ok r \<Longrightarrow> (i, c) \<in> set (bc_listeners (rm_bc r)) \<Longrightarrow> c < length (bc_channels (rm_bc r))
    \<and> ch_closed (bc_channels (rm_bc r) ! c) = bc_closed (rm_bc r)"
  by (force simp: room_ok_def Let_def)

lemma closed_update: "c < length chs \<Longrightarrow> ch_closed x = ch_closed (chs ! c) \<Longrightarrow> ch_closed (chs[c := x] ! d) = ch_closed (chs ! d)"
  by (cases "d = c") auto

lemma closed_update_any: "ch_closed x = ch_closed (chs ! c) \<Longrightarrow> ch_closed (chs[c := x] ! d) = ch_closed (chs ! d)"
  by (cases "c < length chs") (auto simp: closed_update list_update_beyond)

lemma room_step_ok:
  assumes "room_step r r'" "room_ok r"
  shows "room_ok r'"
  using assms
proof (cases rule: room_step.cases)
  case (joins i c b)
  have "bc_listeners b = (i, c) # bc_listeners (rm_bc r)" "bc_closed b = bc_closed (rm_bc r)"
    "bc_channels b = bc_channels (rm_bc r) @ [\<lparr>ch_buffer = [], ch_closed = bc_closed (rm_bc r)\<rparr>]"
    "bc_sending b = None"
    using joins(2,3) by (auto simp: Broadcaster_Listen_def free_lock_def Let_def)
  then show ?thesis unfolding joins(1)
    using ok_closed [OF assms(2)] joins(3)
    by (auto simp: room_ok_def Broadcaster_Listen_def Let_def nth_append less_Suc_eq)
next
  case (sends v)
  then show ?thesis using assms(2) by (force simp: room_ok_def Broadcaster_Send_def free_lock_def Let_def)
next
  case (puts v cs c b)
  then show ?thesis using assms(2)
    by (auto simp: room_ok_def put_channel_def Let_def closed_update_any split: if_splits)
      (meson notin_set_remove1 subsetD)
next
  case (hands v cs c k i)
  then show ?thesis using assms(2) by (auto simp: room_ok_def Let_def dest: notin_set_remove1)
next
  case (sent v)
  then show ?thesis using assms(2) by (simp add: room_ok_def Let_def)
next
  case (shuts b)
  then show ?thesis using assms(2)
    by (force simp: room_ok_def Broadcaster_Close_def free_lock_def Let_def nth_close_channels split: if_splits)
next
  case (reads k i c v vs)
  then show ?thesis using assms(2) by (auto simp: room_ok_def Let_def closed_update_any split: option.splits)
next
  case (ends_loop k i c)
  then show ?thesis using assms(2) by (auto simp: room_ok_def Let_def split: option.splits)
next
  case (leaves k i c pl)
  then show ?thesis using assms(2) by (auto simp: room_ok_def Listener_Close_def free_lock_def Let_def)
qed

lemma rooms_ok: "room_step\<^sup>*\<^sup>* (empty_room n) r \<Longrightarrow> room_ok r"
proof (induction rule: rtranclp_induct)
  case base
  show ?case by (simp add: room_ok_def empty_room_def NewBroadcaster_def Let_def)
next
  case (step r r')
  then show ?case by (blast intro: room_step_ok)
qed

lemma broadcasts_never_panic:
  assumes "room_step\<^sup>*\<^sup>* (empty_room n) r"
  shows "(\<exists>b. Broadcaster_Close (rm_bc r) = Inr b)
    \<and> (\<forall>v cs c. bc_sending (rm_bc r) = Some (v, cs) \<longrightarrow> c \<in> set cs \<longrightarrow> (\<exists>x. put_channel v c (rm_bc r) = Inr x))"
proof (intro conjI allI impI)
  note ok = rooms_ok [OF assms]
  show "\<exists>b. Broadcaster_Close (rm_bc r) = Inr b"
    using ok by (auto simp: Broadcaster_Close_def room_ok_def Let_def)
  fix v cs c assume "bc_sending (rm_bc r) = Some (v, cs)" "c \<in> set cs"
  then obtain i where "(i, c) \<in> set (bc_listeners (rm_bc r))" "\<not> bc_closed (rm_bc r)"
    using ok by (fastforce simp: room_ok_def Let_def)
  then show "\<exists>x. put_channel v c (rm_bc r) = Inr x"
    using ok_closed [OF ok] by (auto simp: put_channel_def Let_def)
qed

section \<open>A listener that leaves\<close>

text \<open>A send waits for the buffer of a listener whose goroutine waits for the lock.\<close>

definition trapped :: "nat \<Rightarrow> 'a room \<Rightarrow> bool" where
  "trapped c r \<longleftrightarrow> (\<exists>v cs. bc_sending (rm_bc r) = Some (v, cs) \<and> c \<in> set cs)
     \<and> bc_capacity (rm_bc r) \<le> length (ch_buffer (bc_channels (rm_bc r) ! c))
     \<and> \<not> ch_closed (bc_channels (rm_bc r) ! c)
     \<and> (\<forall>u\<in>set (rm_users r). fst (snd u) = c \<longrightarrow> snd (snd u) = Leaves)"

lemma trapped_stays:
  assumes "room_step r r'" "trapped c r"
  shows "trapped c r'"
  using assms
proof (cases rule: room_step.cases)
  case (puts v cs d b)
  then have "d \<noteq> c" using assms(2) by (auto simp: trapped_def put_channel_def Let_def)
  then show ?thesis using puts assms(2)
    by (auto simp: trapped_def put_channel_def Let_def split: if_splits)
next
  case (hands v cs d k j)
  then have "(j, d, Loops) \<in> set (rm_users r)" by (metis nth_mem)
  then have "d \<noteq> c" using assms(2) by (auto simp: trapped_def)
  then show ?thesis using hands assms(2) by (auto simp: trapped_def)
next
  case (reads k j d v vs)
  then have "(j, d, Loops) \<in> set (rm_users r)" by (metis nth_mem)
  then have "d \<noteq> c" using assms(2) by (auto simp: trapped_def)
  then show ?thesis using reads assms(2) by (simp add: trapped_def)
next
  case (ends_loop k j d)
  then have "(j, d, Loops) \<in> set (rm_users r)" by (metis nth_mem)
  then have "d \<noteq> c" using assms(2) by (auto simp: trapped_def)
  then show ?thesis using ends_loop assms(2) by (auto simp: trapped_def dest!: set_update_subset_insert [THEN subsetD])
qed (auto simp: trapped_def free_lock_def)

lemma trapped_for_ever: "room_step\<^sup>*\<^sup>* r r' \<Longrightarrow> trapped c r \<Longrightarrow> trapped c r'"
  by (induction rule: rtranclp_induct) (auto intro: trapped_stays)

text \<open>A room with one listener that has not read \<open>m\<close> messages.\<close>

definition waiting_room :: "nat \<Rightarrow> 'a \<Rightarrow> nat \<Rightarrow> ('a \<times> nat list) option \<Rightarrow> place \<Rightarrow> 'a room" where
  "waiting_room n v m sending pl =
     \<lparr>rm_bc = \<lparr>bc_listeners = [(0, 0)], bc_nextID = 0, bc_capacity = n, bc_closed = False,
        bc_channels = [\<lparr>ch_buffer = replicate m v, ch_closed = False\<rparr>], bc_sending = sending\<rparr>,
      rm_users = [(0, 0, pl)]\<rparr>"

lemma one_listener: "room_step (empty_room n) (waiting_room n v 0 None Loops)"
proof -
  have "Broadcaster_Listen (rm_bc (empty_room n)) = ((0, 0), rm_bc (waiting_room n v 0 None Loops))"
    by (simp add: Broadcaster_Listen_def empty_room_def NewBroadcaster_def waiting_room_def free_id_def Let_def)
  from joins [OF _ this] show ?thesis
    by (simp add: free_lock_def empty_room_def NewBroadcaster_def waiting_room_def)
qed

lemma starts_send: "room_step (waiting_room n v m None pl) (waiting_room n v m (Some (v, [0])) pl)"
  using sends [of "waiting_room n v m None pl" v]
  by (simp add: waiting_room_def free_lock_def Broadcaster_Send_def)

lemma one_message:
  assumes "m < n"
  shows "room_step\<^sup>*\<^sup>* (waiting_room n v m None Loops) (waiting_room n v (Suc m) None Loops)"
proof -
  have put: "room_step (waiting_room n v m (Some (v, [0])) Loops) (waiting_room n v (Suc m) (Some (v, [])) Loops)"
    using puts [of "waiting_room n v m (Some (v, [0])) Loops" v "[0]" 0] assms
    by (simp add: waiting_room_def put_channel_def Let_def replicate_append_same)
  have sent: "room_step (waiting_room n v (Suc m) (Some (v, [])) Loops) (waiting_room n v (Suc m) None Loops)"
    using room_step.sent [of "waiting_room n v (Suc m) (Some (v, [])) Loops" v] by (simp add: waiting_room_def)
  show ?thesis
    by (rule rtranclp.rtrancl_into_rtrancl [OF rtranclp.rtrancl_into_rtrancl [OF r_into_rtranclp [where r = room_step,
      OF starts_send] put] sent])
qed

lemma full_buffer: "m \<le> n \<Longrightarrow> room_step\<^sup>*\<^sup>* (empty_room n) (waiting_room n v m None Loops)"
proof (induction m)
  case 0
  show ?case by (rule r_into_rtranclp) (rule one_listener)
next
  case (Suc m)
  then have "m \<le> n" "m < n" by simp_all
  then show ?case using rtranclp_trans [OF Suc.IH one_message] by blast
qed

text \<open>C13. Whatever the capacity of the buffers, a run exists after which the lock of a broadcaster is never free again:
  a listener that leaves its loop while its buffer is full waits for the lock, which the next send holds until the
  listener reads. From then on nobody can send, listen, close, or leave; nothing panics on the way.\<close>

theorem leaving_listener_blocks_the_broadcaster:
  "\<exists>r. room_step\<^sup>*\<^sup>* (empty_room n) r
     \<and> (\<forall>r' :: 'a room. room_step\<^sup>*\<^sup>* r r' \<longrightarrow> \<not> free_lock r' \<and> room_ok r')"
proof -
  fix v :: 'a
  let ?r = "waiting_room n v n (Some (v, [0])) Leaves"
  have "room_step (waiting_room n v n None Loops) (waiting_room n v n None Leaves)"
    using ends_loop [of 0 "waiting_room n v n None Loops" 0 0] by (simp add: waiting_room_def)
  from rtranclp.rtrancl_into_rtrancl [OF rtranclp.rtrancl_into_rtrancl [OF full_buffer [OF order_refl] this] starts_send]
  have run: "room_step\<^sup>*\<^sup>* (empty_room n) ?r" .
  have start: "trapped 0 ?r" by (simp add: trapped_def waiting_room_def)
  have "\<not> free_lock r' \<and> room_ok r'" if steps: "room_step\<^sup>*\<^sup>* ?r r'" for r'
    using trapped_for_ever [OF steps start] rooms_ok [OF rtranclp_trans [OF run steps]]
    by (auto simp: trapped_def free_lock_def)
  then show ?thesis using run by blast
qed

theorem leaving_listener_blocks_the_broadcaster_witness:
  "\<exists>r. room_step\<^sup>*\<^sup>* (empty_room 10 :: string room) r \<and> \<not> free_lock r"
  using leaving_listener_blocks_the_broadcaster [of 10, where 'a = string] by blast

end
