(* ===== verification/ThreadsService.thy ===== *)
theory ThreadsService
  imports CafeWire Broadcast InboundProps
begin

text \<open>
  The handler of the threads protocol as the service calls it, \<^verbatim>\<open>core/threads_service.go\<close>: the switch over the
  types of messages, the acknowledgement that answers a thread envelope, and the acknowledgements that come in,
  which go to the broadcaster that a sender over pubsub waits on.
\<close>

section \<open>The id of an acknowledgement\<close>

text \<open>\<^verbatim>\<open>base64.StdEncoding\<close>: three bytes make four characters, with padding at the end.\<close>

definition base64_alphabet :: string where
  "base64_alphabet = ''ABCDEFGHIJKLMNOPQRSTUVWXYZabcdefghijklmnopqrstuvwxyz0123456789+/''"

definition base64_char :: "nat \<Rightarrow> char" where
  "base64_char n = base64_alphabet ! n"

fun EncodeToString :: "bytes \<Rightarrow> string" where
  "EncodeToString [] = []"
| "EncodeToString [a] =
     (let n = unat a * 16 in [base64_char (n div 64), base64_char (n mod 64), CHR ''='', CHR ''=''])"
| "EncodeToString [a, b] =
     (let n = (unat a * 256 + unat b) * 4
      in [base64_char (n div 4096), base64_char (n div 64 mod 64), base64_char (n mod 64), CHR ''=''])"
| "EncodeToString (a # b # c # rest) =
     (let n = (unat a * 256 + unat b) * 256 + unat c
      in [base64_char (n div 262144), base64_char (n div 4096 mod 64), base64_char (n div 64 mod 64),
          base64_char (n mod 64)] @ EncodeToString rest)"

definition NewEnvelopeAck :: "service_net \<Rightarrow> bytes \<Rightarrow> goerr + MsgEnvelope" where
  "NewEnvelopeAck sn sig =
     NewEnvelope sn Message_THREAD_ENVELOPE_ACK (Some (MThreadEnvelopeAck (EncodeToString sig))) None False"

section \<open>The handler\<close>

text \<open>
  What a message leads to: nothing, the value that goes to the broadcaster of acknowledgements, or an outcome of the
  envelope with the answer, which is an error when it cannot be signed.
\<close>

datatype thread_answer = Ignored | Acknowledges string | Handled outcome "goerr + MsgEnvelope"

definition handlePubSubMessageAck :: "Message \<Rightarrow> goerr + thread_answer" where
  "handlePubSubMessageAck m =
     (case UnmarshalAny (\<lambda>p. case p of MThreadEnvelopeAck i \<Rightarrow> Some i | _ \<Rightarrow> None) (msg_Payload m) of
        Inl err \<Rightarrow> Inl err
      | Inr i \<Rightarrow> Inr (Acknowledges i))"

definition ThreadsService_Handle ::
  "service_net \<Rightarrow> world \<Rightarrow> service_env \<Rightarrow> MsgEnvelope \<Rightarrow> thread_answer node_op" where
  "ThreadsService_Handle sn w sv env =
     (case me_Message env of
        None \<Rightarrow> go_fail (Panic ''nil message'')
      | Some m \<Rightarrow>
          if msg_Type m = Message_THREAD_ENVELOPE_ACK then go_lift (handlePubSubMessageAck m)
          else if msg_Type m \<noteq> Message_THREAD_ENVELOPE then go_return Ignored
          else go_bind (go_lift (UnmarshalAny (\<lambda>p. case p of MThreadEnvelope x \<Rightarrow> Some x | _ \<Rightarrow> None) (msg_Payload m)))
            (\<lambda>tenv. go_bind (Handle w sv tenv) (\<lambda>out.
             go_return (Handled out (NewEnvelopeAck sn (me_Sig env))))))"

text \<open>What the answer does to the broadcaster that the senders of pubsub messages listen to.\<close>

definition acknowledge :: "thread_answer \<Rightarrow> string broadcaster \<Rightarrow> string broadcaster" where
  "acknowledge ans b = (case ans of Acknowledges i \<Rightarrow> Broadcaster_Send i b | _ \<Rightarrow> b)"

section \<open>The ids are the signatures\<close>

lemma base64_alphabet_distinct: "length base64_alphabet = 64 \<and> distinct base64_alphabet \<and> CHR ''='' \<notin> set base64_alphabet"
  by (simp add: base64_alphabet_def)

lemma base64_char_inj: "m < 64 \<Longrightarrow> n < 64 \<Longrightarrow> base64_char m = base64_char n \<longleftrightarrow> m = n"
  using base64_alphabet_distinct by (simp add: base64_char_def nth_eq_iff_index_eq)

lemma base64_char_pad: "n < 64 \<Longrightarrow> base64_char n \<noteq> CHR ''='' \<and> CHR ''='' \<noteq> base64_char n"
  using base64_alphabet_distinct unfolding base64_char_def by (metis nth_mem)

lemma byte_less: "unat a < 256" for a :: byte
  using unsigned_less [of a, where 'a = nat] by simp

lemma digits2: "(m :: nat) div 64 = n div 64 \<Longrightarrow> m mod 64 = n mod 64 \<Longrightarrow> m = n"
  by (metis div_mult_mod_eq)

lemma digits_byte:
  fixes a b :: byte
  assumes "unat a div 4 = unat b div 4" "unat a * 16 mod 64 = unat b * 16 mod 64"
  shows "a = b"
proof -
  have "unat a mod 4 = unat b mod 4" using assms(2) mult_mod_left [of "unat a" 4 16] mult_mod_left [of "unat b" 4 16] by simp
  with assms(1) have "unat a = unat b" by (metis div_mult_mod_eq)
  then show ?thesis by (simp add: word_unat_eq_iff)
qed

lemma byte_digit:
  fixes b d :: byte
  assumes "m * 256 + unat b = n * 256 + unat d"
  shows "m = n \<and> b = d"
proof -
  have "(m * 256 + unat b) div 256 = (n * 256 + unat d) div 256" by (simp only: assms)
  then have "m = n" using byte_less [of b] byte_less [of d] by (simp only: div_mult_self3 div_less)
  then show ?thesis using assms by (simp add: word_unat_eq_iff)
qed

lemma two_bytes:
  fixes a b c d :: byte
  assumes "unat a * 256 + unat b = unat c * 256 + unat d"
  shows "a = c \<and> b = d"
  using byte_digit [OF assms] by (simp add: word_unat_eq_iff)

lemma three_bytes:
  fixes a b c d e f :: byte
  assumes "(unat a * 256 + unat b) * 256 + unat c = (unat d * 256 + unat e) * 256 + unat f"
  shows "a = d \<and> b = e \<and> c = f"
  using byte_digit [OF assms] two_bytes [of a b d e] by simp

lemma digits3: "(m :: nat) div 4096 = n div 4096 \<Longrightarrow> m div 64 mod 64 = n div 64 mod 64 \<Longrightarrow> m mod 64 = n mod 64 \<Longrightarrow> m = n"
  using digits2 [of "m div 64" "n div 64"] digits2 [of m n] by (simp add: div_mult2_eq [symmetric])

lemma digits4:
  "(m :: nat) div 262144 = n div 262144 \<Longrightarrow> m div 4096 mod 64 = n div 4096 mod 64
   \<Longrightarrow> m div 64 mod 64 = n div 64 mod 64 \<Longrightarrow> m mod 64 = n mod 64 \<Longrightarrow> m = n"
  using digits3 [of "m div 64" "n div 64"] digits2 [of m n] by (simp add: div_mult2_eq [symmetric])

text \<open>The two or three digits of a group give back its bytes.\<close>

lemma group2:
  fixes a b c d :: byte
  assumes "(unat a * 256 + unat b) * 4 div 4096 = (unat c * 256 + unat d) * 4 div 4096"
    "(unat a * 256 + unat b) * 4 div 64 mod 64 = (unat c * 256 + unat d) * 4 div 64 mod 64"
    "(unat a * 256 + unat b) * 4 mod 64 = (unat c * 256 + unat d) * 4 mod 64"
  shows "a = c \<and> b = d"
proof -
  have "unat a * 256 + unat b = unat c * 256 + unat d" using digits3 [OF assms] by (simp only: mult_cancel2 numeral_neq_zero) simp
  then show ?thesis by (rule two_bytes)
qed

lemma group3:
  fixes a b c d e f :: byte
  assumes "((unat a * 256 + unat b) * 256 + unat c) div 262144 = ((unat d * 256 + unat e) * 256 + unat f) div 262144"
    "((unat a * 256 + unat b) * 256 + unat c) div 4096 mod 64 = ((unat d * 256 + unat e) * 256 + unat f) div 4096 mod 64"
    "((unat a * 256 + unat b) * 256 + unat c) div 64 mod 64 = ((unat d * 256 + unat e) * 256 + unat f) div 64 mod 64"
    "((unat a * 256 + unat b) * 256 + unat c) mod 64 = ((unat d * 256 + unat e) * 256 + unat f) mod 64"
  shows "a = d \<and> b = e \<and> c = f"
  by (rule three_bytes) (rule digits4 [OF assms])

lemma first_digit: "unat a * 16 div 64 < 64" "(unat a * 256 + unat b) * 4 div 4096 < 64"
  "((unat a * 256 + unat b) * 256 + unat c) div 262144 < 64" for a b c :: byte
  using byte_less [of a] byte_less [of b] byte_less [of c] by (simp_all add: less_mult_imp_div_less)

lemma EncodeToString_inj: "EncodeToString x = EncodeToString y \<Longrightarrow> x = y"
proof (induction x arbitrary: y rule: EncodeToString.induct)
  case 1
  then show ?case by (cases y rule: EncodeToString.cases) (simp_all only: EncodeToString.simps Let_def list.simps append.simps)
next
  case (2 a)
  show ?case
  proof (cases y rule: EncodeToString.cases)
    case (2 b)
    then show ?thesis using "2.prems" digits_byte [of a b] first_digit
      by (simp only: EncodeToString.simps Let_def list.inject base64_char_inj) (simp add: base64_char_inj)
  qed (use "2.prems" base64_char_pad in \<open>simp_all add: Let_def\<close>)
next
  case (3 a b)
  show ?case
  proof (cases y rule: EncodeToString.cases)
    case (3 c d)
    then show ?thesis using "3.prems" group2 [of a b c d] first_digit
      by (simp only: EncodeToString.simps Let_def list.inject base64_char_inj mod_less_divisor zero_less_numeral simp_thms)
  qed (use "3.prems" base64_char_pad in \<open>simp_all add: Let_def\<close>)
next
  case (4 a b c rest)
  show ?case
  proof (cases y rule: EncodeToString.cases)
    case (4 d e f rest')
    have "EncodeToString rest = EncodeToString rest'" "a = d \<and> b = e \<and> c = f"
      using "4.prems" group3 [of a b c d e f] first_digit unfolding 4
      by (simp_all only: EncodeToString.simps Let_def list.inject append.simps base64_char_inj mod_less_divisor zero_less_numeral)
    then show ?thesis using "4.IH" unfolding 4 by simp
  qed (use "4.prems" base64_char_pad in \<open>simp_all add: Let_def\<close>)
qed

section \<open>An acknowledgement names its message\<close>

lemma handled_answer:
  assumes "ThreadsService_Handle sn w sv env s = (Inr (Handled out ans), s')"
  shows "ans = NewEnvelopeAck sn (me_Sig env)"
  using assms
  by (auto simp: ThreadsService_Handle_def handlePubSubMessageAck_def go_bind_Inr_iff go_lift_def go_return_def go_fail_def
      split: option.splits if_splits sum.splits)

lemma ack_acknowledges:
  assumes "NewEnvelopeAck sn sig = Inr ack"
  shows "ThreadsService_Handle sn' w sv ack u = (Inr (Acknowledges (EncodeToString sig)), u)"
  using assms
  by (auto simp: NewEnvelopeAck_def NewEnvelope_def ThreadsService_Handle_def handlePubSubMessageAck_def UnmarshalAny_def
      go_lift_def Let_def split: sum.splits)

text \<open>C15. A thread envelope that is handled is answered with an acknowledgement, unless the answer cannot be signed.
  The peer that gets this answer changes none of its state for it; it passes the id in the answer to its
  broadcaster, and that is the id of exactly the envelopes with the signature of the one that was handled: no
  waiting sender takes it for the acknowledgement of another message.\<close>

theorem acknowledgement_names_the_message:
  assumes "ThreadsService_Handle sn w sv env s = (Inr (Handled out (Inr ack)), s')"
  shows "\<exists>i. ThreadsService_Handle sn' w' sv' ack u = (Inr (Acknowledges i), u)
    \<and> (\<forall>waiting :: MsgEnvelope. EncodeToString (me_Sig waiting) = i \<longleftrightarrow> me_Sig waiting = me_Sig env)"
  using ack_acknowledges [OF handled_answer [OF assms, symmetric]] by (auto dest: EncodeToString_inj)

text \<open>The envelope of a like for a known thread, from a peer whose signature is one byte.\<close>

definition signing_net :: service_net where
  "signing_net = \<lparr>sn_sign = (\<lambda>m. Inr [1]), sn_checkSig = (\<lambda>pid m sig. Inr ()), sn_decodePeer = Inr,
     sn_request = (\<lambda>i p e. Inr None), sn_message = (\<lambda>i p e. Inr ()), sn_publish = (\<lambda>i p e. Inr ())\<rparr>"

definition liked_message :: MsgEnvelope where
  "liked_message = \<lparr>me_Message = Some \<lparr>msg_Type = Message_THREAD_ENVELOPE,
     msg_Payload = Some (MThreadEnvelope sample_envelope), msg_Request = 0, msg_Response = False\<rparr>, me_Sig = [7, 8]\<rparr>"

lemma liked_message_handled:
  "\<exists>out ack s'. ThreadsService_Handle signing_net (sample_world (sample_block Block_LIKE None ''Z'')) sample_service
     liked_message sample_state = (Inr (Handled out (Inr ack)), s')"
  by (simp add: ThreadsService_Handle_def liked_message_def signing_net_def UnmarshalAny_def go_lift_def
      NewEnvelopeAck_def NewEnvelope_def
      Handle_def unpack_def sample_defs sample_service_def sample_envelope_def run_defs
      loaded_thread_def handle_def dispatch_def handleLikeBlock_def blocks_Get_def notifyBlock_def
      notification_for_def sendNotification_def notifications_Add_def
      SplitString_def TrimSpace_def is_space_def threads_enc_def threads_dec_def)

theorem acknowledgement_names_the_message_witness:
  "\<exists>ack i. ThreadsService_Handle signing_net (sample_world (sample_block Block_LIKE None ''Z'')) sample_service
     ack sample_state = (Inr (Acknowledges i), sample_state)
   \<and> EncodeToString [7, 8] = i \<and> EncodeToString [9] \<noteq> i"
proof -
  obtain out ack s' where "ThreadsService_Handle signing_net (sample_world (sample_block Block_LIKE None ''Z''))
      sample_service liked_message sample_state = (Inr (Handled out (Inr ack)), s')"
    using liked_message_handled by blast
  from acknowledgement_names_the_message [OF this, of signing_net "sample_world (sample_block Block_LIKE None ''Z'')"
      sample_service sample_state]
  obtain i where i: "ThreadsService_Handle signing_net (sample_world (sample_block Block_LIKE None ''Z'')) sample_service
      ack sample_state = (Inr (Acknowledges i), sample_state)"
    and names: "\<forall>waiting :: MsgEnvelope. EncodeToString (me_Sig waiting) = i \<longleftrightarrow> me_Sig waiting = me_Sig liked_message" by auto
  from names [rule_format, of liked_message] names [rule_format, of "liked_message\<lparr>me_Sig := [9]\<rparr>"] i
  show ?thesis by (auto simp: liked_message_def)
qed

end
