(* ===== verification/Spec2Isabelle.thy ===== *)
theory Spec2Isabelle
  imports Crc16 Strkey Wallet SchemaSteps StoreProps InboundProps ThreadProps QueueProps Views
    CafeQuery CafeTokens CafeRegistry CafeMail CafeReplies CafeBatchProps CryptoProps SearchProps
    NodeInvariant FileKeys FeedProps SnapshotProps CafeApiProps MessageSenderProps NodeSearch
    PostProps MobileProps Gateway Broadcast ThreadsService
begin

text \<open>
  A model of go-textile: a node that keeps encrypted threads of blocks over IPFS, exchanges them with
  the peers of each thread, and uses or hosts a cafe, a peer that stores and forwards for others.

  \<^bold>\<open>How the parts interact.\<close> An operation of a thread (\<^verbatim>\<open>core/thread_*.go\<close>) encrypts a block, adds it to
  IPFS, indexes it in the block table as queued and queues cafe requests for its objects. The flush of
  queued blocks waits for these requests, writes the block node with the heads as its parents, and
  queues an envelope for every peer of the thread in the block outbox. The outbox hands envelopes to
  peers, or to the cafe inboxes of those that are away. A peer that receives an envelope
  (\<^verbatim>\<open>core/threads_service.go\<close>) unpacks the block node, checks who may do what, handles the block, indexes
  it and moves the heads; what cannot be fetched becomes a pending download. A cafe
  (\<^verbatim>\<open>core/cafe_service.go\<close>) registers clients, gives them sessions, pins their objects, keeps snapshots of
  their threads and their mail, and answers queries. Views and the feed show what the tables hold.
  The state of all of this is one record, \<open>node_state\<close>: the tables of the datastore, the threads in
  memory, the queries in flight and a log of the effects that leave the node. What is not in the
  repository (IPFS, ciphers, codecs, the clock, random ids, the network, JWT) is a record of functions,
  \<open>world\<close> and the smaller environments of the components, and is never given a meaning; what a theorem
  needs of it is a named hypothesis (\<open>faithful_libraries\<close>, \<open>sorted_directories\<close>, \<open>base58_inverse\<close>,
  \<open>nacl_box\<close>, \<open>any_order\<close>).

  \<^bold>\<open>The model.\<close> A Go function that changes state is a function in the state-and-error monad of
  \<open>TextilePrelude\<close>: it keeps what it wrote before it failed; a panic (nil pointer, index out of range) is
  an error of its own that no handler catches. Definitions keep the names of the source.
  \<^item> \<open>TextilePrelude\<close>, \<open>GoUtil\<close>, \<open>Decimal\<close>: the monad, the rules for relations that every step keeps (locale
    \<open>step_relation\<close>), and what is used of Go's library (\<^verbatim>\<open>util/util.go\<close>, strings, \<open>int32\<close> and \<open>int64\<close>).
  \<^item> \<open>Crc16\<close>, \<open>Strkey\<close>, \<open>Wallet\<close>: \<^verbatim>\<open>crc16\<close>, \<^verbatim>\<open>strkey\<close>, \<^verbatim>\<open>keypair\<close>, \<^verbatim>\<open>wallet\<close>; \<open>Crypto\<close>: \<^verbatim>\<open>crypto\<close>; \<open>Jwt\<close>: \<^verbatim>\<open>jwt\<close>.
  \<^item> \<open>SchemaSteps\<close>: \<^verbatim>\<open>schema/schema.go\<close> and the schema mill.
  \<^item> \<open>Pb\<close>, \<open>CafeWire\<close>: the messages of \<^verbatim>\<open>pb\<close> as records and enumerations.
  \<^item> \<open>SqlTable\<close> (with the contract of a store, locale \<open>model_store\<close>), \<open>Tables\<close>, \<open>NodeStores\<close>,
    \<open>PeerFileStores\<close>, \<open>CafeStores\<close>: \<^verbatim>\<open>repo/db\<close>, a table as the list of its rows, a statement as a function.
  \<^item> \<open>NodeState\<close>: the state, the world and the draws of clock and ids.
  \<^item> \<open>CafeQueue\<close>, \<open>ThreadAccess\<close>, \<open>ThreadOut\<close>, \<open>ThreadFiles\<close>, \<open>ThreadHandlers\<close>, \<open>Queues\<close>, \<open>Inbound\<close>,
    \<open>ThreadsService\<close>, \<open>ThreadsAdmin\<close>: \<^verbatim>\<open>core/cafe_outbox.go\<close>, \<^verbatim>\<open>core/thread.go\<close>, \<^verbatim>\<open>core/thread_*.go\<close>, \<^verbatim>\<open>core/block_*.go\<close>,
    \<^verbatim>\<open>core/cafe_inbox.go\<close>, \<^verbatim>\<open>core/threads_service.go\<close>, \<^verbatim>\<open>core/threads.go\<close>, \<^verbatim>\<open>core/invites.go\<close>.
  \<^item> \<open>Files\<close>: \<^verbatim>\<open>core/files.go\<close> and the mills; \<open>Views\<close>: blocks, invites, notifications, contacts and the profile;
    \<open>Feed\<close>: \<^verbatim>\<open>core/feed*.go\<close>; \<open>Search\<close>, \<open>NodeSearch\<close>: \<^verbatim>\<open>core/search.go\<close>, the local search
    of a cafe, and the search for contacts.
  \<^item> \<open>CafeClient\<close>, \<open>CafeBatch\<close>, \<open>CafeHost\<close>, \<open>CafeQuery\<close>, \<open>CafeTokens\<close>: \<^verbatim>\<open>core/cafe_service.go\<close>, both sides,
    \<^verbatim>\<open>core/cafes.go\<close> and \<^verbatim>\<open>core/tokens.go\<close>, with the envelopes of \<^verbatim>\<open>service/service.go\<close>.
  \<^item> \<open>Snapshots\<close>: the threads of an account as a whole, \<^verbatim>\<open>core/threads.go\<close> and \<^verbatim>\<open>core/account.go\<close>: adding and updating
    them from snapshots, the account thread, loading at the start, views and external invites.
  \<^item> \<open>CafeApi\<close>: the HTTP API of a cafe, \<^verbatim>\<open>core/cafe_api.go\<close>, \<^verbatim>\<open>core/cafe_api_v0.go\<close> and \<^verbatim>\<open>core/cafe_api_v1.go\<close>, each
    handler as an operation that returns its status, and the reader of streams in \<^verbatim>\<open>service/service.go\<close>.
  \<^item> \<open>HttpCodec\<close>, \<open>NodeApi\<close>, \<open>NodeApiAdmin\<close>, \<open>NodeApiData\<close>: the HTTP API of a node, \<^verbatim>\<open>core/api.go\<close> and
    \<^verbatim>\<open>core/api_*.go\<close>, with the headers that \<^verbatim>\<open>cmd/cmd.go\<close> writes and the node reads. A handler is an operation
    that returns a status with a body, a refusal or a bare status.
  \<^item> \<open>MobileFiles\<close>, \<open>MobileApi\<close>, \<open>MobileCafes\<close>: the bindings for phones, \<^verbatim>\<open>mobile/*.go\<close>: files by the schema of a
    thread, the operations of the core an app calls, and the cafe requests that the app itself sends. The
    last ones have a state of their own, \<open>mobile\<close>: the node, the files of request bodies and the events.
  \<^item> \<open>Gateway\<close>: \<^verbatim>\<open>gateway/gateway.go\<close>, each handler as the answer it gives. \<open>Broadcast\<close>: \<^verbatim>\<open>broadcast/broadcast.go\<close>,
    the operations and the steps of goroutines that send, listen and leave under its lock.
  \<^item> \<open>MessageSender\<close>: \<^verbatim>\<open>service/sender.go\<close>, the senders of a service and their streams, with the steps of
    concurrent callers as a relation, and the loops of \<^verbatim>\<open>service/service.go\<close> that serve a stream and a topic.
  \<^item> \<open>Sample\<close>: a small world and state at which the witnesses are evaluated.

  \<^bold>\<open>What is shown.\<close>
  \<^item> Threads (\<open>ThreadProps\<close>, \<open>InboundProps\<close>): only permitted blocks are handled and what is stored for them,
    and what refusing a block leaves behind, delivering twice, the heads after inbound and own blocks, the parents of
    an own block, envelopes for every peer, all that an envelope of a stranger can leave, renaming, errors that
    index nothing. \<open>ThreadsService\<close>: which messages a handler takes, and that an acknowledgement names the
    message it answers.
  \<^item> Queues (\<open>QueueProps\<close>, \<open>CafeBatchProps\<close>): flushes end, and empty the outbox when everything can be
    delivered and no two messages have the same date, downloads are given up after five attempts, a block waits for its requests, requests
    that are never settled.
  \<^item> Cafe hosts (\<open>CafeProps\<close>, \<open>CafeRegistry\<close>, \<open>CafeReplies\<close>, \<open>CafeMail\<close>): tokens, registration and what
    a used nonce is worth in any later state, the refinement of an abstract registry, the types of the answers, and
    mail that is lost. Requests are served one after the other; two registrations that overlap can share a nonce
    (\<open>concurrent_registrations_share_a_nonce\<close>).
  \<^item> Stores and invariants (\<open>StoreProps\<close>, \<open>StoreKeys\<close>, \<open>NodeRelation\<close>, \<open>AccountRelation\<close>, \<open>NodeInvariant\<close>): round trips of rows, and
    primary keys that stay unique while the operations of a node run (the lemma \<open>keys_stay_unique\<close>; the statements
    of the stores ensure most of it, and the configuration table and the phone are left out). \<open>NodeRelation\<close> proves once, in a
    locale, that every operation keeps a relation that draws, effects and key-preserving statements
    keep; it is interpreted for the keys and for the log of effects, which only grows.
  \<^item> Files and feed (\<open>FilesProps\<close>, \<open>FileKeys\<close>, \<open>FeedProps\<close>): files stay readable, also when additions overlap, the keys of a data node,
    pages, stacks, and how far an item follows its targets.
  \<^item> Snapshots (\<open>SnapshotProps\<close>): applying one again adds nothing and is its background part alone
    (\<open>AddOrUpdateThread_whole\<close> runs the goroutine after the rest), one of a new thread leaves its history behind, a start loads every thread, and a schema of the account thread that is not in memory.
  \<^item> The network service (\<open>MessageSenderProps\<close>): one open stream for a peer under any interleaving, two attempts
    for a message, and envelopes that do not verify leave no trace.
  \<^item> The HTTP API of a cafe (\<open>CafeApiProps\<close>): what a request without a good token does, snapshots over HTTP and
    over the network service, envelopes of a stream that are too long, a search that ends the process.
  \<^item> The HTTP API of a node (\<open>NodeApiProps\<close>, \<open>PostProps\<close>, \<open>ApiRelation\<close>): the headers of the command line, routes
    that read a table leave the node as it is, a message from the command line to its view, what its changing routes
    keep, and routes that lose a file, a thread or data.
  \<^item> The bindings for phones (\<open>MobileProps\<close>): requests that the app can send, when it is told that all is sent,
    the image that is chosen for a width, what is lost of several paths and of several inboxes.
  \<^item> \<open>Gateway\<close>: the gateway serves what the node reads, every size has a unit. \<open>Broadcast\<close>: nothing panics, and a
    listener that leaves with a full buffer blocks the broadcaster for ever.
  \<^item> \<open>Crc16\<close>, \<open>Strkey\<close>, \<open>Wallet\<close>, \<open>SchemaSteps\<close>, \<open>SearchProps\<close>, \<open>CryptoProps\<close>: the checksum against its polynomial
    and bursts of errors, damaged addresses and seeds, key derivation, the order of schema steps against any valid order, the result
    set of a query, and a ciphertext that panics a node.

  \<^bold>\<open>Fuel.\<close> A recursion over what the network or a peer decides takes fuel, and running out of it is the
  error \<open>out_of_fuel\<close>. The flushes (\<open>BlockOutbox_Flush\<close>, \<open>CafeService_Flush\<close>) take the number of queued rows,
  and \<open>Flush_pages_are_bounded\<close> and \<open>cafe_flush_ends\<close> show that this is enough for any answers.
  \<open>feedItem\<close> needs the number of blocks when blocks refer to older ones only (\<open>feed_items_end\<close>) and no fuel
  is enough for a block that refers to itself (\<open>self_target_stops_the_feed\<close>). \<open>AddThread\<close> retries with a new
  key for every key that is taken; \<open>followParents\<close> follows a graph that the network returns, and
  \<open>CheckMessages\<close> and \<open>DeleteMessages\<close> call each other as long as a cafe answers that more is left: a cafe
  that always does keeps its client busy for ever, so these take the fuel of their caller.

  \<^bold>\<open>Order.\<close> Goroutines of one batch run one after the other, in the order of the batch; those that
  share the senders of a service or a broadcaster take their steps in any order; the locks of the
  stores make each statement atomic. Operations are run whole; where the code itself speaks of a race, the lost
  race of an added file, \<open>AddFileIndex_among\<close> lets anything run between its steps. The order in which a Go map is iterated is a parameter where it
  can matter (\<open>Steps\<close>, the mill) or the order of the list that stands for the map (the cafes of a group
  of requests, where the theorems do not depend on it). The flag that keeps two checks
  of the cafe inbox apart has no meaning without concurrency and is not modelled.

  \<^bold>\<open>Not modelled.\<close> The wire and the timeouts of libp2p and IPFS; HTTP routing, the routes of
  a node that only call a library (log levels, the swarm, the seed), the commands of the command
  line, which call the operations above; starting and stopping the mobile bindings, their subscriptions, account
  sync and search for snapshots; publishing a message to the topic of a peer and the wait for its
  acknowledgement; the idle timer of a stream; \<^verbatim>\<open>NOT NULL\<close> for a nil ciphertext; the 32 bit wrap of
  the counts of a sync group; the clock between two results that are added in one call; creating, migrating and configuring a
  repository; the generated protobuf accessors and codecs; image mills, which call image libraries; the
  check of UTF-8 in protobuf strings; logging.
\<close>

end
